(* ===== verification/KV_Prelude.thy ===== *)
theory KV_Prelude
  imports Main "HOL-Library.Word" "HOL-Library.AList" "HOL-Library.Char_ord"
    "HOL-Library.List_Lexorder"
begin

text \<open>
  Shared vocabulary of the development: Go errors and panics as values of a result type,
  Go maps as association lists with distinct keys, 64-bit integers, the string functions of
  the Go standard library that the program calls (package strings, strconv, fmt), and the
  generic lemmas about them that the component theories use.
\<close>

named_theorems kv_defs \<open>definitions of the model that the proofs unfold together\<close>
named_theorems kv_clone \<open>the deep copies of the program are identities on well-formed values\<close>
named_theorems kv_frame \<open>which part of the state an operation leaves alone\<close>

section \<open>Errors and results\<close>

text \<open>
  An \<open>error\<close> value is either a \<open>*store.Error\<close> (status, code, message), a plain error made
  with \<open>errors.New\<close> or \<open>fmt.Errorf\<close> or returned by a library. A Go panic is kept apart from
  the errors.
\<close>

datatype goerr =
    StoreErr int string string
  | PlainErr string
  | Panic string

type_synonym 'a res = "goerr + 'a"

text \<open>The method \<open>Error()\<close>.\<close>

fun err_msg :: "goerr \<Rightarrow> string" where
  "err_msg (StoreErr _ _ message) = message"
| "err_msg (PlainErr message) = message"
| "err_msg (Panic message) = message"

definition rbind :: "'a res \<Rightarrow> ('a \<Rightarrow> 'b res) \<Rightarrow> 'b res" where
  "rbind r f = (case r of Inl e \<Rightarrow> Inl e | Inr x \<Rightarrow> f x)"

fun is_panic :: "'a res \<Rightarrow> bool" where
  "is_panic (Inl (Panic _)) = True"
| "is_panic _ = False"

fun is_ok :: "'a res \<Rightarrow> bool" where
  "is_ok (Inr _) = True"
| "is_ok (Inl _) = False"

section \<open>Integers and bytes\<close>

type_synonym byte = "8 word"
type_synonym bytes = "byte list"

text \<open>Go's \<open>int\<close> and \<open>int64\<close> are two's complement with 64 bits: sums wrap around.\<close>

definition wrap64 :: "int \<Rightarrow> int" where
  "wrap64 x = (x + 2 ^ 63) mod 2 ^ 64 - 2 ^ 63"

definition add64 :: "int \<Rightarrow> int \<Rightarrow> int" where
  "add64 a b = wrap64 (a + b)"

definition int64_ok :: "int \<Rightarrow> bool" where
  "int64_ok x \<longleftrightarrow> - (2 ^ 63) \<le> x \<and> x < 2 ^ 63"

text \<open>A Go string is a sequence of bytes; a character of the model is one byte.\<close>

definition bytes_of_string :: "string \<Rightarrow> bytes" where
  "bytes_of_string s = map (\<lambda>c. word_of_nat (of_char c)) s"

definition string_of_bytes :: "bytes \<Rightarrow> string" where
  "string_of_bytes bs = map (\<lambda>b. char_of (unat b)) bs"

section \<open>Go maps\<close>

text \<open>
  A Go map is an association list with distinct keys. Insertion and deletion are the
  library's \<open>AList.update\<close> and \<open>AList.delete\<close>, lookup is \<open>map_of\<close>. The order of the list
  stands for one of Go's unspecified iteration orders.
\<close>

type_synonym ('k, 'v) gomap = "('k \<times> 'v) list"

abbreviation mput :: "'k \<Rightarrow> 'v \<Rightarrow> ('k, 'v) gomap \<Rightarrow> ('k, 'v) gomap" where
  "mput \<equiv> AList.update"

abbreviation mdel :: "'k \<Rightarrow> ('k, 'v) gomap \<Rightarrow> ('k, 'v) gomap" where
  "mdel \<equiv> AList.delete"

definition mkeys :: "('k, 'v) gomap \<Rightarrow> 'k list" where
  "mkeys m = map fst m"

definition map_ok :: "('k, 'v) gomap \<Rightarrow> bool" where
  "map_ok m \<longleftrightarrow> distinct (map fst m)"

section \<open>Package strings\<close>

definition hasPrefix :: "string \<Rightarrow> string \<Rightarrow> bool" where
  "hasPrefix s p \<longleftrightarrow> take (length p) s = p"

definition hasSuffix :: "string \<Rightarrow> string \<Rightarrow> bool" where
  "hasSuffix s p \<longleftrightarrow> length p \<le> length s \<and> drop (length s - length p) s = p"

fun contains :: "string \<Rightarrow> string \<Rightarrow> bool" where
  "contains [] sub \<longleftrightarrow> sub = []"
| "contains (c # s) sub \<longleftrightarrow> hasPrefix (c # s) sub \<or> contains s sub"

definition trimPrefix :: "string \<Rightarrow> string \<Rightarrow> string" where
  "trimPrefix s p = (if hasPrefix s p then drop (length p) s else s)"

text \<open>\<open>strings.Trim(s, cutset)\<close> for a cutset of one character.\<close>

definition trimChar :: "char \<Rightarrow> string \<Rightarrow> string" where
  "trimChar c s = rev (dropWhile (\<lambda>x. x = c) (rev (dropWhile (\<lambda>x. x = c) s)))"

text \<open>\<open>strings.Split(s, sep)\<close> for a separator of one character: one part more than separators.\<close>

fun splitOn :: "char \<Rightarrow> string \<Rightarrow> string list" where
  "splitOn c [] = [[]]"
| "splitOn c (x # xs) =
     (if x = c then [] # splitOn c xs
      else (case splitOn c xs of [] \<Rightarrow> [[x]] | p # ps \<Rightarrow> (x # p) # ps))"

section \<open>Package strconv\<close>

definition is_digit :: "char \<Rightarrow> bool" where
  "is_digit c \<longleftrightarrow> 48 \<le> (of_char c :: nat) \<and> (of_char c :: nat) \<le> 57"

fun digits_val :: "nat \<Rightarrow> string \<Rightarrow> nat option" where
  "digits_val acc [] = Some acc"
| "digits_val acc (c # cs) =
     (if is_digit c then digits_val (10 * acc + (of_char c - 48)) cs else None)"

text \<open>
  \<open>strconv.Atoi\<close>: an optional sign, at least one decimal digit, nothing else, and a value in
  the range of \<open>int\<close>.
\<close>

definition atoi :: "string \<Rightarrow> int option" where
  "atoi s =
     (let neg = (s \<noteq> [] \<and> hd s = CHR ''-'');
          ds = (if s \<noteq> [] \<and> (hd s = CHR ''-'' \<or> hd s = CHR ''+'') then tl s else s)
      in if ds = [] then None
         else case digits_val 0 ds of
                None \<Rightarrow> None
              | Some n \<Rightarrow>
                  (let v = (if neg then - int n else int n)
                   in if int64_ok v then Some v else None))"

fun itoa_nat :: "nat \<Rightarrow> string" where
  "itoa_nat n =
     (if n < 10 then [char_of (48 + n)] else itoa_nat (n div 10) @ [char_of (48 + n mod 10)])"

definition itoa :: "int \<Rightarrow> string" where
  "itoa i = (if i < 0 then CHR ''-'' # itoa_nat (nat (- i)) else itoa_nat (nat i))"

declare itoa_nat.simps [simp del]

text \<open>
  The verb \<open>%q\<close> of package fmt on a string: double quotes around it, with the quote, the
  backslash and the control characters escaped. Bytes above ASCII are kept, as for printable
  runes.
\<close>

definition hexdigit :: "nat \<Rightarrow> char" where
  "hexdigit n = char_of (if n < 10 then 48 + n else 87 + n)"

definition quote_char :: "char \<Rightarrow> string" where
  "quote_char c =
     (let n = (of_char c :: nat) in
      if n = 34 then [char_of (92::nat), char_of (34::nat)]
      else if n = 92 then [char_of (92::nat), char_of (92::nat)]
      else if n = 7 then char_of (92::nat) # ''a''
      else if n = 8 then char_of (92::nat) # ''b''
      else if n = 12 then char_of (92::nat) # ''f''
      else if n = 10 then char_of (92::nat) # ''n''
      else if n = 13 then char_of (92::nat) # ''r''
      else if n = 9 then char_of (92::nat) # ''t''
      else if n = 11 then char_of (92::nat) # ''v''
      else if n < 32 \<or> n = 127 then char_of (92::nat) # ''x'' @ [hexdigit (n div 16), hexdigit (n mod 16)]
      else [c])"

definition quote :: "string \<Rightarrow> string" where
  "quote s = [char_of (34::nat)] @ concat (map quote_char s) @ [char_of (34::nat)]"

section \<open>Lemmas on results\<close>

lemma rbind_simps [simp]:
  "rbind (Inr x) f = f x"
  "rbind (Inl e) f = Inl e"
  by (simp_all add: rbind_def)

lemma rbind_Inr_iff: "rbind r f = Inr y \<longleftrightarrow> (\<exists>x. r = Inr x \<and> f x = Inr y)"
  by (cases r) auto

lemma rbind_Inl_iff: "rbind r f = Inl e \<longleftrightarrow> r = Inl e \<or> (\<exists>x. r = Inr x \<and> f x = Inl e)"
  by (cases r) auto

lemma guard_Inr: "(if c then Inl e else y) = Inr d \<longleftrightarrow> \<not> c \<and> y = Inr d"
  "(if c then y else Inl e) = Inr d \<longleftrightarrow> c \<and> y = Inr d"
  by auto

declare mod_0_imp_dvd [rule del]

lemma is_ok_iff: "is_ok r \<longleftrightarrow> (\<exists>x. r = Inr x)"
  by (cases r) auto

lemma not_is_ok_iff: "\<not> is_ok r \<longleftrightarrow> (\<exists>e. r = Inl e)"
  by (cases r) auto

section \<open>Lemmas on integers and bytes\<close>

lemma wrap64_id: "int64_ok x \<Longrightarrow> wrap64 x = x"
  by (simp add: int64_ok_def wrap64_def)

lemma int64_ok_wrap64: "int64_ok (wrap64 x)"
proof -
  have "0 \<le> (x + 2 ^ 63) mod 2 ^ 64" "(x + 2 ^ 63) mod 2 ^ 64 < 2 ^ 64"
    by simp_all
  then show ?thesis by (simp add: int64_ok_def wrap64_def)
qed

lemma string_of_bytes_of_string [simp]: "string_of_bytes (bytes_of_string s) = s"
proof -
  have "char_of (unat (word_of_nat (of_char c) :: byte)) = c" for c
  proof -
    have "(of_char c :: nat) < 256"
      by simp
    then show ?thesis by (simp add: unat_of_nat take_bit_eq_mod)
  qed
  then show ?thesis
    by (simp add: string_of_bytes_def bytes_of_string_def map_idI)
qed

lemma bytes_of_string_of_bytes [simp]: "bytes_of_string (string_of_bytes bs) = bs"
proof -
  have "word_of_nat (of_char (char_of (unat b) :: char)) = b" for b :: byte
  proof -
    have "unat b < 256"
      using unsigned_less [of b, where ?'a = nat] by simp
    then show ?thesis by (simp add: of_char_of)
  qed
  then show ?thesis
    by (simp add: string_of_bytes_def bytes_of_string_def map_idI)
qed

lemma string_of_bytes_inject [simp]: "string_of_bytes a = string_of_bytes b \<longleftrightarrow> a = b"
  by (metis bytes_of_string_of_bytes)

lemma length_bytes_of_string [simp]: "length (bytes_of_string s) = length s"
  by (simp add: bytes_of_string_def)

lemma length_string_of_bytes [simp]: "length (string_of_bytes s) = length s"
  by (simp add: string_of_bytes_def)

section \<open>Lemmas on Go maps\<close>

lemma map_of_mput [simp]: "map_of (mput k v m) = (map_of m)(k \<mapsto> v)"
  by (rule update_conv')

lemma map_of_mdel [simp]: "map_of (mdel k m) = (map_of m)(k := None)"
  by (rule delete_conv')

lemma map_ok_Nil [simp]: "map_ok []"
  by (simp add: map_ok_def)

lemma map_ok_mput [simp]: "map_ok m \<Longrightarrow> map_ok (mput k v m)"
  by (simp add: map_ok_def distinct_update)

lemma map_ok_mdel [simp]: "map_ok m \<Longrightarrow> map_ok (mdel k m)"
  by (simp add: map_ok_def distinct_delete)

lemma set_mkeys: "set (mkeys m) = dom (map_of m)"
  by (simp add: mkeys_def dom_map_of_conv_image_fst)

lemma mdel_mput_fresh: "map_of m k = None \<Longrightarrow> mdel k (mput k v m) = m"
  by (induction m) (auto simp: AList.delete_eq split: if_splits)

lemma mput_fresh: "map_of m k = None \<Longrightarrow> mput k v m = m @ [(k, v)]"
  by (induction m) (auto split: if_splits)

lemma mput_neq_Nil [simp]: "mput k v m \<noteq> []"
  by (cases m) auto

lemma sort_key_eq_Nil [simp]: "sort_key f xs = [] \<longleftrightarrow> xs = []"
  by (metis length_0_conv length_sort)

lemma fold_mput_append:
  "distinct (map fst xs) \<Longrightarrow> set (map fst acc) \<inter> set (map fst xs) = {} \<Longrightarrow>
    fold (\<lambda>(k, v). mput k v) xs acc = acc @ xs"
proof (induction xs arbitrary: acc)
  case (Cons x xs)
  obtain k v where x: "x = (k, v)"
    by (cases x)
  have "map_of acc k = None"
    using Cons.prems(2) x by (auto simp: map_of_eq_None_iff)
  then have "mput k v acc = acc @ [(k, v)]"
    by (rule mput_fresh)
  moreover have "fold (\<lambda>(k, v). mput k v) xs (acc @ [(k, v)]) = (acc @ [(k, v)]) @ xs"
    using Cons.prems x by (intro Cons.IH) auto
  ultimately show ?case
    using x by simp
qed simp

lemma fold_mput_id: "map_ok m \<Longrightarrow> fold (\<lambda>(k, v). mput k v) m [] = m"
  using fold_mput_append [of m "[]"] by (simp add: map_ok_def)

text \<open>Sorting the keys of a map hides the order in which Go iterates over it.\<close>

lemma sort_mkeys_cong:
  assumes "map_ok m" "map_ok m'" "map_of m = map_of m'"
  shows "sort (mkeys m) = sort (mkeys m')"
proof (rule sorted_distinct_set_unique)
  show "set (sort (mkeys m)) = set (sort (mkeys m'))"
    using assms(3) by (simp add: set_mkeys)
qed (use assms(1,2) in \<open>simp_all add: mkeys_def map_ok_def\<close>)

section \<open>Lemmas on decimal numbers\<close>

lemma digits_val_append:
  "digits_val acc (xs @ ys) = (case digits_val acc xs of None \<Rightarrow> None | Some a \<Rightarrow> digits_val a ys)"
  by (induction xs arbitrary: acc) auto

lemma of_char_digit: "n < 10 \<Longrightarrow> of_char (char_of (48 + n) :: char) = (48 + n :: nat)"
  by (simp add: of_char_of)

lemma is_digit_digit: "n < 10 \<Longrightarrow> is_digit (char_of (48 + n :: nat))"
  by (simp add: is_digit_def of_char_digit)

lemma digits_val_itoa_nat: "digits_val 0 (itoa_nat n) = Some n"
proof (induction n rule: itoa_nat.induct)
  case (1 n)
  show ?case
  proof (cases "n < 10")
    case True
    then show ?thesis
      by (simp add: itoa_nat.simps [of n] is_digit_digit of_char_digit)
  next
    case False
    then have "digits_val 0 (itoa_nat (n div 10)) = Some (n div 10)"
      using "1" by simp
    moreover have "n mod 10 < 10"
      by simp
    ultimately show ?thesis
      using False
      by (simp add: itoa_nat.simps [of n] digits_val_append is_digit_digit of_char_digit
          del: char_of_nat)
  qed
qed

lemma itoa_nat_all_digits: "c \<in> set (itoa_nat n) \<Longrightarrow> is_digit c"
proof (induction n rule: itoa_nat.induct)
  case (1 n)
  have m: "n mod 10 < 10"
    by simp
  show ?case
  proof (cases "n < 10")
    case True
    with "1.prems" show ?thesis
      by (simp add: itoa_nat.simps [of n] is_digit_digit)
  next
    case False
    with "1" m show ?thesis
      by (auto simp add: itoa_nat.simps [of n] is_digit_digit)
  qed
qed

lemma itoa_nat_nonempty [simp]: "itoa_nat n \<noteq> []"
  by (subst itoa_nat.simps) simp

lemma itoa_nat_hd: "hd (itoa_nat n) \<noteq> CHR ''-'' \<and> hd (itoa_nat n) \<noteq> CHR ''+''"
proof -
  have "is_digit (hd (itoa_nat n))"
    by (rule itoa_nat_all_digits [of _ n]) simp
  then show ?thesis
    by (auto simp: is_digit_def)
qed

lemma atoi_itoa: "int64_ok i \<Longrightarrow> 0 \<le> i \<Longrightarrow> atoi (itoa i) = Some i"
  using itoa_nat_hd [of "nat i"] by (simp add: atoi_def itoa_def digits_val_itoa_nat)

lemma itoa_nonempty [simp]: "itoa i \<noteq> []"
  by (simp add: itoa_def)

section \<open>Lemmas on splitting paths\<close>

lemma splitOn_nonempty [simp]: "splitOn c s \<noteq> []"
  by (cases s) (auto split: list.splits)

lemma splitOn_no_sep: "p \<in> set (splitOn c s) \<Longrightarrow> c \<notin> set p"
  by (induction s arbitrary: p) (auto split: if_splits list.splits)

lemma splitOn_plain: "c \<notin> set s \<Longrightarrow> splitOn c s = [s]"
  by (induction s) auto

lemma splitOn_append_sep: "c \<notin> set s \<Longrightarrow> splitOn c (s @ c # t) = s # splitOn c t"
  by (induction s) auto

lemma hasPrefix_append [simp]: "hasPrefix (p @ s) p"
  by (simp add: hasPrefix_def)

lemma trimPrefix_append [simp]: "trimPrefix (p @ s) p = s"
  by (simp add: trimPrefix_def)

end
