(* ===== verification/KV_Model.thy ===== *)
theory KV_Model
  imports Complex_Main KV_Prelude
begin

text \<open>
  The data of \<open>src/internal/model\<close>: attributes, JSON web keys, certificate policies, and the
  request and response bodies of the REST API, one record per Go struct. A pointer field is an
  \<open>option\<close> (None is nil), a string map is an optional Go map (None is the nil map), a slice
  whose nil value the program tests is an optional list. The last part models what a value of
  type \<open>any\<close>, and with it a certificate policy, becomes when it is sent through
  \<open>encoding/json\<close>.
\<close>

section \<open>common.go and error.go\<close>

type_synonym tags = "(string, string) gomap option"

record Attributes =
  Enabled :: "bool option"
  NotBefore :: "int option"
  Expires :: "int option"
  Created :: int
  Updated :: int
  RecoveryLevel :: string
  RecoverableDays :: int

record 'a ListResult =
  lr_Value :: "'a list"
  lr_NextLink :: "string option"

record CloudError =
  ce_Code :: string
  ce_Message :: string

type_synonym KeyVaultError = CloudError

definition NewKeyVaultError :: "string \<Rightarrow> string \<Rightarrow> KeyVaultError" where
  "NewKeyVaultError code message = \<lparr>ce_Code = code, ce_Message = message\<rparr>"

section \<open>key.go\<close>

record JSONWebKey =
  jwk_Kid :: string
  jwk_Kty :: string
  jwk_KeyOps :: "string list"
  jwk_N :: string
  jwk_E :: string
  jwk_D :: string
  jwk_P :: string
  jwk_Q :: string
  jwk_DP :: string
  jwk_DQ :: string
  jwk_QI :: string
  jwk_Crv :: string
  jwk_X :: string
  jwk_Y :: string
  jwk_K :: string

definition emptyJWK :: JSONWebKey where
  "emptyJWK = \<lparr>jwk_Kid = [], jwk_Kty = [], jwk_KeyOps = [], jwk_N = [], jwk_E = [], jwk_D = [],
     jwk_P = [], jwk_Q = [], jwk_DP = [], jwk_DQ = [], jwk_QI = [], jwk_Crv = [], jwk_X = [],
     jwk_Y = [], jwk_K = []\<rparr>"

record CreateKeyRequest =
  ck_Kty :: string
  ck_KeySize :: int
  ck_KeyOps :: "string list"
  ck_Attributes :: "Attributes option"
  ck_Tags :: tags
  ck_Crv :: string
  ck_Value :: string

record ImportKeyRequest =
  ik_Key :: JSONWebKey
  ik_Attributes :: "Attributes option"
  ik_Tags :: tags

record UpdateKeyRequest =
  uk_Attributes :: "Attributes option"
  uk_Tags :: tags
  uk_KeyOps :: "string list option"

record KeyBundle =
  kb_Key :: JSONWebKey
  kb_Attributes :: Attributes
  kb_Tags :: tags

record KeyItem =
  ki_Kid :: string
  ki_Attributes :: Attributes
  ki_Tags :: tags

record DeletedKeyBundle =
  dkb_KeyBundle :: KeyBundle
  dkb_RecoveryID :: string
  dkb_DeletedDate :: int
  dkb_ScheduledPurgeDate :: int

record EncryptRequest =
  er_Alg :: string
  er_Value :: string
  er_IV :: string

record CryptoResponse =
  cr_Kid :: string
  cr_Value :: string
  cr_Alg :: string
  cr_IV :: string

record SignRequest =
  sg_Alg :: string
  sg_Value :: string

record VerifyRequest =
  vr_Alg :: string
  vr_Digest :: string
  vr_Value :: string

record VerifyResponse =
  vrs_Value :: bool

section \<open>secret.go\<close>

record SecretSetRequest =
  ss_Value :: string
  ss_ContentType :: string
  ss_Attributes :: "Attributes option"
  ss_Tags :: tags

record SecretUpdateRequest =
  su_ContentType :: "string option"
  su_Attributes :: "Attributes option"
  su_Tags :: tags

record SecretBundle =
  sb_Value :: string
  sb_ID :: string
  sb_ContentType :: string
  sb_Attributes :: Attributes
  sb_Tags :: tags

record SecretItem =
  si_ID :: string
  si_ContentType :: string
  si_Attributes :: Attributes
  si_Tags :: tags

record DeletedSecretBundle =
  dsb_SecretBundle :: SecretBundle
  dsb_RecoveryID :: string
  dsb_DeletedDate :: int
  dsb_ScheduledPurgeDate :: int

section \<open>certificate.go\<close>

text \<open>A dynamic value (type \<open>any\<close>) as JSON decoding and the program's own literals build it.\<close>

datatype goany =
    ANil
  | ABool bool
  | AInt int
  | AFloat rat
  | AStr string
  | AArr "goany list"
  | AObj "(string \<times> goany) list"

type_synonym anymap = "(string, goany) gomap option"

record CertificatePolicy =
  cp_ID :: string
  cp_Issuer :: anymap
  cp_KeyProps :: anymap
  cp_SecretProps :: anymap
  cp_X509Props :: anymap
  cp_LifetimeActions :: "anymap list"
  cp_Attributes :: anymap

definition emptyPolicy :: CertificatePolicy where
  "emptyPolicy = \<lparr>cp_ID = [], cp_Issuer = None, cp_KeyProps = None, cp_SecretProps = None,
     cp_X509Props = None, cp_LifetimeActions = [], cp_Attributes = None\<rparr>"

record CreateCertificateRequest =
  cc_Policy :: "CertificatePolicy option"
  cc_Attributes :: "Attributes option"
  cc_Tags :: tags

record ImportCertificateRequest =
  ic_Value :: string
  ic_Password :: string
  ic_Policy :: "CertificatePolicy option"
  ic_Attributes :: "Attributes option"
  ic_Tags :: tags

record UpdateCertificateRequest =
  uc_Attributes :: "Attributes option"
  uc_Tags :: tags

record CertificateBundle =
  cb_ID :: string
  cb_Kid :: string
  cb_Sid :: string
  cb_Cer :: string
  cb_Attributes :: Attributes
  cb_Tags :: tags
  cb_Policy :: "CertificatePolicy option"

record CertificateItem =
  ci_ID :: string
  ci_Kid :: string
  ci_Sid :: string
  ci_X5t :: string
  ci_Attributes :: Attributes
  ci_Tags :: tags

record DeletedCertificateBundle =
  dcb_CertificateBundle :: CertificateBundle
  dcb_RecoveryID :: string
  dcb_DeletedDate :: int
  dcb_ScheduledPurgeDate :: int

record CertificateOperation =
  co_ID :: string
  co_Status :: string
  co_Target :: string
  co_StatusDetails :: string

end
