(* ===== verification/KV_Encoding.thy ===== *)
theory KV_Encoding
  imports KV_Prelude
begin

text \<open>
  The byte encodings of the Go standard library that the program uses: \<open>encoding/hex\<close> (version
  ids, session tokens, encrypted secret values), \<open>encoding/base64\<close> in its padded standard and
  its raw URL variant (backup blobs, JSON web keys), and the big-endian bytes of \<open>math/big\<close>
  integers. Each codec comes with its round trip, and the helpers of
  \<open>src/internal/crypto/keys.go\<close> that sit directly on them are defined here.
\<close>

section \<open>encoding/hex\<close>

definition hexval :: "char \<Rightarrow> nat option" where
  "hexval c =
     (let n = (of_char c :: nat) in
      if 48 \<le> n \<and> n \<le> 57 then Some (n - 48)
      else if 97 \<le> n \<and> n \<le> 102 then Some (n - 87)
      else if 65 \<le> n \<and> n \<le> 70 then Some (n - 55)
      else None)"

fun hexEncode :: "bytes \<Rightarrow> string" where
  "hexEncode [] = []"
| "hexEncode (b # bs) = hexdigit (unat b div 16) # hexdigit (unat b mod 16) # hexEncode bs"

fun hexDecode :: "string \<Rightarrow> bytes option" where
  "hexDecode [] = Some []"
| "hexDecode [_] = None"
| "hexDecode (x # y # r) =
     (case hexval x of None \<Rightarrow> None | Some h \<Rightarrow>
      case hexval y of None \<Rightarrow> None | Some l \<Rightarrow>
      map_option (\<lambda>bs. word_of_nat (16 * h + l) # bs) (hexDecode r))"

section \<open>encoding/base64\<close>

text \<open>
  The flag \<open>url\<close> selects the URL alphabet, \<open>pad\<close> the padding character \<open>=\<close>:
  \<open>base64.StdEncoding\<close> is \<open>url = False, pad = True\<close>, \<open>base64.RawURLEncoding\<close> is
  \<open>url = True, pad = False\<close>. Decoding skips carriage returns and newlines and does not check
  the unused bits of the last character, as the non-strict decoders of Go do.
\<close>

definition b64char :: "bool \<Rightarrow> nat \<Rightarrow> char" where
  "b64char url n =
     (if n < 26 then char_of (65 + n)
      else if n < 52 then char_of (71 + n)
      else if n < 62 then char_of (n - 4)
      else if n = 62 then (if url then CHR ''-'' else CHR ''+'')
      else (if url then CHR ''_'' else CHR ''/''))"

definition b64val :: "bool \<Rightarrow> char \<Rightarrow> nat option" where
  "b64val url c =
     (let n = (of_char c :: nat) in
      if 65 \<le> n \<and> n \<le> 90 then Some (n - 65)
      else if 97 \<le> n \<and> n \<le> 122 then Some (n - 71)
      else if 48 \<le> n \<and> n \<le> 57 then Some (n + 4)
      else if c = (if url then CHR ''-'' else CHR ''+'') then Some 62
      else if c = (if url then CHR ''_'' else CHR ''/'') then Some 63
      else None)"

fun b64Encode :: "bool \<Rightarrow> bool \<Rightarrow> bytes \<Rightarrow> string" where
  "b64Encode url pad [] = []"
| "b64Encode url pad [a] =
     [b64char url (unat a div 4), b64char url (unat a mod 4 * 16)] @ (if pad then ''=='' else [])"
| "b64Encode url pad [a, b] =
     [b64char url (unat a div 4), b64char url (unat a mod 4 * 16 + unat b div 16),
      b64char url (unat b mod 16 * 4)] @ (if pad then ''='' else [])"
| "b64Encode url pad (a # b # c # r) =
     [b64char url (unat a div 4), b64char url (unat a mod 4 * 16 + unat b div 16),
      b64char url (unat b mod 16 * 4 + unat c div 64), b64char url (unat c mod 64)]
     @ b64Encode url pad r"

definition b64bytes1 :: "nat \<Rightarrow> nat \<Rightarrow> bytes" where
  "b64bytes1 x y = [word_of_nat (4 * x + y div 16)]"

definition b64bytes2 :: "nat \<Rightarrow> nat \<Rightarrow> nat \<Rightarrow> bytes" where
  "b64bytes2 x y z = b64bytes1 x y @ [word_of_nat (16 * (y mod 16) + z div 4)]"

definition b64bytes3 :: "nat \<Rightarrow> nat \<Rightarrow> nat \<Rightarrow> nat \<Rightarrow> bytes" where
  "b64bytes3 x y z w = b64bytes2 x y z @ [word_of_nat (64 * (z mod 4) + w)]"

fun b64Quads :: "bool \<Rightarrow> bool \<Rightarrow> string \<Rightarrow> bytes option" where
  "b64Quads url pad [] = Some []"
| "b64Quads url pad [x] = None"
| "b64Quads url pad [x, y] =
     (if pad then None else
      case (b64val url x, b64val url y) of
        (Some a, Some b) \<Rightarrow> Some (b64bytes1 a b)
      | _ \<Rightarrow> None)"
| "b64Quads url pad [x, y, z] =
     (if pad then None else
      case (b64val url x, b64val url y, b64val url z) of
        (Some a, Some b, Some c) \<Rightarrow> Some (b64bytes2 a b c)
      | _ \<Rightarrow> None)"
| "b64Quads url pad (x # y # z # w # r) =
     (case (b64val url x, b64val url y) of
        (Some a, Some b) \<Rightarrow>
          (case b64val url z of
             None \<Rightarrow>
               (if pad \<and> z = CHR ''='' \<and> w = CHR ''='' \<and> r = [] then Some (b64bytes1 a b) else None)
           | Some c \<Rightarrow>
               (case b64val url w of
                  None \<Rightarrow> (if pad \<and> w = CHR ''='' \<and> r = [] then Some (b64bytes2 a b c) else None)
                | Some d \<Rightarrow> map_option (\<lambda>bs. b64bytes3 a b c d @ bs) (b64Quads url pad r)))
      | _ \<Rightarrow> None)"

definition is_newline :: "char \<Rightarrow> bool" where
  "is_newline c \<longleftrightarrow> of_char c = (10::nat) \<or> of_char c = (13::nat)"

definition b64Decode :: "bool \<Rightarrow> bool \<Rightarrow> string \<Rightarrow> bytes option" where
  "b64Decode url pad s = b64Quads url pad (filter (\<lambda>c. \<not> is_newline c) s)"

abbreviation stdEncode :: "bytes \<Rightarrow> string" where
  "stdEncode \<equiv> b64Encode False True"

abbreviation stdDecode :: "string \<Rightarrow> bytes option" where
  "stdDecode \<equiv> b64Decode False True"

definition EncodeBase64URL :: "bytes \<Rightarrow> string" where
  "EncodeBase64URL data = b64Encode True False data"

definition DecodeBase64URL :: "string \<Rightarrow> bytes option" where
  "DecodeBase64URL value = b64Decode True False value"

section \<open>math/big: big-endian bytes\<close>

text \<open>\<open>new(big.Int).SetBytes(data)\<close> and \<open>x.Bytes()\<close> (no leading zero byte, empty for 0).\<close>

fun setBytes_acc :: "nat \<Rightarrow> bytes \<Rightarrow> nat" where
  "setBytes_acc acc [] = acc"
| "setBytes_acc acc (b # bs) = setBytes_acc (256 * acc + unat b) bs"

definition setBytes :: "bytes \<Rightarrow> nat" where
  "setBytes data = setBytes_acc 0 data"

fun bigBytes :: "nat \<Rightarrow> bytes" where
  "bigBytes n = (if n = 0 then [] else bigBytes (n div 256) @ [word_of_nat (n mod 256)])"

declare bigBytes.simps [simp del]

definition decodeBigInt :: "string \<Rightarrow> nat option" where
  "decodeBigInt value = map_option setBytes (DecodeBase64URL value)"

definition padBytes :: "bytes \<Rightarrow> nat \<Rightarrow> bytes" where
  "padBytes data sz =
     (if sz \<le> length data then data else replicate (sz - length data) 0 @ data)"

section \<open>Round trips\<close>

lemma unat_byte_less: "unat (b :: byte) < 256"
  using unsigned_less [of b, where ?'a = nat] by simp

lemma of_char_char_of_small: "n < 256 \<Longrightarrow> of_char (char_of n :: char) = (n :: nat)"
  by (simp add: of_char_of)

lemma hexval_hexdigit: "n < 16 \<Longrightarrow> hexval (hexdigit n) = Some n"
  by (auto simp: hexval_def hexdigit_def Let_def of_char_char_of_small)

lemma hexDecode_hexEncode [simp]: "hexDecode (hexEncode bs) = Some bs"
proof (induction bs)
  case (Cons b bs)
  have "unat b div 16 < 16" "unat b mod 16 < 16"
    using unat_byte_less [of b] by (auto simp: div_less_iff_less_mult)
  moreover have "word_of_nat (16 * (unat b div 16) + unat b mod 16) = b"
    by simp
  ultimately show ?case
    using Cons by (simp add: hexval_hexdigit)
qed simp

lemma length_hexEncode [simp]: "length (hexEncode bs) = 2 * length bs"
  by (induction bs) auto

lemma hexEncode_inject [simp]: "hexEncode a = hexEncode b \<longleftrightarrow> a = b"
  by (metis hexDecode_hexEncode option.inject)

lemma hexEncode_eq_Nil [simp]: "hexEncode bs = [] \<longleftrightarrow> bs = []"
  by (cases bs) auto

lemma hexDecode_length: "hexDecode s = Some bs \<Longrightarrow> length s = 2 * length bs"
  by (induction s arbitrary: bs rule: hexDecode.induct) (auto split: option.splits)

lemma b64val_b64char: "n < 64 \<Longrightarrow> b64val url (b64char url n) = Some n"
  by (auto simp: b64val_def b64char_def Let_def of_char_char_of_small)

lemma b64char_not_special:
  assumes "n < 64"
  shows "\<not> is_newline (b64char url n)" "b64char url n \<noteq> CHR ''=''"
proof -
  have "b64val url (b64char url n) = Some n"
    using assms by (rule b64val_b64char)
  moreover have "b64val url (CHR ''='') = None"
    by (simp add: b64val_def)
  moreover have "is_newline c \<Longrightarrow> b64val url c = None" for c
    by (auto simp: b64val_def is_newline_def Let_def)
  ultimately show "\<not> is_newline (b64char url n)" "b64char url n \<noteq> CHR ''=''"
    by auto
qed

lemma b64_digit_bounds:
  "unat (a :: byte) div 4 < 64"
  "unat a mod 4 * 16 < 64"
  "unat a mod 4 * 16 + unat (b :: byte) div 16 < 64"
  "unat b mod 16 * 4 < 64"
  "unat b mod 16 * 4 + unat (c :: byte) div 64 < 64"
  "unat c mod 64 < 64"
  using unat_byte_less [of a] unat_byte_less [of b] unat_byte_less [of c] by linarith+

lemma b64bytes_digits:
  "b64bytes1 (unat a div 4) (unat a mod 4 * 16) = [a]"
  "b64bytes2 (unat a div 4) (unat a mod 4 * 16 + unat b div 16) (unat b mod 16 * 4) = [a, b]"
  "b64bytes3 (unat a div 4) (unat a mod 4 * 16 + unat b div 16)
     (unat b mod 16 * 4 + unat c div 64) (unat c mod 64) = [a, b, c]"
proof -
  have a: "4 * (unat a div 4) + (unat a mod 4 * 16 + k) div 16 = unat a" if "k < 16" for k
    using that by simp
  have b: "16 * ((unat a mod 4 * 16 + unat b div 16) mod 16) + (unat b mod 16 * 4 + k) div 4 = unat b"
    if "k < 4" for k
    using that unat_byte_less [of b] by (simp add: less_mult_imp_div_less)
  have c: "64 * ((unat b mod 16 * 4 + unat c div 64) mod 4) + unat c mod 64 = unat c"
    using unat_byte_less [of c] by (simp add: less_mult_imp_div_less mult.commute)
  have k: "unat b div 16 < 16" "unat c div 64 < 4"
    using unat_byte_less [of b] unat_byte_less [of c] by linarith+
  show "b64bytes1 (unat a div 4) (unat a mod 4 * 16) = [a]"
    using a [of 0] by (simp add: b64bytes1_def)
  show "b64bytes2 (unat a div 4) (unat a mod 4 * 16 + unat b div 16) (unat b mod 16 * 4) = [a, b]"
    using a [OF k(1)] b [of 0] by (simp add: b64bytes1_def b64bytes2_def)
  show "b64bytes3 (unat a div 4) (unat a mod 4 * 16 + unat b div 16)
     (unat b mod 16 * 4 + unat c div 64) (unat c mod 64) = [a, b, c]"
    using a [OF k(1)] b [OF k(2)] c by (simp add: b64bytes1_def b64bytes2_def b64bytes3_def)
qed

lemma b64val_pad: "b64val url (CHR ''='') = None"
  by (simp add: b64val_def)

lemma b64Quads_b64Encode: "b64Quads url pad (b64Encode url pad bs) = Some bs"
  by (induction url pad bs rule: b64Encode.induct)
    (simp_all add: b64val_b64char b64_digit_bounds b64bytes_digits b64val_pad)

lemma b64Encode_no_newline: "c \<in> set (b64Encode url pad bs) \<Longrightarrow> \<not> is_newline c"
  by (induction url pad bs rule: b64Encode.induct)
    (auto simp: b64char_not_special b64_digit_bounds is_newline_def [of "CHR ''=''"] split: if_splits)

lemma b64Decode_b64Encode [simp]: "b64Decode url pad (b64Encode url pad bs) = Some bs"
proof -
  have "filter (\<lambda>c. \<not> is_newline c) (b64Encode url pad bs) = b64Encode url pad bs"
    by (simp add: filter_id_conv b64Encode_no_newline)
  then show ?thesis
    by (simp add: b64Decode_def b64Quads_b64Encode)
qed

lemma DecodeBase64URL_EncodeBase64URL [simp]: "DecodeBase64URL (EncodeBase64URL bs) = Some bs"
  by (simp add: DecodeBase64URL_def EncodeBase64URL_def)

lemma b64Encode_eq_Nil [simp]: "b64Encode url pad bs = [] \<longleftrightarrow> bs = []"
  by (cases "(url, pad, bs)" rule: b64Encode.cases) auto

lemma EncodeBase64URL_eq_Nil [simp]: "EncodeBase64URL bs = [] \<longleftrightarrow> bs = []"
  by (simp add: EncodeBase64URL_def)

lemma setBytes_acc_append: "setBytes_acc acc (xs @ ys) = setBytes_acc (setBytes_acc acc xs) ys"
  by (induction xs arbitrary: acc) auto

lemma bigBytes_0 [simp]: "bigBytes 0 = []"
  by (simp add: bigBytes.simps)

lemma setBytes_bigBytes [simp]: "setBytes (bigBytes n) = n"
proof (induction n rule: bigBytes.induct)
  case (1 n)
  then show ?case
    by (cases "n = 0") (simp_all add: bigBytes.simps [of n] setBytes_def setBytes_acc_append
        unat_of_nat take_bit_eq_mod)
qed

lemma setBytes_replicate_zero [simp]: "setBytes (replicate k 0 @ bs) = setBytes bs"
proof -
  have "setBytes_acc 0 (replicate k 0) = 0"
    by (induction k) auto
  then show ?thesis
    by (simp add: setBytes_def setBytes_acc_append)
qed

lemma setBytes_padBytes [simp]: "setBytes (padBytes bs sz) = setBytes bs"
  by (simp add: padBytes_def)

lemma length_padBytes: "length (padBytes bs sz) = max sz (length bs)"
  by (simp add: padBytes_def)

lemma setBytes_acc_bound: "setBytes_acc acc bs < (acc + 1) * 256 ^ length bs"
proof (induction bs arbitrary: acc)
  case (Cons b bs)
  have "setBytes_acc acc (b # bs) < (256 * acc + unat b + 1) * 256 ^ length bs"
    using Cons [of "256 * acc + unat b"] by simp
  also have "\<dots> \<le> (256 * (acc + 1)) * 256 ^ length bs"
    using unat_byte_less [of b] by (intro mult_right_mono) auto
  finally show ?case by (simp add: algebra_simps)
qed simp

lemma setBytes_bound: "setBytes bs < 256 ^ length bs"
  using setBytes_acc_bound [of 0 bs] by (simp add: setBytes_def)

lemma length_bigBytes_le: "n < 256 ^ k \<Longrightarrow> length (bigBytes n) \<le> k"
proof (induction k arbitrary: n)
  case (Suc k)
  then have "n div 256 < 256 ^ k"
    by (simp add: less_mult_imp_div_less mult.commute)
  then show ?case
    using Suc.IH by (cases "n = 0") (simp_all add: bigBytes.simps [of n])
qed (simp add: bigBytes.simps)

lemma bigBytes_eq_Nil [simp]: "bigBytes n = [] \<longleftrightarrow> n = 0"
  by (subst bigBytes.simps) simp

lemma decodeBigInt_encode [simp]: "decodeBigInt (EncodeBase64URL (bigBytes n)) = Some n"
  by (simp add: decodeBigInt_def)

end
