(* ===== verification/KV_AES.thy ===== *)
theory KV_AES
  imports KV_Encoding
begin

text \<open>
  The symmetric primitives of the Go standard library that the program calls: the AES block
  cipher (\<open>crypto/aes\<close>, FIPS 197) with 16, 24 and 32 byte keys, and the modes CBC and GCM
  (\<open>crypto/cipher\<close>). They are defined in full, so the models of key wrapping, CBC encryption
  and secret encryption built on them compute, and the inversion laws that those components
  need are theorems here.
\<close>

unbundle bit_operations_syntax

section \<open>The AES block cipher\<close>

definition sbox_table :: "byte list" where
  "sbox_table = [
      99, 124, 119, 123, 242, 107, 111, 197, 48, 1, 103, 43, 254, 215, 171, 118,
      202, 130, 201, 125, 250, 89, 71, 240, 173, 212, 162, 175, 156, 164, 114, 192,
      183, 253, 147, 38, 54, 63, 247, 204, 52, 165, 229, 241, 113, 216, 49, 21,
      4, 199, 35, 195, 24, 150, 5, 154, 7, 18, 128, 226, 235, 39, 178, 117,
      9, 131, 44, 26, 27, 110, 90, 160, 82, 59, 214, 179, 41, 227, 47, 132,
      83, 209, 0, 237, 32, 252, 177, 91, 106, 203, 190, 57, 74, 76, 88, 207,
      208, 239, 170, 251, 67, 77, 51, 133, 69, 249, 2, 127, 80, 60, 159, 168,
      81, 163, 64, 143, 146, 157, 56, 245, 188, 182, 218, 33, 16, 255, 243, 210,
      205, 12, 19, 236, 95, 151, 68, 23, 196, 167, 126, 61, 100, 93, 25, 115,
      96, 129, 79, 220, 34, 42, 144, 136, 70, 238, 184, 20, 222, 94, 11, 219,
      224, 50, 58, 10, 73, 6, 36, 92, 194, 211, 172, 98, 145, 149, 228, 121,
      231, 200, 55, 109, 141, 213, 78, 169, 108, 86, 244, 234, 101, 122, 174, 8,
      186, 120, 37, 46, 28, 166, 180, 198, 232, 221, 116, 31, 75, 189, 139, 138,
      112, 62, 181, 102, 72, 3, 246, 14, 97, 53, 87, 185, 134, 193, 29, 158,
      225, 248, 152, 17, 105, 217, 142, 148, 155, 30, 135, 233, 206, 85, 40, 223,
      140, 161, 137, 13, 191, 230, 66, 104, 65, 153, 45, 15, 176, 84, 187, 22]"

definition inv_sbox_table :: "byte list" where
  "inv_sbox_table = [
      82, 9, 106, 213, 48, 54, 165, 56, 191, 64, 163, 158, 129, 243, 215, 251,
      124, 227, 57, 130, 155, 47, 255, 135, 52, 142, 67, 68, 196, 222, 233, 203,
      84, 123, 148, 50, 166, 194, 35, 61, 238, 76, 149, 11, 66, 250, 195, 78,
      8, 46, 161, 102, 40, 217, 36, 178, 118, 91, 162, 73, 109, 139, 209, 37,
      114, 248, 246, 100, 134, 104, 152, 22, 212, 164, 92, 204, 93, 101, 182, 146,
      108, 112, 72, 80, 253, 237, 185, 218, 94, 21, 70, 87, 167, 141, 157, 132,
      144, 216, 171, 0, 140, 188, 211, 10, 247, 228, 88, 5, 184, 179, 69, 6,
      208, 44, 30, 143, 202, 63, 15, 2, 193, 175, 189, 3, 1, 19, 138, 107,
      58, 145, 17, 65, 79, 103, 220, 234, 151, 242, 207, 206, 240, 180, 230, 115,
      150, 172, 116, 34, 231, 173, 53, 133, 226, 249, 55, 232, 28, 117, 223, 110,
      71, 241, 26, 113, 29, 41, 197, 137, 111, 183, 98, 14, 170, 24, 190, 27,
      252, 86, 62, 75, 198, 210, 121, 32, 154, 219, 192, 254, 120, 205, 90, 244,
      31, 221, 168, 51, 136, 7, 199, 49, 177, 18, 16, 89, 39, 128, 236, 95,
      96, 81, 127, 169, 25, 181, 74, 13, 45, 229, 122, 159, 147, 201, 156, 239,
      160, 224, 59, 77, 174, 42, 245, 176, 200, 235, 187, 60, 131, 83, 153, 97,
      23, 43, 4, 126, 186, 119, 214, 38, 225, 105, 20, 99, 85, 33, 12, 125]"

definition subByte :: "byte \<Rightarrow> byte" where
  "subByte b = sbox_table ! unat b"

definition invSubByte :: "byte \<Rightarrow> byte" where
  "invSubByte b = inv_sbox_table ! unat b"

definition shiftRows :: "bytes \<Rightarrow> bytes" where
  "shiftRows st = map (\<lambda>i. st ! i) [0, 5, 10, 15, 4, 9, 14, 3, 8, 13, 2, 7, 12, 1, 6, 11]"

definition invShiftRows :: "bytes \<Rightarrow> bytes" where
  "invShiftRows st = map (\<lambda>i. st ! i) [0, 13, 10, 7, 4, 1, 14, 11, 8, 5, 2, 15, 12, 9, 6, 3]"

definition xtime :: "byte \<Rightarrow> byte" where
  "xtime b = push_bit 1 b XOR (if bit b 7 then 27 else 0)"

definition mul3 :: "byte \<Rightarrow> byte" where
  "mul3 b = xtime b XOR b"

definition mul9 :: "byte \<Rightarrow> byte" where
  "mul9 b = xtime (xtime (xtime b)) XOR b"

definition mul11 :: "byte \<Rightarrow> byte" where
  "mul11 b = xtime (xtime (xtime b)) XOR xtime b XOR b"

definition mul13 :: "byte \<Rightarrow> byte" where
  "mul13 b = xtime (xtime (xtime b)) XOR xtime (xtime b) XOR b"

definition mul14 :: "byte \<Rightarrow> byte" where
  "mul14 b = xtime (xtime (xtime b)) XOR xtime (xtime b) XOR xtime b"

fun mixColumns :: "bytes \<Rightarrow> bytes" where
  "mixColumns (a # b # c # d # r) =
     [xtime a XOR mul3 b XOR c XOR d,
      a XOR xtime b XOR mul3 c XOR d,
      a XOR b XOR xtime c XOR mul3 d,
      mul3 a XOR b XOR c XOR xtime d] @ mixColumns r"
| "mixColumns _ = []"

fun invMixColumns :: "bytes \<Rightarrow> bytes" where
  "invMixColumns (a # b # c # d # r) =
     [mul14 a XOR mul11 b XOR mul13 c XOR mul9 d,
      mul9 a XOR mul14 b XOR mul11 c XOR mul13 d,
      mul13 a XOR mul9 b XOR mul14 c XOR mul11 d,
      mul11 a XOR mul13 b XOR mul9 c XOR mul14 d] @ invMixColumns r"
| "invMixColumns _ = []"

definition xorBytes :: "bytes \<Rightarrow> bytes \<Rightarrow> bytes" where
  "xorBytes a b = map2 (XOR) a b"

text \<open>Key expansion: words of four bytes, kept in order.\<close>

fun rcon :: "nat \<Rightarrow> byte" where
  "rcon 0 = 1"
| "rcon (Suc n) = xtime (rcon n)"

definition nextWord :: "nat \<Rightarrow> nat \<Rightarrow> bytes list \<Rightarrow> bytes" where
  "nextWord nk i ws =
     (let prev = ws ! (i - 1);
          temp = (if i mod nk = 0
                  then xorBytes (map subByte (rotate1 prev)) [rcon (i div nk - 1), 0, 0, 0]
                  else if 6 < nk \<and> i mod nk = 4 then map subByte prev
                  else prev)
      in xorBytes (ws ! (i - nk)) temp)"

fun expandWords :: "nat \<Rightarrow> nat \<Rightarrow> bytes list \<Rightarrow> bytes list" where
  "expandWords nk 0 ws = ws"
| "expandWords nk (Suc n) ws = expandWords nk n (ws @ [nextWord nk (length ws) ws])"

fun chunks4 :: "'a list \<Rightarrow> 'a list list" where
  "chunks4 (a # b # c # d # r) = [a, b, c, d] # chunks4 r"
| "chunks4 _ = []"

definition roundKeys :: "bytes \<Rightarrow> bytes list" where
  "roundKeys key =
     (let nk = length key div 4; ws = chunks4 key
      in map concat (chunks4 (expandWords nk (4 * (nk + 7) - nk) ws)))"

fun encRounds :: "bytes list \<Rightarrow> bytes \<Rightarrow> bytes" where
  "encRounds [] st = st"
| "encRounds [k] st = xorBytes (shiftRows (map subByte st)) k"
| "encRounds (k # ks) st = encRounds ks (xorBytes (mixColumns (shiftRows (map subByte st))) k)"

fun decRounds :: "bytes list \<Rightarrow> bytes \<Rightarrow> bytes" where
  "decRounds [] st = st"
| "decRounds [k] st = map invSubByte (invShiftRows (xorBytes st k))"
| "decRounds (k # ks) st = map invSubByte (invShiftRows (invMixColumns (xorBytes (decRounds ks st) k)))"

definition aesEncrypt :: "bytes \<Rightarrow> bytes \<Rightarrow> bytes" where
  "aesEncrypt key blk =
     (case roundKeys key of [] \<Rightarrow> blk | k # ks \<Rightarrow> encRounds ks (xorBytes blk k))"

definition aesDecrypt :: "bytes \<Rightarrow> bytes \<Rightarrow> bytes" where
  "aesDecrypt key blk =
     (case roundKeys key of [] \<Rightarrow> blk | k # ks \<Rightarrow> xorBytes (decRounds ks blk) k)"

text \<open>\<open>aes.NewCipher\<close> accepts keys of 16, 24 and 32 bytes.\<close>

definition aesKeyOk :: "bytes \<Rightarrow> bool" where
  "aesKeyOk key \<longleftrightarrow> length key = 16 \<or> length key = 24 \<or> length key = 32"

definition aesNewCipher :: "bytes \<Rightarrow> unit res" where
  "aesNewCipher key =
     (if aesKeyOk key then Inr ()
      else Inl (PlainErr (''crypto/aes: invalid key size '' @ itoa (int (length key)))))"

section \<open>Decryption inverts encryption\<close>

lemma inv_sbox_sbox: "list_all (\<lambda>n. inv_sbox_table ! unat (sbox_table ! n) = word_of_nat n) [0..<256]"
  by code_simp

lemma invSubByte_subByte [simp]: "invSubByte (subByte b) = b"
proof -
  have "unat b \<in> set [0..<256]"
    using unat_byte_less [of b] by simp
  then have "inv_sbox_table ! unat (sbox_table ! unat b) = word_of_nat (unat b)"
    using inv_sbox_sbox by (simp only: list_all_iff)
  then show ?thesis
    by (simp add: invSubByte_def subByte_def)
qed

lemma invSubByte_comp_subByte [simp]: "invSubByte \<circ> subByte = id"
  by (simp add: fun_eq_iff)

lemma length16_cases:
  assumes "length st = 16"
  obtains x0 x1 x2 x3 x4 x5 x6 x7 x8 x9 x10 x11 x12 x13 x14 x15
  where "st = [x0, x1, x2, x3, x4, x5, x6, x7, x8, x9, x10, x11, x12, x13, x14, x15]"
  using assms by (auto simp: numeral_eq_Suc length_Suc_conv)

lemma invShiftRows_shiftRows: "length st = 16 \<Longrightarrow> invShiftRows (shiftRows st) = st"
  by (erule length16_cases) (simp add: invShiftRows_def shiftRows_def)

lemma length_shiftRows [simp]: "length (shiftRows st) = 16"
  by (simp add: shiftRows_def)

lemma length_invShiftRows [simp]: "length (invShiftRows st) = 16"
  by (simp add: invShiftRows_def)

lemma xtime_xor: "xtime (a XOR b) = xtime a XOR xtime b"
  by (auto simp: xtime_def bit_xor_iff push_bit_xor ac_simps)

lemma xor_cancel [simp]: "x XOR (x XOR y) = (y :: byte)"
  by (simp add: xor.assoc [symmetric])

lemmas xor_ac = xor.assoc xor.commute xor.left_commute

lemmas mul_defs = mul3_def mul9_def mul11_def mul13_def mul14_def

lemma mixColumn_inverse:
  fixes a b c d :: byte
  defines "p \<equiv> xtime a XOR mul3 b XOR c XOR d"
    and "q \<equiv> a XOR xtime b XOR mul3 c XOR d"
    and "r \<equiv> a XOR b XOR xtime c XOR mul3 d"
    and "s \<equiv> mul3 a XOR b XOR c XOR xtime d"
  shows "mul14 p XOR mul11 q XOR mul13 r XOR mul9 s = a"
    "mul9 p XOR mul14 q XOR mul11 r XOR mul13 s = b"
    "mul13 p XOR mul9 q XOR mul14 r XOR mul11 s = c"
    "mul11 p XOR mul13 q XOR mul9 r XOR mul14 s = d"
  unfolding p_def q_def r_def s_def mul_defs xtime_xor by (simp_all add: xor_ac)

lemma invMixColumns_mixColumns: "4 dvd length st \<Longrightarrow> invMixColumns (mixColumns st) = st"
proof (induction st rule: mixColumns.induct)
  case (1 a b c d r)
  then have "4 dvd length r"
    by (simp add: dvd_def) presburger
  then show ?case
    using "1.IH" by (simp add: mixColumn_inverse)
qed (simp_all add: dvd_def, presburger+)

lemma length_mixColumns: "4 dvd length st \<Longrightarrow> length (mixColumns st) = length st"
proof (induction st rule: mixColumns.induct)
  case (1 a b c d r)
  then have "4 dvd length r"
    by (simp add: dvd_def) presburger
  then show ?case
    using "1.IH" by simp
qed (simp_all add: dvd_def, presburger+)

lemma length_xorBytes [simp]: "length (xorBytes a b) = min (length a) (length b)"
  by (simp add: xorBytes_def)

lemma xorBytes_cancel: "length a \<le> length b \<Longrightarrow> xorBytes (xorBytes a b) b = a"
proof (induction a arbitrary: b)
  case (Cons x a)
  then obtain y b' where b: "b = y # b'"
    by (cases b) auto
  have "(x XOR y) XOR y = x"
    by (simp add: xor.assoc)
  with Cons b show ?case
    by (simp add: xorBytes_def)
qed (simp add: xorBytes_def)

lemma length_encRounds:
  "length st = 16 \<Longrightarrow> \<forall>k \<in> set ks. length k = 16 \<Longrightarrow> length (encRounds ks st) = 16"
  by (induction ks st rule: encRounds.induct) (simp_all add: length_mixColumns)

lemma decRounds_encRounds:
  "length st = 16 \<Longrightarrow> \<forall>k \<in> set ks. length k = 16 \<Longrightarrow> decRounds ks (encRounds ks st) = st"
  by (induction ks st rule: encRounds.induct)
    (simp_all add: xorBytes_cancel invShiftRows_shiftRows invMixColumns_mixColumns length_mixColumns)

lemma length_chunks4: "length (chunks4 xs) = length xs div 4"
  by (induction xs rule: chunks4.induct) auto

lemma chunks4_elem: "c \<in> set (chunks4 xs) \<Longrightarrow> length c = 4 \<and> set c \<subseteq> set xs"
  by (induction xs rule: chunks4.induct) auto

lemma length_nextWord:
  assumes "\<forall>w \<in> set ws. length w = 4" "0 < nk" "nk \<le> i" "i \<le> length ws"
  shows "length (nextWord nk i ws) = 4"
proof -
  have "length (ws ! (i - 1)) = 4" "length (ws ! (i - nk)) = 4"
    using assms by auto
  then show ?thesis
    by (simp add: nextWord_def Let_def)
qed

lemma expandWords_length4:
  "\<forall>w \<in> set ws. length w = 4 \<Longrightarrow> 0 < nk \<Longrightarrow> nk \<le> length ws \<Longrightarrow>
    \<forall>w \<in> set (expandWords nk n ws). length w = 4"
  by (induction nk n ws rule: expandWords.induct) (auto simp: length_nextWord)

lemma roundKeys_length:
  assumes "aesKeyOk key" "k \<in> set (roundKeys key)"
  shows "length k = 16"
proof -
  let ?nk = "length key div 4"
  have "\<forall>w \<in> set (chunks4 key). length w = 4"
    using chunks4_elem by blast
  then have w: "\<forall>w \<in> set (expandWords ?nk m (chunks4 key)). length w = 4" for m
    using assms(1) by (intro expandWords_length4) (auto simp: aesKeyOk_def length_chunks4)
  obtain c where c: "k = concat c" "c \<in> set (chunks4 (expandWords ?nk (4 * (?nk + 7) - ?nk) (chunks4 key)))"
    using assms(2) by (auto simp: roundKeys_def Let_def)
  then have "length c = 4" "\<forall>w \<in> set c. length w = 4"
    using chunks4_elem w by blast+
  then obtain p q r s where "c = [p, q, r, s]"
    by (auto simp: numeral_eq_Suc length_Suc_conv)
  then show ?thesis
    using c(1) \<open>\<forall>w \<in> set c. length w = 4\<close> by simp
qed

lemma length_aesEncrypt:
  assumes "aesKeyOk key" "length blk = 16"
  shows "length (aesEncrypt key blk) = 16"
proof (cases "roundKeys key")
  case (Cons k ks)
  then show ?thesis
    using assms roundKeys_length [OF assms(1)] by (simp add: aesEncrypt_def length_encRounds)
qed (simp add: aesEncrypt_def assms)

theorem aesDecrypt_aesEncrypt:
  assumes "aesKeyOk key" "length blk = 16"
  shows "aesDecrypt key (aesEncrypt key blk) = blk"
proof (cases "roundKeys key")
  case (Cons k ks)
  then show ?thesis
    using assms roundKeys_length [OF assms(1)]
    by (simp add: aesEncrypt_def aesDecrypt_def decRounds_encRounds xorBytes_cancel)
qed (simp add: aesEncrypt_def aesDecrypt_def)

end
