(* ===== verification/KV_Cipher_Modes.thy ===== *)
theory KV_Cipher_Modes
  imports KV_AES
begin

text \<open>
  The modes of operation of \<open>crypto/cipher\<close> over the AES block cipher: cipher block chaining
  (\<open>NewCBCEncrypter\<close>, \<open>NewCBCDecrypter\<close>) for the A128CBC and A256CBC algorithms of symmetric
  keys, and Galois counter mode (\<open>NewGCM\<close>, \<open>Seal\<close>, \<open>Open\<close>, with a 12 byte nonce, a 16 byte
  tag and no additional data) for secret values at rest. Both are shown to invert.
\<close>

unbundle bit_operations_syntax

section \<open>Cipher block chaining\<close>

function cbcEncrypt :: "bytes \<Rightarrow> bytes \<Rightarrow> bytes \<Rightarrow> bytes" where
  "cbcEncrypt key prev src =
     (if src = [] then []
      else (let c = aesEncrypt key (xorBytes (take 16 src) prev)
            in c @ cbcEncrypt key c (drop 16 src)))"
  by pat_completeness auto
termination
  by (relation "measure (\<lambda>(key, prev, src). length src)") auto

function cbcDecrypt :: "bytes \<Rightarrow> bytes \<Rightarrow> bytes \<Rightarrow> bytes" where
  "cbcDecrypt key prev src =
     (if src = [] then []
      else xorBytes (aesDecrypt key (take 16 src)) prev @ cbcDecrypt key (take 16 src) (drop 16 src))"
  by pat_completeness auto
termination
  by (relation "measure (\<lambda>(key, prev, src). length src)") auto

declare cbcEncrypt.simps [simp del] cbcDecrypt.simps [simp del]

section \<open>Galois counter mode\<close>

text \<open>Big-endian bytes of a word, and back.\<close>

definition beBytes :: "nat \<Rightarrow> 'a::len word \<Rightarrow> bytes" where
  "beBytes sz w = map (\<lambda>i. ucast (drop_bit (8 * (sz - 1 - i)) w)) [0..<sz]"

definition beWord :: "bytes \<Rightarrow> 'a::len word" where
  "beWord bs = foldl (\<lambda>w b. push_bit 8 w OR ucast b) 0 bs"

definition gmulStep :: "128 word \<Rightarrow> nat \<Rightarrow> 128 word \<times> 128 word \<Rightarrow> 128 word \<times> 128 word" where
  "gmulStep x i zv =
     (case zv of (z, v) \<Rightarrow>
        (if bit x (127 - i) then z XOR v else z,
         drop_bit 1 v XOR (if bit v 0 then push_bit 120 225 else 0)))"

definition gmul :: "128 word \<Rightarrow> 128 word \<Rightarrow> 128 word" where
  "gmul x y = fst (fold (gmulStep x) [0..<128] (0, y))"

definition pad16 :: "bytes \<Rightarrow> bytes" where
  "pad16 bs = bs @ replicate ((16 - length bs mod 16) mod 16) 0"

function ghashBlocks :: "128 word \<Rightarrow> 128 word \<Rightarrow> bytes \<Rightarrow> 128 word" where
  "ghashBlocks h y bs =
     (if bs = [] then y
      else ghashBlocks h (gmul (y XOR beWord (take 16 bs)) h) (drop 16 bs))"
  by pat_completeness auto
termination
  by (relation "measure (\<lambda>(h, y, bs). length bs)") auto

function gctr :: "bytes \<Rightarrow> bytes \<Rightarrow> 32 word \<Rightarrow> bytes \<Rightarrow> bytes" where
  "gctr key nonce n src =
     (if src = [] then []
      else xorBytes (take 16 src) (aesEncrypt key (nonce @ beBytes 4 n))
           @ gctr key nonce (n + 1) (drop 16 src))"
  by pat_completeness auto
termination
  by (relation "measure (\<lambda>(key, nonce, n, src). length src)") auto

declare ghashBlocks.simps [simp del] gctr.simps [simp del]

definition gcmTag :: "bytes \<Rightarrow> bytes \<Rightarrow> bytes \<Rightarrow> bytes" where
  "gcmTag key nonce ct =
     (let h = beWord (aesEncrypt key (replicate 16 0));
          s = ghashBlocks h 0
                (pad16 ct @ beBytes 8 (0 :: 64 word) @ beBytes 8 (word_of_nat (8 * length ct) :: 64 word))
      in xorBytes (beBytes 16 s) (aesEncrypt key (nonce @ beBytes 4 (1 :: 32 word))))"

definition gcmSeal :: "bytes \<Rightarrow> bytes \<Rightarrow> bytes \<Rightarrow> bytes" where
  "gcmSeal key nonce plaintext =
     (let ct = gctr key nonce 2 plaintext in ct @ gcmTag key nonce ct)"

definition gcmOpen :: "bytes \<Rightarrow> bytes \<Rightarrow> bytes \<Rightarrow> bytes res" where
  "gcmOpen key nonce data =
     (if length data < 16 then Inl (PlainErr ''cipher: message authentication failed'')
      else
        (let ct = take (length data - 16) data
         in if drop (length data - 16) data = gcmTag key nonce ct
            then Inr (gctr key nonce 2 ct)
            else Inl (PlainErr ''cipher: message authentication failed'')))"

section \<open>Decryption inverts encryption\<close>

lemma length_beBytes [simp]: "length (beBytes sz w) = sz"
  by (simp add: beBytes_def)

lemma cbcEncrypt_Nil [simp]: "cbcEncrypt key prev [] = []"
  by (simp add: cbcEncrypt.simps)

lemma cbcDecrypt_Nil [simp]: "cbcDecrypt key prev [] = []"
  by (simp add: cbcDecrypt.simps)

lemma cbcDecrypt_block:
  "length c = 16 \<Longrightarrow>
    cbcDecrypt key prev (c @ rest) = xorBytes (aesDecrypt key c) prev @ cbcDecrypt key c rest"
  by (subst cbcDecrypt.simps) (auto simp: Let_def)

lemma cbcDecrypt_cbcEncrypt:
  "aesKeyOk key \<Longrightarrow> length prev = 16 \<Longrightarrow> 16 dvd length src \<Longrightarrow>
    cbcDecrypt key prev (cbcEncrypt key prev src) = src"
proof (induction key prev src rule: cbcEncrypt.induct)
  case (1 key prev src)
  show ?case
  proof (cases "src = []")
    case False
    let ?b = "take 16 src"
    let ?c = "aesEncrypt key (xorBytes ?b prev)"
    have len: "length ?b = 16" "16 dvd length (drop 16 src)"
      using False "1.prems"(3) by (auto dest: dvd_imp_le)
    have c: "length ?c = 16"
      using "1.prems" len by (simp add: length_aesEncrypt)
    have "cbcDecrypt key ?c (cbcEncrypt key ?c (drop 16 src)) = drop 16 src"
      using "1.IH" [OF False refl] "1.prems"(1) c len(2) by simp
    moreover have "xorBytes (aesDecrypt key ?c) prev = ?b"
      using "1.prems" len(1) by (simp add: aesDecrypt_aesEncrypt xorBytes_cancel)
    ultimately show ?thesis
      using False c by (simp add: cbcEncrypt.simps [of key prev src] Let_def cbcDecrypt_block)
  qed simp
qed

lemma length_cbcEncrypt:
  "aesKeyOk key \<Longrightarrow> length prev = 16 \<Longrightarrow> 16 dvd length src \<Longrightarrow>
    length (cbcEncrypt key prev src) = length src"
proof (induction key prev src rule: cbcEncrypt.induct)
  case (1 key prev src)
  show ?case
  proof (cases "src = []")
    case False
    let ?c = "aesEncrypt key (xorBytes (take 16 src) prev)"
    have len: "16 \<le> length src" "16 dvd length (drop 16 src)"
      using False "1.prems"(3) by (auto dest: dvd_imp_le)
    have c: "length ?c = 16"
      using "1.prems" len by (simp add: length_aesEncrypt)
    then have "length (cbcEncrypt key ?c (drop 16 src)) = length (drop 16 src)"
      using "1.IH" [OF False refl] "1.prems"(1) len(2) by simp
    with False c len(1) show ?thesis
      by (simp add: cbcEncrypt.simps [of key prev src] Let_def)
  qed simp
qed

lemma gctr_Nil [simp]: "gctr key nonce n [] = []"
  by (simp add: gctr.simps)

lemma gctr_gctr:
  assumes "aesKeyOk key" "length nonce = 12"
  shows "gctr key nonce n (gctr key nonce n src) = src"
  using assms
proof (induction key nonce n src rule: gctr.induct)
  case (1 key nonce n src)
  let ?k = "aesEncrypt key (nonce @ beBytes 4 n)"
  let ?x = "xorBytes (take 16 src) ?k"
  have k: "length ?k = 16"
    using "1.prems" by (simp add: length_aesEncrypt)
  then have x: "length ?x = min 16 (length src)"
    by (simp add: min.commute)
  show ?case
  proof (cases "src = []")
    case False
    let ?r = "gctr key nonce (n + 1) (drop 16 src)"
    have IH: "gctr key nonce (n + 1) ?r = drop 16 src"
      using "1.IH" [OF False "1.prems"] .
    have split: "take 16 (?x @ ?r) = ?x" "drop 16 (?x @ ?r) = ?r"
      using x by (cases "length src \<le> 16"; simp)+
    have src: "gctr key nonce n src = ?x @ ?r"
      using False by (simp add: gctr.simps [of key nonce n src])
    have "length ?x \<noteq> 0"
      using x False by (cases src) simp_all
    then have ne: "?x @ ?r \<noteq> []"
      by (metis append_is_Nil_conv list.size(3))
    have "xorBytes ?x ?k = take 16 src"
      using k by (intro xorBytes_cancel) simp
    then have "gctr key nonce n (?x @ ?r) = take 16 src @ drop 16 src"
      by (simp only: gctr.simps [of key nonce n "?x @ ?r"] ne split IH if_False)
    with src show ?thesis
      by simp
  qed simp
qed

lemma length_gcmTag: "aesKeyOk key \<Longrightarrow> length nonce = 12 \<Longrightarrow> length (gcmTag key nonce ct) = 16"
  by (simp add: gcmTag_def Let_def length_aesEncrypt)

theorem gcmOpen_gcmSeal:
  assumes "aesKeyOk key" "length nonce = 12"
  shows "gcmOpen key nonce (gcmSeal key nonce plaintext) = Inr plaintext"
  using length_gcmTag [OF assms] by (simp add: gcmOpen_def gcmSeal_def Let_def gctr_gctr [OF assms])

lemma length_gctr:
  assumes "aesKeyOk key" "length nonce = 12"
  shows "length (gctr key nonce n src) = length src"
  using assms
proof (induction key nonce n src rule: gctr.induct)
  case (1 key nonce n src)
  show ?case
  proof (cases "src = []")
    case False
    then have "length (gctr key nonce (n + 1) (drop 16 src)) = length (drop 16 src)"
      using "1" by simp
    moreover have "length (aesEncrypt key (nonce @ beBytes 4 n)) = 16"
      using "1.prems" by (simp add: length_aesEncrypt)
    ultimately show ?thesis
      using False by (simp add: gctr.simps [of key nonce n src])
  qed simp
qed

end
