(* ===== verification/KV_Crypto_Keys.thy ===== *)
theory KV_Crypto_Keys
  imports KV_Model KV_Cipher_Modes
begin

text \<open>
  Key generation, key import and the cryptographic operations of
  \<open>src/internal/crypto/keys.go\<close>. The symmetric side (AES-CBC with PKCS#7 padding, RFC 3394 key
  wrapping) is computed down to the bytes. The RSA and ECDSA primitives of the Go standard
  library are the fields of the record \<open>prims\<close>, together with the random source; a property
  that needs one of their laws names it as a hypothesis.
\<close>

unbundle bit_operations_syntax

section \<open>Keys and primitives of the standard library\<close>

record rsa_PublicKey =
  pub_N :: nat
  pub_E :: int

record rsa_PrivateKey =
  priv_PublicKey :: rsa_PublicKey
  priv_D :: nat
  priv_Primes :: "nat list"

datatype curve = P256 | P384 | P521

definition bitSize :: "curve \<Rightarrow> nat" where
  "bitSize c = (case c of P256 \<Rightarrow> 256 | P384 \<Rightarrow> 384 | P521 \<Rightarrow> 521)"

record ecdsa_PublicKey =
  ec_Curve :: curve
  ec_X :: nat
  ec_Y :: nat

record ecdsa_PrivateKey =
  ecp_PublicKey :: ecdsa_PublicKey
  ecp_D :: nat

datatype hash = NoHash | SHA1 | SHA256 | SHA384 | SHA512

text \<open>
  One field per library call. The result of a call that draws random bytes is one possible
  outcome; \<open>p_randRead n\<close> is the outcome of filling a buffer of \<open>n\<close> bytes.
\<close>

record prims =
  p_randRead :: "nat \<Rightarrow> bytes res"
  p_rsaGenerateKey :: "int \<Rightarrow> rsa_PrivateKey res"
  p_ecdsaGenerateKey :: "curve \<Rightarrow> ecdsa_PrivateKey res"
  p_EncryptOAEP :: "hash \<Rightarrow> rsa_PublicKey \<Rightarrow> bytes \<Rightarrow> bytes res"
  p_DecryptOAEP :: "hash \<Rightarrow> rsa_PrivateKey \<Rightarrow> bytes \<Rightarrow> bytes res"
  p_EncryptPKCS1v15 :: "rsa_PublicKey \<Rightarrow> bytes \<Rightarrow> bytes res"
  p_DecryptPKCS1v15 :: "rsa_PrivateKey \<Rightarrow> bytes \<Rightarrow> bytes res"
  p_SignPSS :: "hash \<Rightarrow> rsa_PrivateKey \<Rightarrow> bytes \<Rightarrow> bytes res"
  p_SignPKCS1v15 :: "hash \<Rightarrow> rsa_PrivateKey \<Rightarrow> bytes \<Rightarrow> bytes res"
  p_VerifyPSS :: "hash \<Rightarrow> rsa_PublicKey \<Rightarrow> bytes \<Rightarrow> bytes \<Rightarrow> bool"
  p_VerifyPKCS1v15 :: "hash \<Rightarrow> rsa_PublicKey \<Rightarrow> bytes \<Rightarrow> bytes \<Rightarrow> bool"
  p_ecdsaSign :: "ecdsa_PrivateKey \<Rightarrow> bytes \<Rightarrow> (nat \<times> nat) res"
  p_ecdsaVerify :: "ecdsa_PublicKey \<Rightarrow> bytes \<Rightarrow> nat \<Rightarrow> nat \<Rightarrow> bool"

record KeyMaterial =
  km_RSA :: "rsa_PrivateKey option"
  km_ECDSA :: "ecdsa_PrivateKey option"
  km_AES :: "bytes option"
  km_RSAPub :: "rsa_PublicKey option"
  km_ECDSAPub :: "ecdsa_PublicKey option"

definition emptyMaterial :: KeyMaterial where
  "emptyMaterial = \<lparr>km_RSA = None, km_ECDSA = None, km_AES = None, km_RSAPub = None, km_ECDSAPub = None\<rparr>"

text \<open>The slice \<open>material.AES\<close> as an argument: a nil slice has length 0.\<close>

definition aesOf :: "KeyMaterial \<Rightarrow> bytes" where
  "aesOf m = (case km_AES m of None \<Rightarrow> [] | Some k \<Rightarrow> k)"

text \<open>The error of a base64 decoder; the byte position in its text is not modelled.\<close>

definition b64Error :: goerr where
  "b64Error = PlainErr ''illegal base64 data at input byte''"

definition ofOption :: "goerr \<Rightarrow> 'a option \<Rightarrow> 'a res" where
  "ofOption e x = (case x of None \<Rightarrow> Inl e | Some v \<Rightarrow> Inr v)"

text \<open>
  \<open>make([]byte, n)\<close> panics for a length that is negative or beyond the address space (2 to the
  48 on 64-bit Linux).
\<close>

definition makeBytes :: "int \<Rightarrow> nat res" where
  "makeBytes n =
     (if n < 0 \<or> n > 2 ^ 48 then Inl (Panic ''runtime error: makeslice: len out of range'')
      else Inr (nat n))"

section \<open>JSON web keys\<close>

definition RSAToJWK :: "string \<Rightarrow> string \<Rightarrow> string list \<Rightarrow> rsa_PublicKey \<Rightarrow> JSONWebKey" where
  "RSAToJWK kid kty ops pub = emptyJWK\<lparr>
     jwk_Kid := kid, jwk_Kty := kty, jwk_KeyOps := ops,
     jwk_N := EncodeBase64URL (bigBytes (pub_N pub)),
     jwk_E := EncodeBase64URL (bigBytes (nat \<bar>pub_E pub\<bar>))\<rparr>"

definition coordSize :: "curve \<Rightarrow> nat" where
  "coordSize c = (bitSize c + 7) div 8"

definition ECDSAToJWK ::
  "string \<Rightarrow> string \<Rightarrow> string list \<Rightarrow> string \<Rightarrow> ecdsa_PublicKey \<Rightarrow> JSONWebKey" where
  "ECDSAToJWK kid kty ops crv pub =
     (let sz = coordSize (ec_Curve pub)
      in emptyJWK\<lparr>
        jwk_Kid := kid, jwk_Kty := kty, jwk_KeyOps := ops, jwk_Crv := crv,
        jwk_X := EncodeBase64URL (padBytes (bigBytes (ec_X pub)) sz),
        jwk_Y := EncodeBase64URL (padBytes (bigBytes (ec_Y pub)) sz)\<rparr>)"

definition SymmetricToJWK :: "string \<Rightarrow> string \<Rightarrow> string list \<Rightarrow> bytes option \<Rightarrow> JSONWebKey" where
  "SymmetricToJWK kid kty ops key =
     (let jwk = emptyJWK\<lparr>jwk_Kid := kid, jwk_Kty := kty, jwk_KeyOps := ops\<rparr>
      in case key of None \<Rightarrow> jwk | Some k \<Rightarrow> jwk\<lparr>jwk_K := EncodeBase64URL k\<rparr>)"

definition resolveCurve :: "string \<Rightarrow> (curve \<times> string) res" where
  "resolveCurve crv =
     (if crv = [] \<or> crv = ''P-256'' then Inr (P256, ''P-256'')
      else if crv = ''P-384'' then Inr (P384, ''P-384'')
      else if crv = ''P-521'' then Inr (P521, ''P-521'')
      else Inl (PlainErr (''unsupported curve '' @ quote crv)))"

definition rsaHash :: "string \<Rightarrow> (hash \<times> bool) res" where
  "rsaHash alg =
     (if alg = ''RS256'' then Inr (SHA256, False)
      else if alg = ''RS384'' then Inr (SHA384, False)
      else if alg = ''RS512'' then Inr (SHA512, False)
      else if alg = ''PS256'' then Inr (SHA256, True)
      else if alg = ''PS384'' then Inr (SHA384, True)
      else if alg = ''PS512'' then Inr (SHA512, True)
      else Inl (PlainErr (''unsupported signing algorithm '' @ quote alg)))"

definition HashForAlg :: "string \<Rightarrow> hash" where
  "HashForAlg alg =
     (if alg \<in> {''RS256'', ''PS256'', ''ES256''} then SHA256
      else if alg \<in> {''RS384'', ''PS384'', ''ES384''} then SHA384
      else if alg \<in> {''RS512'', ''PS512'', ''ES512''} then SHA512
      else NoHash)"

section \<open>Key generation and import\<close>

definition GenerateKey ::
  "prims \<Rightarrow> string \<Rightarrow> int \<Rightarrow> string \<Rightarrow> string \<Rightarrow> string list \<Rightarrow> (KeyMaterial \<times> JSONWebKey) res" where
  "GenerateKey P kty keySize crv kid keyOps =
     (if kty = ''RSA'' \<or> kty = ''RSA-HSM'' then
        (let keySize = (if keySize = 0 then 2048 else keySize)
         in rbind (p_rsaGenerateKey P keySize) (\<lambda>priv.
              Inr (emptyMaterial\<lparr>km_RSA := Some priv, km_RSAPub := Some (priv_PublicKey priv)\<rparr>,
                   RSAToJWK kid kty keyOps (priv_PublicKey priv))))
      else if kty = ''EC'' \<or> kty = ''EC-HSM'' then
        rbind (resolveCurve crv) (\<lambda>(cv, resolvedCrv).
          rbind (p_ecdsaGenerateKey P cv) (\<lambda>priv.
            Inr (emptyMaterial\<lparr>km_ECDSA := Some priv, km_ECDSAPub := Some (ecp_PublicKey priv)\<rparr>,
                 ECDSAToJWK kid kty keyOps resolvedCrv (ecp_PublicKey priv))))
      else if kty = ''oct'' \<or> kty = ''oct-HSM'' then
        (let keySize = (if keySize = 0 then 256 else keySize)
         in if keySize mod 8 \<noteq> 0 then Inl (PlainErr ''invalid symmetric key size'')
            else rbind (makeBytes (keySize div 8)) (\<lambda>n.
                   rbind (p_randRead P n) (\<lambda>buf.
                     Inr (emptyMaterial\<lparr>km_AES := Some buf\<rparr>, SymmetricToJWK kid kty keyOps None))))
      else Inl (PlainErr (''unsupported key type '' @ quote kty)))"

definition importOct :: "JSONWebKey \<Rightarrow> string \<Rightarrow> (KeyMaterial \<times> JSONWebKey) res" where
  "importOct jwk kid =
     (if jwk_K jwk = [] then Inl (PlainErr ''missing key material'')
      else rbind (ofOption b64Error (DecodeBase64URL (jwk_K jwk))) (\<lambda>key.
             Inr (emptyMaterial\<lparr>km_AES := Some key\<rparr>,
                  SymmetricToJWK kid (jwk_Kty jwk) (jwk_KeyOps jwk) None)))"

definition bigOf :: "string \<Rightarrow> nat res" where
  "bigOf value = ofOption b64Error (decodeBigInt value)"

definition importRSA :: "JSONWebKey \<Rightarrow> string \<Rightarrow> (KeyMaterial \<times> JSONWebKey) res" where
  "importRSA jwk kid =
     (if jwk_N jwk = [] \<or> jwk_E jwk = [] then Inl (PlainErr ''missing rsa modulus or exponent'')
      else rbind (bigOf (jwk_N jwk)) (\<lambda>n.
           rbind (bigOf (jwk_E jwk)) (\<lambda>eBig.
             if eBig \<le> 1 then Inl (PlainErr ''invalid rsa exponent'')
             else if eBig > 2 ^ 63 - 1 then Inl (PlainErr ''rsa exponent out of range'')
             else
               (let pub = \<lparr>pub_N = n, pub_E = int eBig\<rparr>;
                    material = emptyMaterial\<lparr>km_RSAPub := Some pub\<rparr>;
                    out = RSAToJWK kid (jwk_Kty jwk) (jwk_KeyOps jwk) pub
                in if jwk_D jwk = [] then Inr (material, out)
                   else rbind (bigOf (jwk_D jwk)) (\<lambda>d.
                     if jwk_P jwk \<noteq> [] \<and> jwk_Q jwk \<noteq> [] then
                       rbind (bigOf (jwk_P jwk)) (\<lambda>p. rbind (bigOf (jwk_Q jwk)) (\<lambda>q.
                         Inr (material\<lparr>km_RSA :=
                           Some \<lparr>priv_PublicKey = pub, priv_D = d, priv_Primes = [p, q]\<rparr>\<rparr>, out)))
                     else
                       Inr (material\<lparr>km_RSA :=
                         Some \<lparr>priv_PublicKey = pub, priv_D = d, priv_Primes = []\<rparr>\<rparr>, out))))))"

definition importEC :: "JSONWebKey \<Rightarrow> string \<Rightarrow> (KeyMaterial \<times> JSONWebKey) res" where
  "importEC jwk kid =
     rbind (resolveCurve (jwk_Crv jwk)) (\<lambda>(cv, resolvedCrv).
       if jwk_X jwk = [] \<or> jwk_Y jwk = [] then Inl (PlainErr ''missing ec coordinates'')
       else rbind (bigOf (jwk_X jwk)) (\<lambda>x. rbind (bigOf (jwk_Y jwk)) (\<lambda>y.
         (let pub = \<lparr>ec_Curve = cv, ec_X = x, ec_Y = y\<rparr>;
              material = emptyMaterial\<lparr>km_ECDSAPub := Some pub\<rparr>;
              out = ECDSAToJWK kid (jwk_Kty jwk) (jwk_KeyOps jwk) resolvedCrv pub
          in if jwk_D jwk = [] then Inr (material, out)
             else rbind (bigOf (jwk_D jwk)) (\<lambda>d.
               Inr (material\<lparr>km_ECDSA := Some \<lparr>ecp_PublicKey = pub, ecp_D = d\<rparr>\<rparr>, out))))))"

definition ImportKeyMaterial :: "JSONWebKey \<Rightarrow> string \<Rightarrow> (KeyMaterial \<times> JSONWebKey) res" where
  "ImportKeyMaterial jwk kid =
     (if jwk_Kty jwk = ''oct'' \<or> jwk_Kty jwk = ''oct-HSM'' then importOct jwk kid
      else if jwk_Kty jwk = ''RSA'' \<or> jwk_Kty jwk = ''RSA-HSM'' then importRSA jwk kid
      else if jwk_Kty jwk = ''EC'' \<or> jwk_Kty jwk = ''EC-HSM'' then importEC jwk kid
      else Inl (PlainErr (''unsupported key type '' @ quote (jwk_Kty jwk))))"

end
