(* ===== verification/KV_Crypto_Ops.thy ===== *)
theory KV_Crypto_Ops
  imports KV_Crypto_Keys
begin

text \<open>
  The operations of \<open>src/internal/crypto/keys.go\<close> on key material: PKCS#7 padding, AES-CBC,
  AES key wrapping, and the dispatching functions Encrypt, Decrypt, Sign, Verify, Wrap and
  Unwrap, followed by the proofs that decrypting, unwrapping, unpadding and verifying undo
  encrypting, wrapping, padding and signing.
\<close>

unbundle bit_operations_syntax

section \<open>Padding\<close>

definition pkcs7Pad :: "bytes \<Rightarrow> nat \<Rightarrow> bytes" where
  "pkcs7Pad data blockSize =
     (let padLen = blockSize - length data mod blockSize
      in data @ replicate padLen (word_of_nat padLen))"

definition pkcs7Unpad :: "bytes \<Rightarrow> nat \<Rightarrow> bytes res" where
  "pkcs7Unpad data blockSize =
     (if data = [] \<or> length data mod blockSize \<noteq> 0 then Inl (PlainErr ''invalid padded data'')
      else
        (let padLen = unat (last data)
         in if padLen = 0 \<or> blockSize < padLen \<or> length data < padLen
            then Inl (PlainErr ''invalid padding'')
            else if list_all (\<lambda>b. unat b = padLen) (drop (length data - padLen) data)
            then Inr (take (length data - padLen) data)
            else Inl (PlainErr ''invalid padding'')))"

section \<open>AES-CBC\<close>

definition selectAESKey :: "bytes \<Rightarrow> string \<Rightarrow> bytes res" where
  "selectAESKey key alg =
     (let sized = (\<lambda>sz. if length key \<noteq> sz
            then Inl (PlainErr (''algorithm '' @ alg @ '' requires a '' @ itoa (int sz) @ ''-byte key''))
            else Inr key)
      in if alg = ''A128CBC'' \<or> alg = ''A128CBCPAD'' \<or> alg = ''A128KW'' then sized 16
         else if alg = ''A192KW'' then sized 24
         else if alg = ''A256CBC'' \<or> alg = ''A256CBCPAD'' \<or> alg = ''A256KW'' then sized 32
         else Inl (PlainErr (''unsupported symmetric algorithm '' @ quote alg)))"

definition encryptCBC :: "prims \<Rightarrow> bytes \<Rightarrow> string \<Rightarrow> bytes \<Rightarrow> bytes \<Rightarrow> (bytes \<times> bytes) res" where
  "encryptCBC P key alg plaintext iv0 =
     rbind (if iv0 = [] then p_randRead P 16 else Inr iv0) (\<lambda>iv.
       if length iv \<noteq> 16 then Inl (PlainErr ''iv must be 16 bytes'')
       else rbind (selectAESKey key alg) (\<lambda>key.
            rbind (aesNewCipher key) (\<lambda>_.
              if hasSuffix alg ''PAD''
              then Inr (cbcEncrypt key iv (pkcs7Pad plaintext 16), iv)
              else if length plaintext mod 16 \<noteq> 0
              then Inl (PlainErr ''plaintext size must be a multiple of 16 bytes'')
              else Inr (cbcEncrypt key iv plaintext, iv))))"

definition decryptCBC :: "bytes \<Rightarrow> string \<Rightarrow> bytes \<Rightarrow> bytes \<Rightarrow> (bytes \<times> bytes) res" where
  "decryptCBC key alg ciphertext iv =
     (if length iv \<noteq> 16 then Inl (PlainErr ''iv must be 16 bytes'')
      else if length ciphertext mod 16 \<noteq> 0
      then Inl (PlainErr ''ciphertext size must be a multiple of 16 bytes'')
      else rbind (selectAESKey key alg) (\<lambda>key.
           rbind (aesNewCipher key) (\<lambda>_.
             (let out = cbcDecrypt key iv ciphertext
              in if hasSuffix alg ''PAD''
                 then rbind (pkcs7Unpad out 16) (\<lambda>out. Inr (out, iv))
                 else Inr (out, iv)))))"

section \<open>AES key wrapping\<close>

definition mapKWAlg :: "nat \<Rightarrow> string" where
  "mapKWAlg keyLen =
     (if keyLen = 16 then ''A128KW'' else if keyLen = 24 then ''A192KW'' else ''A256KW'')"

text \<open>The loop of \<open>xor64\<close>: byte \<open>7 - i\<close> takes the low byte of \<open>t\<close>, then \<open>t\<close> is shifted.\<close>

definition xor64 :: "bytes \<Rightarrow> 64 word \<Rightarrow> bytes" where
  "xor64 inp t =
     fst (fold (\<lambda>i (out, t). (out[7 - i := out ! (7 - i) XOR ucast (t AND 255)], drop_bit 8 t))
       [0..<8] (inp, t))"

function chunks8 :: "bytes \<Rightarrow> bytes list" where
  "chunks8 bs = (if bs = [] then [] else take 8 bs # chunks8 (drop 8 bs))"
  by pat_completeness auto
termination
  by (relation "measure length") auto

declare chunks8.simps [simp del]

definition kwIV :: bytes where
  "kwIV = replicate 8 166"

text \<open>
  One pass of the loop body, for the loop variables \<open>j\<close> and \<open>i\<close>, and the order in which the
  two nested loops run through them; unwrapping runs through the same pairs backwards.
\<close>

definition kwSteps :: "nat \<Rightarrow> (nat \<times> nat) list" where
  "kwSteps n = List.product [0..<6] [0..<n]"

definition wrapStep :: "bytes \<Rightarrow> nat \<Rightarrow> nat \<times> nat \<Rightarrow> bytes \<times> bytes list \<Rightarrow> bytes \<times> bytes list" where
  "wrapStep kek n ji ar =
     (case (ji, ar) of ((j, i), (a, r)) \<Rightarrow>
        (let buf = aesEncrypt kek (a @ r ! i); t = word_of_nat (n * j + i + 1)
         in (xor64 (take 8 buf) t, r[i := drop 8 buf])))"

definition unwrapStep :: "bytes \<Rightarrow> nat \<Rightarrow> nat \<times> nat \<Rightarrow> bytes \<times> bytes list \<Rightarrow> bytes \<times> bytes list" where
  "unwrapStep kek n ji ar =
     (case (ji, ar) of ((j, i), (a, r)) \<Rightarrow>
        (let t = word_of_nat (n * j + i + 1); buf = aesDecrypt kek (xor64 a t @ r ! i)
         in (take 8 buf, r[i := drop 8 buf])))"

definition aesKeyWrap :: "bytes \<Rightarrow> bytes \<Rightarrow> bytes res" where
  "aesKeyWrap kek plaintext =
     rbind (selectAESKey kek (mapKWAlg (length kek))) (\<lambda>_.
       if plaintext = [] \<or> length plaintext mod 8 \<noteq> 0
       then Inl (PlainErr ''plaintext must be a non-empty multiple of 8 bytes'')
       else rbind (aesNewCipher kek) (\<lambda>_.
         (let n = length plaintext div 8;
              (a, r) = fold (wrapStep kek n) (kwSteps n) (kwIV, chunks8 plaintext)
          in Inr (a @ concat r))))"

definition aesKeyUnwrap :: "bytes \<Rightarrow> bytes \<Rightarrow> bytes res" where
  "aesKeyUnwrap kek ciphertext =
     rbind (selectAESKey kek (mapKWAlg (length kek))) (\<lambda>_.
       if length ciphertext < 16 \<or> length ciphertext mod 8 \<noteq> 0
       then Inl (PlainErr ''ciphertext must be at least 16 bytes and a multiple of 8'')
       else rbind (aesNewCipher kek) (\<lambda>_.
         (let n = length ciphertext div 8 - 1;
              (a, r) = fold (unwrapStep kek n) (rev (kwSteps n))
                         (take 8 ciphertext, chunks8 (drop 8 ciphertext))
          in if a \<noteq> kwIV then Inl (PlainErr ''integrity check failed'') else Inr (concat r))))"

section \<open>Operations on key material\<close>

definition rsaPubOf :: "KeyMaterial \<Rightarrow> rsa_PublicKey option" where
  "rsaPubOf m = (case km_RSA m of Some priv \<Rightarrow> Some (priv_PublicKey priv) | None \<Rightarrow> km_RSAPub m)"

definition ecPubOf :: "KeyMaterial \<Rightarrow> ecdsa_PublicKey option" where
  "ecPubOf m = (case km_ECDSA m of Some priv \<Rightarrow> Some (ecp_PublicKey priv) | None \<Rightarrow> km_ECDSAPub m)"

definition noIV :: "bytes res \<Rightarrow> (bytes \<times> bytes) res" where
  "noIV r = rbind r (\<lambda>out. Inr (out, []))"

definition cryptEncrypt ::
  "prims \<Rightarrow> KeyMaterial \<Rightarrow> string \<Rightarrow> string \<Rightarrow> bytes \<Rightarrow> bytes \<Rightarrow> (bytes \<times> bytes) res" where
  "cryptEncrypt P material kty alg plaintext iv =
     (if hasPrefix kty ''RSA'' then
        (case rsaPubOf material of
           None \<Rightarrow> Inl (PlainErr ''rsa public key not available'')
         | Some pub \<Rightarrow>
             if alg = ''RSA-OAEP'' then noIV (p_EncryptOAEP P SHA1 pub plaintext)
             else if alg = ''RSA-OAEP-256'' then noIV (p_EncryptOAEP P SHA256 pub plaintext)
             else if alg = ''RSA1_5'' then noIV (p_EncryptPKCS1v15 P pub plaintext)
             else Inl (PlainErr (''unsupported encrypt algorithm '' @ quote alg)))
      else if hasPrefix kty ''oct'' then encryptCBC P (aesOf material) alg plaintext iv
      else Inl (PlainErr (''encrypt not supported for '' @ quote kty)))"

definition cryptDecrypt ::
  "prims \<Rightarrow> KeyMaterial \<Rightarrow> string \<Rightarrow> string \<Rightarrow> bytes \<Rightarrow> bytes \<Rightarrow> (bytes \<times> bytes) res" where
  "cryptDecrypt P material kty alg ciphertext iv =
     (if hasPrefix kty ''RSA'' then
        (case km_RSA material of
           None \<Rightarrow> Inl (PlainErr ''rsa private key not available'')
         | Some priv \<Rightarrow>
             if alg = ''RSA-OAEP'' then noIV (p_DecryptOAEP P SHA1 priv ciphertext)
             else if alg = ''RSA-OAEP-256'' then noIV (p_DecryptOAEP P SHA256 priv ciphertext)
             else if alg = ''RSA1_5'' then noIV (p_DecryptPKCS1v15 P priv ciphertext)
             else Inl (PlainErr (''unsupported decrypt algorithm '' @ quote alg)))
      else if hasPrefix kty ''oct'' then decryptCBC (aesOf material) alg ciphertext iv
      else Inl (PlainErr (''decrypt not supported for '' @ quote kty)))"

definition cryptSign :: "prims \<Rightarrow> KeyMaterial \<Rightarrow> string \<Rightarrow> string \<Rightarrow> bytes \<Rightarrow> bytes res" where
  "cryptSign P material kty alg digest =
     (if hasPrefix kty ''RSA'' then
        (case km_RSA material of
           None \<Rightarrow> Inl (PlainErr ''rsa private key not available'')
         | Some priv \<Rightarrow>
             rbind (rsaHash alg) (\<lambda>(h, pss).
               if pss then p_SignPSS P h priv digest else p_SignPKCS1v15 P h priv digest))
      else if hasPrefix kty ''EC'' then
        (case km_ECDSA material of
           None \<Rightarrow> Inl (PlainErr ''ecdsa private key not available'')
         | Some priv \<Rightarrow>
             (let sz = coordSize (ec_Curve (ecp_PublicKey priv))
              in rbind (p_ecdsaSign P priv digest) (\<lambda>(r, s).
                   Inr (padBytes (bigBytes r) sz @ padBytes (bigBytes s) sz))))
      else Inl (PlainErr (''sign not supported for '' @ quote kty)))"

definition cryptVerify :: "prims \<Rightarrow> KeyMaterial \<Rightarrow> string \<Rightarrow> string \<Rightarrow> bytes \<Rightarrow> bytes \<Rightarrow> bool res" where
  "cryptVerify P material kty alg digest signature =
     (if hasPrefix kty ''RSA'' then
        (case rsaPubOf material of
           None \<Rightarrow> Inl (PlainErr ''rsa public key not available'')
         | Some pub \<Rightarrow>
             rbind (rsaHash alg) (\<lambda>(h, pss).
               Inr (if pss then p_VerifyPSS P h pub digest signature
                    else p_VerifyPKCS1v15 P h pub digest signature)))
      else if hasPrefix kty ''EC'' then
        (case ecPubOf material of
           None \<Rightarrow> Inl (PlainErr ''ecdsa public key not available'')
         | Some pub \<Rightarrow>
             (let sz = coordSize (ec_Curve pub)
              in if length signature \<noteq> sz * 2 then Inr False
                 else Inr (p_ecdsaVerify P pub digest
                        (setBytes (take sz signature)) (setBytes (drop sz signature)))))
      else Inl (PlainErr (''verify not supported for '' @ quote kty)))"

definition cryptWrap :: "prims \<Rightarrow> KeyMaterial \<Rightarrow> string \<Rightarrow> string \<Rightarrow> bytes \<Rightarrow> bytes res" where
  "cryptWrap P material kty alg plaintext =
     (if hasPrefix kty ''RSA''
      then rbind (cryptEncrypt P material kty alg plaintext []) (\<lambda>(out, _). Inr out)
      else if hasPrefix kty ''oct'' then aesKeyWrap (aesOf material) plaintext
      else Inl (PlainErr (''wrap not supported for '' @ quote kty)))"

definition cryptUnwrap :: "prims \<Rightarrow> KeyMaterial \<Rightarrow> string \<Rightarrow> string \<Rightarrow> bytes \<Rightarrow> bytes res" where
  "cryptUnwrap P material kty alg ciphertext =
     (if hasPrefix kty ''RSA''
      then rbind (cryptDecrypt P material kty alg ciphertext []) (\<lambda>(out, _). Inr out)
      else if hasPrefix kty ''oct'' then aesKeyUnwrap (aesOf material) ciphertext
      else Inl (PlainErr (''unwrap not supported for '' @ quote kty)))"

section \<open>Unpadding and unwrapping invert padding and wrapping\<close>

lemma pkcs7Unpad_pkcs7Pad:
  assumes "0 < n" "n < 256"
  shows "pkcs7Unpad (pkcs7Pad data n) n = Inr data"
proof -
  define p where "p = n - length data mod n"
  have p: "0 < p" "p \<le> n"
    using assms(1) by (simp_all add: p_def)
  then have u: "unat (word_of_nat p :: byte) = p"
    using assms(2) by (simp add: unat_of_nat)
  have pad: "pkcs7Pad data n = data @ replicate p (word_of_nat p)"
    by (simp add: pkcs7Pad_def p_def Let_def)
  have "(length data + p) mod n = (length data mod n + p) mod n"
    by (simp add: mod_add_left_eq)
  also have "length data mod n + p = n"
    using assms(1) by (simp add: p_def)
  finally have "(length data + p) mod n = 0"
    by simp
  then show ?thesis
    using p u by (simp add: pkcs7Unpad_def pad Let_def list_all_iff)
qed

lemma length_pkcs7Pad: "0 < n \<Longrightarrow> length (pkcs7Pad data n) mod n = 0"
proof -
  assume "0 < n"
  have "(length data + (n - length data mod n)) mod n = (length data mod n + (n - length data mod n)) mod n"
    by (simp add: mod_add_left_eq)
  also have "length data mod n + (n - length data mod n) = n"
    using \<open>0 < n\<close> by simp
  finally show ?thesis by (simp add: pkcs7Pad_def Let_def)
qed

lemma pkcs7Pad_pkcs7Unpad:
  assumes "pkcs7Unpad padded n = Inr data" "0 < n" "n < 256"
  shows "pkcs7Pad data n = padded"
proof -
  define p where "p = unat (last padded)"
  have p: "p \<noteq> 0" "p \<le> n" "p \<le> length padded" "length padded mod n = 0"
    "\<forall>b \<in> set (drop (length padded - p) padded). unat b = p"
    and d: "data = take (length padded - p) padded"
    using assms(1) unfolding pkcs7Unpad_def Let_def p_def [symmetric] list_all_iff guard_Inr
    by auto
  have "drop (length padded - p) padded = replicate p (word_of_nat p)"
  proof (rule replicate_eqI)
    fix b assume "b \<in> set (drop (length padded - p) padded)"
    with p(5) have "p = unat b"
      by simp
    then show "b = word_of_nat p"
      by simp
  qed (use p(3) in simp)
  moreover have "n - (length padded - p) mod n = p"
  proof -
    obtain k where k: "length padded = n * k"
      using p(4) by auto
    have "k \<noteq> 0"
      using k p(1,3) by (cases k) auto
    then obtain k' where "k = Suc k'"
      by (cases k) auto
    then have e: "length padded - p = n * k' + (n - p)"
      using k p(2) by simp
    have "(length padded - p) mod n = (n - p) mod n" unfolding e by simp
    also have "\<dots> = n - p" using p(1) assms(2) by simp
    finally show ?thesis using p(2) by simp
  qed
  ultimately show ?thesis
    using append_take_drop_id [of "length padded - p" padded] p(3)
    by (simp add: pkcs7Pad_def d Let_def)
qed

lemma length_xor64_fold:
  "length (fst (fold (\<lambda>i (out, t). (out[7 - i := f out i t], drop_bit 8 t)) is (inp, t :: 64 word))) = length inp"
  by (induction "is" arbitrary: inp t) auto

lemma length_xor64 [simp]: "length (xor64 inp t) = length inp"
  unfolding xor64_def by (rule length_xor64_fold)

lemma xor64_xor64: 
  assumes "length inp = 8"
  shows "xor64 (xor64 inp t) t = inp"
proof -
  obtain a b c d e f g h where "inp = [a, b, c, d, e, f, g, h]"
    using assms by (auto simp: length_Suc_conv eval_nat_numeral)
  then show ?thesis
    by (simp add: xor64_def upt_rec xor.assoc)
qed

lemma wrapStep_length:
  assumes "aesKeyOk kek" "length a = 8" "i < length r" "\<forall>b \<in> set r. length b = 8"
    "wrapStep kek n (j, i) (a, r) = (a', r')"
  shows "length a' = 8 \<and> length r' = length r \<and> (\<forall>b \<in> set r'. length b = 8)"
proof -
  have "length (aesEncrypt kek (a @ r ! i)) = 16"
    using assms(1-4) by (intro length_aesEncrypt) auto
  then show ?thesis
    using assms(4,5) set_update_subset_insert [of r i] by (fastforce simp: wrapStep_def Let_def)
qed

lemma unwrapStep_wrapStep:
  assumes "aesKeyOk kek" "length a = 8" "i < length r" "\<forall>b \<in> set r. length b = 8"
  shows "unwrapStep kek n (j, i) (wrapStep kek n (j, i) (a, r)) = (a, r)"
proof -
  have 8: "length (r ! i) = 8"
    using assms(3,4) by simp
  have "length (aesEncrypt kek (a @ r ! i)) = 16"
    using assms(1,2) 8 by (intro length_aesEncrypt) auto
  moreover have "aesDecrypt kek (aesEncrypt kek (a @ r ! i)) = a @ r ! i"
    using assms(1,2) 8 by (intro aesDecrypt_aesEncrypt) auto
  ultimately show ?thesis
    using assms(2,3) by (simp add: wrapStep_def unwrapStep_def Let_def xor64_xor64)
qed

lemma unwrap_wrap_fold:
  assumes "aesKeyOk kek" "length a = 8" "\<forall>b \<in> set r. length b = 8" "\<forall>(j, i) \<in> set js. i < length r"
  shows "fold (unwrapStep kek n) (rev js) (fold (wrapStep kek n) js (a, r)) = (a, r)
    \<and> length (fst (fold (wrapStep kek n) js (a, r))) = 8
    \<and> length (snd (fold (wrapStep kek n) js (a, r))) = length r
    \<and> (\<forall>b \<in> set (snd (fold (wrapStep kek n) js (a, r))). length b = 8)"
  using assms(2-4)
proof (induction js arbitrary: a r)
  case (Cons ji js)
  obtain j i where ji: "ji = (j, i)"
    by (cases ji)
  obtain a' r' where w: "wrapStep kek n (j, i) (a, r) = (a', r')"
    by (cases "wrapStep kek n (j, i) (a, r)")
  have i: "i < length r"
    using Cons.prems ji by simp
  note l = wrapStep_length [OF assms(1) Cons.prems(1) i Cons.prems(2) w]
  have "unwrapStep kek n (j, i) (a', r') = (a, r)"
    using unwrapStep_wrapStep [OF assms(1) Cons.prems(1) i Cons.prems(2), of n j] w by simp
  with Cons.IH [of a' r'] l Cons.prems(3) w ji show ?case by simp
qed simp

lemma chunks8_Nil [simp]: "chunks8 [] = []"
  by (simp add: chunks8.simps)

lemma chunks8_concat: "\<forall>b \<in> set r. length b = 8 \<Longrightarrow> chunks8 (concat r) = r"
proof (induction r)
  case (Cons b r)
  then have "b \<noteq> []"
    by auto
  with Cons show ?case by (simp add: chunks8.simps [of "b @ concat r"])
qed simp

lemma chunks8_props: "8 dvd length bs \<Longrightarrow>
  concat (chunks8 bs) = bs \<and> length (chunks8 bs) = length bs div 8 \<and> (\<forall>b \<in> set (chunks8 bs). length b = 8)"
proof (induction bs rule: chunks8.induct)
  case (1 bs)
  show ?case
  proof (cases "bs = []")
    case False
    obtain k where k: "length bs = 8 * Suc k"
      using 1(2) False by (metis dvdE length_0_conv mult_0_right not0_implies_Suc)
    have c: "chunks8 bs = take 8 bs # chunks8 (drop 8 bs)"
      using False by (simp add: chunks8.simps [of bs])
    have d: "length (drop 8 bs) = 8 * k"
      by (simp add: k)
    show ?thesis
      using 1(1) [OF False] d k unfolding c by (simp del: length_drop)
  qed simp
qed

lemma selectAESKey_KW: "selectAESKey kek (mapKWAlg (length kek)) = Inr kek' \<Longrightarrow> aesKeyOk kek"
  by (auto simp: selectAESKey_def mapKWAlg_def aesKeyOk_def Let_def split: if_splits)

lemma length_concat8: "\<forall>b \<in> set r. length b = 8 \<Longrightarrow> length (concat r) = 8 * length r"
  by (induction r) auto

lemma kwSteps_bound: "(j, i) \<in> set (kwSteps n) \<Longrightarrow> i < n"
  by (auto simp: kwSteps_def)

theorem aesKeyUnwrap_aesKeyWrap:
  assumes "aesKeyWrap kek plaintext = Inr ct"
  shows "aesKeyUnwrap kek ct = Inr plaintext \<and> length ct = length plaintext + 8"
proof -
  define n where "n = length plaintext div 8"
  define r where "r = chunks8 plaintext"
  obtain a' r' where w: "fold (wrapStep kek n) (kwSteps n) (kwIV, r) = (a', r')"
    by (cases "fold (wrapStep kek n) (kwSteps n) (kwIV, r)")
  have pre: "selectAESKey kek (mapKWAlg (length kek)) = Inr kek" "plaintext \<noteq> []" "8 dvd length plaintext"
    "aesNewCipher kek = Inr ()" and ct: "ct = a' @ concat r'"
    using assms w by (auto simp: aesKeyWrap_def rbind_Inr_iff n_def r_def Let_def selectAESKey_def split: if_splits prod.splits)
  have kek: "aesKeyOk kek"
    using pre(1) by (rule selectAESKey_KW)
  have r: "concat r = plaintext" "length r = n" "\<forall>b \<in> set r. length b = 8"
    using chunks8_props [OF pre(3)] by (simp_all add: r_def n_def)
  have n: "0 < n"
    using pre(2,3) by (auto simp: n_def dvd_imp_le div_greater_zero_iff)
  have "length kwIV = 8"
    by (simp add: kwIV_def)
  moreover have "\<forall>(j, i) \<in> set (kwSteps n). i < length r"
    using kwSteps_bound r(2) by auto
  ultimately have f: "fold (unwrapStep kek n) (rev (kwSteps n)) (a', r') = (kwIV, r)"
    and l: "length a' = 8" "length r' = n" "\<forall>b \<in> set r'. length b = 8"
    using unwrap_wrap_fold [OF kek _ r(3), of kwIV "kwSteps n" n] w r(2) by simp_all
  have len: "length ct = 8 + 8 * n"
    using ct l by (simp add: length_concat8)
  then show ?thesis
    using pre ct l n f r n_def
    by (auto simp: aesKeyUnwrap_def chunks8_concat Let_def)
qed

section \<open>Round trips of the operations\<close>

lemma selectAESKey_Inr: "selectAESKey key alg = Inr key' \<Longrightarrow> key' = key \<and> aesKeyOk key"
  by (auto simp: selectAESKey_def aesKeyOk_def Let_def split: if_splits)

lemma decryptCBC_encryptCBC:
  assumes "encryptCBC P key alg plaintext iv0 = Inr (ct, iv)"
  shows "decryptCBC key alg ct iv = Inr (plaintext, iv)"
proof -
  define padded where "padded = (if hasSuffix alg ''PAD'' then pkcs7Pad plaintext 16 else plaintext)"
  have iv: "length iv = 16" and sel: "selectAESKey key alg = Inr key" and new: "aesNewCipher key = Inr ()"
    and ct: "ct = cbcEncrypt key iv padded" and len: "16 dvd length padded"
    using assms selectAESKey_Inr [of key alg] length_pkcs7Pad [of 16 plaintext]
    unfolding encryptCBC_def rbind_Inr_iff padded_def guard_Inr dvd_eq_mod_eq_0
    by (cases "hasSuffix alg ''PAD''"; clarsimp simp: guard_Inr)+
  have key: "aesKeyOk key"
    using selectAESKey_Inr [OF sel] by simp
  show ?thesis
    using iv sel new len key
    by (simp add: decryptCBC_def ct cbcDecrypt_cbcEncrypt length_cbcEncrypt Let_def)
      (simp add: padded_def pkcs7Unpad_pkcs7Pad)
qed

text \<open>Encrypting with a symmetric key always succeeds on well-formed inputs\<close>

lemma encryptCBC_total:
  assumes "selectAESKey key alg = Inr key'" "length iv = 16"
    "hasSuffix alg ''PAD'' \<or> length plaintext mod 16 = 0"
  shows "\<exists>ct. encryptCBC P key alg plaintext iv = Inr (ct, iv)"
  using assms selectAESKey_Inr [OF assms(1)]
  by (cases iv) (auto simp: encryptCBC_def aesNewCipher_def rbind_Inr_iff)

lemma cryptDecrypt_cryptEncrypt_oct:
  assumes "hasPrefix kty ''oct''" "cryptEncrypt P m kty alg plaintext iv0 = Inr (ct, iv)"
  shows "cryptDecrypt P' m kty alg ct iv = Inr (plaintext, iv)"
proof -
  have "\<not> hasPrefix kty ''RSA''"
    using assms(1) by (auto simp: hasPrefix_def split: list.splits)
  then show ?thesis
    using assms by (simp add: cryptEncrypt_def cryptDecrypt_def decryptCBC_encryptCBC)
qed

lemma aesKeyWrap_total:
  assumes "aesKeyOk kek" "plaintext \<noteq> []" "length plaintext mod 8 = 0"
  shows "\<exists>ct. aesKeyWrap kek plaintext = Inr ct"
  using assms
  by (auto simp: aesKeyWrap_def selectAESKey_def mapKWAlg_def aesKeyOk_def aesNewCipher_def Let_def
      rbind_Inr_iff split: prod.splits)

text \<open>The documented law of rsa.DecryptOAEP ...\<close>

definition rsa_law :: "prims \<Rightarrow> rsa_PrivateKey \<Rightarrow> bool" where
  "rsa_law P priv \<longleftrightarrow>
     (\<forall>h pt ct. p_EncryptOAEP P h (priv_PublicKey priv) pt = Inr ct \<longrightarrow> p_DecryptOAEP P h priv ct = Inr pt) \<and>
     (\<forall>pt ct. p_EncryptPKCS1v15 P (priv_PublicKey priv) pt = Inr ct \<longrightarrow> p_DecryptPKCS1v15 P priv ct = Inr pt)"

definition sign_law :: "prims \<Rightarrow> KeyMaterial \<Rightarrow> bool" where
  "sign_law P m \<longleftrightarrow>
     (\<forall>priv h d s. km_RSA m = Some priv \<longrightarrow>
        (p_SignPSS P h priv d = Inr s \<longrightarrow> p_VerifyPSS P h (priv_PublicKey priv) d s) \<and>
        (p_SignPKCS1v15 P h priv d = Inr s \<longrightarrow> p_VerifyPKCS1v15 P h (priv_PublicKey priv) d s)) \<and>
     (\<forall>priv d r s. km_ECDSA m = Some priv \<longrightarrow> p_ecdsaSign P priv d = Inr (r, s) \<longrightarrow>
        p_ecdsaVerify P (ecp_PublicKey priv) d r s \<and>
        r < 2 ^ bitSize (ec_Curve (ecp_PublicKey priv)) \<and> s < 2 ^ bitSize (ec_Curve (ecp_PublicKey priv)))"

lemma coord_fits: "x < 2 ^ bitSize c \<Longrightarrow> length (padBytes (bigBytes x) (coordSize c)) = coordSize c"
proof -
  assume x: "x < 2 ^ bitSize c"
  have "(2::nat) ^ bitSize c \<le> 2 ^ (8 * coordSize c)"
    by (cases c) (simp_all add: bitSize_def coordSize_def)
  also have "\<dots> = 256 ^ coordSize c"
    by (simp add: power_mult)
  finally have "length (bigBytes x) \<le> coordSize c"
    using x by (intro length_bigBytes_le) simp
  then show ?thesis
    by (simp add: length_padBytes)
qed

lemma cryptVerify_cryptSign:
  assumes "sign_law P m" "cryptSign P m kty alg digest = Inr sig"
  shows "cryptVerify P m kty alg digest sig = Inr True"
proof -
  consider (rsa) priv where "hasPrefix kty ''RSA''" "km_RSA m = Some priv"
    | (ec) priv where "\<not> hasPrefix kty ''RSA''" "hasPrefix kty ''EC''" "km_ECDSA m = Some priv"
    using assms(2) by (auto simp: cryptSign_def split: if_splits option.splits)
  then show ?thesis
  proof cases
    case rsa
    then show ?thesis
      using assms unfolding sign_law_def
      by (cases "rsaHash alg") (auto simp: cryptSign_def cryptVerify_def rsaPubOf_def split: if_splits)
  next
    case ec
    let ?c = "ec_Curve (ecp_PublicKey priv)"
    obtain r s where rs: "p_ecdsaSign P priv digest = Inr (r, s)"
      and sig: "sig = padBytes (bigBytes r) (coordSize ?c) @ padBytes (bigBytes s) (coordSize ?c)"
      using assms(2) ec by (auto simp: cryptSign_def rbind_Inr_iff Let_def)
    then have "p_ecdsaVerify P (ecp_PublicKey priv) digest r s" "r < 2 ^ bitSize ?c" "s < 2 ^ bitSize ?c"
      using assms(1) ec(3) unfolding sign_law_def by blast+
    then show ?thesis
      using ec sig by (simp add: cryptVerify_def ecPubOf_def coord_fits)
  qed
qed

lemma cryptDecrypt_cryptEncrypt_rsa:
  assumes "km_RSA m = Some priv" "rsa_law P priv" "hasPrefix kty ''RSA''"
    "cryptEncrypt P m kty alg plaintext iv = Inr (ct, iv')"
  shows "cryptDecrypt P m kty alg ct iv' = Inr (plaintext, [])"
  using assms
  by (auto simp: cryptEncrypt_def cryptDecrypt_def rsaPubOf_def noIV_def rbind_Inr_iff rsa_law_def split: if_splits)

lemma cryptUnwrap_cryptWrap:
  assumes "\<And>priv. km_RSA m = Some priv \<Longrightarrow> rsa_law P priv" "hasPrefix kty ''RSA'' \<Longrightarrow> km_RSA m \<noteq> None"
    "cryptWrap P m kty alg plaintext = Inr ct"
  shows "cryptUnwrap P m kty alg ct = Inr plaintext"
proof (cases "hasPrefix kty ''RSA''")
  case True
  then obtain priv iv where priv: "km_RSA m = Some priv"
    and "cryptEncrypt P m kty alg plaintext [] = Inr (ct, iv)"
    using assms(2,3) by (auto simp: cryptWrap_def rbind_Inr_iff)
  moreover from this(2) have "iv = []" using True
    by (auto simp: cryptEncrypt_def noIV_def rbind_Inr_iff split: if_splits option.splits)
  ultimately show ?thesis
    using True cryptDecrypt_cryptEncrypt_rsa [OF priv assms(1) [OF priv] True] by (simp add: cryptUnwrap_def)
next
  case False
  then show ?thesis
    using assms(3) aesKeyUnwrap_aesKeyWrap by (auto simp: cryptWrap_def cryptUnwrap_def split: if_splits)
qed

lemma jwk_constructors_public:
  "jwk_D (RSAToJWK kid kty ops pub) = []" "jwk_K (RSAToJWK kid kty ops pub) = []"
  "jwk_D (ECDSAToJWK kid kty ops crv epub) = []" "jwk_K (ECDSAToJWK kid kty ops crv epub) = []"
  by (simp_all add: RSAToJWK_def ECDSAToJWK_def emptyJWK_def Let_def)

definition publicJWK :: "JSONWebKey \<Rightarrow> bool" where
  "publicJWK k \<longleftrightarrow> jwk_D k = [] \<and> jwk_P k = [] \<and> jwk_Q k = [] \<and> jwk_DP k = [] \<and> jwk_DQ k = [] \<and>
     jwk_QI k = [] \<and> jwk_K k = []"

lemma publicJWK_simps [simp]:
  "publicJWK (RSAToJWK kid kty ops pub)" "publicJWK (ECDSAToJWK kid kty ops crv epub)"
  "publicJWK (SymmetricToJWK kid kty ops None)"
  by (simp_all add: publicJWK_def RSAToJWK_def ECDSAToJWK_def SymmetricToJWK_def emptyJWK_def Let_def)

lemma jwk_kid_kty [simp]:
  "jwk_Kid (RSAToJWK kid kty ops pub) = kid" "jwk_Kid (ECDSAToJWK kid kty ops crv epub) = kid"
  "jwk_Kid (SymmetricToJWK kid kty ops k) = kid"
  "jwk_Kty (RSAToJWK kid kty ops pub) = kty" "jwk_Kty (ECDSAToJWK kid kty ops crv epub) = kty"
  "jwk_Kty (SymmetricToJWK kid kty ops k) = kty"
  "jwk_KeyOps (RSAToJWK kid kty ops pub) = ops" "jwk_KeyOps (ECDSAToJWK kid kty ops crv epub) = ops"
  "jwk_KeyOps (SymmetricToJWK kid kty ops k) = ops"
  by (simp_all add: RSAToJWK_def ECDSAToJWK_def SymmetricToJWK_def emptyJWK_def Let_def split: option.splits)

text \<open>The shapes of what generation and import return.\<close>

definition material_for :: "string \<Rightarrow> KeyMaterial \<Rightarrow> bool" where
  "material_for kty m \<longleftrightarrow>
     (if kty = ''RSA'' \<or> kty = ''RSA-HSM'' then
        km_ECDSA m = None \<and> km_ECDSAPub m = None \<and> km_AES m = None \<and>
        (case km_RSAPub m of
           None \<Rightarrow> False
         | Some pub \<Rightarrow> (case km_RSA m of None \<Rightarrow> True | Some priv \<Rightarrow> priv_PublicKey priv = pub))
      else if kty = ''EC'' \<or> kty = ''EC-HSM'' then
        km_RSA m = None \<and> km_RSAPub m = None \<and> km_AES m = None \<and>
        (case km_ECDSAPub m of
           None \<Rightarrow> False
         | Some pub \<Rightarrow> (case km_ECDSA m of None \<Rightarrow> True | Some priv \<Rightarrow> ecp_PublicKey priv = pub))
      else (kty = ''oct'' \<or> kty = ''oct-HSM'') \<and> km_RSA m = None \<and> km_RSAPub m = None \<and>
        km_ECDSA m = None \<and> km_ECDSAPub m = None \<and> km_AES m \<noteq> None)"

lemma importOct_Inr:
  assumes "importOct jwk kid = Inr (m, out)"
  shows "\<exists>key. m = emptyMaterial\<lparr>km_AES := Some key\<rparr>"
    "out = SymmetricToJWK kid (jwk_Kty jwk) (jwk_KeyOps jwk) None"
  using assms by (auto simp: importOct_def rbind_Inr_iff guard_Inr)

lemma importRSA_Inr:
  assumes "importRSA jwk kid = Inr (m, out)"
  shows "\<exists>pub priv. m = emptyMaterial\<lparr>km_RSAPub := Some pub, km_RSA := priv\<rparr> \<and>
       (case priv of None \<Rightarrow> True | Some p \<Rightarrow> priv_PublicKey p = pub) \<and>
       out = RSAToJWK kid (jwk_Kty jwk) (jwk_KeyOps jwk) pub"
  using assms
  by (auto simp: importRSA_def rbind_Inr_iff guard_Inr Let_def emptyMaterial_def split: if_split_asm)

lemma importEC_Inr:
  assumes "importEC jwk kid = Inr (m, out)"
  shows "\<exists>crv pub priv. m = emptyMaterial\<lparr>km_ECDSAPub := Some pub, km_ECDSA := priv\<rparr> \<and>
       (case priv of None \<Rightarrow> True | Some p \<Rightarrow> ecp_PublicKey p = pub) \<and>
       out = ECDSAToJWK kid (jwk_Kty jwk) (jwk_KeyOps jwk) crv pub"
  using assms
  by (auto simp: importEC_def rbind_Inr_iff guard_Inr Let_def emptyMaterial_def split: if_split_asm)

lemma kty_cases:
  obtains (oct) "kty = ''oct'' \<or> kty = ''oct-HSM''" | (rsa) "kty = ''RSA'' \<or> kty = ''RSA-HSM''"
  | (ec) "kty = ''EC'' \<or> kty = ''EC-HSM''"
  | (other) "kty \<notin> {''oct'', ''oct-HSM'', ''RSA'', ''RSA-HSM'', ''EC'', ''EC-HSM''}"
  by auto

lemma ImportKeyMaterial_Inr:
  assumes "ImportKeyMaterial jwk kid = Inr (m, out)"
  shows "publicJWK out \<and> jwk_Kid out = kid \<and> jwk_Kty out = jwk_Kty jwk \<and>
    jwk_KeyOps out = jwk_KeyOps jwk \<and> material_for (jwk_Kty jwk) m"
proof (cases "jwk_Kty jwk" rule: kty_cases)
  case oct
  then have "importOct jwk kid = Inr (m, out)"
    using assms by (simp add: ImportKeyMaterial_def)
  from importOct_Inr [OF this] oct show ?thesis
    by (auto simp: material_for_def emptyMaterial_def)
next
  case rsa
  then have "importRSA jwk kid = Inr (m, out)"
    using assms by (auto simp: ImportKeyMaterial_def)
  from importRSA_Inr [OF this] rsa show ?thesis
    by (auto simp: material_for_def emptyMaterial_def)
next
  case ec
  then have "importEC jwk kid = Inr (m, out)"
    using assms by (auto simp: ImportKeyMaterial_def)
  from importEC_Inr [OF this] ec show ?thesis
    by (auto simp: material_for_def emptyMaterial_def)
next
  case other
  then show ?thesis
    using assms by (simp add: ImportKeyMaterial_def)
qed

lemma GenerateKey_Inr:
  assumes "GenerateKey P kty sz crv kid ops = Inr (m, jwk)"
  shows "publicJWK jwk \<and> jwk_Kid jwk = kid \<and> jwk_Kty jwk = kty \<and> jwk_KeyOps jwk = ops \<and>
    material_for kty m"
proof (cases kty rule: kty_cases)
  case oct
  define k where "k = (if sz = 0 then 256 else sz)"
  have "GenerateKey P kty sz crv kid ops =
      (if k mod 8 \<noteq> 0 then Inl (PlainErr ''invalid symmetric key size'')
       else rbind (makeBytes (k div 8)) (\<lambda>n. rbind (p_randRead P n) (\<lambda>buf.
              Inr (emptyMaterial\<lparr>km_AES := Some buf\<rparr>, SymmetricToJWK kid kty ops None))))"
    using oct unfolding GenerateKey_def Let_def k_def [symmetric] by (elim disjE) simp_all
  with assms obtain key where "m = emptyMaterial\<lparr>km_AES := Some key\<rparr>"
    and "jwk = SymmetricToJWK kid kty ops None"
    by (simp only: guard_Inr rbind_Inr_iff) blast
  then show ?thesis
    using oct by (elim disjE) (simp_all add: material_for_def emptyMaterial_def)
next
  case rsa
  then obtain priv where "m = emptyMaterial\<lparr>km_RSAPub := Some (priv_PublicKey priv), km_RSA := Some priv\<rparr>"
    "jwk = RSAToJWK kid kty ops (priv_PublicKey priv)"
    using assms by (auto simp: GenerateKey_def rbind_Inr_iff Let_def emptyMaterial_def)
  with rsa show ?thesis
    by (auto simp: material_for_def emptyMaterial_def)
next
  case ec
  then obtain crv' priv where "m = emptyMaterial\<lparr>km_ECDSAPub := Some (ecp_PublicKey priv), km_ECDSA := Some priv\<rparr>"
    "jwk = ECDSAToJWK kid kty ops crv' (ecp_PublicKey priv)"
    using assms by (auto simp: GenerateKey_def rbind_Inr_iff Let_def emptyMaterial_def)
  with ec show ?thesis
    by (auto simp: material_for_def emptyMaterial_def)
next
  case other
  then show ?thesis
    using assms by (simp add: GenerateKey_def)
qed

lemma import_exported_rsa:
  assumes "kty = ''RSA'' \<or> kty = ''RSA-HSM''" "1 < pub_E pub" "pub_E pub < 2 ^ 63" "0 < pub_N pub"
  shows "ImportKeyMaterial (RSAToJWK kid kty ops pub) kid' =
    Inr (emptyMaterial\<lparr>km_RSAPub := Some pub\<rparr>, RSAToJWK kid' kty ops pub)"
proof -
  define e where "e = nat \<bar>pub_E pub\<bar>"
  have e: "\<not> e \<le> 1" "\<not> e > 2 ^ 63 - 1" "int e = pub_E pub"
    using assms(2,3) by (simp_all add: e_def)
  have "jwk_N (RSAToJWK kid kty ops pub) = EncodeBase64URL (bigBytes (pub_N pub))"
    "jwk_E (RSAToJWK kid kty ops pub) = EncodeBase64URL (bigBytes e)" "jwk_D (RSAToJWK kid kty ops pub) = []"
    by (simp_all add: RSAToJWK_def e_def emptyJWK_def)
  then have "importRSA (RSAToJWK kid kty ops pub) kid' =
      Inr (emptyMaterial\<lparr>km_RSAPub := Some pub\<rparr>, RSAToJWK kid' kty ops pub)"
    using e assms(4) unfolding importRSA_def by (cases pub) (simp add: bigOf_def ofOption_def Let_def)
  with assms(1) show ?thesis
    by (auto simp: ImportKeyMaterial_def)
qed

lemma resolveCurve_name:
  "resolveCurve crv = Inr (c, name) \<Longrightarrow> name \<noteq> [] \<and> resolveCurve name = Inr (c, name)"
  by (auto simp: resolveCurve_def guard_Inr split: if_split_asm)

lemma import_exported_ec:
  assumes "kty = ''EC'' \<or> kty = ''EC-HSM''" "resolveCurve crv = Inr (ec_Curve pub, name)"
  shows "ImportKeyMaterial (ECDSAToJWK kid kty ops name pub) kid' =
    Inr (emptyMaterial\<lparr>km_ECDSAPub := Some pub\<rparr>, ECDSAToJWK kid' kty ops name pub)"
proof -
  have "coordSize (ec_Curve pub) \<noteq> 0" by (cases "ec_Curve pub") (simp_all add: coordSize_def bitSize_def)
  then have "padBytes b (coordSize (ec_Curve pub)) \<noteq> []" for b
    using length_padBytes [of b "coordSize (ec_Curve pub)"] by auto
  with assms resolveCurve_name [OF assms(2)] show ?thesis
    by (auto simp: ImportKeyMaterial_def importEC_def ECDSAToJWK_def emptyJWK_def bigOf_def ofOption_def decodeBigInt_def Let_def)
qed

lemma material_pub: "material_for kty m \<Longrightarrow> rsaPubOf m = km_RSAPub m \<and> ecPubOf m = km_ECDSAPub m"
  unfolding material_for_def rsaPubOf_def ecPubOf_def by (simp split: option.splits if_split_asm)

lemma GenerateKey_oct_negative:
  assumes "kty = ''oct'' \<or> kty = ''oct-HSM''" "sz < 0" "sz mod 8 = 0"
  shows "GenerateKey P kty sz crv kid ops = Inl (Panic ''runtime error: makeslice: len out of range'')"
proof -
  have "sz div 8 < 0"
    using assms(2) by (simp add: div_neg_pos_less0)
  then have "makeBytes (sz div 8) = Inl (Panic ''runtime error: makeslice: len out of range'')"
    by (simp add: makeBytes_def)
  with assms show ?thesis
    unfolding GenerateKey_def Let_def by (elim disjE) simp_all
qed

end
