(* ===== verification/KV_Json.thy ===== *)
theory KV_Json
  imports KV_Model
begin

text \<open>
  What a certificate policy becomes when \<open>clonePolicy\<close> (\<open>src/internal/store/certificates.go\<close>)
  sends it through \<open>json.Marshal\<close> and \<open>json.Unmarshal\<close>: every number comes back as a
  \<open>float64\<close>, bytes that are not UTF-8 come back as U+FFFD, object members are written in key
  order, and the empty maps and slices of an \<open>omitempty\<close> field come back as nil. The lemmas
  show that the copy is a normal form: copying twice is copying once.
\<close>

section \<open>UTF-8\<close>

definition byte_in :: "nat \<Rightarrow> nat \<Rightarrow> string \<Rightarrow> nat \<Rightarrow> bool" where
  "byte_in lo hi s i \<longleftrightarrow> i < length s \<and> lo \<le> of_char (s ! i) \<and> of_char (s ! i) \<le> hi"

text \<open>
  By its first byte, the length of a rune (0 for a byte that starts none) and the range of its
  second byte, as in the tables of package unicode/utf8.
\<close>

definition rune_class :: "nat \<Rightarrow> nat \<times> nat \<times> nat" where
  "rune_class b =
     (if b < 128 then (1, 0, 0) else if b < 194 then (0, 0, 0)
      else if b \<le> 223 then (2, 128, 191)
      else if b = 224 then (3, 160, 191) else if b = 237 then (3, 128, 159)
      else if b \<le> 239 then (3, 128, 191)
      else if b = 240 then (4, 144, 191) else if b \<le> 243 then (4, 128, 191)
      else if b = 244 then (4, 128, 143) else (0, 0, 0))"

text \<open>The length of the first rune of \<open>s\<close>, 0 if \<open>s\<close> is empty or does not start with one.\<close>

definition rune_ok :: "nat \<times> nat \<times> nat \<Rightarrow> string \<Rightarrow> bool" where
  "rune_ok c s \<longleftrightarrow>
     (case c of (n, lo, hi) \<Rightarrow>
        n \<le> length s \<and> (2 \<le> n \<longrightarrow> byte_in lo hi s 1) \<and> list_all (byte_in 128 191 s) [2..<n])"

definition rune_len :: "string \<Rightarrow> nat" where
  "rune_len s =
     (if s = [] then 0
      else if rune_ok (rune_class (of_char (hd s))) s then fst (rune_class (of_char (hd s))) else 0)"

definition fffd :: string where
  "fffd = [char_of (239::nat), char_of (191::nat), char_of (189::nat)]"

function toValidUTF8 :: "string \<Rightarrow> string" where
  "toValidUTF8 s =
     (if s = [] then []
      else if rune_len s = 0 then fffd @ toValidUTF8 (tl s)
      else take (rune_len s) s @ toValidUTF8 (drop (rune_len s) s))"
  by pat_completeness auto
termination
  by (relation "measure length") auto

declare toValidUTF8.simps [simp del]

section \<open>Values of type any through json.Marshal and json.Unmarshal\<close>

text \<open>
  An object is written in key order and read back member by member; of two keys that only
  differ in invalid bytes the later one wins. The order of the resulting list is that of the
  keys.
\<close>

definition jsonObj :: "(string \<times> goany) list \<Rightarrow> (string \<times> goany) list" where
  "jsonObj m = sort_key fst (fold (\<lambda>(k, v). mput (toValidUTF8 k) v) (sort_key fst m) [])"

primrec jsonAny :: "goany \<Rightarrow> goany" where
  "jsonAny ANil = ANil"
| "jsonAny (ABool b) = ABool b"
| "jsonAny (AInt n) = AFloat (of_int n)"
| "jsonAny (AFloat f) = AFloat f"
| "jsonAny (AStr s) = AStr (toValidUTF8 s)"
| "jsonAny (AArr xs) = AArr (map jsonAny xs)"
| "jsonAny (AObj m) = AObj (jsonObj (map (map_prod id jsonAny) m))"

definition jsonMap :: "(string \<times> goany) list \<Rightarrow> (string \<times> goany) list" where
  "jsonMap m = jsonObj (map (map_prod id jsonAny) m)"

text \<open>A map field tagged \<open>omitempty\<close>: nil and empty are left out and come back as nil.\<close>

definition jsonOmitMap :: "anymap \<Rightarrow> anymap" where
  "jsonOmitMap m = (case m of None \<Rightarrow> None | Some xs \<Rightarrow> if xs = [] then None else Some (jsonMap xs))"

definition clonePolicy :: "CertificatePolicy option \<Rightarrow> CertificatePolicy option" where
  "clonePolicy policy =
     (case policy of
        None \<Rightarrow> None
      | Some p \<Rightarrow> Some \<lparr>
          cp_ID = toValidUTF8 (cp_ID p),
          cp_Issuer = jsonOmitMap (cp_Issuer p),
          cp_KeyProps = jsonOmitMap (cp_KeyProps p),
          cp_SecretProps = jsonOmitMap (cp_SecretProps p),
          cp_X509Props = jsonOmitMap (cp_X509Props p),
          cp_LifetimeActions = map (map_option jsonMap) (cp_LifetimeActions p),
          cp_Attributes = jsonOmitMap (cp_Attributes p)\<rparr>)"

section \<open>The copy is a normal form\<close>

lemma rune_len_le: "rune_len s \<le> length s"
  by (auto simp: rune_len_def rune_ok_def split: prod.splits)

lemma byte_in_take: "i < n \<Longrightarrow> n \<le> length s \<Longrightarrow> byte_in lo hi (take n s @ t) i = byte_in lo hi s i"
  by (auto simp: byte_in_def nth_append)

lemma rune_len_take:
  assumes "rune_len s \<noteq> 0"
  shows "rune_len (take (rune_len s) s @ t) = rune_len s"
proof -
  obtain n lo hi where c: "rune_class (of_char (hd s)) = (n, lo, hi)"
    by (cases "rune_class (of_char (hd s))")
  have s: "s \<noteq> []" "rune_ok (n, lo, hi) s" and n: "rune_len s = n" "n \<noteq> 0"
    using assms c by (auto simp: rune_len_def split: if_splits)
  have hd: "hd (take n s @ t) = hd s"
    using s(1) n(2) by (cases s; cases n) auto
  have le: "n \<le> length s"
    using s(2) by (simp add: rune_ok_def)
  have "rune_ok (n, lo, hi) (take n s @ t)"
    using s(2) le n(2) by (auto simp: rune_ok_def byte_in_take list_all_iff)
  with s(1) n hd c show ?thesis
    by (simp add: rune_len_def [of "take n s @ t"])
qed

lemma toValidUTF8_Nil [simp]: "toValidUTF8 [] = []"
  by (simp add: toValidUTF8.simps)

lemma toValidUTF8_rune:
  assumes "rune_len v = length v" "v \<noteq> []"
  shows "toValidUTF8 (v @ t) = v @ toValidUTF8 t"
proof -
  have "rune_len (v @ t) = length v"
    using rune_len_take [of v t] assms by simp
  with assms(2) show ?thesis
    by (simp add: toValidUTF8.simps [of "v @ t"])
qed

lemma rune_len_fffd: "rune_len fffd = 3"
  by (simp add: rune_len_def rune_ok_def rune_class_def byte_in_def fffd_def of_char_of)

lemma toValidUTF8_idem [simp]: "toValidUTF8 (toValidUTF8 s) = toValidUTF8 s"
proof (induction s rule: toValidUTF8.induct)
  case (1 s)
  consider "s = []" | "s \<noteq> []" "rune_len s = 0" | "s \<noteq> []" "rune_len s \<noteq> 0"
    by blast
  then show ?case
  proof cases
    case 2
    have "toValidUTF8 (fffd @ toValidUTF8 (tl s)) = fffd @ toValidUTF8 (toValidUTF8 (tl s))"
      by (rule toValidUTF8_rune) (simp_all add: rune_len_fffd, simp_all add: fffd_def)
    with 2 "1.IH"(1) show ?thesis
      by (simp add: toValidUTF8.simps [of s])
  next
    case 3
    have "rune_len (take (rune_len s) s) = rune_len s"
      using rune_len_take [OF 3(2), of "[]"] by simp
    then have "toValidUTF8 (take (rune_len s) s @ toValidUTF8 (drop (rune_len s) s))
        = take (rune_len s) s @ toValidUTF8 (toValidUTF8 (drop (rune_len s) s))"
      using 3 rune_len_le [of s] by (intro toValidUTF8_rune) auto
    with 3 "1.IH"(2) show ?thesis
      by (simp add: toValidUTF8.simps [of s])
  qed simp
qed

lemma fold_mput_valid:
  assumes "\<And>k v. (k, v) \<in> set xs \<Longrightarrow> Q v"
  shows "(\<forall>(k, v) \<in> set acc. toValidUTF8 k = k \<and> Q v) \<Longrightarrow> map_ok acc \<Longrightarrow>
     (\<forall>(k, v) \<in> set (fold (\<lambda>(k, v). mput (toValidUTF8 k) v) xs acc). toValidUTF8 k = k \<and> Q v)
     \<and> map_ok (fold (\<lambda>(k, v). mput (toValidUTF8 k) v) xs acc)"
  using assms
proof (induction xs arbitrary: acc)
  case (Cons x xs)
  obtain k v where x: "x = (k, v)"
    by (cases x)
  have "set (mput (toValidUTF8 k) v acc) \<subseteq> insert (toValidUTF8 k, v) (set acc)"
    by (induction acc) auto
  then have "\<forall>(k, v) \<in> set (mput (toValidUTF8 k) v acc). toValidUTF8 k = k \<and> Q v"
    using Cons.prems x by auto
  then show ?case
    using Cons.IH [of "mput (toValidUTF8 k) v acc"] Cons.prems x by auto
qed simp

lemma jsonObj_props:
  assumes "\<And>k v. (k, v) \<in> set m \<Longrightarrow> Q v"
  shows "(k, v) \<in> set (jsonObj m) \<Longrightarrow> toValidUTF8 k = k \<and> Q v" "map_ok (jsonObj m)"
    "sorted (map fst (jsonObj m))"
proof -
  have "(k, v) \<in> set (sort_key fst m) \<Longrightarrow> Q v" for k v
    using assms by simp
  from fold_mput_valid [of "sort_key fst m" Q "[]", OF this]
  have *: "\<forall>(k, v) \<in> set (fold (\<lambda>(k, v). mput (toValidUTF8 k) v) (sort_key fst m) []).
      toValidUTF8 k = k \<and> Q v"
    and ok: "map_ok (fold (\<lambda>(k, v). mput (toValidUTF8 k) v) (sort_key fst m) [])"
    by auto
  show "(k, v) \<in> set (jsonObj m) \<Longrightarrow> toValidUTF8 k = k \<and> Q v"
    using * by (auto simp: jsonObj_def)
  show "map_ok (jsonObj m)"
    using ok by (simp add: jsonObj_def map_ok_def distinct_map)
  show "sorted (map fst (jsonObj m))"
    by (simp add: jsonObj_def)
qed

lemma jsonObj_fixpoint:
  assumes "map_ok m" "sorted (map fst m)" "\<And>k v. (k, v) \<in> set m \<Longrightarrow> toValidUTF8 k = k"
  shows "jsonObj m = m"
proof -
  have "fold (\<lambda>(k, v). mput (toValidUTF8 k) v) m [] = fold (\<lambda>(k, v). mput k v) m []"
    using assms(3) by (intro fold_cong) auto
  then show ?thesis
    using assms(1,2) by (simp add: jsonObj_def sort_key_id_if_sorted fold_mput_id)
qed

lemma jsonMap_fixpoint:
  assumes "\<And>k v. (k, v) \<in> set m \<Longrightarrow> jsonAny (jsonAny v) = jsonAny v"
  shows "jsonMap (jsonMap m) = jsonMap m"
proof -
  let ?r = "jsonMap m"
  have "(k, v) \<in> set (map (map_prod id jsonAny) m) \<Longrightarrow> jsonAny v = v" for k v
    using assms by auto
  note r = jsonObj_props [of "map (map_prod id jsonAny) m" "\<lambda>v. jsonAny v = v", OF this]
  then have "map_prod id jsonAny x = x" if "x \<in> set ?r" for x
    using that by (cases x) (simp add: jsonMap_def)
  then have "map (map_prod id jsonAny) ?r = ?r"
    by (rule map_idI)
  moreover have "jsonObj ?r = ?r"
    unfolding jsonMap_def using r by (intro jsonObj_fixpoint) auto
  ultimately show ?thesis
    by (simp add: jsonMap_def)
qed

lemma jsonAny_idem [simp]: "jsonAny (jsonAny v) = jsonAny v"
proof (induction v)
  case (AObj m)
  then have "jsonMap (jsonMap m) = jsonMap m"
    by (intro jsonMap_fixpoint) (force simp: snds.simps)
  then show ?case
    by (simp add: jsonMap_def)
qed auto

lemma jsonMap_idem [simp]: "jsonMap (jsonMap m) = jsonMap m"
  by (rule jsonMap_fixpoint) simp

lemma fold_mput_nonempty:
  "xs \<noteq> [] \<or> acc \<noteq> [] \<Longrightarrow> fold (\<lambda>(k, v). mput (f k) v) xs acc \<noteq> []"
  by (induction xs arbitrary: acc) (auto split: prod.splits)

lemma jsonMap_eq_Nil [simp]: "jsonMap m = [] \<longleftrightarrow> m = []"
  by (cases "m = []") (simp_all add: jsonMap_def jsonObj_def fold_mput_nonempty)

lemma jsonOmitMap_idem [simp]: "jsonOmitMap (jsonOmitMap m) = jsonOmitMap m"
  by (simp add: jsonOmitMap_def split: option.splits)

lemma clonePolicy_idem [simp, kv_clone]: "clonePolicy (clonePolicy p) = clonePolicy p"
  by (simp add: clonePolicy_def option.map_comp comp_def split: option.splits)

lemma clonePolicy_None [simp]: "clonePolicy p = None \<longleftrightarrow> p = None"
  by (simp add: clonePolicy_def split: option.splits)

end
