(* ===== verification/KV_Store_Base.thy ===== *)
theory KV_Store_Base
  imports KV_Json KV_Encoding
begin

text \<open>
  The helpers of \<open>src/internal/store/store.go\<close> that every kind of stored object shares: store
  errors, attributes, tags, version identifiers and pagination. The clock and the random source
  are inputs of the operations that read them, collected in the record \<open>env\<close>: \<open>env_now\<close> is the
  result of \<open>nowUnix\<close> and \<open>env_rand\<close> the outcome of the one 16-byte read of \<open>storeRandRead\<close>
  that the operation makes. An operation with more random inputs takes them as arguments.
\<close>

section \<open>Inputs from the environment\<close>

record env =
  env_now :: int
  env_rand :: "bytes res"

text \<open>The random source delivers its 16 bytes, the clock a time within 290 million years.\<close>

definition env_ok :: "env \<Rightarrow> bool" where
  "env_ok e \<longleftrightarrow> is_ok (env_rand e) \<and> \<bar>env_now e\<bar> < 2 ^ 62"

section \<open>Errors and constants\<close>

definition newError :: "int \<Rightarrow> string \<Rightarrow> string \<Rightarrow> goerr" where
  "newError status code message = StoreErr status code message"

abbreviation NewError :: "int \<Rightarrow> string \<Rightarrow> string \<Rightarrow> goerr" where
  "NewError \<equiv> newError"

definition recoveryLevel :: string where
  "recoveryLevel = ''Recoverable+Purgeable''"

definition recoverableDays :: int where
  "recoverableDays = 90"

definition purgeDelay :: int where
  "purgeDelay = recoverableDays * 24 * 60 * 60"

section \<open>Tags and attributes\<close>

definition cloneTags :: "tags \<Rightarrow> tags" where
  "cloneTags t =
     (case t of None \<Rightarrow> None | Some m \<Rightarrow> Some (fold (\<lambda>(k, v) out. mput k v out) m []))"

definition cloneAttributes :: "Attributes \<Rightarrow> Attributes" where
  "cloneAttributes inp =
     (let out = inp;
          out = (case Enabled inp of None \<Rightarrow> out | Some v \<Rightarrow> out\<lparr>Enabled := Some v\<rparr>);
          out = (case NotBefore inp of None \<Rightarrow> out | Some v \<Rightarrow> out\<lparr>NotBefore := Some v\<rparr>)
      in (case Expires inp of None \<Rightarrow> out | Some v \<Rightarrow> out\<lparr>Expires := Some v\<rparr>))"

definition overlayAttributes :: "Attributes \<Rightarrow> Attributes option \<Rightarrow> Attributes" where
  "overlayAttributes attrs input =
     (case input of
        None \<Rightarrow> attrs
      | Some i \<Rightarrow>
          (let attrs = (case Enabled i of None \<Rightarrow> attrs | Some v \<Rightarrow> attrs\<lparr>Enabled := Some v\<rparr>);
               attrs = (case NotBefore i of None \<Rightarrow> attrs | Some v \<Rightarrow> attrs\<lparr>NotBefore := Some v\<rparr>)
           in (case Expires i of None \<Rightarrow> attrs | Some v \<Rightarrow> attrs\<lparr>Expires := Some v\<rparr>)))"

definition buildAttributes :: "Attributes option \<Rightarrow> int \<Rightarrow> int \<Rightarrow> Attributes" where
  "buildAttributes input created updated =
     overlayAttributes
       \<lparr>Enabled = None, NotBefore = None, Expires = None, Created = created, Updated = updated,
        RecoveryLevel = recoveryLevel, RecoverableDays = recoverableDays\<rparr> input"

definition mergeAttributes :: "int \<Rightarrow> Attributes \<Rightarrow> Attributes option \<Rightarrow> Attributes" where
  "mergeAttributes now current patch =
     (overlayAttributes (cloneAttributes current) patch)
       \<lparr>Updated := now, RecoveryLevel := recoveryLevel, RecoverableDays := recoverableDays\<rparr>"

section \<open>Identifiers\<close>

definition newVersion :: "env \<Rightarrow> string res" where
  "newVersion e =
     (case env_rand e of
        Inl err \<Rightarrow> Inl (Panic (''failed to generate version id: '' @ err_msg err))
      | Inr buf \<Rightarrow> Inr (hexEncode buf))"

definition newRecoveryID :: "env \<Rightarrow> string \<Rightarrow> string \<Rightarrow> string res" where
  "newRecoveryID e kind name =
     rbind (newVersion e) (\<lambda>v. Inr (''/deleted'' @ kind @ ''/'' @ name @ ''/'' @ v))"

section \<open>Pagination\<close>

definition skipStart :: "string \<Rightarrow> int res" where
  "skipStart skipToken =
     (if skipToken \<noteq> [] then
        (case atoi skipToken of
           None \<Rightarrow> Inl (newError 400 ''BadParameter'' ''The provided $skiptoken is invalid.'')
         | Some parsed \<Rightarrow>
             if parsed < 0
             then Inl (newError 400 ''BadParameter'' ''The provided $skiptoken is invalid.'')
             else Inr parsed)
      else Inr 0)"

definition clampMax :: "int \<Rightarrow> int" where
  "clampMax maxResults =
     (let m = (if maxResults \<le> 0 then 25 else maxResults) in if m > 100 then 100 else m)"

definition paginateNames :: "'a list \<Rightarrow> string \<Rightarrow> int \<Rightarrow> ('a list \<times> string option) res" where
  "paginateNames items skipToken maxResults =
     rbind (skipStart skipToken) (\<lambda>start.
       if start \<ge> int (length items) then Inr ([], None)
       else
         (let e = add64 start (clampMax maxResults);
              e = (if e > int (length items) then int (length items) else e)
          in if e < start then Inl (Panic ''slice bounds out of range'')
             else
               (let page = take (nat (e - start)) (drop (nat start) items)
                in if e \<ge> int (length items) then Inr (page, None)
                   else Inr (page, Some (itoa e)))))"

text \<open>
  A client that follows the continuation tokens: from a first token, collect the pages until a
  page carries no token. This loop is not code of the program; it states what the tokens are
  for. The fuel bounds the number of requests.
\<close>

fun walkPages :: "nat \<Rightarrow> (string \<Rightarrow> ('a list \<times> string option) res) \<Rightarrow> string \<Rightarrow> 'a list option" where
  "walkPages 0 request tok = None"
| "walkPages (Suc fuel) request tok =
     (case request tok of
        Inl _ \<Rightarrow> None
      | Inr (page, None) \<Rightarrow> Some page
      | Inr (page, Some tok') \<Rightarrow> map_option (\<lambda>rest. page @ rest) (walkPages fuel request tok'))"

section \<open>Copies\<close>

definition tags_ok :: "tags \<Rightarrow> bool" where
  "tags_ok t \<longleftrightarrow> (case t of None \<Rightarrow> True | Some m \<Rightarrow> map_ok m)"

lemma map_ok_fold_mput: "map_ok acc \<Longrightarrow> map_ok (fold (\<lambda>(k, v) out. mput k v out) m acc)"
  by (induction m arbitrary: acc) auto

lemma tags_ok_cloneTags [simp]: "tags_ok (cloneTags t)"
  by (simp add: tags_ok_def cloneTags_def map_ok_fold_mput split: option.splits)

lemma cloneTags_id [kv_clone]: "tags_ok t \<Longrightarrow> cloneTags t = t"
  by (auto simp: tags_ok_def cloneTags_def fold_mput_id split: option.splits)

lemma cloneTags_idem [simp]: "cloneTags (cloneTags t) = cloneTags t"
  by (simp add: cloneTags_id)

lemma cloneTags_lookup: "cloneTags (Some m) = Some m' \<Longrightarrow> distinct (map fst m) \<Longrightarrow> map_of m' = map_of m"
  by (simp add: cloneTags_def fold_mput_id map_ok_def)

lemma cloneTags_None [simp]: "cloneTags None = None"
  by (simp add: cloneTags_def)

lemma cloneAttributes_id [simp, kv_clone]: "cloneAttributes a = a"
  by (cases a) (simp add: cloneAttributes_def Let_def split: option.splits)

section \<open>Attributes\<close>

lemma overlayAttributes_fields [simp]:
  "Enabled (overlayAttributes a p) =
     (case p of None \<Rightarrow> Enabled a | Some i \<Rightarrow> (case Enabled i of None \<Rightarrow> Enabled a | Some v \<Rightarrow> Some v))"
  "NotBefore (overlayAttributes a p) =
     (case p of None \<Rightarrow> NotBefore a | Some i \<Rightarrow> (case NotBefore i of None \<Rightarrow> NotBefore a | Some v \<Rightarrow> Some v))"
  "Expires (overlayAttributes a p) =
     (case p of None \<Rightarrow> Expires a | Some i \<Rightarrow> (case Expires i of None \<Rightarrow> Expires a | Some v \<Rightarrow> Some v))"
  "Created (overlayAttributes a p) = Created a"
  "Updated (overlayAttributes a p) = Updated a"
  "RecoveryLevel (overlayAttributes a p) = RecoveryLevel a"
  "RecoverableDays (overlayAttributes a p) = RecoverableDays a"
  by (simp_all add: overlayAttributes_def Let_def split: option.splits)

text \<open>Every attribute record the store writes carries the fixed recovery level and period.\<close>

definition attrs_ok :: "Attributes \<Rightarrow> bool" where
  "attrs_ok a \<longleftrightarrow> RecoveryLevel a = recoveryLevel \<and> RecoverableDays a = recoverableDays"

lemma attrs_ok_build [simp]: "attrs_ok (buildAttributes i c u)"
  by (simp add: attrs_ok_def buildAttributes_def)

lemma attrs_ok_merge [simp]: "attrs_ok (mergeAttributes now a p)"
  by (simp add: attrs_ok_def mergeAttributes_def)

lemma mergeAttributes_created [simp]: "Created (mergeAttributes now a p) = Created a"
  by (simp add: mergeAttributes_def)

section \<open>Identifiers\<close>

lemma newVersion_cases:
  obtains (fail) err where "newVersion e = Inl (Panic (''failed to generate version id: '' @ err_msg err))"
    "env_rand e = Inl err"
  | (ok) buf where "newVersion e = Inr (hexEncode buf)" "env_rand e = Inr buf"
  by (cases "env_rand e") (auto simp: newVersion_def)

lemma newVersion_ok: "env_ok e \<Longrightarrow> \<exists>v. newVersion e = Inr v"
  by (cases e rule: newVersion_cases) (auto simp: env_ok_def)

lemma newRecoveryID_ok: "env_ok e \<Longrightarrow> \<exists>r. newRecoveryID e k n = Inr r"
  using newVersion_ok [of e] by (auto simp: newRecoveryID_def)

section \<open>Pagination\<close>

lemma clampMax_bounds: "1 \<le> clampMax m" "clampMax m \<le> 100"
  by (simp_all add: clampMax_def)

lemma skipStart_nonneg: "skipStart tok = Inr start \<Longrightarrow> 0 \<le> start"
  by (auto simp: skipStart_def split: if_splits option.splits)

lemma skipStart_Nil [simp]: "skipStart [] = Inr 0"
  by (simp add: skipStart_def)

lemma skipStart_itoa: "0 \<le> i \<Longrightarrow> i < 2 ^ 63 \<Longrightarrow> skipStart (itoa i) = Inr i"
  by (simp add: skipStart_def atoi_itoa int64_ok_def)

lemma add64_small: "0 \<le> a \<Longrightarrow> a < 2 ^ 62 \<Longrightarrow> 0 \<le> b \<Longrightarrow> b < 2 ^ 62 \<Longrightarrow> add64 a b = a + b"
  unfolding add64_def by (rule wrap64_id) (simp add: int64_ok_def)

text \<open>
  The value of \<open>paginateNames\<close>: the slice of at most \<open>clampMax m\<close> items from the start
  position, and a token for the position after it exactly if items are left.
\<close>

lemma paginateNames_eq:
  assumes len: "int (length items) < 2 ^ 62" and st: "skipStart tok = Inr start"
  shows "paginateNames items tok m =
    Inr (take (nat (clampMax m)) (drop (nat start) items),
         if start + clampMax m < int (length items) then Some (itoa (start + clampMax m)) else None)"
proof (cases "start \<ge> int (length items)")
  case True
  then have "drop (nat start) items = []"
    by simp
  moreover have "\<not> start + clampMax m < int (length items)"
    using True clampMax_bounds(1) [of m] by linarith
  ultimately show ?thesis
    using True st by (simp add: paginateNames_def)
next
  case False
  have s0: "0 \<le> start"
    using st by (rule skipStart_nonneg)
  have e: "add64 start (clampMax m) = start + clampMax m"
    using False s0 len clampMax_bounds [of m] by (intro add64_small) simp_all
  show ?thesis
  proof (cases "start + clampMax m < int (length items)")
    case True
    then show ?thesis
      using False st e clampMax_bounds(1) [of m] by (simp add: paginateNames_def Let_def)
  next
    case all: False
    then have "take (nat (int (length items) - start)) (drop (nat start) items)
        = take (nat (clampMax m)) (drop (nat start) items)"
      using False s0 by simp
    then show ?thesis
      using all False st e by (simp add: paginateNames_def Let_def)
  qed
qed

lemma paginateNames_map:
  "paginateNames (map f items) tok m =
    map_sum id (map_prod (map f) id) (paginateNames items tok m)"
  by (cases "skipStart tok") (simp_all add: paginateNames_def Let_def take_map drop_map)

lemma paginateNames_error:
  "skipStart tok = Inl e \<Longrightarrow> paginateNames items tok m = Inl e"
  by (simp add: paginateNames_def)

lemma walkPages_from:
  assumes "int (length items) < 2 ^ 62" "skipStart tok = Inr start" "length items - nat start < fuel"
  shows "walkPages fuel (\<lambda>t. paginateNames items t m) tok = Some (drop (nat start) items)"
  using assms(2,3)
proof (induction fuel arbitrary: tok start)
  case (Suc fuel)
  note page = paginateNames_eq [OF assms(1) Suc.prems(1), of m]
  have s0: "0 \<le> start"
    using Suc.prems(1) by (rule skipStart_nonneg)
  show ?case
  proof (cases "start + clampMax m < int (length items)")
    case True
    let ?e = "start + clampMax m"
    have "skipStart (itoa ?e) = Inr ?e"
      using True s0 assms(1) clampMax_bounds(1) [of m] by (intro skipStart_itoa) simp_all
    moreover have "length items - nat ?e < fuel"
      using True s0 Suc.prems(2) clampMax_bounds(1) [of m] by linarith
    ultimately have "walkPages fuel (\<lambda>t. paginateNames items t m) (itoa ?e) = Some (drop (nat ?e) items)"
      by (rule Suc.IH)
    moreover have "drop (nat ?e) items = drop (nat (clampMax m)) (drop (nat start) items)"
      using s0 clampMax_bounds(1) [of m] by (simp add: nat_add_distrib add.commute)
    moreover have "take (nat (clampMax m)) (drop (nat start) items) @ drop (nat (clampMax m)) (drop (nat start) items)
        = drop (nat start) items"
      by (rule append_take_drop_id)
    ultimately show ?thesis
      using True by (simp add: page del: drop_drop)
  next
    case False
    then have "length (drop (nat start) items) \<le> nat (clampMax m)"
      by simp
    then show ?thesis
      using False by (simp add: page)
  qed
qed simp

end
