(* ===== verification/KV_X509.thy ===== *)
theory KV_X509
  imports KV_Crypto_Ops
begin

text \<open>
  Certificate generation and import, \<open>src/internal/crypto/certificates.go\<close>. The packages
  crypto/x509, encoding/pem, crypto/tls and pkcs12 are the fields of the record \<open>x509lib\<close>, and so
  are the clock and the random serial number.
\<close>

unbundle bit_operations_syntax

section \<open>Certificates and the library\<close>

record pkix_Name =
  nm_CommonName :: string
  nm_Organization :: "string list"
  nm_OrganizationalUnit :: "string list"
  nm_Country :: "string list"
  nm_Province :: "string list"
  nm_Locality :: "string list"

datatype publicKey = RSAPublic rsa_PublicKey | OtherPublic bytes

datatype privateKey = RSAPrivate rsa_PrivateKey | OtherPrivate bytes

text \<open>The fields of \<open>x509.Certificate\<close> that the program writes or reads; times in nanoseconds.\<close>

record x509_Certificate =
  x_Raw :: bytes
  x_PublicKey :: "publicKey option"
  x_SerialNumber :: nat
  x_Subject :: pkix_Name
  x_NotBefore :: int
  x_NotAfter :: int
  x_KeyUsage :: int
  x_ExtKeyUsage :: "int list"
  x_BasicConstraintsValid :: bool
  x_IsCA :: bool
  x_DNSNames :: "string list"

record pem_Block =
  pem_Type :: string
  pem_Headers :: "(string \<times> string) list"
  pem_Bytes :: bytes

record tls_Certificate =
  tls_Chain :: "bytes list"
  tls_PrivateKey :: "privateKey option"

record x509lib =
  lib_now :: int
  lib_randInt :: "nat \<Rightarrow> nat res"
  lib_createCertificate ::
    "x509_Certificate \<Rightarrow> x509_Certificate \<Rightarrow> rsa_PublicKey \<Rightarrow> rsa_PrivateKey \<Rightarrow> bytes res"
  lib_ParseCertificate :: "bytes \<Rightarrow> x509_Certificate res"
  lib_ParsePKCS1PrivateKey :: "bytes \<Rightarrow> rsa_PrivateKey res"
  lib_ParsePKCS8PrivateKey :: "bytes \<Rightarrow> privateKey res"
  lib_MarshalPKCS1PrivateKey :: "rsa_PrivateKey \<Rightarrow> bytes"
  lib_pemEncode :: "pem_Block \<Rightarrow> bytes"
  lib_pemDecode :: "bytes \<Rightarrow> (pem_Block \<times> bytes) option"
  lib_ToPEM :: "bytes \<Rightarrow> string \<Rightarrow> pem_Block list res"
  lib_X509KeyPair :: "bytes \<Rightarrow> bytes \<Rightarrow> tls_Certificate res"

definition pemBlock :: "string \<Rightarrow> bytes \<Rightarrow> pem_Block" where
  "pemBlock ty bs = \<lparr>pem_Type = ty, pem_Headers = [], pem_Bytes = bs\<rparr>"

definition nilDereference :: goerr where
  "nilDereference = Panic ''runtime error: invalid memory address or nil pointer dereference''"

section \<open>Subjects\<close>

text \<open>The UTF-8 encodings of the white space characters that \<open>strings.TrimSpace\<close> removes.\<close>

definition whiteSpace :: "string list" where
  "whiteSpace = map (map char_of)
     ([[9], [10], [11], [12], [13], [32], [194, 133], [194, 160], [225, 154, 128],
       [226, 128, 168], [226, 128, 169], [226, 128, 175], [226, 129, 159], [227, 128, 128]]
      @ map (\<lambda>n. [226, 128, n]) [128..<139] :: nat list list)"

function trimLeftSpace :: "string \<Rightarrow> string" where
  "trimLeftSpace s =
     (case List.find (\<lambda>w. hasPrefix s w) whiteSpace of
        None \<Rightarrow> s
      | Some w \<Rightarrow> if s = [] then s else trimLeftSpace (drop (max 1 (length w)) s))"
  by pat_completeness auto
termination
  by (relation "measure length") auto

function trimRightSpace :: "string \<Rightarrow> string" where
  "trimRightSpace s =
     (case List.find (\<lambda>w. hasSuffix s w) whiteSpace of
        None \<Rightarrow> s
      | Some w \<Rightarrow> if s = [] then s else trimRightSpace (take (length s - max 1 (length w)) s))"
  by pat_completeness auto
termination
  by (relation "measure length") auto

declare trimLeftSpace.simps [simp del] trimRightSpace.simps [simp del]

definition trimSpace :: "string \<Rightarrow> string" where
  "trimSpace s = trimRightSpace (trimLeftSpace s)"

definition subjectPart :: "string \<Rightarrow> pkix_Name \<Rightarrow> pkix_Name" where
  "subjectPart part name =
     (let piece = trimSpace part
      in if hasPrefix piece ''CN='' then name\<lparr>nm_CommonName := trimPrefix piece ''CN=''\<rparr>
         else if hasPrefix piece ''O=''
         then name\<lparr>nm_Organization := nm_Organization name @ [trimPrefix piece ''O='']\<rparr>
         else if hasPrefix piece ''OU=''
         then name\<lparr>nm_OrganizationalUnit := nm_OrganizationalUnit name @ [trimPrefix piece ''OU='']\<rparr>
         else if hasPrefix piece ''C=''
         then name\<lparr>nm_Country := nm_Country name @ [trimPrefix piece ''C='']\<rparr>
         else if hasPrefix piece ''ST=''
         then name\<lparr>nm_Province := nm_Province name @ [trimPrefix piece ''ST='']\<rparr>
         else if hasPrefix piece ''L=''
         then name\<lparr>nm_Locality := nm_Locality name @ [trimPrefix piece ''L='']\<rparr>
         else name)"

definition ParseSubject :: "string \<Rightarrow> pkix_Name" where
  "ParseSubject subject =
     fold subjectPart (splitOn (CHR '','') subject)
       \<lparr>nm_CommonName = subject, nm_Organization = [], nm_OrganizationalUnit = [], nm_Country = [],
        nm_Province = [], nm_Locality = []\<rparr>"

section \<open>Generating certificates\<close>

record CertOptions =
  opt_CertType :: string
  opt_IssuerCert :: "x509_Certificate option"
  opt_IssuerKey :: "rsa_PrivateKey option"

text \<open>\<open>m[key].(string)\<close> and \<open>m[key].(float64)\<close> on a map that may be nil.\<close>

definition anyString :: "anymap \<Rightarrow> string \<Rightarrow> string option" where
  "anyString m key =
     (case m of
        None \<Rightarrow> None
      | Some xs \<Rightarrow> (case map_of xs key of Some (AStr s) \<Rightarrow> Some s | _ \<Rightarrow> None))"

definition anyFloat :: "anymap \<Rightarrow> string \<Rightarrow> rat option" where
  "anyFloat m key =
     (case m of
        None \<Rightarrow> None
      | Some xs \<Rightarrow> (case map_of xs key of Some (AFloat f) \<Rightarrow> Some f | _ \<Rightarrow> None))"

definition second :: int where "second = 1000000000"

definition hour :: int where "hour = 3600 * second"

text \<open>
  The conversion of a positive \<open>float64\<close> to \<open>int64\<close> truncates; a value out of range becomes the
  least integer on amd64. Floats are exact rationals here.
\<close>

definition floatToInt64 :: "rat \<Rightarrow> int" where
  "floatToInt64 f = (if floor f < 2 ^ 63 then floor f else - (2 ^ 63))"

definition certValidity :: "anymap \<Rightarrow> int" where
  "certValidity props =
     (case anyFloat props ''validity_months'' of
        Some vm \<Rightarrow> if vm > 0 then wrap64 (floatToInt64 (vm * 30 * 24) * hour) else 365 * 24 * hour
      | None \<Rightarrow> 365 * 24 * hour)"

definition certTemplate :: "x509lib \<Rightarrow> string \<Rightarrow> string \<Rightarrow> anymap \<Rightarrow> nat \<Rightarrow> x509_Certificate" where
  "certTemplate L name certType0 props serial =
     (let certType = (if certType0 = [] then ''leaf'' else certType0);
          subject = (case anyString props ''subject'' of
                       Some raw \<Rightarrow> if raw \<noteq> [] then raw else ''CN='' @ name
                     | None \<Rightarrow> ''CN='' @ name);
          notBefore = lib_now L - 5 * 60 * second;
          notAfter = notBefore + certValidity props;
          isCA = (certType = ''CA'' \<or> certType = ''intermediate'');
          keyUsage = (if isCA then 1 OR 32 OR 64 else 1 OR 4);
          extKeyUsage = (if isCA then [] else [1, 2])
      in \<lparr>x_Raw = [], x_PublicKey = None, x_SerialNumber = serial, x_Subject = ParseSubject subject,
          x_NotBefore = notBefore, x_NotAfter = notAfter, x_KeyUsage = keyUsage,
          x_ExtKeyUsage = extKeyUsage, x_BasicConstraintsValid = True, x_IsCA = isCA,
          x_DNSNames = []\<rparr>)"

definition GenerateCert ::
  "prims \<Rightarrow> x509lib \<Rightarrow> string \<Rightarrow> CertificatePolicy option \<Rightarrow> CertOptions \<Rightarrow> (rsa_PrivateKey \<times> bytes) res" where
  "GenerateCert P L name policy opts =
     rbind (p_rsaGenerateKey P 2048) (\<lambda>priv.
     rbind (lib_randInt L (2 ^ 128)) (\<lambda>serial.
       (let props = (case policy of None \<Rightarrow> None | Some p \<Rightarrow> cp_X509Props p);
            tpl = certTemplate L name (opt_CertType opts) props serial;
            (signerCert, signerKey) =
              (case opt_IssuerCert opts of
                 None \<Rightarrow> (tpl, Some priv)
               | Some issuer \<Rightarrow> (issuer, opt_IssuerKey opts))
        in case signerKey of
             None \<Rightarrow> Inl nilDereference
           | Some key \<Rightarrow>
               rbind (lib_createCertificate L tpl signerCert (priv_PublicKey priv) key) (\<lambda>der.
                 Inr (priv, der)))))"

definition GenerateSelfSignedCert ::
  "prims \<Rightarrow> x509lib \<Rightarrow> string \<Rightarrow> CertificatePolicy option \<Rightarrow> (rsa_PrivateKey \<times> bytes) res" where
  "GenerateSelfSignedCert P L name policy =
     GenerateCert P L name policy \<lparr>opt_CertType = ''CA'', opt_IssuerCert = None, opt_IssuerKey = None\<rparr>"

definition GenerateTLSCertificate :: "prims \<Rightarrow> x509lib \<Rightarrow> string \<Rightarrow> string list \<Rightarrow> tls_Certificate res" where
  "GenerateTLSCertificate P L cn dnsNames =
     (let policy = emptyPolicy\<lparr>cp_X509Props := Some [(''subject'', AStr (''CN='' @ cn))]\<rparr>
      in rbind (GenerateSelfSignedCert P L cn (Some policy)) (\<lambda>(priv, der).
         rbind (lib_ParseCertificate L der) (\<lambda>leaf.
           (let leaf = leaf\<lparr>x_DNSNames := dnsNames\<rparr>
            in rbind (lib_createCertificate L leaf leaf (priv_PublicKey priv) priv) (\<lambda>updatedDER.
                 lib_X509KeyPair L (lib_pemEncode L (pemBlock ''CERTIFICATE'' updatedDER))
                   (lib_pemEncode L (pemBlock ''RSA PRIVATE KEY'' (lib_MarshalPKCS1PrivateKey L priv))))))))"

section \<open>Importing certificates\<close>

text \<open>
  The blocks that the loop of \<open>parsePEMData\<close> sees. \<open>pem.Decode\<close> returns a proper suffix of its
  input as the rest, so the test on the length, which makes the recursion end, is always true.
\<close>

function pemBlocks :: "x509lib \<Rightarrow> bytes \<Rightarrow> pem_Block list" where
  "pemBlocks L data =
     (case lib_pemDecode L data of
        None \<Rightarrow> []
      | Some (block, rest) \<Rightarrow> if length rest < length data then block # pemBlocks L rest else [block])"
  by pat_completeness auto
termination
  by (relation "measure (\<lambda>(L, data). length data)") auto

declare pemBlocks.simps [simp del]

type_synonym found = "x509_Certificate option \<times> rsa_PrivateKey option"

definition pemStep :: "x509lib \<Rightarrow> pem_Block \<Rightarrow> found \<Rightarrow> found" where
  "pemStep L block cp =
     (case cp of (cert, priv) \<Rightarrow>
        if pem_Type block = ''CERTIFICATE'' then
          (case lib_ParseCertificate L (pem_Bytes block) of
             Inr c \<Rightarrow> (if cert = None then (Some c, priv) else (cert, priv))
           | Inl _ \<Rightarrow> (cert, priv))
        else if pem_Type block = ''RSA PRIVATE KEY'' then
          (case lib_ParsePKCS1PrivateKey L (pem_Bytes block) of
             Inr k \<Rightarrow> (if priv = None then (cert, Some k) else (cert, priv))
           | Inl _ \<Rightarrow> (cert, priv))
        else if pem_Type block = ''PRIVATE KEY'' then
          (case lib_ParsePKCS8PrivateKey L (pem_Bytes block) of
             Inr (RSAPrivate k) \<Rightarrow> (if priv = None then (cert, Some k) else (cert, priv))
           | _ \<Rightarrow> (cert, priv))
        else (cert, priv))"

definition invalidCertificate :: goerr where
  "invalidCertificate = PlainErr ''invalid certificate value''"

definition parsePEMData :: "x509lib \<Rightarrow> bytes \<Rightarrow> (x509_Certificate \<times> rsa_PrivateKey option \<times> bytes) res" where
  "parsePEMData L data =
     (case fold (pemStep L) (pemBlocks L data) (None, None) of
        (None, _) \<Rightarrow> Inl invalidCertificate
      | (Some cert, priv) \<Rightarrow>
          (case priv of
             None \<Rightarrow> Inr (cert, None, data)
           | Some k \<Rightarrow>
               if contains (string_of_bytes data) ''PRIVATE KEY'' then Inr (cert, Some k, data)
               else Inr (cert, Some k, data @
                      lib_pemEncode L (pemBlock ''RSA PRIVATE KEY'' (lib_MarshalPKCS1PrivateKey L k)))))"

definition ParseImportedCertificate ::
  "x509lib \<Rightarrow> string \<Rightarrow> string \<Rightarrow> (x509_Certificate \<times> rsa_PrivateKey option \<times> bytes) res" where
  "ParseImportedCertificate L value password =
     (let data = (if contains value ''BEGIN '' then bytes_of_string value
                  else case stdDecode value of Some decoded \<Rightarrow> decoded | None \<Rightarrow> bytes_of_string value)
      in if lib_pemDecode L data \<noteq> None then parsePEMData L data
         else
           (case lib_ToPEM L data password of
              Inr (b # bs) \<Rightarrow> parsePEMData L (concat (map (lib_pemEncode L) (b # bs)))
            | _ \<Rightarrow>
                (case lib_ParseCertificate L data of
                   Inl _ \<Rightarrow> Inl invalidCertificate
                 | Inr parsed \<Rightarrow> Inr (parsed, None, lib_pemEncode L (pemBlock ''CERTIFICATE'' data)))))"

end
