(* ===== verification/KV_Store.thy ===== *)
theory KV_Store
  imports KV_Store_Base KV_X509
begin

text \<open>
  The state of the in-memory store (\<open>type Store\<close> of \<open>src/internal/store/store.go\<close>) with its six
  maps, the records the operations return, and what the three kinds of objects share: the list of
  versions of an entry, the search for a version, the entry of a deleted object.

  A version slice is a list in insertion order; a pointer to a version of an entry is its index in
  that list. The one-field structs \<open>secretVersion\<close>, \<open>secretEntry\<close>, \<open>keyEntry\<close> and
  \<open>certificateEntry\<close> are their field. An operation that changes the store returns its result
  together with the new store; the store is also returned on an error and on a panic, because the
  deferred unlock leaves the changes made so far in place. The mutex makes every operation one
  step.
\<close>

section \<open>Records\<close>

record SecretRecord =
  sr_Name :: string
  sr_Version :: string
  sr_Value :: string
  sr_ContentType :: string
  sr_Attributes :: Attributes
  sr_Tags :: tags

record KeyRecord =
  kr_Name :: string
  kr_Version :: string
  kr_Key :: JSONWebKey
  kr_Attributes :: Attributes
  kr_Tags :: tags

record CertificateRecord =
  crt_Name :: string
  crt_Version :: string
  crt_Cer :: bytes
  crt_Kid :: string
  crt_Sid :: string
  crt_Attributes :: Attributes
  crt_Tags :: tags
  crt_Policy :: "CertificatePolicy option"

text \<open>The deleted records of the three kinds embed the record and add the same three fields.\<close>

record 'r DeletedRecord =
  dr_Record :: 'r
  dr_RecoveryID :: string
  dr_DeletedDate :: int
  dr_ScheduledPurgeDate :: int

type_synonym DeletedSecretRecord = "SecretRecord DeletedRecord"
type_synonym DeletedKeyRecord = "KeyRecord DeletedRecord"
type_synonym DeletedCertificateRecord = "CertificateRecord DeletedRecord"

record keyVersion =
  kv_record :: KeyRecord
  kv_material :: KeyMaterial

record certificateVersion =
  cv_record :: CertificateRecord
  cv_pem :: bytes

type_synonym secretEntry = "SecretRecord list"
type_synonym keyEntry = "keyVersion list"
type_synonym certificateEntry = "certificateVersion list"

record 'e deletedEntry =
  de_entry :: 'e
  de_recoveryID :: string
  de_deletedDate :: int
  de_scheduledPurgeDate :: int

record Store =
  st_secrets :: "(string, secretEntry) gomap"
  st_deletedSecrets :: "(string, secretEntry deletedEntry) gomap"
  st_keys :: "(string, keyEntry) gomap"
  st_deletedKeys :: "(string, keyEntry deletedEntry) gomap"
  st_certificates :: "(string, certificateEntry) gomap"
  st_deletedCertificates :: "(string, certificateEntry deletedEntry) gomap"

definition New :: Store where
  "New = \<lparr>st_secrets = [], st_deletedSecrets = [], st_keys = [], st_deletedKeys = [],
     st_certificates = [], st_deletedCertificates = []\<rparr>"

section \<open>Versions of an entry\<close>

text \<open>The last version, nil for a nil entry and for an entry without versions.\<close>

definition latestVersion :: "'v list option \<Rightarrow> 'v option" where
  "latestVersion entry =
     (case entry of None \<Rightarrow> None | Some vs \<Rightarrow> if vs = [] then None else Some (vs ! (length vs - 1)))"

definition latestSecret :: "secretEntry option \<Rightarrow> SecretRecord option" where
  "latestSecret entry = latestVersion entry"

definition latestKey :: "keyEntry option \<Rightarrow> keyVersion option" where
  "latestKey entry = latestVersion entry"

definition latestCertificate :: "certificateEntry option \<Rightarrow> certificateVersion option" where
  "latestCertificate entry = latestVersion entry"

text \<open>
  The position of the version a request names: the last one for the empty version, else the first
  one with that identifier.
\<close>

fun firstVersion :: "('v \<Rightarrow> string) \<Rightarrow> string \<Rightarrow> 'v list \<Rightarrow> nat option" where
  "firstVersion ver version [] = None"
| "firstVersion ver version (v # vs) =
     (if ver v = version then Some 0 else map_option Suc (firstVersion ver version vs))"

definition findVersion :: "('v \<Rightarrow> string) \<Rightarrow> 'v list \<Rightarrow> string \<Rightarrow> nat option" where
  "findVersion ver vs version =
     (if version = [] then (if vs = [] then None else Some (length vs - 1))
      else firstVersion ver version vs)"

text \<open>\<open>s.m[name]\<close> of a map of pointers to entries, appended to with a new version.\<close>

definition appendVersion :: "string \<Rightarrow> 'v \<Rightarrow> (string, 'v list) gomap \<Rightarrow> (string, 'v list) gomap" where
  "appendVersion name v m =
     (let entry = (case map_of m name of None \<Rightarrow> [] | Some vs \<Rightarrow> vs) in mput name (entry @ [v]) m)"

text \<open>A loop that builds a slice from calls that may panic.\<close>

primrec mapRes :: "('a \<Rightarrow> 'b res) \<Rightarrow> 'a list \<Rightarrow> 'b list res" where
  "mapRes f [] = Inr []"
| "mapRes f (x # xs) = rbind (f x) (\<lambda>y. rbind (mapRes f xs) (\<lambda>ys. Inr (y # ys)))"

section \<open>Lemmas on versions\<close>

lemma latestVersion_simps [simp]:
  "latestVersion None = None" "latestVersion (Some []) = None"
  "vs \<noteq> [] \<Longrightarrow> latestVersion (Some vs) = Some (last vs)"
  by (simp_all add: latestVersion_def last_conv_nth)

lemma latestVersion_None_iff: "latestVersion entry = None \<longleftrightarrow> entry = None \<or> entry = Some []"
  by (cases entry) (auto simp: latestVersion_def)

lemmas latest_defs [simp] = latestSecret_def latestKey_def latestCertificate_def

lemma firstVersion_Some:
  "firstVersion ver version vs = Some i \<Longrightarrow>
    i < length vs \<and> ver (vs ! i) = version \<and> (\<forall>j < i. ver (vs ! j) \<noteq> version)"
proof (induction vs arbitrary: i)
  case (Cons v vs)
  then show ?case
    by (cases i) (auto simp: less_Suc_eq_0_disj split: if_split_asm)
qed simp

lemma firstVersion_None: "firstVersion ver version vs = None \<longleftrightarrow> version \<notin> ver ` set vs"
  by (induction vs) auto

lemma firstVersion_append:
  "firstVersion ver version (vs @ ws) =
    (case firstVersion ver version vs of
       Some i \<Rightarrow> Some i
     | None \<Rightarrow> (case firstVersion ver version ws of None \<Rightarrow> None | Some i \<Rightarrow> Some (length vs + i)))"
  by (induction vs) (auto split: option.splits)

lemma findVersion_Some: "findVersion ver vs version = Some i \<Longrightarrow> i < length vs"
  by (auto simp: findVersion_def dest: firstVersion_Some split: if_split_asm)

lemma findVersion_version:
  "findVersion ver vs version = Some i \<Longrightarrow> version \<noteq> [] \<Longrightarrow> ver (vs ! i) = version"
  by (auto simp: findVersion_def dest: firstVersion_Some split: if_split_asm)

lemma findVersion_Nil: "vs \<noteq> [] \<Longrightarrow> findVersion ver vs [] = Some (length vs - 1)"
  by (simp add: findVersion_def)

lemma findVersion_None:
  "findVersion ver vs version = None \<longleftrightarrow>
    (if version = [] then vs = [] else version \<notin> ver ` set vs)"
  by (simp add: findVersion_def firstVersion_None)

text \<open>Appending a version whose identifier is new keeps every version that could be found.\<close>

lemma findVersion_append_fresh:
  assumes "ver v \<notin> ver ` set vs" "ver v \<noteq> []"
  shows "findVersion ver (vs @ [v]) (ver v) = Some (length vs)"
  using assms by (simp add: findVersion_def firstVersion_append firstVersion_None [THEN iffD2])

lemma findVersion_append_old:
  assumes "findVersion ver vs version = Some i" "version \<noteq> []"
  shows "findVersion ver (vs @ ws) version = Some i"
  using assms by (simp add: findVersion_def firstVersion_append)

text \<open>A change in place that keeps the identifiers keeps the search.\<close>

lemma firstVersion_cong:
  "map ver vs = map ver ws \<Longrightarrow> firstVersion ver version vs = firstVersion ver version ws"
proof (induction vs arbitrary: ws)
  case (Cons v vs)
  then show ?case
    by (cases ws) auto
qed simp

lemma findVersion_update:
  assumes "i < length vs" "ver v = ver (vs ! i)"
  shows "findVersion ver (vs[i := v]) version = findVersion ver vs version"
proof -
  have "map ver (vs[i := v]) = map ver vs"
    using assms by (simp add: map_update)
      (metis list_update_id nth_map)
  then have "firstVersion ver version (vs[i := v]) = firstVersion ver version vs"
    by (rule firstVersion_cong)
  then show ?thesis
    by (simp add: findVersion_def)
qed

lemma map_of_appendVersion [simp]:
  "map_of (appendVersion name v m) =
     (map_of m)(name \<mapsto> (case map_of m name of None \<Rightarrow> [] | Some vs \<Rightarrow> vs) @ [v])"
  by (simp add: appendVersion_def Let_def)

lemma map_ok_appendVersion [simp]: "map_ok m \<Longrightarrow> map_ok (appendVersion name v m)"
  by (simp add: appendVersion_def Let_def)

lemma mapRes_Inr: "(\<And>x. x \<in> set xs \<Longrightarrow> f x = Inr (g x)) \<Longrightarrow> mapRes f xs = Inr (map g xs)"
  by (induction xs) auto

lemma mapRes_Inr_iff: "mapRes f xs = Inr ys \<longleftrightarrow> list_all2 (\<lambda>x y. f x = Inr y) xs ys"
  by (induction xs arbitrary: ys) (auto simp: rbind_Inr_iff list_all2_Cons1)

end
