(* ===== verification/KV_Secrets.thy ===== *)
theory KV_Secrets
  imports KV_Store
begin

text \<open>
  The secret operations of the in-memory store, \<open>src/internal/store/secrets.go\<close>, in the order of
  the file. The JSON encoding of a backup is the pair of functions \<open>codec\<close>.
\<close>

section \<open>Operations\<close>

definition cloneSecretRecord :: "SecretRecord \<Rightarrow> SecretRecord" where
  "cloneSecretRecord inp = \<lparr>sr_Name = sr_Name inp, sr_Version = sr_Version inp, sr_Value = sr_Value inp,
     sr_ContentType = sr_ContentType inp, sr_Attributes = cloneAttributes (sr_Attributes inp),
     sr_Tags = cloneTags (sr_Tags inp)\<rparr>"

definition findSecretVersion :: "secretEntry \<Rightarrow> string \<Rightarrow> nat option" where
  "findSecretVersion entry version = findVersion sr_Version entry version"

definition secretNotFound :: "string \<Rightarrow> goerr" where
  "secretNotFound name = newError 404 ''SecretNotFound''
     (''A secret with (name/id) '' @ name @ '' was not found in this key vault.'')"

definition deletedSecretNotFound :: "string \<Rightarrow> goerr" where
  "deletedSecretNotFound name = newError 404 ''SecretNotFound''
     (''A deleted secret with name '' @ name @ '' was not found in this key vault.'')"

definition SetSecret :: "env \<Rightarrow> string \<Rightarrow> SecretSetRequest \<Rightarrow> Store \<Rightarrow> SecretRecord res \<times> Store" where
  "SetSecret e name req s =
     (if name = [] then (Inl (newError 400 ''BadParameter'' ''Secret name is required.''), s)
      else if ss_Value req = [] then (Inl (newError 400 ''BadParameter'' ''Secret value is required.''), s)
      else if map_of (st_deletedSecrets s) name \<noteq> None then
        (Inl (newError 409 ''InvalidOperation'' (''Secret '' @ name @
           '' is currently deleted and cannot be reused until recovered or purged.'')), s)
      else
        (let now = env_now e
         in case newVersion e of
              Inl err \<Rightarrow> (Inl err, s)
            | Inr version \<Rightarrow>
                (let record = \<lparr>sr_Name = name, sr_Version = version, sr_Value = ss_Value req,
                       sr_ContentType = ss_ContentType req,
                       sr_Attributes = buildAttributes (ss_Attributes req) now now,
                       sr_Tags = cloneTags (ss_Tags req)\<rparr>
                 in (Inr (cloneSecretRecord record),
                     s\<lparr>st_secrets := appendVersion name record (st_secrets s)\<rparr>))))"

definition GetSecret :: "Store \<Rightarrow> string \<Rightarrow> string \<Rightarrow> SecretRecord res" where
  "GetSecret s name version =
     (case map_of (st_secrets s) name of
        None \<Rightarrow> Inl (secretNotFound name)
      | Some entry \<Rightarrow>
          (case findSecretVersion entry version of
             None \<Rightarrow> Inl (secretNotFound name)
           | Some i \<Rightarrow> Inr (cloneSecretRecord (entry ! i))))"

definition secretItem :: "SecretRecord \<Rightarrow> SecretRecord" where
  "secretItem r = (cloneSecretRecord r)\<lparr>sr_Value := []\<rparr>"

definition ListSecrets :: "Store \<Rightarrow> int \<Rightarrow> string \<Rightarrow> (SecretRecord list \<times> string option) res" where
  "ListSecrets s maxResults skipToken =
     rbind (paginateNames (sort (mkeys (st_secrets s))) skipToken maxResults) (\<lambda>(page, next).
       Inr (List.map_filter
              (\<lambda>name. map_option secretItem (latestSecret (map_of (st_secrets s) name))) page, next))"

definition ListSecretVersions ::
  "Store \<Rightarrow> string \<Rightarrow> int \<Rightarrow> string \<Rightarrow> (SecretRecord list \<times> string option) res" where
  "ListSecretVersions s name maxResults skipToken =
     (case map_of (st_secrets s) name of
        None \<Rightarrow> Inl (secretNotFound name)
      | Some entry \<Rightarrow> paginateNames (map secretItem (rev entry)) skipToken maxResults)"

definition UpdateSecret ::
  "env \<Rightarrow> string \<Rightarrow> string \<Rightarrow> SecretUpdateRequest \<Rightarrow> Store \<Rightarrow> SecretRecord res \<times> Store" where
  "UpdateSecret e name version req s =
     (case map_of (st_secrets s) name of
        None \<Rightarrow> (Inl (secretNotFound name), s)
      | Some entry \<Rightarrow>
          (case findSecretVersion entry version of
             None \<Rightarrow> (Inl (secretNotFound name), s)
           | Some i \<Rightarrow>
               (let r = entry ! i;
                    r = (case su_ContentType req of None \<Rightarrow> r | Some ct \<Rightarrow> r\<lparr>sr_ContentType := ct\<rparr>);
                    r = (if su_Tags req \<noteq> None then r\<lparr>sr_Tags := cloneTags (su_Tags req)\<rparr> else r);
                    r = r\<lparr>sr_Attributes := mergeAttributes (env_now e) (sr_Attributes r) (su_Attributes req)\<rparr>
                in (Inr (cloneSecretRecord r),
                    s\<lparr>st_secrets := mput name (entry[i := r]) (st_secrets s)\<rparr>))))"

text \<open>\<open>latestSecret(entry).record\<close> with its nil dereference, and the deleted record made of it.\<close>

definition latestSecretRecord :: "secretEntry \<Rightarrow> SecretRecord res" where
  "latestSecretRecord entry = ofOption nilDereference (latestSecret (Some entry))"

definition deletedSecretRecord :: "secretEntry deletedEntry \<Rightarrow> DeletedSecretRecord res" where
  "deletedSecretRecord d =
     rbind (latestSecretRecord (de_entry d)) (\<lambda>r.
       Inr \<lparr>dr_Record = cloneSecretRecord r, dr_RecoveryID = de_recoveryID d,
            dr_DeletedDate = de_deletedDate d, dr_ScheduledPurgeDate = de_scheduledPurgeDate d\<rparr>)"

definition DeleteSecret :: "env \<Rightarrow> string \<Rightarrow> Store \<Rightarrow> DeletedSecretRecord res \<times> Store" where
  "DeleteSecret e name s =
     (case map_of (st_secrets s) name of
        None \<Rightarrow> (Inl (secretNotFound name), s)
      | Some entry \<Rightarrow>
          if map_of (st_deletedSecrets s) name \<noteq> None then (Inl (secretNotFound name), s)
          else
            (let s = s\<lparr>st_secrets := mdel name (st_secrets s)\<rparr>; now = env_now e
             in case newRecoveryID e ''secrets'' name of
                  Inl err \<Rightarrow> (Inl err, s)
                | Inr rid \<Rightarrow>
                    (let deleted = \<lparr>de_entry = entry, de_recoveryID = rid, de_deletedDate = now,
                           de_scheduledPurgeDate = add64 now purgeDelay\<rparr>
                     in (deletedSecretRecord deleted,
                         s\<lparr>st_deletedSecrets := mput name deleted (st_deletedSecrets s)\<rparr>))))"

definition ListDeletedSecrets :: "Store \<Rightarrow> int \<Rightarrow> string \<Rightarrow> (DeletedSecretRecord list \<times> string option) res" where
  "ListDeletedSecrets s maxResults skipToken =
     rbind (paginateNames (sort (mkeys (st_deletedSecrets s))) skipToken maxResults) (\<lambda>(page, next).
       rbind (mapRes (\<lambda>name.
                rbind (ofOption nilDereference (map_of (st_deletedSecrets s) name)) (\<lambda>d.
                rbind (deletedSecretRecord d) (\<lambda>r. Inr (r\<lparr>dr_Record := (dr_Record r)\<lparr>sr_Value := []\<rparr>\<rparr>)))) page)
             (\<lambda>items. Inr (items, next)))"

definition GetDeletedSecret :: "Store \<Rightarrow> string \<Rightarrow> DeletedSecretRecord res" where
  "GetDeletedSecret s name =
     (case map_of (st_deletedSecrets s) name of
        None \<Rightarrow> Inl (deletedSecretNotFound name)
      | Some deleted \<Rightarrow> deletedSecretRecord deleted)"

definition PurgeDeletedSecret :: "string \<Rightarrow> Store \<Rightarrow> unit res \<times> Store" where
  "PurgeDeletedSecret name s =
     (if map_of (st_deletedSecrets s) name = None then (Inl (deletedSecretNotFound name), s)
      else (Inr (), s\<lparr>st_deletedSecrets := mdel name (st_deletedSecrets s)\<rparr>))"

definition RecoverDeletedSecret :: "string \<Rightarrow> Store \<Rightarrow> SecretRecord res \<times> Store" where
  "RecoverDeletedSecret name s =
     (if map_of (st_secrets s) name \<noteq> None then
        (Inl (newError 409 ''Conflict'' (''Secret '' @ name @ '' already exists.'')), s)
      else case map_of (st_deletedSecrets s) name of
        None \<Rightarrow> (Inl (deletedSecretNotFound name), s)
      | Some deleted \<Rightarrow>
          (rbind (latestSecretRecord (de_entry deleted)) (\<lambda>r. Inr (cloneSecretRecord r)),
           s\<lparr>st_secrets := mput name (de_entry deleted) (st_secrets s),
             st_deletedSecrets := mdel name (st_deletedSecrets s)\<rparr>))"

section \<open>Backup and restore\<close>

record secretBackup =
  bk_Name :: string
  bk_Versions :: "SecretRecord list"

text \<open>\<open>json.Marshal\<close> and \<open>json.Unmarshal\<close> at the type \<open>secretBackup\<close>.\<close>

record codec =
  cd_marshal :: "secretBackup \<Rightarrow> bytes res"
  cd_unmarshal :: "bytes \<Rightarrow> secretBackup res"

definition BackupSecret :: "codec \<Rightarrow> Store \<Rightarrow> string \<Rightarrow> string res" where
  "BackupSecret C s name =
     (case map_of (st_secrets s) name of
        None \<Rightarrow> Inl (secretNotFound name)
      | Some entry \<Rightarrow>
          rbind (cd_marshal C \<lparr>bk_Name = name, bk_Versions = map cloneSecretRecord entry\<rparr>) (\<lambda>data.
            Inr (stdEncode data)))"

definition invalidBackup :: goerr where
  "invalidBackup = newError 400 ''BadParameter'' ''The provided backup blob is invalid.''"

definition restoredVersion :: "string \<Rightarrow> SecretRecord \<Rightarrow> SecretRecord" where
  "restoredVersion name version =
     (let version = version\<lparr>sr_Name := name\<rparr>;
          version = version\<lparr>sr_Attributes := (sr_Attributes version)
            \<lparr>RecoveryLevel := recoveryLevel, RecoverableDays := recoverableDays\<rparr>\<rparr>
      in cloneSecretRecord version)"

definition RestoreSecret :: "codec \<Rightarrow> string \<Rightarrow> Store \<Rightarrow> SecretRecord res \<times> Store" where
  "RestoreSecret C token s =
     (case stdDecode token of
        None \<Rightarrow> (Inl invalidBackup, s)
      | Some data \<Rightarrow>
          (case cd_unmarshal C data of
             Inl _ \<Rightarrow> (Inl invalidBackup, s)
           | Inr payload \<Rightarrow>
               if bk_Name payload = [] \<or> bk_Versions payload = [] then (Inl invalidBackup, s)
               else
                 (let entry = map (restoredVersion (bk_Name payload)) (bk_Versions payload)
                  in (rbind (latestSecretRecord entry) (\<lambda>r. Inr (cloneSecretRecord r)),
                      s\<lparr>st_secrets := mput (bk_Name payload) entry (st_secrets s),
                        st_deletedSecrets := mdel (bk_Name payload) (st_deletedSecrets s)\<rparr>))))"

text \<open>Called by the certificate operations with the lock held.\<close>

definition putSecretVersion ::
  "string \<Rightarrow> string \<Rightarrow> string \<Rightarrow> string \<Rightarrow> Attributes \<Rightarrow> tags \<Rightarrow> Store \<Rightarrow> SecretRecord \<times> Store" where
  "putSecretVersion name version value contentType attrs tags s =
     (let record = \<lparr>sr_Name = name, sr_Version = version, sr_Value = value, sr_ContentType = contentType,
            sr_Attributes = cloneAttributes attrs, sr_Tags = cloneTags tags\<rparr>
      in (record, s\<lparr>st_secrets := appendVersion name record (st_secrets s)\<rparr>))"

end
