(* ===== verification/KV_Keys.thy ===== *)
theory KV_Keys
  imports KV_Store
begin

text \<open>
  The key operations of the in-memory store, \<open>src/internal/store/keys.go\<close>, in the order of the
  file: the life cycle of keys and the cryptographic operations on stored keys.
\<close>

section \<open>Life cycle\<close>

definition cloneKeyRecord :: "KeyRecord \<Rightarrow> KeyRecord" where
  "cloneKeyRecord inp =
     (let out = \<lparr>kr_Name = kr_Name inp, kr_Version = kr_Version inp, kr_Key = kr_Key inp,
            kr_Attributes = cloneAttributes (kr_Attributes inp), kr_Tags = cloneTags (kr_Tags inp)\<rparr>
      in out\<lparr>kr_Key := (kr_Key out)\<lparr>jwk_KeyOps := [] @ jwk_KeyOps (kr_Key inp)\<rparr>\<rparr>)"

definition defaultKeyOps :: "string \<Rightarrow> string list \<Rightarrow> string list" where
  "defaultKeyOps kty ops =
     (if ops \<noteq> [] then ops
      else if hasPrefix kty ''RSA''
      then [''encrypt'', ''decrypt'', ''sign'', ''verify'', ''wrapKey'', ''unwrapKey'']
      else if hasPrefix kty ''EC'' then [''sign'', ''verify'']
      else [''encrypt'', ''decrypt'', ''wrapKey'', ''unwrapKey''])"

definition findKeyVersion :: "keyEntry \<Rightarrow> string \<Rightarrow> nat option" where
  "findKeyVersion entry version = findVersion (\<lambda>v. kr_Version (kv_record v)) entry version"

definition keyNotFound :: "string \<Rightarrow> goerr" where
  "keyNotFound name = newError 404 ''KeyNotFound''
     (''A key with (name/id) '' @ name @ '' was not found in this key vault.'')"

definition deletedKeyNotFound :: "string \<Rightarrow> goerr" where
  "deletedKeyNotFound name = newError 404 ''KeyNotFound''
     (''A deleted key with name '' @ name @ '' was not found in this key vault.'')"

definition keyIsDeleted :: "string \<Rightarrow> goerr" where
  "keyIsDeleted name = newError 409 ''InvalidOperation'' (''Key '' @ name @
     '' is currently deleted and cannot be reused until recovered or purged.'')"

text \<open>
  \<open>newError(status, code, err.Error())\<close> for an error of the crypto package. A panic there is not
  an error value and goes through.
\<close>

definition wrapErr :: "int \<Rightarrow> string \<Rightarrow> 'a res \<Rightarrow> 'a res" where
  "wrapErr status code r =
     (case r of
        Inr x \<Rightarrow> Inr x
      | Inl (Panic msg) \<Rightarrow> Inl (Panic msg)
      | Inl err \<Rightarrow> Inl (newError status code (err_msg err)))"

definition CreateKey ::
  "env \<Rightarrow> prims \<Rightarrow> string \<Rightarrow> CreateKeyRequest \<Rightarrow> Store \<Rightarrow> KeyRecord res \<times> Store" where
  "CreateKey e P name req s =
     (if name = [] then (Inl (newError 400 ''BadParameter'' ''Key name is required.''), s)
      else if ck_Kty req = [] then (Inl (newError 400 ''BadParameter'' ''Key type is required.''), s)
      else if map_of (st_deletedKeys s) name \<noteq> None then (Inl (keyIsDeleted name), s)
      else
        (let now = env_now e
         in case newVersion e of
              Inl err \<Rightarrow> (Inl err, s)
            | Inr version \<Rightarrow>
                (let ops = defaultKeyOps (ck_Kty req) (ck_KeyOps req)
                 in case wrapErr 400 ''BadParameter''
                           (GenerateKey P (ck_Kty req) (ck_KeySize req) (ck_Crv req) [] ops) of
                      Inl err \<Rightarrow> (Inl err, s)
                    | Inr (material, jwk) \<Rightarrow>
                        (let record = \<lparr>kr_Name = name, kr_Version = version, kr_Key = jwk,
                               kr_Attributes = buildAttributes (ck_Attributes req) now now,
                               kr_Tags = cloneTags (ck_Tags req)\<rparr>
                         in (Inr (cloneKeyRecord record),
                             s\<lparr>st_keys := appendVersion name
                                 \<lparr>kv_record = record, kv_material = material\<rparr> (st_keys s)\<rparr>)))))"

definition ImportKey :: "env \<Rightarrow> string \<Rightarrow> ImportKeyRequest \<Rightarrow> Store \<Rightarrow> KeyRecord res \<times> Store" where
  "ImportKey e name req s =
     (if name = [] then (Inl (newError 400 ''BadParameter'' ''Key name is required.''), s)
      else if jwk_Kty (ik_Key req) = [] then (Inl (newError 400 ''BadParameter'' ''Key type is required.''), s)
      else if map_of (st_deletedKeys s) name \<noteq> None then (Inl (keyIsDeleted name), s)
      else case wrapErr 400 ''BadParameter'' (ImportKeyMaterial (ik_Key req) []) of
        Inl err \<Rightarrow> (Inl err, s)
      | Inr (material, jwk) \<Rightarrow>
          (let ops = defaultKeyOps (jwk_Kty (ik_Key req)) (jwk_KeyOps (ik_Key req));
               jwk = jwk\<lparr>jwk_KeyOps := ops\<rparr>;
               now = env_now e
           in case newVersion e of
                Inl err \<Rightarrow> (Inl err, s)
              | Inr version \<Rightarrow>
                  (let record = \<lparr>kr_Name = name, kr_Version = version, kr_Key = jwk,
                         kr_Attributes = buildAttributes (ik_Attributes req) now now,
                         kr_Tags = cloneTags (ik_Tags req)\<rparr>
                   in (Inr (cloneKeyRecord record),
                       s\<lparr>st_keys := appendVersion name
                           \<lparr>kv_record = record, kv_material = material\<rparr> (st_keys s)\<rparr>))))"

definition GetKey :: "Store \<Rightarrow> string \<Rightarrow> string \<Rightarrow> KeyRecord res" where
  "GetKey s name version =
     (case map_of (st_keys s) name of
        None \<Rightarrow> Inl (keyNotFound name)
      | Some entry \<Rightarrow>
          (case findKeyVersion entry version of
             None \<Rightarrow> Inl (keyNotFound name)
           | Some i \<Rightarrow> Inr (cloneKeyRecord (kv_record (entry ! i)))))"

definition ListKeys :: "Store \<Rightarrow> int \<Rightarrow> string \<Rightarrow> (KeyRecord list \<times> string option) res" where
  "ListKeys s maxResults skipToken =
     rbind (paginateNames (sort (mkeys (st_keys s))) skipToken maxResults) (\<lambda>(page, next).
       Inr (List.map_filter
              (\<lambda>name. map_option (\<lambda>v. cloneKeyRecord (kv_record v)) (latestKey (map_of (st_keys s) name)))
              page, next))"

definition ListKeyVersions ::
  "Store \<Rightarrow> string \<Rightarrow> int \<Rightarrow> string \<Rightarrow> (KeyRecord list \<times> string option) res" where
  "ListKeyVersions s name maxResults skipToken =
     (case map_of (st_keys s) name of
        None \<Rightarrow> Inl (keyNotFound name)
      | Some entry \<Rightarrow>
          paginateNames (map (\<lambda>v. cloneKeyRecord (kv_record v)) (rev entry)) skipToken maxResults)"

definition UpdateKey ::
  "env \<Rightarrow> string \<Rightarrow> string \<Rightarrow> UpdateKeyRequest \<Rightarrow> Store \<Rightarrow> KeyRecord res \<times> Store" where
  "UpdateKey e name version req s =
     (case map_of (st_keys s) name of
        None \<Rightarrow> (Inl (keyNotFound name), s)
      | Some entry \<Rightarrow>
          (case findKeyVersion entry version of
             None \<Rightarrow> (Inl (keyNotFound name), s)
           | Some i \<Rightarrow>
               (let r = kv_record (entry ! i);
                    r = r\<lparr>kr_Attributes := mergeAttributes (env_now e) (kr_Attributes r) (uk_Attributes req)\<rparr>;
                    r = (if uk_Tags req \<noteq> None then r\<lparr>kr_Tags := cloneTags (uk_Tags req)\<rparr> else r);
                    r = (case uk_KeyOps req of
                           None \<Rightarrow> r
                         | Some ops \<Rightarrow> r\<lparr>kr_Key := (kr_Key r)\<lparr>jwk_KeyOps := [] @ ops\<rparr>\<rparr>)
                in (Inr (cloneKeyRecord r),
                    s\<lparr>st_keys := mput name (entry[i := (entry ! i)\<lparr>kv_record := r\<rparr>]) (st_keys s)\<rparr>))))"

definition latestKeyRecord :: "keyEntry \<Rightarrow> KeyRecord res" where
  "latestKeyRecord entry = ofOption nilDereference (map_option kv_record (latestKey (Some entry)))"

definition deletedKeyRecord :: "keyEntry deletedEntry \<Rightarrow> DeletedKeyRecord res" where
  "deletedKeyRecord d =
     rbind (latestKeyRecord (de_entry d)) (\<lambda>r.
       Inr \<lparr>dr_Record = cloneKeyRecord r, dr_RecoveryID = de_recoveryID d,
            dr_DeletedDate = de_deletedDate d, dr_ScheduledPurgeDate = de_scheduledPurgeDate d\<rparr>)"

definition DeleteKey :: "env \<Rightarrow> string \<Rightarrow> Store \<Rightarrow> DeletedKeyRecord res \<times> Store" where
  "DeleteKey e name s =
     (case map_of (st_keys s) name of
        None \<Rightarrow> (Inl (keyNotFound name), s)
      | Some entry \<Rightarrow>
          if map_of (st_deletedKeys s) name \<noteq> None then (Inl (keyNotFound name), s)
          else
            (let s = s\<lparr>st_keys := mdel name (st_keys s)\<rparr>; now = env_now e
             in case newRecoveryID e ''keys'' name of
                  Inl err \<Rightarrow> (Inl err, s)
                | Inr rid \<Rightarrow>
                    (let deleted = \<lparr>de_entry = entry, de_recoveryID = rid, de_deletedDate = now,
                           de_scheduledPurgeDate = add64 now purgeDelay\<rparr>
                     in (deletedKeyRecord deleted,
                         s\<lparr>st_deletedKeys := mput name deleted (st_deletedKeys s)\<rparr>))))"

definition ListDeletedKeys :: "Store \<Rightarrow> int \<Rightarrow> string \<Rightarrow> (DeletedKeyRecord list \<times> string option) res" where
  "ListDeletedKeys s maxResults skipToken =
     rbind (paginateNames (sort (mkeys (st_deletedKeys s))) skipToken maxResults) (\<lambda>(page, next).
       rbind (mapRes (\<lambda>name.
                rbind (ofOption nilDereference (map_of (st_deletedKeys s) name)) deletedKeyRecord) page)
             (\<lambda>items. Inr (items, next)))"

definition GetDeletedKey :: "Store \<Rightarrow> string \<Rightarrow> DeletedKeyRecord res" where
  "GetDeletedKey s name =
     (case map_of (st_deletedKeys s) name of
        None \<Rightarrow> Inl (deletedKeyNotFound name)
      | Some deleted \<Rightarrow> deletedKeyRecord deleted)"

definition PurgeDeletedKey :: "string \<Rightarrow> Store \<Rightarrow> unit res \<times> Store" where
  "PurgeDeletedKey name s =
     (if map_of (st_deletedKeys s) name = None then (Inl (deletedKeyNotFound name), s)
      else (Inr (), s\<lparr>st_deletedKeys := mdel name (st_deletedKeys s)\<rparr>))"

definition RecoverDeletedKey :: "string \<Rightarrow> Store \<Rightarrow> KeyRecord res \<times> Store" where
  "RecoverDeletedKey name s =
     (if map_of (st_keys s) name \<noteq> None then
        (Inl (newError 409 ''Conflict'' (''Key '' @ name @ '' already exists.'')), s)
      else case map_of (st_deletedKeys s) name of
        None \<Rightarrow> (Inl (deletedKeyNotFound name), s)
      | Some deleted \<Rightarrow>
          (rbind (latestKeyRecord (de_entry deleted)) (\<lambda>r. Inr (cloneKeyRecord r)),
           s\<lparr>st_keys := mput name (de_entry deleted) (st_keys s),
             st_deletedKeys := mdel name (st_deletedKeys s)\<rparr>))"

section \<open>Cryptographic operations on stored keys\<close>

definition keyMaterial :: "Store \<Rightarrow> string \<Rightarrow> string \<Rightarrow> keyVersion res" where
  "keyMaterial s name version =
     (case map_of (st_keys s) name of
        None \<Rightarrow> Inl (keyNotFound name)
      | Some entry \<Rightarrow>
          (case findKeyVersion entry version of
             None \<Rightarrow> Inl (keyNotFound name)
           | Some i \<Rightarrow> Inr (entry ! i)))"

text \<open>Decoding a base64url field of a request, with the field named in the error.\<close>

definition decodeField :: "string \<Rightarrow> string \<Rightarrow> bytes res" where
  "decodeField field value =
     ofOption (newError 400 ''BadParameter'' (''The provided '' @ field @ '' is not valid base64url data.''))
       (DecodeBase64URL value)"

abbreviation ktyOf :: "keyVersion \<Rightarrow> string" where
  "ktyOf v \<equiv> jwk_Kty (kr_Key (kv_record v))"

definition ivValue :: "bytes \<Rightarrow> string" where
  "ivValue outIV = (if 0 < length outIV then EncodeBase64URL outIV else [])"

definition Encrypt :: "prims \<Rightarrow> Store \<Rightarrow> string \<Rightarrow> string \<Rightarrow> EncryptRequest \<Rightarrow> (string \<times> string) res" where
  "Encrypt P s name version req =
     rbind (keyMaterial s name version) (\<lambda>ver.
     rbind (decodeField ''value'' (er_Value req)) (\<lambda>value.
     rbind (if er_IV req \<noteq> [] then decodeField ''iv'' (er_IV req) else Inr []) (\<lambda>iv.
     rbind (wrapErr 400 ''InvalidOperation''
              (cryptEncrypt P (kv_material ver) (ktyOf ver) (er_Alg req) value iv)) (\<lambda>(ciphertext, outIV).
       Inr (EncodeBase64URL ciphertext, ivValue outIV)))))"

definition Decrypt :: "prims \<Rightarrow> Store \<Rightarrow> string \<Rightarrow> string \<Rightarrow> EncryptRequest \<Rightarrow> (string \<times> string) res" where
  "Decrypt P s name version req =
     rbind (keyMaterial s name version) (\<lambda>ver.
     rbind (decodeField ''value'' (er_Value req)) (\<lambda>value.
     rbind (if er_IV req \<noteq> [] then decodeField ''iv'' (er_IV req) else Inr []) (\<lambda>iv.
     rbind (wrapErr 400 ''InvalidOperation''
              (cryptDecrypt P (kv_material ver) (ktyOf ver) (er_Alg req) value iv)) (\<lambda>(plaintext, outIV).
       Inr (EncodeBase64URL plaintext, ivValue outIV)))))"

definition Sign :: "prims \<Rightarrow> Store \<Rightarrow> string \<Rightarrow> string \<Rightarrow> SignRequest \<Rightarrow> string res" where
  "Sign P s name version req =
     rbind (keyMaterial s name version) (\<lambda>ver.
     rbind (decodeField ''value'' (sg_Value req)) (\<lambda>digest.
     rbind (wrapErr 400 ''InvalidOperation''
              (cryptSign P (kv_material ver) (ktyOf ver) (sg_Alg req) digest)) (\<lambda>sig.
       Inr (EncodeBase64URL sig))))"

definition Verify :: "prims \<Rightarrow> Store \<Rightarrow> string \<Rightarrow> string \<Rightarrow> VerifyRequest \<Rightarrow> bool res" where
  "Verify P s name version req =
     rbind (keyMaterial s name version) (\<lambda>ver.
     rbind (decodeField ''digest'' (vr_Digest req)) (\<lambda>digest.
     rbind (decodeField ''value'' (vr_Value req)) (\<lambda>sig.
       wrapErr 400 ''InvalidOperation''
         (cryptVerify P (kv_material ver) (ktyOf ver) (vr_Alg req) digest sig))))"

definition WrapKey :: "prims \<Rightarrow> Store \<Rightarrow> string \<Rightarrow> string \<Rightarrow> EncryptRequest \<Rightarrow> string res" where
  "WrapKey P s name version req =
     rbind (keyMaterial s name version) (\<lambda>ver.
     rbind (decodeField ''value'' (er_Value req)) (\<lambda>value.
     rbind (wrapErr 400 ''InvalidOperation''
              (cryptWrap P (kv_material ver) (ktyOf ver) (er_Alg req) value)) (\<lambda>wrapped.
       Inr (EncodeBase64URL wrapped))))"

definition UnwrapKey :: "prims \<Rightarrow> Store \<Rightarrow> string \<Rightarrow> string \<Rightarrow> EncryptRequest \<Rightarrow> string res" where
  "UnwrapKey P s name version req =
     rbind (keyMaterial s name version) (\<lambda>ver.
     rbind (decodeField ''value'' (er_Value req)) (\<lambda>value.
     rbind (wrapErr 400 ''InvalidOperation''
              (cryptUnwrap P (kv_material ver) (ktyOf ver) (er_Alg req) value)) (\<lambda>unwrapped.
       Inr (EncodeBase64URL unwrapped))))"

text \<open>Called by the certificate operations with the lock held.\<close>

definition putKeyVersion ::
  "string \<Rightarrow> string \<Rightarrow> KeyRecord \<Rightarrow> KeyMaterial \<Rightarrow> Store \<Rightarrow> KeyRecord \<times> Store" where
  "putKeyVersion name version record material s =
     (let record = record\<lparr>kr_Name := name, kr_Version := version\<rparr>
      in (record,
          s\<lparr>st_keys := appendVersion name
              \<lparr>kv_record = cloneKeyRecord record, kv_material = material\<rparr> (st_keys s)\<rparr>))"

end
