(* ===== verification/KV_Certs.thy ===== *)
theory KV_Certs
  imports KV_Secrets KV_Keys
begin

text \<open>
  The certificate operations of the in-memory store, \<open>src/internal/store/certificates.go\<close>, in the
  order of the file. Creating or importing a certificate also adds a version to the key and to the
  secret of the same name.
\<close>

section \<open>Helpers\<close>

definition cloneCertificateRecord :: "CertificateRecord \<Rightarrow> CertificateRecord" where
  "cloneCertificateRecord inp = \<lparr>crt_Name = crt_Name inp, crt_Version = crt_Version inp,
     crt_Cer = [] @ crt_Cer inp, crt_Kid = crt_Kid inp, crt_Sid = crt_Sid inp,
     crt_Attributes = cloneAttributes (crt_Attributes inp), crt_Tags = cloneTags (crt_Tags inp),
     crt_Policy = clonePolicy (crt_Policy inp)\<rparr>"

definition findCertificateVersion :: "certificateEntry \<Rightarrow> string \<Rightarrow> nat option" where
  "findCertificateVersion entry version = findVersion (\<lambda>v. crt_Version (cv_record v)) entry version"

definition certificateNotFound :: "string \<Rightarrow> goerr" where
  "certificateNotFound name = newError 404 ''CertificateNotFound''
     (''A certificate with (name/id) '' @ name @ '' was not found in this key vault.'')"

definition deletedCertificateNotFound :: "string \<Rightarrow> goerr" where
  "deletedCertificateNotFound name = newError 404 ''CertificateNotFound''
     (''A deleted certificate with name '' @ name @ '' was not found in this key vault.'')"

definition certificateIsDeleted :: "string \<Rightarrow> goerr" where
  "certificateIsDeleted name = newError 409 ''InvalidOperation'' (''Certificate '' @ name @
     '' is currently deleted and cannot be reused until recovered or purged.'')"

definition defaultCertificatePolicy :: "string \<Rightarrow> CertificatePolicy option \<Rightarrow> CertificatePolicy" where
  "defaultCertificatePolicy name policy0 =
     (let policy = (case policy0 of None \<Rightarrow> emptyPolicy | Some p \<Rightarrow> p);
          out = (case clonePolicy (Some policy) of None \<Rightarrow> emptyPolicy | Some p \<Rightarrow> p);
          out = (if cp_Issuer out = None
                 then out\<lparr>cp_Issuer := Some [(''name'', AStr ''Self'')]\<rparr> else out);
          out = (if cp_KeyProps out = None
                 then out\<lparr>cp_KeyProps := Some [(''kty'', AStr ''RSA''), (''key_size'', AInt 2048),
                        (''reuse_key'', ABool False)]\<rparr> else out);
          out = (if cp_SecretProps out = None
                 then out\<lparr>cp_SecretProps := Some [(''contentType'', AStr ''application/x-pkcs12'')]\<rparr>
                 else out)
      in (if cp_X509Props out = None
          then out\<lparr>cp_X509Props := Some [(''subject'', AStr (''CN='' @ name))]\<rparr> else out))"

definition getIssuerMaterial :: "x509lib \<Rightarrow> Store \<Rightarrow> string \<Rightarrow> (x509_Certificate \<times> rsa_PrivateKey) res" where
  "getIssuerMaterial L s issuerName =
     (case map_of (st_secrets s) issuerName of
        None \<Rightarrow> Inl (PlainErr (''issuer certificate '' @ quote issuerName @ '' not found in vault''))
      | Some entry \<Rightarrow>
          (case latestSecret (Some entry) of
             None \<Rightarrow> Inl (PlainErr (''issuer certificate '' @ quote issuerName @ '' has no versions''))
           | Some latest \<Rightarrow>
               (case ParseImportedCertificate L (sr_Value latest) [] of
                  Inl err \<Rightarrow> Inl (PlainErr (''failed to parse issuer certificate '' @ quote issuerName @
                               '': '' @ err_msg err))
                | Inr (cert, None, _) \<Rightarrow>
                    Inl (PlainErr (''issuer certificate '' @ quote issuerName @
                      '' has no private key and cannot sign''))
                | Inr (cert, Some key, _) \<Rightarrow> Inr (cert, key))))"

section \<open>Creating and importing\<close>

text \<open>The part of \<open>CreateCertificate\<close> that reads the certificate type and the issuer.\<close>

definition certOptions :: "x509lib \<Rightarrow> Store \<Rightarrow> CertificatePolicy \<Rightarrow> CertOptions res" where
  "certOptions L s policy =
     (let certType = (case anyString (cp_X509Props policy) ''cert_type'' of
                        Some t \<Rightarrow> if t \<noteq> [] then t else ''CA''
                      | None \<Rightarrow> ''CA'');
          self = \<lparr>opt_CertType = certType, opt_IssuerCert = None, opt_IssuerKey = None\<rparr>
      in case anyString (cp_X509Props policy) ''issuer_name'' of
           None \<Rightarrow> Inr self
         | Some issuerName \<Rightarrow>
             if issuerName = [] then Inr self
             else rbind (wrapErr 400 ''InvalidIssuer'' (getIssuerMaterial L s issuerName)) (\<lambda>(cert, key).
                    Inr (self\<lparr>opt_IssuerCert := Some cert, opt_IssuerKey := Some key\<rparr>)))"

definition CreateCertificate ::
  "env \<Rightarrow> prims \<Rightarrow> x509lib \<Rightarrow> string \<Rightarrow> CreateCertificateRequest \<Rightarrow> Store \<Rightarrow> CertificateRecord res \<times> Store" where
  "CreateCertificate e P L name req s =
     (if name = [] then (Inl (newError 400 ''BadParameter'' ''Certificate name is required.''), s)
      else if map_of (st_deletedCertificates s) name \<noteq> None then (Inl (certificateIsDeleted name), s)
      else
        (let policy = defaultCertificatePolicy name (cc_Policy req);
             now = env_now e;
             attrs = buildAttributes (cc_Attributes req) now now
         in case rbind (newVersion e) (\<lambda>version.
                   rbind (certOptions L s policy) (\<lambda>opts.
                   rbind (wrapErr 400 ''InvalidOperation'' (GenerateCert P L name (Some policy) opts))
                     (\<lambda>(priv, der). Inr (version, priv, der)))) of
              Inl err \<Rightarrow> (Inl err, s)
            | Inr (version, priv, der) \<Rightarrow>
                (let certPEM = lib_pemEncode L (pemBlock ''CERTIFICATE'' der);
                     keyPEM = lib_pemEncode L (pemBlock ''RSA PRIVATE KEY'' (lib_MarshalPKCS1PrivateKey L priv));
                     managedSecret = string_of_bytes (certPEM @ keyPEM);
                     record = \<lparr>crt_Name = name, crt_Version = version, crt_Cer = der, crt_Kid = name,
                       crt_Sid = name, crt_Attributes = attrs, crt_Tags = cloneTags (cc_Tags req),
                       crt_Policy = clonePolicy (Some policy)\<rparr>;
                     s = s\<lparr>st_certificates := appendVersion name
                       \<lparr>cv_record = cloneCertificateRecord record, cv_pem = certPEM\<rparr> (st_certificates s)\<rparr>;
                     keyRecord = \<lparr>kr_Name = name, kr_Version = version,
                       kr_Key = RSAToJWK [] ''RSA'' (defaultKeyOps ''RSA'' []) (priv_PublicKey priv),
                       kr_Attributes = attrs, kr_Tags = cloneTags (cc_Tags req)\<rparr>;
                     (_, s) = putKeyVersion name version keyRecord
                       (emptyMaterial\<lparr>km_RSA := Some priv, km_RSAPub := Some (priv_PublicKey priv)\<rparr>) s;
                     (_, s) = putSecretVersion name version managedSecret ''application/x-pem-file''
                       attrs (cc_Tags req) s
                 in (Inr (cloneCertificateRecord record), s))))"

definition ImportCertificate ::
  "env \<Rightarrow> x509lib \<Rightarrow> string \<Rightarrow> ImportCertificateRequest \<Rightarrow> Store \<Rightarrow> CertificateRecord res \<times> Store" where
  "ImportCertificate e L name req s =
     (if name = [] then (Inl (newError 400 ''BadParameter'' ''Certificate name is required.''), s)
      else if ic_Value req = [] then (Inl (newError 400 ''BadParameter'' ''Certificate value is required.''), s)
      else case wrapErr 400 ''BadParameter'' (ParseImportedCertificate L (ic_Value req) (ic_Password req)) of
        Inl err \<Rightarrow> (Inl err, s)
      | Inr (cert, priv, pemValue) \<Rightarrow>
          if map_of (st_deletedCertificates s) name \<noteq> None then (Inl (certificateIsDeleted name), s)
          else
            (let policy = defaultCertificatePolicy name (ic_Policy req);
                 now = env_now e
             in case newVersion e of
                  Inl err \<Rightarrow> (Inl err, s)
                | Inr version \<Rightarrow>
                    (let attrs = buildAttributes (ic_Attributes req) now now;
                         record = \<lparr>crt_Name = name, crt_Version = version, crt_Cer = x_Raw cert,
                           crt_Kid = name, crt_Sid = name, crt_Attributes = attrs,
                           crt_Tags = cloneTags (ic_Tags req), crt_Policy = clonePolicy (Some policy)\<rparr>;
                         s = s\<lparr>st_certificates := appendVersion name
                           \<lparr>cv_record = cloneCertificateRecord record, cv_pem = pemValue\<rparr> (st_certificates s)\<rparr>;
                         s = (case x_PublicKey cert of
                                Some (RSAPublic rsaPub) \<Rightarrow>
                                  (let material = emptyMaterial\<lparr>km_RSAPub := Some rsaPub\<rparr>;
                                       material = (case priv of
                                           None \<Rightarrow> material
                                         | Some k \<Rightarrow> material\<lparr>km_RSA := Some k,
                                                       km_RSAPub := Some (priv_PublicKey k)\<rparr>);
                                       keyRecord = \<lparr>kr_Name = name, kr_Version = version,
                                         kr_Key = RSAToJWK [] ''RSA'' (defaultKeyOps ''RSA'' []) rsaPub,
                                         kr_Attributes = attrs, kr_Tags = cloneTags (ic_Tags req)\<rparr>
                                   in snd (putKeyVersion name version keyRecord material s))
                              | _ \<Rightarrow> s);
                         (_, s) = putSecretVersion name version (string_of_bytes pemValue)
                           ''application/x-pem-file'' attrs (ic_Tags req) s
                     in (Inr (cloneCertificateRecord record), s))))"

section \<open>Reading and updating\<close>

definition GetCertificate :: "Store \<Rightarrow> string \<Rightarrow> string \<Rightarrow> CertificateRecord res" where
  "GetCertificate s name version =
     (case map_of (st_certificates s) name of
        None \<Rightarrow> Inl (certificateNotFound name)
      | Some entry \<Rightarrow>
          (case findCertificateVersion entry version of
             None \<Rightarrow> Inl (certificateNotFound name)
           | Some i \<Rightarrow> Inr (cloneCertificateRecord (cv_record (entry ! i)))))"

definition ListCertificates :: "Store \<Rightarrow> int \<Rightarrow> string \<Rightarrow> (CertificateRecord list \<times> string option) res" where
  "ListCertificates s maxResults skipToken =
     rbind (paginateNames (sort (mkeys (st_certificates s))) skipToken maxResults) (\<lambda>(page, next).
       Inr (List.map_filter
              (\<lambda>name. map_option (\<lambda>v. cloneCertificateRecord (cv_record v))
                        (latestCertificate (map_of (st_certificates s) name))) page, next))"

definition ListCertificateVersions ::
  "Store \<Rightarrow> string \<Rightarrow> int \<Rightarrow> string \<Rightarrow> (CertificateRecord list \<times> string option) res" where
  "ListCertificateVersions s name maxResults skipToken =
     (case map_of (st_certificates s) name of
        None \<Rightarrow> Inl (certificateNotFound name)
      | Some entry \<Rightarrow>
          paginateNames (map (\<lambda>v. cloneCertificateRecord (cv_record v)) (rev entry)) skipToken maxResults)"

definition UpdateCertificate ::
  "env \<Rightarrow> string \<Rightarrow> string \<Rightarrow> UpdateCertificateRequest \<Rightarrow> Store \<Rightarrow> CertificateRecord res \<times> Store" where
  "UpdateCertificate e name version req s =
     (case map_of (st_certificates s) name of
        None \<Rightarrow> (Inl (certificateNotFound name), s)
      | Some entry \<Rightarrow>
          (case findCertificateVersion entry version of
             None \<Rightarrow> (Inl (certificateNotFound name), s)
           | Some i \<Rightarrow>
               (let r = cv_record (entry ! i);
                    r = r\<lparr>crt_Attributes := mergeAttributes (env_now e) (crt_Attributes r) (uc_Attributes req)\<rparr>;
                    r = (if uc_Tags req \<noteq> None then r\<lparr>crt_Tags := cloneTags (uc_Tags req)\<rparr> else r)
                in (Inr (cloneCertificateRecord r),
                    s\<lparr>st_certificates :=
                        mput name (entry[i := (entry ! i)\<lparr>cv_record := r\<rparr>]) (st_certificates s)\<rparr>))))"

definition GetCertificatePolicy :: "Store \<Rightarrow> string \<Rightarrow> CertificatePolicy option res" where
  "GetCertificatePolicy s name =
     (case map_of (st_certificates s) name of
        None \<Rightarrow> Inl (certificateNotFound name)
      | Some entry \<Rightarrow>
          rbind (ofOption nilDereference (latestCertificate (Some entry))) (\<lambda>latest.
            Inr (clonePolicy (crt_Policy (cv_record latest)))))"

definition UpdateCertificatePolicy ::
  "env \<Rightarrow> string \<Rightarrow> CertificatePolicy option \<Rightarrow> Store \<Rightarrow> CertificatePolicy option res \<times> Store" where
  "UpdateCertificatePolicy e name policy s =
     (case map_of (st_certificates s) name of
        None \<Rightarrow> (Inl (certificateNotFound name), s)
      | Some entry \<Rightarrow>
          (case latestCertificate (Some entry) of
             None \<Rightarrow> (Inl nilDereference, s)
           | Some latest \<Rightarrow>
               (let r = cv_record latest;
                    r = r\<lparr>crt_Policy := Some (defaultCertificatePolicy name policy)\<rparr>;
                    r = r\<lparr>crt_Attributes := (crt_Attributes r)\<lparr>Updated := env_now e\<rparr>\<rparr>
                in (Inr (clonePolicy (crt_Policy r)),
                    s\<lparr>st_certificates :=
                        mput name (entry[length entry - 1 := latest\<lparr>cv_record := r\<rparr>]) (st_certificates s)\<rparr>))))"

definition GetPendingCertificateOperation :: "Store \<Rightarrow> string \<Rightarrow> CertificateOperation res" where
  "GetPendingCertificateOperation s name =
     (case map_of (st_certificates s) name of
        None \<Rightarrow> Inl (certificateNotFound name)
      | Some entry \<Rightarrow>
          rbind (ofOption nilDereference (latestCertificate (Some entry))) (\<lambda>latest.
            Inr \<lparr>co_ID = name, co_Status = ''completed'', co_Target = crt_Name (cv_record latest),
                 co_StatusDetails = []\<rparr>))"

section \<open>Deleting and recovering\<close>

definition latestCertificateRecord :: "certificateEntry \<Rightarrow> CertificateRecord res" where
  "latestCertificateRecord entry = ofOption nilDereference (map_option cv_record (latestCertificate (Some entry)))"

definition deletedCertificateRecord :: "certificateEntry deletedEntry \<Rightarrow> DeletedCertificateRecord res" where
  "deletedCertificateRecord d =
     rbind (latestCertificateRecord (de_entry d)) (\<lambda>r.
       Inr \<lparr>dr_Record = cloneCertificateRecord r, dr_RecoveryID = de_recoveryID d,
            dr_DeletedDate = de_deletedDate d, dr_ScheduledPurgeDate = de_scheduledPurgeDate d\<rparr>)"

definition DeleteCertificate :: "env \<Rightarrow> string \<Rightarrow> Store \<Rightarrow> DeletedCertificateRecord res \<times> Store" where
  "DeleteCertificate e name s =
     (case map_of (st_certificates s) name of
        None \<Rightarrow> (Inl (certificateNotFound name), s)
      | Some entry \<Rightarrow>
          if map_of (st_deletedCertificates s) name \<noteq> None then (Inl (certificateNotFound name), s)
          else
            (let s = s\<lparr>st_certificates := mdel name (st_certificates s)\<rparr>; now = env_now e
             in case newRecoveryID e ''certificates'' name of
                  Inl err \<Rightarrow> (Inl err, s)
                | Inr rid \<Rightarrow>
                    (let deleted = \<lparr>de_entry = entry, de_recoveryID = rid, de_deletedDate = now,
                           de_scheduledPurgeDate = add64 now purgeDelay\<rparr>
                     in (deletedCertificateRecord deleted,
                         s\<lparr>st_deletedCertificates := mput name deleted (st_deletedCertificates s)\<rparr>))))"

definition ListDeletedCertificates ::
  "Store \<Rightarrow> int \<Rightarrow> string \<Rightarrow> (DeletedCertificateRecord list \<times> string option) res" where
  "ListDeletedCertificates s maxResults skipToken =
     rbind (paginateNames (sort (mkeys (st_deletedCertificates s))) skipToken maxResults) (\<lambda>(page, next).
       rbind (mapRes (\<lambda>name.
                rbind (ofOption nilDereference (map_of (st_deletedCertificates s) name)) deletedCertificateRecord)
                page)
             (\<lambda>items. Inr (items, next)))"

definition GetDeletedCertificate :: "Store \<Rightarrow> string \<Rightarrow> DeletedCertificateRecord res" where
  "GetDeletedCertificate s name =
     (case map_of (st_deletedCertificates s) name of
        None \<Rightarrow> Inl (deletedCertificateNotFound name)
      | Some deleted \<Rightarrow> deletedCertificateRecord deleted)"

definition PurgeDeletedCertificate :: "string \<Rightarrow> Store \<Rightarrow> unit res \<times> Store" where
  "PurgeDeletedCertificate name s =
     (if map_of (st_deletedCertificates s) name = None then (Inl (deletedCertificateNotFound name), s)
      else (Inr (), s\<lparr>st_deletedCertificates := mdel name (st_deletedCertificates s)\<rparr>))"

definition RecoverDeletedCertificate :: "string \<Rightarrow> Store \<Rightarrow> CertificateRecord res \<times> Store" where
  "RecoverDeletedCertificate name s =
     (if map_of (st_certificates s) name \<noteq> None then
        (Inl (newError 409 ''Conflict'' (''Certificate '' @ name @ '' already exists.'')), s)
      else case map_of (st_deletedCertificates s) name of
        None \<Rightarrow> (Inl (deletedCertificateNotFound name), s)
      | Some deleted \<Rightarrow>
          (rbind (latestCertificateRecord (de_entry deleted)) (\<lambda>r. Inr (cloneCertificateRecord r)),
           s\<lparr>st_certificates := mput name (de_entry deleted) (st_certificates s),
             st_deletedCertificates := mdel name (st_deletedCertificates s)\<rparr>))"

end
