(* ===== verification/KV_Samples.thy ===== *)
theory KV_Samples
  imports KV_Certs
begin

text \<open>
  Concrete inputs for the witnesses: an environment, requests, and one instance of each library
  record that the model takes as a parameter. The instances only have to satisfy the laws that a
  property names; they are not models of the libraries.
\<close>

definition sampleEnv :: env where
  "sampleEnv = \<lparr>env_now = 1700000000, env_rand = Inr (replicate 16 7)\<rparr>"

definition sampleEnv2 :: env where
  "sampleEnv2 = \<lparr>env_now = 1700000100, env_rand = Inr (replicate 16 9)\<rparr>"

definition sampleSecret :: SecretSetRequest where
  "sampleSecret = \<lparr>ss_Value = ''hunter2'', ss_ContentType = ''text/plain'', ss_Attributes = None,
     ss_Tags = Some [(''env'', ''dev'')]\<rparr>"

definition sampleRSA :: rsa_PrivateKey where
  "sampleRSA = \<lparr>priv_PublicKey = \<lparr>pub_N = 3233, pub_E = 17\<rparr>, priv_D = 413, priv_Primes = [61, 53]\<rparr>"

definition sampleEC :: ecdsa_PrivateKey where
  "sampleEC = \<lparr>ecp_PublicKey = \<lparr>ec_Curve = P256, ec_X = 5, ec_Y = 6\<rparr>, ecp_D = 7\<rparr>"

definition samplePrims :: prims where
  "samplePrims = \<lparr>p_randRead = (\<lambda>n. Inr (replicate n 1)),
     p_rsaGenerateKey = (\<lambda>_. Inr sampleRSA), p_ecdsaGenerateKey = (\<lambda>_. Inr sampleEC),
     p_EncryptOAEP = (\<lambda>_ _ m. Inr (rev m)), p_DecryptOAEP = (\<lambda>_ _ m. Inr (rev m)),
     p_EncryptPKCS1v15 = (\<lambda>_ m. Inr (rev m)), p_DecryptPKCS1v15 = (\<lambda>_ m. Inr (rev m)),
     p_SignPSS = (\<lambda>_ _ d. Inr d), p_SignPKCS1v15 = (\<lambda>_ _ d. Inr d),
     p_VerifyPSS = (\<lambda>_ _ d s. s = d), p_VerifyPKCS1v15 = (\<lambda>_ _ d s. s = d),
     p_ecdsaSign = (\<lambda>_ d. Inr (length d mod 1000, 1)),
     p_ecdsaVerify = (\<lambda>_ d r s. r = length d mod 1000 \<and> s = 1)\<rparr>"

definition sampleCert :: x509_Certificate where
  "sampleCert = \<lparr>x_Raw = [48, 1], x_PublicKey = Some (RSAPublic (priv_PublicKey sampleRSA)),
     x_SerialNumber = 1, x_Subject = ParseSubject ''CN=a'', x_NotBefore = 0, x_NotAfter = 1,
     x_KeyUsage = 97, x_ExtKeyUsage = [], x_BasicConstraintsValid = True, x_IsCA = True,
     x_DNSNames = []\<rparr>"

definition sampleLib :: x509lib where
  "sampleLib = \<lparr>lib_now = 1700000000000000000, lib_randInt = (\<lambda>_. Inr 5),
     lib_createCertificate = (\<lambda>_ _ _ _. Inr [48, 1]), lib_ParseCertificate = (\<lambda>_. Inr sampleCert),
     lib_ParsePKCS1PrivateKey = (\<lambda>_. Inr sampleRSA), lib_ParsePKCS8PrivateKey = (\<lambda>_. Inr (RSAPrivate sampleRSA)),
     lib_MarshalPKCS1PrivateKey = (\<lambda>_. [48, 2]), lib_pemEncode = (\<lambda>b. pem_Bytes b @ [10]),
     lib_pemDecode = (\<lambda>_. None), lib_ToPEM = (\<lambda>_ _. Inl (PlainErr ''pkcs12: error'')),
     lib_X509KeyPair = (\<lambda>_ _. Inl (PlainErr ''tls: failed''))\<rparr>"

definition sampleCertRequest :: CreateCertificateRequest where
  "sampleCertRequest = \<lparr>cc_Policy = None, cc_Attributes = None, cc_Tags = None\<rparr>"

definition sampleKeyRequest :: "string \<Rightarrow> CreateKeyRequest" where
  "sampleKeyRequest kty = \<lparr>ck_Kty = kty, ck_KeySize = 0, ck_KeyOps = [], ck_Attributes = None,
     ck_Tags = None, ck_Crv = [], ck_Value = []\<rparr>"

lemma sampleEnv_ok: "env_ok sampleEnv" "env_ok sampleEnv2"
  by (simp_all add: env_ok_def sampleEnv_def sampleEnv2_def)

end
