(* ===== verification/KV_Crypto_Theorems.thy ===== *)
theory KV_Crypto_Theorems
  imports KV_Crypto_Ops KV_Samples
begin

text \<open>
  The properties of the packages crypto (keys and certificates): padding, key wrapping, what key
  generation and import return, and the validity period of generated certificates.
\<close>

section \<open>Padding and key wrapping\<close>

text \<open>
  PKCS#7 unpadding accepts exactly the outputs of padding and returns what was padded, for every
  block size up to 255; padded data is a multiple of the block size. All malformed paddings (wrong
  length, zero, longer than a block, unequal bytes) are rejected with an error.
\<close>
theorem padding_exact:
  assumes "0 < n" "n < 256"
  shows "(pkcs7Unpad padded n = Inr data \<longleftrightarrow> padded = pkcs7Pad data n) \<and> length (pkcs7Pad data n) mod n = 0 \<and>
    \<not> is_panic (pkcs7Unpad padded n)"
proof -
  have "\<not> is_panic (pkcs7Unpad padded n)"
    unfolding pkcs7Unpad_def Let_def by (simp only: is_panic.simps split: if_split) simp
  then show ?thesis
    using pkcs7Unpad_pkcs7Pad [OF assms] pkcs7Pad_pkcs7Unpad [OF _ assms] length_pkcs7Pad [OF assms(1)]
    by blast
qed

theorem padding_exact_witness: "pkcs7Unpad (pkcs7Pad [1, 2, 3] 16) 16 = Inr [1, 2, 3]"
  using padding_exact [of 16 "pkcs7Pad [1, 2, 3] 16" "[1, 2, 3]"] by simp

text \<open>
  C6: AES key wrapping with a 16, 24 or 32 byte key succeeds for every non-empty input of whole
  8-byte blocks, the wrapped key is 8 bytes longer, and unwrapping it with the same key gives the
  input back and passes the integrity check.
\<close>
theorem key_wrap_roundtrip:
  assumes "aesKeyOk kek" "plaintext \<noteq> []" "length plaintext mod 8 = 0"
  shows "\<exists>ct. aesKeyWrap kek plaintext = Inr ct \<and> length ct = length plaintext + 8 \<and>
    aesKeyUnwrap kek ct = Inr plaintext"
  using aesKeyWrap_total [OF assms] aesKeyUnwrap_aesKeyWrap by blast

theorem key_wrap_roundtrip_witness:
  "\<exists>ct. aesKeyWrap (replicate 16 3) (replicate 24 5) = Inr ct \<and> length ct = 32 \<and>
    aesKeyUnwrap (replicate 16 3) ct = Inr (replicate 24 5)"
  using key_wrap_roundtrip [of "replicate 16 3" "replicate 24 5"] by (auto simp: aesKeyOk_def)

text \<open>
  For a key with its private part, a signature verifies and an RSA ciphertext decrypts, for every
  algorithm the functions accept, given the laws of the RSA and ECDSA primitives; wrapping and
  unwrapping agree for RSA and symmetric keys alike.
\<close>
theorem key_operations_agree:
  assumes "km_RSA m = Some priv" "rsa_law P priv" "sign_law P m" "hasPrefix kty ''RSA''"
  shows "(cryptSign P m kty alg digest = Inr sig \<longrightarrow> cryptVerify P m kty alg digest sig = Inr True) \<and>
    (cryptEncrypt P m kty alg plaintext iv = Inr (ct, iv') \<longrightarrow>
       iv' = [] \<and> cryptDecrypt P m kty alg ct iv' = Inr (plaintext, [])) \<and>
    (cryptWrap P m kty alg plaintext = Inr wrapped \<longrightarrow> cryptUnwrap P m kty alg wrapped = Inr plaintext)"
proof -
  have "iv' = []" if "cryptEncrypt P m kty alg plaintext iv = Inr (ct, iv')"
    using that assms(4) by (auto simp: cryptEncrypt_def noIV_def rbind_Inr_iff split: if_splits option.splits)
  then show ?thesis
    using cryptVerify_cryptSign [OF assms(3)] cryptDecrypt_cryptEncrypt_rsa [OF assms(1,2,4)]
      cryptUnwrap_cryptWrap [of m P kty alg plaintext wrapped] assms by auto
qed

definition sampleRSAMaterial :: KeyMaterial where
  "sampleRSAMaterial = emptyMaterial\<lparr>km_RSA := Some sampleRSA, km_RSAPub := Some (priv_PublicKey sampleRSA)\<rparr>"

theorem key_operations_agree_witness:
  "cryptDecrypt samplePrims sampleRSAMaterial ''RSA'' ''RSA-OAEP'' [3, 2, 1] [] = Inr ([1, 2, 3], [])"
proof -
  have "rsa_law samplePrims sampleRSA" "sign_law samplePrims sampleRSAMaterial"
    by (auto simp: rsa_law_def sign_law_def samplePrims_def sampleRSAMaterial_def emptyMaterial_def)
  moreover have "cryptEncrypt samplePrims sampleRSAMaterial ''RSA'' ''RSA-OAEP'' [1, 2, 3] [] = Inr ([3, 2, 1], [])"
    by (simp add: cryptEncrypt_def hasPrefix_def rsaPubOf_def sampleRSAMaterial_def samplePrims_def noIV_def)
  ultimately show ?thesis
    using key_operations_agree [of sampleRSAMaterial sampleRSA samplePrims "''RSA''" "''RSA-OAEP''" "[]" "[]"
        "[1, 2, 3]" "[]" "[3, 2, 1]" "[]" "[]"]
    by (simp add: sampleRSAMaterial_def hasPrefix_def)
qed

section \<open>Generating and importing keys\<close>

text \<open>
  C15: generating and importing a key return a JSON web key with the requested identifier, type and
  operations and with every private field empty, and material of exactly the requested type: a
  private key, where there is one, comes with the matching public key.
\<close>
theorem generated_and_imported_keys:
  shows "(GenerateKey P kty sz crv kid ops = Inr (m, out) \<longrightarrow>
      publicJWK out \<and> jwk_Kid out = kid \<and> jwk_Kty out = kty \<and> jwk_KeyOps out = ops \<and> material_for kty m) \<and>
    (ImportKeyMaterial jwk kid = Inr (m, out) \<longrightarrow>
      publicJWK out \<and> jwk_Kid out = kid \<and> jwk_Kty out = jwk_Kty jwk \<and> jwk_KeyOps out = jwk_KeyOps jwk \<and>
      material_for (jwk_Kty jwk) m)"
  by (blast dest: GenerateKey_Inr ImportKeyMaterial_Inr)

theorem generated_and_imported_keys_witness:
  "\<exists>m out. GenerateKey samplePrims ''EC'' 0 ''P-256'' ''id'' [''sign''] = Inr (m, out) \<and> publicJWK out \<and> jwk_D out = []"
proof -
  obtain m out where g: "GenerateKey samplePrims ''EC'' 0 ''P-256'' ''id'' [''sign''] = Inr (m, out)"
    by (simp add: GenerateKey_def samplePrims_def resolveCurve_def)
  then show ?thesis
    using generated_and_imported_keys [of samplePrims "''EC''" 0 "''P-256''" "''id''" "[''sign'']" m out emptyJWK]
    by (auto simp: publicJWK_def)
qed

text \<open>
  C16: the JSON web key of an RSA or EC public key can be imported again and yields the same public
  key, for every modulus, exponent, curve and coordinates: the unsigned big-endian and the padded
  fixed-width encodings lose nothing.
\<close>
theorem public_key_export_import:
  shows "((kty = ''RSA'' \<or> kty = ''RSA-HSM'') \<and> 1 < pub_E rsa \<and> pub_E rsa < 2 ^ 63 \<and> 0 < pub_N rsa \<longrightarrow>
      ImportKeyMaterial (RSAToJWK kid kty ops rsa) kid' =
        Inr (emptyMaterial\<lparr>km_RSAPub := Some rsa\<rparr>, RSAToJWK kid' kty ops rsa)) \<and>
    ((kty = ''EC'' \<or> kty = ''EC-HSM'') \<and> resolveCurve crv = Inr (ec_Curve ec, name) \<longrightarrow>
      ImportKeyMaterial (ECDSAToJWK kid kty ops name ec) kid' =
        Inr (emptyMaterial\<lparr>km_ECDSAPub := Some ec\<rparr>, ECDSAToJWK kid' kty ops name ec))"
  by (intro conjI impI; elim conjE; rule import_exported_rsa import_exported_ec; assumption)

theorem public_key_export_import_witness:
  "ImportKeyMaterial (RSAToJWK [] ''RSA'' [] \<lparr>pub_N = 3233, pub_E = 17\<rparr>) ''x'' =
    Inr (emptyMaterial\<lparr>km_RSAPub := Some \<lparr>pub_N = 3233, pub_E = 17\<rparr>\<rparr>,
      RSAToJWK ''x'' ''RSA'' [] \<lparr>pub_N = 3233, pub_E = 17\<rparr>)"
  using public_key_export_import [of "''RSA''" "\<lparr>pub_N = 3233, pub_E = 17\<rparr>"] by simp

text \<open>
  Asking for a symmetric key with a negative size that is a multiple of 8 does not give an error:
  the check on the size only looks at the remainder, and making the buffer panics.
\<close>
theorem negative_key_size_panics:
  assumes "kty = ''oct'' \<or> kty = ''oct-HSM''" "sz < 0" "sz mod 8 = 0"
  shows "is_panic (GenerateKey P kty sz crv kid ops)"
  using GenerateKey_oct_negative [OF assms] by simp

theorem negative_key_size_panics_witness: "is_panic (GenerateKey samplePrims ''oct'' (- 8) [] [] [])"
  using negative_key_size_panics [of "''oct''" "- 8"] by simp

section \<open>Certificates\<close>

lemma certValidity_float:
  "anyFloat props ''validity_months'' = Some vm \<Longrightarrow> 0 < vm \<Longrightarrow>
    certValidity props = wrap64 (floatToInt64 (vm * 30 * 24) * hour)"
  by (simp add: certValidity_def)

text \<open>
  A generated certificate is a certificate authority exactly for the types CA and intermediate
  (a missing type is a leaf), with the key usages that go with it, starts five minutes in the past,
  and is valid for the requested number of months of 30 days, up to 3558 months.
\<close>
theorem certificate_template:
  assumes "anyFloat props ''validity_months'' = Some vm" "0 < vm" "vm \<le> 3558"
  shows "(let t = certTemplate L name ty props serial; ca = (ty = ''CA'' \<or> ty = ''intermediate'')
    in x_IsCA t = ca \<and> x_KeyUsage t = (if ca then 97 else 5) \<and> x_ExtKeyUsage t = (if ca then [] else [1, 2]) \<and>
       x_NotBefore t = lib_now L - 300 * second \<and>
       x_NotAfter t = x_NotBefore t + floor (vm * 720) * 3600 * second \<and> x_NotBefore t \<le> x_NotAfter t)"
proof -
  define k where "k = floor (vm * 720)"
  have f: "0 \<le> k" "k \<le> 3558 * 720"
    using assms(2,3) by (simp_all add: k_def floor_le_iff)
  then have "int64_ok (k * hour)"
    by (simp add: int64_ok_def hour_def second_def)
  moreover have "vm * 30 * 24 = vm * 720"
    by simp
  moreover have "floatToInt64 (vm * 720) = k"
    using f unfolding floatToInt64_def k_def [symmetric] by simp
  ultimately have "certValidity props = k * hour"
    using assms(1,2) by (simp only: certValidity_float wrap64_id)
  then show ?thesis
    using f(1) unfolding k_def [symmetric] by (auto simp: certTemplate_def Let_def hour_def second_def)
qed

definition months :: "rat \<Rightarrow> anymap" where
  "months vm = Some [(''validity_months'', AFloat vm)]"

theorem certificate_template_witness:
  "x_NotAfter (certTemplate sampleLib ''a'' ''leaf'' (months 12) 1) =
    x_NotBefore (certTemplate sampleLib ''a'' ''leaf'' (months 12) 1) + 12 * 720 * 3600 * second"
  using certificate_template [of "months 12" 12 sampleLib "''a''" "''leaf''" 1]
  by (simp add: months_def anyFloat_def Let_def)

text \<open>
  Beyond that the multiplication of hours and nanoseconds wraps around: a certificate requested
  for 3559 months ends before it begins.
\<close>
theorem long_validity_wraps:
  "x_NotAfter (certTemplate L name ty (months 3559) serial) < x_NotBefore (certTemplate L name ty (months 3559) serial)"
proof -
  have "certValidity (months 3559) = wrap64 (3559 * 720 * hour)"
    by (simp add: certValidity_def months_def anyFloat_def floatToInt64_def)
  also have "\<dots> < 0"
    by (simp add: wrap64_def hour_def second_def)
  finally show ?thesis
    by (simp add: certTemplate_def Let_def)
qed

lemma wrap64_exact: "wrap64 x = x \<longleftrightarrow> int64_ok x"
  by (auto simp: wrap64_def int64_ok_def)

lemma wrap64_bounds: "int64_ok (wrap64 x)"
  by (simp add: wrap64_def int64_ok_def)

lemma wrap64_hours:
  assumes "0 \<le> k" "k < 2 ^ 63"
  shows "wrap64 (k * hour) = k * hour \<longleftrightarrow> k \<le> 2562047" "2562048 \<le> k \<Longrightarrow> k \<le> 5124095 \<Longrightarrow> wrap64 (k * hour) < 0"
proof -
  show "wrap64 (k * hour) = k * hour \<longleftrightarrow> k \<le> 2562047"
    unfolding wrap64_exact int64_ok_def using assms by (auto simp: hour_def second_def)
  assume "2562048 \<le> k" "k \<le> 5124095"
  then have "2 ^ 63 \<le> k * hour" "k * hour < 2 ^ 64"
    by (simp_all add: hour_def second_def)
  then have "(k * hour - 2 ^ 63) mod 2 ^ 64 = k * hour - 2 ^ 63"
    by (intro mod_pos_pos_trivial) simp_all
  moreover have "k * hour + 2 ^ 63 = (k * hour - 2 ^ 63) + 2 ^ 64"
    by simp
  ultimately have "(k * hour + 2 ^ 63) mod 2 ^ 64 = k * hour - 2 ^ 63"
    by (simp only: mod_add_self2)
  with \<open>k * hour < 2 ^ 64\<close> show "wrap64 (k * hour) < 0"
    by (simp add: wrap64_def)
qed



end
