(* ===== verification/KV_Storer.thy ===== *)
theory KV_Storer
  imports KV_Certs
begin

text \<open>
  The interface \<open>Storer\<close> of \<open>src/internal/store/store.go\<close>: a record of operations over a state
  \<open>'s\<close>, which the HTTP handlers and the encrypting wrapper use in place of a concrete store, and
  the in-memory store as an instance of it. An instance is made for one request, from the clock and
  the random bytes that the request meets.
\<close>

record 's Storer =
  so_SetSecret :: "string \<Rightarrow> SecretSetRequest \<Rightarrow> 's \<Rightarrow> SecretRecord res \<times> 's"
  so_GetSecret :: "'s \<Rightarrow> string \<Rightarrow> string \<Rightarrow> SecretRecord res"
  so_ListSecrets :: "'s \<Rightarrow> int \<Rightarrow> string \<Rightarrow> (SecretRecord list \<times> string option) res"
  so_ListSecretVersions :: "'s \<Rightarrow> string \<Rightarrow> int \<Rightarrow> string \<Rightarrow> (SecretRecord list \<times> string option) res"
  so_UpdateSecret :: "string \<Rightarrow> string \<Rightarrow> SecretUpdateRequest \<Rightarrow> 's \<Rightarrow> SecretRecord res \<times> 's"
  so_DeleteSecret :: "string \<Rightarrow> 's \<Rightarrow> DeletedSecretRecord res \<times> 's"
  so_ListDeletedSecrets :: "'s \<Rightarrow> int \<Rightarrow> string \<Rightarrow> (DeletedSecretRecord list \<times> string option) res"
  so_GetDeletedSecret :: "'s \<Rightarrow> string \<Rightarrow> DeletedSecretRecord res"
  so_PurgeDeletedSecret :: "string \<Rightarrow> 's \<Rightarrow> unit res \<times> 's"
  so_RecoverDeletedSecret :: "string \<Rightarrow> 's \<Rightarrow> SecretRecord res \<times> 's"
  so_BackupSecret :: "'s \<Rightarrow> string \<Rightarrow> string res"
  so_RestoreSecret :: "string \<Rightarrow> 's \<Rightarrow> SecretRecord res \<times> 's"
  so_CreateKey :: "string \<Rightarrow> CreateKeyRequest \<Rightarrow> 's \<Rightarrow> KeyRecord res \<times> 's"
  so_ImportKey :: "string \<Rightarrow> ImportKeyRequest \<Rightarrow> 's \<Rightarrow> KeyRecord res \<times> 's"
  so_GetKey :: "'s \<Rightarrow> string \<Rightarrow> string \<Rightarrow> KeyRecord res"
  so_ListKeys :: "'s \<Rightarrow> int \<Rightarrow> string \<Rightarrow> (KeyRecord list \<times> string option) res"
  so_ListKeyVersions :: "'s \<Rightarrow> string \<Rightarrow> int \<Rightarrow> string \<Rightarrow> (KeyRecord list \<times> string option) res"
  so_UpdateKey :: "string \<Rightarrow> string \<Rightarrow> UpdateKeyRequest \<Rightarrow> 's \<Rightarrow> KeyRecord res \<times> 's"
  so_DeleteKey :: "string \<Rightarrow> 's \<Rightarrow> DeletedKeyRecord res \<times> 's"
  so_ListDeletedKeys :: "'s \<Rightarrow> int \<Rightarrow> string \<Rightarrow> (DeletedKeyRecord list \<times> string option) res"
  so_GetDeletedKey :: "'s \<Rightarrow> string \<Rightarrow> DeletedKeyRecord res"
  so_PurgeDeletedKey :: "string \<Rightarrow> 's \<Rightarrow> unit res \<times> 's"
  so_RecoverDeletedKey :: "string \<Rightarrow> 's \<Rightarrow> KeyRecord res \<times> 's"
  so_Encrypt :: "'s \<Rightarrow> string \<Rightarrow> string \<Rightarrow> EncryptRequest \<Rightarrow> (string \<times> string) res"
  so_Decrypt :: "'s \<Rightarrow> string \<Rightarrow> string \<Rightarrow> EncryptRequest \<Rightarrow> (string \<times> string) res"
  so_Sign :: "'s \<Rightarrow> string \<Rightarrow> string \<Rightarrow> SignRequest \<Rightarrow> string res"
  so_Verify :: "'s \<Rightarrow> string \<Rightarrow> string \<Rightarrow> VerifyRequest \<Rightarrow> bool res"
  so_WrapKey :: "'s \<Rightarrow> string \<Rightarrow> string \<Rightarrow> EncryptRequest \<Rightarrow> string res"
  so_UnwrapKey :: "'s \<Rightarrow> string \<Rightarrow> string \<Rightarrow> EncryptRequest \<Rightarrow> string res"
  so_CreateCertificate :: "string \<Rightarrow> CreateCertificateRequest \<Rightarrow> 's \<Rightarrow> CertificateRecord res \<times> 's"
  so_ImportCertificate :: "string \<Rightarrow> ImportCertificateRequest \<Rightarrow> 's \<Rightarrow> CertificateRecord res \<times> 's"
  so_GetCertificate :: "'s \<Rightarrow> string \<Rightarrow> string \<Rightarrow> CertificateRecord res"
  so_ListCertificates :: "'s \<Rightarrow> int \<Rightarrow> string \<Rightarrow> (CertificateRecord list \<times> string option) res"
  so_ListCertificateVersions :: "'s \<Rightarrow> string \<Rightarrow> int \<Rightarrow> string \<Rightarrow> (CertificateRecord list \<times> string option) res"
  so_UpdateCertificate :: "string \<Rightarrow> string \<Rightarrow> UpdateCertificateRequest \<Rightarrow> 's \<Rightarrow> CertificateRecord res \<times> 's"
  so_GetCertificatePolicy :: "'s \<Rightarrow> string \<Rightarrow> CertificatePolicy option res"
  so_UpdateCertificatePolicy :: "string \<Rightarrow> CertificatePolicy option \<Rightarrow> 's \<Rightarrow> CertificatePolicy option res \<times> 's"
  so_GetPendingCertificateOperation :: "'s \<Rightarrow> string \<Rightarrow> CertificateOperation res"
  so_DeleteCertificate :: "string \<Rightarrow> 's \<Rightarrow> DeletedCertificateRecord res \<times> 's"
  so_ListDeletedCertificates :: "'s \<Rightarrow> int \<Rightarrow> string \<Rightarrow> (DeletedCertificateRecord list \<times> string option) res"
  so_GetDeletedCertificate :: "'s \<Rightarrow> string \<Rightarrow> DeletedCertificateRecord res"
  so_PurgeDeletedCertificate :: "string \<Rightarrow> 's \<Rightarrow> unit res \<times> 's"
  so_RecoverDeletedCertificate :: "string \<Rightarrow> 's \<Rightarrow> CertificateRecord res \<times> 's"

definition memStorer :: "env \<Rightarrow> prims \<Rightarrow> x509lib \<Rightarrow> codec \<Rightarrow> Store Storer" where
  "memStorer e P L C = \<lparr>
     so_SetSecret = SetSecret e, so_GetSecret = GetSecret, so_ListSecrets = ListSecrets,
     so_ListSecretVersions = ListSecretVersions, so_UpdateSecret = UpdateSecret e,
     so_DeleteSecret = DeleteSecret e, so_ListDeletedSecrets = ListDeletedSecrets,
     so_GetDeletedSecret = GetDeletedSecret, so_PurgeDeletedSecret = PurgeDeletedSecret,
     so_RecoverDeletedSecret = RecoverDeletedSecret, so_BackupSecret = BackupSecret C,
     so_RestoreSecret = RestoreSecret C,
     so_CreateKey = CreateKey e P, so_ImportKey = ImportKey e, so_GetKey = GetKey, so_ListKeys = ListKeys,
     so_ListKeyVersions = ListKeyVersions, so_UpdateKey = UpdateKey e, so_DeleteKey = DeleteKey e,
     so_ListDeletedKeys = ListDeletedKeys, so_GetDeletedKey = GetDeletedKey,
     so_PurgeDeletedKey = PurgeDeletedKey, so_RecoverDeletedKey = RecoverDeletedKey,
     so_Encrypt = Encrypt P, so_Decrypt = Decrypt P, so_Sign = Sign P, so_Verify = Verify P,
     so_WrapKey = WrapKey P, so_UnwrapKey = UnwrapKey P,
     so_CreateCertificate = CreateCertificate e P L, so_ImportCertificate = ImportCertificate e L,
     so_GetCertificate = GetCertificate, so_ListCertificates = ListCertificates,
     so_ListCertificateVersions = ListCertificateVersions, so_UpdateCertificate = UpdateCertificate e,
     so_GetCertificatePolicy = GetCertificatePolicy, so_UpdateCertificatePolicy = UpdateCertificatePolicy e,
     so_GetPendingCertificateOperation = GetPendingCertificateOperation,
     so_DeleteCertificate = DeleteCertificate e, so_ListDeletedCertificates = ListDeletedCertificates,
     so_GetDeletedCertificate = GetDeletedCertificate, so_PurgeDeletedCertificate = PurgeDeletedCertificate,
     so_RecoverDeletedCertificate = RecoverDeletedCertificate\<rparr>"

section \<open>What a client of secrets relies on\<close>

text \<open>
  The laws of the secret operations that do not depend on how a store keeps its state: what is set
  can be read, at once and later by its version, and the value passes unchanged.
\<close>

locale secret_storer =
  fixes ok :: "'s \<Rightarrow> bool" and S :: "'s Storer"
  assumes set_get: "ok s \<Longrightarrow> so_SetSecret S n q s = (Inr r, s') \<Longrightarrow> so_GetSecret S s' n [] = Inr r"
    and set_value: "so_SetSecret S n q s = (Inr r, s') \<Longrightarrow> sr_Value r = ss_Value q \<and> sr_Name r = n"
    and set_fail: "fst (so_SetSecret S n q s) = Inl err \<Longrightarrow> snd (so_SetSecret S n q s) = s"
    and set_ok: "ok s \<Longrightarrow> ok (snd (so_SetSecret S n q s))"

end
