(* ===== verification/KV_Encryption.thy ===== *)
theory KV_Encryption
  imports KV_Encoding KV_Cipher_Modes
begin

text \<open>
  The package \<open>src/internal/encryption\<close>: secret values are sealed with AES-256-GCM under a random
  nonce that is stored in front of the ciphertext, and written in hexadecimal. PBKDF2
  (golang.org/x/crypto) is a parameter; AES and GCM are computed. The argument \<open>nonceRead\<close> of an
  encryption is the outcome of filling the 12-byte nonce from the random source.
\<close>

definition saltSize :: nat where "saltSize = 16"

definition nonceSize :: nat where "nonceSize = 12"

definition keySize :: nat where "keySize = 32"

definition pbkdf2Iters :: nat where "pbkdf2Iters = 100000"

text \<open>\<open>pbkdf2 password salt iterations length\<close> with SHA-256.\<close>

definition DeriveKey :: "(bytes \<Rightarrow> bytes \<Rightarrow> nat \<Rightarrow> nat \<Rightarrow> bytes) \<Rightarrow> string \<Rightarrow> bytes \<Rightarrow> bytes" where
  "DeriveKey pbkdf2 passphrase salt = pbkdf2 (bytes_of_string passphrase) salt pbkdf2Iters keySize"

definition GenerateSalt :: "(nat \<Rightarrow> bytes res) \<Rightarrow> bytes res" where
  "GenerateSalt randRead = randRead saltSize"

definition newGCM :: "bytes \<Rightarrow> unit res" where
  "newGCM key =
     (if length key \<noteq> keySize
      then Inl (PlainErr (''key must be '' @ itoa (int keySize) @ '' bytes''))
      else aesNewCipher key)"

definition sealBytes :: "bytes res \<Rightarrow> bytes \<Rightarrow> bytes \<Rightarrow> bytes res" where
  "sealBytes nonceRead key plaintext =
     rbind (newGCM key) (\<lambda>_. rbind nonceRead (\<lambda>nonce.
       (let ciphertext = gcmSeal key nonce plaintext in Inr (nonce @ ciphertext))))"

definition openBytes :: "bytes \<Rightarrow> bytes \<Rightarrow> bytes res" where
  "openBytes key ciphertext =
     rbind (newGCM key) (\<lambda>_.
       if length ciphertext < nonceSize then Inl (PlainErr ''ciphertext too short'')
       else
         (let nonce = take nonceSize ciphertext; data = drop nonceSize ciphertext
          in gcmOpen key nonce data))"

definition EncryptString :: "bytes res \<Rightarrow> bytes \<Rightarrow> string \<Rightarrow> string res" where
  "EncryptString nonceRead key s =
     rbind (sealBytes nonceRead key (bytes_of_string s)) (\<lambda>ciphertext. Inr (hexEncode ciphertext))"

definition DecryptString :: "bytes \<Rightarrow> string \<Rightarrow> string res" where
  "DecryptString key s =
     (case hexDecode s of
        None \<Rightarrow> Inl (PlainErr ''encoding/hex: invalid byte or odd length hex string'')
      | Some ciphertext \<Rightarrow>
          rbind (openBytes key ciphertext) (\<lambda>plaintext. Inr (string_of_bytes plaintext)))"

section \<open>Decryption inverts encryption\<close>

lemma newGCM_ok: "newGCM key = Inr () \<longleftrightarrow> length key = 32"
  by (auto simp: newGCM_def keySize_def aesNewCipher_def aesKeyOk_def)

lemma newGCM_cases: "(length key = 32 \<and> newGCM key = Inr ()) \<or> (length key \<noteq> 32 \<and> (\<exists>m. newGCM key = Inl (PlainErr m)))"
  by (auto simp: newGCM_def keySize_def aesNewCipher_def aesKeyOk_def)

lemma aesKeyOk_32: "length key = 32 \<Longrightarrow> aesKeyOk key"
  by (simp add: aesKeyOk_def)

lemma openBytes_sealBytes:
  assumes "sealBytes nonceRead key plaintext = Inr ct" "\<And>n. nonceRead = Inr n \<Longrightarrow> length n = 12"
  shows "openBytes key ct = Inr plaintext" "length ct = length plaintext + 28"
proof -
  obtain nonce where n: "nonceRead = Inr nonce" "newGCM key = Inr ()" "ct = nonce @ gcmSeal key nonce plaintext"
    using assms(1) by (auto simp: sealBytes_def rbind_Inr_iff)
  then have l: "length nonce = 12" "length key = 32"
    using assms(2) by (simp_all add: newGCM_ok)
  then show "openBytes key ct = Inr plaintext"
    using n(2,3) gcmOpen_gcmSeal [of key nonce plaintext]
    by (simp add: openBytes_def nonceSize_def aesKeyOk_32)
  show "length ct = length plaintext + 28"
    using l n(3) length_gcmTag [of key nonce] length_gctr [of key nonce]
    by (simp add: gcmSeal_def aesKeyOk_32 Let_def)
qed

lemma DecryptString_EncryptString:
  assumes "EncryptString nonceRead key s = Inr c" "\<And>n. nonceRead = Inr n \<Longrightarrow> length n = 12"
  shows "DecryptString key c = Inr s" "length c = 2 * (length s + 28)"
proof -
  obtain ct where ct: "sealBytes nonceRead key (bytes_of_string s) = Inr ct" "c = hexEncode ct"
    using assms(1) by (auto simp: EncryptString_def rbind_Inr_iff)
  note o = openBytes_sealBytes [OF ct(1) assms(2)]
  then show "DecryptString key c = Inr s" "length c = 2 * (length s + 28)"
    by (simp_all add: DecryptString_def ct(2))
qed

lemma EncryptString_total:
  "length key = 32 \<Longrightarrow> \<exists>c. EncryptString (Inr nonce) key s = Inr c"
  by (simp add: EncryptString_def sealBytes_def newGCM_ok [THEN iffD2])

end
