(* ===== verification/KV_EncStore.thy ===== *)
theory KV_EncStore
  imports KV_Storer KV_Encryption
begin

text \<open>
  \<open>src/internal/web/encryptedstore.go\<close>: the wrapper around a \<open>Storer\<close> that encrypts secret values.
  The wrapper embeds the store, so that an operation it does not override is the store's own: in the
  model it is the record of the store with six fields replaced. \<open>key\<close> is what \<open>getKey\<close> returns
  (None is nil), \<open>locked\<close> what \<open>isLocked\<close> returns (None if there is no such function).
\<close>

definition decryptRecord :: "bytes option \<Rightarrow> SecretRecord \<Rightarrow> SecretRecord" where
  "decryptRecord key record =
     (case key of
        None \<Rightarrow> record
      | Some k \<Rightarrow>
          if sr_Value record = [] then record
          else
            (case DecryptString k (sr_Value record) of
               Inl _ \<Rightarrow> record
             | Inr decrypted \<Rightarrow> record\<lparr>sr_Value := decrypted\<rparr>))"

definition encSetSecret ::
  "bytes res \<Rightarrow> bytes option \<Rightarrow> bool option \<Rightarrow> 's Storer \<Rightarrow> string \<Rightarrow> SecretSetRequest \<Rightarrow> 's \<Rightarrow> SecretRecord res \<times> 's" where
  "encSetSecret nonceRead key locked S name req s =
     (case key of
        None \<Rightarrow>
          if locked = Some True then (Inl (PlainErr ''vault is locked: unlock before writing secrets''), s)
          else so_SetSecret S name req s
      | Some k \<Rightarrow>
          if ss_Value req \<noteq> [] then
            (case EncryptString nonceRead k (ss_Value req) of
               Inl err \<Rightarrow> (Inl err, s)
             | Inr encrypted \<Rightarrow> so_SetSecret S name (req\<lparr>ss_Value := encrypted\<rparr>) s)
          else so_SetSecret S name req s)"

definition decryptResult :: "bytes option \<Rightarrow> SecretRecord res \<Rightarrow> SecretRecord res" where
  "decryptResult key r = rbind r (\<lambda>record. Inr (decryptRecord key record))"

definition decryptDeleted :: "bytes option \<Rightarrow> DeletedSecretRecord res \<Rightarrow> DeletedSecretRecord res" where
  "decryptDeleted key r =
     rbind r (\<lambda>record. Inr (record\<lparr>dr_Record := decryptRecord key (dr_Record record)\<rparr>))"

definition encryptedStore :: "bytes res \<Rightarrow> bytes option \<Rightarrow> bool option \<Rightarrow> 's Storer \<Rightarrow> 's Storer" where
  "encryptedStore nonceRead key locked S = S\<lparr>
     so_SetSecret := encSetSecret nonceRead key locked S,
     so_GetSecret := (\<lambda>s name version. decryptResult key (so_GetSecret S s name version)),
     so_GetDeletedSecret := (\<lambda>s name. decryptDeleted key (so_GetDeletedSecret S s name)),
     so_RecoverDeletedSecret := (\<lambda>name s.
       (let (r, s') = so_RecoverDeletedSecret S name s in (decryptResult key r, s'))),
     so_UpdateSecret := (\<lambda>name version req s.
       (let (r, s') = so_UpdateSecret S name version req s in (decryptResult key r, s'))),
     so_DeleteSecret := (\<lambda>name s.
       (let (r, s') = so_DeleteSecret S name s in (decryptDeleted key r, s')))\<rparr>"

section \<open>Lemmas\<close>

lemma encryptedStore_simps [simp]:
  "so_SetSecret (encryptedStore nr key locked S) = encSetSecret nr key locked S"
  "so_GetSecret (encryptedStore nr key locked S) s n v = decryptResult key (so_GetSecret S s n v)"
  "so_RestoreSecret (encryptedStore nr key locked S) = so_RestoreSecret S"
  "so_CreateCertificate (encryptedStore nr key locked S) = so_CreateCertificate S"
  "so_ImportCertificate (encryptedStore nr key locked S) = so_ImportCertificate S"
  "so_BackupSecret (encryptedStore nr key locked S) = so_BackupSecret S"
  by (simp_all add: encryptedStore_def)

lemma decryptResult_simps [simp]:
  "decryptResult key (Inr r) = Inr (decryptRecord key r)" "decryptResult key (Inl e) = Inl e"
  by (simp_all add: decryptResult_def)

lemma decryptRecord_None [simp]: "decryptRecord None r = r"
  by (simp add: decryptRecord_def)

lemma DecryptString_short: "hexDecode v = None \<or> length v < 56 \<Longrightarrow> \<exists>e. DecryptString k v = Inl e"
  using hexDecode_length [of v]
  by (auto simp: DecryptString_def openBytes_def gcmOpen_def nonceSize_def rbind_def Let_def split: option.split sum.split)

context secret_storer
begin

text \<open>A value that is set through the wrapper is read back, and rests encrypted.\<close>

lemma enc_set_get:
  assumes "ok s" "\<And>n. nonceRead = Inr n \<Longrightarrow> length n = 12" "ss_Value q \<noteq> []"
    and set: "so_SetSecret (encryptedStore nonceRead (Some k) locked S) n q s = (Inr r, s')"
  obtains c where "EncryptString nonceRead k (ss_Value q) = Inr c" "sr_Value r = c"
    "so_GetSecret S s' n [] = Inr r"
    "so_GetSecret (encryptedStore nr (Some k) l S) s' n [] = Inr (r\<lparr>sr_Value := ss_Value q\<rparr>)"
    "length c = 2 * (length (ss_Value q) + 28)"
proof -
  obtain c where c: "EncryptString nonceRead k (ss_Value q) = Inr c"
    and i: "so_SetSecret S n (q\<lparr>ss_Value := c\<rparr>) s = (Inr r, s')"
    using set assms(3) by (auto simp: encSetSecret_def split: sum.splits)
  have v: "sr_Value r = c"
    using set_value [OF i] by simp
  have g: "so_GetSecret S s' n [] = Inr r"
    using assms(1) i by (rule set_get)
  note d = DecryptString_EncryptString [OF c assms(2)]
  have "c \<noteq> []"
    using d(2) by auto
  then have "decryptRecord (Some k) r = r\<lparr>sr_Value := ss_Value q\<rparr>"
    using d(1) v by (simp add: decryptRecord_def)
  with c v g d(2) show ?thesis
    by (intro that [of c]) simp_all
qed

lemma enc_plain_get:
  assumes "ok s" "locked \<noteq> Some True"
    and set: "so_SetSecret (encryptedStore nonceRead None locked S) n q s = (Inr r, s')"
  shows "so_GetSecret (encryptedStore nr None l S) s' n [] = Inr r" "sr_Value r = ss_Value q"
  using assms set_get [of s n q r s'] set_value [of n q s r s'] by (simp_all add: encSetSecret_def)

text \<open>A value from before the key was set is read as it is, unless it looks like a ciphertext.\<close>

lemma enc_old_value:
  assumes "ok s" "so_SetSecret S n q s = (Inr r, s')"
    "hexDecode (ss_Value q) = None \<or> length (ss_Value q) < 56"
  shows "so_GetSecret (encryptedStore nr (Some k) l S) s' n [] = Inr r"
proof -
  have "sr_Value r = ss_Value q"
    using set_value [OF assms(2)] by simp
  then have "decryptRecord (Some k) r = r"
    using DecryptString_short [OF assms(3), of k] by (auto simp: decryptRecord_def)
  then show ?thesis
    using set_get [OF assms(1,2)] by simp
qed

end

end
