(* ===== verification/KV_Invariant.thy ===== *)
theory KV_Invariant
  imports KV_Certs
begin

text \<open>
  The invariant of the in-memory store, that every operation keeps it, and what follows for the
  states a run can reach: no entry is without versions, every record carries the name it is stored
  under and the fixed recovery attributes, no stored key exposes private material in its JSON web
  key, and the deep copies that the operations return are equal to what is stored.
\<close>

section \<open>Invariants of maps\<close>

definition map_all :: "('k \<Rightarrow> 'v \<Rightarrow> bool) \<Rightarrow> ('k, 'v) gomap \<Rightarrow> bool" where
  "map_all P m \<longleftrightarrow> list_all (\<lambda>(k, v). P k v) m"

lemma map_allD: "map_all P m \<Longrightarrow> map_of m k = Some v \<Longrightarrow> P k v"
  by (auto simp: map_all_def list_all_iff dest!: map_of_SomeD)

lemma map_all_Nil [simp]: "map_all P []"
  by (simp add: map_all_def)

lemma map_all_mput [intro]: "map_all P m \<Longrightarrow> P k v \<Longrightarrow> map_all P (mput k v m)"
  by (induction m) (auto simp: map_all_def)

lemma map_all_mdel [intro]: "map_all P m \<Longrightarrow> map_all P (mdel k m)"
  by (auto simp: map_all_def list_all_iff AList.delete_eq)

definition entry_ok :: "(string \<Rightarrow> 'v \<Rightarrow> bool) \<Rightarrow> string \<Rightarrow> 'v list \<Rightarrow> bool" where
  "entry_ok P name vs \<longleftrightarrow> vs \<noteq> [] \<and> list_all (P name) vs"

definition kind_ok ::
  "(string \<Rightarrow> 'v \<Rightarrow> bool) \<Rightarrow> (string, 'v list) gomap \<Rightarrow> (string, 'v list deletedEntry) gomap \<Rightarrow> bool" where
  "kind_ok P live gone \<longleftrightarrow> map_ok live \<and> map_ok gone \<and> map_all (entry_ok P) live \<and>
     map_all (\<lambda>name d. entry_ok P name (de_entry d)) gone"

lemma kind_ok_live: "kind_ok P live gone \<Longrightarrow> map_of live name = Some vs \<Longrightarrow> entry_ok P name vs"
  by (auto simp: kind_ok_def dest: map_allD)

lemma kind_ok_gone:
  "kind_ok P live gone \<Longrightarrow> map_of gone name = Some d \<Longrightarrow> entry_ok P name (de_entry d)"
  by (auto simp: kind_ok_def dest: map_allD [of "\<lambda>name d. entry_ok P name (de_entry d)"])

lemma entry_ok_nth: "entry_ok P name vs \<Longrightarrow> i < length vs \<Longrightarrow> P name (vs ! i)"
  by (simp add: entry_ok_def list_all_length)

lemma entry_ok_last: "entry_ok P name vs \<Longrightarrow> P name (last vs)"
  by (simp add: entry_ok_def list_all_iff)

lemma kind_ok_Nil [simp]: "kind_ok P [] []"
  by (simp add: kind_ok_def)

lemma kind_ok_append:
  assumes "kind_ok P live gone" "P name v"
  shows "kind_ok P (appendVersion name v live) gone"
proof -
  have "entry_ok P name ((case map_of live name of None \<Rightarrow> [] | Some vs \<Rightarrow> vs) @ [v])"
    using assms kind_ok_live [OF assms(1)] by (auto simp: entry_ok_def split: option.splits)
  then show ?thesis
    using assms(1) by (auto simp: kind_ok_def appendVersion_def Let_def)
qed

lemma kind_ok_update:
  assumes "kind_ok P live gone" "map_of live name = Some vs" "P name v"
  shows "kind_ok P (mput name (vs[i := v]) live) gone"
proof -
  have "entry_ok P name vs"
    using assms(1,2) by (rule kind_ok_live)
  then have "entry_ok P name (vs[i := v])"
    using assms(3) set_update_subset_insert [of vs i v] by (auto simp: entry_ok_def list_all_iff)
  then show ?thesis
    using assms(1) by (auto simp: kind_ok_def)
qed

lemma kind_ok_drop_live: "kind_ok P live gone \<Longrightarrow> kind_ok P (mdel name live) gone"
  by (auto simp: kind_ok_def)

lemma kind_ok_drop_gone: "kind_ok P live gone \<Longrightarrow> kind_ok P live (mdel name gone)"
  by (auto simp: kind_ok_def)

lemma kind_ok_put_live:
  "kind_ok P live gone \<Longrightarrow> entry_ok P name vs \<Longrightarrow> kind_ok P (mput name vs live) gone"
  by (auto simp: kind_ok_def)

lemma kind_ok_put_gone:
  "kind_ok P live gone \<Longrightarrow> entry_ok P name (de_entry d) \<Longrightarrow> kind_ok P live (mput name d gone)"
  by (auto simp: kind_ok_def)

lemmas kind_ok_intros = kind_ok_append kind_ok_update kind_ok_drop_live kind_ok_drop_gone
  kind_ok_put_live kind_ok_put_gone

section \<open>The invariant of the store\<close>

definition secret_ok :: "string \<Rightarrow> SecretRecord \<Rightarrow> bool" where
  "secret_ok name r \<longleftrightarrow> sr_Name r = name \<and> tags_ok (sr_Tags r) \<and> attrs_ok (sr_Attributes r)"

definition key_ok :: "string \<Rightarrow> keyVersion \<Rightarrow> bool" where
  "key_ok name v \<longleftrightarrow> kr_Name (kv_record v) = name \<and> tags_ok (kr_Tags (kv_record v)) \<and>
     attrs_ok (kr_Attributes (kv_record v)) \<and> publicJWK (kr_Key (kv_record v)) \<and>
     material_for (ktyOf v) (kv_material v)"

definition certificate_ok :: "string \<Rightarrow> certificateVersion \<Rightarrow> bool" where
  "certificate_ok name v \<longleftrightarrow> crt_Name (cv_record v) = name \<and> crt_Kid (cv_record v) = name \<and>
     crt_Sid (cv_record v) = name \<and> tags_ok (crt_Tags (cv_record v)) \<and>
     attrs_ok (crt_Attributes (cv_record v)) \<and> crt_Policy (cv_record v) \<noteq> None"

definition secrets_ok :: "Store \<Rightarrow> bool" where
  "secrets_ok s \<longleftrightarrow> kind_ok secret_ok (st_secrets s) (st_deletedSecrets s)"

definition keys_ok :: "Store \<Rightarrow> bool" where
  "keys_ok s \<longleftrightarrow> kind_ok key_ok (st_keys s) (st_deletedKeys s)"

definition certificates_ok :: "Store \<Rightarrow> bool" where
  "certificates_ok s \<longleftrightarrow> kind_ok certificate_ok (st_certificates s) (st_deletedCertificates s)"

definition store_ok :: "Store \<Rightarrow> bool" where
  "store_ok s \<longleftrightarrow> secrets_ok s \<and> keys_ok s \<and> certificates_ok s"

lemmas store_ok_defs = store_ok_def secrets_ok_def keys_ok_def certificates_ok_def

lemma store_ok_New: "store_ok New"
  by (simp add: store_ok_defs New_def)

section \<open>Copies\<close>

lemma cloneSecretRecord_id [kv_clone]: "secret_ok name r \<Longrightarrow> cloneSecretRecord r = r"
  by (cases r) (simp add: cloneSecretRecord_def secret_ok_def cloneTags_id)

lemma secret_ok_clone: "secret_ok name r \<Longrightarrow> secret_ok name (cloneSecretRecord r)"
  by (simp add: cloneSecretRecord_id)

lemma cloneKeyRecord_id: "tags_ok (kr_Tags r) \<Longrightarrow> cloneKeyRecord r = r"
  by (cases r) (simp add: cloneKeyRecord_def cloneTags_id)

lemma key_ok_clone [kv_clone]: "key_ok name v \<Longrightarrow> cloneKeyRecord (kv_record v) = kv_record v"
  by (simp add: key_ok_def cloneKeyRecord_id)

lemma cloneCertificateRecord_idem [simp]:
  "cloneCertificateRecord (cloneCertificateRecord r) = cloneCertificateRecord r"
  by (simp add: cloneCertificateRecord_def)

lemma cloneCertificateRecord_fields [simp]:
  "crt_Name (cloneCertificateRecord r) = crt_Name r" "crt_Kid (cloneCertificateRecord r) = crt_Kid r"
  "crt_Sid (cloneCertificateRecord r) = crt_Sid r" "crt_Version (cloneCertificateRecord r) = crt_Version r"
  "crt_Cer (cloneCertificateRecord r) = crt_Cer r"
  "crt_Attributes (cloneCertificateRecord r) = crt_Attributes r"
  "tags_ok (crt_Tags (cloneCertificateRecord r))"
  "crt_Policy (cloneCertificateRecord r) = clonePolicy (crt_Policy r)"
  by (simp_all add: cloneCertificateRecord_def)

lemma publicJWK_KeyOps [simp]: "publicJWK (j\<lparr>jwk_KeyOps := ops\<rparr>) = publicJWK j"
  by (simp add: publicJWK_def)

lemma publicJWK_Kid [simp]: "publicJWK (j\<lparr>jwk_Kid := k\<rparr>) = publicJWK j"
  by (simp add: publicJWK_def)

lemma wrapErr_Inr [simp]: "wrapErr st c r = Inr x \<longleftrightarrow> r = Inr x"
  by (cases r) (auto simp: wrapErr_def split: goerr.splits)

lemma wrapErr_ok [simp]: "wrapErr st c (Inr x) = Inr x"
  by simp

section \<open>Every operation keeps the invariant\<close>

lemmas res_splits = option.splits sum.splits prod.splits if_splits

lemma secret_ok_set:
  "secret_ok name \<lparr>sr_Name = name, sr_Version = v, sr_Value = x, sr_ContentType = ct,
     sr_Attributes = buildAttributes a c u, sr_Tags = cloneTags t\<rparr>"
  by (simp add: secret_ok_def)

lemma SetSecret_ok: "secrets_ok s \<Longrightarrow> secrets_ok (snd (SetSecret e name req s))"
  by (simp add: SetSecret_def Let_def secrets_ok_def kind_ok_append secret_ok_set split: sum.split)

lemma secret_ok_update:
  assumes "secret_ok name r"
  shows "secret_ok name (r\<lparr>sr_Attributes := mergeAttributes now a p\<rparr>)"
    "secret_ok name (r\<lparr>sr_ContentType := ct, sr_Attributes := mergeAttributes now a p\<rparr>)"
    "secret_ok name (r\<lparr>sr_Tags := cloneTags t, sr_Attributes := mergeAttributes now a p\<rparr>)"
    "secret_ok name (r\<lparr>sr_ContentType := ct, sr_Tags := cloneTags t,
        sr_Attributes := mergeAttributes now a p\<rparr>)"
  using assms by (simp_all add: secret_ok_def)

lemma findSecretVersion_ok:
  assumes "secrets_ok s" "map_of (st_secrets s) name = Some vs" "findSecretVersion vs version = Some i"
  shows "secret_ok name (vs ! i)"
  using assms kind_ok_live entry_ok_nth findVersion_Some
  unfolding secrets_ok_def findSecretVersion_def by metis

lemma UpdateSecret_ok: "secrets_ok s \<Longrightarrow> secrets_ok (snd (UpdateSecret e name version req s))"
  using findSecretVersion_ok [of s name]
  by (auto simp: UpdateSecret_def Let_def secrets_ok_def secret_ok_update intro!: kind_ok_update
      split: option.split)

lemma DeleteSecret_ok: "secrets_ok s \<Longrightarrow> secrets_ok (snd (DeleteSecret e name s))"
  using kind_ok_live [of secret_ok "st_secrets s" "st_deletedSecrets s" name]
  by (auto simp: DeleteSecret_def Let_def secrets_ok_def intro!: kind_ok_intros split: option.split sum.split)

lemma PurgeDeletedSecret_ok: "secrets_ok s \<Longrightarrow> secrets_ok (snd (PurgeDeletedSecret name s))"
  by (simp add: PurgeDeletedSecret_def secrets_ok_def kind_ok_drop_gone)

lemma RecoverDeletedSecret_ok: "secrets_ok s \<Longrightarrow> secrets_ok (snd (RecoverDeletedSecret name s))"
  using kind_ok_gone [of secret_ok "st_secrets s" "st_deletedSecrets s" name]
  by (auto simp: RecoverDeletedSecret_def secrets_ok_def intro!: kind_ok_intros split: option.split)

lemma restoredVersion_ok: "secret_ok name (restoredVersion name r)"
  by (simp add: secret_ok_def restoredVersion_def cloneSecretRecord_def Let_def attrs_ok_def)

lemma RestoreSecret_ok: "secrets_ok s \<Longrightarrow> secrets_ok (snd (RestoreSecret C token s))"
  by (auto simp: RestoreSecret_def Let_def secrets_ok_def entry_ok_def list_all_iff restoredVersion_ok
      intro!: kind_ok_intros split: option.split sum.split)

lemma key_ok_create:
  assumes "GenerateKey P kty sz crv [] ops = Inr (m, jwk)"
  shows "key_ok name \<lparr>kv_record = \<lparr>kr_Name = name, kr_Version = v, kr_Key = jwk,
     kr_Attributes = buildAttributes a c u, kr_Tags = cloneTags t\<rparr>, kv_material = m\<rparr>"
  using GenerateKey_Inr [OF assms] by (simp add: key_ok_def)

lemma CreateKey_ok: "keys_ok s \<Longrightarrow> keys_ok (snd (CreateKey e P name req s))"
  by (auto simp: CreateKey_def Let_def keys_ok_def intro!: kind_ok_append key_ok_create
      split: sum.split prod.split)

lemma key_ok_import:
  assumes "ImportKeyMaterial key [] = Inr (m, jwk)"
  shows "key_ok name \<lparr>kv_record = \<lparr>kr_Name = name, kr_Version = v, kr_Key = jwk\<lparr>jwk_KeyOps := ops\<rparr>,
     kr_Attributes = buildAttributes a c u, kr_Tags = cloneTags t\<rparr>, kv_material = m\<rparr>"
  using ImportKeyMaterial_Inr [OF assms] by (simp add: key_ok_def)

lemma ImportKey_ok: "keys_ok s \<Longrightarrow> keys_ok (snd (ImportKey e name req s))"
  by (auto simp: ImportKey_def Let_def keys_ok_def intro!: kind_ok_append key_ok_import
      split: sum.split prod.split)

lemma findKeyVersion_ok:
  assumes "keys_ok s" "map_of (st_keys s) name = Some vs" "findKeyVersion vs version = Some i"
  shows "key_ok name (vs ! i)"
  using assms kind_ok_live entry_ok_nth findVersion_Some
  unfolding keys_ok_def findKeyVersion_def by metis

lemma UpdateKey_ok: "keys_ok s \<Longrightarrow> keys_ok (snd (UpdateKey e name version req s))"
  using findKeyVersion_ok [of s name]
  by (auto simp: UpdateKey_def Let_def keys_ok_def key_ok_def intro!: kind_ok_update
      split: option.split)

lemma DeleteKey_ok: "keys_ok s \<Longrightarrow> keys_ok (snd (DeleteKey e name s))"
  using kind_ok_live [of key_ok "st_keys s" "st_deletedKeys s" name]
  by (auto simp: DeleteKey_def Let_def keys_ok_def intro!: kind_ok_intros split: option.split sum.split)

lemma PurgeDeletedKey_ok: "keys_ok s \<Longrightarrow> keys_ok (snd (PurgeDeletedKey name s))"
  by (simp add: PurgeDeletedKey_def keys_ok_def kind_ok_drop_gone)

lemma RecoverDeletedKey_ok: "keys_ok s \<Longrightarrow> keys_ok (snd (RecoverDeletedKey name s))"
  using kind_ok_gone [of key_ok "st_keys s" "st_deletedKeys s" name]
  by (auto simp: RecoverDeletedKey_def keys_ok_def intro!: kind_ok_intros split: option.split)

text \<open>The three parts of the state, and which part an operation leaves alone.\<close>

definition secretPart :: "Store \<Rightarrow> (string, secretEntry) gomap \<times> (string, secretEntry deletedEntry) gomap" where
  "secretPart s = (st_secrets s, st_deletedSecrets s)"

definition keyPart :: "Store \<Rightarrow> (string, keyEntry) gomap \<times> (string, keyEntry deletedEntry) gomap" where
  "keyPart s = (st_keys s, st_deletedKeys s)"

definition certificatePart ::
  "Store \<Rightarrow> (string, certificateEntry) gomap \<times> (string, certificateEntry deletedEntry) gomap" where
  "certificatePart s = (st_certificates s, st_deletedCertificates s)"

lemmas part_defs = secretPart_def keyPart_def certificatePart_def

lemma ok_parts:
  "secretPart s' = secretPart s \<Longrightarrow> secrets_ok s' = secrets_ok s"
  "keyPart s' = keyPart s \<Longrightarrow> keys_ok s' = keys_ok s"
  "certificatePart s' = certificatePart s \<Longrightarrow> certificates_ok s' = certificates_ok s"
  by (auto simp: part_defs store_ok_defs)

lemma SetSecret_frame [kv_frame]:
  "keyPart (snd (SetSecret e name req s)) = keyPart s"
  "certificatePart (snd (SetSecret e name req s)) = certificatePart s"
  "st_deletedSecrets (snd (SetSecret e name req s)) = st_deletedSecrets s"
  by (simp_all add: SetSecret_def part_defs Let_def split: sum.split)

lemma UpdateSecret_frame [kv_frame]:
  "keyPart (snd (UpdateSecret e name version req s)) = keyPart s"
  "certificatePart (snd (UpdateSecret e name version req s)) = certificatePart s"
  "st_deletedSecrets (snd (UpdateSecret e name version req s)) = st_deletedSecrets s"
  by (simp_all add: UpdateSecret_def part_defs Let_def split: option.split)

lemma DeleteSecret_frame [kv_frame]:
  "keyPart (snd (DeleteSecret e name s)) = keyPart s"
  "certificatePart (snd (DeleteSecret e name s)) = certificatePart s"
  by (simp_all add: DeleteSecret_def part_defs Let_def split: option.split sum.split)

lemma PurgeDeletedSecret_frame [kv_frame]:
  "keyPart (snd (PurgeDeletedSecret name s)) = keyPart s"
  "certificatePart (snd (PurgeDeletedSecret name s)) = certificatePart s"
  by (simp_all add: PurgeDeletedSecret_def part_defs)

lemma RecoverDeletedSecret_frame [kv_frame]:
  "keyPart (snd (RecoverDeletedSecret name s)) = keyPart s"
  "certificatePart (snd (RecoverDeletedSecret name s)) = certificatePart s"
  by (simp_all add: RecoverDeletedSecret_def part_defs split: option.split)

lemma RestoreSecret_frame [kv_frame]:
  "keyPart (snd (RestoreSecret C token s)) = keyPart s"
  "certificatePart (snd (RestoreSecret C token s)) = certificatePart s"
  by (simp_all add: RestoreSecret_def part_defs Let_def split: option.split sum.split)

lemma CreateKey_frame [kv_frame]:
  "secretPart (snd (CreateKey e P name req' s)) = secretPart s"
  "certificatePart (snd (CreateKey e P name req' s)) = certificatePart s"
  by (simp_all add: CreateKey_def part_defs Let_def split: sum.split prod.split)

lemma ImportKey_frame [kv_frame]:
  "secretPart (snd (ImportKey e name req' s)) = secretPart s"
  "certificatePart (snd (ImportKey e name req' s)) = certificatePart s"
  by (simp_all add: ImportKey_def part_defs Let_def split: sum.split prod.split)

lemma UpdateKey_frame [kv_frame]:
  "secretPart (snd (UpdateKey e name version req s)) = secretPart s"
  "certificatePart (snd (UpdateKey e name version req s)) = certificatePart s"
  by (simp_all add: UpdateKey_def part_defs Let_def split: option.split)

lemma DeleteKey_frame [kv_frame]:
  "secretPart (snd (DeleteKey e name s)) = secretPart s"
  "certificatePart (snd (DeleteKey e name s)) = certificatePart s"
  by (simp_all add: DeleteKey_def part_defs Let_def split: option.split sum.split)

lemma PurgeDeletedKey_frame [kv_frame]:
  "secretPart (snd (PurgeDeletedKey name s)) = secretPart s"
  "certificatePart (snd (PurgeDeletedKey name s)) = certificatePart s"
  by (simp_all add: PurgeDeletedKey_def part_defs)

lemma RecoverDeletedKey_frame [kv_frame]:
  "secretPart (snd (RecoverDeletedKey name s)) = secretPart s"
  "certificatePart (snd (RecoverDeletedKey name s)) = certificatePart s"
  by (simp_all add: RecoverDeletedKey_def part_defs split: option.split)

lemma UpdateCertificate_frame [kv_frame]:
  "secretPart (snd (UpdateCertificate e name version req s)) = secretPart s"
  "keyPart (snd (UpdateCertificate e name version req s)) = keyPart s"
  "st_deletedCertificates (snd (UpdateCertificate e name version req s)) = st_deletedCertificates s"
  by (simp_all add: UpdateCertificate_def part_defs Let_def split: option.split)

lemma UpdateCertificatePolicy_frame [kv_frame]:
  "secretPart (snd (UpdateCertificatePolicy e name policy s)) = secretPart s"
  "keyPart (snd (UpdateCertificatePolicy e name policy s)) = keyPart s"
  "st_deletedCertificates (snd (UpdateCertificatePolicy e name policy s)) = st_deletedCertificates s"
  by (simp_all add: UpdateCertificatePolicy_def part_defs Let_def split: option.split)

lemma DeleteCertificate_frame [kv_frame]:
  "secretPart (snd (DeleteCertificate e name s)) = secretPart s"
  "keyPart (snd (DeleteCertificate e name s)) = keyPart s"
  by (simp_all add: DeleteCertificate_def part_defs Let_def split: option.split sum.split)

lemma PurgeDeletedCertificate_frame [kv_frame]:
  "secretPart (snd (PurgeDeletedCertificate name s)) = secretPart s"
  "keyPart (snd (PurgeDeletedCertificate name s)) = keyPart s"
  by (simp_all add: PurgeDeletedCertificate_def part_defs)

lemma RecoverDeletedCertificate_frame [kv_frame]:
  "secretPart (snd (RecoverDeletedCertificate name s)) = secretPart s"
  "keyPart (snd (RecoverDeletedCertificate name s)) = keyPart s"
  by (simp_all add: RecoverDeletedCertificate_def part_defs split: option.split)

section \<open>Certificates\<close>

text \<open>What creating or importing a certificate adds to the three parts, on success.\<close>

definition certRecord ::
  "string \<Rightarrow> string \<Rightarrow> bytes \<Rightarrow> Attributes \<Rightarrow> tags \<Rightarrow> CertificatePolicy \<Rightarrow> CertificateRecord" where
  "certRecord name version der attrs tags policy = \<lparr>crt_Name = name, crt_Version = version,
     crt_Cer = der, crt_Kid = name, crt_Sid = name, crt_Attributes = attrs,
     crt_Tags = cloneTags tags, crt_Policy = clonePolicy (Some policy)\<rparr>"

definition addCert ::
  "string \<Rightarrow> CertificateRecord \<Rightarrow> bytes \<Rightarrow> Store \<Rightarrow> Store" where
  "addCert name record pem s = s\<lparr>st_certificates := appendVersion name
     \<lparr>cv_record = cloneCertificateRecord record, cv_pem = pem\<rparr> (st_certificates s)\<rparr>"

lemma certRecord_simps [simp]:
  "crt_Name (certRecord name version der attrs tags policy) = name"
  "crt_Kid (certRecord name version der attrs tags policy) = name"
  "crt_Sid (certRecord name version der attrs tags policy) = name"
  "crt_Version (certRecord name version der attrs tags policy) = version"
  "crt_Cer (certRecord name version der attrs tags policy) = der"
  "crt_Attributes (certRecord name version der attrs tags policy) = attrs"
  "crt_Policy (certRecord name version der attrs tags policy) = clonePolicy (Some policy)"
  by (simp_all add: certRecord_def)

lemma clone_certRecord [simp]:
  "cloneCertificateRecord (certRecord name version der attrs tags policy) =
    certRecord name version der attrs tags policy"
  by (simp add: certRecord_def cloneCertificateRecord_def)

lemma addCert_simps [simp]:
  "secretPart (addCert name record pem s) = secretPart s"
  "keyPart (addCert name record pem s) = keyPart s"
  "st_secrets (addCert name record pem s) = st_secrets s"
  "st_deletedCertificates (addCert name record pem s) = st_deletedCertificates s"
  "st_certificates (addCert name record pem s) = appendVersion name
     \<lparr>cv_record = cloneCertificateRecord record, cv_pem = pem\<rparr> (st_certificates s)"
  by (simp_all add: addCert_def part_defs)

lemma putSecretVersion_frame [kv_frame]:
  "keyPart (snd (putSecretVersion name version value ct attrs tags s)) = keyPart s"
  "certificatePart (snd (putSecretVersion name version value ct attrs tags s)) = certificatePart s"
  "st_deletedSecrets (snd (putSecretVersion name version value ct attrs tags s)) = st_deletedSecrets s"
  by (simp_all add: putSecretVersion_def part_defs Let_def)

lemma putKeyVersion_frame [kv_frame]:
  "secretPart (snd (putKeyVersion name version record material s)) = secretPart s"
  "certificatePart (snd (putKeyVersion name version record material s)) = certificatePart s"
  "st_deletedKeys (snd (putKeyVersion name version record material s)) = st_deletedKeys s"
  by (simp_all add: putKeyVersion_def part_defs Let_def)

lemma putSecretVersion_ok:
  "secrets_ok s \<Longrightarrow> attrs_ok attrs \<Longrightarrow> secrets_ok (snd (putSecretVersion name version value ct attrs tags s))"
  by (simp add: putSecretVersion_def secrets_ok_def kind_ok_append secret_ok_def Let_def)

lemma putKeyVersion_ok:
  assumes "keys_ok s" "attrs_ok (kr_Attributes r)" "tags_ok (kr_Tags r)" "publicJWK (kr_Key r)"
    "material_for (jwk_Kty (kr_Key r)) m"
  shows "keys_ok (snd (putKeyVersion name version r m s))"
  using assms by (simp add: putKeyVersion_def keys_ok_def kind_ok_append key_ok_def Let_def cloneKeyRecord_id)

lemma addCert_ok:
  "certificates_ok s \<Longrightarrow> attrs_ok attrs \<Longrightarrow>
    certificates_ok (addCert name (certRecord name version der attrs tags policy) pem s)"
  by (auto simp: addCert_def certificates_ok_def certificate_ok_def intro!: kind_ok_append)
    (simp add: certRecord_def)

definition rsaKeyRecord :: "string \<Rightarrow> string \<Rightarrow> rsa_PublicKey \<Rightarrow> Attributes \<Rightarrow> tags \<Rightarrow> KeyRecord" where
  "rsaKeyRecord name version pub attrs tags = \<lparr>kr_Name = name, kr_Version = version,
     kr_Key = RSAToJWK [] ''RSA'' (defaultKeyOps ''RSA'' []) pub, kr_Attributes = attrs,
     kr_Tags = cloneTags tags\<rparr>"

definition pairMaterial :: "rsa_PrivateKey \<Rightarrow> KeyMaterial" where
  "pairMaterial priv = emptyMaterial\<lparr>km_RSA := Some priv, km_RSAPub := Some (priv_PublicKey priv)\<rparr>"

lemma CreateCertificate_cases:
  obtains (error) err where "CreateCertificate e P L name req s = (Inl err, s)"
  | (ok) opts version priv der attrs policy pem managed
  where "newVersion e = Inr version" "certOptions L s policy = Inr opts"
    "GenerateCert P L name (Some policy) opts = Inr (priv, der)"
    "policy = defaultCertificatePolicy name (cc_Policy req)"
    "attrs = buildAttributes (cc_Attributes req) (env_now e) (env_now e)"
    "pem = lib_pemEncode L (pemBlock ''CERTIFICATE'' der)"
    "managed = string_of_bytes (pem @
       lib_pemEncode L (pemBlock ''RSA PRIVATE KEY'' (lib_MarshalPKCS1PrivateKey L priv)))"
    "name \<noteq> []" "map_of (st_deletedCertificates s) name = None"
    "CreateCertificate e P L name req s =
      (Inr (certRecord name version der attrs (cc_Tags req) policy),
       snd (putSecretVersion name version managed ''application/x-pem-file'' attrs (cc_Tags req)
        (snd (putKeyVersion name version (rsaKeyRecord name version (priv_PublicKey priv) attrs (cc_Tags req))
          (pairMaterial priv)
          (addCert name (certRecord name version der attrs (cc_Tags req) policy) pem s)))))"
proof (cases "name = [] \<or> map_of (st_deletedCertificates s) name \<noteq> None")
  case True
  then have "\<exists>err. CreateCertificate e P L name req s = (Inl err, s)"
    by (auto simp: CreateCertificate_def)
  then show ?thesis
    using error by blast
next
  case False
  define policy where "policy = defaultCertificatePolicy name (cc_Policy req)"
  show ?thesis
  proof (cases "rbind (newVersion e) (\<lambda>version. rbind (certOptions L s policy) (\<lambda>opts.
      rbind (wrapErr 400 ''InvalidOperation'' (GenerateCert P L name (Some policy) opts))
        (\<lambda>(priv, der). Inr (version, priv, der))))")
    case (Inl err)
    then have "CreateCertificate e P L name req s = (Inl err, s)"
      using False by (simp add: CreateCertificate_def Let_def policy_def)
    then show ?thesis
      by (rule error)
  next
    case (Inr r)
    then obtain version opts priv der where r: "r = (version, priv, der)" "newVersion e = Inr version"
      "certOptions L s policy = Inr opts" "GenerateCert P L name (Some policy) opts = Inr (priv, der)"
      by (auto simp: rbind_Inr_iff split: prod.splits)
    show ?thesis
      using False Inr r(1)
      by (intro ok [OF r(2,3,4) policy_def refl refl refl])
        (simp_all add: CreateCertificate_def Let_def policy_def [symmetric] case_prod_unfold addCert_def
          certRecord_def [symmetric] rsaKeyRecord_def [symmetric] pairMaterial_def)
  qed
qed

definition importedMaterial :: "rsa_PublicKey \<Rightarrow> rsa_PrivateKey option \<Rightarrow> KeyMaterial" where
  "importedMaterial pub priv =
     (case priv of None \<Rightarrow> emptyMaterial\<lparr>km_RSAPub := Some pub\<rparr> | Some k \<Rightarrow> pairMaterial k)"

definition importedKey ::
  "string \<Rightarrow> string \<Rightarrow> x509_Certificate \<Rightarrow> rsa_PrivateKey option \<Rightarrow> Attributes \<Rightarrow> tags \<Rightarrow> Store \<Rightarrow> Store" where
  "importedKey name version cert priv attrs tags s =
     (case x_PublicKey cert of
        Some (RSAPublic pub) \<Rightarrow>
          snd (putKeyVersion name version (rsaKeyRecord name version pub attrs tags) (importedMaterial pub priv) s)
      | _ \<Rightarrow> s)"

lemma ImportCertificate_cases:
  obtains (error) err where "ImportCertificate e L name req s = (Inl err, s)"
  | (ok) cert priv pem version attrs policy
  where "ParseImportedCertificate L (ic_Value req) (ic_Password req) = Inr (cert, priv, pem)"
    "newVersion e = Inr version"
    "attrs = buildAttributes (ic_Attributes req) (env_now e) (env_now e)"
    "policy = defaultCertificatePolicy name (ic_Policy req)"
    "name \<noteq> []" "map_of (st_deletedCertificates s) name = None"
    "ImportCertificate e L name req s =
      (Inr (certRecord name version (x_Raw cert) attrs (ic_Tags req) policy),
       snd (putSecretVersion name version (string_of_bytes pem) ''application/x-pem-file'' attrs (ic_Tags req)
        (importedKey name version cert priv attrs (ic_Tags req)
          (addCert name (certRecord name version (x_Raw cert) attrs (ic_Tags req) policy) pem s))))"
proof (cases "wrapErr 400 ''BadParameter'' (ParseImportedCertificate L (ic_Value req) (ic_Password req))")
  case (Inl err)
  then have "\<exists>err. ImportCertificate e L name req s = (Inl err, s)"
    by (auto simp: ImportCertificate_def)
  then show ?thesis
    using error by blast
next
  case (Inr r)
  obtain cert priv pem where r: "r = (cert, priv, pem)"
    by (cases r)
  consider (no) "name = [] \<or> ic_Value req = [] \<or> map_of (st_deletedCertificates s) name \<noteq> None \<or> \<not> is_ok (newVersion e)"
    | (yes) version where "name \<noteq> []" "ic_Value req \<noteq> []" "map_of (st_deletedCertificates s) name = None"
      "newVersion e = Inr version"
    by (auto simp: not_is_ok_iff is_ok_iff)
  then show ?thesis
  proof cases
    case no
    then have "\<exists>err. ImportCertificate e L name req s = (Inl err, s)"
      using Inr r unfolding ImportCertificate_def
      by (cases "name = []"; cases "ic_Value req = []"; cases "map_of (st_deletedCertificates s) name";
          cases "newVersion e") (simp_all add: Let_def)
    then show ?thesis
      using error by blast
  next
    case yes
    from Inr r have "ParseImportedCertificate L (ic_Value req) (ic_Password req) = Inr (cert, priv, pem)"
      by simp
    moreover have "(let material = emptyMaterial\<lparr>km_RSAPub := Some pub\<rparr>
        in case priv of None \<Rightarrow> material
           | Some k \<Rightarrow> material\<lparr>km_RSA := Some k, km_RSAPub := Some (priv_PublicKey k)\<rparr>)
        = importedMaterial pub priv" for pub
      by (simp add: importedMaterial_def pairMaterial_def emptyMaterial_def split: option.split)
    ultimately show ?thesis
      using yes Inr r
      by (intro ok [OF _ yes(4) refl refl])
        (simp_all add: ImportCertificate_def Let_def case_prod_unfold addCert_def importedKey_def
          certRecord_def [symmetric] rsaKeyRecord_def [symmetric] cong: option.case_cong publicKey.case_cong)
  qed
qed

lemma rsa_material [simp]:
  "material_for ''RSA'' (pairMaterial k)" "material_for ''RSA'' (importedMaterial pub priv)"
  by (simp_all add: material_for_def pairMaterial_def importedMaterial_def emptyMaterial_def
      split: option.split)

lemma rsaKeyRecord_simps [simp]:
  "kr_Key (rsaKeyRecord name version pub attrs tags) = RSAToJWK [] ''RSA'' (defaultKeyOps ''RSA'' []) pub"
  "kr_Attributes (rsaKeyRecord name version pub attrs tags) = attrs"
  "kr_Tags (rsaKeyRecord name version pub attrs tags) = cloneTags tags"
  by (simp_all add: rsaKeyRecord_def)

lemma importedKey_frame [kv_frame]:
  "secretPart (importedKey name version cert priv attrs tags s) = secretPart s"
  "certificatePart (importedKey name version cert priv attrs tags s) = certificatePart s"
  "st_deletedKeys (importedKey name version cert priv attrs tags s) = st_deletedKeys s"
  by (auto simp: importedKey_def kv_frame split: option.split publicKey.split)

lemma importedKey_ok:
  "keys_ok s \<Longrightarrow> attrs_ok attrs \<Longrightarrow> keys_ok (importedKey name version cert priv attrs tags s)"
  by (auto simp: importedKey_def putKeyVersion_ok split: option.split publicKey.split)

lemmas secretPart_frames =
  CreateKey_frame(1) ImportKey_frame(1) UpdateKey_frame(1) DeleteKey_frame(1)
  PurgeDeletedKey_frame(1) RecoverDeletedKey_frame(1) UpdateCertificate_frame(1)
  UpdateCertificatePolicy_frame(1) DeleteCertificate_frame(1) PurgeDeletedCertificate_frame(1)
  RecoverDeletedCertificate_frame(1) importedKey_frame(1) putKeyVersion_frame(1) addCert_simps(1)

lemmas keyPart_frames =
  SetSecret_frame(1) UpdateSecret_frame(1) DeleteSecret_frame(1) PurgeDeletedSecret_frame(1)
  RecoverDeletedSecret_frame(1) RestoreSecret_frame(1) UpdateCertificate_frame(2)
  UpdateCertificatePolicy_frame(2) DeleteCertificate_frame(2) PurgeDeletedCertificate_frame(2)
  RecoverDeletedCertificate_frame(2) putSecretVersion_frame(1) addCert_simps(2)

lemmas certificatePart_frames =
  SetSecret_frame(2) UpdateSecret_frame(2) DeleteSecret_frame(2) PurgeDeletedSecret_frame(2)
  RecoverDeletedSecret_frame(2) RestoreSecret_frame(2) CreateKey_frame(2) ImportKey_frame(2)
  UpdateKey_frame(2) DeleteKey_frame(2) PurgeDeletedKey_frame(2) RecoverDeletedKey_frame(2)
  putSecretVersion_frame(2) putKeyVersion_frame(2) importedKey_frame(2)

lemmas frames_ok [simp] = secretPart_frames [THEN ok_parts(1)] keyPart_frames [THEN ok_parts(2)]
  certificatePart_frames [THEN ok_parts(3)]

lemma CreateCertificate_ok: "store_ok s \<Longrightarrow> store_ok (snd (CreateCertificate e P L name req s))"
  by (cases rule: CreateCertificate_cases [of e P L name req s])
    (simp_all add: store_ok_def putSecretVersion_ok putKeyVersion_ok addCert_ok)

lemma ImportCertificate_ok: "store_ok s \<Longrightarrow> store_ok (snd (ImportCertificate e L name req s))"
  by (cases rule: ImportCertificate_cases [of e L name req s])
    (simp_all add: store_ok_def putSecretVersion_ok importedKey_ok addCert_ok)

lemma findCertificateVersion_ok:
  assumes "certificates_ok s" "map_of (st_certificates s) name = Some vs"
    "findCertificateVersion vs version = Some i"
  shows "certificate_ok name (vs ! i)"
  using assms kind_ok_live entry_ok_nth findVersion_Some
  unfolding certificates_ok_def findCertificateVersion_def by metis

lemma UpdateCertificate_ok:
  "certificates_ok s \<Longrightarrow> certificates_ok (snd (UpdateCertificate e name version req s))"
  using findCertificateVersion_ok [of s name]
  by (auto simp: UpdateCertificate_def Let_def certificates_ok_def certificate_ok_def intro!: kind_ok_update
      split: option.split)

lemma certificate_ok_latest:
  assumes "certificates_ok s" "map_of (st_certificates s) name = Some vs"
  shows "vs \<noteq> []" "certificate_ok name (last vs)"
  using assms kind_ok_live entry_ok_last unfolding certificates_ok_def by (metis entry_ok_def)+

lemma UpdateCertificatePolicy_ok:
  "certificates_ok s \<Longrightarrow> certificates_ok (snd (UpdateCertificatePolicy e name policy s))"
  using certificate_ok_latest [of s name]
  by (auto simp: UpdateCertificatePolicy_def Let_def certificates_ok_def certificate_ok_def attrs_ok_def
      intro!: kind_ok_update split: option.split)

lemma DeleteCertificate_ok: "certificates_ok s \<Longrightarrow> certificates_ok (snd (DeleteCertificate e name s))"
  using kind_ok_live [of certificate_ok "st_certificates s" "st_deletedCertificates s" name]
  by (auto simp: DeleteCertificate_def Let_def certificates_ok_def intro!: kind_ok_intros
      split: option.split sum.split)

lemma PurgeDeletedCertificate_ok: "certificates_ok s \<Longrightarrow> certificates_ok (snd (PurgeDeletedCertificate name s))"
  by (simp add: PurgeDeletedCertificate_def certificates_ok_def kind_ok_drop_gone)

lemma RecoverDeletedCertificate_ok:
  "certificates_ok s \<Longrightarrow> certificates_ok (snd (RecoverDeletedCertificate name s))"
  using kind_ok_gone [of certificate_ok "st_certificates s" "st_deletedCertificates s" name]
  by (auto simp: RecoverDeletedCertificate_def certificates_ok_def intro!: kind_ok_intros split: option.split)

section \<open>Runs\<close>

text \<open>
  A step of the store is one call of an operation that may change it, with any arguments and any
  input from the environment, failing calls and panics included.
\<close>

inductive step :: "Store \<Rightarrow> Store \<Rightarrow> bool" where
  SetSecret: "step s (snd (SetSecret e name ssr s))"
| UpdateSecret: "step s (snd (UpdateSecret e name version sur s))"
| DeleteSecret: "step s (snd (DeleteSecret e name s))"
| PurgeDeletedSecret: "step s (snd (PurgeDeletedSecret name s))"
| RecoverDeletedSecret: "step s (snd (RecoverDeletedSecret name s))"
| RestoreSecret: "step s (snd (RestoreSecret C token s))"
| CreateKey: "step s (snd (CreateKey e P name ckr s))"
| ImportKey: "step s (snd (ImportKey e name ikr s))"
| UpdateKey: "step s (snd (UpdateKey e name version ukr s))"
| DeleteKey: "step s (snd (DeleteKey e name s))"
| PurgeDeletedKey: "step s (snd (PurgeDeletedKey name s))"
| RecoverDeletedKey: "step s (snd (RecoverDeletedKey name s))"
| CreateCertificate: "step s (snd (CreateCertificate e P L name ccr s))"
| ImportCertificate: "step s (snd (ImportCertificate e L name icr s))"
| UpdateCertificate: "step s (snd (UpdateCertificate e name version ucr s))"
| UpdateCertificatePolicy: "step s (snd (UpdateCertificatePolicy e name policy s))"
| DeleteCertificate: "step s (snd (DeleteCertificate e name s))"
| PurgeDeletedCertificate: "step s (snd (PurgeDeletedCertificate name s))"
| RecoverDeletedCertificate: "step s (snd (RecoverDeletedCertificate name s))"

inductive_cases stepE: "step s s'"

definition reachable :: "Store \<Rightarrow> bool" where
  "reachable s \<longleftrightarrow> step\<^sup>*\<^sup>* New s"

lemma reachable_New: "reachable New"
  by (simp add: reachable_def)

lemma reachable_step: "reachable s \<Longrightarrow> step s s' \<Longrightarrow> reachable s'"
  unfolding reachable_def by (rule rtranclp.rtrancl_into_rtrancl)

lemma reachable_induct [consumes 1, case_names New step]:
  assumes "reachable s" "Q New" "\<And>s s'. reachable s \<Longrightarrow> Q s \<Longrightarrow> step s s' \<Longrightarrow> Q s'"
  shows "Q s"
  using assms(1) unfolding reachable_def
  by (induction rule: rtranclp_induct) (use assms(2,3) in \<open>auto simp: reachable_def\<close>)

lemmas op_ok = SetSecret_ok UpdateSecret_ok DeleteSecret_ok PurgeDeletedSecret_ok
  RecoverDeletedSecret_ok RestoreSecret_ok CreateKey_ok ImportKey_ok UpdateKey_ok DeleteKey_ok
  PurgeDeletedKey_ok RecoverDeletedKey_ok UpdateCertificate_ok UpdateCertificatePolicy_ok
  DeleteCertificate_ok PurgeDeletedCertificate_ok RecoverDeletedCertificate_ok

lemma step_store_ok: "step s s' \<Longrightarrow> store_ok s \<Longrightarrow> store_ok s'"
  by (induction rule: step.induct)
    (simp_all add: CreateCertificate_ok ImportCertificate_ok,
      simp_all add: store_ok_def op_ok)

lemma reachable_store_ok: "reachable s \<Longrightarrow> store_ok s"
  by (induction rule: reachable_induct) (auto simp: store_ok_New intro: step_store_ok)

text \<open>A certificate is never live and deleted at once. (A secret or a key may be.)\<close>

definition certs_disjoint :: "Store \<Rightarrow> bool" where
  "certs_disjoint s \<longleftrightarrow>
     (\<forall>name. map_of (st_certificates s) name = None \<or> map_of (st_deletedCertificates s) name = None)"

lemma certs_disjoint_part: "certificatePart s' = certificatePart s \<Longrightarrow> certs_disjoint s' = certs_disjoint s"
  by (simp add: certs_disjoint_def part_defs)

lemmas certs_disjoint_frames [simp] = certificatePart_frames [THEN certs_disjoint_part]

lemma certs_disjoint_add:
  "certs_disjoint s \<Longrightarrow> map_of (st_deletedCertificates s) name = None \<Longrightarrow>
    certs_disjoint (addCert name record pem s)"
  by (auto simp: certs_disjoint_def)

lemma CreateCertificate_disjoint:
  "certs_disjoint s \<Longrightarrow> certs_disjoint (snd (CreateCertificate e P L name req s))"
  by (cases rule: CreateCertificate_cases [of e P L name req s])
    (simp_all add: certs_disjoint_add)

lemma ImportCertificate_disjoint:
  "certs_disjoint s \<Longrightarrow> certs_disjoint (snd (ImportCertificate e L name req s))"
  by (cases rule: ImportCertificate_cases [of e L name req s])
    (simp_all add: certs_disjoint_add)

lemma certs_disjoint_ops:
  assumes "certs_disjoint s"
  shows "certs_disjoint (snd (UpdateCertificate e name version ucr s))"
    "certs_disjoint (snd (UpdateCertificatePolicy e name policy s))"
    "certs_disjoint (snd (DeleteCertificate e name s))"
    "certs_disjoint (snd (PurgeDeletedCertificate name s))"
    "certs_disjoint (snd (RecoverDeletedCertificate name s))"
  using assms
  by (simp_all add: certs_disjoint_def UpdateCertificate_def UpdateCertificatePolicy_def
      DeleteCertificate_def PurgeDeletedCertificate_def RecoverDeletedCertificate_def Let_def
      split: option.split sum.split) (metis option.distinct(1))+

lemma step_certs_disjoint: "step s s' \<Longrightarrow> certs_disjoint s \<Longrightarrow> certs_disjoint s'"
  by (induction rule: step.induct)
    (simp_all add: certs_disjoint_ops CreateCertificate_disjoint ImportCertificate_disjoint)

lemma reachable_certs_disjoint: "reachable s \<Longrightarrow> certs_disjoint s"
proof (induction rule: reachable_induct)
  case New
  show ?case
    by (simp add: certs_disjoint_def New_def)
qed (rule step_certs_disjoint)

end
