(* ===== verification/KV_Contract.thy ===== *)
theory KV_Contract
  imports KV_Store_Base
begin

text \<open>
  The life cycle that secrets, keys and certificates share: written, read by version, deleted,
  recovered, purged. The contract is stated once, as a locale over an abstract vault that maps a
  name to its live and its deleted entry, and interpreted for the three kinds of objects of the
  in-memory store.
\<close>

section \<open>The abstract vault\<close>

type_synonym 'e vault = "string \<Rightarrow> 'e option \<times> 'e option"

definition vault :: "('s \<Rightarrow> string \<Rightarrow> 'e option) \<Rightarrow> ('s \<Rightarrow> string \<Rightarrow> 'e option) \<Rightarrow> 's \<Rightarrow> 'e vault" where
  "vault live gone s = (\<lambda>n. (live s n, gone s n))"

definition canDelete :: "string \<Rightarrow> 'e vault \<Rightarrow> bool" where
  "canDelete n v \<longleftrightarrow> fst (v n) \<noteq> None \<and> snd (v n) = None"

definition canRecover :: "string \<Rightarrow> 'e vault \<Rightarrow> bool" where
  "canRecover n v \<longleftrightarrow> fst (v n) = None \<and> snd (v n) \<noteq> None"

definition aDelete :: "string \<Rightarrow> 'e vault \<Rightarrow> 'e vault" where
  "aDelete n v = (if canDelete n v then v(n := (None, fst (v n))) else v)"

definition aPurge :: "string \<Rightarrow> 'e vault \<Rightarrow> 'e vault" where
  "aPurge n v = v(n := (fst (v n), None))"

definition aRecover :: "string \<Rightarrow> 'e vault \<Rightarrow> 'e vault" where
  "aRecover n v = (if canRecover n v then v(n := (snd (v n), None)) else v)"

lemmas vault_defs = vault_def canDelete_def canRecover_def aDelete_def aPurge_def aRecover_def

lemma aRecover_aDelete: "canDelete n v \<Longrightarrow> aRecover n (aDelete n v) = v"
  by (auto simp: vault_defs fun_eq_iff prod_eq_iff)

section \<open>The contract of deletion\<close>

locale soft_delete =
  fixes inv :: "'s \<Rightarrow> bool"
    and live :: "'s \<Rightarrow> string \<Rightarrow> 'e option"
    and gone :: "'s \<Rightarrow> string \<Rightarrow> 'e option"
    and delete :: "env \<Rightarrow> string \<Rightarrow> 's \<Rightarrow> 'd res \<times> 's"
    and purge :: "string \<Rightarrow> 's \<Rightarrow> unit res \<times> 's"
    and recover :: "string \<Rightarrow> 's \<Rightarrow> 'r res \<times> 's"
  assumes delete_refines:
      "inv s \<Longrightarrow> env_ok e \<Longrightarrow> vault live gone (snd (delete e n s)) = aDelete n (vault live gone s)"
    and purge_refines: "inv s \<Longrightarrow> vault live gone (snd (purge n s)) = aPurge n (vault live gone s)"
    and recover_refines: "inv s \<Longrightarrow> vault live gone (snd (recover n s)) = aRecover n (vault live gone s)"
    and delete_ok: "inv s \<Longrightarrow> env_ok e \<Longrightarrow> is_ok (fst (delete e n s)) \<longleftrightarrow> canDelete n (vault live gone s)"
    and purge_ok: "inv s \<Longrightarrow> is_ok (fst (purge n s)) \<longleftrightarrow> gone s n \<noteq> None"
    and recover_ok: "inv s \<Longrightarrow> is_ok (fst (recover n s)) \<longleftrightarrow> canRecover n (vault live gone s)"
    and delete_inv: "inv s \<Longrightarrow> inv (snd (delete e n s))"
    and purge_inv: "inv s \<Longrightarrow> inv (snd (purge n s))"
    and recover_inv: "inv s \<Longrightarrow> inv (snd (recover n s))"
begin

abbreviation absv :: "'s \<Rightarrow> 'e vault" where
  "absv \<equiv> vault live gone"

lemma delete_then_recover:
  assumes "inv s" "env_ok e" "live s n \<noteq> None" "gone s n = None"
  shows "is_ok (fst (delete e n s))" "is_ok (fst (recover n (snd (delete e n s))))"
    "absv (snd (recover n (snd (delete e n s)))) = absv s"
proof -
  let ?s = "snd (delete e n s)"
  have c: "canDelete n (absv s)"
    using assms(3,4) by (simp add: vault_defs)
  then show "is_ok (fst (delete e n s))"
    using assms(1,2) by (simp add: delete_ok)
  have r: "absv ?s = aDelete n (absv s)" "inv ?s"
    using assms(1,2) by (simp_all add: delete_refines delete_inv)
  then show "absv (snd (recover n ?s)) = absv s"
    using c by (simp add: recover_refines aRecover_aDelete)
  have "canRecover n (aDelete n (absv s))"
    using c by (simp add: vault_defs)
  then show "is_ok (fst (recover n ?s))"
    using r by (simp add: recover_ok)
qed

lemma delete_then_purge:
  assumes "inv s" "env_ok e" "live s n \<noteq> None" "gone s n = None"
  shows "is_ok (fst (purge n (snd (delete e n s))))"
    "absv (snd (purge n (snd (delete e n s)))) = (absv s)(n := (None, None))"
    "\<not> is_ok (fst (recover n (snd (purge n (snd (delete e n s))))))"
proof -
  let ?s = "snd (delete e n s)"
  have c: "canDelete n (absv s)"
    using assms(3,4) by (simp add: vault_defs)
  have r: "absv ?s = aDelete n (absv s)" "inv ?s"
    using assms(1,2) by (simp_all add: delete_refines delete_inv)
  have "snd (absv ?s n) \<noteq> None"
    using c r(1) by (simp add: vault_defs)
  then show "is_ok (fst (purge n ?s))"
    using r(2) by (simp add: purge_ok vault_def)
  show p: "absv (snd (purge n ?s)) = (absv s)(n := (None, None))"
    using c r by (auto simp: purge_refines) (auto simp: aPurge_def aDelete_def)
  have "inv (snd (purge n ?s))"
    using r(2) by (rule purge_inv)
  then show "\<not> is_ok (fst (recover n (snd (purge n ?s))))"
    by (simp add: recover_ok p canRecover_def)
qed

lemma delete_twice:
  assumes "inv s" "env_ok e" "env_ok e'"
  shows "\<not> is_ok (fst (delete e' n (snd (delete e n s))))"
proof -
  have "\<not> canDelete n (aDelete n (absv s))"
    by (auto simp: vault_defs)
  then show ?thesis
    using assms by (simp add: delete_ok delete_inv delete_refines)
qed

lemma other_names:
  assumes "inv s" "env_ok e" "m \<noteq> n"
  shows "absv (snd (delete e n s)) m = absv s m" "absv (snd (purge n s)) m = absv s m"
    "absv (snd (recover n s)) m = absv s m"
  using assms by (simp_all add: delete_refines purge_refines recover_refines aDelete_def aPurge_def aRecover_def)

text \<open>However often objects are deleted and recovered, no entry is lost or made up.\<close>

definition churn :: "(env \<times> string) + string \<Rightarrow> 's \<Rightarrow> 's" where
  "churn c s = (case c of Inl (e, n) \<Rightarrow> snd (delete e n s) | Inr n \<Rightarrow> snd (recover n s))"

lemma churn_inv: "inv s \<Longrightarrow> inv (churn c s)"
  by (auto simp: churn_def delete_inv recover_inv split: sum.split prod.split)

lemma churn_keeps:
  assumes "inv s" "\<And>e n. c = Inl (e, n) \<Longrightarrow> env_ok e"
  shows "set_option (fst (absv (churn c s) m)) \<union> set_option (snd (absv (churn c s) m)) =
    set_option (fst (absv s m)) \<union> set_option (snd (absv s m))"
  using assms
  by (cases c) (auto simp: churn_def delete_refines recover_refines aDelete_def aRecover_def
      canDelete_def canRecover_def split: prod.split)

lemma churns_keep:
  assumes "inv s" "\<forall>e n. Inl (e, n) \<in> set cs \<longrightarrow> env_ok e"
  shows "set_option (fst (absv (fold churn cs s) m)) \<union> set_option (snd (absv (fold churn cs s) m)) =
    set_option (fst (absv s m)) \<union> set_option (snd (absv s m))"
  using assms
proof (induction cs arbitrary: s)
  case (Cons c cs)
  have "set_option (fst (absv (fold churn cs (churn c s)) m)) \<union> set_option (snd (absv (fold churn cs (churn c s)) m)) =
      set_option (fst (absv (churn c s) m)) \<union> set_option (snd (absv (churn c s) m))"
    using Cons.prems by (intro Cons.IH churn_inv) auto
  also have "\<dots> = set_option (fst (absv s m)) \<union> set_option (snd (absv s m))"
    using Cons.prems by (intro churn_keeps) auto
  finally show ?case
    by simp
qed simp

end

section \<open>The contract of writing and reading\<close>

locale vault_writer = soft_delete inv live gone delete purge recover
  for inv :: "'s \<Rightarrow> bool"
    and live :: "'s \<Rightarrow> string \<Rightarrow> 'e option"
    and gone :: "'s \<Rightarrow> string \<Rightarrow> 'e option"
    and delete :: "env \<Rightarrow> string \<Rightarrow> 's \<Rightarrow> 'd res \<times> 's"
    and purge :: "string \<Rightarrow> 's \<Rightarrow> unit res \<times> 's"
    and recover :: "string \<Rightarrow> 's \<Rightarrow> 'r res \<times> 's" +
  fixes put :: "env \<Rightarrow> string \<Rightarrow> 'q \<Rightarrow> 's \<Rightarrow> 'r res \<times> 's"
    and get :: "'s \<Rightarrow> string \<Rightarrow> string \<Rightarrow> 'r res"
    and verOf :: "'r \<Rightarrow> string"
  assumes put_fail: "fst (put e n q s) = Inl err \<Longrightarrow> snd (put e n q s) = s"
    and put_deleted: "gone s n \<noteq> None \<Longrightarrow> \<not> is_ok (fst (put e n q s))"
    and put_get: "inv s \<Longrightarrow> put e n q s = (Inr r, s') \<Longrightarrow> get s' n [] = Inr r"
    and put_history: "inv s \<Longrightarrow> put e n q s = (x, s') \<Longrightarrow> v \<noteq> [] \<Longrightarrow> get s n v = Inr r \<Longrightarrow> get s' n v = Inr r"
    and put_fresh: "inv s \<Longrightarrow> put e n q s = (Inr r, s') \<Longrightarrow> \<not> is_ok (get s n (verOf r)) \<Longrightarrow> verOf r \<noteq> [] \<Longrightarrow>
      get s' n (verOf r) = Inr r"
    and put_other: "put e n q s = (x, s') \<Longrightarrow> m \<noteq> n \<Longrightarrow> live s' m = live s m"
    and put_gone: "put e n q s = (x, s') \<Longrightarrow> gone s' m = gone s m"
    and put_inv: "inv s \<Longrightarrow> inv (snd (put e n q s))"
    and get_live: "live s n = live s' n \<Longrightarrow> get s n v = get s' n v"
    and get_ok: "inv s \<Longrightarrow> is_ok (get s n []) \<longleftrightarrow> live s n \<noteq> None"
    and get_none: "live s n = None \<Longrightarrow> \<not> is_ok (get s n v)"
begin

lemma get_absv: "absv s n = absv s' n \<Longrightarrow> get s n v = get s' n v"
  by (rule get_live) (simp add: vault_def)

lemma recovered_reads:
  assumes "inv s" "env_ok e" "live s n \<noteq> None" "gone s n = None"
  shows "get (snd (recover n (snd (delete e n s)))) m v = get s m v"
  using delete_then_recover(3) [OF assms] by (intro get_absv) simp

lemma deleted_hidden:
  assumes "inv s" "env_ok e" "canDelete n (absv s)"
  shows "\<not> is_ok (get (snd (delete e n s)) n v)" "\<not> is_ok (fst (put e' n q (snd (delete e n s))))"
    "snd (put e' n q (snd (delete e n s))) = snd (delete e n s)"
proof -
  let ?s = "snd (delete e n s)"
  have "absv ?s n = (None, fst (absv s n))"
    using assms by (simp add: delete_refines aDelete_def)
  then have l: "live ?s n = None" "gone ?s n = live s n" and "live s n \<noteq> None"
    using assms(3) by (simp_all add: vault_def canDelete_def)
  then show "\<not> is_ok (get ?s n v)"
    by (intro get_none)
  show p: "\<not> is_ok (fst (put e' n q ?s))"
    using l \<open>live s n \<noteq> None\<close> by (intro put_deleted) simp
  then show "snd (put e' n q ?s) = ?s"
    using put_fail by (auto simp: not_is_ok_iff)
qed

lemma put_other_reads: "m \<noteq> n \<Longrightarrow> get (snd (put e n q s)) m v = get s m v"
  using put_other [of e n q s _ _ m] by (intro get_live) (metis prod.collapse)

text \<open>A series of writes, to any names: the versions that could be read stay readable unchanged.\<close>

lemma writes_keep_history:
  assumes "inv s" "v \<noteq> []" "get s n v = Inr r"
  shows "get (fold (\<lambda>(e, m, q) s. snd (put e m q s)) ws s) n v = Inr r"
  using assms(1,3)
proof (induction ws arbitrary: s)
  case (Cons w ws)
  obtain e m q where w: "w = (e, m, q)"
    by (cases w)
  have "get (snd (put e m q s)) n v = Inr r"
  proof (cases "m = n")
    case True
    then show ?thesis
      using put_history [OF Cons.prems(1) _ assms(2) Cons.prems(2)] by (metis prod.collapse)
  next
    case False
    then show ?thesis
      using put_other_reads [of n m] Cons.prems(2) by simp
  qed
  then show ?case
    using Cons.IH [OF put_inv [OF Cons.prems(1)]] w by simp
qed simp

end

end
