(* ===== verification/KV_Lifecycle.thy ===== *)
theory KV_Lifecycle
  imports KV_Invariant KV_Contract
begin

text \<open>
  Secrets, keys and certificates of the in-memory store fulfil the contract of deletion and of
  versioned writing and reading.
\<close>

section \<open>Secrets\<close>

definition liveSecret :: "Store \<Rightarrow> string \<Rightarrow> secretEntry option" where
  "liveSecret s n = map_of (st_secrets s) n"

definition goneSecret :: "Store \<Rightarrow> string \<Rightarrow> secretEntry option" where
  "goneSecret s n = map_option de_entry (map_of (st_deletedSecrets s) n)"

definition liveKey :: "Store \<Rightarrow> string \<Rightarrow> keyEntry option" where
  "liveKey s n = map_of (st_keys s) n"

definition goneKey :: "Store \<Rightarrow> string \<Rightarrow> keyEntry option" where
  "goneKey s n = map_option de_entry (map_of (st_deletedKeys s) n)"

definition liveCertificate :: "Store \<Rightarrow> string \<Rightarrow> certificateEntry option" where
  "liveCertificate s n = map_of (st_certificates s) n"

definition goneCertificate :: "Store \<Rightarrow> string \<Rightarrow> certificateEntry option" where
  "goneCertificate s n = map_option de_entry (map_of (st_deletedCertificates s) n)"

lemmas lookup_defs = liveSecret_def goneSecret_def liveKey_def goneKey_def liveCertificate_def
  goneCertificate_def

lemma newRecoveryID_obtain:
  assumes "env_ok e"
  obtains r where "newRecoveryID e k n = Inr r"
  using newRecoveryID_ok [OF assms] by blast

lemma kind_nonempty:
  "kind_ok P live gone \<Longrightarrow> map_of live n \<noteq> Some []"
  "kind_ok P live gone \<Longrightarrow> map_of gone n = Some d \<Longrightarrow> de_entry d \<noteq> []"
  by (auto dest: kind_ok_live kind_ok_gone simp: entry_ok_def)

lemma latestRecord_ok [simp]:
  "vs \<noteq> [] \<Longrightarrow> latestSecretRecord vs = Inr (last vs)"
  "ks \<noteq> [] \<Longrightarrow> latestKeyRecord ks = Inr (kv_record (last ks))"
  "cs \<noteq> [] \<Longrightarrow> latestCertificateRecord cs = Inr (cv_record (last cs))"
  by (simp_all add: latestSecretRecord_def latestKeyRecord_def latestCertificateRecord_def ofOption_def)

interpretation secret: soft_delete secrets_ok liveSecret goneSecret DeleteSecret PurgeDeletedSecret
  RecoverDeletedSecret
proof
  fix s e n
  assume inv: "secrets_ok s" and "env_ok e"
  then obtain rid where r: "newRecoveryID e ''secrets'' n = Inr rid"
    by (blast intro: newRecoveryID_obtain)
  show "vault liveSecret goneSecret (snd (DeleteSecret e n s)) = aDelete n (vault liveSecret goneSecret s)"
    using r by (auto simp: DeleteSecret_def vault_defs lookup_defs Let_def fun_eq_iff split: option.split)
  show "is_ok (fst (DeleteSecret e n s)) = canDelete n (vault liveSecret goneSecret s)"
    using r inv kind_nonempty(1) [of secret_ok "st_secrets s" _ n]
    by (auto simp: DeleteSecret_def vault_defs lookup_defs Let_def secrets_ok_def deletedSecretRecord_def
        split: option.split)
next
  fix s n
  assume inv: "secrets_ok s"
  show "vault liveSecret goneSecret (snd (PurgeDeletedSecret n s)) = aPurge n (vault liveSecret goneSecret s)"
    by (auto simp: PurgeDeletedSecret_def vault_defs lookup_defs fun_eq_iff)
  show "vault liveSecret goneSecret (snd (RecoverDeletedSecret n s)) = aRecover n (vault liveSecret goneSecret s)"
    by (auto simp: RecoverDeletedSecret_def vault_defs lookup_defs fun_eq_iff split: option.split)
  show "is_ok (fst (PurgeDeletedSecret n s)) = (goneSecret s n \<noteq> None)"
    by (simp add: PurgeDeletedSecret_def lookup_defs)
  show "is_ok (fst (RecoverDeletedSecret n s)) = canRecover n (vault liveSecret goneSecret s)"
    using inv kind_nonempty(2) [of secret_ok "st_secrets s" "st_deletedSecrets s" n]
    by (auto simp: RecoverDeletedSecret_def vault_defs lookup_defs secrets_ok_def split: option.split)
qed (simp_all add: op_ok)

interpretation key: soft_delete keys_ok liveKey goneKey DeleteKey PurgeDeletedKey RecoverDeletedKey
proof
  fix s e n
  assume inv: "keys_ok s" and "env_ok e"
  then obtain rid where r: "newRecoveryID e ''keys'' n = Inr rid"
    by (blast intro: newRecoveryID_obtain)
  show "vault liveKey goneKey (snd (DeleteKey e n s)) = aDelete n (vault liveKey goneKey s)"
    using r by (auto simp: DeleteKey_def vault_defs lookup_defs Let_def fun_eq_iff split: option.split)
  show "is_ok (fst (DeleteKey e n s)) = canDelete n (vault liveKey goneKey s)"
    using r inv kind_nonempty(1) [of key_ok "st_keys s" _ n]
    by (auto simp: DeleteKey_def vault_defs lookup_defs Let_def keys_ok_def deletedKeyRecord_def
        split: option.split)
next
  fix s n
  assume inv: "keys_ok s"
  show "vault liveKey goneKey (snd (PurgeDeletedKey n s)) = aPurge n (vault liveKey goneKey s)"
    by (auto simp: PurgeDeletedKey_def vault_defs lookup_defs fun_eq_iff)
  show "vault liveKey goneKey (snd (RecoverDeletedKey n s)) = aRecover n (vault liveKey goneKey s)"
    by (auto simp: RecoverDeletedKey_def vault_defs lookup_defs fun_eq_iff split: option.split)
  show "is_ok (fst (PurgeDeletedKey n s)) = (goneKey s n \<noteq> None)"
    by (simp add: PurgeDeletedKey_def lookup_defs)
  show "is_ok (fst (RecoverDeletedKey n s)) = canRecover n (vault liveKey goneKey s)"
    using inv kind_nonempty(2) [of key_ok "st_keys s" "st_deletedKeys s" n]
    by (auto simp: RecoverDeletedKey_def vault_defs lookup_defs keys_ok_def split: option.split)
qed (simp_all add: op_ok)

interpretation certificate: soft_delete certificates_ok liveCertificate goneCertificate DeleteCertificate
  PurgeDeletedCertificate RecoverDeletedCertificate
proof
  fix s e n
  assume inv: "certificates_ok s" and "env_ok e"
  then obtain rid where r: "newRecoveryID e ''certificates'' n = Inr rid"
    by (blast intro: newRecoveryID_obtain)
  show "vault liveCertificate goneCertificate (snd (DeleteCertificate e n s)) =
      aDelete n (vault liveCertificate goneCertificate s)"
    using r by (auto simp: DeleteCertificate_def vault_defs lookup_defs Let_def fun_eq_iff split: option.split)
  show "is_ok (fst (DeleteCertificate e n s)) = canDelete n (vault liveCertificate goneCertificate s)"
    using r inv kind_nonempty(1) [of certificate_ok "st_certificates s" _ n]
    by (auto simp: DeleteCertificate_def vault_defs lookup_defs Let_def certificates_ok_def
        deletedCertificateRecord_def split: option.split)
next
  fix s n
  assume inv: "certificates_ok s"
  show "vault liveCertificate goneCertificate (snd (PurgeDeletedCertificate n s)) =
      aPurge n (vault liveCertificate goneCertificate s)"
    by (auto simp: PurgeDeletedCertificate_def vault_defs lookup_defs fun_eq_iff)
  show "vault liveCertificate goneCertificate (snd (RecoverDeletedCertificate n s)) =
      aRecover n (vault liveCertificate goneCertificate s)"
    by (auto simp: RecoverDeletedCertificate_def vault_defs lookup_defs fun_eq_iff split: option.split)
  show "is_ok (fst (PurgeDeletedCertificate n s)) = (goneCertificate s n \<noteq> None)"
    by (simp add: PurgeDeletedCertificate_def lookup_defs)
  show "is_ok (fst (RecoverDeletedCertificate n s)) = canRecover n (vault liveCertificate goneCertificate s)"
    using inv kind_nonempty(2) [of certificate_ok "st_certificates s" "st_deletedCertificates s" n]
    by (auto simp: RecoverDeletedCertificate_def vault_defs lookup_defs certificates_ok_def split: option.split)
qed (simp_all add: op_ok)

section \<open>Writing and reading\<close>

text \<open>The version of a live entry that a read finds.\<close>

definition readVersion :: "('v \<Rightarrow> string) \<Rightarrow> 'v list option \<Rightarrow> string \<Rightarrow> 'v option" where
  "readVersion ver entry version =
     (case entry of None \<Rightarrow> None | Some vs \<Rightarrow> map_option (nth vs) (findVersion ver vs version))"

definition grown :: "'v list option \<Rightarrow> 'v \<Rightarrow> 'v list option" where
  "grown entry v = Some ((case entry of None \<Rightarrow> [] | Some vs \<Rightarrow> vs) @ [v])"

lemma readVersion_None [simp]: "readVersion ver None version = None"
  by (simp add: readVersion_def)

lemma readVersion_grown_latest [simp]: "readVersion ver (grown entry v) [] = Some v"
  by (simp add: readVersion_def grown_def findVersion_def)

lemma readVersion_grown_old:
  assumes "readVersion ver entry version = Some r" "version \<noteq> []"
  shows "readVersion ver (grown entry v) version = Some r"
proof -
  obtain vs i where vs: "entry = Some vs" "findVersion ver vs version = Some i" "r = vs ! i"
    using assms(1) by (auto simp: readVersion_def split: option.splits)
  then have "i < length vs" "findVersion ver (vs @ [v]) version = Some i"
    using assms(2) by (auto dest: findVersion_Some findVersion_append_old)
  with vs show ?thesis
    by (simp add: readVersion_def grown_def nth_append)
qed

lemma readVersion_grown_fresh:
  assumes "readVersion ver entry (ver v) = None" "ver v \<noteq> []"
  shows "readVersion ver (grown entry v) (ver v) = Some v"
proof -
  let ?vs = "case entry of None \<Rightarrow> [] | Some vs \<Rightarrow> vs"
  have "ver v \<notin> ver ` set ?vs"
    using assms by (auto simp: readVersion_def findVersion_None split: option.splits)
  then have "findVersion ver (?vs @ [v]) (ver v) = Some (length ?vs)"
    using assms(2) by (rule findVersion_append_fresh)
  then show ?thesis
    by (simp add: readVersion_def grown_def)
qed

lemma readVersion_latest:
  "kind_ok P live gone \<Longrightarrow> readVersion ver (map_of live n) [] = None \<longleftrightarrow> map_of live n = None"
  using kind_nonempty(1) [of P live gone n] by (auto simp: readVersion_def findVersion_def split: option.split)

lemma GetSecret_read:
  "GetSecret s n v = (case readVersion sr_Version (liveSecret s n) v of
     None \<Rightarrow> Inl (secretNotFound n) | Some r \<Rightarrow> Inr (cloneSecretRecord r))"
  by (simp add: GetSecret_def readVersion_def findSecretVersion_def lookup_defs split: option.split)

lemma GetKey_read:
  "GetKey s n v = (case readVersion (\<lambda>x. kr_Version (kv_record x)) (liveKey s n) v of
     None \<Rightarrow> Inl (keyNotFound n) | Some x \<Rightarrow> Inr (cloneKeyRecord (kv_record x)))"
  by (simp add: GetKey_def readVersion_def findKeyVersion_def lookup_defs split: option.split)

lemma GetCertificate_read:
  "GetCertificate s n v = (case readVersion (\<lambda>x. crt_Version (cv_record x)) (liveCertificate s n) v of
     None \<Rightarrow> Inl (certificateNotFound n) | Some x \<Rightarrow> Inr (cloneCertificateRecord (cv_record x)))"
  by (simp add: GetCertificate_def readVersion_def findCertificateVersion_def lookup_defs split: option.split)

lemma cloneSecretRecord_idem [simp]: "cloneSecretRecord (cloneSecretRecord r) = cloneSecretRecord r"
  "sr_Version (cloneSecretRecord r) = sr_Version r"
  by (simp_all add: cloneSecretRecord_def)

lemma cloneKeyRecord_idem [simp]: "cloneKeyRecord (cloneKeyRecord r) = cloneKeyRecord r"
  "kr_Version (cloneKeyRecord r) = kr_Version r"
  by (simp_all add: cloneKeyRecord_def Let_def)

text \<open>What a write does: it fails and changes nothing, or it adds one version.\<close>

lemma SetSecret_cases:
  obtains (error) err where "SetSecret e n q s = (Inl err, s)"
  | (ok) r where "SetSecret e n q s = (Inr (cloneSecretRecord r), s\<lparr>st_secrets := appendVersion n r (st_secrets s)\<rparr>)"
      "map_of (st_deletedSecrets s) n = None" "newVersion e = Inr (sr_Version r)" "sr_Name r = n"
      "sr_Value r = ss_Value q" "n \<noteq> []" "ss_Value q \<noteq> []"
proof (cases "n = [] \<or> ss_Value q = [] \<or> map_of (st_deletedSecrets s) n \<noteq> None \<or> \<not> is_ok (newVersion e)")
  case True
  then have "\<exists>err. SetSecret e n q s = (Inl err, s)"
    by (auto simp: SetSecret_def Let_def not_is_ok_iff)
  then show ?thesis
    using error by blast
next
  case False
  then obtain version where "newVersion e = Inr version"
    by (auto simp: is_ok_iff)
  with False show ?thesis
    by (intro ok [of "\<lparr>sr_Name = n, sr_Version = version, sr_Value = ss_Value q,
          sr_ContentType = ss_ContentType q,
          sr_Attributes = buildAttributes (ss_Attributes q) (env_now e) (env_now e),
          sr_Tags = cloneTags (ss_Tags q)\<rparr>"])
      (simp_all add: SetSecret_def Let_def)
qed

lemma CreateKey_cases:
  obtains (error) err where "CreateKey e P n q s = (Inl err, s)"
  | (ok) x where "CreateKey e P n q s = (Inr (cloneKeyRecord (kv_record x)), s\<lparr>st_keys := appendVersion n x (st_keys s)\<rparr>)"
      "map_of (st_deletedKeys s) n = None" "newVersion e = Inr (kr_Version (kv_record x))"
      "GenerateKey P (ck_Kty q) (ck_KeySize q) (ck_Crv q) [] (defaultKeyOps (ck_Kty q) (ck_KeyOps q)) =
         Inr (kv_material x, kr_Key (kv_record x))" "n \<noteq> []" "ck_Kty q \<noteq> []"
proof (cases "n = [] \<or> ck_Kty q = [] \<or> map_of (st_deletedKeys s) n \<noteq> None \<or> \<not> is_ok (newVersion e)")
  case True
  then have "\<exists>err. CreateKey e P n q s = (Inl err, s)"
    by (auto simp: CreateKey_def Let_def not_is_ok_iff)
  then show ?thesis
    using error by blast
next
  case False
  then obtain version where v: "newVersion e = Inr version"
    by (auto simp: is_ok_iff)
  let ?g = "GenerateKey P (ck_Kty q) (ck_KeySize q) (ck_Crv q) [] (defaultKeyOps (ck_Kty q) (ck_KeyOps q))"
  show ?thesis
  proof (cases "wrapErr 400 ''BadParameter'' ?g")
    case (Inl err)
    then have "CreateKey e P n q s = (Inl err, s)"
      using False v by (simp add: CreateKey_def Let_def)
    then show ?thesis
      by (rule error)
  next
    case (Inr g)
    then obtain m jwk where g: "?g = Inr (m, jwk)"
      by (cases g) simp
    show ?thesis
      using False v g
      by (intro ok [of "\<lparr>kv_record = \<lparr>kr_Name = n, kr_Version = version, kr_Key = jwk,
            kr_Attributes = buildAttributes (ck_Attributes q) (env_now e) (env_now e),
            kr_Tags = cloneTags (ck_Tags q)\<rparr>, kv_material = m\<rparr>"])
        (simp_all add: CreateKey_def Let_def)
  qed
qed

lemma ImportKey_cases:
  obtains (error) err where "ImportKey e n q s = (Inl err, s)"
  | (ok) x jwk where "ImportKey e n q s = (Inr (cloneKeyRecord (kv_record x)), s\<lparr>st_keys := appendVersion n x (st_keys s)\<rparr>)"
      "map_of (st_deletedKeys s) n = None" "newVersion e = Inr (kr_Version (kv_record x))"
      "ImportKeyMaterial (ik_Key q) [] = Inr (kv_material x, jwk)"
      "kr_Key (kv_record x) = jwk\<lparr>jwk_KeyOps := defaultKeyOps (jwk_Kty (ik_Key q)) (jwk_KeyOps (ik_Key q))\<rparr>"
proof (cases "wrapErr 400 ''BadParameter'' (ImportKeyMaterial (ik_Key q) [])")
  case (Inl err)
  then have "\<exists>err. ImportKey e n q s = (Inl err, s)"
    by (auto simp: ImportKey_def Let_def)
  then show ?thesis
    using error by blast
next
  case (Inr g)
  then obtain m jwk where g: "ImportKeyMaterial (ik_Key q) [] = Inr (m, jwk)"
    by (cases g) simp
  show ?thesis
  proof (cases "n = [] \<or> jwk_Kty (ik_Key q) = [] \<or> map_of (st_deletedKeys s) n \<noteq> None \<or> \<not> is_ok (newVersion e)")
    case True
    then have "\<exists>err. ImportKey e n q s = (Inl err, s)"
      using g by (auto simp: ImportKey_def Let_def not_is_ok_iff)
    then show ?thesis
      using error by blast
  next
    case False
    then obtain version where v: "newVersion e = Inr version"
      by (auto simp: is_ok_iff)
    show ?thesis
      using False v g
      by (intro ok [of "\<lparr>kv_record = \<lparr>kr_Name = n, kr_Version = version,
            kr_Key = jwk\<lparr>jwk_KeyOps := defaultKeyOps (jwk_Kty (ik_Key q)) (jwk_KeyOps (ik_Key q))\<rparr>,
            kr_Attributes = buildAttributes (ik_Attributes q) (env_now e) (env_now e),
            kr_Tags = cloneTags (ik_Tags q)\<rparr>, kv_material = m\<rparr>" jwk])
        (simp_all add: ImportKey_def Let_def)
  qed
qed

lemma lookup_append [simp]:
  "liveSecret (s\<lparr>st_secrets := appendVersion n r m\<rparr>) k = (if k = n then grown (map_of m n) r else map_of m k)"
  "goneSecret (s\<lparr>st_secrets := x\<rparr>) k = goneSecret s k"
  "liveKey (s\<lparr>st_keys := appendVersion n kv mk\<rparr>) k = (if k = n then grown (map_of mk n) kv else map_of mk k)"
  "goneKey (s\<lparr>st_keys := y\<rparr>) k = goneKey s k"
  by (simp_all add: lookup_defs grown_def)

lemmas live_folds = liveSecret_def [symmetric] liveKey_def [symmetric] liveCertificate_def [symmetric]

text \<open>
  The laws of \<open>vault_writer\<close> follow, for any kind, from this summary: a write fails without effect
  or adds one version to a name that is not deleted, and a read looks a version up and copies it.
\<close>

lemma vault_writerI:
  fixes inv :: "'s \<Rightarrow> bool" and live :: "'s \<Rightarrow> string \<Rightarrow> 'v list option"
  assumes sd: "soft_delete inv live gone delete purge recover"
    and get: "\<And>s n v. get s n v = (case readVersion ver (live s n) v of None \<Rightarrow> Inl (nf n) | Some x \<Rightarrow> Inr (copy x))"
    and put: "\<And>e n q s. (\<exists>err. put e n q s = (Inl err, s)) \<or>
      (\<exists>x s'. put e n q s = (Inr (copy x), s') \<and> gone s n = None \<and> gone s' = gone s \<and>
         live s' = (live s)(n := grown (live s n) x))"
    and inv: "\<And>e n q s. inv s \<Longrightarrow> inv (snd (put e n q s))"
    and nonempty: "\<And>s n. inv s \<Longrightarrow> live s n \<noteq> Some []"
    and copy: "\<And>x. verOf (copy x) = ver x"
  shows "vault_writer inv live gone delete purge recover put get verOf"
proof -
  have put_ok: "\<exists>x. r = copy x \<and> gone s n = None \<and> gone s' = gone s \<and> live s' = (live s)(n := grown (live s n) x)"
    if "put e n q s = (Inr r, s')" for e n q s r s'
    using put [of e n q s] that by auto
  have put_any: "s' = s \<or> gone s' = gone s \<and> (\<exists>x. live s' = (live s)(n := grown (live s n) x))"
    if "put e n q s = (r, s')" for e n q s r s'
    using put [of e n q s] that by auto
  show ?thesis
  proof (intro vault_writer.intro [OF sd] vault_writer_axioms.intro)
    fix e n q s err
    show "fst (put e n q s) = Inl err \<Longrightarrow> snd (put e n q s) = s"
      using put [of e n q s] by auto
    show "gone s n \<noteq> None \<Longrightarrow> \<not> is_ok (fst (put e n q s))"
      using put [of e n q s] by auto
    show "inv s \<Longrightarrow> inv (snd (put e n q s))"
      by (rule inv)
  next
    fix s e n q r s'
    assume "put e n q s = (Inr r, s')"
    from put_ok [OF this] show "get s' n [] = Inr r"
      by (auto simp: get)
  next
    fix s e n q x s' and v :: string and r
    assume "put e n q s = (x, s')" "v \<noteq> []" "get s n v = Inr r"
    then show "get s' n v = Inr r"
      using put_any [of e n q s x s'] readVersion_grown_old [of ver "live s n" v]
      by (fastforce simp: get split: option.splits)
  next
    fix s e n q r s'
    assume p: "put e n q s = (Inr r, s')" and "\<not> is_ok (get s n (verOf r))" "verOf r \<noteq> []"
    then show "get s' n (verOf r) = Inr r"
      using put_ok [OF p] readVersion_grown_fresh [of ver "live s n"]
      by (auto simp: get copy split: option.splits)
  next
    fix e n q s x s' m
    assume "put e n q s = (x, s')"
    from put_any [OF this] show "m \<noteq> n \<Longrightarrow> live s' m = live s m" "gone s' m = gone s m"
      by auto
  next
    fix s n s' v
    show "live s n = live s' n \<Longrightarrow> get s n v = get s' n v"
      by (simp add: get)
    show "live s n = None \<Longrightarrow> \<not> is_ok (get s n v)"
      by (simp add: get)
    show "inv s \<Longrightarrow> is_ok (get s n []) \<longleftrightarrow> live s n \<noteq> None"
      using nonempty [of s n] by (auto simp: get readVersion_def findVersion_def split: option.splits)
  qed
qed

lemma live_nonempty:
  "secrets_ok s \<Longrightarrow> liveSecret s n \<noteq> Some []" "keys_ok s \<Longrightarrow> liveKey s n \<noteq> Some []"
  "certificates_ok s \<Longrightarrow> liveCertificate s n \<noteq> Some []"
  by (simp_all add: secrets_ok_def keys_ok_def certificates_ok_def lookup_defs kind_nonempty)

interpretation secrets: vault_writer secrets_ok liveSecret goneSecret DeleteSecret PurgeDeletedSecret
  RecoverDeletedSecret SetSecret GetSecret sr_Version
proof (rule vault_writerI [where ver = sr_Version and copy = cloneSecretRecord and nf = secretNotFound])
  fix e n q s
  show "(\<exists>err. SetSecret e n q s = (Inl err, s)) \<or>
      (\<exists>x s'. SetSecret e n q s = (Inr (cloneSecretRecord x), s') \<and> goneSecret s n = None \<and>
         goneSecret s' = goneSecret s \<and> liveSecret s' = (liveSecret s)(n := grown (liveSecret s n) x))"
    by (cases rule: SetSecret_cases [of e n q s]) (auto simp: fun_eq_iff, auto simp: lookup_defs)
qed (simp_all add: GetSecret_read SetSecret_ok live_nonempty secret.soft_delete_axioms)

interpretation keys: vault_writer keys_ok liveKey goneKey DeleteKey PurgeDeletedKey
  RecoverDeletedKey "\<lambda>e. CreateKey e P" GetKey kr_Version for P
proof (rule vault_writerI [where ver = "\<lambda>x. kr_Version (kv_record x)" and nf = keyNotFound
      and copy = "\<lambda>x. cloneKeyRecord (kv_record x)"])
  fix e n q s
  show "(\<exists>err. CreateKey e P n q s = (Inl err, s)) \<or>
      (\<exists>x s'. CreateKey e P n q s = (Inr (cloneKeyRecord (kv_record x)), s') \<and> goneKey s n = None \<and>
         goneKey s' = goneKey s \<and> liveKey s' = (liveKey s)(n := grown (liveKey s n) x))"
    by (cases rule: CreateKey_cases [of e P n q s]) (auto simp: fun_eq_iff, auto simp: lookup_defs)
qed (simp_all add: GetKey_read CreateKey_ok live_nonempty key.soft_delete_axioms)

interpretation imported_keys: vault_writer keys_ok liveKey goneKey DeleteKey PurgeDeletedKey
  RecoverDeletedKey ImportKey GetKey kr_Version
proof (rule vault_writerI [where ver = "\<lambda>x. kr_Version (kv_record x)" and nf = keyNotFound
      and copy = "\<lambda>x. cloneKeyRecord (kv_record x)"])
  fix e n q s
  show "(\<exists>err. ImportKey e n q s = (Inl err, s)) \<or>
      (\<exists>x s'. ImportKey e n q s = (Inr (cloneKeyRecord (kv_record x)), s') \<and> goneKey s n = None \<and>
         goneKey s' = goneKey s \<and> liveKey s' = (liveKey s)(n := grown (liveKey s n) x))"
    by (cases rule: ImportKey_cases [of e n q s]) (auto simp: fun_eq_iff, auto simp: lookup_defs)
qed (simp_all add: GetKey_read ImportKey_ok live_nonempty key.soft_delete_axioms)

lemma certificate_lookup_part:
  "certificatePart s' = certificatePart s \<Longrightarrow>
    liveCertificate s' = liveCertificate s \<and> goneCertificate s' = goneCertificate s"
  by (simp add: lookup_defs part_defs fun_eq_iff)

lemmas certificate_lookup_frames [simp] =
  certificatePart_frames [THEN certificate_lookup_part, THEN conjunct1]
  certificatePart_frames [THEN certificate_lookup_part, THEN conjunct2]

lemma certificate_lookup_add [simp]:
  "liveCertificate (addCert n r pem s) = (liveCertificate s)(n := grown (liveCertificate s n)
     \<lparr>cv_record = cloneCertificateRecord r, cv_pem = pem\<rparr>)"
  "goneCertificate (addCert n r pem s) = goneCertificate s"
  by (simp_all add: lookup_defs fun_eq_iff grown_def)

lemma CreateCertificate_write:
  "(\<exists>err. CreateCertificate e P L n q s = (Inl err, s)) \<or>
   (\<exists>x s'. CreateCertificate e P L n q s = (Inr (cloneCertificateRecord (cv_record x)), s') \<and>
      goneCertificate s n = None \<and> goneCertificate s' = goneCertificate s \<and>
      liveCertificate s' = (liveCertificate s)(n := grown (liveCertificate s n) x))"
proof (cases rule: CreateCertificate_cases [of e P L n q s])
  case (ok opts version priv der attrs policy pem managed)
  then show ?thesis
    by (intro disjI2 exI [of _ "\<lparr>cv_record = certRecord n version der attrs (cc_Tags q) policy, cv_pem = pem\<rparr>"])
      (simp add: goneCertificate_def)
qed simp

lemma ImportCertificate_write:
  "(\<exists>err. ImportCertificate e L n q s = (Inl err, s)) \<or>
   (\<exists>x s'. ImportCertificate e L n q s = (Inr (cloneCertificateRecord (cv_record x)), s') \<and>
      goneCertificate s n = None \<and> goneCertificate s' = goneCertificate s \<and>
      liveCertificate s' = (liveCertificate s)(n := grown (liveCertificate s n) x))"
proof (cases rule: ImportCertificate_cases [of e L n q s])
  case (ok cert priv pem version attrs policy)
  then show ?thesis
    by (intro disjI2 exI [of _ "\<lparr>cv_record = certRecord n version (x_Raw cert) attrs (ic_Tags q) policy, cv_pem = pem\<rparr>"])
      (simp add: goneCertificate_def)
qed simp

lemma CreateCertificate_certificates_ok:
  "certificates_ok s \<Longrightarrow> certificates_ok (snd (CreateCertificate e P L name req s))"
  by (cases rule: CreateCertificate_cases [of e P L name req s]) (simp_all add: addCert_ok)

lemma ImportCertificate_certificates_ok:
  "certificates_ok s \<Longrightarrow> certificates_ok (snd (ImportCertificate e L name req s))"
  by (cases rule: ImportCertificate_cases [of e L name req s]) (simp_all add: addCert_ok)

interpretation certificates: vault_writer certificates_ok liveCertificate goneCertificate DeleteCertificate
  PurgeDeletedCertificate RecoverDeletedCertificate "\<lambda>e. CreateCertificate e P L" GetCertificate crt_Version for P L
  by (rule vault_writerI [where ver = "\<lambda>x. crt_Version (cv_record x)" and nf = certificateNotFound
        and copy = "\<lambda>x. cloneCertificateRecord (cv_record x)"])
    (simp_all add: GetCertificate_read CreateCertificate_write CreateCertificate_certificates_ok live_nonempty
      certificate.soft_delete_axioms)

interpretation imported_certificates: vault_writer certificates_ok liveCertificate goneCertificate
  DeleteCertificate PurgeDeletedCertificate RecoverDeletedCertificate "\<lambda>e. ImportCertificate e L" GetCertificate
  crt_Version for L
  by (rule vault_writerI [where ver = "\<lambda>x. crt_Version (cv_record x)" and nf = certificateNotFound
        and copy = "\<lambda>x. cloneCertificateRecord (cv_record x)"])
    (simp_all add: GetCertificate_read ImportCertificate_write ImportCertificate_certificates_ok live_nonempty
      certificate.soft_delete_axioms)

end
