(* ===== verification/KV_Store_Props.thy ===== *)
theory KV_Store_Props
  imports KV_Lifecycle KV_Samples
begin

text \<open>
  What the operations of the in-memory store show to their callers: listings and their pages, the
  absence of panics, updates in place, backup and restore, the objects a certificate consists of,
  and the cryptographic operations on stored keys.
\<close>

section \<open>Listings\<close>

lemma paginateNames_subset:
  "paginateNames items tok m = Inr (page, next) \<Longrightarrow> set page \<subseteq> set items"
  by (auto simp: paginateNames_def rbind_Inr_iff Let_def guard_Inr dest!: in_set_takeD in_set_dropD
      split: if_split_asm)

lemma paginate_then_map:
  assumes "\<And>x. x \<in> set items \<Longrightarrow> f x = Some (g x)"
  shows "rbind (paginateNames items tok m) (\<lambda>(page, next). Inr (List.map_filter f page, next)) =
    paginateNames (map g items) tok m"
proof (cases "paginateNames items tok m")
  case (Inr r)
  obtain page nxt where r: "r = (page, nxt)"
    by (cases r)
  then have "set page \<subseteq> set items"
    using Inr paginateNames_subset by metis
  then have "List.map_filter f page = map g page"
    using assms by (induction page) (simp_all add: List.map_filter_simps)
  then show ?thesis
    using Inr r by (simp add: paginateNames_map)
qed (simp add: paginateNames_map)

lemma paginate_then_mapRes:
  assumes "\<And>x. x \<in> set items \<Longrightarrow> f x = Inr (g x)"
  shows "rbind (paginateNames items tok m) (\<lambda>(page, next). rbind (mapRes f page) (\<lambda>ys. Inr (ys, next))) =
    paginateNames (map g items) tok m"
proof (cases "paginateNames items tok m")
  case (Inr r)
  obtain page nxt where r: "r = (page, nxt)"
    by (cases r)
  then have "set page \<subseteq> set items"
    using Inr paginateNames_subset by metis
  then have "mapRes f page = Inr (map g page)"
    using assms by (intro mapRes_Inr) auto
  then show ?thesis
    using Inr r by (simp add: paginateNames_map)
qed (simp add: paginateNames_map)

definition secretListing :: "Store \<Rightarrow> SecretRecord list" where
  "secretListing s = map (\<lambda>n. secretItem (last (the (map_of (st_secrets s) n)))) (sort (mkeys (st_secrets s)))"

definition keyListing :: "Store \<Rightarrow> KeyRecord list" where
  "keyListing s = map (\<lambda>n. cloneKeyRecord (kv_record (last (the (map_of (st_keys s) n))))) (sort (mkeys (st_keys s)))"

definition certificateListing :: "Store \<Rightarrow> CertificateRecord list" where
  "certificateListing s =
     map (\<lambda>n. cloneCertificateRecord (cv_record (last (the (map_of (st_certificates s) n)))))
       (sort (mkeys (st_certificates s)))"

lemma mem_mkeys: "n \<in> set (mkeys m) \<Longrightarrow> \<exists>v. map_of m n = Some v"
  by (simp add: set_mkeys domIff)

lemma listed_latest:
  assumes "kind_ok P live gone" "n \<in> set (sort (mkeys live))"
  shows "latestVersion (map_of live n) = Some (last (the (map_of live n)))"
  using assms(2) kind_nonempty(1) [OF assms(1), of n] by (auto dest!: mem_mkeys)

lemma ListSecrets_eq: "secrets_ok s \<Longrightarrow> ListSecrets s m tok = paginateNames (secretListing s) tok m"
  unfolding ListSecrets_def secretListing_def secrets_ok_def
  by (rule paginate_then_map) (simp add: listed_latest)

lemma ListKeys_eq: "keys_ok s \<Longrightarrow> ListKeys s m tok = paginateNames (keyListing s) tok m"
  unfolding ListKeys_def keyListing_def keys_ok_def
  by (rule paginate_then_map) (simp add: listed_latest)

lemma ListCertificates_eq:
  "certificates_ok s \<Longrightarrow> ListCertificates s m tok = paginateNames (certificateListing s) tok m"
  unfolding ListCertificates_def certificateListing_def certificates_ok_def
  by (rule paginate_then_map) (simp add: listed_latest)

definition deletedSecretListing :: "Store \<Rightarrow> DeletedSecretRecord list" where
  "deletedSecretListing s = map (\<lambda>n. let d = the (map_of (st_deletedSecrets s) n) in
       \<lparr>dr_Record = secretItem (last (de_entry d)), dr_RecoveryID = de_recoveryID d,
        dr_DeletedDate = de_deletedDate d, dr_ScheduledPurgeDate = de_scheduledPurgeDate d\<rparr>)
     (sort (mkeys (st_deletedSecrets s)))"

lemma ListDeletedSecrets_eq:
  assumes "secrets_ok s"
  shows "ListDeletedSecrets s m tok = paginateNames (deletedSecretListing s) tok m"
  unfolding ListDeletedSecrets_def deletedSecretListing_def
proof (rule paginate_then_mapRes, goal_cases)
  case (1 n)
  then obtain d where d: "map_of (st_deletedSecrets s) n = Some d"
    by (auto dest: mem_mkeys)
  moreover have "de_entry d \<noteq> []"
    using assms d unfolding secrets_ok_def by (rule kind_nonempty(2))
  ultimately show ?case
    by (simp add: ofOption_def deletedSecretRecord_def secretItem_def Let_def)
qed

definition deletedKeyListing :: "Store \<Rightarrow> DeletedKeyRecord list" where
  "deletedKeyListing s = map (\<lambda>n. projr (deletedKeyRecord (the (map_of (st_deletedKeys s) n))))
     (sort (mkeys (st_deletedKeys s)))"

lemma ListDeletedKeys_eq:
  assumes "keys_ok s"
  shows "ListDeletedKeys s m tok = paginateNames (deletedKeyListing s) tok m"
  unfolding ListDeletedKeys_def deletedKeyListing_def
proof (rule paginate_then_mapRes, goal_cases)
  case (1 n)
  then obtain d where d: "map_of (st_deletedKeys s) n = Some d"
    by (auto dest: mem_mkeys)
  moreover have "de_entry d \<noteq> []"
    using assms d unfolding keys_ok_def by (rule kind_nonempty(2))
  ultimately show ?case
    by (simp add: ofOption_def deletedKeyRecord_def)
qed

definition deletedCertificateListing :: "Store \<Rightarrow> DeletedCertificateRecord list" where
  "deletedCertificateListing s =
     map (\<lambda>n. projr (deletedCertificateRecord (the (map_of (st_deletedCertificates s) n))))
     (sort (mkeys (st_deletedCertificates s)))"

lemma ListDeletedCertificates_eq:
  assumes "certificates_ok s"
  shows "ListDeletedCertificates s m tok = paginateNames (deletedCertificateListing s) tok m"
  unfolding ListDeletedCertificates_def deletedCertificateListing_def
proof (rule paginate_then_mapRes, goal_cases)
  case (1 n)
  then obtain d where d: "map_of (st_deletedCertificates s) n = Some d"
    by (auto dest: mem_mkeys)
  moreover have "de_entry d \<noteq> []"
    using assms d unfolding certificates_ok_def by (rule kind_nonempty(2))
  ultimately show ?case
    by (simp add: ofOption_def deletedCertificateRecord_def)
qed

text \<open>The order in which Go iterates over a map does not show in a listing.\<close>

lemma listing_order:
  assumes "map_ok live" "map_ok live'" "map_of live = map_of live'"
  shows "map (\<lambda>n. f (map_of live n)) (sort (mkeys live)) = map (\<lambda>n. f (map_of live' n)) (sort (mkeys live'))"
  using assms sort_mkeys_cong [OF assms] by simp

lemma length_mkeys [simp]: "length (mkeys m) = length m"
  by (simp add: mkeys_def)

lemma length_listings [simp]:
  "length (secretListing s) = length (st_secrets s)" "length (keyListing s) = length (st_keys s)"
  "length (certificateListing s) = length (st_certificates s)"
  "length (deletedSecretListing s) = length (st_deletedSecrets s)"
  by (simp_all add: secretListing_def keyListing_def certificateListing_def deletedSecretListing_def)

lemma secretListing_names:
  assumes "secrets_ok s"
  shows "map sr_Name (secretListing s) = sort (mkeys (st_secrets s))"
proof -
  have "sr_Name (secretItem (last (the (map_of (st_secrets s) n)))) = n" if n: "n \<in> set (mkeys (st_secrets s))" for n
  proof -
    obtain vs where vs: "map_of (st_secrets s) n = Some vs"
      using mem_mkeys [OF n] by blast
    then have "secret_ok n (last vs)"
      using assms kind_ok_live entry_ok_last unfolding secrets_ok_def by metis
    then show ?thesis
      by (simp add: vs secret_ok_def secretItem_def cloneSecretRecord_def)
  qed
  then show ?thesis
    unfolding secretListing_def map_map by (intro map_idI) simp
qed

lemma walk_listing:
  assumes "int (length items) < 2 ^ 62" "length items < fuel"
  shows "walkPages fuel (\<lambda>tok. paginateNames items tok m) [] = Some items"
  using walkPages_from [OF assms(1) skipStart_Nil] assms(2) by simp

lemma walk_eq:
  assumes "\<And>tok. f tok = paginateNames items tok m" "length items < fuel" "fuel < 2 ^ 62"
  shows "walkPages fuel f [] = Some items"
proof -
  have "f = (\<lambda>tok. paginateNames items tok m)"
    using assms(1) by (rule ext)
  then show ?thesis
    using assms(2,3) by (simp add: walk_listing)
qed

lemma walk_lists:
  assumes "fuel < 2 ^ 62"
  shows "secrets_ok s \<Longrightarrow> length (st_secrets s) < fuel \<Longrightarrow>
      walkPages fuel (ListSecrets s m) [] = Some (secretListing s)"
    "keys_ok s \<Longrightarrow> length (st_keys s) < fuel \<Longrightarrow> walkPages fuel (ListKeys s m) [] = Some (keyListing s)"
    "certificates_ok s \<Longrightarrow> length (st_certificates s) < fuel \<Longrightarrow>
      walkPages fuel (ListCertificates s m) [] = Some (certificateListing s)"
    "secrets_ok s \<Longrightarrow> length (st_deletedSecrets s) < fuel \<Longrightarrow>
      walkPages fuel (ListDeletedSecrets s m) [] = Some (deletedSecretListing s)"
  using assms
  by (auto intro!: walk_eq simp: ListSecrets_eq ListKeys_eq ListCertificates_eq ListDeletedSecrets_eq)

lemma store_ok_maps:
  "store_ok s \<Longrightarrow> map_ok (st_secrets s)" "store_ok s \<Longrightarrow> map_ok (st_keys s)"
  "store_ok s \<Longrightarrow> map_ok (st_certificates s)"
  by (simp_all add: store_ok_defs kind_ok_def)

section \<open>No panics\<close>

lemma is_panic_iff: "is_panic r \<longleftrightarrow> (\<exists>m. r = Inl (Panic m))"
  by (cases r rule: is_panic.cases) auto

lemma is_panic_simps [simp]:
  "\<not> is_panic (Inr x)" "\<not> is_panic (Inl (newError st c m))"
  by (simp_all add: newError_def)

lemma is_panic_rbind:
  "is_panic (rbind r f) \<longleftrightarrow> is_panic r \<or> (\<exists>x. r = Inr x \<and> is_panic (f x))"
  by (cases r) (auto simp: is_panic_iff)

lemma paginateNames_calm: "int (length items) < 2 ^ 62 \<Longrightarrow> \<not> is_panic (paginateNames items tok m)"
proof (cases "skipStart tok")
  case (Inl err)
  moreover from Inl have "\<not> is_panic (Inl err :: unit res)"
    by (auto simp: skipStart_def split: if_split_asm option.splits)
  ultimately show ?thesis
    by (simp add: paginateNames_error is_panic_iff)
qed (simp add: paginateNames_eq)

lemma SetSecret_calm: "env_ok e \<Longrightarrow> \<not> is_panic (fst (SetSecret e n q s))"
  using newVersion_ok [of e] by (auto simp: SetSecret_def Let_def)

lemma GetSecret_calm: "\<not> is_panic (GetSecret s n v)"
  by (simp add: GetSecret_def secretNotFound_def split: option.split)

lemma UpdateSecret_calm: "\<not> is_panic (fst (UpdateSecret e n v q s))"
  by (simp add: UpdateSecret_def secretNotFound_def Let_def split: option.split)

lemma DeleteSecret_calm: "secrets_ok s \<Longrightarrow> env_ok e \<Longrightarrow> \<not> is_panic (fst (DeleteSecret e n s))"
  using newRecoveryID_ok [of e "''secrets''" n] live_nonempty(1) [of s n]
  by (auto simp: DeleteSecret_def secretNotFound_def Let_def deletedSecretRecord_def lookup_defs
      split: option.split)

lemma GetDeletedSecret_calm: "secrets_ok s \<Longrightarrow> \<not> is_panic (GetDeletedSecret s n)"
  using kind_nonempty(2) [of secret_ok "st_secrets s" "st_deletedSecrets s" n]
  by (simp add: GetDeletedSecret_def secrets_ok_def deletedSecretNotFound_def deletedSecretRecord_def
      split: option.split)

lemma PurgeDeletedSecret_calm: "\<not> is_panic (fst (PurgeDeletedSecret n s))"
  by (simp add: PurgeDeletedSecret_def deletedSecretNotFound_def)

lemma RecoverDeletedSecret_calm: "secrets_ok s \<Longrightarrow> \<not> is_panic (fst (RecoverDeletedSecret n s))"
  using kind_nonempty(2) [of secret_ok "st_secrets s" "st_deletedSecrets s" n]
  by (simp add: RecoverDeletedSecret_def secrets_ok_def deletedSecretNotFound_def split: option.split)

lemma RestoreSecret_calm: "\<not> is_panic (fst (RestoreSecret C token s))"
  by (simp add: RestoreSecret_def invalidBackup_def Let_def split: option.split sum.split)

lemma GetKey_calm: "\<not> is_panic (GetKey s n v)"
  by (simp add: GetKey_def keyNotFound_def split: option.split)

lemma UpdateKey_calm: "\<not> is_panic (fst (UpdateKey e n v q s))"
  by (simp add: UpdateKey_def keyNotFound_def Let_def split: option.split)

lemma DeleteKey_calm: "keys_ok s \<Longrightarrow> env_ok e \<Longrightarrow> \<not> is_panic (fst (DeleteKey e n s))"
  using newRecoveryID_ok [of e "''keys''" n] live_nonempty(2) [of s n]
  by (auto simp: DeleteKey_def keyNotFound_def Let_def deletedKeyRecord_def lookup_defs
      split: option.split)

lemma GetDeletedKey_calm: "keys_ok s \<Longrightarrow> \<not> is_panic (GetDeletedKey s n)"
  using kind_nonempty(2) [of key_ok "st_keys s" "st_deletedKeys s" n]
  by (simp add: GetDeletedKey_def keys_ok_def deletedKeyNotFound_def deletedKeyRecord_def
      split: option.split)

lemma RecoverDeletedKey_calm: "keys_ok s \<Longrightarrow> \<not> is_panic (fst (RecoverDeletedKey n s))"
  using kind_nonempty(2) [of key_ok "st_keys s" "st_deletedKeys s" n]
  by (simp add: RecoverDeletedKey_def keys_ok_def deletedKeyNotFound_def split: option.split)

lemma wrapErr_calm: "is_panic (wrapErr st c r) \<longleftrightarrow> is_panic r"
  by (cases r) (auto simp: wrapErr_def split: goerr.split)

text \<open>The library calls that make keys return errors and do not panic.\<close>

definition prims_calm :: "prims \<Rightarrow> bool" where
  "prims_calm P \<longleftrightarrow> (\<forall>n. \<not> is_panic (p_randRead P n)) \<and> (\<forall>n. \<not> is_panic (p_rsaGenerateKey P n)) \<and>
     (\<forall>c. \<not> is_panic (p_ecdsaGenerateKey P c))"

lemma makeBytes_calm:
  assumes "0 \<le> sz" "sz \<le> 2 ^ 48"
  shows "\<not> is_panic (makeBytes (sz div 8))"
proof -
  have "0 \<le> sz div 8" "sz div 8 \<le> sz"
    using assms(1) by (simp_all add: zdiv_mono2)
  then have "\<not> sz div 8 < 0" "\<not> 2 ^ 48 < sz div 8"
    using assms(2) by linarith+
  then show ?thesis
    unfolding makeBytes_def by simp
qed

lemma GenerateKey_calm:
  assumes "prims_calm P" "0 \<le> sz" "sz \<le> 2 ^ 48"
  shows "\<not> is_panic (GenerateKey P kty sz crv kid ops)"
proof -
  define k where "k = (if sz = 0 then 256 else sz)"
  have "\<not> is_panic (makeBytes (k div 8))"
    using makeBytes_calm [of k] assms(2,3) by (simp add: k_def)
  moreover have "\<not> is_panic (resolveCurve crv)"
    by (simp add: resolveCurve_def)
  ultimately show ?thesis
    using assms(1) unfolding GenerateKey_def Let_def k_def [symmetric] prims_calm_def
    by (simp add: is_panic_rbind split: prod.split)
qed

lemma CreateKey_calm:
  assumes "env_ok e" "prims_calm P" "0 \<le> ck_KeySize q" "ck_KeySize q \<le> 2 ^ 48"
  shows "\<not> is_panic (fst (CreateKey e P n q s))"
proof -
  obtain v where v: "newVersion e = Inr v"
    using newVersion_ok [OF assms(1)] by blast
  let ?g = "wrapErr 400 ''BadParameter'' (GenerateKey P (ck_Kty q) (ck_KeySize q) (ck_Crv q) []
    (defaultKeyOps (ck_Kty q) (ck_KeyOps q)))"
  have "\<not> is_panic ?g"
    using GenerateKey_calm [OF assms(2-)] by (simp add: wrapErr_calm)
  then show ?thesis
    using v by (cases ?g) (auto simp: CreateKey_def Let_def keyIsDeleted_def is_panic_iff newError_def)
qed

lemma UpdateCertificate_calm: "\<not> is_panic (fst (UpdateCertificate e n v q s))"
  by (simp add: UpdateCertificate_def certificateNotFound_def Let_def split: option.split)

lemma UpdateCertificatePolicy_calm: "certificates_ok s \<Longrightarrow> \<not> is_panic (fst (UpdateCertificatePolicy e n p s))"
  using live_nonempty(3) [of s n]
  by (simp add: UpdateCertificatePolicy_def certificateNotFound_def Let_def lookup_defs latestVersion_None_iff
      split: option.split)

lemma certificate_reads_calm:
  assumes "certificates_ok s"
  shows "\<not> is_panic (GetCertificate s n v)" "\<not> is_panic (GetCertificatePolicy s n)"
    "\<not> is_panic (GetPendingCertificateOperation s n)" "\<not> is_panic (GetDeletedCertificate s n)"
  using live_nonempty(3) [OF assms, of n] assms
    kind_nonempty(2) [of certificate_ok "st_certificates s" "st_deletedCertificates s" n]
  by (simp_all add: GetCertificate_def GetCertificatePolicy_def GetPendingCertificateOperation_def
      GetDeletedCertificate_def certificateNotFound_def deletedCertificateNotFound_def lookup_defs
      certificates_ok_def deletedCertificateRecord_def ofOption_def latestVersion_None_iff split: option.split)

lemma DeleteCertificate_calm:
  "certificates_ok s \<Longrightarrow> env_ok e \<Longrightarrow> \<not> is_panic (fst (DeleteCertificate e n s))"
  using newRecoveryID_ok [of e "''certificates''" n] live_nonempty(3) [of s n]
  by (auto simp: DeleteCertificate_def certificateNotFound_def Let_def deletedCertificateRecord_def lookup_defs
      split: option.split)

lemma RecoverDeletedCertificate_calm:
  "certificates_ok s \<Longrightarrow> \<not> is_panic (fst (RecoverDeletedCertificate n s))"
  using kind_nonempty(2) [of certificate_ok "st_certificates s" "st_deletedCertificates s" n]
  by (simp add: RecoverDeletedCertificate_def certificates_ok_def deletedCertificateNotFound_def
      split: option.split)

lemmas secret_calm = SetSecret_calm GetSecret_calm UpdateSecret_calm DeleteSecret_calm
  GetDeletedSecret_calm PurgeDeletedSecret_calm RecoverDeletedSecret_calm RestoreSecret_calm

lemmas key_calm = GetKey_calm UpdateKey_calm DeleteKey_calm GetDeletedKey_calm RecoverDeletedKey_calm
  CreateKey_calm

lemmas certificate_calm = certificate_reads_calm UpdateCertificate_calm UpdateCertificatePolicy_calm
  DeleteCertificate_calm RecoverDeletedCertificate_calm

section \<open>Cryptographic operations on stored keys\<close>

lemma decodeField_encode [simp]: "decodeField f (EncodeBase64URL bs) = Inr bs"
  by (simp add: decodeField_def ofOption_def)

text \<open>One base64url text can stand for the same bytes as another; a decrypted value is the normal one.\<close>

lemma Decrypt_Encrypt_oct:
  assumes "keyMaterial s n v = Inr ver" "hasPrefix (ktyOf ver) ''oct''"
    and enc: "Encrypt P s n v req = Inr (ct, iv)" and "decodeField ''value'' (er_Value req) = Inr plain"
  shows "Decrypt P' s n v (req\<lparr>er_Value := ct, er_IV := iv\<rparr>) = Inr (EncodeBase64URL plain, iv)"
proof -
  obtain iv0 c iv' where e: "cryptEncrypt P (kv_material ver) (ktyOf ver) (er_Alg req) plain iv0 = Inr (c, iv')"
    and out: "ct = EncodeBase64URL c" "iv = ivValue iv'"
    using assms by (auto simp: Encrypt_def rbind_Inr_iff)
  have "cryptDecrypt P' (kv_material ver) (ktyOf ver) (er_Alg req) c iv' = Inr (plain, iv')"
    using assms(2) e by (rule cryptDecrypt_cryptEncrypt_oct)
  with assms(1) show ?thesis
    by (cases "iv' = []") (simp_all add: Decrypt_def out ivValue_def)
qed

lemma UnwrapKey_WrapKey_oct:
  assumes "keyMaterial s n v = Inr ver" "hasPrefix (ktyOf ver) ''oct''"
    and w: "WrapKey P s n v req = Inr ct" and "decodeField ''value'' (er_Value req) = Inr plain"
  shows "UnwrapKey P' s n v (req\<lparr>er_Value := ct\<rparr>) = Inr (EncodeBase64URL plain)"
proof -
  have not_rsa: "\<not> hasPrefix (ktyOf ver) ''RSA''"
    using assms(2) by (auto simp: hasPrefix_def split: list.splits)
  obtain c where c: "aesKeyWrap (aesOf (kv_material ver)) plain = Inr c" "ct = EncodeBase64URL c"
    using assms not_rsa by (auto simp: WrapKey_def rbind_Inr_iff cryptWrap_def)
  then have "aesKeyUnwrap (aesOf (kv_material ver)) c = Inr plain"
    using aesKeyUnwrap_aesKeyWrap by blast
  with assms(1,2) not_rsa c(2) show ?thesis
    by (simp add: UnwrapKey_def cryptUnwrap_def)
qed

lemma Verify_Sign:
  assumes "keyMaterial s n v = Inr ver" "sign_law P (kv_material ver)"
    and sig: "Sign P s n v \<lparr>sg_Alg = alg, sg_Value = digest\<rparr> = Inr sig"
  shows "Verify P s n v \<lparr>vr_Alg = alg, vr_Digest = digest, vr_Value = sig\<rparr> = Inr True"
proof -
  obtain d c where d: "decodeField ''value'' digest = Inr d" "sig = EncodeBase64URL c"
    "cryptSign P (kv_material ver) (ktyOf ver) alg d = Inr c"
    using assms(1) sig by (auto simp: Sign_def rbind_Inr_iff)
  have "decodeField ''digest'' digest = Inr d"
    using d(1) by (simp add: decodeField_def ofOption_def split: option.splits)
  moreover have "cryptVerify P (kv_material ver) (ktyOf ver) alg d c = Inr True"
    using assms(2) d(3) by (rule cryptVerify_cryptSign)
  ultimately show ?thesis
    using assms(1) d(2) by (simp add: Verify_def)
qed

text \<open>What a caller sees of a stored key is its public part.\<close>

lemma key_ok_public: "key_ok n x \<Longrightarrow> publicJWK (kr_Key (cloneKeyRecord (kv_record x)))"
  by (simp add: key_ok_clone) (simp add: key_ok_def)

lemma GetKey_public: "GetKey s n v = Inr k \<Longrightarrow> keys_ok s \<Longrightarrow> publicJWK (kr_Key k)"
  by (auto simp: GetKey_def split: option.splits intro!: key_ok_public findKeyVersion_ok)

lemma GetDeletedKey_public: "GetDeletedKey s n = Inr d \<Longrightarrow> keys_ok s \<Longrightarrow> publicJWK (kr_Key (dr_Record d))"
  using kind_ok_gone [of key_ok "st_keys s" "st_deletedKeys s" n]
  by (auto simp: GetDeletedKey_def deletedKeyRecord_def keys_ok_def entry_ok_def list_all_iff
      split: option.splits intro!: key_ok_public)

lemma ListKeys_public:
  assumes "ListKeys s m tok = Inr (page, nxt)" "keys_ok s"
  shows "\<forall>k \<in> set page. publicJWK (kr_Key k)"
proof -
  have "publicJWK (kr_Key (cloneKeyRecord (kv_record (last (the (map_of (st_keys s) n))))))"
    if n: "n \<in> set (mkeys (st_keys s))" for n
  proof -
    obtain vs where "map_of (st_keys s) n = Some vs"
      using mem_mkeys [OF n] by blast
    with assms(2) show ?thesis
      using kind_ok_live entry_ok_last unfolding keys_ok_def by (metis key_ok_public option.sel)
  qed
  then have "\<forall>k \<in> set (keyListing s). publicJWK (kr_Key k)"
    by (auto simp: keyListing_def)
  moreover have "set page \<subseteq> set (keyListing s)"
    using assms by (intro paginateNames_subset) (simp add: ListKeys_eq)
  ultimately show ?thesis
    by blast
qed

lemma ListKeyVersions_public:
  assumes "ListKeyVersions s n m tok = Inr (page, nxt)" "keys_ok s"
  shows "\<forall>k \<in> set page. publicJWK (kr_Key k)"
proof -
  obtain vs where vs: "map_of (st_keys s) n = Some vs"
    and "paginateNames (map (\<lambda>v. cloneKeyRecord (kv_record v)) (rev vs)) tok m = Inr (page, nxt)"
    using assms(1) by (auto simp: ListKeyVersions_def split: option.splits)
  from paginateNames_subset [OF this(2)] show ?thesis
    using kind_ok_live [OF _ vs] assms(2) unfolding keys_ok_def
    by (fastforce simp: entry_ok_def list_all_iff intro: key_ok_public)
qed

section \<open>Certificates\<close>

lemma secret_lookup_part:
  "secretPart s' = secretPart s \<Longrightarrow> liveSecret s' = liveSecret s \<and> goneSecret s' = goneSecret s"
  by (simp add: lookup_defs part_defs fun_eq_iff)

lemma key_lookup_part:
  "keyPart s' = keyPart s \<Longrightarrow> liveKey s' = liveKey s \<and> goneKey s' = goneKey s"
  by (simp add: lookup_defs part_defs fun_eq_iff)

lemmas lookup_frames [simp] =
  secretPart_frames [THEN secret_lookup_part, THEN conjunct1]
  secretPart_frames [THEN secret_lookup_part, THEN conjunct2]
  keyPart_frames [THEN key_lookup_part, THEN conjunct1]
  keyPart_frames [THEN key_lookup_part, THEN conjunct2]

lemma liveSecret_put [simp]:
  "liveSecret (snd (putSecretVersion n ver x ct attrs tags s)) = (liveSecret s)(n := grown (liveSecret s n)
     \<lparr>sr_Name = n, sr_Version = ver, sr_Value = x, sr_ContentType = ct, sr_Attributes = attrs,
      sr_Tags = cloneTags tags\<rparr>)"
  "goneSecret (snd (putSecretVersion n ver x ct attrs tags s)) = goneSecret s"
  by (simp_all add: putSecretVersion_def lookup_defs fun_eq_iff grown_def Let_def)

lemma liveKey_put [simp]:
  "liveKey (snd (putKeyVersion n ver r m s)) = (liveKey s)(n := grown (liveKey s n)
     \<lparr>kv_record = cloneKeyRecord (r\<lparr>kr_Name := n, kr_Version := ver\<rparr>), kv_material = m\<rparr>)"
  "goneKey (snd (putKeyVersion n ver r m s)) = goneKey s"
  by (simp_all add: putKeyVersion_def lookup_defs fun_eq_iff grown_def Let_def)

lemma CreateCertificate_trio:
  assumes "CreateCertificate e P L n q s = (Inr r, s')"
  shows "GetCertificate s' n [] = Inr r \<and>
    (\<exists>k x priv. GetKey s' n [] = Inr k \<and> GetSecret s' n [] = Inr x \<and>
      keyMaterial s' n [] = Inr \<lparr>kv_record = k, kv_material = pairMaterial priv\<rparr> \<and>
      kr_Version k = crt_Version r \<and> sr_Version x = crt_Version r \<and>
      kr_Key k = RSAToJWK [] ''RSA'' (defaultKeyOps ''RSA'' []) (priv_PublicKey priv) \<and>
      sr_ContentType x = ''application/x-pem-file'' \<and>
      sr_Value x = string_of_bytes (lib_pemEncode L (pemBlock ''CERTIFICATE'' (crt_Cer r)) @
        lib_pemEncode L (pemBlock ''RSA PRIVATE KEY'' (lib_MarshalPKCS1PrivateKey L priv))))"
proof (cases rule: CreateCertificate_cases [of e P L n q s])
  case (error err)
  with assms show ?thesis
    by simp
next
  case (ok opts version priv der attrs policy pem managed)
  have r: "r = certRecord n version der attrs (cc_Tags q) policy"
    and s': "s' = snd (putSecretVersion n version managed ''application/x-pem-file'' attrs (cc_Tags q)
        (snd (putKeyVersion n version (rsaKeyRecord n version (priv_PublicKey priv) attrs (cc_Tags q))
          (pairMaterial priv) (addCert n (certRecord n version der attrs (cc_Tags q) policy) pem s))))"
    using assms unfolding ok(10) by blast+
  let ?k = "(rsaKeyRecord n version (priv_PublicKey priv) attrs (cc_Tags q))\<lparr>kr_Name := n, kr_Version := version\<rparr>"
  have k: "cloneKeyRecord ?k = ?k"
    by (rule cloneKeyRecord_id) simp
  have "keyMaterial s' n [] = Inr \<lparr>kv_record = ?k, kv_material = pairMaterial priv\<rparr>"
  proof -
    have "liveKey s' n = grown (liveKey s n) \<lparr>kv_record = ?k, kv_material = pairMaterial priv\<rparr>"
      by (simp add: s' k)
    then show ?thesis
      by (simp add: keyMaterial_def liveKey_def [symmetric] grown_def findKeyVersion_def findVersion_def)
  qed
  moreover have "GetKey s' n [] = Inr ?k"
    by (simp add: GetKey_read s' k)
  moreover have "GetSecret s' n [] = Inr \<lparr>sr_Name = n, sr_Version = version, sr_Value = managed,
      sr_ContentType = ''application/x-pem-file'', sr_Attributes = attrs, sr_Tags = cloneTags (cc_Tags q)\<rparr>"
    by (simp add: GetSecret_read s' cloneSecretRecord_def)
  moreover have "GetCertificate s' n [] = Inr r"
    by (simp add: GetCertificate_read s' r)
  ultimately show ?thesis
    using ok(6,7) by (auto simp: r)
qed

text \<open>
  A secret that is deleted when a certificate of its name is created: it becomes live again while it
  stays deleted, and then it can neither be deleted, nor recovered, nor written.
\<close>

lemma secret_live_and_deleted:
  assumes "CreateCertificate e P L n q s = (Inr r, s')" "goneSecret s n \<noteq> None"
  shows "liveSecret s' n \<noteq> None" "goneSecret s' n \<noteq> None"
    "\<not> is_ok (fst (DeleteSecret e' n s'))" "\<not> is_ok (fst (RecoverDeletedSecret n s'))"
    "\<not> is_ok (fst (SetSecret e' n q' s'))"
proof -
  show live: "liveSecret s' n \<noteq> None" and gone: "goneSecret s' n \<noteq> None"
    using assms by (cases rule: CreateCertificate_cases [of e P L n q s]; auto simp: grown_def)+
  show "\<not> is_ok (fst (DeleteSecret e' n s'))" "\<not> is_ok (fst (RecoverDeletedSecret n s'))"
    using live gone by (auto simp: DeleteSecret_def RecoverDeletedSecret_def lookup_defs)
  show "\<not> is_ok (fst (SetSecret e' n q' s'))"
    using gone by (rule secrets.put_deleted)
qed

section \<open>Updates\<close>

lemma UpdateSecret_read:
  assumes "UpdateSecret e n v q s = (Inr r', s')" "GetSecret s n v = Inr r"
  shows "sr_Value r' = sr_Value r \<and> sr_Version r' = sr_Version r \<and> sr_Name r' = sr_Name r \<and>
    sr_ContentType r' = (case su_ContentType q of None \<Rightarrow> sr_ContentType r | Some ct \<Rightarrow> ct) \<and>
    sr_Tags r' = (if su_Tags q = None then sr_Tags r else cloneTags (su_Tags q)) \<and>
    sr_Attributes r' = mergeAttributes (env_now e) (sr_Attributes r) (su_Attributes q) \<and>
    GetSecret s' n v = Inr r'"
proof -
  obtain vs i where vs: "map_of (st_secrets s) n = Some vs" "findVersion sr_Version vs v = Some i"
    "r = cloneSecretRecord (vs ! i)"
    using assms(2) by (auto simp: GetSecret_def findSecretVersion_def split: option.splits)
  have i: "i < length vs"
    using vs(2) by (rule findVersion_Some)
  obtain w where w: "r' = cloneSecretRecord w" "s' = s\<lparr>st_secrets := mput n (vs[i := w]) (st_secrets s)\<rparr>"
    "sr_Version w = sr_Version (vs ! i)" "sr_Value w = sr_Value (vs ! i)" "sr_Name w = sr_Name (vs ! i)"
    "sr_ContentType w = (case su_ContentType q of None \<Rightarrow> sr_ContentType (vs ! i) | Some ct \<Rightarrow> ct)"
    "sr_Tags w = (if su_Tags q = None then sr_Tags (vs ! i) else cloneTags (su_Tags q))"
    "sr_Attributes w = mergeAttributes (env_now e) (sr_Attributes (vs ! i)) (su_Attributes q)"
    using assms(1) vs unfolding UpdateSecret_def findSecretVersion_def
    by (auto simp: Let_def split: option.splits if_splits)
  have "findVersion sr_Version (vs[i := w]) v = Some i"
    using i w(3) vs(2) by (simp add: findVersion_update)
  then have "GetSecret s' n v = Inr r'"
    using i by (simp add: GetSecret_def w(1,2) findSecretVersion_def)
  then show ?thesis
    using w vs(3) by (cases "su_ContentType q") (simp_all add: cloneSecretRecord_def)
qed

section \<open>Backup and restore\<close>

text \<open>What a backup payload becomes on the way through JSON.\<close>

definition jsonTags :: "tags \<Rightarrow> tags" where
  "jsonTags t = (case t of None \<Rightarrow> None | Some m \<Rightarrow>
     Some (sort_key fst (fold (\<lambda>(k, v). mput (toValidUTF8 k) (toValidUTF8 v)) (sort_key fst m) [])))"

definition jsonSecret :: "SecretRecord \<Rightarrow> SecretRecord" where
  "jsonSecret r = r\<lparr>sr_Name := toValidUTF8 (sr_Name r), sr_Version := toValidUTF8 (sr_Version r),
     sr_Value := toValidUTF8 (sr_Value r), sr_ContentType := toValidUTF8 (sr_ContentType r),
     sr_Tags := jsonTags (sr_Tags r)\<rparr>"

definition jsonBackup :: "secretBackup \<Rightarrow> secretBackup" where
  "jsonBackup b = \<lparr>bk_Name = toValidUTF8 (bk_Name b), bk_Versions = map jsonSecret (bk_Versions b)\<rparr>"

definition json_law :: "codec \<Rightarrow> secretBackup \<Rightarrow> bool" where
  "json_law C b \<longleftrightarrow> (case cd_marshal C b of Inl _ \<Rightarrow> False | Inr data \<Rightarrow> cd_unmarshal C data = Inr (jsonBackup b))"

lemma map_ok_fold_mput2: "map_ok acc \<Longrightarrow> map_ok (fold (\<lambda>(k, v). mput (f k) (g v)) m acc)"
  by (induction m arbitrary: acc) auto

lemma tags_ok_jsonTags: "tags_ok (jsonTags t)"
proof (cases t)
  case (Some m)
  have "map_ok (fold (\<lambda>(k, v). mput (toValidUTF8 k) (toValidUTF8 v)) (sort_key fst m) [])"
    by (rule map_ok_fold_mput2) simp
  then show ?thesis
    using Some by (simp add: tags_ok_def jsonTags_def map_ok_def distinct_map)
qed (simp add: tags_ok_def jsonTags_def)

lemma RestoreSecret_BackupSecret:
  assumes ok: "secrets_ok s" and n: "n \<noteq> []" "toValidUTF8 n = n" and live: "liveSecret s n = Some vs"
    and law: "json_law C \<lparr>bk_Name = n, bk_Versions = vs\<rparr>" and b: "BackupSecret C s n = Inr token"
  shows "is_ok (fst (RestoreSecret C token s'))"
    "liveSecret (snd (RestoreSecret C token s')) = (liveSecret s')(n := Some (map jsonSecret vs))"
    "goneSecret (snd (RestoreSecret C token s')) = (goneSecret s')(n := None)"
proof -
  have e: "entry_ok secret_ok n vs"
    using ok live unfolding secrets_ok_def liveSecret_def by (rule kind_ok_live)
  then have ne: "vs \<noteq> []" and clone: "map cloneSecretRecord vs = vs"
    and v: "\<And>r. r \<in> set vs \<Longrightarrow> secret_ok n r"
    by (auto simp: entry_ok_def list_all_iff intro!: map_idI cloneSecretRecord_id)
  obtain data where d: "cd_unmarshal C data = Inr (jsonBackup \<lparr>bk_Name = n, bk_Versions = vs\<rparr>)"
    and token: "token = stdEncode data"
    using b live law by (auto simp: BackupSecret_def lookup_defs clone json_law_def rbind_Inr_iff split: sum.splits)
  have "restoredVersion n (jsonSecret r) = jsonSecret r" if "r \<in> set vs" for r
    using v [OF that] n(2) tags_ok_jsonTags [of "sr_Tags r"]
    by (cases r) (simp add: restoredVersion_def jsonSecret_def secret_ok_def attrs_ok_def cloneSecretRecord_def
        cloneTags_id)
  then have m: "map (restoredVersion n \<circ> jsonSecret) vs = map jsonSecret vs"
    by simp
  show "is_ok (fst (RestoreSecret C token s'))"
    "liveSecret (snd (RestoreSecret C token s')) = (liveSecret s')(n := Some (map jsonSecret vs))"
    "goneSecret (snd (RestoreSecret C token s')) = (goneSecret s')(n := None)"
    using d ne n m by (simp_all add: RestoreSecret_def token jsonBackup_def lookup_defs fun_eq_iff Let_def)
qed

end
