(* ===== verification/KV_Store_Theorems.thy ===== *)
theory KV_Store_Theorems
  imports KV_Store_Props
begin

text \<open>
  The properties of the in-memory store as its callers see them, each with a witness at a concrete
  run where its hypotheses hold.
\<close>

section \<open>A run for the witnesses\<close>

definition sampleStore :: Store where
  "sampleStore = snd (SetSecret sampleEnv ''a'' sampleSecret New)"

definition sampleDeleted :: Store where
  "sampleDeleted = snd (DeleteSecret sampleEnv2 ''a'' sampleStore)"

definition sampleKeys :: Store where
  "sampleKeys = snd (CreateKey sampleEnv samplePrims ''k'' (sampleKeyRequest ''oct'') New)"

definition sampleCerts :: Store where
  "sampleCerts = snd (CreateCertificate sampleEnv samplePrims sampleLib ''c'' sampleCertRequest sampleDeleted)"

lemma sample_reachable: "reachable sampleStore" "reachable sampleDeleted" "reachable sampleKeys"
  "reachable sampleCerts"
proof -
  show s: "reachable sampleStore"
    unfolding sampleStore_def by (rule reachable_step [OF reachable_New step.SetSecret])
  show d: "reachable sampleDeleted"
    unfolding sampleDeleted_def by (rule reachable_step [OF s step.DeleteSecret])
  show "reachable sampleKeys"
    unfolding sampleKeys_def by (rule reachable_step [OF reachable_New step.CreateKey])
  show "reachable sampleCerts"
    unfolding sampleCerts_def by (rule reachable_step [OF d step.CreateCertificate])
qed

lemma sample_ok [simp]: "store_ok sampleStore" "store_ok sampleDeleted" "store_ok sampleKeys" "store_ok sampleCerts"
  using sample_reachable by (simp_all add: reachable_store_ok)

lemma sample_parts_ok [simp]:
  "secrets_ok sampleStore" "keys_ok sampleKeys" "certificates_ok sampleCerts" "secrets_ok sampleDeleted"
  using sample_ok by (simp_all add: store_ok_def del: sample_ok)

definition sampleRecord :: SecretRecord where
  "sampleRecord = \<lparr>sr_Name = ''a'', sr_Version = hexEncode (replicate 16 7), sr_Value = ''hunter2'',
     sr_ContentType = ''text/plain'', sr_Attributes = buildAttributes None 1700000000 1700000000,
     sr_Tags = Some [(''env'', ''dev'')]\<rparr>"

lemma sampleStore_secrets: "st_secrets sampleStore = [(''a'', [sampleRecord])]"
  "st_deletedSecrets sampleStore = []"
  by (simp_all add: sampleStore_def SetSecret_def sampleSecret_def New_def sampleEnv_def newVersion_def
      appendVersion_def sampleRecord_def cloneTags_def Let_def)

lemma SetSecret_sample: "SetSecret sampleEnv ''a'' sampleSecret New = (Inr sampleRecord, sampleStore)"
  by (simp add: prod_eq_iff sampleStore_def)
    (simp add: SetSecret_def sampleSecret_def New_def sampleEnv_def newVersion_def sampleRecord_def
      cloneSecretRecord_def cloneTags_def Let_def)

lemma sampleStore_live: "liveSecret sampleStore ''a'' = Some [sampleRecord]" "goneSecret sampleStore n = None"
  by (simp_all add: lookup_defs sampleStore_secrets)

lemma sampleDeleted_live: "liveSecret sampleDeleted ''a'' = None" "goneSecret sampleDeleted ''a'' = Some [sampleRecord]"
proof -
  have "vault liveSecret goneSecret sampleDeleted = aDelete ''a'' (vault liveSecret goneSecret sampleStore)"
    unfolding sampleDeleted_def by (rule secret.delete_refines) (simp_all add: sampleEnv_ok)
  then have "vault liveSecret goneSecret sampleDeleted ''a'' = (None, Some [sampleRecord])"
    by (simp add: aDelete_def canDelete_def) (simp add: vault_def sampleStore_live)
  then show "liveSecret sampleDeleted ''a'' = None" "goneSecret sampleDeleted ''a'' = Some [sampleRecord]"
    by (simp_all add: vault_def)
qed

definition sampleKeyVersion :: keyVersion where
  "sampleKeyVersion = \<lparr>kv_record = \<lparr>kr_Name = ''k'', kr_Version = hexEncode (replicate 16 7),
     kr_Key = SymmetricToJWK [] ''oct'' (defaultKeyOps ''oct'' []) None,
     kr_Attributes = buildAttributes None 1700000000 1700000000, kr_Tags = None\<rparr>,
     kv_material = emptyMaterial\<lparr>km_AES := Some (replicate 32 1)\<rparr>\<rparr>"

lemma sampleKeyVersion_simps [simp]:
  "ktyOf sampleKeyVersion = ''oct''" "aesOf (kv_material sampleKeyVersion) = replicate 32 1"
  by (simp_all add: sampleKeyVersion_def aesOf_def)

lemma sample_oct: "GenerateKey samplePrims ''oct'' 0 [] [] ops =
    Inr (emptyMaterial\<lparr>km_AES := Some (replicate 32 1)\<rparr>, SymmetricToJWK [] ''oct'' ops None)"
  by (simp add: GenerateKey_def makeBytes_def samplePrims_def)

lemma sampleKeys_key: "map_of (st_keys sampleKeys) ''k'' = Some [sampleKeyVersion]"
  by (simp add: sampleKeys_def CreateKey_def sampleKeyRequest_def New_def sampleEnv_def newVersion_def
      appendVersion_def sampleKeyVersion_def sample_oct Let_def)

lemma sampleKeys_material: "keyMaterial sampleKeys ''k'' [] = Inr sampleKeyVersion"
  using sampleKeys_key by (simp add: keyMaterial_def findKeyVersion_def findVersion_def)

definition sampleECKeys :: Store where
  "sampleECKeys = snd (CreateKey sampleEnv samplePrims ''e'' (sampleKeyRequest ''EC'') New)"

definition sampleECVersion :: keyVersion where
  "sampleECVersion = \<lparr>kv_record = \<lparr>kr_Name = ''e'', kr_Version = hexEncode (replicate 16 7),
     kr_Key = ECDSAToJWK [] ''EC'' [''sign'', ''verify''] ''P-256'' (ecp_PublicKey sampleEC),
     kr_Attributes = buildAttributes None 1700000000 1700000000, kr_Tags = None\<rparr>,
     kv_material = emptyMaterial\<lparr>km_ECDSA := Some sampleEC, km_ECDSAPub := Some (ecp_PublicKey sampleEC)\<rparr>\<rparr>"

lemma sample_EC: "GenerateKey samplePrims ''EC'' 0 [] [] ops =
    Inr (emptyMaterial\<lparr>km_ECDSA := Some sampleEC, km_ECDSAPub := Some (ecp_PublicKey sampleEC)\<rparr>,
      ECDSAToJWK [] ''EC'' ops ''P-256'' (ecp_PublicKey sampleEC))"
  by (simp add: GenerateKey_def resolveCurve_def samplePrims_def)

lemma sampleEC_material: "keyMaterial sampleECKeys ''e'' [] = Inr sampleECVersion"
proof -
  have "map_of (st_keys sampleECKeys) ''e'' = Some [sampleECVersion]"
    by (simp add: sampleECKeys_def CreateKey_def sampleKeyRequest_def New_def sampleEnv_def newVersion_def
        appendVersion_def sampleECVersion_def sample_EC Let_def defaultKeyOps_def hasPrefix_def)
  then show ?thesis
    by (simp add: keyMaterial_def findKeyVersion_def findVersion_def)
qed

lemma sampleEC_law: "sign_law samplePrims (kv_material sampleECVersion)"
proof -
  have "n mod 1000 < (2::nat) ^ 256" for n :: nat
  proof -
    have "n mod 1000 < 1000"
      by simp
    also have "(1000::nat) < 2 ^ 256"
      by simp
    finally show ?thesis .
  qed
  then show ?thesis
    by (simp add: sign_law_def sampleECVersion_def samplePrims_def sampleEC_def bitSize_def emptyMaterial_def)
qed

section \<open>Invariants and refinement\<close>

text \<open>
  C1: every state that a run of the store can reach, from the empty store and through any sequence of
  calls with any arguments (failing and panicking calls included), satisfies the invariant: the six
  maps have distinct names, no entry is without versions, every version carries the name it is
  stored under, well-formed tags and the fixed recovery level and period, no stored JSON web key
  holds private material, the key material fits the key type, and every certificate names its key
  and its secret and has a policy.
\<close>
theorem reachable_invariant: "reachable s \<Longrightarrow> store_ok s"
  by (rule reachable_store_ok)

theorem reachable_invariant_witness: "reachable sampleCerts \<and> store_ok sampleCerts"
  using reachable_invariant [of sampleCerts] sample_reachable(4) by simp

text \<open>
  C2: deleting, purging and recovering a secret, a key or a certificate implement the abstract vault,
  in which a name has a live and a deleted entry: deletion moves the live entry unless a deleted one
  is in the way, recovery moves it back unless a live one is in the way, purging forgets the deleted
  entry, and no other name changes.
\<close>
theorem deletion_refines_vault:
  assumes "reachable s" "env_ok e"
  shows "vault liveSecret goneSecret (snd (DeleteSecret e n s)) = aDelete n (vault liveSecret goneSecret s) \<and>
    vault liveSecret goneSecret (snd (PurgeDeletedSecret n s)) = aPurge n (vault liveSecret goneSecret s) \<and>
    vault liveSecret goneSecret (snd (RecoverDeletedSecret n s)) = aRecover n (vault liveSecret goneSecret s) \<and>
    vault liveKey goneKey (snd (DeleteKey e n s)) = aDelete n (vault liveKey goneKey s) \<and>
    vault liveKey goneKey (snd (PurgeDeletedKey n s)) = aPurge n (vault liveKey goneKey s) \<and>
    vault liveKey goneKey (snd (RecoverDeletedKey n s)) = aRecover n (vault liveKey goneKey s) \<and>
    vault liveCertificate goneCertificate (snd (DeleteCertificate e n s)) =
      aDelete n (vault liveCertificate goneCertificate s) \<and>
    vault liveCertificate goneCertificate (snd (PurgeDeletedCertificate n s)) =
      aPurge n (vault liveCertificate goneCertificate s) \<and>
    vault liveCertificate goneCertificate (snd (RecoverDeletedCertificate n s)) =
      aRecover n (vault liveCertificate goneCertificate s)"
  using reachable_store_ok [OF assms(1)] assms(2)
  by (simp_all add: store_ok_def secret.delete_refines secret.purge_refines secret.recover_refines
      key.delete_refines key.purge_refines key.recover_refines certificate.delete_refines
      certificate.purge_refines certificate.recover_refines)

theorem deletion_refines_vault_witness:
  "vault liveSecret goneSecret (snd (DeleteSecret sampleEnv2 ''a'' sampleStore)) ''a'' = (None, Some [sampleRecord])"
  using deletion_refines_vault [OF sample_reachable(1) sampleEnv_ok(2), of "''a''"]
  by (simp add: aDelete_def canDelete_def) (simp add: vault_def sampleStore_live)

text \<open>
  C3: deleting an object and recovering it succeeds and restores what can be read: afterwards every
  read of every name and version gives the same result as before, for secrets, keys and
  certificates.
\<close>
theorem recover_restores_reads:
  assumes "reachable s" "env_ok e"
  shows "(liveSecret s n \<noteq> None \<and> goneSecret s n = None \<longrightarrow>
      is_ok (fst (DeleteSecret e n s)) \<and> is_ok (fst (RecoverDeletedSecret n (snd (DeleteSecret e n s)))) \<and>
      GetSecret (snd (RecoverDeletedSecret n (snd (DeleteSecret e n s)))) m v = GetSecret s m v) \<and>
    (liveKey s n \<noteq> None \<and> goneKey s n = None \<longrightarrow>
      is_ok (fst (DeleteKey e n s)) \<and> is_ok (fst (RecoverDeletedKey n (snd (DeleteKey e n s)))) \<and>
      GetKey (snd (RecoverDeletedKey n (snd (DeleteKey e n s)))) m v = GetKey s m v) \<and>
    (liveCertificate s n \<noteq> None \<longrightarrow>
      is_ok (fst (DeleteCertificate e n s)) \<and>
      is_ok (fst (RecoverDeletedCertificate n (snd (DeleteCertificate e n s)))) \<and>
      GetCertificate (snd (RecoverDeletedCertificate n (snd (DeleteCertificate e n s)))) m v = GetCertificate s m v)"
proof -
  have ok: "secrets_ok s" "keys_ok s" "certificates_ok s"
    using reachable_store_ok [OF assms(1)] by (simp_all add: store_ok_def)
  have "liveCertificate s n \<noteq> None \<longrightarrow> goneCertificate s n = None"
    using reachable_certs_disjoint [OF assms(1), unfolded certs_disjoint_def, rule_format, of n]
    by (auto simp: lookup_defs)
  then show ?thesis
    using ok assms(2)
    by (simp add: secret.delete_then_recover(1,2) secrets.recovered_reads
        key.delete_then_recover(1,2) keys.recovered_reads
        certificate.delete_then_recover(1,2) certificates.recovered_reads)
qed

theorem recover_restores_reads_witness:
  "GetSecret (snd (RecoverDeletedSecret ''a'' (snd (DeleteSecret sampleEnv2 ''a'' sampleStore)))) ''a'' [] =
    Inr sampleRecord"
  using recover_restores_reads [OF sample_reachable(1) sampleEnv_ok(2), of "''a''" "''a''" "[]"]
  by (simp add: sampleStore_live) (simp add: GetSecret_def sampleStore_secrets findSecretVersion_def findVersion_def
      sampleRecord_def cloneSecretRecord_def cloneTags_def)

section \<open>Writing and reading\<close>

text \<open>
  C4: a secret that has been set is what a read of the latest version returns, with the value of the
  request, and a read of its version returns it too if that version identifier is new; every
  version that could be read before is still read unchanged, also after any further series of
  writes to any names.
\<close>
theorem secret_versions:
  assumes "reachable s" "SetSecret e n q s = (Inr r, s')"
  shows "GetSecret s' n [] = Inr r \<and> sr_Value r = ss_Value q \<and> sr_Name r = n \<and>
    newVersion e = Inr (sr_Version r) \<and>
    (sr_Version r \<noteq> [] \<and> \<not> is_ok (GetSecret s n (sr_Version r)) \<longrightarrow> GetSecret s' n (sr_Version r) = Inr r) \<and>
    (v \<noteq> [] \<and> GetSecret s m v = Inr old \<longrightarrow>
      GetSecret (fold (\<lambda>(e, m, q) s. snd (SetSecret e m q s)) ws s') m v = Inr old)"
proof -
  have ok: "secrets_ok s"
    using reachable_store_ok [OF assms(1)] by (simp add: store_ok_def)
  have r: "sr_Value r = ss_Value q \<and> sr_Name r = n \<and> newVersion e = Inr (sr_Version r)"
    using assms(2) by (cases rule: SetSecret_cases [of e n q s]) (auto simp: cloneSecretRecord_def)
  have "GetSecret (fold (\<lambda>(e, m, q) s. snd (SetSecret e m q s)) ((e, n, q) # ws) s) m v = Inr old"
    if "v \<noteq> []" "GetSecret s m v = Inr old"
    using ok that by (rule secrets.writes_keep_history)
  then show ?thesis
    using r secrets.put_get [OF ok assms(2)] secrets.put_fresh [OF ok assms(2)] assms(2) by simp
qed

theorem secret_versions_witness:
  "GetSecret (snd (SetSecret sampleEnv2 ''a'' sampleSecret sampleStore)) ''a'' (hexEncode (replicate 16 7)) =
    Inr sampleRecord"
proof -
  obtain r s' where w: "SetSecret sampleEnv2 ''a'' sampleSecret sampleStore = (Inr r, s')"
    by (simp add: SetSecret_def sampleSecret_def sampleStore_secrets sampleEnv2_def newVersion_def Let_def)
  have "GetSecret sampleStore ''a'' (hexEncode (replicate 16 7)) = Inr sampleRecord"
    by (simp add: GetSecret_def sampleStore_secrets findSecretVersion_def findVersion_def sampleRecord_def
        cloneSecretRecord_def cloneTags_def)
  then show ?thesis
    using secret_versions [OF sample_reachable(1) w, of "hexEncode (replicate 16 7)" "''a''" sampleRecord "[]"] w
    by simp
qed

text \<open>
  C5: a deleted secret cannot be read under any version and cannot be written: the write fails and
  changes nothing, until the secret is recovered or purged; after a purge it is gone for good, and
  deleting it a second time fails.
\<close>
theorem deleted_secret_hidden:
  assumes "reachable s" "env_ok e" "env_ok e'" "liveSecret s n \<noteq> None" "goneSecret s n = None"
    "s' = snd (DeleteSecret e n s)"
  shows "\<not> is_ok (GetSecret s' n v) \<and> \<not> is_ok (fst (SetSecret e' n q s')) \<and> snd (SetSecret e' n q s') = s' \<and>
    \<not> is_ok (fst (DeleteSecret e' n s')) \<and> is_ok (fst (PurgeDeletedSecret n s')) \<and>
    \<not> is_ok (fst (RecoverDeletedSecret n (snd (PurgeDeletedSecret n s'))))"
proof -
  have ok: "secrets_ok s"
    using reachable_store_ok [OF assms(1)] by (simp add: store_ok_def)
  have "canDelete n (vault liveSecret goneSecret s)"
    using assms(4,5) by (simp add: canDelete_def vault_def)
  then show ?thesis
    using secrets.deleted_hidden [OF ok assms(2)] secret.delete_twice [OF ok assms(2,3)]
      secret.delete_then_purge(1,3) [OF ok assms(2,4,5)]
    by (simp add: assms(6))
qed

theorem deleted_secret_hidden_witness:
  "\<not> is_ok (GetSecret sampleDeleted ''a'' []) \<and> snd (SetSecret sampleEnv ''a'' sampleSecret sampleDeleted) = sampleDeleted"
  using deleted_secret_hidden [OF sample_reachable(1) sampleEnv_ok(2) sampleEnv_ok(1), of "''a''" sampleDeleted
      "[]" sampleSecret]
  by (simp add: sampleStore_live sampleDeleted_def [symmetric])

text \<open>
  Updating a version of a secret replaces its content type if one is given, its tags if tags are
  given, overlays the given attributes and stamps the update time; the value, the name and the
  version identifier stay, and a read of that version then returns the updated record.
\<close>
theorem update_secret_fields:
  assumes "UpdateSecret e n v q s = (Inr r', s')" "GetSecret s n v = Inr r"
  shows "sr_Value r' = sr_Value r \<and> sr_Version r' = sr_Version r \<and> sr_Name r' = sr_Name r \<and>
    sr_ContentType r' = (case su_ContentType q of None \<Rightarrow> sr_ContentType r | Some ct \<Rightarrow> ct) \<and>
    sr_Tags r' = (if su_Tags q = None then sr_Tags r else cloneTags (su_Tags q)) \<and>
    Created (sr_Attributes r') = Created (sr_Attributes r) \<and> Updated (sr_Attributes r') = env_now e \<and>
    (su_Attributes q = None \<longrightarrow> Enabled (sr_Attributes r') = Enabled (sr_Attributes r) \<and>
       NotBefore (sr_Attributes r') = NotBefore (sr_Attributes r) \<and>
       Expires (sr_Attributes r') = Expires (sr_Attributes r)) \<and>
    GetSecret s' n v = Inr r'"
  using UpdateSecret_read [OF assms] by (auto simp: mergeAttributes_def)

definition sampleUpdate :: SecretUpdateRequest where
  "sampleUpdate = \<lparr>su_ContentType = Some ''x'', su_Attributes = None, su_Tags = None\<rparr>"

lemma sample_read: "GetSecret sampleStore ''a'' [] = Inr sampleRecord"
  by (simp add: GetSecret_def sampleStore_secrets findSecretVersion_def findVersion_def sampleRecord_def
      cloneSecretRecord_def cloneTags_def)

theorem update_secret_fields_witness:
  "\<exists>r' s'. UpdateSecret sampleEnv2 ''a'' [] sampleUpdate sampleStore = (Inr r', s') \<and> sr_Value r' = ''hunter2'' \<and>
    sr_ContentType r' = ''x''"
proof -
  obtain r' s' where u: "UpdateSecret sampleEnv2 ''a'' [] sampleUpdate sampleStore = (Inr r', s')"
    by (simp add: UpdateSecret_def sampleStore_secrets findSecretVersion_def findVersion_def Let_def)
  then show ?thesis
    using update_secret_fields [OF u sample_read] by (auto simp: sampleRecord_def sampleUpdate_def)
qed

section \<open>Panics and listings\<close>



text \<open>
  C10: a client that follows the continuation tokens of a listing, from the first page to the page
  without a token, gets every live secret, key and certificate, and every deleted secret, exactly
  once, in the order of the names, whatever page size it asks for; the listed secrets carry no
  values. The number of requests is at most one more than the number of objects.
\<close>
theorem pages_are_complete:
  assumes "reachable s" "length (st_secrets s) < fuel" "length (st_keys s) < fuel"
    "length (st_certificates s) < fuel" "length (st_deletedSecrets s) < fuel" "fuel < 2 ^ 62"
  shows "walkPages fuel (ListSecrets s m) [] = Some (secretListing s) \<and>
    walkPages fuel (ListKeys s m) [] = Some (keyListing s) \<and>
    walkPages fuel (ListCertificates s m) [] = Some (certificateListing s) \<and>
    walkPages fuel (ListDeletedSecrets s m) [] = Some (deletedSecretListing s) \<and>
    map sr_Name (secretListing s) = sort (mkeys (st_secrets s)) \<and>
    (\<forall>r \<in> set (secretListing s). sr_Value r = []) \<and>
    (\<forall>r \<in> set (deletedSecretListing s). sr_Value (dr_Record r) = [])"
proof -
  have ok: "secrets_ok s" "keys_ok s" "certificates_ok s"
    using reachable_store_ok [OF assms(1)] by (simp_all add: store_ok_def)
  have "map sr_Name (secretListing s) = sort (mkeys (st_secrets s))"
    using ok(1) by (rule secretListing_names)
  then show ?thesis
    using assms(2-) ok
    by (simp add: walk_lists)
      (auto simp: secretListing_def deletedSecretListing_def secretItem_def Let_def)
qed

theorem pages_are_complete_witness:
  "walkPages 2 (ListSecrets sampleStore 1) [] = Some (secretListing sampleStore)"
  using pages_are_complete [OF sample_reachable(1), of 2 1]
  by (simp add: sampleStore_secrets) (simp add: sampleStore_def SetSecret_def Let_def New_def split: sum.split)

text \<open>
  The order in which Go happens to iterate over a map cannot be seen in a listing: two stores whose
  maps hold the same entries list the same pages.
\<close>
theorem listing_ignores_map_order:
  assumes "store_ok s" "store_ok s'" "map_of (st_secrets s) = map_of (st_secrets s')"
    "map_of (st_keys s) = map_of (st_keys s')" "map_of (st_certificates s) = map_of (st_certificates s')"
  shows "ListSecrets s m tok = ListSecrets s' m tok \<and> ListKeys s m tok = ListKeys s' m tok \<and>
    ListCertificates s m tok = ListCertificates s' m tok"
  using assms(3-) sort_mkeys_cong [OF store_ok_maps(1) [OF assms(1)] store_ok_maps(1) [OF assms(2)]]
    sort_mkeys_cong [OF store_ok_maps(2) [OF assms(1)] store_ok_maps(2) [OF assms(2)]]
    sort_mkeys_cong [OF store_ok_maps(3) [OF assms(1)] store_ok_maps(3) [OF assms(2)]]
  by (simp add: ListSecrets_def ListKeys_def ListCertificates_def)

definition sampleTwo :: Store where
  "sampleTwo = snd (SetSecret sampleEnv ''b'' sampleSecret sampleStore)"

definition sampleTwo_reordered :: Store where
  "sampleTwo_reordered = sampleTwo\<lparr>st_secrets := rev (st_secrets sampleTwo)\<rparr>"

lemma sampleTwo_secrets:
  "st_secrets sampleTwo = [(''a'', [sampleRecord]), (''b'', [sampleRecord\<lparr>sr_Name := ''b''\<rparr>])]"
  by (simp add: sampleTwo_def SetSecret_def sampleSecret_def sampleStore_secrets sampleEnv_def newVersion_def
      appendVersion_def sampleRecord_def cloneTags_def Let_def)

lemma sampleTwo_ok: "store_ok sampleTwo" "store_ok sampleTwo_reordered"
proof -
  show ok: "store_ok sampleTwo"
    unfolding sampleTwo_def
    by (rule reachable_store_ok [OF reachable_step [OF sample_reachable(1) step.SetSecret]])
  then have "kind_ok secret_ok (rev (st_secrets sampleTwo)) (st_deletedSecrets sampleTwo)"
    by (auto simp: store_ok_defs kind_ok_def map_ok_def map_all_def list_all_iff simp flip: rev_map)
  with ok show "store_ok sampleTwo_reordered"
    by (simp add: store_ok_defs sampleTwo_reordered_def)
qed

theorem listing_ignores_map_order_witness:
  "ListSecrets sampleTwo_reordered 1 [] = ListSecrets sampleTwo 1 [] \<and>
    st_secrets sampleTwo_reordered \<noteq> st_secrets sampleTwo"
proof -
  have "map_of (st_secrets sampleTwo_reordered) = map_of (st_secrets sampleTwo)"
    by (simp add: sampleTwo_reordered_def sampleTwo_secrets fun_upd_twist)
  then show ?thesis
    using listing_ignores_map_order [OF sampleTwo_ok(2,1), of 1 "[]"]
    by (simp add: sampleTwo_reordered_def) (simp add: sampleTwo_secrets)
qed

section \<open>Cryptographic operations on stored keys\<close>

text \<open>
  No operation that returns a key shows private material: in a reachable state the JSON web key
  that a read, a listing or the record of a deleted key carries has empty private fields (the
  private exponent, the primes, the CRT values and the symmetric key).
\<close>
theorem private_keys_stay_hidden:
  assumes "reachable s"
  shows "(GetKey s n v = Inr k \<longrightarrow> publicJWK (kr_Key k)) \<and>
    (GetDeletedKey s n = Inr d \<longrightarrow> publicJWK (kr_Key (dr_Record d))) \<and>
    (ListKeys s m tok = Inr (page, nxt) \<longrightarrow> (\<forall>k \<in> set page. publicJWK (kr_Key k))) \<and>
    (ListKeyVersions s n m tok = Inr (page, nxt) \<longrightarrow> (\<forall>k \<in> set page. publicJWK (kr_Key k)))"
proof -
  have "keys_ok s"
    using reachable_store_ok [OF assms] by (simp add: store_ok_def)
  then show ?thesis
    by (auto dest: GetKey_public GetDeletedKey_public ListKeys_public ListKeyVersions_public)
qed

theorem private_keys_stay_hidden_witness:
  "\<exists>k. GetKey sampleKeys ''k'' [] = Inr k \<and> jwk_K (kr_Key k) = []"
proof -
  obtain k where k: "GetKey sampleKeys ''k'' [] = Inr k"
    using sampleKeys_key by (simp add: GetKey_read liveKey_def readVersion_def findVersion_def)
  then show ?thesis
    using private_keys_stay_hidden [OF sample_reachable(3), of "''k''" "[]" k] by (simp add: publicJWK_def)
qed

text \<open>
  C7: for a stored symmetric key, whatever Encrypt returns (ciphertext and initialisation vector,
  both base64url) Decrypt turns back into the plaintext, for every AES-CBC algorithm, key size and
  random vector; the same holds for WrapKey and UnwrapKey.
\<close>
theorem symmetric_roundtrip:
  assumes "keyMaterial s n v = Inr ver" "hasPrefix (ktyOf ver) ''oct''"
    "DecodeBase64URL (er_Value req) = Some plain"
  shows "(Encrypt P s n v req = Inr (ct, iv) \<longrightarrow>
       Decrypt P' s n v (req\<lparr>er_Value := ct, er_IV := iv\<rparr>) = Inr (EncodeBase64URL plain, iv)) \<and>
    (WrapKey P s n v req = Inr wrapped \<longrightarrow>
       UnwrapKey P' s n v (req\<lparr>er_Value := wrapped\<rparr>) = Inr (EncodeBase64URL plain))"
  using Decrypt_Encrypt_oct [OF assms(1,2)] UnwrapKey_WrapKey_oct [OF assms(1,2)] assms(3)
  by (simp add: decodeField_def ofOption_def)

definition sampleWrap :: EncryptRequest where
  "sampleWrap = \<lparr>er_Alg = ''A256CBCPAD'', er_Value = EncodeBase64URL [1, 2, 3, 4, 5, 6, 7, 8], er_IV = []\<rparr>"

theorem symmetric_roundtrip_witness:
  "\<exists>ct iv. Encrypt samplePrims sampleKeys ''k'' [] sampleWrap = Inr (ct, iv) \<and>
    Decrypt samplePrims sampleKeys ''k'' [] (sampleWrap\<lparr>er_Value := ct, er_IV := iv\<rparr>) =
      Inr (EncodeBase64URL [1, 2, 3, 4, 5, 6, 7, 8], iv)"
proof -
  obtain ct where e: "encryptCBC samplePrims (replicate 32 1) ''A256CBCPAD'' [1, 2, 3, 4, 5, 6, 7, 8] [] =
      Inr (ct, replicate 16 1)"
    by (simp add: encryptCBC_def samplePrims_def selectAESKey_def aesNewCipher_def aesKeyOk_def hasSuffix_def)
  note m = sampleKeys_material
  then have "Encrypt samplePrims sampleKeys ''k'' [] sampleWrap =
      Inr (EncodeBase64URL ct, ivValue (replicate 16 1))"
    using e by (simp add: Encrypt_def sampleWrap_def sampleKeyVersion_simps cryptEncrypt_def hasPrefix_def)
  then show ?thesis
    using symmetric_roundtrip [OF m, of sampleWrap "[1, 2, 3, 4, 5, 6, 7, 8]" samplePrims _ _ samplePrims]
    by (simp add: sampleKeyVersion_simps hasPrefix_def) (simp add: sampleWrap_def)
qed

text \<open>
  C8: a signature that Sign makes with a stored RSA or EC key verifies with Verify, given that the
  library's verification accepts what its signing returns and that ECDSA values are smaller than
  2 to the bit size of the curve; the fixed-width encoding of the two ECDSA values is cut where it
  was joined.
\<close>
theorem signatures_verify:
  assumes "keyMaterial s n v = Inr ver" "sign_law P (kv_material ver)"
    "Sign P s n v \<lparr>sg_Alg = alg, sg_Value = digest\<rparr> = Inr sig"
  shows "Verify P s n v \<lparr>vr_Alg = alg, vr_Digest = digest, vr_Value = sig\<rparr> = Inr True"
  using assms by (rule Verify_Sign)

theorem signatures_verify_witness:
  "\<exists>sig. Sign samplePrims sampleECKeys ''e'' [] \<lparr>sg_Alg = ''ES256'', sg_Value = EncodeBase64URL [1, 2, 3]\<rparr> = Inr sig \<and>
    Verify samplePrims sampleECKeys ''e'' []
      \<lparr>vr_Alg = ''ES256'', vr_Digest = EncodeBase64URL [1, 2, 3], vr_Value = sig\<rparr> = Inr True"
proof -
  obtain sig where sig:
    "Sign samplePrims sampleECKeys ''e'' [] \<lparr>sg_Alg = ''ES256'', sg_Value = EncodeBase64URL [1, 2, 3]\<rparr> = Inr sig"
    by (simp add: Sign_def sampleEC_material cryptSign_def sampleECVersion_def samplePrims_def sampleEC_def
        hasPrefix_def ECDSAToJWK_def emptyJWK_def emptyMaterial_def Let_def)
  then show ?thesis
    using signatures_verify [OF sampleEC_material sampleEC_law sig] by blast
qed

section \<open>Certificates\<close>

text \<open>
  C11: creating a certificate makes three objects of one name and one version that fit together: the
  certificate, a key whose material is the generated pair and whose public part is the JSON web key,
  and a secret that holds the PEM text of the certificate followed by that of the private key.
\<close>
theorem certificate_has_key_and_secret:
  assumes "CreateCertificate e P L n q s = (Inr r, s')"
  shows "GetCertificate s' n [] = Inr r \<and>
    (\<exists>k x priv. GetKey s' n [] = Inr k \<and> GetSecret s' n [] = Inr x \<and>
      keyMaterial s' n [] = Inr \<lparr>kv_record = k, kv_material = pairMaterial priv\<rparr> \<and>
      kr_Version k = crt_Version r \<and> sr_Version x = crt_Version r \<and>
      kr_Key k = RSAToJWK [] ''RSA'' (defaultKeyOps ''RSA'' []) (priv_PublicKey priv) \<and>
      sr_ContentType x = ''application/x-pem-file'' \<and>
      sr_Value x = string_of_bytes (lib_pemEncode L (pemBlock ''CERTIFICATE'' (crt_Cer r)) @
        lib_pemEncode L (pemBlock ''RSA PRIVATE KEY'' (lib_MarshalPKCS1PrivateKey L priv))))"
  using assms by (rule CreateCertificate_trio)

lemma sampleDeleted_certs: "st_deletedCertificates sampleDeleted = []"
proof -
  have "certificatePart sampleDeleted = certificatePart New"
    by (simp add: sampleDeleted_def sampleStore_def kv_frame)
  then show ?thesis
    by (simp add: certificatePart_def New_def)
qed

lemma sample_create:
  assumes "n \<noteq> []"
  obtains r s' where "CreateCertificate sampleEnv samplePrims sampleLib n sampleCertRequest sampleDeleted = (Inr r, s')"
proof -
  let ?p = "defaultCertificatePolicy n None"
  have "cp_X509Props ?p = Some [(''subject'', AStr (''CN='' @ n))]"
    by (simp add: defaultCertificatePolicy_def clonePolicy_def emptyPolicy_def jsonOmitMap_def Let_def)
  then have "certOptions sampleLib sampleDeleted ?p =
      Inr \<lparr>opt_CertType = ''CA'', opt_IssuerCert = None, opt_IssuerKey = None\<rparr>"
    by (simp add: certOptions_def anyString_def Let_def)
  moreover have "GenerateCert samplePrims sampleLib n (Some ?p)
      \<lparr>opt_CertType = ''CA'', opt_IssuerCert = None, opt_IssuerKey = None\<rparr> = Inr (sampleRSA, [48, 1])"
    by (simp add: GenerateCert_def samplePrims_def sampleLib_def Let_def)
  ultimately have "is_ok (fst (CreateCertificate sampleEnv samplePrims sampleLib n sampleCertRequest sampleDeleted))"
    using assms by (simp add: CreateCertificate_def sampleDeleted_certs sampleCertRequest_def sampleEnv_def newVersion_def
        case_prod_unfold Let_def)
  then show ?thesis
    using that unfolding is_ok_iff by (metis prod.collapse)
qed

lemma sampleCerts_created:
  obtains r where "CreateCertificate sampleEnv samplePrims sampleLib ''c'' sampleCertRequest sampleDeleted = (Inr r, sampleCerts)"
  using sample_create [of "''c''"] by (metis list.distinct(1) sampleCerts_def snd_conv)

theorem certificate_has_key_and_secret_witness:
  "\<exists>k x. GetKey sampleCerts ''c'' [] = Inr k \<and> GetSecret sampleCerts ''c'' [] = Inr x \<and>
    kr_Version k = sr_Version x"
proof -
  obtain r where "CreateCertificate sampleEnv samplePrims sampleLib ''c'' sampleCertRequest sampleDeleted =
      (Inr r, sampleCerts)"
    by (rule sampleCerts_created)
  from certificate_has_key_and_secret [OF this] show ?thesis
    by auto
qed

text \<open>
  In a reachable state no name is that of a live and of a deleted certificate at once, so that a
  deleted certificate can always be recovered.
\<close>
theorem certificate_live_or_deleted:
  assumes "reachable s"
  shows "(liveCertificate s n = None \<or> goneCertificate s n = None) \<and>
    (is_ok (fst (RecoverDeletedCertificate n s)) \<longleftrightarrow> goneCertificate s n \<noteq> None)"
proof -
  have d: "liveCertificate s n = None \<or> goneCertificate s n = None"
    using reachable_certs_disjoint [OF assms, unfolded certs_disjoint_def, rule_format, of n]
    by (auto simp: lookup_defs)
  moreover have "certificates_ok s"
    using reachable_store_ok [OF assms] by (simp add: store_ok_def)
  ultimately show ?thesis
    by (auto simp: certificate.recover_ok canRecover_def vault_def)
qed

theorem certificate_live_or_deleted_witness:
  "liveCertificate sampleCerts ''c'' = None \<or> goneCertificate sampleCerts ''c'' = None"
  using certificate_live_or_deleted [OF sample_reachable(4), of "''c''"] by blast

text \<open>
  C12: secrets have no such guarantee. Creating a certificate does not look at the deleted secrets:
  when a secret of the same name is deleted, the certificate's secret is written next to it, and
  from then on the secret can be read but neither deleted (404) nor recovered (409) nor written
  (409) until the deleted one is purged.
\<close>
theorem certificate_shadows_deleted_secret:
  assumes "CreateCertificate e P L n q s = (Inr r, s')" "goneSecret s n \<noteq> None"
  shows "liveSecret s' n \<noteq> None \<and> goneSecret s' n \<noteq> None \<and>
    fst (DeleteSecret e' n s') = Inl (secretNotFound n) \<and>
    fst (RecoverDeletedSecret n s') = Inl (newError 409 ''Conflict'' (''Secret '' @ n @ '' already exists.'')) \<and>
    \<not> is_ok (fst (SetSecret e' n q' s'))"
  using secret_live_and_deleted [OF assms]
  by (auto simp: DeleteSecret_def RecoverDeletedSecret_def lookup_defs)

theorem certificate_shadows_deleted_secret_witness:
  "\<exists>r s'. CreateCertificate sampleEnv samplePrims sampleLib ''a'' sampleCertRequest sampleDeleted = (Inr r, s') \<and>
    liveSecret s' ''a'' \<noteq> None \<and> goneSecret s' ''a'' \<noteq> None"
proof -
  obtain r s' where c: "CreateCertificate sampleEnv samplePrims sampleLib ''a'' sampleCertRequest sampleDeleted = (Inr r, s')"
    by (rule sample_create [of "''a''"]) simp
  moreover have "goneSecret sampleDeleted ''a'' \<noteq> None"
    by (simp add: sampleDeleted_live)
  ultimately show ?thesis
    using certificate_shadows_deleted_secret by blast
qed

section \<open>Backup and restore\<close>

text \<open>
  C13: restoring the backup of a secret, into any store, recreates all its versions in order under
  its name, each with the value, content type, tags and attributes it had (up to what JSON does to
  bytes that are not UTF-8 and to the order of tags), removes a deleted secret of that name, and
  leaves every other secret alone.
\<close>
theorem restore_inverts_backup:
  assumes "reachable s" "n \<noteq> []" "toValidUTF8 n = n" "liveSecret s n = Some vs"
    "json_law C \<lparr>bk_Name = n, bk_Versions = vs\<rparr>" "BackupSecret C s n = Inr token"
  shows "is_ok (fst (RestoreSecret C token s')) \<and>
    liveSecret (snd (RestoreSecret C token s')) = (liveSecret s')(n := Some (map jsonSecret vs)) \<and>
    goneSecret (snd (RestoreSecret C token s')) = (goneSecret s')(n := None)"
proof -
  have "secrets_ok s"
    using reachable_store_ok [OF assms(1)] by (simp add: store_ok_def)
  from RestoreSecret_BackupSecret [OF this assms(2-)] show ?thesis
    by blast
qed

definition sampleCodec :: codec where
  "sampleCodec = \<lparr>cd_marshal = (\<lambda>_. Inr [123, 125]),
     cd_unmarshal = (\<lambda>_. Inr (jsonBackup \<lparr>bk_Name = ''a'', bk_Versions = [sampleRecord]\<rparr>))\<rparr>"

theorem restore_inverts_backup_witness:
  "liveSecret (snd (RestoreSecret sampleCodec (stdEncode [123, 125]) sampleDeleted)) ''a'' =
    Some [jsonSecret sampleRecord]"
proof -
  have "json_law sampleCodec \<lparr>bk_Name = ''a'', bk_Versions = [sampleRecord]\<rparr>"
    "BackupSecret sampleCodec sampleStore ''a'' = Inr (stdEncode [123, 125])"
    by (simp_all add: json_law_def sampleCodec_def BackupSecret_def sampleStore_secrets)
  moreover have "toValidUTF8 ''a'' = ''a''"
    by (simp add: toValidUTF8.simps rune_len_def rune_ok_def rune_class_def byte_in_def)
  ultimately show ?thesis
    using restore_inverts_backup [OF sample_reachable(1) _ _ sampleStore_live(1), of sampleCodec] by simp
qed

end
