(* ===== verification/KV_EncStore_Theorems.thy ===== *)
theory KV_EncStore_Theorems
  imports KV_EncStore KV_Store_Theorems
begin

text \<open>
  The in-memory store fulfils what a client of secrets relies on, and the properties of the
  encrypting wrapper around it.
\<close>

section \<open>The in-memory store as a secret store\<close>

interpretation memory: secret_storer secrets_ok "memStorer e P L C" for e P L C
proof
  fix s n q r s'
  show "secrets_ok s \<Longrightarrow> so_SetSecret (memStorer e P L C) n q s = (Inr r, s') \<Longrightarrow>
      so_GetSecret (memStorer e P L C) s' n [] = Inr r"
    by (simp add: memStorer_def secrets.put_get)
  show "so_SetSecret (memStorer e P L C) n q s = (Inr r, s') \<Longrightarrow> sr_Value r = ss_Value q \<and> sr_Name r = n"
    by (cases rule: SetSecret_cases [of e n q s]) (auto simp: memStorer_def cloneSecretRecord_def)
next
  fix s n q err
  show "fst (so_SetSecret (memStorer e P L C) n q s) = Inl err \<Longrightarrow> snd (so_SetSecret (memStorer e P L C) n q s) = s"
    by (simp add: memStorer_def secrets.put_fail)
  show "secrets_ok s \<Longrightarrow> secrets_ok (snd (so_SetSecret (memStorer e P L C) n q s))"
    by (simp add: memStorer_def SetSecret_ok)
qed

section \<open>Properties\<close>

text \<open>
  C17: what Encrypt seals under a 32-byte key and a 12-byte nonce, Decrypt opens again, byte for byte;
  the hexadecimal text is twice as long as the value plus 28 bytes (nonce and tag), and a key of any
  other length is refused by both directions.
\<close>
theorem encrypted_string_roundtrip:
  assumes "length nonce = 12"
  shows "(length key = 32 \<longrightarrow> (\<exists>c. EncryptString (Inr nonce) key s = Inr c \<and> length c = 2 * (length s + 28) \<and>
      DecryptString key c = Inr s)) \<and>
    (length key \<noteq> 32 \<longrightarrow> \<not> is_ok (EncryptString (Inr nonce) key s) \<and> \<not> is_ok (DecryptString key c'))"
proof (intro conjI impI)
  assume "length key = 32"
  then obtain c where "EncryptString (Inr nonce) key s = Inr c"
    using EncryptString_total by blast
  then show "\<exists>c. EncryptString (Inr nonce) key s = Inr c \<and> length c = 2 * (length s + 28) \<and>
      DecryptString key c = Inr s"
    using DecryptString_EncryptString [of "Inr nonce" key s c] assms by simp
next
  assume "length key \<noteq> 32"
  then obtain m where "newGCM key = Inl (PlainErr m)"
    using newGCM_cases by blast
  then show "\<not> is_ok (EncryptString (Inr nonce) key s)" "\<not> is_ok (DecryptString key c')"
    by (simp_all add: EncryptString_def sealBytes_def DecryptString_def openBytes_def split: option.split)
qed

theorem encrypted_string_roundtrip_witness:
  "\<exists>c. EncryptString (Inr (replicate 12 1)) (replicate 32 2) ''pw'' = Inr c \<and>
    DecryptString (replicate 32 2) c = Inr ''pw''"
  using encrypted_string_roundtrip [of "replicate 12 1" "replicate 32 2" "''pw''"] by auto

text \<open>
  C18: with a key, a secret that is set through the encrypting wrapper is read back through it with the
  value of the request, while the underlying store holds and returns only the hexadecimal
  ciphertext.
\<close>
theorem wrapper_encrypts_at_rest:
  assumes "secrets_ok s" "length nonce = 12" "ss_Value q \<noteq> []"
    "so_SetSecret (encryptedStore (Inr nonce) (Some key) locked (memStorer e P L C)) n q s = (Inr r, s')"
  shows "so_GetSecret (encryptedStore nr (Some key) l (memStorer e P L C)) s' n [] = Inr (r\<lparr>sr_Value := ss_Value q\<rparr>) \<and>
    (\<exists>c. GetSecret s' n [] = Inr (r\<lparr>sr_Value := c\<rparr>) \<and> EncryptString (Inr nonce) key (ss_Value q) = Inr c)"
proof -
  have nonce: "\<And>n. Inr nonce = (Inr n :: bytes res) \<Longrightarrow> length n = 12"
    using assms(2) by simp
  from memory.enc_set_get [OF assms(1) nonce assms(3,4)] obtain c
    where "EncryptString (Inr nonce) key (ss_Value q) = Inr c" "sr_Value r = c"
      "so_GetSecret (memStorer e P L C) s' n [] = Inr r"
      "so_GetSecret (encryptedStore nr (Some key) l (memStorer e P L C)) s' n [] = Inr (r\<lparr>sr_Value := ss_Value q\<rparr>)"
    by metis
  then show ?thesis
    by (auto simp: memStorer_def)
qed

lemma sample_encrypted_set:
  obtains r s' where "so_SetSecret (encryptedStore (Inr (replicate 12 1)) (Some (replicate 32 2)) None
      (memStorer sampleEnv samplePrims sampleLib sampleCodec)) ''a'' sampleSecret New = (Inr r, s')"
proof -
  obtain c where c: "EncryptString (Inr (replicate 12 1)) (replicate 32 2) ''hunter2'' = Inr c"
    using EncryptString_total [of "replicate 32 2"] by auto
  have "length c = 70"
    using DecryptString_EncryptString(2) [OF c] by simp
  then have "c \<noteq> []"
    by auto
  then have "is_ok (fst (SetSecret sampleEnv ''a'' (sampleSecret\<lparr>ss_Value := c\<rparr>) New))"
    by (simp add: SetSecret_def New_def newVersion_def sampleEnv_def Let_def)
  then show ?thesis
    using that c unfolding is_ok_iff by (auto simp: encSetSecret_def sampleSecret_def memStorer_def prod_eq_iff)
qed

theorem wrapper_encrypts_at_rest_witness:
  "\<exists>s' r. so_GetSecret (encryptedStore (Inr []) (Some (replicate 32 2)) None
      (memStorer sampleEnv samplePrims sampleLib sampleCodec)) s' ''a'' [] = Inr r \<and> sr_Value r = ''hunter2''"
proof -
  obtain r s' where set: "so_SetSecret (encryptedStore (Inr (replicate 12 1)) (Some (replicate 32 2)) None
      (memStorer sampleEnv samplePrims sampleLib sampleCodec)) ''a'' sampleSecret New = (Inr r, s')"
    by (rule sample_encrypted_set)
  have ok: "secrets_ok New"
    using store_ok_New by (simp add: store_ok_def)
  have "ss_Value sampleSecret \<noteq> []"
    by (simp add: sampleSecret_def)
  from wrapper_encrypts_at_rest [OF ok _ this set, of "Inr []" None] show ?thesis
    by (intro exI [of _ s'] exI [of _ "r\<lparr>sr_Value := ss_Value sampleSecret\<rparr>"]) (simp add: sampleSecret_def)
qed

text \<open>
  The record that setting a secret through the wrapper returns, and that the handlers send to the
  client, does not carry the value of the request but the ciphertext, unlike the records that
  reading, updating, deleting and recovering return.
\<close>
theorem set_returns_ciphertext:
  assumes "secrets_ok s" "length nonce = 12" "ss_Value q \<noteq> []"
    "so_SetSecret (encryptedStore (Inr nonce) (Some key) locked (memStorer e P L C)) n q s = (Inr r, s')"
  shows "sr_Value r \<noteq> ss_Value q \<and> DecryptString key (sr_Value r) = Inr (ss_Value q) \<and>
    so_GetSecret (encryptedStore nr (Some key) l (memStorer e P L C)) s' n [] \<noteq> Inr r"
proof -
  have nonce: "\<And>n. Inr nonce = (Inr n :: bytes res) \<Longrightarrow> length n = 12"
    using assms(2) by simp
  from memory.enc_set_get [OF assms(1) nonce assms(3,4)] obtain c
    where c: "EncryptString (Inr nonce) key (ss_Value q) = Inr c" "sr_Value r = c"
      "so_GetSecret (encryptedStore nr (Some key) l (memStorer e P L C)) s' n [] = Inr (r\<lparr>sr_Value := ss_Value q\<rparr>)"
      "length c = 2 * (length (ss_Value q) + 28)"
    by metis
  have "sr_Value r \<noteq> ss_Value q"
    using c(2,4) by auto
  moreover have "DecryptString key c = Inr (ss_Value q)"
    using c(1) nonce by (rule DecryptString_EncryptString)
  ultimately show ?thesis
    using c(2,3) by (cases r) auto
qed

theorem set_returns_ciphertext_witness:
  "\<exists>r s'. so_SetSecret (encryptedStore (Inr (replicate 12 1)) (Some (replicate 32 2)) None
      (memStorer sampleEnv samplePrims sampleLib sampleCodec)) ''a'' sampleSecret New = (Inr r, s') \<and>
    sr_Value r \<noteq> ''hunter2''"
proof -
  obtain r s' where set: "so_SetSecret (encryptedStore (Inr (replicate 12 1)) (Some (replicate 32 2)) None
      (memStorer sampleEnv samplePrims sampleLib sampleCodec)) ''a'' sampleSecret New = (Inr r, s')"
    by (rule sample_encrypted_set)
  have ok: "secrets_ok New"
    using store_ok_New by (simp add: store_ok_def)
  have "ss_Value sampleSecret \<noteq> []"
    by (simp add: sampleSecret_def)
  from set_returns_ciphertext [OF ok _ this set, of "Inr []" None] set show ?thesis
    by (auto simp: sampleSecret_def)
qed

text \<open>
  While encryption is configured but the key is not loaded, setting a secret fails and changes
  nothing, for every store underneath. The other ways to write a secret are not covered: restoring a
  backup and creating or importing a certificate go to the store unchanged.
\<close>
theorem locked_wrapper:
  "(\<exists>err. so_SetSecret (encryptedStore nonceRead None (Some True) S) n q s = (Inl err, s)) \<and>
    so_RestoreSecret (encryptedStore nonceRead key locked S) token s = so_RestoreSecret S token s \<and>
    so_CreateCertificate (encryptedStore nonceRead key locked S) n cc s = so_CreateCertificate S n cc s \<and>
    so_ImportCertificate (encryptedStore nonceRead key locked S) n ic s = so_ImportCertificate S n ic s"
  by (simp add: encSetSecret_def)

end
