(* ===== verification/KV_Auth.thy ===== *)
theory KV_Auth
  imports KV_Encoding "HOL-Library.Product_Lexorder"
begin

text \<open>
  The package \<open>src/internal/auth\<close>: users and configuration in a SQLite database, sessions in memory.

  The two tables are lists of rows and an association list, with the constraints of the schema
  checked on insertion. The record \<open>auth_env\<close> holds what a call meets: \<open>ae_db i\<close> is the failure of
  its \<open>i\<close>-th database statement, if it fails for a reason of its own, \<open>ae_now i\<close> the clock at its
  \<open>i\<close>-th reading, \<open>ae_rand n\<close> the outcome of reading \<open>n\<close> random bytes, and \<open>ae_hash\<close> and
  \<open>ae_compare\<close> are bcrypt. A statement is atomic; a transaction that does not commit leaves no
  trace.
\<close>

section \<open>State\<close>

type_synonym Role = string

definition RoleAdmin :: Role where "RoleAdmin = ''admin''"

definition RoleContributor :: Role where "RoleContributor = ''contributor''"

definition RoleReader :: Role where "RoleReader = ''reader''"

definition validRole :: "Role \<Rightarrow> bool" where
  "validRole r \<longleftrightarrow> r = RoleAdmin \<or> r = RoleContributor \<or> r = RoleReader"

record User =
  us_ID :: string
  us_Username :: string
  us_PasswordHash :: string
  us_Role :: Role
  us_CreatedAt :: int

record Session =
  se_Token :: string
  se_UserID :: string
  se_Username :: string
  se_Role :: Role
  se_ExpiresAt :: int

record Service =
  au_users :: "User list"
  au_config :: "(string, string) gomap"
  au_sessions :: "(string, Session) gomap"

record auth_env =
  ae_db :: "nat \<Rightarrow> goerr option"
  ae_now :: "nat \<Rightarrow> int"
  ae_rand :: "nat \<Rightarrow> bytes res"
  ae_hash :: "string \<Rightarrow> string res"
  ae_compare :: "string \<Rightarrow> string \<Rightarrow> bool"

text \<open>The service that \<open>Open\<close> returns for a database without tables, after \<open>migrate\<close>.\<close>

definition NewMemory :: Service where
  "NewMemory = \<lparr>au_users = [], au_config = [], au_sessions = []\<rparr>"

definition sessionTTL :: int where "sessionTTL = 24 * 60 * 60"

definition ErrAlreadyInitialized :: goerr where
  "ErrAlreadyInitialized = PlainErr ''auth service already initialized''"

definition ErrInvalidCredentials :: goerr where
  "ErrInvalidCredentials = PlainErr ''invalid credentials''"

section \<open>Statements and helpers\<close>

text \<open>Statement number \<open>i\<close> of a call, and then the rest of it.\<close>

definition dbDo :: "auth_env \<Rightarrow> nat \<Rightarrow> 'a res \<Rightarrow> 'a res" where
  "dbDo e i r = (case ae_db e i of Some err \<Rightarrow> Inl err | None \<Rightarrow> r)"

definition generateHex :: "auth_env \<Rightarrow> nat \<Rightarrow> string res" where
  "generateHex e sz = rbind (ae_rand e sz) (\<lambda>buf. Inr (hexEncode buf))"

definition validateCredentialsInput :: "string \<Rightarrow> string \<Rightarrow> unit res" where
  "validateCredentialsInput username password =
     (if username = [] then Inl (PlainErr ''username is required'')
      else if password = [] then Inl (PlainErr ''password is required'')
      else Inr ())"

definition newUser :: "auth_env \<Rightarrow> string \<Rightarrow> string \<Rightarrow> Role \<Rightarrow> User res" where
  "newUser e username password role =
     rbind (generateHex e 16) (\<lambda>ident. rbind (ae_hash e password) (\<lambda>hash.
       Inr \<lparr>us_ID = ident, us_Username = username, us_PasswordHash = hash, us_Role = role,
            us_CreatedAt = ae_now e 0\<rparr>))"

text \<open>
  The insertion checks the constraints of the schema: the primary key, the unique user name, and the
  unique index over the rows whose role is admin.
\<close>

definition insertUser :: "User \<Rightarrow> User list \<Rightarrow> User list res" where
  "insertUser u users =
     (if us_ID u \<in> us_ID ` set users then Inl (PlainErr ''constraint failed: UNIQUE constraint failed: users.id'')
      else if us_Username u \<in> us_Username ` set users
      then Inl (PlainErr ''constraint failed: UNIQUE constraint failed: users.username'')
      else if us_Role u = RoleAdmin \<and> (\<exists>v \<in> set users. us_Role v = RoleAdmin)
      then Inl (PlainErr ''constraint failed: UNIQUE constraint failed: users.role'')
      else Inr (users @ [u]))"

definition hasAdmin :: "Service \<Rightarrow> bool" where
  "hasAdmin s \<longleftrightarrow> list_ex (\<lambda>u. us_Role u = RoleAdmin) (au_users s)"

definition getUserByUsername :: "Service \<Rightarrow> string \<Rightarrow> User option" where
  "getUserByUsername s username = List.find (\<lambda>u. us_Username u = username) (au_users s)"

section \<open>Operations\<close>

definition IsInitialized :: "auth_env \<Rightarrow> Service \<Rightarrow> bool res" where
  "IsInitialized e s = dbDo e 0 (Inr (hasAdmin s))"

definition Setup :: "auth_env \<Rightarrow> string \<Rightarrow> string \<Rightarrow> Service \<Rightarrow> User res \<times> Service" where
  "Setup e username password s =
     (case rbind (validateCredentialsInput username password) (\<lambda>_.
           rbind (dbDo e 0 (Inr ())) (\<lambda>_.
           rbind (dbDo e 1 (Inr (hasAdmin s))) (\<lambda>exi.
             if exi then Inl ErrAlreadyInitialized
             else rbind (newUser e username password RoleAdmin) (\<lambda>user.
                  rbind (dbDo e 2 (insertUser user (au_users s))) (\<lambda>users.
                  rbind (dbDo e 3 (Inr ())) (\<lambda>_. Inr (user, users))))))) of
        Inl err \<Rightarrow> (Inl err, s)
      | Inr (user, users) \<Rightarrow> (Inr user, s\<lparr>au_users := users\<rparr>))"

definition CreateUser :: "auth_env \<Rightarrow> string \<Rightarrow> string \<Rightarrow> Role \<Rightarrow> Service \<Rightarrow> User res \<times> Service" where
  "CreateUser e username password role s =
     (case rbind (validateCredentialsInput username password) (\<lambda>_.
             if \<not> validRole role then Inl (PlainErr (''invalid role '' @ quote role))
             else rbind (newUser e username password role) (\<lambda>user.
                  rbind (dbDo e 0 (insertUser user (au_users s))) (\<lambda>users. Inr (user, users)))) of
        Inl err \<Rightarrow> (Inl err, s)
      | Inr (user, users) \<Rightarrow> (Inr user, s\<lparr>au_users := users\<rparr>))"

text \<open>
  Logging in reads the user, and then, with the lock on the sessions, adds the session and drops the
  expired ones. The two parts are separate because other calls may run between them.
\<close>

definition loginCheck :: "auth_env \<Rightarrow> string \<Rightarrow> string \<Rightarrow> Service \<Rightarrow> Session res" where
  "loginCheck e username password s =
     (if username = [] \<or> password = [] then Inl ErrInvalidCredentials
      else rbind (dbDo e 0 (case getUserByUsername s username of
                              None \<Rightarrow> Inl ErrInvalidCredentials
                            | Some user \<Rightarrow> Inr user)) (\<lambda>user.
           if \<not> ae_compare e (us_PasswordHash user) password then Inl ErrInvalidCredentials
           else rbind (generateHex e 32) (\<lambda>token.
             (let now = ae_now e 0
              in Inr \<lparr>se_Token = token, se_UserID = us_ID user, se_Username = us_Username user,
                      se_Role = us_Role user, se_ExpiresAt = add64 now sessionTTL\<rparr>))))"

definition loginStore :: "auth_env \<Rightarrow> Session \<Rightarrow> Service \<Rightarrow> Service" where
  "loginStore e session s =
     (let now = ae_now e 0;
          kept = filter (\<lambda>(tok, existing). \<not> now \<ge> se_ExpiresAt existing) (au_sessions s)
      in s\<lparr>au_sessions := mput (se_Token session) session kept\<rparr>)"

definition Login :: "auth_env \<Rightarrow> string \<Rightarrow> string \<Rightarrow> Service \<Rightarrow> Session res \<times> Service" where
  "Login e username password s =
     (case loginCheck e username password s of
        Inl err \<Rightarrow> (Inl err, s)
      | Inr session \<Rightarrow> (Inr session, loginStore e session s))"

definition ValidateSession :: "auth_env \<Rightarrow> string \<Rightarrow> Service \<Rightarrow> Session option \<times> Service" where
  "ValidateSession e token s =
     (if token = [] then (None, s)
      else case map_of (au_sessions s) token of
        None \<Rightarrow> (None, s)
      | Some session \<Rightarrow>
          if ae_now e 0 \<ge> se_ExpiresAt session then
            (None,
             if ae_now e 1 \<ge> se_ExpiresAt session
             then s\<lparr>au_sessions := mdel token (au_sessions s)\<rparr> else s)
          else (Some session, s))"

definition Logout :: "string \<Rightarrow> Service \<Rightarrow> Service" where
  "Logout token s = s\<lparr>au_sessions := mdel token (au_sessions s)\<rparr>"

definition ListUsers :: "auth_env \<Rightarrow> Service \<Rightarrow> User list res" where
  "ListUsers e s = dbDo e 0 (Inr (sort_key (\<lambda>u. (us_CreatedAt u, us_Username u)) (au_users s)))"

definition DeleteUser :: "auth_env \<Rightarrow> string \<Rightarrow> Service \<Rightarrow> unit res \<times> Service" where
  "DeleteUser e ident s =
     (if ident = [] then (Inl (PlainErr ''user id is required''), s)
      else case dbDo e 0 (Inr (filter (\<lambda>u. us_ID u \<noteq> ident) (au_users s))) of
        Inl err \<Rightarrow> (Inl err, s)
      | Inr users \<Rightarrow>
          if length users = length (au_users s) then (Inl (PlainErr ''user not found''), s)
          else (Inr (), s\<lparr>au_users := users,
                 au_sessions := filter (\<lambda>(tok, session). se_UserID session \<noteq> ident) (au_sessions s)\<rparr>))"

definition GetConfig :: "auth_env \<Rightarrow> Service \<Rightarrow> string \<Rightarrow> (string \<times> bool) res" where
  "GetConfig e s key =
     (if key = [] then Inr ([], False)
      else dbDo e 0 (case map_of (au_config s) key of
                       None \<Rightarrow> Inr ([], False)
                     | Some v \<Rightarrow> Inr (v, True)))"

definition SetConfig :: "auth_env \<Rightarrow> string \<Rightarrow> string \<Rightarrow> Service \<Rightarrow> unit res \<times> Service" where
  "SetConfig e key value s =
     (if key = [] then (Inl (PlainErr ''config key is required''), s)
      else case dbDo e 0 (Inr (mput key value (au_config s))) of
        Inl err \<Rightarrow> (Inl err, s)
      | Inr config \<Rightarrow> (Inr (), s\<lparr>au_config := config\<rparr>))"

section \<open>The invariant\<close>

definition admins :: "User list \<Rightarrow> User list" where
  "admins users = filter (\<lambda>u. us_Role u = RoleAdmin) users"

text \<open>A session is that of an existing user, and its role is the role of that user.\<close>

definition session_ok :: "User list \<Rightarrow> string \<Rightarrow> Session \<Rightarrow> bool" where
  "session_ok users tok session \<longleftrightarrow> se_Token session = tok \<and>
     (\<exists>u \<in> set users. us_ID u = se_UserID session \<and> us_Username u = se_Username session \<and>
        us_Role u = se_Role session)"

definition users_ok :: "Service \<Rightarrow> bool" where
  "users_ok s \<longleftrightarrow> distinct (map us_ID (au_users s)) \<and> distinct (map us_Username (au_users s)) \<and>
     length (admins (au_users s)) \<le> 1 \<and> list_all (\<lambda>u. validRole (us_Role u) \<and> us_Username u \<noteq> []) (au_users s)"

definition auth_ok :: "Service \<Rightarrow> bool" where
  "auth_ok s \<longleftrightarrow> users_ok s \<and> map_ok (au_sessions s) \<and> map_ok (au_config s) \<and>
     (\<forall>(tok, session) \<in> set (au_sessions s). session_ok (au_users s) tok session)"

lemma auth_ok_new: "auth_ok NewMemory"
  by (simp add: auth_ok_def users_ok_def NewMemory_def admins_def)

lemma hasAdmin_iff: "hasAdmin s \<longleftrightarrow> (\<exists>u \<in> set (au_users s). us_Role u = RoleAdmin)"
  by (auto simp: hasAdmin_def list_ex_iff)

lemma dbDo_Inr [simp]: "dbDo e i r = Inr x \<longleftrightarrow> ae_db e i = None \<and> r = Inr x"
  by (simp add: dbDo_def split: option.split)

lemma insertUser_Inr:
  "insertUser u users = Inr users' \<longleftrightarrow> users' = users @ [u] \<and> us_ID u \<notin> us_ID ` set users \<and>
    us_Username u \<notin> us_Username ` set users \<and>
    (us_Role u = RoleAdmin \<longrightarrow> (\<forall>v \<in> set users. us_Role v \<noteq> RoleAdmin))"
  by (auto simp: insertUser_def guard_Inr)

lemma newUser_Inr:
  "newUser e username password role = Inr u \<Longrightarrow>
    us_Username u = username \<and> us_Role u = role \<and> ae_hash e password = Inr (us_PasswordHash u)"
  by (auto simp: newUser_def rbind_Inr_iff)

lemma validateCredentialsInput_Inr:
  "validateCredentialsInput username password = Inr () \<longleftrightarrow> username \<noteq> [] \<and> password \<noteq> []"
  by (simp add: validateCredentialsInput_def)

lemma dbDo_None [simp]: "ae_db e i = None \<Longrightarrow> dbDo e i r = r"
  by (simp add: dbDo_def)

lemma validateCredentialsInput_ok [simp]:
  "name \<noteq> [] \<Longrightarrow> pw \<noteq> [] \<Longrightarrow> validateCredentialsInput name pw = Inr ()"
  by (simp add: validateCredentialsInput_def)

lemma Setup_cases:
  obtains (error) err where "Setup e name pw s = (Inl err, s)"
  | (ok) u where "Setup e name pw s = (Inr u, s\<lparr>au_users := au_users s @ [u]\<rparr>)"
      "newUser e name pw RoleAdmin = Inr u" "insertUser u (au_users s) = Inr (au_users s @ [u])"
      "\<not> hasAdmin s" "name \<noteq> []" "pw \<noteq> []"
proof (cases "fst (Setup e name pw s)")
  case (Inl err)
  then show ?thesis
    using error [of err] by (auto simp: Setup_def split: sum.splits prod.splits)
next
  case (Inr u)
  then obtain users where "newUser e name pw RoleAdmin = Inr u" "insertUser u (au_users s) = Inr users"
    "\<not> hasAdmin s" "name \<noteq> []" "pw \<noteq> []" "Setup e name pw s = (Inr u, s\<lparr>au_users := users\<rparr>)"
    by (auto simp: Setup_def rbind_Inr_iff validateCredentialsInput_Inr guard_Inr
        split: sum.splits prod.splits if_split_asm)
  then show ?thesis
    using ok by (simp add: insertUser_Inr)
qed

lemma CreateUser_cases:
  obtains (error) err where "CreateUser e name pw role s = (Inl err, s)"
  | (ok) u where "CreateUser e name pw role s = (Inr u, s\<lparr>au_users := au_users s @ [u]\<rparr>)"
      "newUser e name pw role = Inr u" "insertUser u (au_users s) = Inr (au_users s @ [u])"
      "validRole role" "name \<noteq> []" "pw \<noteq> []"
proof (cases "fst (CreateUser e name pw role s)")
  case (Inl err)
  then show ?thesis
    using error [of err] by (auto simp: CreateUser_def split: sum.splits prod.splits)
next
  case (Inr u)
  then obtain users where "newUser e name pw role = Inr u" "insertUser u (au_users s) = Inr users"
    "validRole role" "name \<noteq> []" "pw \<noteq> []" "CreateUser e name pw role s = (Inr u, s\<lparr>au_users := users\<rparr>)"
    by (auto simp: CreateUser_def rbind_Inr_iff validateCredentialsInput_Inr guard_Inr
        split: sum.splits prod.splits if_split_asm)
  then show ?thesis
    using ok by (simp add: insertUser_Inr)
qed

lemma auth_ok_insert:
  assumes "auth_ok s" "insertUser u (au_users s) = Inr (au_users s @ [u])" "validRole (us_Role u)"
    "us_Username u \<noteq> []"
  shows "auth_ok (s\<lparr>au_users := au_users s @ [u]\<rparr>)"
proof -
  have "length (admins (au_users s @ [u])) \<le> 1"
  proof (cases "us_Role u = RoleAdmin")
    case True
    then have "admins (au_users s) = []"
      using assms(2) by (simp add: insertUser_Inr admins_def filter_empty_conv)
    then show ?thesis
      by (simp add: admins_def)
  next
    case False
    then show ?thesis
      using assms(1) by (simp add: auth_ok_def users_ok_def admins_def)
  qed
  moreover have "session_ok (au_users s) tok x \<Longrightarrow> session_ok (au_users s @ [u]) tok x" for tok x
    by (auto simp: session_ok_def)
  ultimately show ?thesis
    using assms by (fastforce simp: auth_ok_def users_ok_def insertUser_Inr)
qed

lemma Setup_ok: "auth_ok s \<Longrightarrow> auth_ok (snd (Setup e name pw s))"
  by (cases rule: Setup_cases [of e name pw s])
    (auto intro!: auth_ok_insert dest!: newUser_Inr simp: validRole_def)

lemma CreateUser_ok: "auth_ok s \<Longrightarrow> auth_ok (snd (CreateUser e name pw role s))"
  by (cases rule: CreateUser_cases [of e name pw role s])
    (auto intro!: auth_ok_insert dest!: newUser_Inr)

lemma set_mput: "set (mput k v m) \<subseteq> insert (k, v) (set m)"
  by (induction m) auto

lemma set_mdel: "set (mdel k m) \<subseteq> set m"
  by (induction m) auto

lemma map_ok_filter [simp]: "map_ok m \<Longrightarrow> map_ok (filter P m)"
  by (induction m) (auto simp: map_ok_def)

lemma loginCheck_session:
  assumes "loginCheck e name pw s = Inr session"
  shows "\<exists>u \<in> set (au_users s). us_ID u = se_UserID session \<and> us_Username u = se_Username session \<and>
    us_Role u = se_Role session \<and> us_Username u = name \<and> ae_compare e (us_PasswordHash u) pw"
  using assms
  by (auto simp: loginCheck_def rbind_Inr_iff guard_Inr getUserByUsername_def find_Some_iff in_set_conv_nth
      Let_def split: option.splits) (metis nth_mem)

lemma loginStore_ok:
  assumes "auth_ok s" "session_ok (au_users s) (se_Token session) session"
  shows "auth_ok (loginStore e session s)"
proof -
  let ?kept = "filter (\<lambda>(tok, existing). \<not> ae_now e 0 \<ge> se_ExpiresAt existing) (au_sessions s)"
  have "session_ok (au_users s) tok x" if "(tok, x) \<in> set (mput (se_Token session) session ?kept)" for tok x
    using that set_mput [of "se_Token session" session ?kept] assms by (auto simp: auth_ok_def)
  then show ?thesis
    using assms(1) by (auto simp: auth_ok_def users_ok_def loginStore_def Let_def)
qed

lemma Login_ok: "auth_ok s \<Longrightarrow> auth_ok (snd (Login e name pw s))"
  using loginCheck_session [of e name pw s]
  by (auto simp: Login_def session_ok_def intro!: loginStore_ok split: sum.split) blast?

lemma drop_session_ok: "auth_ok s \<Longrightarrow> auth_ok (s\<lparr>au_sessions := mdel tok (au_sessions s)\<rparr>)"
  using set_mdel [of tok "au_sessions s"] by (auto simp: auth_ok_def users_ok_def)

lemma ValidateSession_ok: "auth_ok s \<Longrightarrow> auth_ok (snd (ValidateSession e tok s))"
  by (auto simp: ValidateSession_def drop_session_ok split: option.split)

lemma Logout_ok: "auth_ok s \<Longrightarrow> auth_ok (Logout tok s)"
  by (simp add: Logout_def drop_session_ok)

lemma DeleteUser_ok:
  assumes "auth_ok s"
  shows "auth_ok (snd (DeleteUser e ident s))"
proof -
  have "session_ok (filter (\<lambda>u. us_ID u \<noteq> ident) (au_users s)) tok x"
    if "session_ok (au_users s) tok x" "se_UserID x \<noteq> ident" for tok x
    using that by (auto simp: session_ok_def)
  moreover have "length (admins (filter (\<lambda>u. us_ID u \<noteq> ident) us)) \<le> length (admins us)" for us
    unfolding admins_def by (induction us) auto
  then have "length (admins (filter (\<lambda>u. us_ID u \<noteq> ident) (au_users s))) \<le> 1"
    using assms unfolding auth_ok_def users_ok_def by (metis le_trans)
  ultimately show ?thesis
    using assms
    by (auto simp: DeleteUser_def auth_ok_def users_ok_def distinct_map_filter map_ok_filter list_all_iff
        split: sum.split)
qed

lemma SetConfig_ok: "auth_ok s \<Longrightarrow> auth_ok (snd (SetConfig e k v s))"
  by (auto simp: SetConfig_def auth_ok_def users_ok_def split: sum.split)

end
