(* ===== verification/KV_Auth_Theorems.thy ===== *)
theory KV_Auth_Theorems
  imports KV_Auth
begin

text \<open>
  The states the user and session service can reach, and its properties: one administrator at most,
  sessions that belong to existing users, expiry and revocation of sessions, and what an
  interleaving of a login with the deletion of its user does.
\<close>

section \<open>Runs\<close>

inductive auth_step :: "Service \<Rightarrow> Service \<Rightarrow> bool" where
  Setup: "auth_step s (snd (Setup e name pw s))"
| CreateUser: "auth_step s (snd (CreateUser e name pw role s))"
| Login: "auth_step s (snd (Login e name pw s))"
| ValidateSession: "auth_step s (snd (ValidateSession e tok s))"
| Logout: "auth_step s (Logout tok s)"
| DeleteUser: "auth_step s (snd (DeleteUser e ident s))"
| SetConfig: "auth_step s (snd (SetConfig e k v s))"

inductive_cases auth_stepE: "auth_step s s'"

definition auth_reachable :: "Service \<Rightarrow> bool" where
  "auth_reachable s \<longleftrightarrow> auth_step\<^sup>*\<^sup>* NewMemory s"

lemma auth_step_ok: "auth_step s s' \<Longrightarrow> auth_ok s \<Longrightarrow> auth_ok s'"
  by (induction rule: auth_step.induct)
    (simp_all add: Setup_ok CreateUser_ok Login_ok ValidateSession_ok Logout_ok DeleteUser_ok SetConfig_ok)

lemma auth_reachable_ok: "auth_reachable s \<Longrightarrow> auth_ok s"
  unfolding auth_reachable_def
  by (induction rule: rtranclp_induct) (auto simp: auth_ok_new dest: auth_step_ok)

lemma auth_reachable_new: "auth_reachable NewMemory"
  by (simp add: auth_reachable_def)

lemma auth_reachable_step: "auth_reachable s \<Longrightarrow> auth_step s s' \<Longrightarrow> auth_reachable s'"
  unfolding auth_reachable_def by (rule rtranclp.rtrancl_into_rtrancl)

section \<open>Lookups\<close>

lemma session_lookup:
  assumes "auth_ok s" "map_of (au_sessions s) tok = Some session"
  shows "session_ok (au_users s) tok session"
  using assms by (auto simp: auth_ok_def dest!: map_of_SomeD)

lemma getUser_unique:
  assumes "auth_ok s" "u \<in> set (au_users s)"
  shows "getUserByUsername s (us_Username u) = Some u"
proof -
  have "List.find (\<lambda>v. us_Username v = us_Username u) us = Some u"
    if "distinct (map us_Username us)" "u \<in> set us" for us
    using that by (induction us) (auto simp: image_iff)
  then show ?thesis
    using assms by (simp add: getUserByUsername_def auth_ok_def users_ok_def)
qed

lemma admin_unique:
  assumes "auth_ok s" "u \<in> set (au_users s)" "v \<in> set (au_users s)" "us_Role u = RoleAdmin" "us_Role v = RoleAdmin"
  shows "u = v"
proof -
  have "u \<in> set (admins (au_users s))" "v \<in> set (admins (au_users s))"
    using assms(2-) by (simp_all add: admins_def)
  moreover have "length (admins (au_users s)) \<le> 1"
    using assms(1) by (simp add: auth_ok_def users_ok_def)
  ultimately show ?thesis
    by (cases "admins (au_users s)") auto
qed

lemma DeleteUser_Inr:
  "DeleteUser e ident s = (Inr (), s') \<Longrightarrow>
    s' = s\<lparr>au_users := filter (\<lambda>u. us_ID u \<noteq> ident) (au_users s),
      au_sessions := filter (\<lambda>(tok, x). se_UserID x \<noteq> ident) (au_sessions s)\<rparr> \<and> ident \<in> us_ID ` set (au_users s)"
proof -
  assume d: "DeleteUser e ident s = (Inr (), s')"
  then have "s' = s\<lparr>au_users := filter (\<lambda>u. us_ID u \<noteq> ident) (au_users s),
      au_sessions := filter (\<lambda>(tok, x). se_UserID x \<noteq> ident) (au_sessions s)\<rparr>"
    and "length (filter (\<lambda>u. us_ID u \<noteq> ident) (au_users s)) \<noteq> length (au_users s)"
    by (auto simp: DeleteUser_def split: if_split_asm sum.splits)
  moreover from this(2) have "\<exists>u \<in> set (au_users s). us_ID u = ident"
    by (metis (mono_tags, lifting) filter_True)
  ultimately show ?thesis
    by auto
qed

lemma map_of_filter_None: "(\<And>v. (k, v) \<in> set m \<Longrightarrow> \<not> P (k, v)) \<Longrightarrow> map_of (filter P m) k = None"
  by (induction m) (auto split: prod.splits)

section \<open>A run for the witnesses\<close>

definition sampleAuth :: "int \<Rightarrow> auth_env" where
  "sampleAuth now = \<lparr>ae_db = (\<lambda>_. None), ae_now = (\<lambda>_. now), ae_rand = (\<lambda>n. Inr (replicate n 5)),
     ae_hash = (\<lambda>pw. Inr (''h:'' @ pw)), ae_compare = (\<lambda>h pw. h = ''h:'' @ pw)\<rparr>"

definition sampleAdmin :: User where
  "sampleAdmin = \<lparr>us_ID = hexEncode (replicate 16 5), us_Username = ''root'', us_PasswordHash = ''h:pw'',
     us_Role = RoleAdmin, us_CreatedAt = 100\<rparr>"

definition sampleService :: Service where
  "sampleService = NewMemory\<lparr>au_users := [sampleAdmin]\<rparr>"

definition sampleSession :: Session where
  "sampleSession = \<lparr>se_Token = hexEncode (replicate 32 5), se_UserID = hexEncode (replicate 16 5),
     se_Username = ''root'', se_Role = RoleAdmin, se_ExpiresAt = 86600\<rparr>"

lemma sample_setup: "Setup (sampleAuth 100) ''root'' ''pw'' NewMemory = (Inr sampleAdmin, sampleService)"
  by (simp add: Setup_def hasAdmin_def NewMemory_def newUser_def generateHex_def sampleAuth_def insertUser_def
      sampleAdmin_def sampleService_def)

lemma sampleService_reachable: "auth_reachable sampleService"
  using auth_reachable_step [OF auth_reachable_new auth_step.Setup [of _ "sampleAuth 100" "''root''" "''pw''"]]
  by (simp add: sample_setup)

lemma sample_check: "loginCheck (sampleAuth 200) ''root'' ''pw'' sampleService = Inr sampleSession"
  by (simp add: loginCheck_def getUserByUsername_def sampleService_def sampleAdmin_def sampleAuth_def
      generateHex_def sampleSession_def add64_def wrap64_def sessionTTL_def)

lemma sample_login: "Login (sampleAuth 200) ''root'' ''pw'' sampleService =
    (Inr sampleSession, loginStore (sampleAuth 200) sampleSession sampleService)"
  by (simp add: Login_def sample_check)

section \<open>Properties\<close>



text \<open>
  C20: a login that succeeds proves the password of an existing user; its session is accepted until 24
  hours later, not a second longer, and an expired session is removed when it is presented; a login
  with a wrong password or an unknown name fails and changes nothing.
\<close>
theorem login_session_lifetime:
  assumes "Login e name pw s = (r, s')" "\<bar>ae_now e 0\<bar> < 2 ^ 62" "\<And>n b. ae_rand e n = Inr b \<Longrightarrow> length b = n"
  shows "(\<forall>session. r = Inr session \<longrightarrow>
      (\<exists>u \<in> set (au_users s). us_Username u = name \<and> ae_compare e (us_PasswordHash u) pw \<and>
         se_UserID session = us_ID u \<and> se_Role session = us_Role u) \<and>
      (ae_now e' 0 < ae_now e 0 + 86400 \<longrightarrow> ValidateSession e' (se_Token session) s' = (Some session, s')) \<and>
      (ae_now e' 0 \<ge> ae_now e 0 + 86400 \<and> ae_now e' 1 \<ge> ae_now e 0 + 86400 \<longrightarrow>
         ValidateSession e' (se_Token session) s' = (None, Logout (se_Token session) s'))) \<and>
    (\<forall>err. r = Inl err \<longrightarrow> s' = s) \<and>
    ((\<forall>u \<in> set (au_users s). us_Username u = name \<longrightarrow> \<not> ae_compare e (us_PasswordHash u) pw) \<longrightarrow> \<not> is_ok r)"
proof (cases "loginCheck e name pw s")
  case (Inl err)
  then have "r = Inl err" "s' = s"
    using assms(1) by (simp_all add: Login_def)
  then show ?thesis
    by simp
next
  case (Inr session)
  have r: "r = Inr session" "s' = loginStore e session s"
    using assms(1) Inr by (auto simp: Login_def)
  obtain u where u: "u \<in> set (au_users s)" "us_ID u = se_UserID session" "us_Role u = se_Role session"
    "us_Username u = name" "ae_compare e (us_PasswordHash u) pw"
    using loginCheck_session [OF Inr] by blast
  have "se_ExpiresAt session = add64 (ae_now e 0) sessionTTL" and tok: "se_Token session \<noteq> []"
    using Inr assms(3) by (fastforce simp: loginCheck_def rbind_Inr_iff guard_Inr Let_def generateHex_def)+
  moreover have "add64 (ae_now e 0) sessionTTL = ae_now e 0 + 86400"
  proof -
    have "int64_ok (ae_now e 0 + 86400)"
      using assms(2) by (auto simp: int64_ok_def abs_less_iff)
    then show ?thesis
      by (simp add: add64_def sessionTTL_def wrap64_id)
  qed
  ultimately have exp: "se_ExpiresAt session = ae_now e 0 + 86400"
    by simp
  have "map_of (au_sessions s') (se_Token session) = Some session"
    by (simp add: r(2) loginStore_def Let_def)
  then show ?thesis
    using r(1) u tok exp by (auto simp: ValidateSession_def Logout_def)
qed

theorem login_session_lifetime_witness:
  "fst (ValidateSession (sampleAuth 86599) (hexEncode (replicate 32 5)) (snd (Login (sampleAuth 200) ''root'' ''pw'' sampleService)))
      = Some sampleSession \<and>
    fst (ValidateSession (sampleAuth 86600) (hexEncode (replicate 32 5)) (snd (Login (sampleAuth 200) ''root'' ''pw'' sampleService)))
      = None"
proof -
  let ?s = "loginStore (sampleAuth 200) sampleSession sampleService"
  have h: "\<bar>ae_now (sampleAuth 200) 0\<bar> < 2 ^ 62" "\<And>n b. ae_rand (sampleAuth 200) n = Inr b \<Longrightarrow> length b = n"
    by (auto simp: sampleAuth_def)
  show ?thesis
    using login_session_lifetime [OF sample_login h, of "sampleAuth 86599"]
      login_session_lifetime [OF sample_login h, of "sampleAuth 86600"]
    by (simp add: sample_login) (simp add: sampleAuth_def sampleSession_def)
qed


definition sampleLoggedIn :: Service where
  "sampleLoggedIn = loginStore (sampleAuth 200) sampleSession sampleService"

lemma sampleLoggedIn_reachable: "auth_reachable sampleLoggedIn"
  using auth_reachable_step [OF sampleService_reachable auth_step.Login [of _ "sampleAuth 200" "''root''" "''pw''"]]
  by (simp add: sample_login sampleLoggedIn_def)

lemma sampleLoggedIn_session: "map_of (au_sessions sampleLoggedIn) (hexEncode (replicate 32 5)) = Some sampleSession"
  "au_users sampleLoggedIn = [sampleAdmin]"
  by (simp_all add: sampleLoggedIn_def loginStore_def sampleService_def NewMemory_def Let_def)
    (simp add: sampleSession_def)


text \<open>
  C22: a login is not one step: a user can be deleted after the password has been checked and before
  the session is stored. The session is then accepted for 24 hours although its user no longer
  exists, because the deletion only removes the sessions that are already there.
\<close>
theorem login_races_with_deletion:
  assumes "auth_reachable s" "loginCheck e name pw s = Inr session" "DeleteUser e' (se_UserID session) s = (Inr (), s')"
    "ae_now e'' 0 < se_ExpiresAt session" "se_Token session \<noteq> []"
  shows "fst (ValidateSession e'' (se_Token session) (loginStore e session s')) = Some session \<and>
    se_UserID session \<notin> us_ID ` set (au_users (loginStore e session s'))"
  using assms(4,5) conjunct1 [OF DeleteUser_Inr [OF assms(3)]]
  by (auto simp: ValidateSession_def loginStore_def Let_def)

theorem login_races_with_deletion_witness:
  "fst (ValidateSession (sampleAuth 300) (hexEncode (replicate 32 5)) (loginStore (sampleAuth 200) sampleSession
     (snd (DeleteUser (sampleAuth 250) (us_ID sampleAdmin) sampleService)))) = Some sampleSession"
proof -
  have i: "se_UserID sampleSession = us_ID sampleAdmin"
    by (simp add: sampleSession_def sampleAdmin_def)
  obtain s' where d: "DeleteUser (sampleAuth 250) (se_UserID sampleSession) sampleService = (Inr (), s')"
    by (simp add: DeleteUser_def sampleService_def sampleAuth_def sampleAdmin_def sampleSession_def)
  show ?thesis
    using login_races_with_deletion [OF sampleService_reachable sample_check d, of "sampleAuth 300"] d i
    by (simp add: sampleAuth_def) (simp add: sampleSession_def)
qed

text \<open>
  C23: the service can be set up exactly once: setting up succeeds only without an administrator and
  makes the only one; as long as an administrator exists, setting up again and creating a second
  administrator fail and change nothing. Deleting the administrator opens the setup again.
\<close>
theorem single_setup:
  assumes "auth_reachable s"
  shows "(Setup e name pw s = (Inr u, s') \<longrightarrow> \<not> hasAdmin s \<and> hasAdmin s' \<and> admins (au_users s') = [u]) \<and>
    (hasAdmin s \<longrightarrow> \<not> is_ok (fst (Setup e name pw s)) \<and> snd (Setup e name pw s) = s \<and>
       \<not> is_ok (fst (CreateUser e name pw RoleAdmin s)) \<and> snd (CreateUser e name pw RoleAdmin s) = s) \<and>
    (a \<in> set (au_users s) \<and> us_Role a = RoleAdmin \<and> DeleteUser e (us_ID a) s = (Inr (), s') \<longrightarrow> \<not> hasAdmin s')"
proof (intro conjI impI)
  assume set_up: "Setup e name pw s = (Inr u, s')"
  then have n: "\<not> hasAdmin s" and s': "s' = s\<lparr>au_users := au_users s @ [u]\<rparr>" and "us_Role u = RoleAdmin"
    by (cases rule: Setup_cases [of e name pw s]; auto dest: newUser_Inr)+
  then show "\<not> hasAdmin s" "hasAdmin s'" "admins (au_users s') = [u]"
    by (auto simp: hasAdmin_iff admins_def filter_empty_conv)
next
  assume a: "hasAdmin s"
  then show "\<not> is_ok (fst (Setup e name pw s))" "snd (Setup e name pw s) = s"
    by (cases rule: Setup_cases [of e name pw s]; simp)+
  have "\<not> (\<exists>u. insertUser u (au_users s) = Inr (au_users s @ [u]) \<and> us_Role u = RoleAdmin)"
    using a by (auto simp: insertUser_Inr hasAdmin_iff)
  then show "\<not> is_ok (fst (CreateUser e name pw RoleAdmin s))" "snd (CreateUser e name pw RoleAdmin s) = s"
    by (cases rule: CreateUser_cases [of e name pw RoleAdmin s]; auto dest: newUser_Inr)+
next
  assume a: "a \<in> set (au_users s) \<and> us_Role a = RoleAdmin \<and> DeleteUser e (us_ID a) s = (Inr (), s')"
  then have "us_Role v \<noteq> RoleAdmin" if "v \<in> set (au_users s')" for v
    using that DeleteUser_Inr [of e "us_ID a" s s'] admin_unique [OF auth_reachable_ok [OF assms]] by fastforce
  then show "\<not> hasAdmin s'"
    by (auto simp: hasAdmin_iff)
qed

theorem single_setup_witness:
  "\<not> is_ok (fst (Setup (sampleAuth 500) ''eve'' ''pw'' sampleService)) \<and>
    admins (au_users (snd (Setup (sampleAuth 100) ''root'' ''pw'' NewMemory))) = [sampleAdmin]"
proof -
  have "hasAdmin sampleService"
    by (simp add: hasAdmin_def sampleService_def sampleAdmin_def)
  then show ?thesis
    using single_setup [OF sampleService_reachable, of "sampleAuth 500" "''eve''" "''pw''"]
      single_setup [OF auth_reachable_new, of "sampleAuth 100" "''root''" "''pw''" sampleAdmin sampleService]
      sample_setup by simp
qed

end
