(* ===== verification/KV_Url.thy ===== *)
theory KV_Url
  imports KV_Encoding
begin

text \<open>
  The parts of the Go packages net/url, net and path that the HTTP handlers use: percent-encoding,
  query strings as ordered multi-maps, splitting a host from its port, and cleaning a path. The
  query string that \<open>valuesEncode\<close> writes is read back by \<open>parseQuery\<close>.
\<close>

section \<open>Percent-encoding\<close>

definition unreserved :: "char \<Rightarrow> bool" where
  "unreserved c \<longleftrightarrow>
     (let n = (of_char c :: nat) in
      (48 \<le> n \<and> n \<le> 57) \<or> (65 \<le> n \<and> n \<le> 90) \<or> (97 \<le> n \<and> n \<le> 122) \<or>
      c = CHR ''-'' \<or> c = CHR ''_'' \<or> c = CHR ''.'' \<or> c = CHR ''~'')"

definition upperhex :: "nat \<Rightarrow> char" where
  "upperhex n = char_of (if n < 10 then 48 + n else 55 + n)"

definition queryEscapeChar :: "char \<Rightarrow> string" where
  "queryEscapeChar c =
     (if unreserved c then [c]
      else if c = CHR '' '' then [CHR ''+'']
      else [CHR ''%'', upperhex (of_char c div 16), upperhex (of_char c mod 16)])"

definition queryEscape :: "string \<Rightarrow> string" where
  "queryEscape s = concat (map queryEscapeChar s)"

text \<open>\<open>unescape\<close> in the mode of a query component (a plus sign is a space) or of a path segment.\<close>

fun unescape :: "bool \<Rightarrow> string \<Rightarrow> string option" where
  "unescape query [] = Some []"
| "unescape query (c # s) =
     (if c = CHR ''%'' then
        (case s of
           a # b # t \<Rightarrow>
             (case (hexval a, hexval b) of
                (Some x, Some y) \<Rightarrow> map_option (\<lambda>r. char_of (16 * x + y) # r) (unescape query t)
              | _ \<Rightarrow> None)
         | _ \<Rightarrow> None)
      else map_option (\<lambda>r. (if query \<and> c = CHR ''+'' then CHR '' '' else c) # r) (unescape query s))"

definition queryUnescape :: "string \<Rightarrow> string option" where
  "queryUnescape s = unescape True s"

text \<open>The matcher of routes keeps a segment that is not well encoded as it is.\<close>

definition pathUnescape :: "string \<Rightarrow> string" where
  "pathUnescape s = (case unescape False s of None \<Rightarrow> s | Some t \<Rightarrow> t)"

section \<open>Query strings\<close>

type_synonym Values = "(string, string list) gomap"

definition valuesGet :: "Values \<Rightarrow> string \<Rightarrow> string" where
  "valuesGet vs key = (case map_of vs key of Some (v # _) \<Rightarrow> v | _ \<Rightarrow> [])"

definition valuesSet :: "string \<Rightarrow> string \<Rightarrow> Values \<Rightarrow> Values" where
  "valuesSet key value vs = mput key [value] vs"

definition valuesAdd :: "string \<times> string \<Rightarrow> Values \<Rightarrow> Values" where
  "valuesAdd kv vs = mput (fst kv) ((case map_of vs (fst kv) of None \<Rightarrow> [] | Some old \<Rightarrow> old) @ [snd kv]) vs"

text \<open>\<open>strings.Cut\<close> at the first occurrence of a character.\<close>

definition cutAt :: "char \<Rightarrow> string \<Rightarrow> string \<times> string" where
  "cutAt c s = (takeWhile (\<lambda>x. x \<noteq> c) s, drop 1 (dropWhile (\<lambda>x. x \<noteq> c) s))"

text \<open>One setting of a query string; a malformed one is skipped.\<close>

definition querySetting :: "string \<Rightarrow> (string \<times> string) option" where
  "querySetting piece =
     (if CHR '';'' \<in> set piece \<or> piece = [] then None
      else
        (let (k, v) = cutAt (CHR ''='') piece
         in case (queryUnescape k, queryUnescape v) of
              (Some key, Some value) \<Rightarrow> Some (key, value)
            | _ \<Rightarrow> None))"

definition parseQuery :: "string \<Rightarrow> Values" where
  "parseQuery query = fold valuesAdd (List.map_filter querySetting (splitOn (CHR ''&'') query)) []"

fun joinWith :: "string \<Rightarrow> string list \<Rightarrow> string" where
  "joinWith sep [] = []"
| "joinWith sep [x] = x"
| "joinWith sep (x # y # r) = x @ sep @ joinWith sep (y # r)"

definition valuesPairs :: "Values \<Rightarrow> (string \<times> string) list" where
  "valuesPairs vs =
     concat (map (\<lambda>k. map (Pair k) (case map_of vs k of None \<Rightarrow> [] | Some l \<Rightarrow> l)) (sort (mkeys vs)))"

definition valuesEncode :: "Values \<Rightarrow> string" where
  "valuesEncode vs =
     joinWith ''&'' (map (\<lambda>(k, v). queryEscape k @ ''='' @ queryEscape v) (valuesPairs vs))"

section \<open>Hosts and paths\<close>

text \<open>
  \<open>net.SplitHostPort\<close>, of which only the host is used: the port starts after the last colon, the
  host may stand in square brackets.
\<close>

definition indexOf :: "char \<Rightarrow> string \<Rightarrow> nat option" where
  "indexOf c s = (let n = length (takeWhile (\<lambda>x. x \<noteq> c) s) in if n < length s then Some n else None)"

definition lastIndexOf :: "char \<Rightarrow> string \<Rightarrow> nat option" where
  "lastIndexOf c s = map_option (\<lambda>n. length s - 1 - n) (indexOf c (rev s))"

definition splitHostPort :: "string \<Rightarrow> string option" where
  "splitHostPort hp =
     (case lastIndexOf (CHR '':'') hp of
        None \<Rightarrow> None
      | Some i \<Rightarrow>
          if hp ! 0 = CHR ''['' then
            (case indexOf (CHR '']'') hp of
               None \<Rightarrow> None
             | Some e \<Rightarrow>
                 if e + 1 = length hp \<or> e + 1 \<noteq> i then None
                 else if CHR ''['' \<in> set (drop 1 hp) \<or> CHR '']'' \<in> set (drop (e + 1) hp) then None
                 else Some (drop 1 (take e hp)))
          else if CHR '':'' \<in> set (take i hp) \<or> CHR ''['' \<in> set hp \<or> CHR '']'' \<in> set hp then None
          else Some (take i hp))"

text \<open>The segments of a path that begins with a slash, and \<open>cleanPath\<close> of net/http on such paths.\<close>

definition pathSegs :: "string \<Rightarrow> string list" where
  "pathSegs p = tl (splitOn (CHR ''/'') p)"

definition cleanSegs :: "string list \<Rightarrow> string list" where
  "cleanSegs segs =
     fold (\<lambda>x acc. if x = [] \<or> x = ''.'' then acc else if x = ''..'' then butlast acc else acc @ [x]) segs []"

definition cleanPath :: "string \<Rightarrow> string" where
  "cleanPath p =
     (if p = [] then ''/''
      else
        (let p = (if hd p \<noteq> CHR ''/'' then CHR ''/'' # p else p);
             np = CHR ''/'' # joinWith ''/'' (cleanSegs (pathSegs p))
         in if last p = CHR ''/'' \<and> np \<noteq> ''/'' then np @ ''/'' else np))"

section \<open>What is encoded is decoded\<close>

lemma hexval_upperhex: "n < 16 \<Longrightarrow> hexval (upperhex n) = Some n"
  by (simp add: hexval_def upperhex_def Let_def)

lemma unreserved_plain: "unreserved c \<Longrightarrow> c \<notin> {CHR ''%'', CHR ''+'', CHR ''&'', CHR ''='', CHR '';''}"
  by (auto simp: unreserved_def Let_def)

lemma upperhex_plain: "n < 16 \<Longrightarrow> unreserved (upperhex n)"
  by (auto simp: unreserved_def upperhex_def Let_def)

lemma of_char_div16: "(of_char c :: nat) div 16 < 16" "(of_char c :: nat) mod 16 < 16"
  using nat_of_char_less_256 [of c] by (simp_all add: less_mult_imp_div_less)

lemma queryEscapeChar_set: "x \<in> set (queryEscapeChar c) \<Longrightarrow> x \<notin> {CHR ''&'', CHR ''='', CHR '';''}"
  using unreserved_plain upperhex_plain of_char_div16 [of c]
  by (auto simp: queryEscapeChar_def split: if_split_asm)

lemma queryEscape_set: "x \<in> set (queryEscape s) \<Longrightarrow> x \<notin> {CHR ''&'', CHR ''='', CHR '';''}"
  unfolding queryEscape_def using queryEscapeChar_set by fastforce

lemma unescape_queryEscapeChar:
  "unescape True (queryEscapeChar c @ s) = map_option ((#) c) (unescape True s)"
proof -
  have "char_of (16 * ((of_char c :: nat) div 16) + of_char c mod 16) = c"
    by simp
  then show ?thesis
    using unreserved_plain [of c] of_char_div16 [of c]
    by (auto simp: queryEscapeChar_def hexval_upperhex)
qed

lemma queryUnescape_queryEscape [simp]: "queryUnescape (queryEscape s) = Some s"
  unfolding queryUnescape_def queryEscape_def
  by (induction s) (simp_all add: unescape_queryEscapeChar)

lemma querySetting_pair: "querySetting (queryEscape k @ ''='' @ queryEscape v) = Some (k, v)"
proof -
  have "cutAt (CHR ''='') (queryEscape k @ ''='' @ queryEscape v) = (queryEscape k, queryEscape v)"
    using queryEscape_set [of _ k] by (auto simp: cutAt_def takeWhile_append dropWhile_append)
  moreover have "CHR '';'' \<notin> set (queryEscape k @ ''='' @ queryEscape v)"
    using queryEscape_set [of _ k] queryEscape_set [of _ v] by auto
  ultimately show ?thesis
    by (simp add: querySetting_def)
qed

lemma querySetting_pairs:
  "List.map_filter querySetting (map (\<lambda>(k, v). queryEscape k @ ''='' @ queryEscape v) ps) = ps"
  by (induction ps) (auto simp: List.map_filter_simps querySetting_pair [simplified])

lemma splitOn_joinWith:
  "ps \<noteq> [] \<Longrightarrow> \<forall>p \<in> set ps. c \<notin> set p \<Longrightarrow> splitOn c (joinWith [c] ps) = ps"
  by (induction "[c]" ps rule: joinWith.induct) (simp_all add: splitOn_plain splitOn_append_sep)

lemma parseQuery_valuesEncode: "parseQuery (valuesEncode vs) = fold valuesAdd (valuesPairs vs) []"
proof (cases "valuesPairs vs = []")
  case True
  then show ?thesis
    by (simp add: parseQuery_def valuesEncode_def querySetting_def List.map_filter_def)
next
  case False
  let ?ps = "map (\<lambda>(k, v). queryEscape k @ ''='' @ queryEscape v) (valuesPairs vs)"
  have "\<forall>p \<in> set ?ps. CHR ''&'' \<notin> set p"
    using queryEscape_set by (fastforce split: prod.splits)
  then have "splitOn (CHR ''&'') (valuesEncode vs) = ?ps"
    using False by (simp add: valuesEncode_def splitOn_joinWith)
  moreover have "List.map_filter querySetting ?ps = valuesPairs vs"
    by (rule querySetting_pairs)
  ultimately show ?thesis
    by (simp add: parseQuery_def)
qed

lemma map_of_valuesAdd:
  "map_of (valuesAdd (k, v) vs) key =
    (if key = k then Some ((case map_of vs k of None \<Rightarrow> [] | Some old \<Rightarrow> old) @ [v]) else map_of vs key)"
  by (simp add: valuesAdd_def map_of_mput)

lemma map_of_fold_valuesAdd:
  "map_of (fold valuesAdd ps vs) key =
    (let l = map snd (filter (\<lambda>p. fst p = key) ps)
     in if l = [] then map_of vs key else Some ((case map_of vs key of None \<Rightarrow> [] | Some old \<Rightarrow> old) @ l))"
proof (induction ps arbitrary: vs)
  case (Cons p ps)
  then show ?case
    by (cases p) (auto simp: map_of_valuesAdd Let_def split: option.split)
qed simp

lemma filter_Pair: "filter (\<lambda>p. fst p = key) (map (Pair a) l) = (if a = key then map (Pair a) l else [])"
  by (induction l) auto

lemma filter_pairs:
  "distinct ks \<Longrightarrow> map snd (filter (\<lambda>p. fst p = key) (concat (map (\<lambda>k. map (Pair k) (f k)) ks))) =
    (if key \<in> set ks then f key else [])"
  by (induction ks) (auto simp: comp_def filter_Pair)

text \<open>Decoding a written query gives the same multi-map, except that keys without a value are gone.\<close>

lemma parseQuery_valuesEncode_lookup:
  assumes "map_ok vs"
  shows "map_of (parseQuery (valuesEncode vs)) key =
    (case map_of vs key of None \<Rightarrow> None | Some l \<Rightarrow> if l = [] then None else Some l)"
proof -
  have "map snd (filter (\<lambda>p. fst p = key) (valuesPairs vs)) = (case map_of vs key of None \<Rightarrow> [] | Some l \<Rightarrow> l)"
    using assms unfolding valuesPairs_def
    by (subst filter_pairs) (auto simp: map_ok_def mkeys_def split: option.split dest: map_of_SomeD intro: rev_image_eqI)
  then show ?thesis
    by (simp add: parseQuery_valuesEncode map_of_fold_valuesAdd Let_def split: option.split)
qed

lemma valuesGet_parseQuery_valuesEncode:
  "map_ok vs \<Longrightarrow> valuesGet (parseQuery (valuesEncode vs)) key = valuesGet vs key"
  by (auto simp: valuesGet_def parseQuery_valuesEncode_lookup split: option.split list.split)

lemma map_ok_parseQuery: "map_ok (parseQuery q)"
proof -
  have "map_ok vs \<Longrightarrow> map_ok (fold valuesAdd ps vs)" for ps vs
    by (induction ps arbitrary: vs) (simp_all add: valuesAdd_def)
  then show ?thesis
    by (simp add: parseQuery_def)
qed

lemma valuesGet_valuesSet: "valuesGet (valuesSet k v vs) key = (if key = k then v else valuesGet vs key)"
  by (simp add: valuesGet_def valuesSet_def map_of_mput)

section \<open>Paths without special characters\<close>

text \<open>A segment that is its own encoding and that cleaning leaves alone.\<close>

definition plainSeg :: "string \<Rightarrow> bool" where
  "plainSeg x \<longleftrightarrow> x \<noteq> [] \<and> x \<noteq> ''.'' \<and> x \<noteq> ''..'' \<and> list_all unreserved x"

lemma plainSeg_chars: "plainSeg x \<Longrightarrow> c \<in> set x \<Longrightarrow> c \<noteq> CHR ''/'' \<and> c \<noteq> CHR ''%''"
  using unreserved_plain by (fastforce simp: plainSeg_def list_all_iff unreserved_def Let_def)

lemma unescape_plain: "\<forall>c \<in> set s. c \<noteq> CHR ''%'' \<Longrightarrow> unescape False s = Some s"
  by (induction s) auto

lemma pathUnescape_plain [simp]: "plainSeg x \<Longrightarrow> pathUnescape x = x"
  using plainSeg_chars [of x] by (simp add: pathUnescape_def unescape_plain)

lemma pathSegs_join:
  "xs \<noteq> [] \<Longrightarrow> \<forall>x \<in> set xs. CHR ''/'' \<notin> set x \<Longrightarrow> pathSegs (CHR ''/'' # joinWith ''/'' xs) = xs"
  by (simp add: pathSegs_def splitOn_joinWith)

lemma cleanSegs_plain:
  assumes "\<forall>x \<in> set xs. plainSeg x"
  shows "cleanSegs xs = xs"
proof -
  have "fold (\<lambda>x acc. if x = [] \<or> x = ''.'' then acc else if x = ''..'' then butlast acc else acc @ [x]) xs acc
      = acc @ xs" for acc
    using assms by (induction xs arbitrary: acc) (auto simp: plainSeg_def)
  then show ?thesis
    by (simp add: cleanSegs_def)
qed

lemma joinWith_neq_Nil: "xs \<noteq> [] \<Longrightarrow> last xs \<noteq> [] \<Longrightarrow> joinWith sep xs \<noteq> []"
  by (induction sep xs rule: joinWith.induct) auto

lemma last_joinWith: "xs \<noteq> [] \<Longrightarrow> last xs \<noteq> [] \<Longrightarrow> last (joinWith sep xs) = last (last xs)"
  by (induction sep xs rule: joinWith.induct) (simp_all add: joinWith_neq_Nil last_append)

lemma cleanPath_plain:
  assumes "xs \<noteq> []" "\<forall>x \<in> set xs. plainSeg x"
  shows "cleanPath (CHR ''/'' # joinWith ''/'' xs) = CHR ''/'' # joinWith ''/'' xs"
proof -
  have sl: "\<forall>x \<in> set xs. CHR ''/'' \<notin> set x" and l: "last xs \<noteq> []" "plainSeg (last xs)"
    using assms plainSeg_chars by (auto simp: plainSeg_def)
  have "last (CHR ''/'' # joinWith ''/'' xs) = last (last xs)"
    using assms(1) l(1) joinWith_neq_Nil [of xs "''/''"] last_joinWith [of xs "''/''"] by simp
  then have "last (CHR ''/'' # joinWith ''/'' xs) \<noteq> CHR ''/''"
    using plainSeg_chars [OF l(2), of "last (last xs)"] l(1) by simp
  then show ?thesis
    using assms sl by (simp add: cleanPath_def pathSegs_join cleanSegs_plain Let_def)
qed

end
