(* ===== verification/KV_Http.thy ===== *)
theory KV_Http
  imports KV_Url
begin

text \<open>
  The parts of net/http that the handlers use: requests, responses, and the routing of
  \<open>http.ServeMux\<close> over a table of patterns. A request keeps its path both as it was sent (escaped)
  and decoded. The method CONNECT, for which the multiplexer does not clean the path, is not
  treated apart.
\<close>

section \<open>Requests and responses\<close>

record Request =
  rq_Method :: string
  rq_Path :: string
  rq_EscapedPath :: string
  rq_RawQuery :: string
  rq_Host :: string
  rq_TLS :: bool
  rq_Header :: "(string, string) gomap"
  rq_Cookies :: "(string, string) gomap"
  rq_Body :: "string option"

definition headerGet :: "Request \<Rightarrow> string \<Rightarrow> string" where
  "headerGet r key = (case map_of (rq_Header r) key of None \<Rightarrow> [] | Some v \<Rightarrow> v)"

definition queryOf :: "Request \<Rightarrow> Values" where
  "queryOf r = parseQuery (rq_RawQuery r)"

text \<open>
  What a handler sends: a status, the cookies it sets (name, value, expiry) and a body; or a redirect
  of the multiplexer; or nothing, because the handler panicked and the server closed the connection.
\<close>

datatype 'b Response =
    Response int "(string \<times> string \<times> int) list" "'b option"
  | Redirect string
  | Aborted string

section \<open>Patterns\<close>

text \<open>
  A pattern is a method, if it has one, and the segments of a path: a literal, a wildcard for one
  non-empty segment, or, for a pattern that ends in a slash, the rest of the path.
\<close>

datatype Seg = Lit string | Wild | Multi

record Pattern =
  pt_Method :: "string option"
  pt_Segs :: "Seg list"

fun parseSegs :: "string list \<Rightarrow> Seg list" where
  "parseSegs [] = []"
| "parseSegs [x] = [if x = [] then Multi else if hd x = CHR ''{'' then Wild else Lit x]"
| "parseSegs (x # y # r) = (if x \<noteq> [] \<and> hd x = CHR ''{'' then Wild else Lit x) # parseSegs (y # r)"

definition parsePattern :: "string \<Rightarrow> Pattern" where
  "parsePattern s =
     (if CHR '' '' \<in> set s then
        (let (m, p) = cutAt (CHR '' '') s in \<lparr>pt_Method = Some m, pt_Segs = parseSegs (pathSegs p)\<rparr>)
      else \<lparr>pt_Method = None, pt_Segs = parseSegs (pathSegs s)\<rparr>)"

text \<open>Matching the segments of an escaped path gives the values of the wildcards.\<close>

fun matchSegs :: "Seg list \<Rightarrow> string list \<Rightarrow> string list option" where
  "matchSegs [] [] = Some []"
| "matchSegs [Multi] (x # xs) = Some []"
| "matchSegs (Lit a # ps) (x # xs) = (if pathUnescape x = a \<and> a \<noteq> [] then matchSegs ps xs else None)"
| "matchSegs (Wild # ps) (x # xs) =
     (if x = [] then None else map_option ((#) (pathUnescape x)) (matchSegs ps xs))"
| "matchSegs _ _ = None"

text \<open>
  Of the patterns that match, the tree search of the multiplexer finds the one that prefers, segment
  by segment, a literal to a wildcard and a wildcard to the rest of the path.
\<close>

definition segRank :: "Seg \<Rightarrow> nat" where
  "segRank p = (case p of Lit _ \<Rightarrow> 0 | Wild \<Rightarrow> 1 | Multi \<Rightarrow> 2)"

definition preferred :: "Pattern \<Rightarrow> Pattern \<Rightarrow> bool" where
  "preferred p q \<longleftrightarrow> map segRank (pt_Segs p) \<le> map segRank (pt_Segs q)"

type_synonym 'h routes = "(Pattern \<times> 'h) list"

fun bestRoute :: "'h routes \<Rightarrow> (Pattern \<times> 'h) option" where
  "bestRoute [] = None"
| "bestRoute (x # xs) =
     (case bestRoute xs of
        None \<Rightarrow> Some x
      | Some y \<Rightarrow> if preferred (fst x) (fst y) then Some x else Some y)"

definition matching :: "'h routes \<Rightarrow> string option \<Rightarrow> string list \<Rightarrow> (Pattern \<times> 'h) option" where
  "matching routes m segs =
     bestRoute (filter (\<lambda>(p, _). pt_Method p = m \<and> matchSegs (pt_Segs p) segs \<noteq> None) routes)"

text \<open>
  The method of the request first; GET patterns also serve HEAD; then the patterns for every
  method.
\<close>

definition muxMatch :: "'h routes \<Rightarrow> string \<Rightarrow> string list \<Rightarrow> (Pattern \<times> 'h) option" where
  "muxMatch routes method segs =
     (case matching routes (Some method) segs of
        Some x \<Rightarrow> Some x
      | None \<Rightarrow>
          (case (if method = ''HEAD'' then matching routes (Some ''GET'') segs else None) of
             Some x \<Rightarrow> Some x
           | None \<Rightarrow> matching routes None segs))"

definition exactMatch :: "Pattern \<Rightarrow> string list \<Rightarrow> bool" where
  "exactMatch p segs \<longleftrightarrow>
     (pt_Segs p = [] \<or> last (pt_Segs p) \<noteq> Multi \<or> (last segs = [] \<and> length segs = length (pt_Segs p)))"

definition endsInSlash :: "string \<Rightarrow> bool" where
  "endsInSlash p \<longleftrightarrow> p \<noteq> [] \<and> last p = CHR ''/''"

datatype 'h Dispatch = Handle 'h "string list" | RedirectTo string | Unmatched

definition findHandler :: "'h routes \<Rightarrow> Request \<Rightarrow> 'h Dispatch" where
  "findHandler routes r =
     (let path = cleanPath (rq_EscapedPath r);
          segs = pathSegs path;
          n = muxMatch routes (rq_Method r) segs;
          exact = (case n of None \<Rightarrow> False | Some (p, _) \<Rightarrow> exactMatch p segs);
          slashed = (case muxMatch routes (rq_Method r) (segs @ [[]]) of
                       None \<Rightarrow> False | Some (p, _) \<Rightarrow> exactMatch p (segs @ [[]]))
      in if \<not> exact \<and> \<not> endsInSlash path \<and> slashed then RedirectTo (path @ ''/'')
         else if path \<noteq> rq_EscapedPath r then RedirectTo path
         else case n of
                None \<Rightarrow> Unmatched
              | Some (p, h) \<Rightarrow> Handle h (case matchSegs (pt_Segs p) segs of None \<Rightarrow> [] | Some ws \<Rightarrow> ws))"

section \<open>What routing guarantees\<close>

lemma bestRoute_in: "bestRoute xs = Some x \<Longrightarrow> x \<in> set xs"
  by (induction xs arbitrary: x) (auto split: option.split_asm if_split_asm)

lemma bestRoute_None: "bestRoute xs = None \<longleftrightarrow> xs = []"
  by (cases xs) (auto split: option.split)

lemma bestRoute_preferred: "bestRoute xs = Some x \<Longrightarrow> y \<in> set xs \<Longrightarrow> preferred (fst x) (fst y)"
proof (induction xs arbitrary: x)
  case (Cons a xs)
  then show ?case
    by (cases "bestRoute xs") (auto simp: bestRoute_None preferred_def split: if_split_asm)
qed simp

lemma matching_in:
  "matching routes m segs = Some (p, h) \<Longrightarrow>
    (p, h) \<in> set routes \<and> pt_Method p = m \<and> matchSegs (pt_Segs p) segs \<noteq> None"
  unfolding matching_def by (drule bestRoute_in) auto

text \<open>A handler only runs for a request whose path matches one of its patterns, with its method.\<close>

lemma findHandler_sound:
  assumes "findHandler routes r = Handle h ws"
  obtains p where "(p, h) \<in> set routes"
    "pt_Method p = None \<or> pt_Method p = Some (rq_Method r) \<or> (pt_Method p = Some ''GET'' \<and> rq_Method r = ''HEAD'')"
    "matchSegs (pt_Segs p) (pathSegs (rq_EscapedPath r)) = Some ws"
proof -
  let ?segs = "pathSegs (rq_EscapedPath r)"
  obtain p where p: "muxMatch routes (rq_Method r) ?segs = Some (p, h)"
    "ws = (case matchSegs (pt_Segs p) ?segs of None \<Rightarrow> [] | Some ws \<Rightarrow> ws)"
    using assms by (auto simp: findHandler_def Let_def split: if_split_asm option.split_asm)
  then have "(p, h) \<in> set routes \<and> matchSegs (pt_Segs p) ?segs \<noteq> None \<and>
      (pt_Method p = None \<or> pt_Method p = Some (rq_Method r) \<or> (pt_Method p = Some ''GET'' \<and> rq_Method r = ''HEAD''))"
    by (auto simp: muxMatch_def dest: matching_in split: option.split_asm if_split_asm)
  with p(2) show ?thesis
    by (intro that [of p]) auto
qed

end
