(* ===== verification/KV_Handler.thy ===== *)
theory KV_Handler
  imports KV_Http KV_Storer
begin

text \<open>
  \<open>src/internal/handler/handler.go\<close>: what all the handlers of the Key Vault API share. A response
  body is kept as the Go value that is encoded. Decoding a request body with encoding/json is the
  record \<open>decoders\<close>, with one function per request type, from the text of the body to the value or
  the text of the error.
\<close>

section \<open>Bodies\<close>

datatype Body =
    StatusBody string
  | ErrorBody KeyVaultError
  | ValueBody string
  | SecretBody SecretBundle
  | SecretItems "SecretItem ListResult"
  | DeletedSecretBody DeletedSecretBundle
  | DeletedSecrets "DeletedSecretBundle ListResult"
  | KeyBody KeyBundle
  | KeyItems "KeyItem ListResult"
  | DeletedKeyBody DeletedKeyBundle
  | DeletedKeys "DeletedKeyBundle ListResult"
  | CryptoBody CryptoResponse
  | VerifyBody VerifyResponse
  | CertificateBody CertificateBundle
  | CertificateItems "CertificateItem ListResult"
  | DeletedCertificateBody DeletedCertificateBundle
  | DeletedCertificates "DeletedCertificateBundle ListResult"
  | PolicyBody "CertificatePolicy option"
  | OperationBody CertificateOperation

type_synonym 'q decoder = "string \<Rightarrow> string + 'q"

record decoders =
  de_SecretSet :: "SecretSetRequest decoder"
  de_SecretUpdate :: "SecretUpdateRequest decoder"
  de_Restore :: "string decoder"
  de_CreateKey :: "CreateKeyRequest decoder"
  de_ImportKey :: "ImportKeyRequest decoder"
  de_UpdateKey :: "UpdateKeyRequest decoder"
  de_Encrypt :: "EncryptRequest decoder"
  de_Sign :: "SignRequest decoder"
  de_Verify :: "VerifyRequest decoder"
  de_CreateCertificate :: "CreateCertificateRequest decoder"
  de_ImportCertificate :: "ImportCertificateRequest decoder"
  de_UpdateCertificate :: "UpdateCertificateRequest decoder"

type_synonym reply = "Body Response"

section \<open>Requests\<close>

definition parseBody :: "'q decoder \<Rightarrow> Request \<Rightarrow> string + 'q" where
  "parseBody decode r =
     (case rq_Body r of None \<Rightarrow> Inl ''request body is required'' | Some text \<Rightarrow> decode text)"

definition vaultBaseURL :: "Request \<Rightarrow> string" where
  "vaultBaseURL r =
     (let host = (case splitHostPort (rq_Host r) of Some parsed \<Rightarrow> parsed | None \<Rightarrow> rq_Host r);
          host = (if host = [] \<or> \<not> contains host ''.vault.'' then ''emulator'' else host);
          forwarded = headerGet r ''X-Forwarded-Proto'';
          scheme = (if rq_TLS r then ''https'' else if forwarded \<noteq> [] then forwarded else ''http'')
      in scheme @ ''://'' @ host)"

definition maxResultsError :: "string \<Rightarrow> goerr" where
  "maxResultsError what = newError 400 ''BadParameter'' (''The provided '' @ what @ '' value is invalid.'')"

definition parseMaxResults :: "string \<Rightarrow> string \<Rightarrow> int res" where
  "parseMaxResults what raw =
     (case atoi raw of
        None \<Rightarrow> Inl (maxResultsError what)
      | Some parsed \<Rightarrow> if parsed \<le> 0 then Inl (maxResultsError what) else Inr parsed)"

definition parsePagination :: "Request \<Rightarrow> (int \<times> string) res" where
  "parsePagination r =
     (let query = queryOf r; raw = valuesGet query ''$maxresults''
      in rbind (if raw = [] then
                  (let raw = valuesGet query ''maxresults''
                   in if raw \<noteq> [] then parseMaxResults ''maxresults'' raw else Inr 25)
                else parseMaxResults ''$maxresults'' raw) (\<lambda>maxResults.
         (let maxResults = (if maxResults > 100 then 100 else maxResults);
              skip = valuesGet query ''$skiptoken'';
              skip = (if skip = [] then valuesGet query ''skiptoken'' else skip)
          in Inr (maxResults, skip))))"

text \<open>\<open>cloneValues\<close> copies the multi-map; the copy is the same value.\<close>

definition nextQuery :: "Request \<Rightarrow> string \<Rightarrow> string" where
  "nextQuery r token =
     (let query = valuesSet ''$skiptoken'' token (queryOf r);
          query = (if valuesGet query ''api-version'' = [] then valuesSet ''api-version'' ''7.4'' query else query)
      in valuesEncode query)"

definition buildNextLink :: "Request \<Rightarrow> string option \<Rightarrow> string option" where
  "buildNextLink r nxt =
     map_option (\<lambda>token. vaultBaseURL r @ rq_Path r @ ''?'' @ nextQuery r token) nxt"

definition splitPath :: "string \<Rightarrow> string \<Rightarrow> string list" where
  "splitPath path prefix =
     (let trimmed = trimChar (CHR ''/'') (trimPrefix path prefix)
      in if trimmed = [] then [] else splitOn (CHR ''/'') trimmed)"

definition recoveryURL :: "string \<Rightarrow> string \<Rightarrow> string" where
  "recoveryURL baseURL recoveryPath =
     (if hasPrefix recoveryPath ''http://'' \<or> hasPrefix recoveryPath ''https://'' then recoveryPath
      else if hasPrefix recoveryPath ''/'' then baseURL @ recoveryPath
      else baseURL @ ''/'' @ recoveryPath)"

section \<open>Responses\<close>

definition writeJSON :: "int \<Rightarrow> 'b \<Rightarrow> 'b Response" where
  "writeJSON status value = Response status [] (Some value)"

definition writeError :: "goerr \<Rightarrow> reply" where
  "writeError err =
     (case err of
        StoreErr status code message \<Rightarrow> writeJSON status (ErrorBody (NewKeyVaultError code message))
      | PlainErr message \<Rightarrow> writeJSON 500 (ErrorBody (NewKeyVaultError ''InternalServerError'' message))
      | Panic message \<Rightarrow> Aborted message)"

definition healthz :: reply where
  "healthz = writeJSON 200 (StatusBody ''ok'')"

definition handleNotFound :: reply where
  "handleNotFound = writeError (newError 404 ''NotFound'' ''The requested resource was not found.'')"

definition methodNotAllowed :: "'b Response" where
  "methodNotAllowed = Response 405 [] None"

text \<open>
  The shapes the handlers repeat: send the result of a store operation or its error; decode a body
  first, or answer 400; answer a listing; answer 204 after a purge.
\<close>

definition reply :: "('a \<Rightarrow> Body) \<Rightarrow> 'a res \<times> 's \<Rightarrow> reply \<times> 's" where
  "reply body out =
     (case fst out of Inl err \<Rightarrow> writeError err | Inr x \<Rightarrow> writeJSON 200 (body x), snd out)"

definition withBody :: "'q decoder \<Rightarrow> Request \<Rightarrow> ('q \<Rightarrow> reply \<times> 's) \<Rightarrow> 's \<Rightarrow> reply \<times> 's" where
  "withBody decode r k s =
     (case parseBody decode r of
        Inl message \<Rightarrow> (writeError (newError 400 ''BadParameter'' message), s)
      | Inr req \<Rightarrow> k req)"

definition pageOf ::
  "Request \<Rightarrow> (int \<Rightarrow> string \<Rightarrow> ('a list \<times> string option) res) \<Rightarrow> ('a \<Rightarrow> 'i) \<Rightarrow> ('i ListResult \<Rightarrow> Body) \<Rightarrow> 's \<Rightarrow> reply \<times> 's" where
  "pageOf r fetch item body s =
     (case parsePagination r of
        Inl err \<Rightarrow> (writeError err, s)
      | Inr (maxResults, skip) \<Rightarrow>
          reply (\<lambda>(records, nxt). body \<lparr>lr_Value = map item records, lr_NextLink = buildNextLink r nxt\<rparr>)
            (fetch maxResults skip, s))"

definition purged :: "unit res \<times> 's \<Rightarrow> reply \<times> 's" where
  "purged out = (case fst out of Inl err \<Rightarrow> writeError err | Inr _ \<Rightarrow> Response 204 [] None, snd out)"

end
