(* ===== verification/KV_Rest_Secrets.thy ===== *)
theory KV_Rest_Secrets
  imports KV_Handler
begin

text \<open>
  \<open>src/internal/handler/secrets.go\<close>: the handlers of secrets over any \<open>Storer\<close>. A handler takes
  the store, the decoders, the request and the state, and gives the response and the new state.
\<close>

definition secretID :: "string \<Rightarrow> string \<Rightarrow> string \<Rightarrow> string" where
  "secretID baseURL name version =
     (if version = [] then baseURL @ ''/secrets/'' @ name
      else baseURL @ ''/secrets/'' @ name @ ''/'' @ version)"

definition secretBundle :: "Request \<Rightarrow> SecretRecord \<Rightarrow> SecretBundle" where
  "secretBundle r record =
     \<lparr>sb_Value = sr_Value record, sb_ID = secretID (vaultBaseURL r) (sr_Name record) (sr_Version record),
      sb_ContentType = sr_ContentType record, sb_Attributes = sr_Attributes record, sb_Tags = sr_Tags record\<rparr>"

definition deletedSecretBundle :: "Request \<Rightarrow> DeletedSecretRecord \<Rightarrow> DeletedSecretBundle" where
  "deletedSecretBundle r record =
     \<lparr>dsb_SecretBundle = secretBundle r (dr_Record record),
      dsb_RecoveryID = recoveryURL (vaultBaseURL r) (dr_RecoveryID record),
      dsb_DeletedDate = dr_DeletedDate record, dsb_ScheduledPurgeDate = dr_ScheduledPurgeDate record\<rparr>"

definition secretListItem :: "Request \<Rightarrow> SecretRecord \<Rightarrow> SecretItem" where
  "secretListItem r record =
     \<lparr>si_ID = secretID (vaultBaseURL r) (sr_Name record) (sr_Version record),
      si_ContentType = sr_ContentType record, si_Attributes = sr_Attributes record, si_Tags = sr_Tags record\<rparr>"

definition listSecrets :: "'s Storer \<Rightarrow> Request \<Rightarrow> 's \<Rightarrow> reply \<times> 's" where
  "listSecrets S r s = pageOf r (so_ListSecrets S s) (secretListItem r) SecretItems s"

definition listSecretVersions :: "'s Storer \<Rightarrow> Request \<Rightarrow> string \<Rightarrow> 's \<Rightarrow> reply \<times> 's" where
  "listSecretVersions S r name s = pageOf r (so_ListSecretVersions S s name) (secretListItem r) SecretItems s"

definition listDeletedSecrets :: "'s Storer \<Rightarrow> Request \<Rightarrow> 's \<Rightarrow> reply \<times> 's" where
  "listDeletedSecrets S r s = pageOf r (so_ListDeletedSecrets S s) (deletedSecretBundle r) DeletedSecrets s"

definition handleSecretRoutes :: "'s Storer \<Rightarrow> decoders \<Rightarrow> Request \<Rightarrow> 's \<Rightarrow> reply \<times> 's" where
  "handleSecretRoutes S D r s =
     (case splitPath (rq_Path r) ''/secrets/'' of
        [] \<Rightarrow> (handleNotFound, s)
      | name # rest \<Rightarrow>
          if rq_Method r = ''PUT'' then
            (if rest \<noteq> [] then (handleNotFound, s)
             else withBody (de_SecretSet D) r (\<lambda>req.
                    reply (\<lambda>record. SecretBody (secretBundle r record)) (so_SetSecret S name req s)) s)
          else if rq_Method r = ''GET'' then
            (case rest of
               [] \<Rightarrow> reply (\<lambda>record. SecretBody (secretBundle r record)) (so_GetSecret S s name [], s)
             | [seg] \<Rightarrow>
                 if seg = ''versions'' then listSecretVersions S r name s
                 else reply (\<lambda>record. SecretBody (secretBundle r record)) (so_GetSecret S s name seg, s)
             | _ \<Rightarrow> (handleNotFound, s))
          else if rq_Method r = ''DELETE'' then
            (if rest \<noteq> [] then (handleNotFound, s)
             else reply (\<lambda>record. DeletedSecretBody (deletedSecretBundle r record)) (so_DeleteSecret S name s))
          else if rq_Method r = ''PATCH'' then
            (case rest of
               [version] \<Rightarrow>
                 withBody (de_SecretUpdate D) r (\<lambda>req.
                   reply (\<lambda>record. SecretBody (secretBundle r record)) (so_UpdateSecret S name version req s)) s
             | _ \<Rightarrow> (handleNotFound, s))
          else if rq_Method r = ''POST'' then
            (if rest = [''backup''] then reply ValueBody (so_BackupSecret S s name, s)
             else (handleNotFound, s))
          else (methodNotAllowed, s))"

definition handleDeletedSecretRoutes :: "'s Storer \<Rightarrow> Request \<Rightarrow> 's \<Rightarrow> reply \<times> 's" where
  "handleDeletedSecretRoutes S r s =
     (case splitPath (rq_Path r) ''/deletedsecrets/'' of
        [] \<Rightarrow> (handleNotFound, s)
      | name # rest \<Rightarrow>
          if rq_Method r = ''GET'' then
            (if rest \<noteq> [] then (handleNotFound, s)
             else reply (\<lambda>record. DeletedSecretBody (deletedSecretBundle r record)) (so_GetDeletedSecret S s name, s))
          else if rq_Method r = ''DELETE'' then
            (if rest \<noteq> [] then (handleNotFound, s) else purged (so_PurgeDeletedSecret S name s))
          else if rq_Method r = ''POST'' then
            (if rest \<noteq> [''recover''] then (handleNotFound, s)
             else reply (\<lambda>record. SecretBody (secretBundle r record)) (so_RecoverDeletedSecret S name s))
          else (methodNotAllowed, s))"

definition restoreSecret :: "'s Storer \<Rightarrow> decoders \<Rightarrow> Request \<Rightarrow> 's \<Rightarrow> reply \<times> 's" where
  "restoreSecret S D r s =
     withBody (de_Restore D) r (\<lambda>token.
       reply (\<lambda>record. SecretBody (secretBundle r record)) (so_RestoreSecret S token s)) s"

end
