(* ===== verification/KV_Rest_Keys.thy ===== *)
theory KV_Rest_Keys
  imports KV_Handler
begin

text \<open>
  \<open>src/internal/handler/keys.go\<close>: the handlers of keys over any \<open>Storer\<close>.
\<close>

text \<open>
  \<open>strings.ToLower\<close>, exact where its result is compared with an ASCII word: besides the ASCII
  capitals, the Kelvin sign becomes k and the capital I with a dot becomes i; the lower case of any
  other character contains a byte above ASCII, and so does the character itself.
\<close>

definition asciiLower :: "char \<Rightarrow> char" where
  "asciiLower c = (let n = (of_char c :: nat) in if 65 \<le> n \<and> n \<le> 90 then char_of (n + 32) else c)"

fun toLower :: "string \<Rightarrow> string" where
  "toLower [] = []"
| "toLower (c # s) =
     (if take 3 (c # s) = map char_of [226, 132, 170 :: nat] then CHR ''k'' # toLower (drop 2 s)
      else if take 2 (c # s) = map char_of [196, 176 :: nat] then CHR ''i'' # toLower (drop 1 s)
      else asciiLower c # toLower s)"

definition keyID :: "string \<Rightarrow> string \<Rightarrow> string \<Rightarrow> string" where
  "keyID baseURL name version =
     (if version = [] then baseURL @ ''/keys/'' @ name
      else baseURL @ ''/keys/'' @ name @ ''/'' @ version)"

definition keyBundle :: "Request \<Rightarrow> KeyRecord \<Rightarrow> KeyBundle" where
  "keyBundle r record =
     (let key = (kr_Key record)\<lparr>jwk_Kid := keyID (vaultBaseURL r) (kr_Name record) (kr_Version record)\<rparr>
      in \<lparr>kb_Key = key, kb_Attributes = kr_Attributes record, kb_Tags = kr_Tags record\<rparr>)"

definition deletedKeyBundle :: "Request \<Rightarrow> DeletedKeyRecord \<Rightarrow> DeletedKeyBundle" where
  "deletedKeyBundle r record =
     \<lparr>dkb_KeyBundle = keyBundle r (dr_Record record),
      dkb_RecoveryID = recoveryURL (vaultBaseURL r) (dr_RecoveryID record),
      dkb_DeletedDate = dr_DeletedDate record, dkb_ScheduledPurgeDate = dr_ScheduledPurgeDate record\<rparr>"

definition keyListItem :: "Request \<Rightarrow> KeyRecord \<Rightarrow> KeyItem" where
  "keyListItem r record =
     \<lparr>ki_Kid = keyID (vaultBaseURL r) (kr_Name record) (kr_Version record),
      ki_Attributes = kr_Attributes record, ki_Tags = kr_Tags record\<rparr>"

definition listKeys :: "'s Storer \<Rightarrow> Request \<Rightarrow> 's \<Rightarrow> reply \<times> 's" where
  "listKeys S r s = pageOf r (so_ListKeys S s) (keyListItem r) KeyItems s"

definition listKeyVersions :: "'s Storer \<Rightarrow> Request \<Rightarrow> string \<Rightarrow> 's \<Rightarrow> reply \<times> 's" where
  "listKeyVersions S r name s = pageOf r (so_ListKeyVersions S s name) (keyListItem r) KeyItems s"

definition listDeletedKeys :: "'s Storer \<Rightarrow> Request \<Rightarrow> 's \<Rightarrow> reply \<times> 's" where
  "listDeletedKeys S r s = pageOf r (so_ListDeletedKeys S s) (deletedKeyBundle r) DeletedKeys s"

definition cryptoBody :: "Request \<Rightarrow> string \<Rightarrow> string \<Rightarrow> string \<Rightarrow> string \<Rightarrow> string \<Rightarrow> Body" where
  "cryptoBody r name version value alg iv =
     CryptoBody \<lparr>cr_Kid = keyID (vaultBaseURL r) name version, cr_Value = value, cr_Alg = alg, cr_IV = iv\<rparr>"

definition handleKeyPost ::
  "'s Storer \<Rightarrow> decoders \<Rightarrow> Request \<Rightarrow> string \<Rightarrow> string list \<Rightarrow> 's \<Rightarrow> reply \<times> 's" where
  "handleKeyPost S D r name rest s =
     (if rest = [''create''] then
        withBody (de_CreateKey D) r (\<lambda>req.
          reply (\<lambda>record. KeyBody (keyBundle r record)) (so_CreateKey S name req s)) s
      else if rest = [''import''] then
        withBody (de_ImportKey D) r (\<lambda>req.
          reply (\<lambda>record. KeyBody (keyBundle r record)) (so_ImportKey S name req s)) s
      else
        (case rest of
           [version, op] \<Rightarrow>
             (let operation = toLower op
              in if operation = ''encrypt'' \<or> operation = ''decrypt'' then
                   withBody (de_Encrypt D) r (\<lambda>req.
                     reply (\<lambda>(value, iv). cryptoBody r name version value (er_Alg req) iv)
                       (if operation = ''encrypt'' then so_Encrypt S s name version req
                        else so_Decrypt S s name version req, s)) s
                 else if operation = ''sign'' then
                   withBody (de_Sign D) r (\<lambda>req.
                     reply (\<lambda>value. cryptoBody r name version value (sg_Alg req) [])
                       (so_Sign S s name version req, s)) s
                 else if operation = ''verify'' then
                   withBody (de_Verify D) r (\<lambda>req.
                     reply (\<lambda>ok. VerifyBody \<lparr>vrs_Value = ok\<rparr>) (so_Verify S s name version req, s)) s
                 else if operation = ''wrapkey'' \<or> operation = ''unwrapkey'' then
                   withBody (de_Encrypt D) r (\<lambda>req.
                     reply (\<lambda>value. cryptoBody r name version value (er_Alg req) [])
                       (if operation = ''wrapkey'' then so_WrapKey S s name version req
                        else so_UnwrapKey S s name version req, s)) s
                 else (handleNotFound, s))
         | _ \<Rightarrow> (handleNotFound, s)))"

definition handleKeyGet :: "'s Storer \<Rightarrow> Request \<Rightarrow> string \<Rightarrow> string list \<Rightarrow> 's \<Rightarrow> reply \<times> 's" where
  "handleKeyGet S r name rest s =
     (case rest of
        [] \<Rightarrow> reply (\<lambda>record. KeyBody (keyBundle r record)) (so_GetKey S s name [], s)
      | [seg] \<Rightarrow>
          if seg = ''versions'' then listKeyVersions S r name s
          else reply (\<lambda>record. KeyBody (keyBundle r record)) (so_GetKey S s name seg, s)
      | _ \<Rightarrow> (handleNotFound, s))"

definition handleKeyRoutes :: "'s Storer \<Rightarrow> decoders \<Rightarrow> Request \<Rightarrow> 's \<Rightarrow> reply \<times> 's" where
  "handleKeyRoutes S D r s =
     (case splitPath (rq_Path r) ''/keys/'' of
        [] \<Rightarrow> (handleNotFound, s)
      | name # rest \<Rightarrow>
          if rq_Method r = ''POST'' then handleKeyPost S D r name rest s
          else if rq_Method r = ''GET'' then handleKeyGet S r name rest s
          else if rq_Method r = ''DELETE'' then
            (if rest \<noteq> [] then (handleNotFound, s)
             else reply (\<lambda>record. DeletedKeyBody (deletedKeyBundle r record)) (so_DeleteKey S name s))
          else if rq_Method r = ''PATCH'' then
            (case rest of
               [version] \<Rightarrow>
                 withBody (de_UpdateKey D) r (\<lambda>req.
                   reply (\<lambda>record. KeyBody (keyBundle r record)) (so_UpdateKey S name version req s)) s
             | _ \<Rightarrow> (handleNotFound, s))
          else (methodNotAllowed, s))"

definition handleDeletedKeyRoutes :: "'s Storer \<Rightarrow> Request \<Rightarrow> 's \<Rightarrow> reply \<times> 's" where
  "handleDeletedKeyRoutes S r s =
     (case splitPath (rq_Path r) ''/deletedkeys/'' of
        [] \<Rightarrow> (handleNotFound, s)
      | name # rest \<Rightarrow>
          if rq_Method r = ''GET'' then
            (if rest \<noteq> [] then (handleNotFound, s)
             else reply (\<lambda>record. DeletedKeyBody (deletedKeyBundle r record)) (so_GetDeletedKey S s name, s))
          else if rq_Method r = ''DELETE'' then
            (if rest \<noteq> [] then (handleNotFound, s) else purged (so_PurgeDeletedKey S name s))
          else if rq_Method r = ''POST'' then
            (if rest \<noteq> [''recover''] then (handleNotFound, s)
             else reply (\<lambda>record. KeyBody (keyBundle r record)) (so_RecoverDeletedKey S name s))
          else (methodNotAllowed, s))"

end
