(* ===== verification/KV_Sha1.thy ===== *)
theory KV_Sha1
  imports KV_Encoding
begin

text \<open>
  The digest of \<open>crypto/sha1\<close>, which the handlers use for the thumbprint of a certificate: padding,
  the schedule of 80 words per block, and the compression of the five state words.
\<close>

unbundle bit_operations_syntax

type_synonym w32 = "32 word"

definition beWord :: "bytes \<Rightarrow> w32" where
  "beWord bs = fold (\<lambda>b acc. push_bit 8 acc OR ucast b) bs 0"

definition wordBytes :: "w32 \<Rightarrow> bytes" where
  "wordBytes w = map (\<lambda>i. ucast (drop_bit (8 * (3 - i)) w)) [0..<4]"

definition lenBytes :: "nat \<Rightarrow> bytes" where
  "lenBytes n = map (\<lambda>i. ucast (drop_bit (8 * (7 - i)) (word_of_nat n :: 64 word))) [0..<8]"

definition sha1Pad :: "bytes \<Rightarrow> bytes" where
  "sha1Pad m = m @ 128 # replicate ((119 - length m mod 64) mod 64) 0 @ lenBytes (8 * length m)"

fun chunksOf :: "nat \<Rightarrow> 'a list \<Rightarrow> 'a list list" where
  "chunksOf n xs = (if xs = [] \<or> n = 0 then [] else take n xs # chunksOf n (drop n xs))"

declare chunksOf.simps [simp del]

text \<open>The schedule is built with the newest word first.\<close>

fun sha1Schedule :: "nat \<Rightarrow> w32 list \<Rightarrow> w32 list" where
  "sha1Schedule 0 ws = ws"
| "sha1Schedule (Suc n) ws =
     sha1Schedule n (word_rotl 1 (ws ! 2 XOR ws ! 7 XOR ws ! 13 XOR ws ! 15) # ws)"

definition sha1F :: "nat \<Rightarrow> w32 \<Rightarrow> w32 \<Rightarrow> w32 \<Rightarrow> w32 \<times> w32" where
  "sha1F i b c d =
     (if i < 20 then ((b AND c) OR (NOT b AND d), 0x5A827999)
      else if i < 40 then (b XOR c XOR d, 0x6ED9EBA1)
      else if i < 60 then ((b AND c) OR (b AND d) OR (c AND d), 0x8F1BBCDC)
      else (b XOR c XOR d, 0xCA62C1D6))"

definition sha1Round :: "nat \<times> w32 \<Rightarrow> w32 list \<Rightarrow> w32 list" where
  "sha1Round iw h =
     (case h of
        [a, b, c, d, e] \<Rightarrow>
          (let (f, k) = sha1F (fst iw) b c d
           in [word_rotl 5 a + f + e + k + snd iw, a, word_rotl 30 b, c, d])
      | _ \<Rightarrow> h)"

definition sha1Block :: "bytes \<Rightarrow> w32 list \<Rightarrow> w32 list" where
  "sha1Block block h =
     (let ws = rev (sha1Schedule 64 (rev (map beWord (chunksOf 4 block))))
      in map2 (+) h (fold sha1Round (zip [0..<80] ws) h))"

definition sha1 :: "bytes \<Rightarrow> bytes" where
  "sha1 m =
     concat (map wordBytes (fold sha1Block (chunksOf 64 (sha1Pad m))
       [0x67452301, 0xEFCDAB89, 0x98BADCFE, 0x10325476, 0xC3D2E1F0]))"

lemma length_sha1Round: "length (sha1Round iw h) = length h"
  by (auto simp: sha1Round_def Let_def split: list.split prod.split)

lemma length_sha1Block: "length (sha1Block block h) = length h"
proof -
  have "length (fold sha1Round xs h) = length h" for xs
    by (induction xs arbitrary: h) (simp_all add: length_sha1Round)
  then show ?thesis
    by (simp add: sha1Block_def Let_def)
qed

lemma length_sha1 [simp]: "length (sha1 m) = 20"
proof -
  have "length (fold sha1Block bs h) = length h" for bs h
    by (induction bs arbitrary: h) (simp_all add: length_sha1Block)
  then show ?thesis
    by (simp add: sha1_def length_concat wordBytes_def comp_def sum_list_triv)
qed

end
