(* ===== verification/KV_Rest_Certs.thy ===== *)
theory KV_Rest_Certs
  imports KV_Rest_Secrets KV_Rest_Keys KV_Sha1
begin

text \<open>
  \<open>src/internal/handler/certificates.go\<close>: the handlers of certificates over any \<open>Storer\<close>.
\<close>

definition certificateID :: "string \<Rightarrow> string \<Rightarrow> string \<Rightarrow> string" where
  "certificateID baseURL name version =
     (if version = [] then baseURL @ ''/certificates/'' @ name
      else baseURL @ ''/certificates/'' @ name @ ''/'' @ version)"

definition certificateBundle :: "Request \<Rightarrow> CertificateRecord \<Rightarrow> CertificateBundle" where
  "certificateBundle r record =
     (let baseURL = vaultBaseURL r
      in \<lparr>cb_ID = certificateID baseURL (crt_Name record) (crt_Version record),
          cb_Kid = keyID baseURL (crt_Name record) (crt_Version record),
          cb_Sid = secretID baseURL (crt_Name record) (crt_Version record),
          cb_Cer = EncodeBase64URL (crt_Cer record), cb_Attributes = crt_Attributes record,
          cb_Tags = crt_Tags record, cb_Policy = crt_Policy record\<rparr>)"

definition certificateItem :: "Request \<Rightarrow> CertificateRecord \<Rightarrow> CertificateItem" where
  "certificateItem r record =
     (let sum = sha1 (crt_Cer record); baseURL = vaultBaseURL r
      in \<lparr>ci_ID = certificateID baseURL (crt_Name record) (crt_Version record),
          ci_Kid = keyID baseURL (crt_Name record) (crt_Version record),
          ci_Sid = secretID baseURL (crt_Name record) (crt_Version record),
          ci_X5t = EncodeBase64URL sum, ci_Attributes = crt_Attributes record,
          ci_Tags = crt_Tags record\<rparr>)"

definition deletedCertificateBundle :: "Request \<Rightarrow> DeletedCertificateRecord \<Rightarrow> DeletedCertificateBundle" where
  "deletedCertificateBundle r record =
     \<lparr>dcb_CertificateBundle = certificateBundle r (dr_Record record),
      dcb_RecoveryID = recoveryURL (vaultBaseURL r) (dr_RecoveryID record),
      dcb_DeletedDate = dr_DeletedDate record, dcb_ScheduledPurgeDate = dr_ScheduledPurgeDate record\<rparr>"

definition listCertificates :: "'s Storer \<Rightarrow> Request \<Rightarrow> 's \<Rightarrow> reply \<times> 's" where
  "listCertificates S r s = pageOf r (so_ListCertificates S s) (certificateItem r) CertificateItems s"

definition listCertificateVersions :: "'s Storer \<Rightarrow> Request \<Rightarrow> string \<Rightarrow> 's \<Rightarrow> reply \<times> 's" where
  "listCertificateVersions S r name s =
     pageOf r (so_ListCertificateVersions S s name) (certificateItem r) CertificateItems s"

definition listDeletedCertificates :: "'s Storer \<Rightarrow> Request \<Rightarrow> 's \<Rightarrow> reply \<times> 's" where
  "listDeletedCertificates S r s =
     pageOf r (so_ListDeletedCertificates S s) (deletedCertificateBundle r) DeletedCertificates s"

definition handleCertificateGet :: "'s Storer \<Rightarrow> Request \<Rightarrow> string \<Rightarrow> string list \<Rightarrow> 's \<Rightarrow> reply \<times> 's" where
  "handleCertificateGet S r name rest s =
     (case rest of
        [] \<Rightarrow> reply (\<lambda>record. CertificateBody (certificateBundle r record)) (so_GetCertificate S s name [], s)
      | [seg] \<Rightarrow>
          if seg = ''versions'' then listCertificateVersions S r name s
          else if seg = ''policy'' then reply PolicyBody (so_GetCertificatePolicy S s name, s)
          else if seg = ''pending'' then reply OperationBody (so_GetPendingCertificateOperation S s name, s)
          else reply (\<lambda>record. CertificateBody (certificateBundle r record)) (so_GetCertificate S s name seg, s)
      | _ \<Rightarrow> (handleNotFound, s))"

definition handleCertificateRoutes :: "'s Storer \<Rightarrow> decoders \<Rightarrow> Request \<Rightarrow> 's \<Rightarrow> reply \<times> 's" where
  "handleCertificateRoutes S D r s =
     (case splitPath (rq_Path r) ''/certificates/'' of
        [] \<Rightarrow> (handleNotFound, s)
      | name # rest \<Rightarrow>
          if rq_Method r = ''POST'' then
            (if rest = [''create''] then
               withBody (de_CreateCertificate D) r (\<lambda>req.
                 reply (\<lambda>record. CertificateBody (certificateBundle r record)) (so_CreateCertificate S name req s)) s
             else if rest = [''import''] then
               withBody (de_ImportCertificate D) r (\<lambda>req.
                 reply (\<lambda>record. CertificateBody (certificateBundle r record)) (so_ImportCertificate S name req s)) s
             else (handleNotFound, s))
          else if rq_Method r = ''GET'' then handleCertificateGet S r name rest s
          else if rq_Method r = ''PATCH'' then
            (if rest = [''policy''] then
               withBody (de_CreateCertificate D) r (\<lambda>req.
                 reply PolicyBody (so_UpdateCertificatePolicy S name (cc_Policy req) s)) s
             else
               (case rest of
                  [version] \<Rightarrow>
                    withBody (de_UpdateCertificate D) r (\<lambda>req.
                      reply (\<lambda>record. CertificateBody (certificateBundle r record))
                        (so_UpdateCertificate S name version req s)) s
                | _ \<Rightarrow> (handleNotFound, s)))
          else if rq_Method r = ''DELETE'' then
            (if rest \<noteq> [] then (handleNotFound, s)
             else reply (\<lambda>record. DeletedCertificateBody (deletedCertificateBundle r record))
                    (so_DeleteCertificate S name s))
          else (methodNotAllowed, s))"

definition handleDeletedCertificateRoutes :: "'s Storer \<Rightarrow> Request \<Rightarrow> 's \<Rightarrow> reply \<times> 's" where
  "handleDeletedCertificateRoutes S r s =
     (case splitPath (rq_Path r) ''/deletedcertificates/'' of
        [] \<Rightarrow> (handleNotFound, s)
      | name # rest \<Rightarrow>
          if rq_Method r = ''GET'' then
            (if rest \<noteq> [] then (handleNotFound, s)
             else reply (\<lambda>record. DeletedCertificateBody (deletedCertificateBundle r record))
                    (so_GetDeletedCertificate S s name, s))
          else if rq_Method r = ''DELETE'' then
            (if rest \<noteq> [] then (handleNotFound, s) else purged (so_PurgeDeletedCertificate S name s))
          else if rq_Method r = ''POST'' then
            (if rest \<noteq> [''recover''] then (handleNotFound, s)
             else reply (\<lambda>record. CertificateBody (certificateBundle r record))
                    (so_RecoverDeletedCertificate S name s))
          else (methodNotAllowed, s))"

end
