(* ===== verification/KV_Rest.thy ===== *)
theory KV_Rest
  imports KV_Rest_Certs
begin

text \<open>
  The registration of the routes of the Key Vault API (\<open>Register\<close> and the three \<open>register*Routes\<close>
  of \<open>src/internal/handler\<close>) and the handler that a request reaches.
\<close>

datatype RestRoute =
    Healthz
  | ListSecretsRoute | RestoreSecretRoute | SecretRoutes | ListDeletedSecretsRoute | DeletedSecretRoutes
  | ListKeysRoute | KeyRoutes | ListDeletedKeysRoute | DeletedKeyRoutes
  | ListCertificatesRoute | CertificateRoutes | ListDeletedCertificatesRoute | DeletedCertificateRoutes
  | NotFoundRoute

definition mountRoutes :: "(string \<times> 'h) list \<Rightarrow> 'h routes" where
  "mountRoutes table = map (\<lambda>(pattern, h). (parsePattern pattern, h)) table"

definition secretRoutes :: "(string \<times> RestRoute) list" where
  "secretRoutes =
     [(''GET /secrets'', ListSecretsRoute),
      (''POST /secrets/restore'', RestoreSecretRoute),
      (''PUT /secrets/'', SecretRoutes),
      (''GET /secrets/'', SecretRoutes),
      (''DELETE /secrets/'', SecretRoutes),
      (''PATCH /secrets/'', SecretRoutes),
      (''POST /secrets/'', SecretRoutes),
      (''GET /deletedsecrets'', ListDeletedSecretsRoute),
      (''GET /deletedsecrets/'', DeletedSecretRoutes),
      (''DELETE /deletedsecrets/'', DeletedSecretRoutes),
      (''POST /deletedsecrets/'', DeletedSecretRoutes)]"

definition keyRoutes :: "(string \<times> RestRoute) list" where
  "keyRoutes =
     [(''GET /keys'', ListKeysRoute),
      (''POST /keys/'', KeyRoutes),
      (''GET /keys/'', KeyRoutes),
      (''DELETE /keys/'', KeyRoutes),
      (''PATCH /keys/'', KeyRoutes),
      (''GET /deletedkeys'', ListDeletedKeysRoute),
      (''GET /deletedkeys/'', DeletedKeyRoutes),
      (''DELETE /deletedkeys/'', DeletedKeyRoutes),
      (''POST /deletedkeys/'', DeletedKeyRoutes)]"

definition certificateRoutes :: "(string \<times> RestRoute) list" where
  "certificateRoutes =
     [(''GET /certificates'', ListCertificatesRoute),
      (''POST /certificates/'', CertificateRoutes),
      (''GET /certificates/'', CertificateRoutes),
      (''DELETE /certificates/'', CertificateRoutes),
      (''PATCH /certificates/'', CertificateRoutes),
      (''GET /deletedcertificates'', ListDeletedCertificatesRoute),
      (''GET /deletedcertificates/'', DeletedCertificateRoutes),
      (''DELETE /deletedcertificates/'', DeletedCertificateRoutes),
      (''POST /deletedcertificates/'', DeletedCertificateRoutes)]"

definition restTable :: "(string \<times> RestRoute) list" where
  "restTable = [(''GET /healthz'', Healthz)] @ secretRoutes @ keyRoutes @ certificateRoutes @ [(''/'', NotFoundRoute)]"

definition restRoutes :: "RestRoute routes" where
  "restRoutes = mountRoutes restTable"

definition runRoute :: "'s Storer \<Rightarrow> decoders \<Rightarrow> RestRoute \<Rightarrow> Request \<Rightarrow> 's \<Rightarrow> reply \<times> 's" where
  "runRoute S D route r s =
     (case route of
        Healthz \<Rightarrow> (healthz, s)
      | ListSecretsRoute \<Rightarrow> listSecrets S r s
      | RestoreSecretRoute \<Rightarrow> restoreSecret S D r s
      | SecretRoutes \<Rightarrow> handleSecretRoutes S D r s
      | ListDeletedSecretsRoute \<Rightarrow> listDeletedSecrets S r s
      | DeletedSecretRoutes \<Rightarrow> handleDeletedSecretRoutes S r s
      | ListKeysRoute \<Rightarrow> listKeys S r s
      | KeyRoutes \<Rightarrow> handleKeyRoutes S D r s
      | ListDeletedKeysRoute \<Rightarrow> listDeletedKeys S r s
      | DeletedKeyRoutes \<Rightarrow> handleDeletedKeyRoutes S r s
      | ListCertificatesRoute \<Rightarrow> listCertificates S r s
      | CertificateRoutes \<Rightarrow> handleCertificateRoutes S D r s
      | ListDeletedCertificatesRoute \<Rightarrow> listDeletedCertificates S r s
      | DeletedCertificateRoutes \<Rightarrow> handleDeletedCertificateRoutes S r s
      | NotFoundRoute \<Rightarrow> (handleNotFound, s))"

text \<open>The server of the API without the web interface: \<open>NewMux\<close> of \<open>src/internal/server/server.go\<close>.\<close>

definition serveRest :: "'s Storer \<Rightarrow> decoders \<Rightarrow> Request \<Rightarrow> 's \<Rightarrow> reply \<times> 's" where
  "serveRest S D r s =
     (case findHandler restRoutes r of
        Handle route _ \<Rightarrow> runRoute S D route r s
      | RedirectTo path \<Rightarrow> (Redirect path, s)
      | Unmatched \<Rightarrow> (Response 404 [] None, s))"

end
