(* ===== verification/KV_Rest_Contract.thy ===== *)
theory KV_Rest_Contract
  imports KV_Rest
begin

text \<open>
  What the handlers of the API guarantee over any \<open>Storer\<close>, proved once inside locales that state
  what the store underneath has to promise: that a failed operation changes nothing, and that keys
  are returned without their private fields. And what they guarantee over every store: safe methods
  do not write.
\<close>

section \<open>Responses\<close>

definition calm :: "goerr \<Rightarrow> bool" where
  "calm err \<longleftrightarrow> (case err of Panic _ \<Rightarrow> False | _ \<Rightarrow> True)"

definition failed :: "'b Response \<Rightarrow> bool" where
  "failed resp \<longleftrightarrow> (case resp of Response status _ _ \<Rightarrow> 400 \<le> status | _ \<Rightarrow> False)"

definition bodyOf :: "'b Response \<Rightarrow> 'b option" where
  "bodyOf resp = (case resp of Response _ _ body \<Rightarrow> body | _ \<Rightarrow> None)"

lemma failed_simps [simp]:
  "failed (Response status ck body) \<longleftrightarrow> 400 \<le> status" "\<not> failed (Redirect p)" "\<not> failed (Aborted m)"
  "\<not> failed (writeJSON 200 x)"
  by (simp_all add: failed_def writeJSON_def)

lemma failed_writeError: "failed (writeError err) \<Longrightarrow> calm err"
  by (cases err) (simp_all add: calm_def writeError_def)

lemma bodyOf_simps [simp]:
  "bodyOf (writeJSON st x) = Some x" "bodyOf (Response st ck y) = y" "bodyOf (Redirect p) = None"
  "bodyOf (Aborted m) = None"
  by (simp_all add: bodyOf_def writeJSON_def)

text \<open>A step of a handler keeps the state if it answers with a failure.\<close>

definition keepsOnFailure :: "'s \<Rightarrow> 'b Response \<times> 's \<Rightarrow> bool" where
  "keepsOnFailure s out \<longleftrightarrow> (failed (fst out) \<longrightarrow> snd out = s)"

lemma keeps_same [simp]: "keepsOnFailure s (resp, s)"
  by (simp add: keepsOnFailure_def)

lemma keeps_reply:
  assumes "\<And>err. fst out = Inl err \<Longrightarrow> calm err \<Longrightarrow> snd out = s"
  shows "keepsOnFailure s (reply body out)"
  using assms failed_writeError
  by (cases "fst out") (auto simp: keepsOnFailure_def reply_def)

lemma keeps_purged:
  assumes "\<And>err. fst out = Inl err \<Longrightarrow> calm err \<Longrightarrow> snd out = s"
  shows "keepsOnFailure s (purged out)"
  using assms failed_writeError
  by (cases "fst out") (auto simp: keepsOnFailure_def purged_def)

lemma keeps_withBody:
  "(\<And>req. keepsOnFailure s (k req)) \<Longrightarrow> keepsOnFailure s (withBody decode r k s)"
  by (simp add: withBody_def split: sum.split)

lemma keeps_if: "keepsOnFailure s a \<Longrightarrow> keepsOnFailure s b \<Longrightarrow> keepsOnFailure s (if c then a else b)"
  by simp

lemma keeps_list:
  "keepsOnFailure s a \<Longrightarrow> (\<And>x xs. keepsOnFailure s (f x xs)) \<Longrightarrow>
    keepsOnFailure s (case l of [] \<Rightarrow> a | x # xs \<Rightarrow> f x xs)"
  by (simp split: list.split)

lemma snd_reply [simp]: "snd (reply body out) = snd out"
  by (simp add: reply_def)

lemma snd_pageOf [simp]: "snd (pageOf r fetch item body s) = s"
  by (simp add: pageOf_def split: sum.split prod.split)

lemma keeps_pageOf [simp]: "keepsOnFailure s (pageOf r fetch item body s)"
  by (simp add: keepsOnFailure_def)

lemma snd_withBody: "(\<And>req. snd (k req) = s) \<Longrightarrow> snd (withBody decode r k s) = s"
  by (simp add: withBody_def split: sum.split)

lemmas listing_defs = listSecrets_def listSecretVersions_def listDeletedSecrets_def listKeys_def
  listKeyVersions_def listDeletedKeys_def listCertificates_def listCertificateVersions_def
  listDeletedCertificates_def

lemmas route_defs = handleSecretRoutes_def handleDeletedSecretRoutes_def restoreSecret_def
  handleKeyRoutes_def handleKeyPost_def handleKeyGet_def handleDeletedKeyRoutes_def
  handleCertificateRoutes_def handleCertificateGet_def handleDeletedCertificateRoutes_def

section \<open>Failures change nothing\<close>

locale atomic_storer =
  fixes S :: "'s Storer"
  assumes SetSecret_fail: "fst (so_SetSecret S n q s) = Inl err \<Longrightarrow> calm err \<Longrightarrow> snd (so_SetSecret S n q s) = s"
    and UpdateSecret_fail: "fst (so_UpdateSecret S n v u s) = Inl err \<Longrightarrow> calm err \<Longrightarrow> snd (so_UpdateSecret S n v u s) = s"
    and DeleteSecret_fail: "fst (so_DeleteSecret S n s) = Inl err \<Longrightarrow> calm err \<Longrightarrow> snd (so_DeleteSecret S n s) = s"
    and PurgeDeletedSecret_fail: "fst (so_PurgeDeletedSecret S n s) = Inl err \<Longrightarrow> calm err \<Longrightarrow> snd (so_PurgeDeletedSecret S n s) = s"
    and RecoverDeletedSecret_fail: "fst (so_RecoverDeletedSecret S n s) = Inl err \<Longrightarrow> calm err \<Longrightarrow> snd (so_RecoverDeletedSecret S n s) = s"
    and RestoreSecret_fail: "fst (so_RestoreSecret S t s) = Inl err \<Longrightarrow> calm err \<Longrightarrow> snd (so_RestoreSecret S t s) = s"
    and CreateKey_fail: "fst (so_CreateKey S n ck s) = Inl err \<Longrightarrow> calm err \<Longrightarrow> snd (so_CreateKey S n ck s) = s"
    and ImportKey_fail: "fst (so_ImportKey S n ik s) = Inl err \<Longrightarrow> calm err \<Longrightarrow> snd (so_ImportKey S n ik s) = s"
    and UpdateKey_fail: "fst (so_UpdateKey S n v uk s) = Inl err \<Longrightarrow> calm err \<Longrightarrow> snd (so_UpdateKey S n v uk s) = s"
    and DeleteKey_fail: "fst (so_DeleteKey S n s) = Inl err \<Longrightarrow> calm err \<Longrightarrow> snd (so_DeleteKey S n s) = s"
    and PurgeDeletedKey_fail: "fst (so_PurgeDeletedKey S n s) = Inl err \<Longrightarrow> calm err \<Longrightarrow> snd (so_PurgeDeletedKey S n s) = s"
    and RecoverDeletedKey_fail: "fst (so_RecoverDeletedKey S n s) = Inl err \<Longrightarrow> calm err \<Longrightarrow> snd (so_RecoverDeletedKey S n s) = s"
    and CreateCertificate_fail: "fst (so_CreateCertificate S n cc s) = Inl err \<Longrightarrow> calm err \<Longrightarrow> snd (so_CreateCertificate S n cc s) = s"
    and ImportCertificate_fail: "fst (so_ImportCertificate S n ic s) = Inl err \<Longrightarrow> calm err \<Longrightarrow> snd (so_ImportCertificate S n ic s) = s"
    and UpdateCertificate_fail: "fst (so_UpdateCertificate S n v uc s) = Inl err \<Longrightarrow> calm err \<Longrightarrow> snd (so_UpdateCertificate S n v uc s) = s"
    and UpdateCertificatePolicy_fail: "fst (so_UpdateCertificatePolicy S n p s) = Inl err \<Longrightarrow> calm err \<Longrightarrow> snd (so_UpdateCertificatePolicy S n p s) = s"
    and DeleteCertificate_fail: "fst (so_DeleteCertificate S n s) = Inl err \<Longrightarrow> calm err \<Longrightarrow> snd (so_DeleteCertificate S n s) = s"
    and PurgeDeletedCertificate_fail: "fst (so_PurgeDeletedCertificate S n s) = Inl err \<Longrightarrow> calm err \<Longrightarrow> snd (so_PurgeDeletedCertificate S n s) = s"
    and RecoverDeletedCertificate_fail: "fst (so_RecoverDeletedCertificate S n s) = Inl err \<Longrightarrow> calm err \<Longrightarrow> snd (so_RecoverDeletedCertificate S n s) = s"
begin

lemmas fails = SetSecret_fail UpdateSecret_fail DeleteSecret_fail PurgeDeletedSecret_fail
  RecoverDeletedSecret_fail RestoreSecret_fail CreateKey_fail ImportKey_fail UpdateKey_fail DeleteKey_fail
  PurgeDeletedKey_fail RecoverDeletedKey_fail CreateCertificate_fail ImportCertificate_fail
  UpdateCertificate_fail UpdateCertificatePolicy_fail DeleteCertificate_fail PurgeDeletedCertificate_fail
  RecoverDeletedCertificate_fail

lemmas keeps = keeps_if keeps_list keeps_withBody keeps_reply keeps_purged

lemma secret_routes_keep:
  "keepsOnFailure s (handleSecretRoutes S D r s)" "keepsOnFailure s (handleDeletedSecretRoutes S r s)"
  "keepsOnFailure s (restoreSecret S D r s)"
  unfolding route_defs listing_defs by (intro keeps; (rule fails; assumption | simp))+

lemma key_routes_keep:
  "keepsOnFailure s (handleKeyRoutes S D r s)" "keepsOnFailure s (handleDeletedKeyRoutes S r s)"
  unfolding route_defs listing_defs Let_def by (intro keeps; (rule fails; assumption | simp))+

lemma certificate_routes_keep:
  "keepsOnFailure s (handleCertificateRoutes S D r s)" "keepsOnFailure s (handleDeletedCertificateRoutes S r s)"
  unfolding route_defs listing_defs by (intro keeps; (rule fails; assumption | simp))+

lemma rest_keeps: "keepsOnFailure s (serveRest S D r s)"
  by (simp add: serveRest_def runRoute_def secret_routes_keep key_routes_keep certificate_routes_keep listing_defs
      split: Dispatch.split RestRoute.split)

end

section \<open>Safe methods\<close>

lemma restRoutes_restore: "(p, RestoreSecretRoute) \<in> set restRoutes \<Longrightarrow> pt_Method p = Some ''POST''"
proof -
  assume "(p, RestoreSecretRoute) \<in> set restRoutes"
  then have "p = parsePattern ''POST /secrets/restore''"
    by (simp add: restRoutes_def restTable_def mountRoutes_def secretRoutes_def keyRoutes_def certificateRoutes_def)
  then show ?thesis
    by (simp add: parsePattern_def cutAt_def Let_def)
qed

lemma restRoutes_safe:
  assumes "findHandler restRoutes r = Handle route ws" "rq_Method r = ''GET'' \<or> rq_Method r = ''HEAD''"
  shows "route \<noteq> RestoreSecretRoute"
proof
  assume "route = RestoreSecretRoute"
  with assms(1) obtain p where p: "(p, RestoreSecretRoute) \<in> set restRoutes"
    "pt_Method p = None \<or> pt_Method p = Some (rq_Method r) \<or> (pt_Method p = Some ''GET'' \<and> rq_Method r = ''HEAD'')"
    by (blast elim: findHandler_sound)
  then show False
    using restRoutes_restore [OF p(1)] assms(2) by (elim disjE) simp_all
qed

lemma route_safe_GET:
  assumes "rq_Method r = ''GET''"
  shows "snd (handleSecretRoutes S D r s) = s" "snd (handleDeletedSecretRoutes S r s) = s"
    "snd (handleKeyRoutes S D r s) = s" "snd (handleDeletedKeyRoutes S r s) = s"
    "snd (handleCertificateRoutes S D r s) = s" "snd (handleDeletedCertificateRoutes S r s) = s"
  by (simp_all add: route_defs listing_defs assms split: list.split)

lemma route_safe_HEAD:
  assumes "rq_Method r = ''HEAD''"
  shows "snd (handleSecretRoutes S D r s) = s" "snd (handleDeletedSecretRoutes S r s) = s"
    "snd (handleKeyRoutes S D r s) = s" "snd (handleDeletedKeyRoutes S r s) = s"
    "snd (handleCertificateRoutes S D r s) = s" "snd (handleDeletedCertificateRoutes S r s) = s"
  by (simp_all add: route_defs assms split: list.split)

lemma route_safe:
  assumes "rq_Method r = ''GET'' \<or> rq_Method r = ''HEAD''" "route \<noteq> RestoreSecretRoute"
  shows "snd (runRoute S D route r s) = s"
  using assms(1)
proof (elim disjE)
  assume "rq_Method r = ''GET''"
  then show ?thesis
    using assms(2) by (cases route) (simp_all only: runRoute_def RestRoute.case route_safe_GET listing_defs snd_pageOf snd_conv, simp)
next
  assume "rq_Method r = ''HEAD''"
  then show ?thesis
    using assms(2) by (cases route) (simp_all only: runRoute_def RestRoute.case route_safe_HEAD listing_defs snd_pageOf snd_conv, simp)
qed

lemma rest_safe:
  "rq_Method r = ''GET'' \<or> rq_Method r = ''HEAD'' \<Longrightarrow> snd (serveRest S D r s) = s"
  using restRoutes_safe [of r] route_safe [of r]
  by (cases "findHandler restRoutes r") (simp_all add: serveRest_def)

end
