(* ===== verification/KV_Rest_Public.thy ===== *)
theory KV_Rest_Public
  imports KV_Rest_Contract KV_Invariant
begin

text \<open>
  No response of the API shows a private field of a key, over every store that returns keys without
  them.
\<close>

definition bodyPublic :: "Body \<Rightarrow> bool" where
  "bodyPublic body =
     (case body of
        KeyBody b \<Rightarrow> publicJWK (kb_Key b)
      | DeletedKeyBody b \<Rightarrow> publicJWK (kb_Key (dkb_KeyBundle b))
      | DeletedKeys l \<Rightarrow> list_all (\<lambda>b. publicJWK (kb_Key (dkb_KeyBundle b))) (lr_Value l)
      | _ \<Rightarrow> True)"

lemma bodyPublic_simps [simp]:
  "bodyPublic (KeyBody b) = publicJWK (kb_Key b)"
  "bodyPublic (DeletedKeyBody d) = publicJWK (kb_Key (dkb_KeyBundle d))"
  "bodyPublic (DeletedKeys l) = list_all (\<lambda>b. publicJWK (kb_Key (dkb_KeyBundle b))) (lr_Value l)"
  "bodyPublic (StatusBody x)" "bodyPublic (ErrorBody x1)" "bodyPublic (ValueBody x)" "bodyPublic (SecretBody x2)"
  "bodyPublic (SecretItems x3)" "bodyPublic (DeletedSecretBody x4)" "bodyPublic (DeletedSecrets x5)"
  "bodyPublic (KeyItems x6)" "bodyPublic (cryptoBody r n v val alg iv)" "bodyPublic (VerifyBody x8)"
  "bodyPublic (CertificateBody x9)" "bodyPublic (CertificateItems x10)" "bodyPublic (DeletedCertificateBody x11)"
  "bodyPublic (DeletedCertificates x12)" "bodyPublic (PolicyBody x13)" "bodyPublic (OperationBody x14)"
  by (simp_all add: bodyPublic_def cryptoBody_def)

lemma keyBundle_public [simp]: "publicJWK (kb_Key (keyBundle r k)) = publicJWK (kr_Key k)"
  by (simp add: keyBundle_def publicJWK_Kid Let_def)

lemma deletedKeyBundle_public [simp]:
  "publicJWK (kb_Key (dkb_KeyBundle (deletedKeyBundle r d))) = publicJWK (kr_Key (dr_Record d))"
  by (simp add: deletedKeyBundle_def)

definition showsPublic :: "reply \<times> 's \<Rightarrow> bool" where
  "showsPublic out \<longleftrightarrow> (\<forall>b. bodyOf (fst out) = Some b \<longrightarrow> bodyPublic b)"

lemma shows_writeError [simp]: "showsPublic (writeError err, s)"
  by (cases err) (simp_all add: showsPublic_def writeError_def)

lemma shows_fixed [simp]:
  "showsPublic (handleNotFound, s)" "showsPublic (methodNotAllowed, s)" "showsPublic (healthz, s)"
  "showsPublic (Redirect p, s)" "showsPublic (Response st ck None, s)"
  by (simp_all add: handleNotFound_def methodNotAllowed_def healthz_def) (simp_all add: showsPublic_def)

lemma shows_if: "showsPublic a \<Longrightarrow> showsPublic b \<Longrightarrow> showsPublic (if c then a else b)"
  by simp

lemma shows_list:
  "showsPublic a \<Longrightarrow> (\<And>x xs. showsPublic (f x xs)) \<Longrightarrow> showsPublic (case l of [] \<Rightarrow> a | x # xs \<Rightarrow> f x xs)"
  by (simp split: list.split)

lemma shows_withBody: "(\<And>req. showsPublic (k req)) \<Longrightarrow> showsPublic (withBody decode r k s)"
  by (simp add: withBody_def split: sum.split)

lemma shows_reply: "(\<And>x. fst out = Inr x \<Longrightarrow> bodyPublic (body x)) \<Longrightarrow> showsPublic (reply body out)"
  using shows_writeError
  by (cases "fst out") (simp_all add: reply_def showsPublic_def)

lemma shows_purged [simp]: "showsPublic (purged out)"
  using shows_writeError
  by (cases "fst out") (simp_all add: purged_def showsPublic_def)

lemma shows_pageOf:
  "(\<And>m t page nxt link. fetch m t = Inr (page, nxt) \<Longrightarrow>
      bodyPublic (body \<lparr>lr_Value = map item page, lr_NextLink = link\<rparr>)) \<Longrightarrow>
    showsPublic (pageOf r fetch item body s)"
  by (auto simp: pageOf_def intro!: shows_reply split: sum.split prod.split)

lemmas public_intros = shows_if shows_list shows_withBody shows_reply shows_pageOf

locale public_keys =
  fixes ok :: "'s \<Rightarrow> bool" and S :: "'s Storer"
  assumes CreateKey_pub: "ok s \<Longrightarrow> fst (so_CreateKey S n q s) = Inr k \<Longrightarrow> publicJWK (kr_Key k)"
    and ImportKey_pub: "ok s \<Longrightarrow> fst (so_ImportKey S n iq s) = Inr k \<Longrightarrow> publicJWK (kr_Key k)"
    and UpdateKey_pub: "ok s \<Longrightarrow> fst (so_UpdateKey S n v uq s) = Inr k \<Longrightarrow> publicJWK (kr_Key k)"
    and RecoverDeletedKey_pub: "ok s \<Longrightarrow> fst (so_RecoverDeletedKey S n s) = Inr k \<Longrightarrow> publicJWK (kr_Key k)"
    and GetKey_pub: "ok s \<Longrightarrow> so_GetKey S s n v = Inr k \<Longrightarrow> publicJWK (kr_Key k)"
    and DeleteKey_pub: "ok s \<Longrightarrow> fst (so_DeleteKey S n s) = Inr d \<Longrightarrow> publicJWK (kr_Key (dr_Record d))"
    and GetDeletedKey_pub: "ok s \<Longrightarrow> so_GetDeletedKey S s n = Inr d \<Longrightarrow> publicJWK (kr_Key (dr_Record d))"
    and ListDeletedKeys_pub: "ok s \<Longrightarrow> so_ListDeletedKeys S s m t = Inr (page, nxt) \<Longrightarrow>
      list_all (\<lambda>d. publicJWK (kr_Key (dr_Record d))) page"
begin

lemmas pub = CreateKey_pub ImportKey_pub UpdateKey_pub RecoverDeletedKey_pub GetKey_pub DeleteKey_pub
  GetDeletedKey_pub

lemma listing_shows:
  assumes "ok s"
  shows "showsPublic (listDeletedKeys S r s)" "showsPublic (listKeys S r s)" "showsPublic (listSecrets S r s)"
    "showsPublic (listDeletedSecrets S r s)" "showsPublic (listCertificates S r s)"
    "showsPublic (listDeletedCertificates S r s)"
  using ListDeletedKeys_pub [OF assms]
  by (auto simp: listing_defs list_all_iff intro!: shows_pageOf)

lemma routes_show:
  assumes "ok s"
  shows "showsPublic (handleSecretRoutes S D r s)" "showsPublic (handleDeletedSecretRoutes S r s)"
    "showsPublic (restoreSecret S D r s)" "showsPublic (handleKeyRoutes S D r s)"
    "showsPublic (handleDeletedKeyRoutes S r s)" "showsPublic (handleCertificateRoutes S D r s)"
    "showsPublic (handleDeletedCertificateRoutes S r s)"
  unfolding route_defs listing_defs Let_def
  by (intro public_intros; simp add: pub [OF assms] split: prod.split)+

lemma rest_public: "ok s \<Longrightarrow> showsPublic (serveRest S D r s)"
  by (simp add: serveRest_def runRoute_def routes_show listing_shows split: Dispatch.split RestRoute.split)

end

end
