(* ===== verification/KV_Rest_Store.thy ===== *)
theory KV_Rest_Store
  imports KV_Rest_Public KV_Lifecycle KV_Store_Props KV_EncStore
begin

text \<open>
  The in-memory store, alone and behind the encrypting wrapper, keeps the promises that the handlers
  of the API rely on.
\<close>

section \<open>Failed operations of the in-memory store\<close>

lemma not_calm [simp]: "\<not> calm (Panic m)" "\<not> calm nilDereference"
  by (simp_all add: calm_def nilDereference_def)

lemma newRecoveryID_panics: "newRecoveryID e k n = Inl err \<Longrightarrow> \<not> calm err"
  by (auto simp: newRecoveryID_def newVersion_def rbind_Inl_iff split: sum.splits)

lemma latest_panics:
  "latestSecretRecord es = Inl err \<Longrightarrow> \<not> calm err" "latestKeyRecord ek = Inl err \<Longrightarrow> \<not> calm err"
  "latestCertificateRecord ec = Inl err \<Longrightarrow> \<not> calm err"
  by (auto simp: latestSecretRecord_def latestKeyRecord_def latestCertificateRecord_def ofOption_def
      split: option.splits)

lemma deleted_panics:
  "deletedSecretRecord ds = Inl err \<Longrightarrow> \<not> calm err" "deletedKeyRecord dk = Inl err \<Longrightarrow> \<not> calm err"
  "deletedCertificateRecord dc = Inl err \<Longrightarrow> \<not> calm err"
  by (auto simp: deletedSecretRecord_def deletedKeyRecord_def deletedCertificateRecord_def rbind_Inl_iff
      dest: latest_panics)

lemmas panics = newRecoveryID_panics latest_panics deleted_panics

lemma memory_update_fails:
  "fst (UpdateSecret e n v u s) = Inl err \<Longrightarrow> snd (UpdateSecret e n v u s) = s"
  "fst (UpdateKey e n v uk s) = Inl err \<Longrightarrow> snd (UpdateKey e n v uk s) = s"
  "fst (UpdateCertificate e n v uc s) = Inl err \<Longrightarrow> snd (UpdateCertificate e n v uc s) = s"
  "fst (UpdateCertificatePolicy e n p s) = Inl err \<Longrightarrow> snd (UpdateCertificatePolicy e n p s) = s"
  by (auto simp: UpdateSecret_def UpdateKey_def UpdateCertificate_def UpdateCertificatePolicy_def Let_def
      split: option.splits)

lemma memory_delete_fails:
  "fst (DeleteSecret e n s) = Inl err \<Longrightarrow> calm err \<Longrightarrow> snd (DeleteSecret e n s) = s"
  "fst (DeleteKey e n s) = Inl err \<Longrightarrow> calm err \<Longrightarrow> snd (DeleteKey e n s) = s"
  "fst (DeleteCertificate e n s) = Inl err \<Longrightarrow> calm err \<Longrightarrow> snd (DeleteCertificate e n s) = s"
  by (auto simp: DeleteSecret_def DeleteKey_def DeleteCertificate_def Let_def
      split: option.splits if_split_asm sum.splits dest: panics)

lemma memory_purge_fails:
  "fst (PurgeDeletedSecret n s) = Inl err \<Longrightarrow> snd (PurgeDeletedSecret n s) = s"
  "fst (PurgeDeletedKey n s) = Inl err \<Longrightarrow> snd (PurgeDeletedKey n s) = s"
  "fst (PurgeDeletedCertificate n s) = Inl err \<Longrightarrow> snd (PurgeDeletedCertificate n s) = s"
  by (simp_all add: PurgeDeletedSecret_def PurgeDeletedKey_def PurgeDeletedCertificate_def split: if_split_asm)

lemma memory_recover_fails:
  "fst (RecoverDeletedSecret n s) = Inl err \<Longrightarrow> calm err \<Longrightarrow> snd (RecoverDeletedSecret n s) = s"
  "fst (RecoverDeletedKey n s) = Inl err \<Longrightarrow> calm err \<Longrightarrow> snd (RecoverDeletedKey n s) = s"
  "fst (RecoverDeletedCertificate n s) = Inl err \<Longrightarrow> calm err \<Longrightarrow> snd (RecoverDeletedCertificate n s) = s"
  by (auto simp: RecoverDeletedSecret_def RecoverDeletedKey_def RecoverDeletedCertificate_def rbind_Inl_iff
      split: option.splits if_split_asm dest: panics)

lemma memory_restore_fails:
  "fst (RestoreSecret C t s) = Inl err \<Longrightarrow> calm err \<Longrightarrow> snd (RestoreSecret C t s) = s"
  by (auto simp: RestoreSecret_def rbind_Inl_iff Let_def split: option.splits sum.splits if_split_asm dest: panics)

lemma memory_certificate_fails:
  "fst (CreateCertificate e P L n cc s) = Inl err \<Longrightarrow> snd (CreateCertificate e P L n cc s) = s"
  "fst (ImportCertificate e L n ic s) = Inl err \<Longrightarrow> snd (ImportCertificate e L n ic s) = s"
  by (cases rule: CreateCertificate_cases [of e P L n cc s]; simp)
    (cases rule: ImportCertificate_cases [of e L n ic s]; simp)

lemma memory_key_fails:
  "fst (CreateKey e P n ck s) = Inl err \<Longrightarrow> snd (CreateKey e P n ck s) = s"
  "fst (ImportKey e n ik s) = Inl err \<Longrightarrow> snd (ImportKey e n ik s) = s"
  by (rule keys.put_fail, assumption) (rule imported_keys.put_fail)

interpretation memory_atomic: atomic_storer "memStorer e P L C" for e P L C
  by unfold_locales
    (simp_all add: memStorer_def secrets.put_fail memory_update_fails memory_delete_fails memory_purge_fails
      memory_recover_fails memory_restore_fails memory_certificate_fails memory_key_fails)

section \<open>The wrapper keeps the promise\<close>

lemma decryptResult_Inl [simp]:
  "decryptResult key r = Inl err \<longleftrightarrow> r = Inl err" "decryptDeleted key d = Inl err \<longleftrightarrow> d = Inl err"
  by (auto simp: decryptResult_def decryptDeleted_def rbind_Inl_iff)

lemma encSetSecret_fails:
  assumes "atomic_storer S" "fst (encSetSecret nr key locked S n q s) = Inl err" "calm err"
  shows "snd (encSetSecret nr key locked S n q s) = s"
  using assms(2,3) atomic_storer.SetSecret_fail [OF assms(1)]
  by (auto simp: encSetSecret_def split: option.splits if_split_asm sum.splits)

lemma encrypted_atomic:
  assumes "atomic_storer S"
  shows "atomic_storer (encryptedStore nr key locked S)"
  by (intro atomic_storer.intro; simp add: encryptedStore_def split_beta encSetSecret_fails [OF assms]
      atomic_storer.fails [OF assms])

interpretation wrapped_atomic: atomic_storer "encryptedStore nr key locked (memStorer e P L C)"
  for nr key locked e P L C
  by (rule encrypted_atomic) (rule memory_atomic.atomic_storer_axioms)

section \<open>Keys come without their private fields\<close>

lemma latestKeyRecord_public:
  "latestKeyRecord es = Inr r \<Longrightarrow> entry_ok key_ok n es \<Longrightarrow> publicJWK (kr_Key (cloneKeyRecord r))"
  by (cases "es = []") (auto simp: entry_ok_def list_all_iff intro!: key_ok_public)

lemma deletedKeyRecord_public:
  "deletedKeyRecord d = Inr r \<Longrightarrow> entry_ok key_ok n (de_entry d) \<Longrightarrow> publicJWK (kr_Key (dr_Record r))"
  by (auto simp: deletedKeyRecord_def rbind_Inr_iff latestKeyRecord_public)

lemma stored_key_public: "key_ok n x \<Longrightarrow> publicJWK (kr_Key (kv_record x))"
  by (simp add: key_ok_def)

lemma UpdateKey_public: "keys_ok s \<Longrightarrow> fst (UpdateKey e n v u s) = Inr k \<Longrightarrow> publicJWK (kr_Key k)"
  by (auto simp: UpdateKey_def Let_def cloneKeyRecord_def split: option.splits
      dest!: findKeyVersion_ok stored_key_public)

lemma DeleteKey_public: "keys_ok s \<Longrightarrow> fst (DeleteKey e n s) = Inr d \<Longrightarrow> publicJWK (kr_Key (dr_Record d))"
  using kind_ok_live [of key_ok "st_keys s" "st_deletedKeys s" n]
  by (auto simp: DeleteKey_def Let_def keys_ok_def split: option.splits if_split_asm sum.splits
      intro: deletedKeyRecord_public)

lemma RecoverDeletedKey_public:
  "keys_ok s \<Longrightarrow> fst (RecoverDeletedKey n s) = Inr k \<Longrightarrow> publicJWK (kr_Key k)"
  using kind_ok_gone [of key_ok "st_keys s" "st_deletedKeys s" n]
  by (auto simp: RecoverDeletedKey_def rbind_Inr_iff keys_ok_def split: option.splits if_split_asm
      intro: latestKeyRecord_public)

lemma CreateKey_public: "keys_ok s \<Longrightarrow> fst (CreateKey e P n q s) = Inr k \<Longrightarrow> publicJWK (kr_Key k)"
  using keys.put_get [of s e P n q k "snd (CreateKey e P n q s)"] CreateKey_ok [of s e P n q] GetKey_public
  by (metis prod.collapse)

lemma ImportKey_public: "keys_ok s \<Longrightarrow> fst (ImportKey e n q s) = Inr k \<Longrightarrow> publicJWK (kr_Key k)"
  using imported_keys.put_get [of s e n q k "snd (ImportKey e n q s)"] ImportKey_ok [of s e n q] GetKey_public
  by (metis prod.collapse)

lemma ListDeletedKeys_public:
  assumes "keys_ok s" "ListDeletedKeys s m tok = Inr (page, nxt)"
  shows "list_all (\<lambda>d. publicJWK (kr_Key (dr_Record d))) page"
proof -
  have "publicJWK (kr_Key (dr_Record (projr (deletedKeyRecord (the (map_of (st_deletedKeys s) n))))))"
    if n: "n \<in> set (mkeys (st_deletedKeys s))" for n
  proof -
    obtain d where d: "map_of (st_deletedKeys s) n = Some d"
      using mem_mkeys [OF n] by blast
    then have "entry_ok key_ok n (de_entry d)" "de_entry d \<noteq> []"
      using assms(1) kind_ok_gone kind_nonempty(2) unfolding keys_ok_def by blast+
    then show ?thesis
      using d key_ok_public [OF entry_ok_last] by (simp add: deletedKeyRecord_def)
  qed
  then have "list_all (\<lambda>d. publicJWK (kr_Key (dr_Record d))) (deletedKeyListing s)"
    by (simp add: deletedKeyListing_def list_all_iff)
  moreover have "set page \<subseteq> set (deletedKeyListing s)"
    using assms by (intro paginateNames_subset) (simp add: ListDeletedKeys_eq)
  ultimately show ?thesis
    by (auto simp: list_all_iff)
qed

interpretation memory_public: public_keys keys_ok "memStorer e P L C" for e P L C
  by unfold_locales
    (simp_all add: memStorer_def CreateKey_public ImportKey_public UpdateKey_public RecoverDeletedKey_public
      GetKey_public DeleteKey_public GetDeletedKey_public ListDeletedKeys_public)

lemma encrypted_public: "public_keys ok S \<Longrightarrow> public_keys ok (encryptedStore nr key locked S)"
  by (simp add: public_keys_def encryptedStore_def)

interpretation wrapped_public: public_keys keys_ok "encryptedStore nr key locked (memStorer e P L C)"
  for nr key locked e P L C
  by (rule encrypted_public) (rule memory_public.public_keys_axioms)

end
