(* ===== verification/KV_Rest_Http.thy ===== *)
theory KV_Rest_Http
  imports KV_Rest_Store
begin

text \<open>
  From a request on the wire to the operation of the store: which route a well-formed request
  reaches, what \<open>splitPath\<close> makes of its path, and a client that follows the next links of a
  listing.
\<close>

section \<open>The table of routes\<close>

definition methodRoute :: "string \<times> Seg list \<times> RestRoute \<Rightarrow> Pattern \<times> RestRoute" where
  "methodRoute x = (case x of (m, segs, h) \<Rightarrow> (\<lparr>pt_Method = Some m, pt_Segs = segs\<rparr>, h))"

lemma restRoutes_eq:
  "restRoutes = map methodRoute
    [(''GET'', [Lit ''healthz''], Healthz),
     (''GET'', [Lit ''secrets''], ListSecretsRoute),
     (''POST'', [Lit ''secrets'', Lit ''restore''], RestoreSecretRoute),
     (''PUT'', [Lit ''secrets'', Multi], SecretRoutes),
     (''GET'', [Lit ''secrets'', Multi], SecretRoutes),
     (''DELETE'', [Lit ''secrets'', Multi], SecretRoutes),
     (''PATCH'', [Lit ''secrets'', Multi], SecretRoutes),
     (''POST'', [Lit ''secrets'', Multi], SecretRoutes),
     (''GET'', [Lit ''deletedsecrets''], ListDeletedSecretsRoute),
     (''GET'', [Lit ''deletedsecrets'', Multi], DeletedSecretRoutes),
     (''DELETE'', [Lit ''deletedsecrets'', Multi], DeletedSecretRoutes),
     (''POST'', [Lit ''deletedsecrets'', Multi], DeletedSecretRoutes),
     (''GET'', [Lit ''keys''], ListKeysRoute),
     (''POST'', [Lit ''keys'', Multi], KeyRoutes),
     (''GET'', [Lit ''keys'', Multi], KeyRoutes),
     (''DELETE'', [Lit ''keys'', Multi], KeyRoutes),
     (''PATCH'', [Lit ''keys'', Multi], KeyRoutes),
     (''GET'', [Lit ''deletedkeys''], ListDeletedKeysRoute),
     (''GET'', [Lit ''deletedkeys'', Multi], DeletedKeyRoutes),
     (''DELETE'', [Lit ''deletedkeys'', Multi], DeletedKeyRoutes),
     (''POST'', [Lit ''deletedkeys'', Multi], DeletedKeyRoutes),
     (''GET'', [Lit ''certificates''], ListCertificatesRoute),
     (''POST'', [Lit ''certificates'', Multi], CertificateRoutes),
     (''GET'', [Lit ''certificates'', Multi], CertificateRoutes),
     (''DELETE'', [Lit ''certificates'', Multi], CertificateRoutes),
     (''PATCH'', [Lit ''certificates'', Multi], CertificateRoutes),
     (''GET'', [Lit ''deletedcertificates''], ListDeletedCertificatesRoute),
     (''GET'', [Lit ''deletedcertificates'', Multi], DeletedCertificateRoutes),
     (''DELETE'', [Lit ''deletedcertificates'', Multi], DeletedCertificateRoutes),
     (''POST'', [Lit ''deletedcertificates'', Multi], DeletedCertificateRoutes)]
    @ [(\<lparr>pt_Method = None, pt_Segs = [Multi]\<rparr>, NotFoundRoute)]"
  by code_simp

text \<open>A request for a path of plain segments, as a client sends it.\<close>

definition apiRequest :: "string \<Rightarrow> string list \<Rightarrow> Request \<Rightarrow> bool" where
  "apiRequest m segs r \<longleftrightarrow> rq_Method r = m \<and> segs \<noteq> [] \<and> list_all plainSeg segs \<and>
     rq_Path r = CHR ''/'' # joinWith ''/'' segs \<and> rq_EscapedPath r = rq_Path r"

lemma pathUnescape_words [simp]:
  "pathUnescape ''secrets'' = ''secrets''" "pathUnescape ''deletedsecrets'' = ''deletedsecrets''"
  "pathUnescape ''recover'' = ''recover''" "pathUnescape ''keys'' = ''keys''"
  by (simp_all add: pathUnescape_def)

lemma apiRequest_segs:
  assumes "apiRequest m segs r"
  shows "cleanPath (rq_EscapedPath r) = rq_EscapedPath r" "pathSegs (rq_EscapedPath r) = segs"
    "rq_Method r = m" "\<not> endsInSlash (rq_EscapedPath r)" "\<forall>x \<in> set segs. plainSeg x"
proof -
  have p: "segs \<noteq> []" "\<forall>x \<in> set segs. plainSeg x" "rq_EscapedPath r = CHR ''/'' # joinWith ''/'' segs"
    using assms by (auto simp: apiRequest_def list_all_iff)
  then show c: "cleanPath (rq_EscapedPath r) = rq_EscapedPath r"
    by (simp add: cleanPath_plain)
  show "pathSegs (rq_EscapedPath r) = segs"
    using p plainSeg_chars by (subst p(3), intro pathSegs_join) auto
  show "rq_Method r = m"
    using assms by (simp add: apiRequest_def)
  show "\<forall>x \<in> set segs. plainSeg x"
    by (rule p(2))
  have "last segs \<noteq> []" "joinWith ''/'' segs \<noteq> []" "plainSeg (last segs)"
    using p(1,2) joinWith_neq_Nil [of segs] by (auto simp: plainSeg_def)
  then show "\<not> endsInSlash (rq_EscapedPath r)"
    using p last_joinWith [of segs "''/''"] plainSeg_chars [of "last segs" "last (last segs)"]
    by (auto simp: endsInSlash_def)
qed

lemmas matching_simps = muxMatch_def matching_def restRoutes_eq methodRoute_def preferred_def segRank_def

lemma dispatch_secret:
  assumes "apiRequest m [''secrets'', n] r" "m = ''PUT'' \<or> m = ''GET'' \<or> m = ''DELETE''"
  shows "findHandler restRoutes r = Handle SecretRoutes []"
  using assms(2) apiRequest_segs [OF assms(1)]
  by (elim disjE) (simp_all add: findHandler_def matching_simps exactMatch_def)

lemma dispatch_list_secrets:
  assumes "apiRequest ''GET'' [''secrets''] r"
  shows "findHandler restRoutes r = Handle ListSecretsRoute []"
  using apiRequest_segs [OF assms] by (simp add: findHandler_def matching_simps exactMatch_def)

lemma dispatch_recover:
  assumes "apiRequest ''POST'' [''deletedsecrets'', n, ''recover''] r"
  shows "findHandler restRoutes r = Handle DeletedSecretRoutes []"
  using apiRequest_segs [OF assms] by (simp add: findHandler_def matching_simps exactMatch_def)

lemma dispatch_key:
  assumes "apiRequest ''GET'' [''keys'', n] r"
  shows "findHandler restRoutes r = Handle KeyRoutes []"
  using apiRequest_segs [OF assms] by (simp add: findHandler_def matching_simps exactMatch_def)

section \<open>Splitting the path\<close>

lemma trimChar_plain:
  assumes "x \<noteq> []" "hd x \<noteq> c" "last x \<noteq> c"
  shows "trimChar c x = x"
proof -
  have "dropWhile (\<lambda>y. y = c) x = x"
    using assms by (cases x) auto
  moreover have "dropWhile (\<lambda>y. y = c) (rev x) = rev x"
    using assms by (cases x rule: rev_cases) auto
  ultimately show ?thesis
    by (simp add: trimChar_def)
qed

lemma splitPath_plain:
  assumes "segs \<noteq> []" "\<forall>x \<in> set segs. plainSeg x"
  shows "splitPath (prefix @ joinWith ''/'' segs) prefix = segs"
proof -
  let ?x = "joinWith ''/'' segs"
  have l: "last segs \<noteq> []" "plainSeg (last segs)" "plainSeg (hd segs)"
    using assms by (auto simp: plainSeg_def)
  then have x: "?x \<noteq> []" "last ?x = last (last segs)"
    using assms(1) by (simp_all add: joinWith_neq_Nil last_joinWith)
  have h: "hd ?x = hd (hd segs)"
    using assms(1) l(3) by (cases segs rule: remdups_adj.cases) (auto simp: plainSeg_def)
  have "hd (hd segs) \<noteq> CHR ''/''" "last (last segs) \<noteq> CHR ''/''"
    using l plainSeg_chars [OF l(3), of "hd (hd segs)"] plainSeg_chars [OF l(2), of "last (last segs)"]
    by (auto simp: plainSeg_def)
  then have "trimChar (CHR ''/'') ?x = ?x"
    using x h by (intro trimChar_plain) simp_all
  moreover have "splitOn (CHR ''/'') ?x = segs"
    using assms plainSeg_chars by (intro splitOn_joinWith) auto
  ultimately show ?thesis
    using x(1) by (simp add: splitPath_def trimPrefix_def hasPrefix_append)
qed

lemma splitPath_request:
  assumes "apiRequest m (a # segs) r" "segs \<noteq> []"
  shows "splitPath (rq_Path r) (''/'' @ a @ ''/'') = segs"
proof -
  have "rq_Path r = (''/'' @ a @ ''/'') @ joinWith ''/'' segs"
    using assms by (cases segs) (auto simp: apiRequest_def)
  then show ?thesis
    using splitPath_plain [OF assms(2), of "''/'' @ a @ ''/''"] apiRequest_segs(5) [OF assms(1)] by simp
qed

section \<open>What reaches the store\<close>

lemma serve_secret:
  assumes "apiRequest m [''secrets'', n] r" "m = ''PUT'' \<or> m = ''GET'' \<or> m = ''DELETE''"
  shows "serveRest S D r s = handleSecretRoutes S D r s"
  using dispatch_secret [OF assms] by (simp add: serveRest_def runRoute_def)

lemma serve_PUT_secret:
  assumes "apiRequest ''PUT'' [''secrets'', n] r"
  shows "serveRest S D r s = withBody (de_SecretSet D) r (\<lambda>q.
    reply (\<lambda>record. SecretBody (secretBundle r record)) (so_SetSecret S n q s)) s"
  using assms serve_secret [OF assms] splitPath_request [OF assms]
  by (simp add: handleSecretRoutes_def apiRequest_def)

lemma serve_GET_secret:
  assumes "apiRequest ''GET'' [''secrets'', n] r"
  shows "serveRest S D r s = reply (\<lambda>record. SecretBody (secretBundle r record)) (so_GetSecret S s n [], s)"
  using assms serve_secret [OF assms] splitPath_request [OF assms]
  by (simp add: handleSecretRoutes_def apiRequest_def)

lemma serve_DELETE_secret:
  assumes "apiRequest ''DELETE'' [''secrets'', n] r"
  shows "serveRest S D r s = reply (\<lambda>record. DeletedSecretBody (deletedSecretBundle r record)) (so_DeleteSecret S n s)"
  using assms serve_secret [OF assms] splitPath_request [OF assms]
  by (simp add: handleSecretRoutes_def apiRequest_def)

lemma serve_GET_key:
  assumes "apiRequest ''GET'' [''keys'', n] r"
  shows "serveRest S D r s = reply (\<lambda>record. KeyBody (keyBundle r record)) (so_GetKey S s n [], s)"
  using assms dispatch_key [OF assms] splitPath_request [OF assms]
  by (simp add: serveRest_def runRoute_def handleKeyRoutes_def handleKeyGet_def apiRequest_def)

lemma serve_recover_secret:
  assumes "apiRequest ''POST'' [''deletedsecrets'', n, ''recover''] r"
  shows "serveRest S D r s = reply (\<lambda>record. SecretBody (secretBundle r record)) (so_RecoverDeletedSecret S n s)"
  using assms dispatch_recover [OF assms] splitPath_request [OF assms]
  by (simp add: serveRest_def runRoute_def handleDeletedSecretRoutes_def apiRequest_def)

lemma serve_list_secrets:
  assumes "apiRequest ''GET'' [''secrets''] r"
  shows "serveRest S D r s = pageOf r (so_ListSecrets S s) (secretListItem r) SecretItems s"
  using dispatch_list_secrets [OF assms] by (simp add: serveRest_def runRoute_def listSecrets_def)

section \<open>Next links\<close>

text \<open>
  The client keeps the base and the path of its request, which the link repeats, and takes the query
  of the link.
\<close>

definition followLink :: "Request \<Rightarrow> string \<Rightarrow> Request" where
  "followLink r link = r\<lparr>rq_RawQuery := drop (length (vaultBaseURL r @ rq_Path r @ ''?'')) link\<rparr>"

lemma followLink_next:
  "buildNextLink r (Some token) = Some link \<Longrightarrow> followLink r link = r\<lparr>rq_RawQuery := nextQuery r token\<rparr>"
  by (auto simp: buildNextLink_def followLink_def)

lemma vaultBaseURL_query [simp]: "vaultBaseURL (r\<lparr>rq_RawQuery := q\<rparr>) = vaultBaseURL r"
  by (simp add: vaultBaseURL_def headerGet_def cong: option.case_cong)

lemma secretListItem_query [simp]: "secretListItem (r\<lparr>rq_RawQuery := q\<rparr>) = secretListItem r"
  by (simp add: secretListItem_def fun_eq_iff)

lemma apiRequest_query [simp]: "apiRequest m segs (r\<lparr>rq_RawQuery := q\<rparr>) = apiRequest m segs r"
  by (simp add: apiRequest_def)

lemma nextQuery_get:
  "valuesGet (parseQuery (nextQuery r token)) key =
    (if key = ''$skiptoken'' then token
     else if key = ''api-version'' \<and> valuesGet (queryOf r) key = [] then ''7.4''
     else valuesGet (queryOf r) key)"
proof -
  have m: "map_ok (valuesSet ''$skiptoken'' token (queryOf r))"
    by (simp add: valuesSet_def queryOf_def map_ok_parseQuery)
  then have "map_ok (valuesSet ''api-version'' ''7.4'' (valuesSet ''$skiptoken'' token (queryOf r)))"
    by (simp add: valuesSet_def)
  with m show ?thesis
    by (auto simp add: nextQuery_def Let_def valuesGet_parseQuery_valuesEncode valuesGet_valuesSet)
qed

definition pageSize :: "Request \<Rightarrow> int res" where
  "pageSize r =
     (if valuesGet (queryOf r) ''$maxresults'' = [] then
        (if valuesGet (queryOf r) ''maxresults'' \<noteq> []
         then parseMaxResults ''maxresults'' (valuesGet (queryOf r) ''maxresults'') else Inr 25)
      else parseMaxResults ''$maxresults'' (valuesGet (queryOf r) ''$maxresults''))"

definition pageToken :: "Request \<Rightarrow> string" where
  "pageToken r = (if valuesGet (queryOf r) ''$skiptoken'' = [] then valuesGet (queryOf r) ''skiptoken''
     else valuesGet (queryOf r) ''$skiptoken'')"

lemma parsePagination_eq:
  "parsePagination r = rbind (pageSize r) (\<lambda>m. Inr (if m > 100 then 100 else m, pageToken r))"
  unfolding parsePagination_def pageSize_def pageToken_def Let_def by (rule refl)

lemma parsePagination_next:
  assumes "parsePagination r = Inr (m, skip)" "token \<noteq> []"
  shows "parsePagination (r\<lparr>rq_RawQuery := nextQuery r token\<rparr>) = Inr (m, token)"
proof -
  let ?r = "r\<lparr>rq_RawQuery := nextQuery r token\<rparr>"
  have g: "valuesGet (queryOf ?r) ''$maxresults'' = valuesGet (queryOf r) ''$maxresults''"
    "valuesGet (queryOf ?r) ''maxresults'' = valuesGet (queryOf r) ''maxresults''"
    "valuesGet (queryOf ?r) ''$skiptoken'' = token"
    by (simp_all add: queryOf_def [of ?r] nextQuery_get)
  have "pageSize ?r = pageSize r"
    unfolding pageSize_def g by (rule refl)
  moreover have "pageToken ?r = token"
    unfolding pageToken_def g using assms(2) by simp
  ultimately show ?thesis
    using assms(1) unfolding parsePagination_eq by (auto simp: rbind_Inr_iff)
qed

text \<open>A client that follows the next links of a listing of secrets until a page has none.\<close>

fun followLinks :: "nat \<Rightarrow> (Request \<Rightarrow> reply) \<Rightarrow> Request \<Rightarrow> SecretItem list option" where
  "followLinks 0 serve r = None"
| "followLinks (Suc fuel) serve r =
     (case bodyOf (serve r) of
        Some (SecretItems l) \<Rightarrow>
          (case lr_NextLink l of
             None \<Rightarrow> Some (lr_Value l)
           | Some link \<Rightarrow> map_option (\<lambda>rest. lr_Value l @ rest) (followLinks fuel serve (followLink r link)))
      | _ \<Rightarrow> None)"

lemma bodyOf_writeError: "bodyOf (writeError err) \<noteq> Some (SecretItems l)"
  by (cases err) (simp_all add: writeError_def)

lemma followLinks_walkPages:
  assumes "\<And>tok page t. so_ListSecrets S s m tok = Inr (page, Some t) \<Longrightarrow> t \<noteq> []"
    "apiRequest ''GET'' [''secrets''] r" "parsePagination r = Inr (m, tok)"
  shows "followLinks fuel (\<lambda>r. fst (serveRest S D r s)) r =
    map_option (map (secretListItem r)) (walkPages fuel (so_ListSecrets S s m) tok)"
  using assms(2,3)
proof (induction fuel arbitrary: r tok)
  case (Suc fuel)
  have serve: "serveRest S D r s = reply (\<lambda>(records, nxt). SecretItems
      \<lparr>lr_Value = map (secretListItem r) records, lr_NextLink = buildNextLink r nxt\<rparr>) (so_ListSecrets S s m tok, s)"
    using Suc.prems by (simp add: serve_list_secrets pageOf_def)
  show ?case
  proof (cases "so_ListSecrets S s m tok")
    case (Inl err)
    then show ?thesis
      using bodyOf_writeError [of err] by (simp add: serve reply_def split: option.split Body.split)
  next
    case (Inr p)
    then obtain page nxt where p: "so_ListSecrets S s m tok = Inr (page, nxt)"
      by (cases p) simp
    show ?thesis
    proof (cases nxt)
      case None
      then show ?thesis
        by (simp add: serve p reply_def buildNextLink_def)
    next
      case (Some t)
      let ?r = "r\<lparr>rq_RawQuery := nextQuery r t\<rparr>"
      obtain link where link: "buildNextLink r (Some t) = Some link"
        by (simp add: buildNextLink_def)
      have "t \<noteq> []"
        using assms(1) p Some by blast
      then have "parsePagination ?r = Inr (m, t)"
        using Suc.prems(2) by (rule parsePagination_next [rotated])
      then have "followLinks fuel (\<lambda>r. fst (serveRest S D r s)) ?r =
          map_option (map (secretListItem ?r)) (walkPages fuel (so_ListSecrets S s m) t)"
        using Suc.prems(1) by (intro Suc.IH) simp_all
      then show ?thesis
        by (simp add: serve p Some reply_def link followLink_next [OF link] option.map_comp comp_def)
    qed
  qed
qed simp

end
