(* ===== verification/KV_Rest_Theorems.thy ===== *)
theory KV_Rest_Theorems
  imports KV_Rest_Http KV_Store_Theorems
begin

text \<open>
  The properties of the Key Vault API as a client sees it over HTTP.
\<close>

section \<open>Sample requests\<close>

definition sampleRequest :: "string \<Rightarrow> string \<Rightarrow> Request" where
  "sampleRequest m path = \<lparr>rq_Method = m, rq_Path = path, rq_EscapedPath = path, rq_RawQuery = [],
     rq_Host = ''my.vault.local:8080'', rq_TLS = False, rq_Header = [], rq_Cookies = [], rq_Body = Some []\<rparr>"

definition sampleDecoders :: decoders where
  "sampleDecoders = \<lparr>de_SecretSet = (\<lambda>_. Inr sampleSecret), de_SecretUpdate = (\<lambda>_. Inl ''EOF''),
     de_Restore = (\<lambda>_. Inl ''EOF''), de_CreateKey = (\<lambda>_. Inr (sampleKeyRequest ''oct'')),
     de_ImportKey = (\<lambda>_. Inl ''EOF''), de_UpdateKey = (\<lambda>_. Inl ''EOF''), de_Encrypt = (\<lambda>_. Inl ''EOF''),
     de_Sign = (\<lambda>_. Inl ''EOF''), de_Verify = (\<lambda>_. Inl ''EOF''),
     de_CreateCertificate = (\<lambda>_. Inr sampleCertRequest), de_ImportCertificate = (\<lambda>_. Inl ''EOF''),
     de_UpdateCertificate = (\<lambda>_. Inl ''EOF'')\<rparr>"

lemma sampleRequest_simps [simp]:
  "rq_Method (sampleRequest m p) = m" "rq_Path (sampleRequest m p) = p" "rq_EscapedPath (sampleRequest m p) = p"
  "rq_RawQuery (sampleRequest m p) = []" "rq_Body (sampleRequest m p) = Some []"
  by (simp_all add: sampleRequest_def)

lemma sampleRequest_base [simp]: "vaultBaseURL (sampleRequest m p) = ''http://my.vault.local''"
  by (simp add: vaultBaseURL_def headerGet_def sampleRequest_def splitHostPort_def lastIndexOf_def indexOf_def
      hasPrefix_def Let_def)

lemma sample_api:
  "apiRequest ''PUT'' [''secrets'', ''a''] (sampleRequest ''PUT'' ''/secrets/a'')"
  "apiRequest ''GET'' [''secrets'', ''a''] (sampleRequest ''GET'' ''/secrets/a'')"
  "apiRequest ''DELETE'' [''secrets'', ''a''] (sampleRequest ''DELETE'' ''/secrets/a'')"
  "apiRequest ''POST'' [''deletedsecrets'', ''a'', ''recover''] (sampleRequest ''POST'' ''/deletedsecrets/a/recover'')"
  "apiRequest ''GET'' [''secrets''] (sampleRequest ''GET'' ''/secrets'')"
  by (simp_all add: apiRequest_def plainSeg_def unreserved_def Let_def)

lemma sample_pagination: "parsePagination (sampleRequest m p) = Inr (25, [])"
  by (simp add: parsePagination_def queryOf_def parseQuery_def querySetting_def valuesGet_def Let_def
      List.map_filter_simps)

lemma reply_sent:
  assumes "reply body out = (Response st ck (Some b), s')" "\<And>e. b \<noteq> ErrorBody e"
  shows "\<exists>x. out = (Inr x, s') \<and> b = body x"
  using assms by (cases out; cases "fst out")
    (auto simp: reply_def writeJSON_def writeError_def split: goerr.split_asm)

lemma reply_Inr: "fst out = Inr x \<Longrightarrow> reply body out = (writeJSON 200 (body x), snd out)"
  by (simp add: reply_def)

lemma withBody_sent:
  assumes "withBody decode r k s = (Response st ck (Some b), s')" "\<And>e. b \<noteq> ErrorBody e"
  shows "\<exists>q. k q = (Response st ck (Some b), s')"
  using assms by (auto simp: withBody_def writeError_def writeJSON_def newError_def split: sum.split_asm)

lemma paginateNames_token: "paginateNames items tok m = Inr (page, Some t) \<Longrightarrow> t \<noteq> []"
  by (auto simp: paginateNames_def rbind_Inr_iff Let_def itoa_nonempty split: if_split_asm)

lemma recovered_is_read:
  assumes "secrets_ok s" "RecoverDeletedSecret n s = (Inr r, s')"
  shows "GetSecret s' n [] = Inr r"
proof -
  obtain d where d: "map_of (st_deletedSecrets s) n = Some d"
    "rbind (latestSecretRecord (de_entry d)) (\<lambda>r. Inr (cloneSecretRecord r)) = Inr r"
    "s' = s\<lparr>st_secrets := mput n (de_entry d) (st_secrets s), st_deletedSecrets := mdel n (st_deletedSecrets s)\<rparr>"
    using assms(2) by (auto simp: RecoverDeletedSecret_def split: if_split_asm option.splits)
  have "de_entry d \<noteq> []"
    using assms(1) d(1) unfolding secrets_ok_def by (rule kind_nonempty(2))
  with d show ?thesis
    by (simp add: GetSecret_def findSecretVersion_def findVersion_def map_of_mput last_conv_nth)
qed

section \<open>Properties\<close>

text \<open>
  C24: a secret that a client puts over HTTP is what a get of its name returns, value and identifier
  included; after a delete the get answers 404; recovering the deleted secret answers with the same
  bundle, and the get returns it again.
\<close>
theorem secret_over_http:
  assumes "reachable s" "apiRequest ''PUT'' [''secrets'', n] putR" "apiRequest ''GET'' [''secrets'', n] getR"
    "apiRequest ''DELETE'' [''secrets'', n] delR"
    "apiRequest ''POST'' [''deletedsecrets'', n, ''recover''] recR"
    "vaultBaseURL getR = vaultBaseURL putR" "vaultBaseURL recR = vaultBaseURL putR" "env_ok e2"
    "serveRest (memStorer e P L C) D putR s = (Response 200 [] (Some (SecretBody b)), s1)"
    "serveRest (memStorer e2 P L C) D delR s1 = (gone, s2)"
    "serveRest (memStorer e3 P L C) D recR s2 = (back, s3)"
  shows "serveRest (memStorer e3 P L C) D getR s1 = (Response 200 [] (Some (SecretBody b)), s1) \<and>
    \<not> failed gone \<and>
    (\<exists>m. fst (serveRest (memStorer e3 P L C) D getR s2) =
       Response 404 [] (Some (ErrorBody (NewKeyVaultError ''SecretNotFound'' m)))) \<and>
    back = Response 200 [] (Some (SecretBody b)) \<and>
    serveRest (memStorer e3 P L C) D getR s3 = (Response 200 [] (Some (SecretBody b)), s3)"
proof -
  have ok: "secrets_ok s"
    using reachable_store_ok [OF assms(1)] by (simp add: store_ok_def)
  have bun: "secretBundle getR = secretBundle putR" "secretBundle recR = secretBundle putR"
    using assms(6,7) by (simp_all add: secretBundle_def fun_eq_iff)
  obtain q where "reply (\<lambda>record. SecretBody (secretBundle putR record)) (SetSecret e n q s) =
      (Response 200 [] (Some (SecretBody b)), s1)"
    using withBody_sent [OF assms(9) [unfolded serve_PUT_secret [OF assms(2)]]] by (auto simp: memStorer_def)
  then obtain r where put: "SetSecret e n q s = (Inr r, s1)" "b = secretBundle putR r"
    using reply_sent by fastforce
  have ok1: "secrets_ok s1"
    using SetSecret_ok [OF ok, of e n q] put(1) by simp
  have get1: "GetSecret s1 n [] = Inr r"
    using secrets.put_get [OF ok put(1)] .
  have live: "liveSecret s1 n \<noteq> None"
    using secrets.get_ok [OF ok1, of n] get1 by simp
  have gone: "goneSecret s1 n = None"
    using secrets.put_deleted [of s n e q] put(1) secrets.put_gone [OF put(1), of n] by (cases "goneSecret s n") auto
  obtain d where "fst (DeleteSecret e2 n s1) = Inr d"
    using secret.delete_then_recover(1) [OF ok1 assms(8) live gone] by (auto simp: is_ok_iff)
  then have del: "DeleteSecret e2 n s1 = (Inr d, s2)" "gone = writeJSON 200 (DeletedSecretBody (deletedSecretBundle delR d))"
    using assms(10) by (simp_all add: serve_DELETE_secret [OF assms(4)] memStorer_def reply_Inr prod_eq_iff)
  obtain r' where "fst (RecoverDeletedSecret n s2) = Inr r'"
    using secret.delete_then_recover(2) [OF ok1 assms(8) live gone] del(1) by (auto simp: is_ok_iff)
  then have rec: "RecoverDeletedSecret n s2 = (Inr r', s3)"
    "back = writeJSON 200 (SecretBody (secretBundle recR r'))"
    using assms(11) by (simp_all add: serve_recover_secret [OF assms(5)] memStorer_def reply_Inr prod_eq_iff)
  have ok2: "secrets_ok s2"
    using DeleteSecret_ok [OF ok1, of e2 n] del(1) by simp
  have get3: "GetSecret s3 n [] = Inr r"
    using secrets.recovered_reads [OF ok1 assms(8) live gone, of n "[]"] del(1) rec(1) get1 by simp
  have "GetSecret s3 n [] = Inr r'"
    using recovered_is_read [OF ok2 rec(1)] .
  with get3 have "r' = r"
    by simp
  moreover have "\<not> is_ok (GetSecret s2 n [])"
    using secrets.deleted_hidden(1) [OF ok1 assms(8), of n "[]"] live gone del(1)
    by (simp add: canDelete_def vault_def)
  then have "GetSecret s2 n [] = Inl (secretNotFound n)"
    by (auto simp: GetSecret_def split: option.splits)
  ultimately show ?thesis
    using put(2) del(2) rec(2) get1 get3 bun
    by (simp add: serve_GET_secret [OF assms(3)] memStorer_def reply_def writeJSON_def writeError_def
        secretNotFound_def newError_def) (rule exI, rule refl)
qed

theorem secret_over_http_witness:
  "\<exists>b s1. serveRest (memStorer sampleEnv samplePrims sampleLib sampleCodec) sampleDecoders
      (sampleRequest ''PUT'' ''/secrets/a'') New = (Response 200 [] (Some (SecretBody b)), s1) \<and>
    sb_Value b = ''hunter2'' \<and>
    serveRest (memStorer sampleEnv2 samplePrims sampleLib sampleCodec) sampleDecoders
      (sampleRequest ''GET'' ''/secrets/a'') s1 = (Response 200 [] (Some (SecretBody b)), s1)"
proof -
  let ?put = "sampleRequest ''PUT'' ''/secrets/a''"
  let ?s = "serveRest (memStorer sampleEnv samplePrims sampleLib sampleCodec) sampleDecoders ?put New"
  let ?M = "\<lambda>e. memStorer e samplePrims sampleLib sampleCodec"
  have put: "?s = (Response 200 [] (Some (SecretBody (secretBundle ?put sampleRecord))), sampleStore)"
    using SetSecret_sample
    by (simp add: serve_PUT_secret [OF sample_api(1)] memStorer_def withBody_def parseBody_def sampleDecoders_def
        reply_def writeJSON_def)
  obtain gone s2 where del: "serveRest (?M sampleEnv2) sampleDecoders (sampleRequest ''DELETE'' ''/secrets/a'') sampleStore
      = (gone, s2)"
    by (metis surj_pair)
  obtain answer s3 where rcv: "serveRest (?M sampleEnv2) sampleDecoders
      (sampleRequest ''POST'' ''/deletedsecrets/a/recover'') s2 = (answer, s3)"
    by (metis surj_pair)
  have "serveRest (?M sampleEnv2) sampleDecoders (sampleRequest ''GET'' ''/secrets/a'') sampleStore =
      (Response 200 [] (Some (SecretBody (secretBundle ?put sampleRecord))), sampleStore)"
    using secret_over_http [OF reachable_New sample_api(1-4) _ _ sampleEnv_ok(2) put del rcv] by simp
  with put show ?thesis
    by (auto simp: secretBundle_def sampleRecord_def)
qed

text \<open>
  GET and HEAD requests never change the store, whatever the store, the path and the body.
\<close>
theorem safe_methods_do_not_write:
  assumes "rq_Method r = ''GET'' \<or> rq_Method r = ''HEAD''"
  shows "snd (serveRest S D r s) = s"
  using assms by (rule rest_safe)

theorem safe_methods_do_not_write_witness:
  "snd (serveRest (memStorer sampleEnv samplePrims sampleLib sampleCodec) sampleDecoders
     (sampleRequest ''GET'' ''/secrets/a'') sampleStore) = sampleStore"
  by (rule safe_methods_do_not_write) simp


lemma sample_delete_missing:
  assumes "apiRequest ''DELETE'' [''secrets'', ''b''] r"
  shows "failed (fst (serveRest (memStorer e P L C) D r sampleStore))"
  by (simp add: serve_DELETE_secret [OF assms] memStorer_def reply_def DeleteSecret_def sampleStore_secrets
      secretNotFound_def newError_def writeError_def writeJSON_def)


text \<open>
  C29: in every state the store can reach, no response of the API shows a private field of a key,
  whatever the request: creating, importing, updating, reading, deleting, recovering and listing keys
  return public web keys only, with the encrypting wrapper and without it.
\<close>
theorem responses_hide_private_keys:
  assumes "reachable s"
  shows "(bodyOf (fst (serveRest (memStorer e P L C) D r s)) = Some b \<longrightarrow> bodyPublic b) \<and>
    (bodyOf (fst (serveRest (encryptedStore nr key locked (memStorer e P L C)) D r s)) = Some b \<longrightarrow> bodyPublic b)"
proof -
  have "keys_ok s"
    using reachable_store_ok [OF assms] by (simp add: store_ok_def)
  then show ?thesis
    using memory_public.rest_public wrapped_public.rest_public by (auto simp: showsPublic_def)
qed

theorem responses_hide_private_keys_witness:
  "\<exists>b. bodyOf (fst (serveRest (memStorer sampleEnv2 samplePrims sampleLib sampleCodec) sampleDecoders
     (sampleRequest ''GET'' ''/keys/k'') sampleKeys)) = Some (KeyBody b) \<and> jwk_K (kb_Key b) = []"
proof -
  have k: "apiRequest ''GET'' [''keys'', ''k''] (sampleRequest ''GET'' ''/keys/k'')"
    by (simp add: apiRequest_def plainSeg_def unreserved_def Let_def)
  obtain x where "GetKey sampleKeys ''k'' [] = Inr x"
    using sampleKeys_key by (simp add: GetKey_read liveKey_def readVersion_def findVersion_def)
  then have "\<exists>b. bodyOf (fst (serveRest (memStorer sampleEnv2 samplePrims sampleLib sampleCodec) sampleDecoders
      (sampleRequest ''GET'' ''/keys/k'') sampleKeys)) = Some (KeyBody b)"
    by (simp add: serve_GET_key [OF k] memStorer_def reply_def)
  then show ?thesis
    using responses_hide_private_keys [OF sample_reachable(3)] by (fastforce simp: publicJWK_def)
qed

text \<open>
  The next link of a listing repeats the base and the path of the request, and its query, decoded
  again, asks for the same page size at the given continuation token and keeps every other parameter
  of the request; a version of the API is always named.
\<close>
theorem next_link_continues:
  assumes "parsePagination r = Inr (m, skip)" "token \<noteq> []" "buildNextLink r (Some token) = Some link"
  shows "link = vaultBaseURL r @ rq_Path r @ ''?'' @ rq_RawQuery (followLink r link) \<and>
    parsePagination (followLink r link) = Inr (m, token) \<and>
    (\<forall>key. key \<noteq> ''$skiptoken'' \<and> key \<noteq> ''api-version'' \<longrightarrow>
       valuesGet (queryOf (followLink r link)) key = valuesGet (queryOf r) key) \<and>
    valuesGet (queryOf (followLink r link)) ''api-version'' \<noteq> []"
proof (intro conjI)
  note f = followLink_next [OF assms(3)]
  show "link = vaultBaseURL r @ rq_Path r @ ''?'' @ rq_RawQuery (followLink r link)"
    using assms(3) by (simp add: f) (simp add: buildNextLink_def)
  show "parsePagination (followLink r link) = Inr (m, token)"
    using parsePagination_next [OF assms(1,2)] by (simp add: f)
  show "\<forall>key. key \<noteq> ''$skiptoken'' \<and> key \<noteq> ''api-version'' \<longrightarrow>
      valuesGet (queryOf (followLink r link)) key = valuesGet (queryOf r) key"
    by (simp add: f queryOf_def [of "r\<lparr>rq_RawQuery := _\<rparr>"] nextQuery_get)
  show "valuesGet (queryOf (followLink r link)) ''api-version'' \<noteq> []"
    by (simp add: f queryOf_def [of "r\<lparr>rq_RawQuery := _\<rparr>"] nextQuery_get)
qed

theorem next_link_continues_witness:
  "parsePagination (followLink (sampleRequest ''GET'' ''/secrets'')
     (the (buildNextLink (sampleRequest ''GET'' ''/secrets'') (Some ''25'')))) = Inr (25, ''25'')"
proof -
  obtain link where link: "buildNextLink (sampleRequest ''GET'' ''/secrets'') (Some ''25'') = Some link"
    by (simp add: buildNextLink_def)
  then show ?thesis
    using next_link_continues [OF sample_pagination _ link] by simp
qed

text \<open>
  C30: a client that lists secrets over HTTP and follows the next links comes to an end, after at most
  as many requests as there are secrets plus one, and has then seen every secret exactly once, in the
  order of the names.
\<close>
theorem following_links_lists_all:
  assumes "reachable s" "apiRequest ''GET'' [''secrets''] r" "parsePagination r = Inr (m, [])"
    "length (st_secrets s) < fuel" "fuel < 2 ^ 62"
  shows "followLinks fuel (\<lambda>r. fst (serveRest (memStorer e P L C) D r s)) r =
      Some (map (secretListItem r) (secretListing s)) \<and>
    map sr_Name (secretListing s) = sort (mkeys (st_secrets s))"
proof -
  have ok: "secrets_ok s"
    using reachable_store_ok [OF assms(1)] by (simp add: store_ok_def)
  have "t \<noteq> []" if l: "so_ListSecrets (memStorer e P L C) s m tok = Inr (page, Some t)" for tok page t
    using l ok by (intro paginateNames_token) (simp add: memStorer_def ListSecrets_eq)
  then have "followLinks fuel (\<lambda>r. fst (serveRest (memStorer e P L C) D r s)) r =
      map_option (map (secretListItem r)) (walkPages fuel (so_ListSecrets (memStorer e P L C) s m) [])"
    using assms(2,3) by (rule followLinks_walkPages)
  then show ?thesis
    using walk_lists(1) [OF assms(5) ok assms(4), of m] secretListing_names [OF ok] by (simp add: memStorer_def)
qed

theorem following_links_lists_all_witness:
  "followLinks 2 (\<lambda>r. fst (serveRest (memStorer sampleEnv samplePrims sampleLib sampleCodec) sampleDecoders r sampleStore))
      (sampleRequest ''GET'' ''/secrets'') =
    Some (map (secretListItem (sampleRequest ''GET'' ''/secrets'')) (secretListing sampleStore))"
  using following_links_lists_all [OF sample_reachable(1) sample_api(5) sample_pagination, of 2]
  by (simp add: sampleStore_secrets)

end
