(* ===== verification/KV_Web_Auth.thy ===== *)
theory KV_Web_Auth
  imports KV_Http KV_EncStore KV_Auth KV_Sha1
begin

text \<open>
  The web interface, \<open>src/internal/web/handler.go\<close>, first part: its state and the handlers of setup,
  unlocking, sessions and users. The state adds to the auth service and the store the encryption key,
  which lives in memory only.
\<close>

section \<open>Bodies and requests\<close>

record userResponse =
  ur_ID :: string
  ur_Username :: string
  ur_Role :: Role
  ur_CreatedAt :: int

record secretResponse =
  srp_Name :: string
  srp_Version :: string
  srp_Enabled :: bool
  srp_ContentType :: string
  srp_Created :: int
  srp_Updated :: int
  srp_NotBefore :: "int option"
  srp_Expires :: "int option"

record keyResponse =
  krp_Name :: string
  krp_Version :: string
  krp_Kty :: string
  krp_Crv :: string
  krp_Kid :: string
  krp_Created :: int
  krp_Updated :: int
  krp_NotBefore :: "int option"
  krp_Expires :: "int option"

record certificateResponse =
  crp_Name :: string
  crp_Version :: string
  crp_Created :: int
  crp_Updated :: int
  crp_Expires :: "int option"

record keyDetailResponse = keyResponse +
  kdr_KeyOps :: "string list"
  kdr_N :: string
  kdr_E :: string
  kdr_X :: string
  kdr_Y :: string
  kdr_PublicKeyPem :: string

record certificateDetailResponse = certificateResponse +
  cdr_Subject :: string
  cdr_Issuer :: string
  cdr_Serial :: string
  cdr_Thumbprint :: string
  cdr_NotBefore :: int
  cdr_NotAfter :: int
  cdr_Pem :: string

datatype WebBody =
    WError string
  | WText string
  | WPage bytes
  | WOk
  | WStatus bool bool
  | WAuth string Role
  | WUser userResponse
  | WUsers "userResponse list"
  | WSecret secretResponse
  | WSecrets "secretResponse list"
  | WSecretDetail secretResponse string
  | WKey keyResponse
  | WKeys "keyResponse list"
  | WKeyDetail keyDetailResponse
  | WCertificate certificateResponse
  | WCertificates "certificateResponse list"
  | WCertificateDetail certificateDetailResponse

type_synonym webReply = "WebBody Response"

record setupRequest =
  stq_Username :: string
  stq_Password :: string
  stq_Passphrase :: string

record loginRequest =
  lgq_Username :: string
  lgq_Password :: string

record userRequest =
  usq_Username :: string
  usq_Password :: string
  usq_Role :: Role

record createSecretRequest =
  csq_Name :: string
  csq_Value :: string
  csq_ContentType :: string
  csq_NotBefore :: "int option"
  csq_Expires :: "int option"

record createKeyRequest =
  ckq_Name :: string
  ckq_Kty :: string
  ckq_KeySize :: int
  ckq_Crv :: string
  ckq_NotBefore :: "int option"
  ckq_Expires :: "int option"

record generateCertificateRequest =
  gcq_Name :: string
  gcq_CommonName :: string
  gcq_Organization :: string
  gcq_Country :: string
  gcq_State :: string
  gcq_Locality :: string
  gcq_ValidityMonths :: rat
  gcq_CertType :: string
  gcq_IssuerName :: string

record importCertificateRequest =
  icq_Name :: string
  icq_Value :: string
  icq_Password :: string

text \<open>
  Decoding a request body, one function per type. The text \<open>EOF\<close> is the error \<open>io.EOF\<close>, which
  decoding an empty body gives.
\<close>

record web_decoders =
  wd_setup :: "string \<Rightarrow> string + setupRequest"
  wd_unlock :: "string \<Rightarrow> string + string"
  wd_login :: "string \<Rightarrow> string + loginRequest"
  wd_user :: "string \<Rightarrow> string + userRequest"
  wd_secret :: "string \<Rightarrow> string + createSecretRequest"
  wd_key :: "string \<Rightarrow> string + createKeyRequest"
  wd_generate :: "string \<Rightarrow> string + generateCertificateRequest"
  wd_import :: "string \<Rightarrow> string + importCertificateRequest"

section \<open>State and environment\<close>

record 's WebState =
  ws_auth :: Service
  ws_encKey :: "bytes option"
  ws_store :: 's

text \<open>
  What a request meets: \<open>we_auth i\<close> for its \<open>i\<close>-th call of the auth service (0 is the validation of
  the session), the random bytes for a salt and for the nonce of an encryption, and PBKDF2.
\<close>

record web_env =
  we_auth :: "nat \<Rightarrow> auth_env"
  we_rand :: "nat \<Rightarrow> bytes res"
  we_nonce :: "bytes res"
  we_pbkdf2 :: "bytes \<Rightarrow> bytes \<Rightarrow> nat \<Rightarrow> nat \<Rightarrow> bytes"

definition setEncryptionKey :: "bytes \<Rightarrow> 's WebState \<Rightarrow> 's WebState" where
  "setEncryptionKey key w = w\<lparr>ws_encKey := (if key = [] then None else Some key)\<rparr>"

definition getEncryptionKey :: "'s WebState \<Rightarrow> bytes option" where
  "getEncryptionKey w = (case ws_encKey w of None \<Rightarrow> None | Some k \<Rightarrow> if k = [] then None else Some k)"

text \<open>
  An error while the configuration is read counts as not configured.
\<close>

definition isLocked :: "auth_env \<Rightarrow> 's WebState \<Rightarrow> bool" where
  "isLocked e w =
     (case GetConfig e (ws_auth w) ''enc_salt'' of
        Inl _ \<Rightarrow> False
      | Inr (_, ok) \<Rightarrow> ok \<and> getEncryptionKey w = None)"

text \<open>
  The store of the handler: the wrapper asks for the key and the lock when it is called, with the
  auth call number 9 of the request.
\<close>

definition kvStore :: "web_env \<Rightarrow> 's Storer \<Rightarrow> 's WebState \<Rightarrow> 's Storer" where
  "kvStore e S w = encryptedStore (we_nonce e) (getEncryptionKey w) (Some (isLocked (we_auth e 9) w)) S"

section \<open>Responses\<close>

definition webJSON :: "int \<Rightarrow> WebBody \<Rightarrow> webReply" where
  "webJSON status value = Response status [] (Some value)"

definition webError :: "int \<Rightarrow> string \<Rightarrow> webReply" where
  "webError status message = webJSON status (WError message)"

text \<open>An error of the store or of the auth service; a panic ends the request.\<close>

definition webFail :: "int \<Rightarrow> goerr \<Rightarrow> webReply" where
  "webFail status err = (case err of Panic m \<Rightarrow> Aborted m | _ \<Rightarrow> webError status (err_msg err))"

definition decodeJSON :: "(string \<Rightarrow> string + 'q) \<Rightarrow> Request \<Rightarrow> string + 'q" where
  "decodeJSON decode r =
     (case rq_Body r of
        None \<Rightarrow> Inl ''request body is required''
      | Some text \<Rightarrow>
          (case decode text of
             Inl message \<Rightarrow> Inl (if message = ''EOF'' then ''request body is required'' else message)
           | Inr q \<Rightarrow> Inr q))"

definition withJSON ::
  "(string \<Rightarrow> string + 'q) \<Rightarrow> Request \<Rightarrow> ('q \<Rightarrow> webReply \<times> 's WebState) \<Rightarrow> 's WebState \<Rightarrow> webReply \<times> 's WebState" where
  "withJSON decode r k w =
     (case decodeJSON decode r of Inl message \<Rightarrow> (webError 400 message, w) | Inr q \<Rightarrow> k q)"

section \<open>Setup and unlocking\<close>

definition handleStatus :: "web_env \<Rightarrow> 's WebState \<Rightarrow> webReply" where
  "handleStatus e w =
     (case IsInitialized (we_auth e 1) (ws_auth w) of
        Inl err \<Rightarrow> webFail 500 err
      | Inr initialized \<Rightarrow>
          (let locked = (initialized \<and> isLocked (we_auth e 2) w)
           in webJSON 200 (WStatus initialized locked)))"

text \<open>The second half of setup, after the administrator has been created; an error removes it again.\<close>

definition storeEncryption ::
  "web_env \<Rightarrow> User \<Rightarrow> bytes \<Rightarrow> bytes \<Rightarrow> string \<Rightarrow> 's WebState \<Rightarrow> webReply \<times> 's WebState" where
  "storeEncryption e createdUser salt key verify w =
     (let rollback = (\<lambda>w. w\<lparr>ws_auth := snd (DeleteUser (we_auth e 4) (us_ID createdUser) (ws_auth w))\<rparr>)
      in case SetConfig (we_auth e 2) ''enc_salt'' (hexEncode salt) (ws_auth w) of
           (Inl err, a) \<Rightarrow> (webFail 500 err, rollback (w\<lparr>ws_auth := a\<rparr>))
         | (Inr _, a) \<Rightarrow>
             (let w = w\<lparr>ws_auth := a\<rparr>
              in case SetConfig (we_auth e 3) ''enc_verify'' verify (ws_auth w) of
                   (Inl err, a) \<Rightarrow> (webFail 500 err, rollback (w\<lparr>ws_auth := a\<rparr>))
                 | (Inr _, a) \<Rightarrow> (webJSON 200 WOk, setEncryptionKey key (w\<lparr>ws_auth := a\<rparr>))))"

definition handleSetup :: "web_env \<Rightarrow> web_decoders \<Rightarrow> Request \<Rightarrow> 's WebState \<Rightarrow> webReply \<times> 's WebState" where
  "handleSetup e D r w =
     withJSON (wd_setup D) r (\<lambda>req.
       if stq_Passphrase req = [] then (webError 400 ''passphrase is required'', w)
       else
         (case GenerateSalt (we_rand e) of
            Inl err \<Rightarrow> (webFail 500 err, w)
          | Inr salt \<Rightarrow>
              (let key = DeriveKey (we_pbkdf2 e) (stq_Passphrase req) salt
               in case EncryptString (we_nonce e) key ''verify'' of
                    Inl err \<Rightarrow> (webFail 500 err, w)
                  | Inr verify \<Rightarrow>
                      (case Setup (we_auth e 1) (stq_Username req) (stq_Password req) (ws_auth w) of
                         (Inl err, a) \<Rightarrow>
                           (if err = ErrAlreadyInitialized then webError 409 ''auth service already initialized''
                            else webFail 400 err, w\<lparr>ws_auth := a\<rparr>)
                       | (Inr createdUser, a) \<Rightarrow>
                           storeEncryption e createdUser salt key verify (w\<lparr>ws_auth := a\<rparr>))))) w"

definition handleUnlock :: "web_env \<Rightarrow> web_decoders \<Rightarrow> Request \<Rightarrow> 's WebState \<Rightarrow> webReply \<times> 's WebState" where
  "handleUnlock e D r w =
     withJSON (wd_unlock D) r (\<lambda>passphrase.
       if passphrase = [] then (webError 400 ''passphrase is required'', w)
       else
         (case GetConfig (we_auth e 1) (ws_auth w) ''enc_salt'' of
            Inl _ \<Rightarrow> (webError 500 ''failed to read encryption configuration'', w)
          | Inr (saltHex, ok) \<Rightarrow>
              if \<not> ok then (webError 400 ''encryption not configured'', w)
              else
                (case hexDecode saltHex of
                   None \<Rightarrow> (webError 500 ''invalid encryption salt'', w)
                 | Some salt \<Rightarrow>
                     (case GetConfig (we_auth e 2) (ws_auth w) ''enc_verify'' of
                        Inl _ \<Rightarrow> (webError 500 ''failed to read encryption configuration'', w)
                      | Inr (encVerify, ok) \<Rightarrow>
                          if \<not> ok then (webError 500 ''encryption verification token missing'', w)
                          else
                            (let key = DeriveKey (we_pbkdf2 e) passphrase salt
                             in case DecryptString key encVerify of
                                  Inl _ \<Rightarrow> (webError 401 ''incorrect passphrase'', w)
                                | Inr plaintext \<Rightarrow>
                                    if plaintext \<noteq> ''verify''
                                    then (webError 500 ''invalid encryption verification token'', w)
                                    else (webJSON 200 WOk, setEncryptionKey key w)))))) w"

section \<open>Sessions and users\<close>

definition sessionCookieName :: string where "sessionCookieName = ''kv_session''"

definition handleLogin :: "web_env \<Rightarrow> web_decoders \<Rightarrow> Request \<Rightarrow> 's WebState \<Rightarrow> webReply \<times> 's WebState" where
  "handleLogin e D r w =
     withJSON (wd_login D) r (\<lambda>req.
       case Login (we_auth e 1) (lgq_Username req) (lgq_Password req) (ws_auth w) of
         (Inl err, a) \<Rightarrow>
           (if err = ErrInvalidCredentials then webError 401 ''invalid credentials'' else webFail 400 err,
            w\<lparr>ws_auth := a\<rparr>)
       | (Inr session, a) \<Rightarrow>
           (Response 200 [(sessionCookieName, se_Token session, se_ExpiresAt session)]
              (Some (WAuth (se_Username session) (se_Role session))), w\<lparr>ws_auth := a\<rparr>)) w"

definition handleLogout :: "Request \<Rightarrow> 's WebState \<Rightarrow> webReply \<times> 's WebState" where
  "handleLogout r w =
     (Response 200 [(sessionCookieName, [], 0)] (Some WOk),
      case map_of (rq_Cookies r) sessionCookieName of
        None \<Rightarrow> w
      | Some value \<Rightarrow> w\<lparr>ws_auth := Logout value (ws_auth w)\<rparr>)"

definition requireSession ::
  "web_env \<Rightarrow> Request \<Rightarrow> (Session \<Rightarrow> 's WebState \<Rightarrow> webReply \<times> 's WebState) \<Rightarrow> 's WebState \<Rightarrow> webReply \<times> 's WebState" where
  "requireSession e r nxt w =
     (case map_of (rq_Cookies r) sessionCookieName of
        None \<Rightarrow> (webError 401 ''authentication required'', w)
      | Some value \<Rightarrow>
          (case ValidateSession (we_auth e 0) value (ws_auth w) of
             (None, a) \<Rightarrow> (webError 401 ''authentication required'', w\<lparr>ws_auth := a\<rparr>)
           | (Some session, a) \<Rightarrow> nxt session (w\<lparr>ws_auth := a\<rparr>)))"

definition requireAdmin ::
  "web_env \<Rightarrow> Request \<Rightarrow> ('s WebState \<Rightarrow> webReply \<times> 's WebState) \<Rightarrow> 's WebState \<Rightarrow> webReply \<times> 's WebState" where
  "requireAdmin e r nxt =
     requireSession e r (\<lambda>session w.
       if se_Role session \<noteq> RoleAdmin then (webError 403 ''admin access required'', w) else nxt w)"

definition handleMe :: "Session \<Rightarrow> webReply" where
  "handleMe session = webJSON 200 (WAuth (se_Username session) (se_Role session))"

definition handleListUsers :: "web_env \<Rightarrow> 's WebState \<Rightarrow> webReply" where
  "handleListUsers e w =
     (case ListUsers (we_auth e 1) (ws_auth w) of
        Inl err \<Rightarrow> webFail 500 err
      | Inr users \<Rightarrow> webJSON 200 (WUsers (map (\<lambda>user. \<lparr>ur_ID = us_ID user, ur_Username = us_Username user,
          ur_Role = us_Role user, ur_CreatedAt = us_CreatedAt user\<rparr>) users)))"

definition handleCreateUser :: "web_env \<Rightarrow> web_decoders \<Rightarrow> Request \<Rightarrow> 's WebState \<Rightarrow> webReply \<times> 's WebState" where
  "handleCreateUser e D r w =
     withJSON (wd_user D) r (\<lambda>req.
       if \<not> validRole (usq_Role req) then (webError 400 ''invalid role'', w)
       else
         (case CreateUser (we_auth e 1) (usq_Username req) (usq_Password req) (usq_Role req) (ws_auth w) of
            (Inl err, a) \<Rightarrow> (webFail 400 err, w\<lparr>ws_auth := a\<rparr>)
          | (Inr user, a) \<Rightarrow>
              (webJSON 200 (WUser \<lparr>ur_ID = us_ID user, ur_Username = us_Username user,
                 ur_Role = us_Role user, ur_CreatedAt = 0\<rparr>), w\<lparr>ws_auth := a\<rparr>))) w"

definition handleDeleteUser :: "web_env \<Rightarrow> string \<Rightarrow> 's WebState \<Rightarrow> webReply \<times> 's WebState" where
  "handleDeleteUser e ident w =
     (case DeleteUser (we_auth e 1) ident (ws_auth w) of
        (Inl err, a) \<Rightarrow> (webFail 400 err, w\<lparr>ws_auth := a\<rparr>)
      | (Inr _, a) \<Rightarrow> (Response 204 [] None, w\<lparr>ws_auth := a\<rparr>))"

end
