(* ===== verification/KV_Web_Vault.thy ===== *)
theory KV_Web_Vault
  imports KV_Web_Auth
begin

text \<open>
  The web interface, second part: the handlers that list, create, show and delete secrets, keys and
  certificates. The operations run on the encrypting store \<open>kvStore\<close>. Two library functions are
  parameters: marshalling a public key to PKIX, and what \<open>x509.ParseCertificate\<close> tells of a
  certificate (subject, issuer, serial number, and the two dates).
\<close>

datatype webPublicKey = WebRSA rsa_PublicKey | WebECDSA ecdsa_PublicKey

record certInfo =
  in_Subject :: string
  in_Issuer :: string
  in_Serial :: string
  in_NotBefore :: int
  in_NotAfter :: int

record web_lib =
  wl_MarshalPKIX :: "webPublicKey \<Rightarrow> bytes res"
  wl_pemEncode :: "pem_Block \<Rightarrow> bytes"
  wl_ParseCertificate :: "bytes \<Rightarrow> certInfo res"

definition onStore :: "('s \<Rightarrow> 'a res \<times> 's) \<Rightarrow> 's WebState \<Rightarrow> 'a res \<times> 's WebState" where
  "onStore f w = (let (r, st) = f (ws_store w) in (r, w\<lparr>ws_store := st\<rparr>))"

text \<open>Answer with the outcome of an operation, or with its error under the given status.\<close>

definition webReplyOf :: "int \<Rightarrow> ('a \<Rightarrow> WebBody) \<Rightarrow> 'a res \<times> 's WebState \<Rightarrow> webReply \<times> 's WebState" where
  "webReplyOf status body out =
     (case fst out of Inl err \<Rightarrow> webFail status err | Inr x \<Rightarrow> webJSON 200 (body x), snd out)"

definition webDeleted :: "'a res \<times> 's WebState \<Rightarrow> webReply \<times> 's WebState" where
  "webDeleted out = (case fst out of Inl err \<Rightarrow> webFail 500 err | Inr _ \<Rightarrow> Response 204 [] None, snd out)"

section \<open>Secrets\<close>

definition secretResponseOf :: "SecretRecord \<Rightarrow> secretResponse" where
  "secretResponseOf record =
     \<lparr>srp_Name = sr_Name record, srp_Version = sr_Version record,
      srp_Enabled = (Enabled (sr_Attributes record) = Some True), srp_ContentType = sr_ContentType record,
      srp_Created = Created (sr_Attributes record), srp_Updated = Updated (sr_Attributes record),
      srp_NotBefore = NotBefore (sr_Attributes record), srp_Expires = Expires (sr_Attributes record)\<rparr>"

text \<open>The attributes a form sends: only the two dates.\<close>

definition formAttributes :: "int option \<Rightarrow> int option \<Rightarrow> Attributes" where
  "formAttributes nbf expires =
     \<lparr>Enabled = None, NotBefore = nbf, Expires = expires, Created = 0, Updated = 0, RecoveryLevel = [],
      RecoverableDays = 0\<rparr>"

definition handleListSecrets :: "'s Storer \<Rightarrow> 's WebState \<Rightarrow> webReply \<times> 's WebState" where
  "handleListSecrets K w =
     webReplyOf 500 (\<lambda>(records, _). WSecrets (map secretResponseOf records)) (so_ListSecrets K (ws_store w) 100 [], w)"

definition handleCreateSecret ::
  "'s Storer \<Rightarrow> web_decoders \<Rightarrow> Request \<Rightarrow> 's WebState \<Rightarrow> webReply \<times> 's WebState" where
  "handleCreateSecret K D r w =
     withJSON (wd_secret D) r (\<lambda>req.
       if csq_Name req = [] then (webError 400 ''name is required'', w)
       else webReplyOf 500 (\<lambda>record. WSecret (secretResponseOf record))
              (onStore (so_SetSecret K (csq_Name req)
                 \<lparr>ss_Value = csq_Value req, ss_ContentType = csq_ContentType req,
                  ss_Attributes = Some (formAttributes (csq_NotBefore req) (csq_Expires req)),
                  ss_Tags = None\<rparr>) w)) w"

definition handleGetSecret :: "'s Storer \<Rightarrow> string \<Rightarrow> 's WebState \<Rightarrow> webReply \<times> 's WebState" where
  "handleGetSecret K name w =
     webReplyOf 404 (\<lambda>record. WSecretDetail (secretResponseOf record) (sr_Value record))
       (so_GetSecret K (ws_store w) name [], w)"

definition handleDeleteSecret :: "'s Storer \<Rightarrow> string \<Rightarrow> 's WebState \<Rightarrow> webReply \<times> 's WebState" where
  "handleDeleteSecret K name w = webDeleted (onStore (so_DeleteSecret K name) w)"

section \<open>Keys\<close>

definition keyResponseOf :: "KeyRecord \<Rightarrow> keyResponse" where
  "keyResponseOf record =
     \<lparr>krp_Name = kr_Name record, krp_Version = kr_Version record, krp_Kty = jwk_Kty (kr_Key record),
      krp_Crv = jwk_Crv (kr_Key record), krp_Kid = jwk_Kid (kr_Key record),
      krp_Created = Created (kr_Attributes record), krp_Updated = Updated (kr_Attributes record),
      krp_NotBefore = NotBefore (kr_Attributes record), krp_Expires = Expires (kr_Attributes record)\<rparr>"

definition handleListKeys :: "'s Storer \<Rightarrow> 's WebState \<Rightarrow> webReply \<times> 's WebState" where
  "handleListKeys K w =
     webReplyOf 500 (\<lambda>(records, _). WKeys (map keyResponseOf records)) (so_ListKeys K (ws_store w) 100 [], w)"

definition handleCreateKey ::
  "'s Storer \<Rightarrow> web_decoders \<Rightarrow> Request \<Rightarrow> 's WebState \<Rightarrow> webReply \<times> 's WebState" where
  "handleCreateKey K D r w =
     withJSON (wd_key D) r (\<lambda>req.
       if ckq_Name req = [] then (webError 400 ''name is required'', w)
       else if ckq_Kty req = [] then (webError 400 ''kty is required'', w)
       else webReplyOf 500 (\<lambda>record. WKey (keyResponseOf record))
              (onStore (so_CreateKey K (ckq_Name req)
                 \<lparr>ck_Kty = ckq_Kty req, ck_KeySize = ckq_KeySize req, ck_KeyOps = [],
                  ck_Attributes = Some (formAttributes (ckq_NotBefore req) (ckq_Expires req)),
                  ck_Tags = None, ck_Crv = ckq_Crv req, ck_Value = []\<rparr>) w)) w"

text \<open>A non-empty base64url field of a web key, as a number.\<close>

definition webBig :: "string \<Rightarrow> nat option" where
  "webBig value =
     (case DecodeBase64URL value of
        None \<Rightarrow> None
      | Some bs \<Rightarrow> if bs = [] then None else Some (setBytes bs))"

definition webCurve :: "string \<Rightarrow> curve option" where
  "webCurve crv =
     (if crv = ''P-256'' then Some P256 else if crv = ''P-384'' then Some P384
      else if crv = ''P-521'' then Some P521 else None)"

definition webPublic :: "JSONWebKey \<Rightarrow> webPublicKey option" where
  "webPublic jwk =
     (if jwk_Kty jwk = ''RSA'' \<or> jwk_Kty jwk = ''RSA-HSM'' then
        (case (webBig (jwk_N jwk), webBig (jwk_E jwk)) of
           (Some n, Some e) \<Rightarrow> Some (WebRSA \<lparr>pub_N = n, pub_E = wrap64 (int e)\<rparr>)
         | _ \<Rightarrow> None)
      else if jwk_Kty jwk = ''EC'' \<or> jwk_Kty jwk = ''EC-HSM'' then
        (case (webBig (jwk_X jwk), webBig (jwk_Y jwk), webCurve (jwk_Crv jwk)) of
           (Some x, Some y, Some c) \<Rightarrow> Some (WebECDSA \<lparr>ec_Curve = c, ec_X = x, ec_Y = y\<rparr>)
         | _ \<Rightarrow> None)
      else None)"

definition publicKeyToPEM :: "web_lib \<Rightarrow> JSONWebKey \<Rightarrow> bytes" where
  "publicKeyToPEM L jwk =
     (case webPublic jwk of
        None \<Rightarrow> []
      | Some pub \<Rightarrow>
          (case wl_MarshalPKIX L pub of
             Inl _ \<Rightarrow> []
           | Inr der \<Rightarrow> wl_pemEncode L (pemBlock ''PUBLIC KEY'' der)))"

definition keyDetail :: "web_lib \<Rightarrow> KeyRecord \<Rightarrow> keyDetailResponse" where
  "keyDetail L record =
     keyResponse.extend (keyResponseOf record)
       \<lparr>kdr_KeyOps = jwk_KeyOps (kr_Key record), kdr_N = jwk_N (kr_Key record),
        kdr_E = jwk_E (kr_Key record), kdr_X = jwk_X (kr_Key record), kdr_Y = jwk_Y (kr_Key record),
        kdr_PublicKeyPem = string_of_bytes (publicKeyToPEM L (kr_Key record))\<rparr>"

definition handleGetKey :: "web_lib \<Rightarrow> 's Storer \<Rightarrow> string \<Rightarrow> 's WebState \<Rightarrow> webReply \<times> 's WebState" where
  "handleGetKey L K name w =
     webReplyOf 404 (\<lambda>record. WKeyDetail (keyDetail L record)) (so_GetKey K (ws_store w) name [], w)"

definition handleDeleteKey :: "'s Storer \<Rightarrow> string \<Rightarrow> 's WebState \<Rightarrow> webReply \<times> 's WebState" where
  "handleDeleteKey K name w = webDeleted (onStore (so_DeleteKey K name) w)"

section \<open>Certificates\<close>

definition certificateResponseOf :: "CertificateRecord \<Rightarrow> certificateResponse" where
  "certificateResponseOf record =
     \<lparr>crp_Name = crt_Name record, crp_Version = crt_Version record,
      crp_Created = Created (crt_Attributes record), crp_Updated = Updated (crt_Attributes record),
      crp_Expires = Expires (crt_Attributes record)\<rparr>"

definition handleListCertificates :: "'s Storer \<Rightarrow> 's WebState \<Rightarrow> webReply \<times> 's WebState" where
  "handleListCertificates K w =
     webReplyOf 500 (\<lambda>(records, _). WCertificates (map certificateResponseOf records))
       (so_ListCertificates K (ws_store w) 100 [], w)"

text \<open>The subject and the certificate properties that the form of a new certificate stands for.\<close>

definition formSubject :: "generateCertificateRequest \<Rightarrow> string" where
  "formSubject req =
     (let cn = (if gcq_CommonName req = [] then gcq_Name req else gcq_CommonName req);
          part = (\<lambda>label value. if value \<noteq> [] then [label @ value] else [])
      in joinWith '', ''
           ([''CN='' @ cn] @ part ''O='' (gcq_Organization req) @ part ''C='' (gcq_Country req) @
            part ''ST='' (gcq_State req) @ part ''L='' (gcq_Locality req)))"

definition formProps :: "generateCertificateRequest \<Rightarrow> anymap" where
  "formProps req =
     (let props = [(''subject'', AStr (formSubject req))];
          props = (if gcq_ValidityMonths req > 0
                   then mput ''validity_months'' (AFloat (gcq_ValidityMonths req)) props else props);
          certType = (if gcq_CertType req = [] then ''CA'' else gcq_CertType req);
          props = mput ''cert_type'' (AStr certType) props;
          props = (if gcq_IssuerName req \<noteq> [] then mput ''issuer_name'' (AStr (gcq_IssuerName req)) props
                   else props)
      in Some props)"

definition handleGenerateCertificate ::
  "'s Storer \<Rightarrow> web_decoders \<Rightarrow> Request \<Rightarrow> 's WebState \<Rightarrow> webReply \<times> 's WebState" where
  "handleGenerateCertificate K D r w =
     withJSON (wd_generate D) r (\<lambda>req.
       if gcq_Name req = [] then (webError 400 ''name is required'', w)
       else webReplyOf 500 (\<lambda>record. WCertificate (certificateResponseOf record))
              (onStore (so_CreateCertificate K (gcq_Name req)
                 \<lparr>cc_Policy = Some (emptyPolicy\<lparr>cp_X509Props := formProps req\<rparr>), cc_Attributes = None,
                  cc_Tags = None\<rparr>) w)) w"

definition handleImportCertificate ::
  "'s Storer \<Rightarrow> web_decoders \<Rightarrow> Request \<Rightarrow> 's WebState \<Rightarrow> webReply \<times> 's WebState" where
  "handleImportCertificate K D r w =
     withJSON (wd_import D) r (\<lambda>req.
       if icq_Name req = [] then (webError 400 ''name is required'', w)
       else if icq_Value req = [] then (webError 400 ''certificate value is required'', w)
       else webReplyOf 500 (\<lambda>record. WCertificate (certificateResponseOf record))
              (onStore (so_ImportCertificate K (icq_Name req)
                 \<lparr>ic_Value = icq_Value req, ic_Password = icq_Password req, ic_Policy = None,
                  ic_Attributes = None, ic_Tags = None\<rparr>) w)) w"

definition certificateDetail :: "web_lib \<Rightarrow> CertificateRecord \<Rightarrow> certificateDetailResponse" where
  "certificateDetail L record =
     (let cer = crt_Cer record;
          blank = \<lparr>cdr_Subject = [], cdr_Issuer = [], cdr_Serial = [], cdr_Thumbprint = [], cdr_NotBefore = 0,
            cdr_NotAfter = 0, cdr_Pem = []\<rparr>;
          base = certificateResponse.extend (certificateResponseOf record) blank
      in if cer = [] then base
         else
           (let resp = (case wl_ParseCertificate L cer of
                  Inl _ \<Rightarrow> base
                | Inr cert \<Rightarrow> base\<lparr>cdr_Subject := in_Subject cert, cdr_Issuer := in_Issuer cert,
                    cdr_Serial := in_Serial cert, cdr_Thumbprint := hexEncode (sha1 cer),
                    cdr_NotBefore := in_NotBefore cert, cdr_NotAfter := in_NotAfter cert\<rparr>)
            in resp\<lparr>cdr_Pem := string_of_bytes (wl_pemEncode L (pemBlock ''CERTIFICATE'' cer))\<rparr>))"

definition handleGetCertificate :: "web_lib \<Rightarrow> 's Storer \<Rightarrow> string \<Rightarrow> 's WebState \<Rightarrow> webReply \<times> 's WebState" where
  "handleGetCertificate L K name w =
     webReplyOf 404 (\<lambda>record. WCertificateDetail (certificateDetail L record))
       (so_GetCertificate K (ws_store w) name [], w)"

definition handleDeleteCertificate :: "'s Storer \<Rightarrow> string \<Rightarrow> 's WebState \<Rightarrow> webReply \<times> 's WebState" where
  "handleDeleteCertificate K name w = webDeleted (onStore (so_DeleteCertificate K name) w)"

end
