(* ===== verification/KV_Web.thy ===== *)
theory KV_Web
  imports KV_Web_Vault KV_Rest
begin

text \<open>
  The routes of the web interface (\<open>Register\<close> of \<open>src/internal/web/handler.go\<close>) and the whole
  server (\<open>NewMuxWithAuth\<close> of \<open>src/internal/server/server.go\<close>): one multiplexer over the routes of the
  web interface and of the Key Vault API, both on the encrypting store. The embedded pages are a
  parameter, and so is the file server under /ui/static/.
\<close>

datatype WebRoute =
    StaticFiles | IndexPage | SetupPage | LoginPage | DashboardPage
  | StatusRoute | SetupRoute | UnlockRoute | LoginRoute | LogoutRoute | MeRoute
  | ListUsersRoute | CreateUserRoute | DeleteUserRoute
  | WebListSecrets | WebCreateSecret | WebGetSecret | WebDeleteSecret
  | WebListKeys | WebCreateKey | WebGetKey | WebDeleteKey
  | WebListCertificates | WebGenerateCertificate | WebImportCertificate | WebGetCertificate
  | WebDeleteCertificate

definition webTable :: "(string \<times> WebRoute) list" where
  "webTable =
     [(''GET /ui/static/'', StaticFiles),
      (''GET /ui/'', IndexPage),
      (''GET /ui/setup'', SetupPage),
      (''GET /ui/login'', LoginPage),
      (''GET /ui/dashboard'', DashboardPage),
      (''GET /ui/api/status'', StatusRoute),
      (''POST /ui/api/setup'', SetupRoute),
      (''POST /ui/api/unlock'', UnlockRoute),
      (''POST /ui/api/login'', LoginRoute),
      (''POST /ui/api/logout'', LogoutRoute),
      (''GET /ui/api/me'', MeRoute),
      (''GET /ui/api/users'', ListUsersRoute),
      (''POST /ui/api/users'', CreateUserRoute),
      (''DELETE /ui/api/users/{id}'', DeleteUserRoute),
      (''GET /ui/api/secrets'', WebListSecrets),
      (''POST /ui/api/secrets'', WebCreateSecret),
      (''GET /ui/api/secrets/{name}'', WebGetSecret),
      (''DELETE /ui/api/secrets/{name}'', WebDeleteSecret),
      (''GET /ui/api/keys'', WebListKeys),
      (''POST /ui/api/keys'', WebCreateKey),
      (''GET /ui/api/keys/{name}'', WebGetKey),
      (''DELETE /ui/api/keys/{name}'', WebDeleteKey),
      (''GET /ui/api/certificates'', WebListCertificates),
      (''POST /ui/api/certificates/generate'', WebGenerateCertificate),
      (''POST /ui/api/certificates/import'', WebImportCertificate),
      (''GET /ui/api/certificates/{name}'', WebGetCertificate),
      (''DELETE /ui/api/certificates/{name}'', WebDeleteCertificate)]"

record web_files =
  wf_page :: "string \<Rightarrow> bytes option"
  wf_fileServer :: "Request \<Rightarrow> webReply"

definition servePage :: "web_files \<Rightarrow> string \<Rightarrow> webReply" where
  "servePage F name =
     (case wf_page F name of
        None \<Rightarrow> webJSON 404 (WText ''not found'')
      | Some content \<Rightarrow> webJSON 200 (WPage content))"

definition pathValue :: "string list \<Rightarrow> string" where
  "pathValue ws = (case ws of [] \<Rightarrow> [] | x # _ \<Rightarrow> x)"

definition runWeb ::
  "web_env \<Rightarrow> web_files \<Rightarrow> web_lib \<Rightarrow> 's Storer \<Rightarrow> web_decoders \<Rightarrow> WebRoute \<Rightarrow> string list \<Rightarrow> Request \<Rightarrow> 's WebState \<Rightarrow>
     webReply \<times> 's WebState" where
  "runWeb e F L S D route ws r w =
     (let name = pathValue ws;
          K = kvStore e S;
          session = (\<lambda>f. requireSession e r (\<lambda>_. f) w);
          admin = (\<lambda>f. requireAdmin e r f w)
      in case route of
           StaticFiles \<Rightarrow> (wf_fileServer F r, w)
         | IndexPage \<Rightarrow> (if rq_Path r \<noteq> ''/ui/'' then webJSON 404 (WText ''404 page not found'')
                         else servePage F ''index.html'', w)
         | SetupPage \<Rightarrow> (servePage F ''setup.html'', w)
         | LoginPage \<Rightarrow> (servePage F ''login.html'', w)
         | DashboardPage \<Rightarrow> (servePage F ''dashboard.html'', w)
         | StatusRoute \<Rightarrow> (handleStatus e w, w)
         | SetupRoute \<Rightarrow> handleSetup e D r w
         | UnlockRoute \<Rightarrow> handleUnlock e D r w
         | LoginRoute \<Rightarrow> handleLogin e D r w
         | LogoutRoute \<Rightarrow> handleLogout r w
         | MeRoute \<Rightarrow> requireSession e r (\<lambda>sess w. (handleMe sess, w)) w
         | ListUsersRoute \<Rightarrow> admin (\<lambda>w. (handleListUsers e w, w))
         | CreateUserRoute \<Rightarrow> admin (handleCreateUser e D r)
         | DeleteUserRoute \<Rightarrow> admin (handleDeleteUser e name)
         | WebListSecrets \<Rightarrow> session (\<lambda>w. handleListSecrets (K w) w)
         | WebCreateSecret \<Rightarrow> session (\<lambda>w. handleCreateSecret (K w) D r w)
         | WebGetSecret \<Rightarrow> session (\<lambda>w. handleGetSecret (K w) name w)
         | WebDeleteSecret \<Rightarrow> session (\<lambda>w. handleDeleteSecret (K w) name w)
         | WebListKeys \<Rightarrow> session (\<lambda>w. handleListKeys (K w) w)
         | WebCreateKey \<Rightarrow> session (\<lambda>w. handleCreateKey (K w) D r w)
         | WebGetKey \<Rightarrow> session (\<lambda>w. handleGetKey L (K w) name w)
         | WebDeleteKey \<Rightarrow> session (\<lambda>w. handleDeleteKey (K w) name w)
         | WebListCertificates \<Rightarrow> session (\<lambda>w. handleListCertificates (K w) w)
         | WebGenerateCertificate \<Rightarrow> session (\<lambda>w. handleGenerateCertificate (K w) D r w)
         | WebImportCertificate \<Rightarrow> session (\<lambda>w. handleImportCertificate (K w) D r w)
         | WebGetCertificate \<Rightarrow> session (\<lambda>w. handleGetCertificate L (K w) name w)
         | WebDeleteCertificate \<Rightarrow> session (\<lambda>w. handleDeleteCertificate (K w) name w))"

section \<open>The server\<close>

datatype Page = ApiPage Body | WebPage WebBody

definition serverRoutes :: "(WebRoute + RestRoute) routes" where
  "serverRoutes =
     mountRoutes (map (\<lambda>(p, h). (p, Inl h)) webTable @ map (\<lambda>(p, h). (p, Inr h)) restTable)"

text \<open>The logging middleware only observes the status.\<close>

definition serveHTTP ::
  "web_env \<Rightarrow> web_files \<Rightarrow> web_lib \<Rightarrow> 's Storer \<Rightarrow> web_decoders \<Rightarrow> decoders \<Rightarrow> Request \<Rightarrow> 's WebState \<Rightarrow>
     Page Response \<times> 's WebState" where
  "serveHTTP e F L S WD D r w =
     (case findHandler serverRoutes r of
        Handle (Inl route) ws \<Rightarrow>
          (let (resp, w') = runWeb e F L S WD route ws r w in (map_Response WebPage resp, w'))
      | Handle (Inr route) ws \<Rightarrow>
          (let (resp, st) = runRoute (kvStore e S w) D route r (ws_store w)
           in (map_Response ApiPage resp, w\<lparr>ws_store := st\<rparr>))
      | RedirectTo path \<Rightarrow> (Redirect path, w)
      | Unmatched \<Rightarrow> (Response 404 [] None, w))"

end
