(* ===== verification/KV_Web_Rules.thy ===== *)
theory KV_Web_Rules
  imports KV_Web KV_EncStore_Theorems KV_Auth_Theorems
begin

text \<open>
  What the handlers of the web interface may change. A handler of the vault changes only the store, a
  handler of sessions and users only the auth service, and only setup and unlocking touch the key.
\<close>

section \<open>Handlers that change only the store\<close>

definition onlyStore :: "('s WebState \<Rightarrow> webReply \<times> 's WebState) \<Rightarrow> bool" where
  "onlyStore f \<longleftrightarrow> (\<forall>w. ws_auth (snd (f w)) = ws_auth w \<and> ws_encKey (snd (f w)) = ws_encKey w)"

definition onlyAuth :: "('s WebState \<Rightarrow> webReply \<times> 's WebState) \<Rightarrow> bool" where
  "onlyAuth f \<longleftrightarrow> (\<forall>w. ws_store (snd (f w)) = ws_store w \<and> ws_encKey (snd (f w)) = ws_encKey w)"

named_theorems web_frame

lemma onlyStore_self [web_frame]: "onlyStore (\<lambda>w. (resp w, w))"
  by (simp add: onlyStore_def)

lemma onlyAuth_self [web_frame]: "onlyAuth (\<lambda>w. (resp w, w))"
  by (simp add: onlyAuth_def)

lemma snd_onStore: "snd (onStore f w) = w\<lparr>ws_store := snd (f (ws_store w))\<rparr>"
  by (simp add: onStore_def split: prod.split)

lemma onlyStore_reply [web_frame]: "onlyStore (\<lambda>w. webReplyOf st body (out w, w))"
  by (simp add: webReplyOf_def onlyStore_self)

lemma onlyStore_onStore [web_frame]: "onlyStore (\<lambda>w. webReplyOf st body (onStore (f w) w))"
  unfolding onlyStore_def webReplyOf_def by (auto simp: snd_onStore)

lemma onlyStore_deleted [web_frame]: "onlyStore (\<lambda>w. webDeleted (onStore (f w) w))"
  unfolding onlyStore_def webDeleted_def by (auto simp: snd_onStore)

lemma onlyStore_if [web_frame]:
  "onlyStore f \<Longrightarrow> onlyStore g \<Longrightarrow> onlyStore (\<lambda>w. if c then f w else g w)"
  by (simp add: onlyStore_def)

lemma onlyAuth_if [web_frame]:
  "onlyAuth f \<Longrightarrow> onlyAuth g \<Longrightarrow> onlyAuth (\<lambda>w. if c then f w else g w)"
  by (simp add: onlyAuth_def)

lemma onlyStore_json [web_frame]:
  "(\<And>q. onlyStore (\<lambda>w. k w q)) \<Longrightarrow> onlyStore (\<lambda>w. withJSON dec r (k w) w)"
  by (auto simp: withJSON_def onlyStore_def split: sum.split)

lemma onlyAuth_json [web_frame]:
  "(\<And>q. onlyAuth (\<lambda>w. k w q)) \<Longrightarrow> onlyAuth (\<lambda>w. withJSON dec r (k w) w)"
  by (auto simp: withJSON_def onlyAuth_def split: sum.split)

lemma onlyStore_vault [web_frame]:
  "onlyStore (\<lambda>w. handleListSecrets (K w) w)" "onlyStore (\<lambda>w. handleCreateSecret (K w) D r w)"
  "onlyStore (\<lambda>w. handleGetSecret (K w) n w)" "onlyStore (\<lambda>w. handleDeleteSecret (K w) n w)"
  "onlyStore (\<lambda>w. handleListKeys (K w) w)" "onlyStore (\<lambda>w. handleCreateKey (K w) D r w)"
  "onlyStore (\<lambda>w. handleGetKey L (K w) n w)" "onlyStore (\<lambda>w. handleDeleteKey (K w) n w)"
  "onlyStore (\<lambda>w. handleListCertificates (K w) w)" "onlyStore (\<lambda>w. handleGenerateCertificate (K w) D r w)"
  "onlyStore (\<lambda>w. handleImportCertificate (K w) D r w)" "onlyStore (\<lambda>w. handleGetCertificate L (K w) n w)"
  "onlyStore (\<lambda>w. handleDeleteCertificate (K w) n w)"
  unfolding handleListSecrets_def handleCreateSecret_def handleGetSecret_def handleDeleteSecret_def
    handleListKeys_def handleCreateKey_def handleGetKey_def handleDeleteKey_def handleListCertificates_def
    handleGenerateCertificate_def handleImportCertificate_def handleGetCertificate_def
    handleDeleteCertificate_def
  by (intro web_frame)+

section \<open>Handlers that change only the auth service\<close>

lemma onlyAuth_users [web_frame]:
  "onlyAuth (handleCreateUser e D r)" "onlyAuth (handleDeleteUser e ident)" "onlyAuth (handleLogin e D r)"
  "onlyAuth (handleLogout r)"
  by (auto simp: onlyAuth_def handleCreateUser_def handleLogin_def handleDeleteUser_def handleLogout_def
      withJSON_def split: prod.split sum.split option.split)

text \<open>Setup and unlocking leave the store alone.\<close>

lemma setup_keeps_store: "ws_store (snd (handleSetup e D r w)) = ws_store w"
  by (simp add: handleSetup_def withJSON_def storeEncryption_def setEncryptionKey_def Let_def
      split: prod.split sum.split)

lemma unlock_changes_key:
  obtains (refused) "snd (handleUnlock e D r w) = w" "fst (handleUnlock e D r w) \<noteq> webJSON 200 WOk"
  | (opened) passphrase saltHex salt verify where
      "handleUnlock e D r w = (webJSON 200 WOk, setEncryptionKey (DeriveKey (we_pbkdf2 e) passphrase salt) w)"
      "decodeJSON (wd_unlock D) r = Inr passphrase" "passphrase \<noteq> []"
      "GetConfig (we_auth e 1) (ws_auth w) ''enc_salt'' = Inr (saltHex, True)" "hexDecode saltHex = Some salt"
      "GetConfig (we_auth e 2) (ws_auth w) ''enc_verify'' = Inr (verify, True)"
      "DecryptString (DeriveKey (we_pbkdf2 e) passphrase salt) verify = Inr ''verify''"
proof (cases "fst (handleUnlock e D r w) = webJSON 200 WOk")
  case True
  then have "\<exists>passphrase saltHex salt verify.
      handleUnlock e D r w = (webJSON 200 WOk, setEncryptionKey (DeriveKey (we_pbkdf2 e) passphrase salt) w) \<and>
      decodeJSON (wd_unlock D) r = Inr passphrase \<and> passphrase \<noteq> [] \<and>
      GetConfig (we_auth e 1) (ws_auth w) ''enc_salt'' = Inr (saltHex, True) \<and> hexDecode saltHex = Some salt \<and>
      GetConfig (we_auth e 2) (ws_auth w) ''enc_verify'' = Inr (verify, True) \<and>
      DecryptString (DeriveKey (we_pbkdf2 e) passphrase salt) verify = Inr ''verify''"
    by (auto simp: handleUnlock_def withJSON_def webJSON_def webError_def Let_def guard_Inr
        split: sum.split_asm prod.split_asm option.split_asm if_split_asm)
  then show ?thesis
    using opened by blast
next
  case False
  then have "snd (handleUnlock e D r w) = w"
    by (auto simp: handleUnlock_def withJSON_def Let_def split: sum.split prod.split option.split if_split)
  with False show ?thesis
    by (intro refused)
qed

section \<open>Sessions\<close>

text \<open>The session that a request presents, if it is accepted.\<close>

definition sessionOf :: "web_env \<Rightarrow> Request \<Rightarrow> 's WebState \<Rightarrow> Session option" where
  "sessionOf e r w =
     (case map_of (rq_Cookies r) sessionCookieName of
        None \<Rightarrow> None
      | Some value \<Rightarrow> fst (ValidateSession (we_auth e 0) value (ws_auth w)))"

lemma ValidateSession_users: "au_users (snd (ValidateSession e tok s)) = au_users s"
  "au_config (snd (ValidateSession e tok s)) = au_config s"
  by (simp_all add: ValidateSession_def split: option.split)

lemma ValidateSession_same: "ValidateSession e tok s = (Some session, s') \<Longrightarrow> s' = s"
  by (auto simp: ValidateSession_def split: option.split_asm if_split_asm)

lemma requireSession_None:
  assumes "sessionOf e r w = None"
  shows "fst (requireSession e r nxt w) = webError 401 ''authentication required''"
    "ws_store (snd (requireSession e r nxt w)) = ws_store w" "ws_encKey (snd (requireSession e r nxt w)) = ws_encKey w"
    "au_users (ws_auth (snd (requireSession e r nxt w))) = au_users (ws_auth w)"
  using assms ValidateSession_users(1) [of "we_auth e 0" _ "ws_auth w"]
  by (auto simp: requireSession_def sessionOf_def split: option.split prod.split) (metis snd_conv)

lemma requireSession_Some:
  assumes "sessionOf e r w = Some session"
  shows "requireSession e r nxt w = nxt session w"
proof -
  obtain tok where v: "map_of (rq_Cookies r) sessionCookieName = Some tok"
    "fst (ValidateSession (we_auth e 0) tok (ws_auth w)) = Some session"
    using assms by (auto simp: sessionOf_def split: option.split_asm)
  then have "ValidateSession (we_auth e 0) tok (ws_auth w) = (Some session, ws_auth w)"
    using ValidateSession_same [of "we_auth e 0" tok "ws_auth w" session] by (metis prod.collapse)
  with v(1) show ?thesis
    by (simp add: requireSession_def)
qed

section \<open>Who may change what\<close>

text \<open>The routes of the web interface that work on the vault, and those that work on the users.\<close>

definition vaultRoute :: "WebRoute \<Rightarrow> bool" where
  "vaultRoute route \<longleftrightarrow> route \<in> {WebListSecrets, WebCreateSecret, WebGetSecret, WebDeleteSecret, WebListKeys,
     WebCreateKey, WebGetKey, WebDeleteKey, WebListCertificates, WebGenerateCertificate,
     WebImportCertificate, WebGetCertificate, WebDeleteCertificate}"

definition userRoute :: "WebRoute \<Rightarrow> bool" where
  "userRoute route \<longleftrightarrow> route \<in> {ListUsersRoute, CreateUserRoute, DeleteUserRoute}"

definition routeOf :: "Request \<Rightarrow> (WebRoute + RestRoute) option" where
  "routeOf r = (case findHandler serverRoutes r of Handle h _ \<Rightarrow> Some h | _ \<Rightarrow> None)"

lemma runWeb_vault:
  assumes "vaultRoute route"
  obtains f where "onlyStore f" "runWeb e F L S D route ws r w = requireSession e r (\<lambda>_. f) w"
  using assms unfolding vaultRoute_def insert_iff empty_iff
  by (elim disjE FalseE) (rule that, rule web_frame, simp add: runWeb_def Let_def)+

lemma runWeb_users:
  assumes "userRoute route"
  obtains f where "onlyAuth f" "runWeb e F L S D route ws r w = requireAdmin e r f w"
  using assms unfolding userRoute_def insert_iff empty_iff
  by (elim disjE FalseE) (rule that, rule web_frame, simp add: runWeb_def Let_def)+

lemma Setup_refused: "hasAdmin s \<Longrightarrow> \<exists>err. Setup e name pw s = (Inl err, s)"
  by (cases rule: Setup_cases [of e name pw s]) auto

lemma setup_with_admin:
  assumes "hasAdmin (ws_auth w)"
  shows "snd (handleSetup e D r w) = w"
proof -
  have "\<exists>err. Setup (we_auth e 1) name pw (ws_auth w) = (Inl err, ws_auth w)" for name pw
    using assms by (rule Setup_refused)
  then show ?thesis
    by (auto simp: handleSetup_def withJSON_def Let_def split: sum.split prod.split)
      (metis (no_types, lifting) Inl_Inr_False prod.inject WebState.surjective WebState.update_convs(1))+
qed

lemma login_users: "au_users (ws_auth (snd (handleLogin e D r w))) = au_users (ws_auth w)"
  by (auto simp: handleLogin_def withJSON_def Login_def loginStore_def Let_def split: sum.split)

lemma logout_users: "au_users (ws_auth (snd (handleLogout r w))) = au_users (ws_auth w)"
  by (simp add: handleLogout_def Logout_def split: option.split)

lemma unlock_auth: "ws_auth (snd (handleUnlock e D r w)) = ws_auth w" "ws_store (snd (handleUnlock e D r w)) = ws_store w"
  by (cases rule: unlock_changes_key [of e D r w]; simp add: setEncryptionKey_def)+

text \<open>A route that is neither of the vault nor of the users runs one of these.\<close>

lemma publicRoute_cases:
  assumes "\<not> vaultRoute route" "\<not> userRoute route"
  obtains (same) "snd (runWeb e F L S D route ws r w) = w"
  | (set_up) "route = SetupRoute" "snd (runWeb e F L S D route ws r w) = snd (handleSetup e D r w)"
  | (unlocked) "route = UnlockRoute" "snd (runWeb e F L S D route ws r w) = snd (handleUnlock e D r w)"
  | (logged_in) "snd (runWeb e F L S D route ws r w) = snd (handleLogin e D r w)"
  | (logged_out) "snd (runWeb e F L S D route ws r w) = snd (handleLogout r w)"
  | (me) "snd (runWeb e F L S D route ws r w) = snd (requireSession e r (\<lambda>sess w. (handleMe sess, w)) w)"
  using assms by (cases route) (simp_all add: runWeb_def Let_def vaultRoute_def userRoute_def)

lemma me_users:
  "au_users (ws_auth (snd (requireSession e r (\<lambda>sess w. (handleMe sess, w)) w))) = au_users (ws_auth w)"
  "ws_store (snd (requireSession e r (\<lambda>sess w. (handleMe sess, w)) w)) = ws_store w"
  "ws_encKey (snd (requireSession e r (\<lambda>sess w. (handleMe sess, w)) w)) = ws_encKey w"
  by (cases "sessionOf e r w"; simp add: requireSession_None requireSession_Some)+

lemma frame_of_public:
  assumes "\<not> vaultRoute route" "\<not> userRoute route"
  shows "ws_store (snd (runWeb e F L S D route ws r w)) = ws_store w \<and>
    (au_users (ws_auth (snd (runWeb e F L S D route ws r w))) = au_users (ws_auth w) \<or>
       route = SetupRoute \<and> \<not> hasAdmin (ws_auth w)) \<and>
    (ws_encKey (snd (runWeb e F L S D route ws r w)) = ws_encKey w \<or> route = SetupRoute \<or> route = UnlockRoute)"
    (is "?P (snd (runWeb e F L S D route ws r w))")
  using assms
proof (cases rule: publicRoute_cases [of route e F L S D ws r w])
  case same
  then show ?thesis
    by simp
next
  case set_up
  have "?P (snd (handleSetup e D r w))"
    using set_up(1) setup_with_admin [of w e D r] setup_keeps_store [of e D r w] by auto
  with set_up(2) show ?thesis
    by simp
next
  case unlocked
  have "?P (snd (handleUnlock e D r w))"
    using unlocked(1) by (simp add: unlock_auth)
  with unlocked(2) show ?thesis
    by simp
next
  case logged_in
  have "?P (snd (handleLogin e D r w))"
    using onlyAuth_users(3) [of e D r, unfolded onlyAuth_def, rule_format, of w] by (simp add: login_users)
  with logged_in show ?thesis
    by simp
next
  case logged_out
  have "?P (snd (handleLogout r w))"
    using onlyAuth_users(4) [of r, unfolded onlyAuth_def, rule_format, of w] by (simp add: logout_users)
  with logged_out show ?thesis
    by simp
next
  case me
  have "?P (snd (requireSession e r (\<lambda>sess w. (handleMe sess, w)) w))"
    by (simp add: me_users)
  with me show ?thesis
    by simp
qed

lemma frame_of_vault:
  assumes "vaultRoute route"
  shows "au_users (ws_auth (snd (runWeb e F L S D route ws r w))) = au_users (ws_auth w)"
    "ws_encKey (snd (runWeb e F L S D route ws r w)) = ws_encKey w"
    "sessionOf e r w = None \<Longrightarrow> ws_store (snd (runWeb e F L S D route ws r w)) = ws_store w"
    "sessionOf e r w = None \<Longrightarrow> fst (runWeb e F L S D route ws r w) = webError 401 ''authentication required''"
proof -
  obtain f where f: "onlyStore f" "runWeb e F L S D route ws r w = requireSession e r (\<lambda>_. f) w"
    using assms by (rule runWeb_vault)
  show "au_users (ws_auth (snd (runWeb e F L S D route ws r w))) = au_users (ws_auth w)"
    "ws_encKey (snd (runWeb e F L S D route ws r w)) = ws_encKey w"
    using f(1) by (cases "sessionOf e r w"; simp add: f(2) requireSession_None requireSession_Some onlyStore_def)+
  show "sessionOf e r w = None \<Longrightarrow> ws_store (snd (runWeb e F L S D route ws r w)) = ws_store w"
    "sessionOf e r w = None \<Longrightarrow> fst (runWeb e F L S D route ws r w) = webError 401 ''authentication required''"
    by (simp_all add: f(2) requireSession_None)
qed

lemma frame_of_users:
  assumes "userRoute route"
  shows "ws_store (snd (runWeb e F L S D route ws r w)) = ws_store w"
    "ws_encKey (snd (runWeb e F L S D route ws r w)) = ws_encKey w"
    "sessionOf e r w = None \<Longrightarrow> fst (runWeb e F L S D route ws r w) = webError 401 ''authentication required''"
    "sessionOf e r w = Some session \<Longrightarrow> se_Role session \<noteq> RoleAdmin \<Longrightarrow>
       runWeb e F L S D route ws r w = (webError 403 ''admin access required'', w)"
    "au_users (ws_auth (snd (runWeb e F L S D route ws r w))) = au_users (ws_auth w) \<or>
       (\<exists>session. sessionOf e r w = Some session \<and> se_Role session = RoleAdmin)"
proof -
  obtain f where f: "onlyAuth f" "runWeb e F L S D route ws r w = requireAdmin e r f w"
    using assms by (rule runWeb_users)
  show "ws_store (snd (runWeb e F L S D route ws r w)) = ws_store w"
    "ws_encKey (snd (runWeb e F L S D route ws r w)) = ws_encKey w"
    using f(1) by (cases "sessionOf e r w";
        simp add: f(2) requireAdmin_def requireSession_None requireSession_Some onlyAuth_def)+
  show "sessionOf e r w = None \<Longrightarrow> fst (runWeb e F L S D route ws r w) = webError 401 ''authentication required''"
    by (simp add: f(2) requireAdmin_def requireSession_None)
  show "sessionOf e r w = Some session \<Longrightarrow> se_Role session \<noteq> RoleAdmin \<Longrightarrow>
      runWeb e F L S D route ws r w = (webError 403 ''admin access required'', w)"
    by (simp add: f(2) requireAdmin_def requireSession_Some)
  show "au_users (ws_auth (snd (runWeb e F L S D route ws r w))) = au_users (ws_auth w) \<or>
      (\<exists>session. sessionOf e r w = Some session \<and> se_Role session = RoleAdmin)"
    by (cases "sessionOf e r w") (auto simp: f(2) requireAdmin_def requireSession_None requireSession_Some)
qed

text \<open>The server runs a route of the web interface or of the API, or changes nothing.\<close>

lemma serveHTTP_cases:
  obtains (idle) "snd (serveHTTP e F L S WD D r w) = w" "routeOf r = None"
  | (web) route ws where "routeOf r = Some (Inl route)"
      "fst (serveHTTP e F L S WD D r w) = map_Response WebPage (fst (runWeb e F L S WD route ws r w))"
      "snd (serveHTTP e F L S WD D r w) = snd (runWeb e F L S WD route ws r w)"
  | (api) route st where "routeOf r = Some (Inr route)" "snd (serveHTTP e F L S WD D r w) = w\<lparr>ws_store := st\<rparr>"
proof (cases "findHandler serverRoutes r")
  case (Handle h ws)
  show ?thesis
  proof (cases h)
    case (Inl route)
    then show ?thesis
      using Handle web [of route ws] by (simp add: routeOf_def serveHTTP_def split: prod.split)
  next
    case (Inr route)
    then show ?thesis
      using Handle api [of route "snd (runRoute (kvStore e S w) D route r (ws_store w))"]
      by (simp add: routeOf_def serveHTTP_def split: prod.split)
  qed
qed (use idle in \<open>simp_all add: routeOf_def serveHTTP_def\<close>)

lemma sessionOf_ok:
  assumes "auth_ok (ws_auth w)" "sessionOf e r w = Some session"
  shows "\<exists>u \<in> set (au_users (ws_auth w)). us_ID u = se_UserID session \<and> us_Role u = se_Role session"
proof -
  obtain tok where "map_of (au_sessions (ws_auth w)) tok = Some session"
    using assms(2) by (auto simp: sessionOf_def ValidateSession_def split: option.split_asm if_split_asm)
  then show ?thesis
    using session_lookup [OF assms(1)] by (auto simp: session_ok_def)
qed

section \<open>Setup, locking and unlocking\<close>

text \<open>What a new process keeps: the tables of the auth service and the store.\<close>

definition restarted :: "'s WebState \<Rightarrow> 's WebState" where
  "restarted w = w\<lparr>ws_encKey := None, ws_auth := (ws_auth w)\<lparr>au_sessions := []\<rparr>\<rparr>"

lemma restarted_store: "ws_store (restarted w) = ws_store w"
  by (simp add: restarted_def)

lemma webFail_not_ok [simp]: "webFail st err \<noteq> webJSON 200 WOk" "webError st m \<noteq> webJSON 200 WOk"
  by (simp_all add: webFail_def webError_def webJSON_def split: goerr.split)

lemma SetConfig_Inr:
  "SetConfig e key v s = (Inr u, s') \<Longrightarrow> s' = s\<lparr>au_config := mput key v (au_config s)\<rparr>"
  by (auto simp: SetConfig_def split: if_split_asm sum.split_asm)

lemma storeEncryption_done:
  assumes "storeEncryption e user salt key verify w = (webJSON 200 WOk, w')"
  shows "w' = setEncryptionKey key (w\<lparr>ws_auth := (ws_auth w)\<lparr>au_config :=
    mput ''enc_verify'' verify (mput ''enc_salt'' (hexEncode salt) (au_config (ws_auth w)))\<rparr>\<rparr>)"
  using assms
  by (auto simp: storeEncryption_def Let_def dest!: SetConfig_Inr split: prod.split_asm sum.split_asm)

lemma EncryptString_key: "EncryptString nonce key s = Inr c \<Longrightarrow> length key = 32"
  by (auto simp: EncryptString_def sealBytes_def rbind_Inr_iff newGCM_ok)

text \<open>What a successful setup leaves behind.\<close>

lemma setup_done:
  assumes "handleSetup e D r w = (webJSON 200 WOk, w')" "decodeJSON (wd_setup D) r = Inr req"
  obtains salt verify where "stq_Passphrase req \<noteq> []" "GenerateSalt (we_rand e) = Inr salt"
    "EncryptString (we_nonce e) (DeriveKey (we_pbkdf2 e) (stq_Passphrase req) salt) ''verify'' = Inr verify"
    "map_of (au_config (ws_auth w')) ''enc_salt'' = Some (hexEncode salt)"
    "map_of (au_config (ws_auth w')) ''enc_verify'' = Some verify"
    "getEncryptionKey w' = Some (DeriveKey (we_pbkdf2 e) (stq_Passphrase req) salt)"
    "ws_encKey w' = getEncryptionKey w'" "ws_store w' = ws_store w"
proof -
  let ?key = "DeriveKey (we_pbkdf2 e) (stq_Passphrase req)"
  obtain salt verify user a where d: "stq_Passphrase req \<noteq> []" "GenerateSalt (we_rand e) = Inr salt"
    "EncryptString (we_nonce e) (?key salt) ''verify'' = Inr verify"
    "storeEncryption e user salt (?key salt) verify (w\<lparr>ws_auth := a\<rparr>) = (webJSON 200 WOk, w')"
    using assms
    by (auto simp: handleSetup_def withJSON_def Let_def split: prod.split_asm sum.split_asm if_split_asm)
  have "?key salt \<noteq> []"
    using EncryptString_key [OF d(3)] by auto
  then show ?thesis
    using storeEncryption_done [OF d(4)]
    by (intro that [OF d(1-3)]) (simp_all add: setEncryptionKey_def getEncryptionKey_def map_of_mput)
qed

text \<open>Unlocking with a passphrase whose key opens the verification token.\<close>

lemma unlock_opens:
  assumes "decodeJSON (wd_unlock D) r = Inr passphrase" "passphrase \<noteq> []" "\<And>i j. ae_db (we_auth e i) j = None"
    "map_of (au_config (ws_auth w)) ''enc_salt'' = Some (hexEncode salt)"
    "map_of (au_config (ws_auth w)) ''enc_verify'' = Some verify"
    "DecryptString (DeriveKey (we_pbkdf2 e) passphrase salt) verify = Inr ''verify''"
  shows "handleUnlock e D r w = (webJSON 200 WOk, setEncryptionKey (DeriveKey (we_pbkdf2 e) passphrase salt) w)"
  using assms by (simp add: handleUnlock_def withJSON_def GetConfig_def Let_def)

lemma locked_kvStore:
  assumes "map_of (au_config (ws_auth w)) ''enc_salt'' = Some salt" "getEncryptionKey w = None"
    "ae_db (we_auth e 9) 0 = None"
  shows "so_SetSecret (kvStore e S w) n q s = (Inl (PlainErr ''vault is locked: unlock before writing secrets''), s)"
  using assms by (simp add: kvStore_def encSetSecret_def isLocked_def GetConfig_def)

lemma getEncryptionKey_set [simp]:
  "getEncryptionKey (setEncryptionKey key w) = (if key = [] then None else Some key)"
  by (simp add: getEncryptionKey_def setEncryptionKey_def)

lemma DecryptString_key: "DecryptString key c = Inr s \<Longrightarrow> length key = 32"
  by (auto simp: DecryptString_def openBytes_def rbind_Inr_iff newGCM_ok split: option.split_asm)

lemma GetConfig_found: "GetConfig e s key = Inr (v, True) \<Longrightarrow> map_of (au_config s) key = Some v"
  by (auto simp: GetConfig_def split: if_split_asm option.split_asm)

end
