(* ===== verification/KV_Web_Theorems.thy ===== *)
theory KV_Web_Theorems
  imports KV_Web_Rules KV_Rest_Theorems
begin

text \<open>
  The properties of the web interface and of the server as a whole: who may change what, and what the
  encryption of the secrets promises over a restart.
\<close>

section \<open>A server for the witnesses\<close>

definition sampleWebEnv :: web_env where
  "sampleWebEnv = \<lparr>we_auth = (\<lambda>_. sampleAuth 200), we_rand = (\<lambda>n. Inr (replicate n 7)),
     we_nonce = Inr (replicate 12 1), we_pbkdf2 = (\<lambda>pass salt iters n. take n (pass @ replicate n 2))\<rparr>"

definition sampleWebDecoders :: web_decoders where
  "sampleWebDecoders =
     \<lparr>wd_setup = (\<lambda>text. Inr \<lparr>stq_Username = ''root'', stq_Password = ''pw'', stq_Passphrase = text\<rparr>),
      wd_unlock = (\<lambda>text. Inr text), wd_login = (\<lambda>_. Inl ''EOF''), wd_user = (\<lambda>_. Inl ''EOF''),
      wd_secret = (\<lambda>_. Inl ''EOF''), wd_key = (\<lambda>_. Inl ''EOF''), wd_generate = (\<lambda>_. Inl ''EOF''),
      wd_import = (\<lambda>_. Inl ''EOF'')\<rparr>"

definition webRequest :: "string \<Rightarrow> string \<Rightarrow> string option \<Rightarrow> string \<Rightarrow> Request" where
  "webRequest m path token body = \<lparr>rq_Method = m, rq_Path = path, rq_EscapedPath = path, rq_RawQuery = [],
     rq_Host = ''localhost'', rq_TLS = True, rq_Header = [],
     rq_Cookies = (case token of None \<Rightarrow> [] | Some t \<Rightarrow> [(''kv_session'', t)]), rq_Body = Some body\<rparr>"

abbreviation sampleStorer :: "Store Storer" where
  "sampleStorer \<equiv> memStorer sampleEnv samplePrims sampleLib sampleCodec"

definition freshWeb :: "Store WebState" where
  "freshWeb = \<lparr>ws_auth = NewMemory, ws_encKey = None, ws_store = New\<rparr>"

definition setUp :: "Store WebState \<Rightarrow> string \<Rightarrow> webReply \<times> Store WebState" where
  "setUp w passphrase = handleSetup sampleWebEnv sampleWebDecoders (webRequest ''POST'' ''/ui/api/setup'' None passphrase) w"

lemma sampleStorer_ok: "secret_storer secrets_ok sampleStorer"
  by (rule memory.secret_storer_axioms)

lemma New_secrets_ok: "secrets_ok New"
  using store_ok_New by (simp add: store_ok_def)

lemma sample_nonce: "we_nonce sampleWebEnv = Inr b \<Longrightarrow> length b = 12"
  by (auto simp: sampleWebEnv_def)

lemma sample_key: "length (DeriveKey (we_pbkdf2 sampleWebEnv) passphrase salt) = 32"
  by (simp add: DeriveKey_def sampleWebEnv_def keySize_def)

lemma sample_seal: "length key = 32 \<Longrightarrow> \<exists>c. EncryptString (we_nonce sampleWebEnv) key x = Inr c"
  using EncryptString_total by (simp add: sampleWebEnv_def)

lemma setUp_request:
  "decodeJSON (wd_setup sampleWebDecoders) (webRequest m path token text) =
    Inr \<lparr>stq_Username = ''root'', stq_Password = ''pw'', stq_Passphrase = text\<rparr>"
  "decodeJSON (wd_unlock sampleWebDecoders) (webRequest m path token text) = Inr text"
  by (simp_all add: decodeJSON_def sampleWebDecoders_def webRequest_def)

lemma sample_auth [simp]: "we_auth sampleWebEnv i = sampleAuth 200" "ae_db (sampleAuth t) i = None"
  by (simp_all add: sampleWebEnv_def sampleAuth_def)

lemma SetConfig_stores:
  "ae_db e 0 = None \<Longrightarrow> key \<noteq> [] \<Longrightarrow> SetConfig e key v s = (Inr (), s\<lparr>au_config := mput key v (au_config s)\<rparr>)"
  by (simp add: SetConfig_def)

lemma setUp_ok:
  assumes "passphrase \<noteq> []" "au_users (ws_auth w) = []"
  obtains w' where "setUp w passphrase = (webJSON 200 WOk, w')"
proof -
  obtain c where "EncryptString (we_nonce sampleWebEnv)
      (DeriveKey (we_pbkdf2 sampleWebEnv) passphrase (replicate saltSize 7)) ''verify'' = Inr c"
    using sample_seal [OF sample_key] by blast
  moreover have "GenerateSalt (we_rand sampleWebEnv) = Inr (replicate saltSize 7)"
    by (simp add: GenerateSalt_def sampleWebEnv_def)
  moreover have "\<exists>u a. Setup (sampleAuth 200) ''root'' ''pw'' (ws_auth w) = (Inr u, a)"
    using assms(2) by (simp add: Setup_def hasAdmin_def newUser_def generateHex_def sampleAuth_def
        insertUser_def)
  ultimately have "fst (setUp w passphrase) = webJSON 200 WOk"
    using assms(1)
    by (auto simp: setUp_def handleSetup_def withJSON_def setUp_request storeEncryption_def SetConfig_stores Let_def)
  then show ?thesis
    using that by (metis prod.collapse)
qed

lemma sample_written:
  assumes "getEncryptionKey w = Some key" "length key = 32"
  obtains rcd st where "so_SetSecret (kvStore sampleWebEnv sampleStorer w) ''a'' sampleSecret New = (Inr rcd, st)"
proof -
  obtain c where c: "EncryptString (we_nonce sampleWebEnv) key ''hunter2'' = Inr c"
    using sample_seal [OF assms(2)] by blast
  then have "length c = 70"
    using DecryptString_EncryptString(2) [OF c sample_nonce] by simp
  then have "c \<noteq> []"
    by auto
  then have "is_ok (fst (SetSecret sampleEnv ''a'' (sampleSecret\<lparr>ss_Value := c\<rparr>) New))"
    by (simp add: SetSecret_def New_def newVersion_def sampleEnv_def Let_def)
  then show ?thesis
    using that c assms(1) unfolding is_ok_iff
    by (auto simp: kvStore_def encSetSecret_def sampleSecret_def memStorer_def prod_eq_iff)
qed

definition sampleFiles :: web_files where
  "sampleFiles = \<lparr>wf_page = (\<lambda>_. Some [60]), wf_fileServer = (\<lambda>_. webJSON 404 (WText ''404 page not found''))\<rparr>"

definition sampleWebLib :: web_lib where
  "sampleWebLib = \<lparr>wl_MarshalPKIX = (\<lambda>_. Inr [48]), wl_pemEncode = pem_Bytes,
     wl_ParseCertificate = (\<lambda>_. Inl (PlainErr ''x509: malformed certificate''))\<rparr>"

lemma sample_route:
  "routeOf (webRequest ''POST'' ''/ui/api/users'' None text) = Some (Inl CreateUserRoute)"
  by code_simp

section \<open>Properties\<close>

text \<open>
  C25: access control of the whole server: the stored secrets, keys and certificates change only through
  the Key Vault API or through a vault route of the web interface with an accepted session of an
  existing user; the users change only through the setup while there is no administrator, or through
  a user route with a session of the administrator; only setup and unlocking change the encryption
  key. Without a session a vault or user route answers 401, and a user route 403 to everyone but the
  administrator, who is refused nothing by that check.
\<close>
theorem access_control:
  assumes "auth_reachable (ws_auth w)" "serveHTTP e F L S WD D r w = (resp, w')"
  shows "(ws_store w' = ws_store w \<or> (\<exists>api. routeOf r = Some (Inr api)) \<or>
      (\<exists>route session u. routeOf r = Some (Inl route) \<and> vaultRoute route \<and> sessionOf e r w = Some session \<and>
         u \<in> set (au_users (ws_auth w)) \<and> us_ID u = se_UserID session)) \<and>
    (au_users (ws_auth w') = au_users (ws_auth w) \<or>
      (routeOf r = Some (Inl SetupRoute) \<and> \<not> hasAdmin (ws_auth w)) \<or>
      (\<exists>route session u. routeOf r = Some (Inl route) \<and> userRoute route \<and> sessionOf e r w = Some session \<and>
         u \<in> set (au_users (ws_auth w)) \<and> us_ID u = se_UserID session \<and> us_Role u = RoleAdmin)) \<and>
    (ws_encKey w' = ws_encKey w \<or> routeOf r = Some (Inl SetupRoute) \<or> routeOf r = Some (Inl UnlockRoute)) \<and>
    (\<forall>route. routeOf r = Some (Inl route) \<and> (vaultRoute route \<or> userRoute route) \<and> sessionOf e r w = None \<longrightarrow>
      resp = Response 401 [] (Some (WebPage (WError ''authentication required'')))) \<and>
    (\<forall>route session. routeOf r = Some (Inl route) \<and> userRoute route \<and> sessionOf e r w = Some session \<and>
       se_Role session \<noteq> RoleAdmin \<longrightarrow>
         resp = Response 403 [] (Some (WebPage (WError ''admin access required''))) \<and> w' = w)"
proof -
  note ok = sessionOf_ok [OF auth_reachable_ok [OF assms(1)], of e r]
  have resp: "resp = fst (serveHTTP e F L S WD D r w)" "w' = snd (serveHTTP e F L S WD D r w)"
    using assms(2) by simp_all
  show ?thesis
  proof (cases rule: serveHTTP_cases [of e F L S WD D r w])
    case idle
    then show ?thesis
      by (simp add: resp(2))
  next
    case (api route st)
    then show ?thesis
      by (simp add: resp(2))
  next
    case (web route ws)
    show ?thesis
    proof (cases "vaultRoute route")
      case True
      then have "\<not> userRoute route"
        by (auto simp: vaultRoute_def userRoute_def)
      with True web show ?thesis
        using frame_of_vault [OF True, where e = e and F = F and L = L and S = S and D = WD and ws = ws and r = r and w = w] ok
        by (cases "sessionOf e r w") (auto simp: resp webError_def webJSON_def)
    next
      case not_vault: False
      show ?thesis
      proof (cases "userRoute route")
        case True
        with not_vault web show ?thesis
          using frame_of_users [OF True, where e = e and F = F and L = L and S = S and D = WD and ws = ws and r = r and w = w] ok
          by (cases "sessionOf e r w") (fastforce simp: resp webError_def webJSON_def)+
      next
        case False
        with not_vault web show ?thesis
          using frame_of_public [OF not_vault False, where e = e and F = F and L = L and S = S and D = WD and ws = ws and r = r and w = w]
          by (auto simp: resp)
      qed
    qed
  qed
qed

theorem access_control_witness:
  "\<exists>w'. serveHTTP sampleWebEnv sampleFiles sampleWebLib sampleStorer sampleWebDecoders sampleDecoders
     (webRequest ''POST'' ''/ui/api/users'' None []) (freshWeb\<lparr>ws_auth := sampleLoggedIn\<rparr>) =
     (Response 401 [] (Some (WebPage (WError ''authentication required''))), w') \<and>
   au_users (ws_auth w') = [sampleAdmin] \<and> ws_store w' = New"
proof -
  let ?r = "webRequest ''POST'' ''/ui/api/users'' None []"
  let ?w = "freshWeb\<lparr>ws_auth := sampleLoggedIn\<rparr>"
  obtain resp w' where serve: "serveHTTP sampleWebEnv sampleFiles sampleWebLib sampleStorer sampleWebDecoders
      sampleDecoders ?r ?w = (resp, w')"
    by (metis surj_pair)
  have reach: "auth_reachable (ws_auth ?w)"
    using sampleLoggedIn_reachable by simp
  have none: "sessionOf sampleWebEnv ?r ?w = None"
    by (simp add: sessionOf_def webRequest_def)
  have u: "userRoute CreateUserRoute" "\<not> vaultRoute CreateUserRoute"
    by (simp_all add: userRoute_def vaultRoute_def)
  show ?thesis
    using access_control [OF reach serve] serve none u
    by (simp add: sample_route sampleLoggedIn_session) (simp add: freshWeb_def)
qed



text \<open>
  C27: the key is loaded only by a passphrase that opens the stored verification token: every request
  to unlock either answers with an error and changes nothing, or its passphrase, stretched with the
  stored salt, decrypts the token to the expected word, and exactly that key is loaded. A passphrase
  whose key does not open the token is answered with 401.
\<close>
theorem unlock_needs_passphrase:
  assumes "handleUnlock e D r w = (resp, w')"
  shows "((w' = w \<and> resp \<noteq> webJSON 200 WOk) \<or>
      (\<exists>passphrase saltHex salt verify. resp = webJSON 200 WOk \<and> decodeJSON (wd_unlock D) r = Inr passphrase \<and>
         map_of (au_config (ws_auth w)) ''enc_salt'' = Some saltHex \<and> hexDecode saltHex = Some salt \<and>
         map_of (au_config (ws_auth w)) ''enc_verify'' = Some verify \<and>
         DecryptString (DeriveKey (we_pbkdf2 e) passphrase salt) verify = Inr ''verify'' \<and>
         w' = w\<lparr>ws_encKey := Some (DeriveKey (we_pbkdf2 e) passphrase salt)\<rparr>)) \<and>
    (decodeJSON (wd_unlock D) r = Inr guess \<and> guess \<noteq> [] \<and> (\<forall>i. ae_db (we_auth e i) 0 = None) \<and>
      map_of (au_config (ws_auth w)) ''enc_salt'' = Some (hexEncode salt) \<and>
      map_of (au_config (ws_auth w)) ''enc_verify'' = Some verify \<and>
      \<not> is_ok (DecryptString (DeriveKey (we_pbkdf2 e) guess salt) verify) \<longrightarrow>
      resp = webError 401 ''incorrect passphrase'')"
proof
  show "(w' = w \<and> resp \<noteq> webJSON 200 WOk) \<or>
      (\<exists>passphrase saltHex salt verify. resp = webJSON 200 WOk \<and> decodeJSON (wd_unlock D) r = Inr passphrase \<and>
         map_of (au_config (ws_auth w)) ''enc_salt'' = Some saltHex \<and> hexDecode saltHex = Some salt \<and>
         map_of (au_config (ws_auth w)) ''enc_verify'' = Some verify \<and>
         DecryptString (DeriveKey (we_pbkdf2 e) passphrase salt) verify = Inr ''verify'' \<and>
         w' = w\<lparr>ws_encKey := Some (DeriveKey (we_pbkdf2 e) passphrase salt)\<rparr>)"
  proof (cases rule: unlock_changes_key [of e D r w])
    case refused
    then show ?thesis
      using assms by simp
  next
    case (opened passphrase saltHex salt verify)
    then have "DeriveKey (we_pbkdf2 e) passphrase salt \<noteq> []"
      using DecryptString_key by fastforce
    then have "resp = webJSON 200 WOk" "w' = w\<lparr>ws_encKey := Some (DeriveKey (we_pbkdf2 e) passphrase salt)\<rparr>"
      using assms opened(1) by (simp_all add: setEncryptionKey_def)
    then show ?thesis
      using opened(2,5,7) GetConfig_found [OF opened(4)] GetConfig_found [OF opened(6)] by blast
  qed
next
  show "decodeJSON (wd_unlock D) r = Inr guess \<and> guess \<noteq> [] \<and> (\<forall>i. ae_db (we_auth e i) 0 = None) \<and>
      map_of (au_config (ws_auth w)) ''enc_salt'' = Some (hexEncode salt) \<and>
      map_of (au_config (ws_auth w)) ''enc_verify'' = Some verify \<and>
      \<not> is_ok (DecryptString (DeriveKey (we_pbkdf2 e) guess salt) verify) \<longrightarrow>
      resp = webError 401 ''incorrect passphrase''"
    using assms
    by (auto simp: handleUnlock_def withJSON_def GetConfig_def Let_def is_ok_iff split: sum.split_asm)
qed

theorem unlock_needs_passphrase_witness:
  "snd (handleUnlock sampleWebEnv sampleWebDecoders (webRequest ''POST'' ''/ui/api/unlock'' None []) freshWeb) = freshWeb"
proof -
  let ?u = "handleUnlock sampleWebEnv sampleWebDecoders (webRequest ''POST'' ''/ui/api/unlock'' None []) freshWeb"
  have "fst ?u \<noteq> webJSON 200 WOk"
    by (simp add: handleUnlock_def withJSON_def setUp_request webJSON_def webError_def)
  then show ?thesis
    using unlock_needs_passphrase [of sampleWebEnv sampleWebDecoders _ freshWeb "fst ?u" "snd ?u"] by simp
qed

text \<open>
  C31: the lock depends on reading the configuration: with a salt stored and no key loaded, setting a
  secret is refused when the configuration can be read, but when that read fails the vault counts as
  not locked, and the secret goes to the store as plain text.
\<close>
theorem unreadable_configuration_unlocks:
  assumes "map_of (au_config (ws_auth w)) ''enc_salt'' = Some salt" "getEncryptionKey w = None"
  shows "(ae_db (we_auth e 9) 0 = None \<longrightarrow>
      snd (so_SetSecret (kvStore e S w) n q s) = s \<and> \<not> is_ok (fst (so_SetSecret (kvStore e S w) n q s))) \<and>
    (ae_db (we_auth e 9) 0 = Some err \<longrightarrow> so_SetSecret (kvStore e S w) n q s = so_SetSecret S n q s)"
  using assms by (auto simp: locked_kvStore) (simp add: kvStore_def encSetSecret_def isLocked_def GetConfig_def dbDo_def)

theorem unreadable_configuration_unlocks_witness:
  "so_SetSecret (kvStore (sampleWebEnv\<lparr>we_auth := (\<lambda>_. (sampleAuth 200)\<lparr>ae_db := (\<lambda>_. Some (PlainErr ''busy''))\<rparr>)\<rparr>)
     sampleStorer (freshWeb\<lparr>ws_auth := NewMemory\<lparr>au_config := [(''enc_salt'', ''07'')]\<rparr>\<rparr>)) ''a'' sampleSecret New =
     (Inr sampleRecord, sampleStore)"
proof -
  have "so_SetSecret sampleStorer ''a'' sampleSecret New = (Inr sampleRecord, sampleStore)"
    using SetSecret_sample by (simp add: memStorer_def)
  then show ?thesis
    using unreadable_configuration_unlocks [of "freshWeb\<lparr>ws_auth := NewMemory\<lparr>au_config := [(''enc_salt'', ''07'')]\<rparr>\<rparr>" "''07''"
      "sampleWebEnv\<lparr>we_auth := (\<lambda>_. (sampleAuth 200)\<lparr>ae_db := (\<lambda>_. Some (PlainErr ''busy''))\<rparr>)\<rparr>" sampleStorer "''a''" sampleSecret New "PlainErr ''busy''"]
    by (simp add: freshWeb_def getEncryptionKey_def)
qed



end
