(* ===== verification/KV_Sql_Base.thy ===== *)
theory KV_Sql_Base
  imports KV_Storer
begin

text \<open>
  The SQL store, \<open>src/internal/store/sqlstore/sqlstore.go\<close>, first part: the tables, the statements
  and the helpers.

  A column of JSON text is represented by what decoding the text gives: a value, or an error for a
  text that is not of the column's type. Writing a value goes through \<open>json.Marshal\<close>, so that the
  column holds the image of the value (text that is not UTF-8 becomes U+FFFD, the members of a map
  are in key order). The six tables are lists of rows; an insertion checks the primary key. The
  ordering of text is that of bytes, as in SQLite. Of rows with equal \<open>created_at\<close>, whose order SQL
  leaves open, the one inserted first comes first.

  A method is a sequence of statements, each of which may fail for reasons of its own. There is no
  transaction: what the statements before the failing one have changed stays changed.
\<close>

section \<open>Columns\<close>

type_synonym 'a column = "'a res"

definition marshalAttrs :: "Attributes \<Rightarrow> Attributes column" where
  "marshalAttrs attrs = Inr (attrs\<lparr>RecoveryLevel := toValidUTF8 (RecoveryLevel attrs)\<rparr>)"

definition unmarshalAttrs :: "Attributes column \<Rightarrow> Attributes res" where
  "unmarshalAttrs c = c"

definition textTags :: "tags \<Rightarrow> tags" where
  "textTags t = map_option (\<lambda>m. sort_key fst
     (fold (\<lambda>(k, v). mput (toValidUTF8 k) (toValidUTF8 v)) (sort_key fst m) [])) t"

definition marshalTags :: "tags \<Rightarrow> tags column" where
  "marshalTags t = Inr (textTags t)"

definition unmarshalTags :: "tags column \<Rightarrow> tags res" where
  "unmarshalTags c = c"

definition jsonJWK :: "JSONWebKey \<Rightarrow> JSONWebKey" where
  "jsonJWK j = \<lparr>jwk_Kid = toValidUTF8 (jwk_Kid j), jwk_Kty = toValidUTF8 (jwk_Kty j),
     jwk_KeyOps = map toValidUTF8 (jwk_KeyOps j), jwk_N = toValidUTF8 (jwk_N j), jwk_E = toValidUTF8 (jwk_E j),
     jwk_D = toValidUTF8 (jwk_D j), jwk_P = toValidUTF8 (jwk_P j), jwk_Q = toValidUTF8 (jwk_Q j),
     jwk_DP = toValidUTF8 (jwk_DP j), jwk_DQ = toValidUTF8 (jwk_DQ j), jwk_QI = toValidUTF8 (jwk_QI j),
     jwk_Crv = toValidUTF8 (jwk_Crv j), jwk_X = toValidUTF8 (jwk_X j), jwk_Y = toValidUTF8 (jwk_Y j),
     jwk_K = toValidUTF8 (jwk_K j)\<rparr>"

definition marshalJWK :: "JSONWebKey \<Rightarrow> JSONWebKey column" where
  "marshalJWK j = Inr (jsonJWK j)"

definition unmarshalJWK :: "JSONWebKey column \<Rightarrow> JSONWebKey res" where
  "unmarshalJWK c = c"

text \<open>The policy column may be NULL (None), and an empty text counts as NULL.\<close>

definition marshalPolicyArg :: "CertificatePolicy option \<Rightarrow> CertificatePolicy column option" where
  "marshalPolicyArg policy = map_option Inr (clonePolicy policy)"

definition unmarshalPolicyNS :: "CertificatePolicy column option \<Rightarrow> CertificatePolicy option res" where
  "unmarshalPolicyNS ns = (case ns of None \<Rightarrow> Inr None | Some c \<Rightarrow> rbind c (\<lambda>policy. Inr (Some policy)))"

section \<open>Tables\<close>

record secretRow =
  rs_Name :: string
  rs_Version :: string
  rs_Value :: string
  rs_ContentType :: string
  rs_Attributes :: "Attributes column"
  rs_Tags :: "tags column"
  rs_CreatedAt :: int

text \<open>A key in DER, in base64: the columns \<open>key_material\<close>.\<close>

record serializedKeyMaterial =
  skm_RSAPriv :: string
  skm_RSAPub :: string
  skm_ECPriv :: string
  skm_ECPub :: string
  skm_AES :: string

record keyRow =
  rk_Name :: string
  rk_Version :: string
  rk_Jwk :: "JSONWebKey column"
  rk_Material :: "serializedKeyMaterial column"
  rk_Attributes :: "Attributes column"
  rk_Tags :: "tags column"
  rk_CreatedAt :: int

record certRow =
  rc_Name :: string
  rc_Version :: string
  rc_Cer :: string
  rc_Kid :: string
  rc_Sid :: string
  rc_PemData :: string
  rc_Attributes :: "Attributes column"
  rc_Tags :: "tags column"
  rc_Policy :: "CertificatePolicy column option"
  rc_CreatedAt :: int

record secretVersionSnapshot =
  svs_Version :: string
  svs_Value :: string
  svs_ContentType :: string
  svs_Attributes :: Attributes
  svs_Tags :: tags
  svs_CreatedAt :: int

record keyVersionSnapshot =
  kvs_Version :: string
  kvs_Key :: JSONWebKey
  kvs_Material :: "serializedKeyMaterial column"
  kvs_Attributes :: Attributes
  kvs_Tags :: tags
  kvs_CreatedAt :: int

record certificateVersionSnapshot =
  cvs_Version :: string
  cvs_Cer :: string
  cvs_Kid :: string
  cvs_Sid :: string
  cvs_PEMData :: string
  cvs_Attributes :: Attributes
  cvs_Tags :: tags
  cvs_Policy :: "CertificatePolicy option"
  cvs_CreatedAt :: int

text \<open>A row of one of the three tables of deleted objects; \<open>versions\<close> is the JSON of the payload.\<close>

record 'v deletedRow =
  rd_Name :: string
  rd_RecoveryID :: string
  rd_DeletedDate :: int
  rd_ScheduledPurgeDate :: int
  rd_Versions :: "'v list column"

record SQLStore =
  kv_secrets :: "secretRow list"
  kv_deleted_secrets :: "secretVersionSnapshot deletedRow list"
  kv_keys :: "keyRow list"
  kv_deleted_keys :: "keyVersionSnapshot deletedRow list"
  kv_certificates :: "certRow list"
  kv_deleted_certificates :: "certificateVersionSnapshot deletedRow list"

text \<open>The store on a database without tables, after \<open>migrate\<close>.\<close>

definition NewSQLStore :: SQLStore where
  "NewSQLStore = \<lparr>kv_secrets = [], kv_deleted_secrets = [], kv_keys = [], kv_deleted_keys = [],
     kv_certificates = [], kv_deleted_certificates = []\<rparr>"

section \<open>Statements\<close>

text \<open>
  What a call meets: the clock in seconds and the random bytes (\<open>env\<close>), the clock in nanoseconds, and
  the failure of its \<open>i\<close>-th statement.
\<close>

record sqlenv =
  sq_env :: env
  sq_nano :: int
  sq_fault :: "nat \<Rightarrow> goerr option"

text \<open>A program of statements: from the number of statements done and the tables.\<close>

type_synonym 'a sql = "nat \<times> SQLStore \<Rightarrow> 'a res \<times> nat \<times> SQLStore"

definition qlift :: "'a res \<Rightarrow> 'a sql" where
  "qlift r = (\<lambda>c. (r, c))"

abbreviation qret :: "'a \<Rightarrow> 'a sql" where
  "qret x \<equiv> qlift (Inr x)"

abbreviation qfail :: "goerr \<Rightarrow> 'a sql" where
  "qfail err \<equiv> qlift (Inl err)"

definition qbind :: "'a sql \<Rightarrow> ('a \<Rightarrow> 'b sql) \<Rightarrow> 'b sql" where
  "qbind m k = (\<lambda>c. case m c of (Inl err, c) \<Rightarrow> (Inl err, c) | (Inr x, c) \<Rightarrow> k x c)"

definition stmt :: "sqlenv \<Rightarrow> (SQLStore \<Rightarrow> 'a res \<times> SQLStore) \<Rightarrow> 'a sql" where
  "stmt e f = (\<lambda>(i, d). case sq_fault e i of
       Some err \<Rightarrow> (Inl err, Suc i, d)
     | None \<Rightarrow> (let (r, d) = f d in (r, Suc i, d)))"

definition query :: "sqlenv \<Rightarrow> (SQLStore \<Rightarrow> 'a) \<Rightarrow> 'a sql" where
  "query e f = stmt e (\<lambda>d. (Inr (f d), d))"

text \<open>An update or a deletion of rows, which has no constraint to violate.\<close>

definition execDB :: "sqlenv \<Rightarrow> (SQLStore \<Rightarrow> SQLStore) \<Rightarrow> unit sql" where
  "execDB e f = stmt e (\<lambda>d. (Inr (), f d))"

text \<open>An insertion: the primary key must be new.\<close>

definition insertDB :: "sqlenv \<Rightarrow> (SQLStore \<Rightarrow> bool) \<Rightarrow> string \<Rightarrow> (SQLStore \<Rightarrow> SQLStore) \<Rightarrow> unit sql" where
  "insertDB e taken columns f =
     stmt e (\<lambda>d. if taken d then (Inl (PlainErr (''constraint failed: UNIQUE constraint failed: '' @ columns)), d)
                 else (Inr (), f d))"

text \<open>A statement whose error is ignored.\<close>

definition qignore :: "unit sql \<Rightarrow> unit sql" where
  "qignore m = (\<lambda>c. (Inr (), snd (m c)))"

primrec qmap :: "('a \<Rightarrow> 'b sql) \<Rightarrow> 'a list \<Rightarrow> 'b list sql" where
  "qmap f [] = qret []"
| "qmap f (x # xs) = qbind (f x) (\<lambda>y. qbind (qmap f xs) (\<lambda>ys. qret (y # ys)))"

text \<open>A loop over the elements with their index, for its effect.\<close>

primrec qeach :: "(nat \<Rightarrow> 'a \<Rightarrow> unit sql) \<Rightarrow> nat \<Rightarrow> 'a list \<Rightarrow> unit sql" where
  "qeach f i [] = qret ()"
| "qeach f i (x # xs) = qbind (f i x) (\<lambda>_. qeach f (Suc i) xs)"

definition runSql :: "'a sql \<Rightarrow> SQLStore \<Rightarrow> 'a res \<times> SQLStore" where
  "runSql m d = (let (r, _, d) = m (0, d) in (r, d))"

definition readSql :: "'a sql \<Rightarrow> SQLStore \<Rightarrow> 'a res" where
  "readSql m d = fst (runSql m d)"

section \<open>Queries\<close>

definition orderDesc :: "('r \<Rightarrow> int) \<Rightarrow> 'r list \<Rightarrow> 'r list" where
  "orderDesc created rows = sort_key (\<lambda>r. - created r) rows"

definition orderAsc :: "('r \<Rightarrow> int) \<Rightarrow> 'r list \<Rightarrow> 'r list" where
  "orderAsc created rows = sort_key created rows"

text \<open>\<open>QueryRow\<close>: the first row, if there is one.\<close>

definition firstRow :: "'r list \<Rightarrow> 'r option" where
  "firstRow rows = (case rows of [] \<Rightarrow> None | r # _ \<Rightarrow> Some r)"

text \<open>\<open>SELECT ... WHERE name = ?\<close>, with the version or the latest row.\<close>

definition selectVersion ::
  "('r \<Rightarrow> string) \<Rightarrow> ('r \<Rightarrow> string) \<Rightarrow> ('r \<Rightarrow> int) \<Rightarrow> string \<Rightarrow> string \<Rightarrow> 'r list \<Rightarrow> 'r option" where
  "selectVersion nameOf versionOf created name version rows =
     (if version = [] then firstRow (orderDesc created (filter (\<lambda>r. nameOf r = name) rows))
      else firstRow (filter (\<lambda>r. nameOf r = name \<and> versionOf r = version) rows))"

text \<open>\<open>SELECT DISTINCT name ... ORDER BY name\<close>.\<close>

definition distinctNames :: "('r \<Rightarrow> string) \<Rightarrow> 'r list \<Rightarrow> string list" where
  "distinctNames nameOf rows = sort (remdups (map nameOf rows))"

definition countName :: "('r \<Rightarrow> string) \<Rightarrow> string \<Rightarrow> 'r list \<Rightarrow> nat" where
  "countName nameOf name rows = length (filter (\<lambda>r. nameOf r = name) rows)"

definition checkNotDeleted ::
  "sqlenv \<Rightarrow> (SQLStore \<Rightarrow> 'v deletedRow list) \<Rightarrow> string \<Rightarrow> string \<Rightarrow> unit sql" where
  "checkNotDeleted e table name kind =
     qbind (query e (\<lambda>d. countName rd_Name name (table d))) (\<lambda>count.
       if count > 0
       then qfail (newError 409 ''InvalidOperation'' (kind @ '' '' @ name @
              '' is currently deleted and cannot be reused until recovered or purged.''))
       else qret ())"

end
