(* ===== verification/KV_Sql_Secrets.thy ===== *)
theory KV_Sql_Secrets
  imports KV_Sql_Base
begin

text \<open>
  The secret operations of the SQL store, \<open>src/internal/store/sqlstore/sqlstore.go\<close>, in the order of
  the file.
\<close>

section \<open>Rows\<close>

definition insertSecretRow :: "sqlenv \<Rightarrow> SecretRecord \<Rightarrow> int \<Rightarrow> unit sql" where
  "insertSecretRow e rcd ts =
     (let attrsJSON = marshalAttrs (sr_Attributes rcd); tagsJSON = marshalTags (sr_Tags rcd)
      in insertDB e (\<lambda>d. \<exists>r \<in> set (kv_secrets d). rs_Name r = sr_Name rcd \<and> rs_Version r = sr_Version rcd)
           ''kv_secrets.name, kv_secrets.version''
           (\<lambda>d. d\<lparr>kv_secrets := kv_secrets d @
              [\<lparr>rs_Name = sr_Name rcd, rs_Version = sr_Version rcd, rs_Value = sr_Value rcd,
                rs_ContentType = sr_ContentType rcd, rs_Attributes = attrsJSON, rs_Tags = tagsJSON,
                rs_CreatedAt = ts\<rparr>]\<rparr>))"

text \<open>The record of a row, with the given value.\<close>

definition secretOfRow :: "string \<Rightarrow> (secretRow \<Rightarrow> string) \<Rightarrow> secretRow \<Rightarrow> SecretRecord res" where
  "secretOfRow name valueOf row =
     rbind (unmarshalAttrs (rs_Attributes row)) (\<lambda>attrs.
     rbind (unmarshalTags (rs_Tags row)) (\<lambda>tgs.
       Inr \<lparr>sr_Name = name, sr_Version = rs_Version row, sr_Value = valueOf row,
            sr_ContentType = rs_ContentType row, sr_Attributes = attrs, sr_Tags = tgs\<rparr>))"

definition getSecretVersionRow :: "sqlenv \<Rightarrow> string \<Rightarrow> string \<Rightarrow> SecretRecord sql" where
  "getSecretVersionRow e name version =
     qbind (query e (\<lambda>d. selectVersion rs_Name rs_Version rs_CreatedAt name version (kv_secrets d))) (\<lambda>found.
       case found of
         None \<Rightarrow> qfail (secretNotFound name)
       | Some row \<Rightarrow> qlift (secretOfRow name rs_Value row))"

section \<open>Operations\<close>

text \<open>\<open>SetSecret\<close> in two halves: other calls may run between the check and the insertion.\<close>

definition sqlSetCheck :: "sqlenv \<Rightarrow> string \<Rightarrow> SecretSetRequest \<Rightarrow> unit sql" where
  "sqlSetCheck e name req =
     (if name = [] then qfail (newError 400 ''BadParameter'' ''Secret name is required.'')
      else if ss_Value req = [] then qfail (newError 400 ''BadParameter'' ''Secret value is required.'')
      else checkNotDeleted e kv_deleted_secrets name ''Secret'')"

definition sqlSetInsert :: "sqlenv \<Rightarrow> string \<Rightarrow> SecretSetRequest \<Rightarrow> SecretRecord sql" where
  "sqlSetInsert e name req =
     qbind (qlift (newVersion (sq_env e))) (\<lambda>version.
       (let now = env_now (sq_env e);
            rcd = \<lparr>sr_Name = name, sr_Version = version, sr_Value = ss_Value req,
              sr_ContentType = ss_ContentType req,
              sr_Attributes = buildAttributes (ss_Attributes req) now now,
              sr_Tags = cloneTags (ss_Tags req)\<rparr>
        in qbind (insertSecretRow e rcd (sq_nano e)) (\<lambda>_. qret rcd)))"

definition sqlSetSecret :: "sqlenv \<Rightarrow> string \<Rightarrow> SecretSetRequest \<Rightarrow> SecretRecord sql" where
  "sqlSetSecret e name req = qbind (sqlSetCheck e name req) (\<lambda>_. sqlSetInsert e name req)"

definition sqlGetSecret :: "sqlenv \<Rightarrow> string \<Rightarrow> string \<Rightarrow> SecretRecord sql" where
  "sqlGetSecret e name version = getSecretVersionRow e name version"

definition sqlListSecrets :: "sqlenv \<Rightarrow> int \<Rightarrow> string \<Rightarrow> (SecretRecord list \<times> string option) sql" where
  "sqlListSecrets e maxResults skipToken =
     qbind (query e (\<lambda>d. distinctNames rs_Name (kv_secrets d))) (\<lambda>names.
     qbind (qlift (paginateNames names skipToken maxResults)) (\<lambda>(page, nxt).
     qbind (qmap (\<lambda>name. qbind (getSecretVersionRow e name []) (\<lambda>rcd. qret (rcd\<lparr>sr_Value := []\<rparr>))) page) (\<lambda>items.
       qret (items, nxt))))"

definition sqlListSecretVersions ::
  "sqlenv \<Rightarrow> string \<Rightarrow> int \<Rightarrow> string \<Rightarrow> (SecretRecord list \<times> string option) sql" where
  "sqlListSecretVersions e name maxResults skipToken =
     qbind (query e (\<lambda>d. countName rs_Name name (kv_secrets d))) (\<lambda>count.
       if count = 0 then qfail (secretNotFound name)
       else
         qbind (query e (\<lambda>d. orderDesc rs_CreatedAt (filter (\<lambda>r. rs_Name r = name) (kv_secrets d)))) (\<lambda>rows.
         qbind (qlift (mapRes (secretOfRow name (\<lambda>_. [])) rows)) (\<lambda>versions.
           qlift (paginateNames versions skipToken maxResults))))"

definition sqlUpdateSecret ::
  "sqlenv \<Rightarrow> string \<Rightarrow> string \<Rightarrow> SecretUpdateRequest \<Rightarrow> SecretRecord sql" where
  "sqlUpdateSecret e name version req =
     qbind (getSecretVersionRow e name version) (\<lambda>rcd.
       (let rcd = (case su_ContentType req of None \<Rightarrow> rcd | Some ct \<Rightarrow> rcd\<lparr>sr_ContentType := ct\<rparr>);
            rcd = (if su_Tags req \<noteq> None then rcd\<lparr>sr_Tags := cloneTags (su_Tags req)\<rparr> else rcd);
            rcd = rcd\<lparr>sr_Attributes :=
              mergeAttributes (env_now (sq_env e)) (sr_Attributes rcd) (su_Attributes req)\<rparr>;
            attrsJSON = marshalAttrs (sr_Attributes rcd); tagsJSON = marshalTags (sr_Tags rcd)
        in qbind (execDB e (\<lambda>d. d\<lparr>kv_secrets := map (\<lambda>r.
                    if rs_Name r = sr_Name rcd \<and> rs_Version r = sr_Version rcd
                    then r\<lparr>rs_ContentType := sr_ContentType rcd, rs_Attributes := attrsJSON, rs_Tags := tagsJSON\<rparr>
                    else r) (kv_secrets d)\<rparr>)) (\<lambda>_.
             qret rcd)))"

definition snapshotOfRow :: "secretRow \<Rightarrow> secretVersionSnapshot res" where
  "snapshotOfRow row =
     rbind (unmarshalAttrs (rs_Attributes row)) (\<lambda>attrs.
     rbind (unmarshalTags (rs_Tags row)) (\<lambda>tgs.
       Inr \<lparr>svs_Version = rs_Version row, svs_Value = rs_Value row, svs_ContentType = rs_ContentType row,
            svs_Attributes = attrs, svs_Tags = tgs, svs_CreatedAt = rs_CreatedAt row\<rparr>))"

definition allSecretVersionSnapshots :: "sqlenv \<Rightarrow> string \<Rightarrow> secretVersionSnapshot list sql" where
  "allSecretVersionSnapshots e name =
     qbind (query e (\<lambda>d. orderAsc rs_CreatedAt (filter (\<lambda>r. rs_Name r = name) (kv_secrets d)))) (\<lambda>rows.
       qlift (mapRes snapshotOfRow rows))"

text \<open>\<open>json.Marshal(deletedSecretPayload{Versions: snapshots})\<close>.\<close>

definition jsonSecretSnapshot :: "secretVersionSnapshot \<Rightarrow> secretVersionSnapshot" where
  "jsonSecretSnapshot v = \<lparr>svs_Version = toValidUTF8 (svs_Version v), svs_Value = toValidUTF8 (svs_Value v),
     svs_ContentType = toValidUTF8 (svs_ContentType v),
     svs_Attributes = (svs_Attributes v)\<lparr>RecoveryLevel := toValidUTF8 (RecoveryLevel (svs_Attributes v))\<rparr>,
     svs_Tags = textTags (svs_Tags v), svs_CreatedAt = svs_CreatedAt v\<rparr>"

definition sqlDeleteSecret :: "sqlenv \<Rightarrow> string \<Rightarrow> DeletedSecretRecord sql" where
  "sqlDeleteSecret e name =
     qbind (getSecretVersionRow e name []) (\<lambda>latest.
     qbind (query e (\<lambda>d. countName rd_Name name (kv_deleted_secrets d))) (\<lambda>count.
       if count > 0 then qfail (secretNotFound name)
       else
         qbind (allSecretVersionSnapshots e name) (\<lambda>snapshots.
         (let payload = Inr (map jsonSecretSnapshot snapshots); now = env_now (sq_env e)
          in qbind (qlift (newRecoveryID (sq_env e) ''secrets'' name)) (\<lambda>recoveryID.
            (let scheduledPurgeDate = add64 now purgeDelay
             in qbind (insertDB e (\<lambda>d. \<exists>r \<in> set (kv_deleted_secrets d). rd_Name r = name) ''kv_deleted_secrets.name''
                  (\<lambda>d. d\<lparr>kv_deleted_secrets := kv_deleted_secrets d @
                     [\<lparr>rd_Name = name, rd_RecoveryID = recoveryID, rd_DeletedDate = now,
                       rd_ScheduledPurgeDate = scheduledPurgeDate, rd_Versions = payload\<rparr>]\<rparr>)) (\<lambda>_.
                qbind (execDB e (\<lambda>d. d\<lparr>kv_secrets := filter (\<lambda>r. rs_Name r \<noteq> name) (kv_secrets d)\<rparr>)) (\<lambda>_.
                  qret \<lparr>dr_Record = latest, dr_RecoveryID = recoveryID, dr_DeletedDate = now,
                        dr_ScheduledPurgeDate = scheduledPurgeDate\<rparr>))))))))"

definition getDeletedSecretRow :: "sqlenv \<Rightarrow> string \<Rightarrow> secretVersionSnapshot deletedRow sql" where
  "getDeletedSecretRow e name =
     qbind (query e (\<lambda>d. firstRow (filter (\<lambda>r. rd_Name r = name) (kv_deleted_secrets d)))) (\<lambda>found.
       case found of None \<Rightarrow> qfail (deletedSecretNotFound name) | Some r \<Rightarrow> qret r)"

definition secretOfSnapshot :: "string \<Rightarrow> secretVersionSnapshot \<Rightarrow> SecretRecord" where
  "secretOfSnapshot name snap =
     \<lparr>sr_Name = name, sr_Version = svs_Version snap, sr_Value = svs_Value snap,
      sr_ContentType = svs_ContentType snap, sr_Attributes = svs_Attributes snap,
      sr_Tags = cloneTags (svs_Tags snap)\<rparr>"

definition deletedSecretFromRow :: "secretVersionSnapshot deletedRow \<Rightarrow> DeletedSecretRecord res" where
  "deletedSecretFromRow r =
     rbind (rd_Versions r) (\<lambda>versions.
       if versions = [] then Inl (PlainErr (''deleted secret '' @ rd_Name r @ '' has no versions''))
       else Inr \<lparr>dr_Record = secretOfSnapshot (rd_Name r) (last versions), dr_RecoveryID = rd_RecoveryID r,
                 dr_DeletedDate = rd_DeletedDate r, dr_ScheduledPurgeDate = rd_ScheduledPurgeDate r\<rparr>)"

definition sqlListDeletedSecrets ::
  "sqlenv \<Rightarrow> int \<Rightarrow> string \<Rightarrow> (DeletedSecretRecord list \<times> string option) sql" where
  "sqlListDeletedSecrets e maxResults skipToken =
     qbind (query e (\<lambda>d. sort (map rd_Name (kv_deleted_secrets d)))) (\<lambda>names.
     qbind (qlift (paginateNames names skipToken maxResults)) (\<lambda>(page, nxt).
     qbind (qmap (\<lambda>name. qbind (getDeletedSecretRow e name) (\<lambda>r.
              qbind (qlift (deletedSecretFromRow r)) (\<lambda>rcd.
                qret (rcd\<lparr>dr_Record := (dr_Record rcd)\<lparr>sr_Value := []\<rparr>\<rparr>)))) page) (\<lambda>items.
       qret (items, nxt))))"

definition sqlGetDeletedSecret :: "sqlenv \<Rightarrow> string \<Rightarrow> DeletedSecretRecord sql" where
  "sqlGetDeletedSecret e name = qbind (getDeletedSecretRow e name) (\<lambda>r. qlift (deletedSecretFromRow r))"

definition purgeSecretRow :: "sqlenv \<Rightarrow> string \<Rightarrow> unit sql" where
  "purgeSecretRow e name =
     execDB e (\<lambda>d. d\<lparr>kv_deleted_secrets := filter (\<lambda>r. rd_Name r \<noteq> name) (kv_deleted_secrets d)\<rparr>)"

definition sqlPurgeDeletedSecret :: "sqlenv \<Rightarrow> string \<Rightarrow> unit sql" where
  "sqlPurgeDeletedSecret e name = qbind (getDeletedSecretRow e name) (\<lambda>_. purgeSecretRow e name)"

definition indexOutOfRange :: goerr where
  "indexOutOfRange = Panic ''runtime error: index out of range''"

definition sqlRecoverDeletedSecret :: "sqlenv \<Rightarrow> string \<Rightarrow> SecretRecord sql" where
  "sqlRecoverDeletedSecret e name =
     qbind (query e (\<lambda>d. countName rs_Name name (kv_secrets d))) (\<lambda>count.
       if count > 0 then qfail (newError 409 ''Conflict'' (''Secret '' @ name @ '' already exists.''))
       else
         qbind (getDeletedSecretRow e name) (\<lambda>r.
         qbind (qlift (rd_Versions r)) (\<lambda>versions.
         qbind (qeach (\<lambda>i snap. insertSecretRow e (secretOfSnapshot name snap) (add64 (svs_CreatedAt snap) (int i)))
                  0 versions) (\<lambda>_.
         qbind (purgeSecretRow e name) (\<lambda>_.
           if versions = [] then qfail indexOutOfRange
           else qret (secretOfSnapshot name (last versions)))))))"

section \<open>Backup and restore\<close>

definition sqlBackupSecret :: "sqlenv \<Rightarrow> codec \<Rightarrow> string \<Rightarrow> string sql" where
  "sqlBackupSecret e C name =
     qbind (getSecretVersionRow e name []) (\<lambda>_.
     qbind (allSecretVersionSnapshots e name) (\<lambda>snapshots.
     qbind (qlift (cd_marshal C \<lparr>bk_Name = name, bk_Versions = map (secretOfSnapshot name) snapshots\<rparr>)) (\<lambda>data.
       qret (stdEncode data))))"

definition sqlRestoreSecret :: "sqlenv \<Rightarrow> codec \<Rightarrow> string \<Rightarrow> SecretRecord sql" where
  "sqlRestoreSecret e C token =
     (case stdDecode token of
        None \<Rightarrow> qfail invalidBackup
      | Some raw \<Rightarrow>
          (case cd_unmarshal C raw of
             Inl _ \<Rightarrow> qfail invalidBackup
           | Inr payload \<Rightarrow>
               if bk_Name payload = [] \<or> bk_Versions payload = [] then qfail invalidBackup
               else
                 qbind (execDB e (\<lambda>d. d\<lparr>kv_secrets := filter (\<lambda>r. rs_Name r \<noteq> bk_Name payload) (kv_secrets d)\<rparr>)) (\<lambda>_.
                 qbind (qignore (purgeSecretRow e (bk_Name payload))) (\<lambda>_.
                 qbind (qeach (\<lambda>i ver.
                          insertSecretRow e
                            (ver\<lparr>sr_Name := bk_Name payload,
                                 sr_Attributes := (sr_Attributes ver)
                                   \<lparr>RecoveryLevel := recoveryLevel, RecoverableDays := recoverableDays\<rparr>\<rparr>) (int i))
                        0 (bk_Versions payload)) (\<lambda>_.
                   qret ((last (bk_Versions payload))\<lparr>sr_Name := bk_Name payload\<rparr>))))))"

end
