(* ===== verification/KV_Sql_Keys.thy ===== *)
theory KV_Sql_Keys
  imports KV_Sql_Secrets
begin

text \<open>
  The key operations of the SQL store, \<open>src/internal/store/sqlstore/sqlstore.go\<close>, in the order of the
  file. The DER encodings of crypto/x509 that only this store uses are the record \<open>derlib\<close>.
\<close>

section \<open>Key material as text\<close>

record derlib =
  der_MarshalPKCS1PublicKey :: "rsa_PublicKey \<Rightarrow> bytes"
  der_ParsePKCS1PublicKey :: "bytes \<Rightarrow> rsa_PublicKey res"
  der_MarshalECPrivateKey :: "ecdsa_PrivateKey \<Rightarrow> bytes res"
  der_ParseECPrivateKey :: "bytes \<Rightarrow> ecdsa_PrivateKey res"
  der_MarshalPKIXPublicKey :: "ecdsa_PublicKey \<Rightarrow> bytes res"
  der_ParsePKIXPublicKey :: "bytes \<Rightarrow> ecdsa_PublicKey option res"

text \<open>
  \<open>x509.MarshalPKCS1PrivateKey\<close> reads the first two primes of the key without a check.
\<close>

definition marshalPKCS1PrivateKey :: "x509lib \<Rightarrow> rsa_PrivateKey \<Rightarrow> bytes res" where
  "marshalPKCS1PrivateKey L priv =
     (if length (priv_Primes priv) < 2 then Inl indexOutOfRange else Inr (lib_MarshalPKCS1PrivateKey L priv))"

definition serializeRSA :: "x509lib \<Rightarrow> derlib \<Rightarrow> KeyMaterial \<Rightarrow> (string \<times> string) res" where
  "serializeRSA L DL material =
     (case km_RSA material of
        Some priv \<Rightarrow>
          rbind (marshalPKCS1PrivateKey L priv) (\<lambda>der.
            Inr (stdEncode der, stdEncode (der_MarshalPKCS1PublicKey DL (priv_PublicKey priv))))
      | None \<Rightarrow>
          (case km_RSAPub material of
             Some pub \<Rightarrow> Inr ([], stdEncode (der_MarshalPKCS1PublicKey DL pub))
           | None \<Rightarrow> Inr ([], [])))"

definition serializeEC :: "derlib \<Rightarrow> KeyMaterial \<Rightarrow> (string \<times> string) res" where
  "serializeEC DL material =
     (case km_ECDSA material of
        Some priv \<Rightarrow>
          rbind (der_MarshalECPrivateKey DL priv) (\<lambda>der.
          rbind (der_MarshalPKIXPublicKey DL (ecp_PublicKey priv)) (\<lambda>der2.
            Inr (stdEncode der, stdEncode der2)))
      | None \<Rightarrow>
          (case km_ECDSAPub material of
             Some pub \<Rightarrow> rbind (der_MarshalPKIXPublicKey DL pub) (\<lambda>der. Inr ([], stdEncode der))
           | None \<Rightarrow> Inr ([], [])))"

definition serializeKeyMaterial :: "x509lib \<Rightarrow> derlib \<Rightarrow> KeyMaterial \<Rightarrow> serializedKeyMaterial column res" where
  "serializeKeyMaterial L DL material =
     rbind (serializeRSA L DL material) (\<lambda>(rsaPriv, rsaPub).
     rbind (serializeEC DL material) (\<lambda>(ecPriv, ecPub).
       Inr (Inr \<lparr>skm_RSAPriv = rsaPriv, skm_RSAPub = rsaPub, skm_ECPriv = ecPriv, skm_ECPub = ecPub,
                 skm_AES = (case km_AES material of None \<Rightarrow> [] | Some key \<Rightarrow> stdEncode key)\<rparr>)))"

definition decodeStd :: "string \<Rightarrow> bytes res" where
  "decodeStd s = ofOption (PlainErr ''illegal base64 data'') (stdDecode s)"

definition deserializeRSA :: "x509lib \<Rightarrow> derlib \<Rightarrow> serializedKeyMaterial \<Rightarrow> KeyMaterial \<Rightarrow> KeyMaterial res" where
  "deserializeRSA L DL s m =
     (if skm_RSAPriv s \<noteq> [] then
        rbind (decodeStd (skm_RSAPriv s)) (\<lambda>der.
        rbind (lib_ParsePKCS1PrivateKey L der) (\<lambda>priv.
          Inr (m\<lparr>km_RSA := Some priv, km_RSAPub := Some (priv_PublicKey priv)\<rparr>)))
      else if skm_RSAPub s \<noteq> [] then
        rbind (decodeStd (skm_RSAPub s)) (\<lambda>der.
        rbind (der_ParsePKCS1PublicKey DL der) (\<lambda>pub. Inr (m\<lparr>km_RSAPub := Some pub\<rparr>)))
      else Inr m)"

definition deserializeEC :: "derlib \<Rightarrow> serializedKeyMaterial \<Rightarrow> KeyMaterial \<Rightarrow> KeyMaterial res" where
  "deserializeEC DL s m =
     (if skm_ECPriv s \<noteq> [] then
        rbind (decodeStd (skm_ECPriv s)) (\<lambda>der.
        rbind (der_ParseECPrivateKey DL der) (\<lambda>priv.
          Inr (m\<lparr>km_ECDSA := Some priv, km_ECDSAPub := Some (ecp_PublicKey priv)\<rparr>)))
      else if skm_ECPub s \<noteq> [] then
        rbind (decodeStd (skm_ECPub s)) (\<lambda>der.
        rbind (der_ParsePKIXPublicKey DL der) (\<lambda>pub.
          Inr (case pub of Some ecPub \<Rightarrow> m\<lparr>km_ECDSAPub := Some ecPub\<rparr> | None \<Rightarrow> m)))
      else Inr m)"

definition deserializeKeyMaterial ::
  "x509lib \<Rightarrow> derlib \<Rightarrow> serializedKeyMaterial column \<Rightarrow> KeyMaterial res" where
  "deserializeKeyMaterial L DL data =
     rbind data (\<lambda>s.
     rbind (deserializeRSA L DL s emptyMaterial) (\<lambda>m.
     rbind (deserializeEC DL s m) (\<lambda>m.
       if skm_AES s \<noteq> [] then rbind (decodeStd (skm_AES s)) (\<lambda>key. Inr (m\<lparr>km_AES := Some key\<rparr>))
       else Inr m)))"

section \<open>Rows\<close>

definition insertKeyRow :: "sqlenv \<Rightarrow> x509lib \<Rightarrow> derlib \<Rightarrow> KeyRecord \<Rightarrow> KeyMaterial \<Rightarrow> int \<Rightarrow> unit sql" where
  "insertKeyRow e L DL rcd material ts =
     (let jwkJSON = marshalJWK (kr_Key rcd)
      in qbind (qlift (serializeKeyMaterial L DL material)) (\<lambda>matJSON.
        (let attrsJSON = marshalAttrs (kr_Attributes rcd); tagsJSON = marshalTags (kr_Tags rcd)
         in insertDB e (\<lambda>d. \<exists>r \<in> set (kv_keys d). rk_Name r = kr_Name rcd \<and> rk_Version r = kr_Version rcd)
              ''kv_keys.name, kv_keys.version''
              (\<lambda>d. d\<lparr>kv_keys := kv_keys d @
                 [\<lparr>rk_Name = kr_Name rcd, rk_Version = kr_Version rcd, rk_Jwk = jwkJSON, rk_Material = matJSON,
                   rk_Attributes = attrsJSON, rk_Tags = tagsJSON, rk_CreatedAt = ts\<rparr>]\<rparr>))))"

definition keyOfRow :: "string \<Rightarrow> keyRow \<Rightarrow> KeyRecord res" where
  "keyOfRow name row =
     rbind (unmarshalJWK (rk_Jwk row)) (\<lambda>key.
     rbind (unmarshalAttrs (rk_Attributes row)) (\<lambda>attrs.
     rbind (unmarshalTags (rk_Tags row)) (\<lambda>tgs.
       Inr \<lparr>kr_Name = name, kr_Version = rk_Version row, kr_Key = key, kr_Attributes = attrs, kr_Tags = tgs\<rparr>)))"

text \<open>The row with its key material; the material is decoded after the web key.\<close>

definition keyWithMaterial :: "x509lib \<Rightarrow> derlib \<Rightarrow> string \<Rightarrow> keyRow \<Rightarrow> (KeyRecord \<times> KeyMaterial) res" where
  "keyWithMaterial L DL name row =
     rbind (unmarshalJWK (rk_Jwk row)) (\<lambda>key.
     rbind (deserializeKeyMaterial L DL (rk_Material row)) (\<lambda>material.
     rbind (unmarshalAttrs (rk_Attributes row)) (\<lambda>attrs.
     rbind (unmarshalTags (rk_Tags row)) (\<lambda>tgs.
       Inr (\<lparr>kr_Name = name, kr_Version = rk_Version row, kr_Key = key, kr_Attributes = attrs, kr_Tags = tgs\<rparr>,
            material)))))"

definition getKeyVersionRow ::
  "sqlenv \<Rightarrow> x509lib \<Rightarrow> derlib \<Rightarrow> string \<Rightarrow> string \<Rightarrow> (KeyRecord \<times> KeyMaterial) sql" where
  "getKeyVersionRow e L DL name version =
     qbind (query e (\<lambda>d. selectVersion rk_Name rk_Version rk_CreatedAt name version (kv_keys d))) (\<lambda>found.
       case found of
         None \<Rightarrow> qfail (keyNotFound name)
       | Some row \<Rightarrow> qlift (keyWithMaterial L DL name row))"

section \<open>Life cycle\<close>

definition sqlCreateKey ::
  "sqlenv \<Rightarrow> prims \<Rightarrow> x509lib \<Rightarrow> derlib \<Rightarrow> string \<Rightarrow> CreateKeyRequest \<Rightarrow> KeyRecord sql" where
  "sqlCreateKey e P L DL name req =
     (if name = [] then qfail (newError 400 ''BadParameter'' ''Key name is required.'')
      else if ck_Kty req = [] then qfail (newError 400 ''BadParameter'' ''Key type is required.'')
      else
        qbind (checkNotDeleted e kv_deleted_keys name ''Key'') (\<lambda>_.
        qbind (qlift (newVersion (sq_env e))) (\<lambda>version.
          (let now = env_now (sq_env e); ops = defaultKeyOps (ck_Kty req) (ck_KeyOps req)
           in qbind (qlift (wrapErr 400 ''BadParameter''
                      (GenerateKey P (ck_Kty req) (ck_KeySize req) (ck_Crv req) [] ops))) (\<lambda>(material, jwk).
             (let rcd = \<lparr>kr_Name = name, kr_Version = version, kr_Key = jwk,
                    kr_Attributes = buildAttributes (ck_Attributes req) now now, kr_Tags = cloneTags (ck_Tags req)\<rparr>
              in qbind (insertKeyRow e L DL rcd material (sq_nano e)) (\<lambda>_. qret rcd)))))))"

definition sqlImportKey ::
  "sqlenv \<Rightarrow> x509lib \<Rightarrow> derlib \<Rightarrow> string \<Rightarrow> ImportKeyRequest \<Rightarrow> KeyRecord sql" where
  "sqlImportKey e L DL name req =
     (if name = [] then qfail (newError 400 ''BadParameter'' ''Key name is required.'')
      else if jwk_Kty (ik_Key req) = [] then qfail (newError 400 ''BadParameter'' ''Key type is required.'')
      else
        qbind (checkNotDeleted e kv_deleted_keys name ''Key'') (\<lambda>_.
        qbind (qlift (wrapErr 400 ''BadParameter'' (ImportKeyMaterial (ik_Key req) []))) (\<lambda>(material, jwk).
          (let ops = defaultKeyOps (jwk_Kty (ik_Key req)) (jwk_KeyOps (ik_Key req));
               jwk = jwk\<lparr>jwk_KeyOps := ops\<rparr>;
               now = env_now (sq_env e)
           in qbind (qlift (newVersion (sq_env e))) (\<lambda>version.
             (let rcd = \<lparr>kr_Name = name, kr_Version = version, kr_Key = jwk,
                    kr_Attributes = buildAttributes (ik_Attributes req) now now, kr_Tags = cloneTags (ik_Tags req)\<rparr>
              in qbind (insertKeyRow e L DL rcd material (sq_nano e)) (\<lambda>_. qret rcd)))))))"

definition sqlGetKey :: "sqlenv \<Rightarrow> x509lib \<Rightarrow> derlib \<Rightarrow> string \<Rightarrow> string \<Rightarrow> KeyRecord sql" where
  "sqlGetKey e L DL name version = qbind (getKeyVersionRow e L DL name version) (\<lambda>(rcd, _). qret rcd)"

definition sqlListKeys ::
  "sqlenv \<Rightarrow> x509lib \<Rightarrow> derlib \<Rightarrow> int \<Rightarrow> string \<Rightarrow> (KeyRecord list \<times> string option) sql" where
  "sqlListKeys e L DL maxResults skipToken =
     qbind (query e (\<lambda>d. distinctNames rk_Name (kv_keys d))) (\<lambda>names.
     qbind (qlift (paginateNames names skipToken maxResults)) (\<lambda>(page, nxt).
     qbind (qmap (\<lambda>name. qbind (getKeyVersionRow e L DL name []) (\<lambda>(rcd, _). qret rcd)) page) (\<lambda>items.
       qret (items, nxt))))"

definition sqlListKeyVersions ::
  "sqlenv \<Rightarrow> string \<Rightarrow> int \<Rightarrow> string \<Rightarrow> (KeyRecord list \<times> string option) sql" where
  "sqlListKeyVersions e name maxResults skipToken =
     qbind (query e (\<lambda>d. countName rk_Name name (kv_keys d))) (\<lambda>count.
       if count = 0 then qfail (keyNotFound name)
       else
         qbind (query e (\<lambda>d. orderDesc rk_CreatedAt (filter (\<lambda>r. rk_Name r = name) (kv_keys d)))) (\<lambda>rows.
         qbind (qlift (mapRes (keyOfRow name) rows)) (\<lambda>versions.
           qlift (paginateNames versions skipToken maxResults))))"

definition sqlUpdateKey ::
  "sqlenv \<Rightarrow> x509lib \<Rightarrow> derlib \<Rightarrow> string \<Rightarrow> string \<Rightarrow> UpdateKeyRequest \<Rightarrow> KeyRecord sql" where
  "sqlUpdateKey e L DL name version req =
     qbind (getKeyVersionRow e L DL name version) (\<lambda>(rcd, _).
       (let rcd = rcd\<lparr>kr_Attributes :=
              mergeAttributes (env_now (sq_env e)) (kr_Attributes rcd) (uk_Attributes req)\<rparr>;
            rcd = (if uk_Tags req \<noteq> None then rcd\<lparr>kr_Tags := cloneTags (uk_Tags req)\<rparr> else rcd);
            rcd = (case uk_KeyOps req of
                     None \<Rightarrow> rcd
                   | Some ops \<Rightarrow> rcd\<lparr>kr_Key := (kr_Key rcd)\<lparr>jwk_KeyOps := [] @ ops\<rparr>\<rparr>);
            jwkJSON = marshalJWK (kr_Key rcd); attrsJSON = marshalAttrs (kr_Attributes rcd);
            tagsJSON = marshalTags (kr_Tags rcd)
        in qbind (execDB e (\<lambda>d. d\<lparr>kv_keys := map (\<lambda>r.
                    if rk_Name r = kr_Name rcd \<and> rk_Version r = kr_Version rcd
                    then r\<lparr>rk_Jwk := jwkJSON, rk_Attributes := attrsJSON, rk_Tags := tagsJSON\<rparr>
                    else r) (kv_keys d)\<rparr>)) (\<lambda>_.
             qret rcd)))"

definition keySnapshotOfRow :: "keyRow \<Rightarrow> keyVersionSnapshot res" where
  "keySnapshotOfRow row =
     rbind (unmarshalJWK (rk_Jwk row)) (\<lambda>key.
     rbind (unmarshalAttrs (rk_Attributes row)) (\<lambda>attrs.
     rbind (unmarshalTags (rk_Tags row)) (\<lambda>tgs.
       Inr \<lparr>kvs_Version = rk_Version row, kvs_Key = key, kvs_Material = rk_Material row,
            kvs_Attributes = attrs, kvs_Tags = tgs, kvs_CreatedAt = rk_CreatedAt row\<rparr>)))"

definition allKeyVersionSnapshots :: "sqlenv \<Rightarrow> string \<Rightarrow> keyVersionSnapshot list sql" where
  "allKeyVersionSnapshots e name =
     qbind (query e (\<lambda>d. orderAsc rk_CreatedAt (filter (\<lambda>r. rk_Name r = name) (kv_keys d)))) (\<lambda>rows.
       qlift (mapRes keySnapshotOfRow rows))"

text \<open>The text of the material is plain ASCII and goes through JSON unchanged.\<close>

definition jsonKeySnapshot :: "keyVersionSnapshot \<Rightarrow> keyVersionSnapshot" where
  "jsonKeySnapshot v = \<lparr>kvs_Version = toValidUTF8 (kvs_Version v), kvs_Key = jsonJWK (kvs_Key v),
     kvs_Material = kvs_Material v,
     kvs_Attributes = (kvs_Attributes v)\<lparr>RecoveryLevel := toValidUTF8 (RecoveryLevel (kvs_Attributes v))\<rparr>,
     kvs_Tags = textTags (kvs_Tags v), kvs_CreatedAt = kvs_CreatedAt v\<rparr>"

definition sqlDeleteKey :: "sqlenv \<Rightarrow> x509lib \<Rightarrow> derlib \<Rightarrow> string \<Rightarrow> DeletedKeyRecord sql" where
  "sqlDeleteKey e L DL name =
     qbind (getKeyVersionRow e L DL name []) (\<lambda>(latest, _).
     qbind (query e (\<lambda>d. countName rd_Name name (kv_deleted_keys d))) (\<lambda>count.
       if count > 0 then qfail (keyNotFound name)
       else
         qbind (allKeyVersionSnapshots e name) (\<lambda>snapshots.
         (let payload = Inr (map jsonKeySnapshot snapshots); now = env_now (sq_env e)
          in qbind (qlift (newRecoveryID (sq_env e) ''keys'' name)) (\<lambda>recoveryID.
            (let scheduledPurgeDate = add64 now purgeDelay
             in qbind (insertDB e (\<lambda>d. \<exists>r \<in> set (kv_deleted_keys d). rd_Name r = name) ''kv_deleted_keys.name''
                  (\<lambda>d. d\<lparr>kv_deleted_keys := kv_deleted_keys d @
                     [\<lparr>rd_Name = name, rd_RecoveryID = recoveryID, rd_DeletedDate = now,
                       rd_ScheduledPurgeDate = scheduledPurgeDate, rd_Versions = payload\<rparr>]\<rparr>)) (\<lambda>_.
                qbind (execDB e (\<lambda>d. d\<lparr>kv_keys := filter (\<lambda>r. rk_Name r \<noteq> name) (kv_keys d)\<rparr>)) (\<lambda>_.
                  qret \<lparr>dr_Record = latest, dr_RecoveryID = recoveryID, dr_DeletedDate = now,
                        dr_ScheduledPurgeDate = scheduledPurgeDate\<rparr>))))))))"

definition getDeletedKeyRow :: "sqlenv \<Rightarrow> string \<Rightarrow> keyVersionSnapshot deletedRow sql" where
  "getDeletedKeyRow e name =
     qbind (query e (\<lambda>d. firstRow (filter (\<lambda>r. rd_Name r = name) (kv_deleted_keys d)))) (\<lambda>found.
       case found of None \<Rightarrow> qfail (deletedKeyNotFound name) | Some r \<Rightarrow> qret r)"

definition keyOfSnapshot :: "string \<Rightarrow> keyVersionSnapshot \<Rightarrow> KeyRecord" where
  "keyOfSnapshot name snap =
     \<lparr>kr_Name = name, kr_Version = kvs_Version snap, kr_Key = kvs_Key snap,
      kr_Attributes = kvs_Attributes snap, kr_Tags = cloneTags (kvs_Tags snap)\<rparr>"

definition deletedKeyFromRow :: "keyVersionSnapshot deletedRow \<Rightarrow> DeletedKeyRecord res" where
  "deletedKeyFromRow r =
     rbind (rd_Versions r) (\<lambda>versions.
       if versions = [] then Inl (PlainErr (''deleted key '' @ rd_Name r @ '' has no versions''))
       else Inr \<lparr>dr_Record = keyOfSnapshot (rd_Name r) (last versions), dr_RecoveryID = rd_RecoveryID r,
                 dr_DeletedDate = rd_DeletedDate r, dr_ScheduledPurgeDate = rd_ScheduledPurgeDate r\<rparr>)"

definition sqlListDeletedKeys :: "sqlenv \<Rightarrow> int \<Rightarrow> string \<Rightarrow> (DeletedKeyRecord list \<times> string option) sql" where
  "sqlListDeletedKeys e maxResults skipToken =
     qbind (query e (\<lambda>d. sort (map rd_Name (kv_deleted_keys d)))) (\<lambda>names.
     qbind (qlift (paginateNames names skipToken maxResults)) (\<lambda>(page, nxt).
     qbind (qmap (\<lambda>name. qbind (getDeletedKeyRow e name) (\<lambda>r. qlift (deletedKeyFromRow r))) page) (\<lambda>items.
       qret (items, nxt))))"

definition sqlGetDeletedKey :: "sqlenv \<Rightarrow> string \<Rightarrow> DeletedKeyRecord sql" where
  "sqlGetDeletedKey e name = qbind (getDeletedKeyRow e name) (\<lambda>r. qlift (deletedKeyFromRow r))"

definition purgeKeyRow :: "sqlenv \<Rightarrow> string \<Rightarrow> unit sql" where
  "purgeKeyRow e name =
     execDB e (\<lambda>d. d\<lparr>kv_deleted_keys := filter (\<lambda>r. rd_Name r \<noteq> name) (kv_deleted_keys d)\<rparr>)"

definition sqlPurgeDeletedKey :: "sqlenv \<Rightarrow> string \<Rightarrow> unit sql" where
  "sqlPurgeDeletedKey e name = qbind (getDeletedKeyRow e name) (\<lambda>_. purgeKeyRow e name)"

definition sqlRecoverDeletedKey :: "sqlenv \<Rightarrow> x509lib \<Rightarrow> derlib \<Rightarrow> string \<Rightarrow> KeyRecord sql" where
  "sqlRecoverDeletedKey e L DL name =
     qbind (query e (\<lambda>d. countName rk_Name name (kv_keys d))) (\<lambda>count.
       if count > 0 then qfail (newError 409 ''Conflict'' (''Key '' @ name @ '' already exists.''))
       else
         qbind (getDeletedKeyRow e name) (\<lambda>r.
         qbind (qlift (rd_Versions r)) (\<lambda>versions.
         qbind (qeach (\<lambda>i snap.
                  qbind (qlift (deserializeKeyMaterial L DL (kvs_Material snap))) (\<lambda>material.
                    insertKeyRow e L DL (keyOfSnapshot name snap) material (add64 (kvs_CreatedAt snap) (int i))))
                  0 versions) (\<lambda>_.
         qbind (purgeKeyRow e name) (\<lambda>_.
           if versions = [] then qfail indexOutOfRange
           else qret (keyOfSnapshot name (last versions)))))))"

section \<open>Cryptographic operations\<close>

definition sqlEncrypt ::
  "sqlenv \<Rightarrow> prims \<Rightarrow> x509lib \<Rightarrow> derlib \<Rightarrow> string \<Rightarrow> string \<Rightarrow> EncryptRequest \<Rightarrow> (string \<times> string) sql" where
  "sqlEncrypt e P L DL name version req =
     qbind (getKeyVersionRow e L DL name version) (\<lambda>(rcd, material). qlift (
     rbind (decodeField ''value'' (er_Value req)) (\<lambda>value.
     rbind (if er_IV req \<noteq> [] then decodeField ''iv'' (er_IV req) else Inr []) (\<lambda>iv.
     rbind (wrapErr 400 ''InvalidOperation''
              (cryptEncrypt P material (jwk_Kty (kr_Key rcd)) (er_Alg req) value iv)) (\<lambda>(ciphertext, outIV).
       Inr (EncodeBase64URL ciphertext, ivValue outIV))))))"

definition sqlDecrypt ::
  "sqlenv \<Rightarrow> prims \<Rightarrow> x509lib \<Rightarrow> derlib \<Rightarrow> string \<Rightarrow> string \<Rightarrow> EncryptRequest \<Rightarrow> (string \<times> string) sql" where
  "sqlDecrypt e P L DL name version req =
     qbind (getKeyVersionRow e L DL name version) (\<lambda>(rcd, material). qlift (
     rbind (decodeField ''value'' (er_Value req)) (\<lambda>value.
     rbind (if er_IV req \<noteq> [] then decodeField ''iv'' (er_IV req) else Inr []) (\<lambda>iv.
     rbind (wrapErr 400 ''InvalidOperation''
              (cryptDecrypt P material (jwk_Kty (kr_Key rcd)) (er_Alg req) value iv)) (\<lambda>(plaintext, outIV).
       Inr (EncodeBase64URL plaintext, ivValue outIV))))))"

definition sqlSign ::
  "sqlenv \<Rightarrow> prims \<Rightarrow> x509lib \<Rightarrow> derlib \<Rightarrow> string \<Rightarrow> string \<Rightarrow> SignRequest \<Rightarrow> string sql" where
  "sqlSign e P L DL name version req =
     qbind (getKeyVersionRow e L DL name version) (\<lambda>(rcd, material). qlift (
     rbind (decodeField ''value'' (sg_Value req)) (\<lambda>digest.
     rbind (wrapErr 400 ''InvalidOperation''
              (cryptSign P material (jwk_Kty (kr_Key rcd)) (sg_Alg req) digest)) (\<lambda>sig.
       Inr (EncodeBase64URL sig)))))"

definition sqlVerify ::
  "sqlenv \<Rightarrow> prims \<Rightarrow> x509lib \<Rightarrow> derlib \<Rightarrow> string \<Rightarrow> string \<Rightarrow> VerifyRequest \<Rightarrow> bool sql" where
  "sqlVerify e P L DL name version req =
     qbind (getKeyVersionRow e L DL name version) (\<lambda>(rcd, material). qlift (
     rbind (decodeField ''digest'' (vr_Digest req)) (\<lambda>digest.
     rbind (decodeField ''value'' (vr_Value req)) (\<lambda>sig.
       wrapErr 400 ''InvalidOperation''
         (cryptVerify P material (jwk_Kty (kr_Key rcd)) (vr_Alg req) digest sig)))))"

definition sqlWrapKey ::
  "sqlenv \<Rightarrow> prims \<Rightarrow> x509lib \<Rightarrow> derlib \<Rightarrow> string \<Rightarrow> string \<Rightarrow> EncryptRequest \<Rightarrow> string sql" where
  "sqlWrapKey e P L DL name version req =
     qbind (getKeyVersionRow e L DL name version) (\<lambda>(rcd, material). qlift (
     rbind (decodeField ''value'' (er_Value req)) (\<lambda>value.
     rbind (wrapErr 400 ''InvalidOperation''
              (cryptWrap P material (jwk_Kty (kr_Key rcd)) (er_Alg req) value)) (\<lambda>wrapped.
       Inr (EncodeBase64URL wrapped)))))"

definition sqlUnwrapKey ::
  "sqlenv \<Rightarrow> prims \<Rightarrow> x509lib \<Rightarrow> derlib \<Rightarrow> string \<Rightarrow> string \<Rightarrow> EncryptRequest \<Rightarrow> string sql" where
  "sqlUnwrapKey e P L DL name version req =
     qbind (getKeyVersionRow e L DL name version) (\<lambda>(rcd, material). qlift (
     rbind (decodeField ''value'' (er_Value req)) (\<lambda>value.
     rbind (wrapErr 400 ''InvalidOperation''
              (cryptUnwrap P material (jwk_Kty (kr_Key rcd)) (er_Alg req) value)) (\<lambda>unwrapped.
       Inr (EncodeBase64URL unwrapped)))))"

end
