(* ===== verification/KV_Sql_Certs.thy ===== *)
theory KV_Sql_Certs
  imports KV_Sql_Keys
begin

text \<open>
  The certificate operations of the SQL store, \<open>src/internal/store/sqlstore/sqlstore.go\<close>, in the
  order of the file. Creating and importing insert a row in each of the three tables, one after the
  other.
\<close>

section \<open>Rows\<close>

definition sqlIssuerMaterial :: "sqlenv \<Rightarrow> x509lib \<Rightarrow> string \<Rightarrow> (x509_Certificate \<times> rsa_PrivateKey) sql" where
  "sqlIssuerMaterial e L issuerName = (\<lambda>c.
     (case getSecretVersionRow e issuerName [] c of
        (Inl err, c) \<Rightarrow>
          (Inl (case err of Panic m \<Rightarrow> Panic m
                | _ \<Rightarrow> PlainErr (''issuer certificate '' @ quote issuerName @ '' not found: '' @ err_msg err)), c)
      | (Inr rcd, c) \<Rightarrow>
          (case ParseImportedCertificate L (sr_Value rcd) [] of
             Inl err \<Rightarrow> Inl (PlainErr (''failed to parse issuer certificate '' @ quote issuerName @
                          '': '' @ err_msg err))
           | Inr (cert, None, _) \<Rightarrow>
               Inl (PlainErr (''issuer certificate '' @ quote issuerName @ '' has no private key and cannot sign''))
           | Inr (cert, Some key, _) \<Rightarrow> Inr (cert, key), c)))"

definition insertCertRow :: "sqlenv \<Rightarrow> CertificateRecord \<Rightarrow> bytes \<Rightarrow> int \<Rightarrow> unit sql" where
  "insertCertRow e rcd pemData ts =
     (let cerB64 = stdEncode (crt_Cer rcd); attrsJSON = marshalAttrs (crt_Attributes rcd);
          tagsJSON = marshalTags (crt_Tags rcd); policyArg = marshalPolicyArg (crt_Policy rcd)
      in insertDB e
           (\<lambda>d. \<exists>r \<in> set (kv_certificates d). rc_Name r = crt_Name rcd \<and> rc_Version r = crt_Version rcd)
           ''kv_certificates.name, kv_certificates.version''
           (\<lambda>d. d\<lparr>kv_certificates := kv_certificates d @
              [\<lparr>rc_Name = crt_Name rcd, rc_Version = crt_Version rcd, rc_Cer = cerB64, rc_Kid = crt_Kid rcd,
                rc_Sid = crt_Sid rcd, rc_PemData = string_of_bytes pemData, rc_Attributes = attrsJSON,
                rc_Tags = tagsJSON, rc_Policy = policyArg, rc_CreatedAt = ts\<rparr>]\<rparr>))"

definition certOfRow :: "string \<Rightarrow> certRow \<Rightarrow> CertificateRecord res" where
  "certOfRow name row =
     rbind (decodeStd (rc_Cer row)) (\<lambda>cer.
     rbind (unmarshalAttrs (rc_Attributes row)) (\<lambda>attrs.
     rbind (unmarshalTags (rc_Tags row)) (\<lambda>tgs.
     rbind (unmarshalPolicyNS (rc_Policy row)) (\<lambda>policy.
       Inr \<lparr>crt_Name = name, crt_Version = rc_Version row, crt_Cer = cer, crt_Kid = rc_Kid row,
            crt_Sid = rc_Sid row, crt_Attributes = attrs, crt_Tags = tgs, crt_Policy = policy\<rparr>))))"

definition getCertVersionRow :: "sqlenv \<Rightarrow> string \<Rightarrow> string \<Rightarrow> (CertificateRecord \<times> bytes) sql" where
  "getCertVersionRow e name version =
     qbind (query e (\<lambda>d. selectVersion rc_Name rc_Version rc_CreatedAt name version (kv_certificates d))) (\<lambda>found.
       case found of
         None \<Rightarrow> qfail (certificateNotFound name)
       | Some row \<Rightarrow>
           qbind (qlift (certOfRow name row)) (\<lambda>rcd. qret (rcd, bytes_of_string (rc_PemData row))))"

section \<open>Creating and importing\<close>

definition sqlCertOptions :: "sqlenv \<Rightarrow> x509lib \<Rightarrow> CertificatePolicy \<Rightarrow> CertOptions sql" where
  "sqlCertOptions e L policy =
     (let certType = (case anyString (cp_X509Props policy) ''cert_type'' of
                        Some t \<Rightarrow> if t \<noteq> [] then t else ''CA''
                      | None \<Rightarrow> ''CA'');
          self = \<lparr>opt_CertType = certType, opt_IssuerCert = None, opt_IssuerKey = None\<rparr>
      in case anyString (cp_X509Props policy) ''issuer_name'' of
           None \<Rightarrow> qret self
         | Some issuerName \<Rightarrow>
             if issuerName = [] then qret self
             else qbind (\<lambda>c. case sqlIssuerMaterial e L issuerName c of
                                (r, c) \<Rightarrow> (wrapErr 400 ''InvalidIssuer'' r, c)) (\<lambda>(cert, key).
                    qret (self\<lparr>opt_IssuerCert := Some cert, opt_IssuerKey := Some key\<rparr>)))"

definition sqlCreateCertificate ::
  "sqlenv \<Rightarrow> prims \<Rightarrow> x509lib \<Rightarrow> derlib \<Rightarrow> string \<Rightarrow> CreateCertificateRequest \<Rightarrow> CertificateRecord sql" where
  "sqlCreateCertificate e P L DL name req =
     (if name = [] then qfail (newError 400 ''BadParameter'' ''Certificate name is required.'')
      else
        qbind (checkNotDeleted e kv_deleted_certificates name ''Certificate'') (\<lambda>_.
          (let policy = defaultCertificatePolicy name (cc_Policy req);
               now = env_now (sq_env e)
           in qbind (qlift (newVersion (sq_env e))) (\<lambda>version.
             (let attrs = buildAttributes (cc_Attributes req) now now
              in qbind (sqlCertOptions e L policy) (\<lambda>certOpts.
                 qbind (qlift (wrapErr 400 ''InvalidOperation'' (GenerateCert P L name (Some policy) certOpts)))
                   (\<lambda>(priv, der).
                 qbind (qlift (marshalPKCS1PrivateKey L priv)) (\<lambda>keyDER.
                   (let certPEM = lib_pemEncode L (pemBlock ''CERTIFICATE'' der);
                        keyPEM = lib_pemEncode L (pemBlock ''RSA PRIVATE KEY'' keyDER);
                        managedSecret = string_of_bytes (certPEM @ keyPEM);
                        rcd = \<lparr>crt_Name = name, crt_Version = version, crt_Cer = der, crt_Kid = name,
                          crt_Sid = name, crt_Attributes = attrs, crt_Tags = cloneTags (cc_Tags req),
                          crt_Policy = clonePolicy (Some policy)\<rparr>;
                        ts = sq_nano e;
                        keyRec = \<lparr>kr_Name = name, kr_Version = version,
                          kr_Key = RSAToJWK [] ''RSA'' (defaultKeyOps ''RSA'' []) (priv_PublicKey priv),
                          kr_Attributes = attrs, kr_Tags = cloneTags (cc_Tags req)\<rparr>;
                        secretRec = \<lparr>sr_Name = name, sr_Version = version, sr_Value = managedSecret,
                          sr_ContentType = ''application/x-pkcs12'', sr_Attributes = attrs,
                          sr_Tags = cloneTags (cc_Tags req)\<rparr>
                    in qbind (insertCertRow e rcd certPEM ts) (\<lambda>_.
                       qbind (insertKeyRow e L DL keyRec
                                (emptyMaterial\<lparr>km_RSA := Some priv, km_RSAPub := Some (priv_PublicKey priv)\<rparr>) ts) (\<lambda>_.
                       qbind (insertSecretRow e secretRec ts) (\<lambda>_.
                         qret (cloneCertificateRecord rcd)))))))))))))"

text \<open>The certificates of a PEM bundle without the private keys; the bundle itself if it has none.\<close>

definition extractCertPEM :: "x509lib \<Rightarrow> bytes \<Rightarrow> bytes" where
  "extractCertPEM L pemData =
     (let out = concat (map (lib_pemEncode L) (filter (\<lambda>b. pem_Type b = ''CERTIFICATE'') (pemBlocks L pemData)))
      in if out = [] then pemData else out)"

definition sqlImportCertificate ::
  "sqlenv \<Rightarrow> x509lib \<Rightarrow> derlib \<Rightarrow> string \<Rightarrow> ImportCertificateRequest \<Rightarrow> CertificateRecord sql" where
  "sqlImportCertificate e L DL name req =
     (if name = [] then qfail (newError 400 ''BadParameter'' ''Certificate name is required.'')
      else if ic_Value req = [] then qfail (newError 400 ''BadParameter'' ''Certificate value is required.'')
      else
        qbind (qlift (wrapErr 400 ''BadParameter'' (ParseImportedCertificate L (ic_Value req) (ic_Password req))))
          (\<lambda>(cert, priv, pemValue).
        qbind (checkNotDeleted e kv_deleted_certificates name ''Certificate'') (\<lambda>_.
          (let policy = defaultCertificatePolicy name (ic_Policy req);
               now = env_now (sq_env e)
           in qbind (qlift (newVersion (sq_env e))) (\<lambda>version.
             (let attrs = buildAttributes (ic_Attributes req) now now;
                  rcd = \<lparr>crt_Name = name, crt_Version = version, crt_Cer = x_Raw cert, crt_Kid = name,
                    crt_Sid = name, crt_Attributes = attrs, crt_Tags = cloneTags (ic_Tags req),
                    crt_Policy = clonePolicy (Some policy)\<rparr>;
                  ts = sq_nano e;
                  certPEM = extractCertPEM L pemValue;
                  secretRec = \<lparr>sr_Name = name, sr_Version = version, sr_Value = string_of_bytes pemValue,
                    sr_ContentType = ''application/x-pkcs12'', sr_Attributes = attrs,
                    sr_Tags = cloneTags (ic_Tags req)\<rparr>
              in qbind (insertCertRow e rcd certPEM ts) (\<lambda>_.
                 qbind (case x_PublicKey cert of
                          Some (RSAPublic rsaPub) \<Rightarrow>
                            (let material = emptyMaterial\<lparr>km_RSAPub := Some rsaPub\<rparr>;
                                 material = (case priv of
                                     None \<Rightarrow> material
                                   | Some k \<Rightarrow> material\<lparr>km_RSA := Some k, km_RSAPub := Some (priv_PublicKey k)\<rparr>);
                                 keyRec = \<lparr>kr_Name = name, kr_Version = version,
                                   kr_Key = RSAToJWK [] ''RSA'' (defaultKeyOps ''RSA'' []) rsaPub,
                                   kr_Attributes = attrs, kr_Tags = cloneTags (ic_Tags req)\<rparr>
                             in insertKeyRow e L DL keyRec material ts)
                        | _ \<Rightarrow> qret ()) (\<lambda>_.
                 qbind (insertSecretRow e secretRec ts) (\<lambda>_.
                   qret (cloneCertificateRecord rcd))))))))))"

section \<open>Reading and updating\<close>

definition sqlGetCertificate :: "sqlenv \<Rightarrow> string \<Rightarrow> string \<Rightarrow> CertificateRecord sql" where
  "sqlGetCertificate e name version = qbind (getCertVersionRow e name version) (\<lambda>(rcd, _). qret rcd)"

definition sqlListCertificates :: "sqlenv \<Rightarrow> int \<Rightarrow> string \<Rightarrow> (CertificateRecord list \<times> string option) sql" where
  "sqlListCertificates e maxResults skipToken =
     qbind (query e (\<lambda>d. distinctNames rc_Name (kv_certificates d))) (\<lambda>names.
     qbind (qlift (paginateNames names skipToken maxResults)) (\<lambda>(page, nxt).
     qbind (qmap (\<lambda>name. qbind (getCertVersionRow e name []) (\<lambda>(rcd, _). qret rcd)) page) (\<lambda>items.
       qret (items, nxt))))"

definition sqlListCertificateVersions ::
  "sqlenv \<Rightarrow> string \<Rightarrow> int \<Rightarrow> string \<Rightarrow> (CertificateRecord list \<times> string option) sql" where
  "sqlListCertificateVersions e name maxResults skipToken =
     qbind (query e (\<lambda>d. countName rc_Name name (kv_certificates d))) (\<lambda>count.
       if count = 0 then qfail (certificateNotFound name)
       else
         qbind (query e (\<lambda>d. orderDesc rc_CreatedAt (filter (\<lambda>r. rc_Name r = name) (kv_certificates d)))) (\<lambda>rows.
         qbind (qlift (mapRes (certOfRow name) rows)) (\<lambda>versions.
           qlift (paginateNames versions skipToken maxResults))))"

definition sqlUpdateCertificate ::
  "sqlenv \<Rightarrow> string \<Rightarrow> string \<Rightarrow> UpdateCertificateRequest \<Rightarrow> CertificateRecord sql" where
  "sqlUpdateCertificate e name version req =
     qbind (getCertVersionRow e name version) (\<lambda>(rcd, _).
       (let rcd = rcd\<lparr>crt_Attributes :=
              mergeAttributes (env_now (sq_env e)) (crt_Attributes rcd) (uc_Attributes req)\<rparr>;
            rcd = (if uc_Tags req \<noteq> None then rcd\<lparr>crt_Tags := cloneTags (uc_Tags req)\<rparr> else rcd);
            attrsJSON = marshalAttrs (crt_Attributes rcd); tagsJSON = marshalTags (crt_Tags rcd)
        in qbind (execDB e (\<lambda>d. d\<lparr>kv_certificates := map (\<lambda>r.
                    if rc_Name r = crt_Name rcd \<and> rc_Version r = crt_Version rcd
                    then r\<lparr>rc_Attributes := attrsJSON, rc_Tags := tagsJSON\<rparr> else r) (kv_certificates d)\<rparr>)) (\<lambda>_.
             qret rcd)))"

definition sqlGetCertificatePolicy :: "sqlenv \<Rightarrow> string \<Rightarrow> CertificatePolicy option sql" where
  "sqlGetCertificatePolicy e name =
     qbind (getCertVersionRow e name []) (\<lambda>(rcd, _). qret (clonePolicy (crt_Policy rcd)))"

definition sqlUpdateCertificatePolicy ::
  "sqlenv \<Rightarrow> string \<Rightarrow> CertificatePolicy option \<Rightarrow> CertificatePolicy option sql" where
  "sqlUpdateCertificatePolicy e name policy =
     qbind (getCertVersionRow e name []) (\<lambda>(rcd, _).
       (let newPolicy = defaultCertificatePolicy name policy;
            policyArg = marshalPolicyArg (Some newPolicy);
            rcd = rcd\<lparr>crt_Attributes := (crt_Attributes rcd)\<lparr>Updated := env_now (sq_env e)\<rparr>\<rparr>;
            attrsJSON = marshalAttrs (crt_Attributes rcd)
        in qbind (execDB e (\<lambda>d. d\<lparr>kv_certificates := map (\<lambda>r.
                    if rc_Name r = crt_Name rcd \<and> rc_Version r = crt_Version rcd
                    then r\<lparr>rc_Policy := policyArg, rc_Attributes := attrsJSON\<rparr> else r) (kv_certificates d)\<rparr>)) (\<lambda>_.
             qret (Some newPolicy))))"

definition sqlGetPendingCertificateOperation :: "sqlenv \<Rightarrow> string \<Rightarrow> CertificateOperation sql" where
  "sqlGetPendingCertificateOperation e name =
     qbind (getCertVersionRow e name []) (\<lambda>(rcd, _).
       qret \<lparr>co_ID = name, co_Status = ''completed'', co_Target = crt_Name rcd, co_StatusDetails = []\<rparr>)"

section \<open>Deleting and recovering\<close>

definition certSnapshotOfRow :: "certRow \<Rightarrow> certificateVersionSnapshot res" where
  "certSnapshotOfRow row =
     rbind (unmarshalAttrs (rc_Attributes row)) (\<lambda>attrs.
     rbind (unmarshalTags (rc_Tags row)) (\<lambda>tgs.
     rbind (unmarshalPolicyNS (rc_Policy row)) (\<lambda>policy.
       Inr \<lparr>cvs_Version = rc_Version row, cvs_Cer = rc_Cer row, cvs_Kid = rc_Kid row, cvs_Sid = rc_Sid row,
            cvs_PEMData = rc_PemData row, cvs_Attributes = attrs, cvs_Tags = tgs, cvs_Policy = policy,
            cvs_CreatedAt = rc_CreatedAt row\<rparr>)))"

definition allCertVersionSnapshots :: "sqlenv \<Rightarrow> string \<Rightarrow> certificateVersionSnapshot list sql" where
  "allCertVersionSnapshots e name =
     qbind (query e (\<lambda>d. orderAsc rc_CreatedAt (filter (\<lambda>r. rc_Name r = name) (kv_certificates d)))) (\<lambda>rows.
       qlift (mapRes certSnapshotOfRow rows))"

definition jsonCertSnapshot :: "certificateVersionSnapshot \<Rightarrow> certificateVersionSnapshot" where
  "jsonCertSnapshot v = \<lparr>cvs_Version = toValidUTF8 (cvs_Version v), cvs_Cer = toValidUTF8 (cvs_Cer v),
     cvs_Kid = toValidUTF8 (cvs_Kid v), cvs_Sid = toValidUTF8 (cvs_Sid v),
     cvs_PEMData = toValidUTF8 (cvs_PEMData v),
     cvs_Attributes = (cvs_Attributes v)\<lparr>RecoveryLevel := toValidUTF8 (RecoveryLevel (cvs_Attributes v))\<rparr>,
     cvs_Tags = textTags (cvs_Tags v), cvs_Policy = clonePolicy (cvs_Policy v), cvs_CreatedAt = cvs_CreatedAt v\<rparr>"

definition sqlDeleteCertificate :: "sqlenv \<Rightarrow> string \<Rightarrow> DeletedCertificateRecord sql" where
  "sqlDeleteCertificate e name =
     qbind (getCertVersionRow e name []) (\<lambda>(latest, _).
     qbind (query e (\<lambda>d. countName rd_Name name (kv_deleted_certificates d))) (\<lambda>count.
       if count > 0 then qfail (certificateNotFound name)
       else
         qbind (allCertVersionSnapshots e name) (\<lambda>snapshots.
         (let payload = Inr (map jsonCertSnapshot snapshots); now = env_now (sq_env e)
          in qbind (qlift (newRecoveryID (sq_env e) ''certificates'' name)) (\<lambda>recoveryID.
            (let scheduledPurgeDate = add64 now purgeDelay
             in qbind (insertDB e (\<lambda>d. \<exists>r \<in> set (kv_deleted_certificates d). rd_Name r = name)
                  ''kv_deleted_certificates.name''
                  (\<lambda>d. d\<lparr>kv_deleted_certificates := kv_deleted_certificates d @
                     [\<lparr>rd_Name = name, rd_RecoveryID = recoveryID, rd_DeletedDate = now,
                       rd_ScheduledPurgeDate = scheduledPurgeDate, rd_Versions = payload\<rparr>]\<rparr>)) (\<lambda>_.
                qbind (execDB e (\<lambda>d. d\<lparr>kv_certificates :=
                          filter (\<lambda>r. rc_Name r \<noteq> name) (kv_certificates d)\<rparr>)) (\<lambda>_.
                  qret \<lparr>dr_Record = latest, dr_RecoveryID = recoveryID, dr_DeletedDate = now,
                        dr_ScheduledPurgeDate = scheduledPurgeDate\<rparr>))))))))"

definition getDeletedCertRow :: "sqlenv \<Rightarrow> string \<Rightarrow> certificateVersionSnapshot deletedRow sql" where
  "getDeletedCertRow e name =
     qbind (query e (\<lambda>d. firstRow (filter (\<lambda>r. rd_Name r = name) (kv_deleted_certificates d)))) (\<lambda>found.
       case found of None \<Rightarrow> qfail (deletedCertificateNotFound name) | Some r \<Rightarrow> qret r)"

definition certOfSnapshot :: "string \<Rightarrow> certificateVersionSnapshot \<Rightarrow> CertificateRecord res" where
  "certOfSnapshot name snap =
     rbind (decodeStd (cvs_Cer snap)) (\<lambda>cer.
       Inr \<lparr>crt_Name = name, crt_Version = cvs_Version snap, crt_Cer = cer, crt_Kid = cvs_Kid snap,
            crt_Sid = cvs_Sid snap, crt_Attributes = cvs_Attributes snap, crt_Tags = cloneTags (cvs_Tags snap),
            crt_Policy = clonePolicy (cvs_Policy snap)\<rparr>)"

definition deletedCertFromRow :: "certificateVersionSnapshot deletedRow \<Rightarrow> DeletedCertificateRecord res" where
  "deletedCertFromRow r =
     rbind (rd_Versions r) (\<lambda>versions.
       if versions = [] then Inl (PlainErr (''deleted certificate '' @ rd_Name r @ '' has no versions''))
       else
         rbind (certOfSnapshot (rd_Name r) (last versions)) (\<lambda>rcd.
           Inr \<lparr>dr_Record = rcd, dr_RecoveryID = rd_RecoveryID r, dr_DeletedDate = rd_DeletedDate r,
                dr_ScheduledPurgeDate = rd_ScheduledPurgeDate r\<rparr>))"

definition sqlListDeletedCertificates ::
  "sqlenv \<Rightarrow> int \<Rightarrow> string \<Rightarrow> (DeletedCertificateRecord list \<times> string option) sql" where
  "sqlListDeletedCertificates e maxResults skipToken =
     qbind (query e (\<lambda>d. sort (map rd_Name (kv_deleted_certificates d)))) (\<lambda>names.
     qbind (qlift (paginateNames names skipToken maxResults)) (\<lambda>(page, nxt).
     qbind (qmap (\<lambda>name. qbind (getDeletedCertRow e name) (\<lambda>r. qlift (deletedCertFromRow r))) page) (\<lambda>items.
       qret (items, nxt))))"

definition sqlGetDeletedCertificate :: "sqlenv \<Rightarrow> string \<Rightarrow> DeletedCertificateRecord sql" where
  "sqlGetDeletedCertificate e name = qbind (getDeletedCertRow e name) (\<lambda>r. qlift (deletedCertFromRow r))"

definition purgeCertRow :: "sqlenv \<Rightarrow> string \<Rightarrow> unit sql" where
  "purgeCertRow e name =
     execDB e (\<lambda>d. d\<lparr>kv_deleted_certificates :=
       filter (\<lambda>r. rd_Name r \<noteq> name) (kv_deleted_certificates d)\<rparr>)"

definition sqlPurgeDeletedCertificate :: "sqlenv \<Rightarrow> string \<Rightarrow> unit sql" where
  "sqlPurgeDeletedCertificate e name = qbind (getDeletedCertRow e name) (\<lambda>_. purgeCertRow e name)"

definition sqlRecoverDeletedCertificate :: "sqlenv \<Rightarrow> string \<Rightarrow> CertificateRecord sql" where
  "sqlRecoverDeletedCertificate e name =
     qbind (query e (\<lambda>d. countName rc_Name name (kv_certificates d))) (\<lambda>count.
       if count > 0 then qfail (newError 409 ''Conflict'' (''Certificate '' @ name @ '' already exists.''))
       else
         qbind (getDeletedCertRow e name) (\<lambda>r.
         qbind (qlift (rd_Versions r)) (\<lambda>versions.
         qbind (qeach (\<lambda>i snap.
                  qbind (qlift (certOfSnapshot name snap)) (\<lambda>rcd.
                    insertCertRow e rcd (bytes_of_string (cvs_PEMData snap)) (add64 (cvs_CreatedAt snap) (int i))))
                  0 versions) (\<lambda>_.
         qbind (purgeCertRow e name) (\<lambda>_.
           if versions = [] then qfail indexOutOfRange
           else qlift (certOfSnapshot name (last versions)))))))"

end
