(* ===== verification/KV_Sql.thy ===== *)
theory KV_Sql
  imports KV_Sql_Certs
begin

text \<open>
  The SQL store as a \<open>Storer\<close>, \<open>src/internal/store/sqlstore/sqlstore.go\<close>: every call runs its
  statements on the tables. A reading call leaves the tables alone.
\<close>

definition sqlStorer :: "sqlenv \<Rightarrow> prims \<Rightarrow> x509lib \<Rightarrow> derlib \<Rightarrow> codec \<Rightarrow> SQLStore Storer" where
  "sqlStorer e P L DL C = \<lparr>
     so_SetSecret = (\<lambda>name req. runSql (sqlSetSecret e name req)),
     so_GetSecret = (\<lambda>d name version. readSql (sqlGetSecret e name version) d),
     so_ListSecrets = (\<lambda>d m tok. readSql (sqlListSecrets e m tok) d),
     so_ListSecretVersions = (\<lambda>d name m tok. readSql (sqlListSecretVersions e name m tok) d),
     so_UpdateSecret = (\<lambda>name version req. runSql (sqlUpdateSecret e name version req)),
     so_DeleteSecret = (\<lambda>name. runSql (sqlDeleteSecret e name)),
     so_ListDeletedSecrets = (\<lambda>d m tok. readSql (sqlListDeletedSecrets e m tok) d),
     so_GetDeletedSecret = (\<lambda>d name. readSql (sqlGetDeletedSecret e name) d),
     so_PurgeDeletedSecret = (\<lambda>name. runSql (sqlPurgeDeletedSecret e name)),
     so_RecoverDeletedSecret = (\<lambda>name. runSql (sqlRecoverDeletedSecret e name)),
     so_BackupSecret = (\<lambda>d name. readSql (sqlBackupSecret e C name) d),
     so_RestoreSecret = (\<lambda>token. runSql (sqlRestoreSecret e C token)),
     so_CreateKey = (\<lambda>name req. runSql (sqlCreateKey e P L DL name req)),
     so_ImportKey = (\<lambda>name req. runSql (sqlImportKey e L DL name req)),
     so_GetKey = (\<lambda>d name version. readSql (sqlGetKey e L DL name version) d),
     so_ListKeys = (\<lambda>d m tok. readSql (sqlListKeys e L DL m tok) d),
     so_ListKeyVersions = (\<lambda>d name m tok. readSql (sqlListKeyVersions e name m tok) d),
     so_UpdateKey = (\<lambda>name version req. runSql (sqlUpdateKey e L DL name version req)),
     so_DeleteKey = (\<lambda>name. runSql (sqlDeleteKey e L DL name)),
     so_ListDeletedKeys = (\<lambda>d m tok. readSql (sqlListDeletedKeys e m tok) d),
     so_GetDeletedKey = (\<lambda>d name. readSql (sqlGetDeletedKey e name) d),
     so_PurgeDeletedKey = (\<lambda>name. runSql (sqlPurgeDeletedKey e name)),
     so_RecoverDeletedKey = (\<lambda>name. runSql (sqlRecoverDeletedKey e L DL name)),
     so_Encrypt = (\<lambda>d name version req. readSql (sqlEncrypt e P L DL name version req) d),
     so_Decrypt = (\<lambda>d name version req. readSql (sqlDecrypt e P L DL name version req) d),
     so_Sign = (\<lambda>d name version req. readSql (sqlSign e P L DL name version req) d),
     so_Verify = (\<lambda>d name version req. readSql (sqlVerify e P L DL name version req) d),
     so_WrapKey = (\<lambda>d name version req. readSql (sqlWrapKey e P L DL name version req) d),
     so_UnwrapKey = (\<lambda>d name version req. readSql (sqlUnwrapKey e P L DL name version req) d),
     so_CreateCertificate = (\<lambda>name req. runSql (sqlCreateCertificate e P L DL name req)),
     so_ImportCertificate = (\<lambda>name req. runSql (sqlImportCertificate e L DL name req)),
     so_GetCertificate = (\<lambda>d name version. readSql (sqlGetCertificate e name version) d),
     so_ListCertificates = (\<lambda>d m tok. readSql (sqlListCertificates e m tok) d),
     so_ListCertificateVersions = (\<lambda>d name m tok. readSql (sqlListCertificateVersions e name m tok) d),
     so_UpdateCertificate = (\<lambda>name version req. runSql (sqlUpdateCertificate e name version req)),
     so_GetCertificatePolicy = (\<lambda>d name. readSql (sqlGetCertificatePolicy e name) d),
     so_UpdateCertificatePolicy = (\<lambda>name policy. runSql (sqlUpdateCertificatePolicy e name policy)),
     so_GetPendingCertificateOperation = (\<lambda>d name. readSql (sqlGetPendingCertificateOperation e name) d),
     so_DeleteCertificate = (\<lambda>name. runSql (sqlDeleteCertificate e name)),
     so_ListDeletedCertificates = (\<lambda>d m tok. readSql (sqlListDeletedCertificates e m tok) d),
     so_GetDeletedCertificate = (\<lambda>d name. readSql (sqlGetDeletedCertificate e name) d),
     so_PurgeDeletedCertificate = (\<lambda>name. runSql (sqlPurgeDeletedCertificate e name)),
     so_RecoverDeletedCertificate = (\<lambda>name. runSql (sqlRecoverDeletedCertificate e name))\<rparr>"

end
