(* ===== verification/KV_Sql_Rules.thy ===== *)
theory KV_Sql_Rules
  imports KV_Sql "HOL-Library.Multiset"
begin

text \<open>
  Reasoning about the programs of the SQL store: a run in which no statement fails does not depend on
  the number of statements already done, so that it can be computed statement by statement; and the
  lemmas on rows in the order of their creation.
\<close>

section \<open>Runs without failing statements\<close>

definition calmSql :: "sqlenv \<Rightarrow> bool" where
  "calmSql e \<longleftrightarrow> (\<forall>i. sq_fault e i = None)"

definition indep :: "'a sql \<Rightarrow> bool" where
  "indep m \<longleftrightarrow> (\<forall>i d. \<exists>j. m (i, d) = (fst (runSql m d), j, snd (runSql m d)))"

named_theorems sql_run \<open>running a program without failing statements\<close>

lemma indepD: "indep m \<Longrightarrow> \<exists>j. m (i, d) = (fst (runSql m d), j, snd (runSql m d))"
  by (simp add: indep_def)

lemma indepI: "(\<And>i d. \<exists>j. m (i, d) = (r d, j, d' d)) \<Longrightarrow> indep m \<and> (\<forall>d. runSql m d = (r d, d' d))"
  unfolding indep_def runSql_def by (auto split: prod.split) (metis prod.inject)+

lemma qlift_run [sql_run]: "indep (qlift r)" "runSql (qlift r) d = (r, d)"
  using indepI [of "qlift r" "\<lambda>_. r" "\<lambda>d. d"] by (auto simp: qlift_def)

lemma stmt_run [sql_run]:
  assumes "calmSql e"
  shows "indep (stmt e f)" "runSql (stmt e f) d = f d"
  using indepI [of "stmt e f" "\<lambda>d. fst (f d)" "\<lambda>d. snd (f d)"] assms
  by (auto simp: stmt_def calmSql_def split: prod.split)

lemma query_run [sql_run]:
  assumes "calmSql e"
  shows "indep (query e f)" "runSql (query e f) d = (Inr (f d), d)"
  using assms by (simp_all add: query_def stmt_run)

lemma execDB_run [sql_run]:
  assumes "calmSql e"
  shows "indep (execDB e f)" "runSql (execDB e f) d = (Inr (), f d)"
  using assms by (simp_all add: execDB_def stmt_run)

lemma insertDB_run [sql_run]:
  assumes "calmSql e"
  shows "indep (insertDB e taken cols f)"
    "runSql (insertDB e taken cols f) d =
       (if taken d then (Inl (PlainErr (''constraint failed: UNIQUE constraint failed: '' @ cols)), d) else (Inr (), f d))"
  using assms by (simp_all add: insertDB_def stmt_run)

lemma qbind_run [sql_run]:
  assumes "indep m" "\<And>x. indep (k x)"
  shows "indep (qbind m k)"
    "runSql (qbind m k) d = (case runSql m d of (Inl err, d) \<Rightarrow> (Inl err, d) | (Inr x, d) \<Rightarrow> runSql (k x) d)"
proof -
  let ?r = "\<lambda>d. case runSql m d of (Inl err, d) \<Rightarrow> (Inl err, d) | (Inr x, d) \<Rightarrow> runSql (k x) d"
  have "\<exists>j. qbind m k (i, d) = (fst (?r d), j, snd (?r d))" for i d
  proof -
    obtain j where j: "m (i, d) = (fst (runSql m d), j, snd (runSql m d))"
      using indepD [OF assms(1)] by blast
    obtain r d1 where r: "runSql m d = (r, d1)"
      by fastforce
    show ?thesis
    proof (cases r)
      case (Inr x)
      then show ?thesis
        using j r indepD [OF assms(2), of x j d1] by (auto simp: qbind_def)
    qed (use j r in \<open>simp add: qbind_def\<close>)
  qed
  from indepI [of "qbind m k", OF this]
  show "indep (qbind m k)" "runSql (qbind m k) d = ?r d"
    by auto
qed

lemma indep_if [sql_run]: "indep a \<Longrightarrow> indep b \<Longrightarrow> indep (if c then a else b)"
  by simp

lemma indep_option [sql_run]: "indep a \<Longrightarrow> (\<And>x. indep (b x)) \<Longrightarrow> indep (case v of None \<Rightarrow> a | Some x \<Rightarrow> b x)"
  by (simp split: option.split)

lemma indep_prod [sql_run]: "(\<And>x y. indep (f x y)) \<Longrightarrow> indep (case p of (x, y) \<Rightarrow> f x y)"
  by (simp split: prod.split)

lemma indep_Let [sql_run]: "(\<And>x. indep (f x)) \<Longrightarrow> indep (let x = v in f x)"
  by simp

lemma runSql_if [sql_run]: "runSql (if c then a else b) d = (if c then runSql a d else runSql b d)"
  by simp

lemma indep_qmap [sql_run]: "(\<And>x. indep (f x)) \<Longrightarrow> indep (qmap f xs)"
  by (induction xs) (simp_all add: sql_run)

lemma indep_qeach [sql_run]: "(\<And>i x. indep (f i x)) \<Longrightarrow> indep (qeach f i xs)"
  by (induction xs arbitrary: i) (simp_all add: sql_run)

lemma qignore_run [sql_run]:
  assumes "indep m"
  shows "indep (qignore m)" "runSql (qignore m) d = (Inr (), snd (runSql m d))"
proof -
  have "\<exists>j. qignore m (i, d) = (Inr (), j, snd (runSql m d))" for i d
    using indepD [OF assms, of i d] by (auto simp: qignore_def)
  from indepI [of "qignore m", OF this]
  show "indep (qignore m)" "runSql (qignore m) d = (Inr (), snd (runSql m d))"
    by auto
qed

lemma readSql_eq: "readSql m d = fst (runSql m d)"
  by (simp add: readSql_def)

text \<open>A loop of reading calls is the loop over their results.\<close>

lemma qmap_reads:
  assumes "\<And>x. indep (f x)" "\<And>x. x \<in> set xs \<Longrightarrow> runSql (f x) d = (g x, d)"
  shows "runSql (qmap f xs) d = (mapRes g xs, d)"
  using assms(2)
proof (induction xs)
  case (Cons x xs)
  then have "runSql (qmap f xs) d = (mapRes g xs, d)"
    by simp
  then show ?case
    using Cons.prems [of x] assms(1)
    by (cases "g x"; cases "mapRes g xs") (simp_all add: sql_run rbind_def)
qed (simp add: sql_run)

section \<open>Sequences of calls\<close>

text \<open>The answers to a sequence of calls, and a condition that each call meets where it runs.\<close>

primrec runCalls :: "('c \<Rightarrow> 's \<Rightarrow> 'a \<times> 's) \<Rightarrow> 'c list \<Rightarrow> 's \<Rightarrow> 'a list \<times> 's" where
  "runCalls f [] s = ([], s)"
| "runCalls f (c # cs) s = (let (a, s) = f c s; (as, s) = runCalls f cs s in (a # as, s))"

primrec allCalls :: "('c \<Rightarrow> 's \<Rightarrow> bool) \<Rightarrow> ('c \<Rightarrow> 's \<Rightarrow> 'a \<times> 's) \<Rightarrow> 'c list \<Rightarrow> 's \<Rightarrow> bool" where
  "allCalls ok f [] s = True"
| "allCalls ok f (c # cs) s = (ok c s \<and> allCalls ok f cs (snd (f c s)))"

lemma runCalls_simulate:
  assumes step: "\<And>c s t. c \<in> set cs \<Longrightarrow> R s t \<Longrightarrow> ok c s \<Longrightarrow> fst (f c s) = fst (g c t) \<and> R (snd (f c s)) (snd (g c t))"
    and "R s t" "allCalls ok f cs s"
  shows "fst (runCalls f cs s) = fst (runCalls g cs t) \<and> R (snd (runCalls f cs s)) (snd (runCalls g cs t))"
  using assms
proof (induction cs arbitrary: s t)
  case (Cons c cs)
  then have "fst (f c s) = fst (g c t)" "R (snd (f c s)) (snd (g c t))"
    by simp_all
  then show ?case
    using Cons.IH [of "snd (f c s)" "snd (g c t)"] Cons.prems by (simp add: split_beta Let_def)
qed simp

section \<open>Rows in the order of their creation\<close>

definition rowsOf :: "('r \<Rightarrow> string) \<Rightarrow> ('r \<Rightarrow> int) \<Rightarrow> string \<Rightarrow> 'r list \<Rightarrow> 'r list" where
  "rowsOf nameOf created n rows = orderAsc created (filter (\<lambda>r. nameOf r = n) rows)"

text \<open>The primary key, and no two rows of a name made at the same time.\<close>

definition rows_ok :: "('r \<Rightarrow> string) \<Rightarrow> ('r \<Rightarrow> string) \<Rightarrow> ('r \<Rightarrow> int) \<Rightarrow> 'r list \<Rightarrow> bool" where
  "rows_ok nameOf versionOf created rows \<longleftrightarrow>
     distinct (map (\<lambda>r. (nameOf r, versionOf r)) rows) \<and> distinct (map (\<lambda>r. (nameOf r, created r)) rows)"

lemma set_rowsOf [simp]: "set (rowsOf nameOf created n rows) = {r \<in> set rows. nameOf r = n}"
  by (auto simp: rowsOf_def orderAsc_def)

lemma rowsOf_Nil_iff: "rowsOf nameOf created n rows = [] \<longleftrightarrow> (\<forall>r \<in> set rows. nameOf r \<noteq> n)"
  by (metis (mono_tags, lifting) Collect_empty_eq empty_set set_empty set_rowsOf)

lemma rowsOf_empty [simp]: "rowsOf nameOf created n [] = []"
  by (simp add: rowsOf_def orderAsc_def)

lemma sort_key_desc:
  fixes f :: "'a \<Rightarrow> int"
  assumes "distinct (map f xs)"
  shows "sort_key (\<lambda>x. - f x) xs = rev (sort_key f xs)"
proof (rule sort_key_inj_key_eq)
  show "mset xs = mset (rev (sort_key f xs))"
    by simp
  show "inj_on (\<lambda>x. - f x) (set xs)"
    using assms by (auto simp: inj_on_def distinct_map)
  have "sorted_wrt (\<lambda>x y. f x \<le> f y) (sort_key f xs)"
    using sorted_sort_key [of f xs] by (simp add: sorted_map)
  then have "sorted_wrt (\<lambda>x y. f y \<le> f x) (rev (sort_key f xs))"
    by (simp add: sorted_wrt_rev)
  then show "sorted (map (\<lambda>x. - f x) (rev (sort_key f xs)))"
    by (simp add: sorted_map)
qed

lemma rows_ok_distinct:
  assumes "rows_ok nameOf versionOf created rows"
  shows "distinct (map created (filter (\<lambda>r. nameOf r = n) rows))"
    "distinct (map versionOf (filter (\<lambda>r. nameOf r = n) rows))" "distinct rows"
proof -
  have d: "distinct rows" "inj_on (\<lambda>r. (nameOf r, versionOf r)) (set rows)"
    "inj_on (\<lambda>r. (nameOf r, created r)) (set rows)"
    using assms by (auto simp: rows_ok_def distinct_map)
  then show "distinct rows"
    by simp
  show "distinct (map created (filter (\<lambda>r. nameOf r = n) rows))"
    "distinct (map versionOf (filter (\<lambda>r. nameOf r = n) rows))"
    using d by (auto simp: distinct_map inj_on_def)
qed

lemma orderDesc_rows:
  assumes "rows_ok nameOf versionOf created rows"
  shows "orderDesc created (filter (\<lambda>r. nameOf r = n) rows) = rev (rowsOf nameOf created n rows)"
  unfolding orderDesc_def rowsOf_def orderAsc_def
  by (rule sort_key_desc) (rule rows_ok_distinct(1) [OF assms])

lemma firstRow_rev: "firstRow (rev xs) = (if xs = [] then None else Some (last xs))"
  by (cases xs rule: rev_cases) (simp_all add: firstRow_def)

lemma select_latest:
  assumes "rows_ok nameOf versionOf created rows"
  shows "selectVersion nameOf versionOf created n [] rows =
    (let rs = rowsOf nameOf created n rows in if rs = [] then None else Some (last rs))"
  by (simp add: selectVersion_def orderDesc_rows [OF assms] firstRow_rev)

lemma firstVersion_unique:
  assumes "distinct (map ver xs)" "r \<in> set xs" "ver r = v"
  shows "\<exists>i. firstVersion ver v xs = Some i \<and> i < length xs \<and> xs ! i = r"
  using assms
proof (induction xs)
  case (Cons x xs)
  show ?case
  proof (cases "ver x = v")
    case True
    then have "r = x"
      using Cons.prems by (auto simp: image_iff)
    with True show ?thesis
      by simp
  next
    case False
    then show ?thesis
      using Cons by auto
  qed
qed simp

lemma filter_unique:
  assumes "distinct (map f xs)" "r \<in> set xs"
  shows "filter (\<lambda>x. f x = f r) xs = [r]"
  using assms
proof (induction xs)
  case (Cons x xs)
  show ?case
  proof (cases "r = x")
    case True
    then have "\<forall>y \<in> set xs. f y \<noteq> f r"
      using Cons.prems(1) by (auto simp: image_iff)
    with True show ?thesis
      by (simp add: filter_empty_conv)
  next
    case False
    then have "f x \<noteq> f r"
      using Cons.prems by (auto simp: image_iff)
    with False show ?thesis
      using Cons by simp
  qed
qed simp

text \<open>The version that the query selects is the one that \<open>findVersion\<close> finds in the entry.\<close>

lemma select_findVersion:
  assumes "rows_ok nameOf versionOf created rows"
  shows "selectVersion nameOf versionOf created n v rows =
    map_option (\<lambda>i. rowsOf nameOf created n rows ! i) (findVersion versionOf (rowsOf nameOf created n rows) v)"
proof (cases "v = []")
  case True
  then show ?thesis
    using select_latest [OF assms, of n] by (simp add: findVersion_def Let_def last_conv_nth)
next
  case False
  let ?rs = "rowsOf nameOf created n rows"
  have dist: "distinct (map versionOf ?rs)"
    using rows_ok_distinct(2) [OF assms, of n] by (simp add: rowsOf_def orderAsc_def distinct_map)
  show ?thesis
  proof (cases "\<exists>r \<in> set ?rs. versionOf r = v")
    case True
    then obtain r where r: "r \<in> set ?rs" "versionOf r = v"
      by blast
    then obtain i where i: "firstVersion versionOf v ?rs = Some i" "?rs ! i = r"
      using firstVersion_unique [OF dist] by blast
    have "distinct (map (\<lambda>r. (nameOf r, versionOf r)) rows)" "r \<in> set rows" "nameOf r = n"
      using assms r by (auto simp: rows_ok_def)
    then have "filter (\<lambda>x. nameOf x = n \<and> versionOf x = v) rows = [r]"
      using filter_unique [of "\<lambda>r. (nameOf r, versionOf r)" rows r] r(2) by simp
    then show ?thesis
      using False i by (simp add: selectVersion_def findVersion_def firstRow_def)
  next
    case none: False
    then have "filter (\<lambda>x. nameOf x = n \<and> versionOf x = v) rows = []"
      by (auto simp: filter_empty_conv)
    moreover have "firstVersion versionOf v ?rs = None"
      using none by (auto simp: firstVersion_None)
    ultimately show ?thesis
      using False by (simp add: selectVersion_def findVersion_def firstRow_def)
  qed
qed

lemma findVersion_map: "findVersion ver (map f xs) v = findVersion (\<lambda>x. ver (f x)) xs v"
proof -
  have "firstVersion ver v (map f xs) = firstVersion (\<lambda>x. ver (f x)) v xs"
    by (induction xs) simp_all
  then show ?thesis
    by (simp add: findVersion_def)
qed

lemma findVersion_bound: "findVersion ver xs v = Some i \<Longrightarrow> i < length xs"
proof -
  have "firstVersion ver v xs = Some i \<Longrightarrow> i < length xs" for i
    by (induction xs arbitrary: i) (auto split: if_split_asm)
  then show "findVersion ver xs v = Some i \<Longrightarrow> i < length xs"
    by (cases xs) (auto simp: findVersion_def split: if_split_asm)
qed

text \<open>A row that is younger than all others of its name comes last.\<close>

lemma sort_key_snoc_max:
  assumes "\<forall>x \<in> set xs. f x \<le> f y"
  shows "sort_key f (xs @ [y]) = sort_key f xs @ [y]"
  using assms
proof (intro properties_for_sort_key)
  show "filter (\<lambda>x. f k = f x) (sort_key f xs @ [y]) = filter (\<lambda>x. f k = f x) (xs @ [y])" for k
    using sort_key_stable [of f "f k" xs] by (simp add: eq_commute)
qed (use assms in \<open>simp_all add: sorted_append\<close>)

lemma rowsOf_newest:
  assumes "nameOf y = n" "\<forall>r \<in> set rows. nameOf r = n \<longrightarrow> created r \<le> created y"
  shows "rowsOf nameOf created n (rows @ [y]) = rowsOf nameOf created n rows @ [y]"
  using assms by (simp add: rowsOf_def orderAsc_def sort_key_snoc_max)

lemma rowsOf_other: "nameOf y \<noteq> n \<Longrightarrow> rowsOf nameOf created n (rows @ [y]) = rowsOf nameOf created n rows"
  by (simp add: rowsOf_def orderAsc_def)

lemma rowsOf_filter: "rowsOf nameOf created n (filter (\<lambda>r. nameOf r \<noteq> m) rows) =
    (if n = m then [] else rowsOf nameOf created n rows)"
  by (auto simp: rowsOf_def orderAsc_def intro!: arg_cong [where f = "sort_key created"] filter_cong)

lemma sort_key_map: "(\<And>x. g (f x) = h x) \<Longrightarrow> sort_key g (map f xs) = map f (sort_key h xs)"
proof -
  assume g: "\<And>x. g (f x) = h x"
  have "insort_key g (f x) (map f ys) = map f (insort_key h x ys)" for x ys
    by (induction ys) (simp_all add: g)
  then show ?thesis
    by (induction xs) simp_all
qed

lemma rowsOf_map:
  assumes "\<And>r. nameOf (f r) = nameOf r" "\<And>r. created (f r) = created r"
  shows "rowsOf nameOf created n (map f rows) = map f (rowsOf nameOf created n rows)"
  using sort_key_map [of created f created "filter (\<lambda>r. nameOf r = n) rows"] assms
  by (simp add: rowsOf_def orderAsc_def filter_map comp_def)

lemma rows_ok_snoc:
  assumes "rows_ok nameOf versionOf created rows"
    "\<forall>r \<in> set rows. nameOf r = nameOf y \<longrightarrow> versionOf r \<noteq> versionOf y \<and> created r \<noteq> created y"
  shows "rows_ok nameOf versionOf created (rows @ [y])"
  using assms by (auto simp: rows_ok_def)

lemma rows_ok_filter:
  "rows_ok nameOf versionOf created rows \<Longrightarrow> rows_ok nameOf versionOf created (filter P rows)"
  by (simp add: rows_ok_def distinct_map_filter)

lemma rows_ok_map:
  assumes "rows_ok nameOf versionOf created rows" "\<And>r. nameOf (f r) = nameOf r"
    "\<And>r. versionOf (f r) = versionOf r" "\<And>r. created (f r) = created r"
  shows "rows_ok nameOf versionOf created (map f rows)"
  using assms by (simp add: rows_ok_def comp_def)

lemma rows_ok_Nil [simp]: "rows_ok nameOf versionOf created []"
  by (simp add: rows_ok_def)

lemma distinctNames_eq: "set ns = nameOf ` set rows \<Longrightarrow> distinct ns \<Longrightarrow> distinctNames nameOf rows = sort ns"
  unfolding distinctNames_def by (rule sorted_distinct_set_unique) simp_all

lemma countName_zero: "countName nameOf n rows = 0 \<longleftrightarrow> (\<forall>r \<in> set rows. nameOf r \<noteq> n)"
  by (simp add: countName_def filter_empty_conv)

lemma firstRow_in: "firstRow xs = Some r \<Longrightarrow> r \<in> set xs"
  by (cases xs) (auto simp: firstRow_def)

lemma firstRow_None [simp]: "firstRow xs = None \<longleftrightarrow> xs = []"
  by (cases xs) (auto simp: firstRow_def)

lemma firstRow_Nil [simp]: "firstRow [] = None"
  by simp

end
