(* ===== verification/KV_Sql_Tables.thy ===== *)
theory KV_Sql_Tables
  imports KV_Sql_Rules KV_Store_Props
begin

text \<open>
  Tables of versions against maps of entries. \<open>tableRel\<close> says that a table of rows holds what a map
  from names to entries holds: the rows of a name, in the order of their creation, are the versions
  of its entry. \<open>goneRel\<close> says the same of a table of deleted objects. The locales state what a kind
  of object has to provide (how a row, a snapshot and a version show the same record), and prove once
  that insertions, updates, deletions and recoveries keep the relations.
\<close>

section \<open>The relations\<close>

definition tableRel ::
  "('r \<Rightarrow> string) \<Rightarrow> ('r \<Rightarrow> string) \<Rightarrow> ('r \<Rightarrow> int) \<Rightarrow> ('r \<Rightarrow> bool) \<Rightarrow> ('r \<Rightarrow> 'a) \<Rightarrow> ('v \<Rightarrow> 'a) \<Rightarrow>
   'r list \<Rightarrow> (string, 'v list) gomap \<Rightarrow> bool" where
  "tableRel nameOf versionOf created ok rowView memView rows m \<longleftrightarrow>
     rows_ok nameOf versionOf created rows \<and> list_all ok rows \<and> map_ok m \<and>
     (\<forall>n. map_option (map memView) (map_of m n) =
        (let rs = rowsOf nameOf created n rows in if rs = [] then None else Some (map rowView rs)))"

text \<open>The columns of a deleted object besides its versions, and the entry of the in-memory store.\<close>

definition goneRow_ok :: "('s \<Rightarrow> string) \<Rightarrow> ('s \<Rightarrow> int) \<Rightarrow> ('s \<Rightarrow> bool) \<Rightarrow> 's deletedRow \<Rightarrow> bool" where
  "goneRow_ok sver stime sok r \<longleftrightarrow> (\<exists>vs. rd_Versions r = Inr vs \<and> vs \<noteq> [] \<and> distinct (map sver vs) \<and>
     sorted_wrt (<) (map stime vs) \<and> list_all sok vs)"

definition rowGone :: "(string \<Rightarrow> 's \<Rightarrow> 'a) \<Rightarrow> 's deletedRow \<Rightarrow> 'a list deletedEntry" where
  "rowGone snapView r = \<lparr>de_entry = map (snapView (rd_Name r)) (projr (rd_Versions r)),
     de_recoveryID = rd_RecoveryID r, de_deletedDate = rd_DeletedDate r,
     de_scheduledPurgeDate = rd_ScheduledPurgeDate r\<rparr>"

definition memGone :: "('v \<Rightarrow> 'a) \<Rightarrow> 'v list deletedEntry \<Rightarrow> 'a list deletedEntry" where
  "memGone memView x = \<lparr>de_entry = map memView (de_entry x), de_recoveryID = de_recoveryID x,
     de_deletedDate = de_deletedDate x, de_scheduledPurgeDate = de_scheduledPurgeDate x\<rparr>"

definition goneRowOf :: "string \<Rightarrow> 's deletedRow list \<Rightarrow> 's deletedRow option" where
  "goneRowOf n rows = firstRow (filter (\<lambda>r. rd_Name r = n) rows)"

definition goneRel ::
  "('s \<Rightarrow> string) \<Rightarrow> ('s \<Rightarrow> int) \<Rightarrow> ('s \<Rightarrow> bool) \<Rightarrow> (string \<Rightarrow> 's \<Rightarrow> 'a) \<Rightarrow> ('v \<Rightarrow> 'a) \<Rightarrow>
   's deletedRow list \<Rightarrow> (string, 'v list deletedEntry) gomap \<Rightarrow> bool" where
  "goneRel sver stime sok snapView memView rows m \<longleftrightarrow>
     distinct (map rd_Name rows) \<and> list_all (goneRow_ok sver stime sok) rows \<and> map_ok m \<and>
     (\<forall>n. map_option (memGone memView) (map_of m n) = map_option (rowGone snapView) (goneRowOf n rows))"

section \<open>Rows and lists\<close>

lemma mkeys_map_of: "map_ok m \<Longrightarrow> n \<in> set (mkeys m) \<longleftrightarrow> map_of m n \<noteq> None"
  by (auto simp: mkeys_def map_of_eq_None_iff)

lemma map_filter_Some: "(\<And>x. x \<in> set xs \<Longrightarrow> f x = Some (g x)) \<Longrightarrow> List.map_filter f xs = map g xs"
  by (induction xs) (simp_all add: List.map_filter_simps)

lemma mapRes_cong: "(\<And>x. x \<in> set xs \<Longrightarrow> f x = g x) \<Longrightarrow> mapRes f xs = mapRes g xs"
  by (induction xs) simp_all

lemma firstRow_append: "firstRow (xs @ ys) = (if xs = [] then firstRow ys else firstRow xs)"
  by (cases xs) (simp_all add: firstRow_def)

lemma firstRow_single [simp]: "firstRow [x] = Some x"
  by (simp add: firstRow_def)

lemma nth_of_distinct: "distinct (map f xs) \<Longrightarrow> i < length xs \<Longrightarrow>
    map (\<lambda>x. if f x = f (xs ! i) then g x else x) xs = xs[i := g (xs ! i)]"
  by (rule nth_equalityI) (auto simp: nth_list_update distinct_conv_nth)

lemma goneRowOf_Some: "goneRowOf n rows = Some r \<Longrightarrow> r \<in> set rows \<and> rd_Name r = n"
  by (auto simp: goneRowOf_def dest: firstRow_in)

lemma goneRowOf_None: "goneRowOf n rows = None \<longleftrightarrow> (\<forall>r \<in> set rows. rd_Name r \<noteq> n)"
  by (simp add: goneRowOf_def filter_empty_conv)

lemma goneRowOf_append: "goneRowOf n (rows @ [r]) =
    (case goneRowOf n rows of None \<Rightarrow> if rd_Name r = n then Some r else None | Some x \<Rightarrow> Some x)"
  by (auto simp: goneRowOf_def firstRow_append split: option.split)

lemma goneRowOf_filter: "goneRowOf m (filter (\<lambda>r. rd_Name r \<noteq> n) rows) = (if m = n then None else goneRowOf m rows)"
  by (auto simp: goneRowOf_def filter_empty_conv intro!: arg_cong [where f = firstRow] filter_cong)

lemma goneRowOf_count:
  "0 < countName rd_Name n rows \<longleftrightarrow> goneRowOf n rows \<noteq> None"
  "(\<exists>r \<in> set rows. rd_Name r = n) \<longleftrightarrow> goneRowOf n rows \<noteq> None"
  using countName_zero [of rd_Name n rows] by (auto simp: goneRowOf_None)

section \<open>Running loops over rows\<close>

text \<open>A listing: the names, a page of them, and one reading call for each.\<close>

lemma listing_run:
  assumes e: "calmSql e" and item: "\<And>n. indep (item n)" "\<And>n. n \<in> set (q d) \<Longrightarrow> runSql (item n) d = (Inr (g n), d)"
  shows "runSql (qbind (query e q) (\<lambda>names. qbind (qlift (paginateNames names tok m)) (\<lambda>(page, nxt).
      qbind (qmap item page) (\<lambda>items. qret (items, nxt))))) d =
    (rbind (paginateNames (q d) tok m) (\<lambda>(page, nxt). Inr (map g page, nxt)), d)"
proof (cases "paginateNames (q d) tok m")
  case (Inl err)
  then show ?thesis
    using e item(1) by (simp add: sql_run)
next
  case (Inr p)
  then obtain page nxt where p: "paginateNames (q d) tok m = Inr (page, nxt)"
    by (cases p) simp
  have "runSql (qmap item page) d = (mapRes (\<lambda>n. Inr (g n)) page, d)"
    using item paginateNames_subset [OF p] by (intro qmap_reads) auto
  moreover have "mapRes (\<lambda>n. Inr (g n)) page = Inr (map g page)"
    by (rule mapRes_Inr) simp
  ultimately show ?thesis
    using e item(1) p by (simp add: sql_run)
qed

lemma page_cong:
  assumes "\<And>page nxt. set page \<subseteq> set names \<Longrightarrow> f page nxt = g page nxt"
  shows "rbind (paginateNames names tok m) (\<lambda>(page, nxt). f page nxt) =
    rbind (paginateNames names tok m) (\<lambda>(page, nxt). g page nxt)"
proof (cases "paginateNames names tok m")
  case (Inr p)
  then show ?thesis
    using assms paginateNames_subset [of names tok m "fst p" "snd p"] by (cases p) simp
qed simp

text \<open>The listing of the latest versions, and that of deleted objects, as the in-memory store writes them.\<close>

lemma live_listing_run:
  assumes e: "calmSql e" and m: "q d = sort (mkeys m)" "map_ok m"
    and item: "\<And>n. indep (item n)"
      "\<And>n entry. map_of m n = Some entry \<Longrightarrow> entry \<noteq> [] \<and> runSql (item n) d = (Inr (f (last entry)), d)"
  shows "runSql (qbind (query e q) (\<lambda>names. qbind (qlift (paginateNames names tok k)) (\<lambda>(page, nxt).
      qbind (qmap item page) (\<lambda>items. qret (items, nxt))))) d =
    (rbind (paginateNames (sort (mkeys m)) tok k) (\<lambda>(page, nxt).
       Inr (List.map_filter (\<lambda>n. map_option f (latestVersion (map_of m n))) page, nxt)), d)"
proof -
  let ?latest = "\<lambda>n. map_option f (latestVersion (map_of m n))"
  have found: "?latest n = Some (the (?latest n)) \<and> runSql (item n) d = (Inr (the (?latest n)), d)"
    if n: "n \<in> set (mkeys m)" for n
  proof -
    obtain entry where "map_of m n = Some entry"
      using n mkeys_map_of [OF m(2), of n] by auto
    then show ?thesis
      using item(2) [of n entry] by simp
  qed
  have "runSql (qbind (query e q) (\<lambda>names. qbind (qlift (paginateNames names tok k)) (\<lambda>(page, nxt).
      qbind (qmap item page) (\<lambda>items. qret (items, nxt))))) d =
    (rbind (paginateNames (sort (mkeys m)) tok k) (\<lambda>(page, nxt). Inr (map (\<lambda>n. the (?latest n)) page, nxt)), d)"
    unfolding m(1) [symmetric] by (rule listing_run [OF e item(1)]) (use found m(1) in simp)
  also have "rbind (paginateNames (sort (mkeys m)) tok k) (\<lambda>(page, nxt). Inr (map (\<lambda>n. the (?latest n)) page, nxt)) =
    rbind (paginateNames (sort (mkeys m)) tok k) (\<lambda>(page, nxt). Inr (List.map_filter ?latest page, nxt))"
    using found by (intro page_cong arg_cong [where f = "\<lambda>x. Inr (x, _)"]) (force intro!: map_filter_Some [symmetric])
  finally show ?thesis .
qed

lemma gone_listing_run:
  assumes e: "calmSql e" and m: "q d = sort (mkeys m)" "map_ok m"
    and item: "\<And>n. indep (item n)"
      "\<And>n x. map_of m n = Some x \<Longrightarrow> \<exists>r. runSql (item n) d = (Inr r, d) \<and> g x = Inr r"
  shows "runSql (qbind (query e q) (\<lambda>names. qbind (qlift (paginateNames names tok k)) (\<lambda>(page, nxt).
      qbind (qmap item page) (\<lambda>items. qret (items, nxt))))) d =
    (rbind (paginateNames (sort (mkeys m)) tok k) (\<lambda>(page, nxt).
       rbind (mapRes (\<lambda>n. rbind (ofOption nilDereference (map_of m n)) g) page) (\<lambda>items. Inr (items, nxt))), d)"
proof -
  let ?mem = "\<lambda>n. rbind (ofOption nilDereference (map_of m n)) g"
  have found: "?mem n = Inr (projr (?mem n)) \<and> runSql (item n) d = (Inr (projr (?mem n)), d)"
    if n: "n \<in> set (mkeys m)" for n
  proof -
    obtain x where "map_of m n = Some x"
      using n mkeys_map_of [OF m(2), of n] by auto
    then show ?thesis
      using item(2) [of n x] by (auto simp: ofOption_def rbind_def)
  qed
  have "runSql (qbind (query e q) (\<lambda>names. qbind (qlift (paginateNames names tok k)) (\<lambda>(page, nxt).
      qbind (qmap item page) (\<lambda>items. qret (items, nxt))))) d =
    (rbind (paginateNames (sort (mkeys m)) tok k) (\<lambda>(page, nxt). Inr (map (\<lambda>n. projr (?mem n)) page, nxt)), d)"
    unfolding m(1) [symmetric] by (rule listing_run [OF e item(1)]) (use found m(1) in simp)
  moreover have "mapRes ?mem page = Inr (map (\<lambda>n. projr (?mem n)) page)" if "set page \<subseteq> set (sort (mkeys m))" for page
    using that found by (intro mapRes_Inr) auto
  then have "rbind (paginateNames (sort (mkeys m)) tok k) (\<lambda>(page, nxt). Inr (map (\<lambda>n. projr (?mem n)) page, nxt)) =
    rbind (paginateNames (sort (mkeys m)) tok k) (\<lambda>(page, nxt). rbind (mapRes ?mem page) (\<lambda>items. Inr (items, nxt)))"
    by (intro page_cong) simp
  ultimately show ?thesis
    by simp
qed

text \<open>A loop of insertions into one table, which \<open>get\<close> reads and \<open>put\<close> writes.\<close>

lemma inserts_run:
  assumes "\<And>i x. indep (f i x)"
    and "\<And>i x d. x \<in> set xs \<Longrightarrow> kx x \<notin> key ` set (get d) \<Longrightarrow> runSql (f i x) d = (Inr (), put (get d @ [row i x]) d)"
    and table: "\<And>d r. get (put r d) = r" "\<And>d r r'. put r' (put r d) = put r' d" "\<And>d. put (get d) d = d"
    and "\<And>i x. x \<in> set xs \<Longrightarrow> key (row i x) = kx x"
    and "distinct (map kx xs)" "\<And>x. x \<in> set xs \<Longrightarrow> kx x \<notin> key ` set (get d)"
  shows "runSql (qeach f k xs) d = (Inr (), put (get d @ map (\<lambda>(i, x). row i x) (enumerate k xs)) d)"
  using assms(2,6,7,8)
proof (induction xs arbitrary: k d)
  case (Cons x xs)
  let ?d = "put (get d @ [row k x]) d"
  have "runSql (f k x) d = (Inr (), ?d)"
    using Cons.prems(1,4) by simp
  moreover have "runSql (qeach f (Suc k) xs) ?d =
      (Inr (), put (get ?d @ map (\<lambda>(i, x). row i x) (enumerate (Suc k) xs)) ?d)"
  proof (rule Cons.IH)
    show "kx y \<notin> key ` set (get ?d)" if "y \<in> set xs" for y
    proof -
      have "kx y \<noteq> kx x"
        using that Cons.prems(3) by (auto simp: image_iff)
      then show ?thesis
        using that Cons.prems(2,4) by (auto simp: table(1))
    qed
  qed (use Cons.prems in auto)
  ultimately show ?case
    using assms(1) by (simp add: sql_run table)
qed (simp add: sql_run table(3))

section \<open>Time stamps of a recovery\<close>

lemma map_enumerate: "map (\<lambda>(i, x). f x) (enumerate k xs) = map f xs"
  by (induction xs arbitrary: k) simp_all

lemma sorted_stamps:
  assumes "sorted_wrt (<) (map c xs)"
  shows "sorted_wrt (<) (map (\<lambda>(i, x). c x + int i) (enumerate k xs))"
  using assms
proof (induction xs arbitrary: k)
  case (Cons x xs)
  have "k < i" if "(i, y) \<in> set (enumerate (Suc k) xs)" for i y
    using that by (auto simp: in_set_enumerate_eq)
  moreover have "c x < c y" if "(i, y) \<in> set (enumerate (Suc k) xs)" for i y
    using that Cons.prems by (auto simp: in_set_enumerate_eq)
  ultimately show ?case
    using Cons by (fastforce intro: add_strict_mono)
qed simp

text \<open>No overflow of \<open>snap.CreatedAt+int64(i)\<close>: there are some 290 years of nanoseconds to go.\<close>

definition roomFor :: "('s \<Rightarrow> int) \<Rightarrow> 's deletedRow list \<Rightarrow> string \<Rightarrow> bool" where
  "roomFor stime rows n \<longleftrightarrow> (case goneRowOf n rows of None \<Rightarrow> True | Some r \<Rightarrow>
     list_all (\<lambda>v. - (2 ^ 63) \<le> stime v \<and> stime v + int (length (projr (rd_Versions r))) < 2 ^ 63)
       (projr (rd_Versions r)))"

lemma roomFor_Some:
  "roomFor stime rows n \<Longrightarrow> goneRowOf n rows = Some r \<Longrightarrow> rd_Versions r = Inr vs \<Longrightarrow>
     list_all (\<lambda>v. - (2 ^ 63) \<le> stime v \<and> stime v + int (length vs) < 2 ^ 63) vs"
  by (simp add: roomFor_def)

lemma add64_stamp: "- (2 ^ 63) \<le> a \<Longrightarrow> a + int i < 2 ^ 63 \<Longrightarrow> add64 a (int i) = a + int i"
  unfolding add64_def by (rule wrap64_id) (simp add: int64_ok_def)

lemma stamps_of_room:
  assumes "list_all (\<lambda>v. - (2 ^ 63) \<le> stime v \<and> stime v + int (length vs) < 2 ^ 63) vs"
  shows "map (\<lambda>(i, v). add64 (stime v) (int i)) (enumerate 0 vs) = map (\<lambda>(i, v). stime v + int i) (enumerate 0 vs)"
proof (rule map_cong [OF refl], clarify)
  fix i v
  assume "(i, v) \<in> set (enumerate 0 vs)"
  then have "i < length vs" "v \<in> set vs"
    by (auto simp: in_set_enumerate_eq)
  then have "- (2 ^ 63) \<le> stime v" "stime v + int i < 2 ^ 63"
    using assms by (force simp: list_all_iff)+
  then show "add64 (stime v) (int i) = stime v + int i"
    by (rule add64_stamp)
qed

lemma checkNotDeleted_run:
  assumes "calmSql e"
  shows "runSql (checkNotDeleted e table n kind) d = (if goneRowOf n (table d) = None then Inr ()
    else Inl (newError 409 ''InvalidOperation'' (kind @ '' '' @ n @
           '' is currently deleted and cannot be reused until recovered or purged.'')), d)"
  using assms by (simp add: checkNotDeleted_def sql_run goneRowOf_count)

section \<open>Tables of versions\<close>

locale row_table =
  fixes nameOf :: "'r \<Rightarrow> string" and versionOf :: "'r \<Rightarrow> string" and created :: "'r \<Rightarrow> int"
    and ok :: "'r \<Rightarrow> bool" and rowView :: "'r \<Rightarrow> 'a" and memView :: "'v \<Rightarrow> 'a" and ident :: "'v \<Rightarrow> string"
  assumes ident_view: "ok r \<Longrightarrow> memView v = rowView r \<Longrightarrow> ident v = versionOf r"
begin

abbreviation rel :: "'r list \<Rightarrow> (string, 'v list) gomap \<Rightarrow> bool" where
  "rel \<equiv> tableRel nameOf versionOf created ok rowView memView"

abbreviation rowsAt :: "string \<Rightarrow> 'r list \<Rightarrow> 'r list" where
  "rowsAt n rows \<equiv> rowsOf nameOf created n rows"

lemma relD:
  assumes "rel rows m"
  shows "rows_ok nameOf versionOf created rows" "r \<in> set rows \<Longrightarrow> ok r" "map_ok m"
    "map_of m n = None \<longleftrightarrow> rowsAt n rows = []"
    "map_of m n = Some entry \<Longrightarrow> map memView entry = map rowView (rowsAt n rows)"
proof -
  have at: "map_option (map memView) (map_of m n) =
      (if rowsAt n rows = [] then None else Some (map rowView (rowsAt n rows)))"
    using assms by (simp add: tableRel_def Let_def)
  show "map_of m n = None \<longleftrightarrow> rowsAt n rows = []"
    "map_of m n = Some entry \<Longrightarrow> map memView entry = map rowView (rowsAt n rows)"
    using at by (auto split: if_split_asm)
qed (use assms in \<open>auto simp: tableRel_def list_all_iff\<close>)

lemma relI:
  assumes "rows_ok nameOf versionOf created rows" "\<And>r. r \<in> set rows \<Longrightarrow> ok r" "map_ok m"
    and "\<And>n. map_of m n = None \<longleftrightarrow> rowsAt n rows = []"
    and "\<And>n entry. map_of m n = Some entry \<Longrightarrow> map memView entry = map rowView (rowsAt n rows)"
  shows "rel rows m"
proof -
  have "map_option (map memView) (map_of m n) =
      (if rowsAt n rows = [] then None else Some (map rowView (rowsAt n rows)))" for n
    using assms(4) [of n] assms(5) [of n] by (cases "map_of m n") auto
  then show ?thesis
    using assms(1-3) by (simp add: tableRel_def list_all_iff Let_def)
qed

lemma rel_empty: "rel [] []"
  by (intro relI) (simp_all add: rowsOf_empty map_ok_def)

lemma entry_length: "rel rows m \<Longrightarrow> map_of m n = Some entry \<Longrightarrow> length entry = length (rowsAt n rows) \<and> entry \<noteq> []"
  using relD(4) [of rows m n] relD(5) [of rows m n entry] by (metis list.map_disc_iff length_map option.distinct(1))

lemma entry_nth:
  assumes "rel rows m" "map_of m n = Some entry" "i < length entry"
  shows "memView (entry ! i) = rowView (rowsAt n rows ! i)" "ok (rowsAt n rows ! i)" "nameOf (rowsAt n rows ! i) = n"
    "rowsAt n rows ! i \<in> set rows"
proof -
  have i: "i < length (rowsAt n rows)"
    using entry_length [OF assms(1,2)] assms(3) by simp
  from nth_mem [OF this] show "nameOf (rowsAt n rows ! i) = n" "rowsAt n rows ! i \<in> set rows"
    by simp_all
  then show "ok (rowsAt n rows ! i)"
    using relD(2) [OF assms(1)] by blast
  show "memView (entry ! i) = rowView (rowsAt n rows ! i)"
    using relD(5) [OF assms(1,2)] assms(3) i by (metis nth_map)
qed

lemma entry_idents:
  assumes "rel rows m" "map_of m n = Some entry"
  shows "map ident entry = map versionOf (rowsAt n rows)"
proof (rule nth_equalityI)
  show "length (map ident entry) = length (map versionOf (rowsAt n rows))"
    using entry_length [OF assms] by simp
  show "map ident entry ! i = map versionOf (rowsAt n rows) ! i" if "i < length (map ident entry)" for i
    using that entry_length [OF assms] ident_view [OF entry_nth(2,1) [OF assms, of i]] by simp
qed

lemma findVersion_entry:
  assumes "rel rows m" "map_of m n = Some entry"
  shows "findVersion ident entry v = findVersion versionOf (rowsAt n rows) v"
  using findVersion_map [of "\<lambda>x. x" ident entry v] findVersion_map [of "\<lambda>x. x" versionOf "rowsAt n rows" v]
    entry_idents [OF assms] by simp

text \<open>The row that a query selects is the version that the in-memory store finds.\<close>

lemma select_cases:
  assumes "rel rows m"
  obtains (none) "selectVersion nameOf versionOf created n v rows = None"
      "case map_of m n of None \<Rightarrow> True | Some entry \<Rightarrow> findVersion ident entry v = None"
  | (some) r entry i where "selectVersion nameOf versionOf created n v rows = Some r" "r \<in> set rows" "nameOf r = n"
      "ok r" "map_of m n = Some entry" "findVersion ident entry v = Some i" "i < length entry"
      "memView (entry ! i) = rowView r" "rowsAt n rows ! i = r"
proof -
  have sel: "selectVersion nameOf versionOf created n v rows =
      map_option (\<lambda>i. rowsAt n rows ! i) (findVersion versionOf (rowsAt n rows) v)"
    by (rule select_findVersion) (rule relD(1) [OF assms])
  show thesis
  proof (cases "findVersion versionOf (rowsAt n rows) v")
    case None
    then show thesis
      using none sel findVersion_entry [OF assms] by (simp split: option.split)
  next
    case (Some i)
    then have i: "i < length (rowsAt n rows)"
      by (rule findVersion_bound)
    then have "map_of m n \<noteq> None"
      using relD(4) [OF assms, of n] by auto
    then obtain entry where entry: "map_of m n = Some entry"
      by blast
    show thesis
      using some [of "rowsAt n rows ! i" entry i] sel Some i entry entry_nth [OF assms entry, of i]
        findVersion_entry [OF assms entry] entry_length [OF assms entry] by simp
  qed
qed

lemma names: "rel rows m \<Longrightarrow> distinctNames nameOf rows = sort (mkeys m)"
proof -
  assume r: "rel rows m"
  have "n \<in> set (mkeys m) \<longleftrightarrow> n \<in> nameOf ` set rows" for n
    using relD(4) [OF r, of n] by (auto simp: mkeys_map_of [OF relD(3) [OF r]] rowsOf_Nil_iff)
  then show ?thesis
    using relD(3) [OF r] by (intro distinctNames_eq) (auto simp: map_ok_def mkeys_def)
qed

lemma count: "rel rows m \<Longrightarrow> countName nameOf n rows = 0 \<longleftrightarrow> map_of m n = None"
  using relD(4) [of rows m n] by (auto simp: countName_zero rowsOf_Nil_iff)

lemma newest_first: "rel rows m \<Longrightarrow> orderDesc created (filter (\<lambda>r. nameOf r = n) rows) = rev (rowsAt n rows)"
  by (rule orderDesc_rows) (rule relD(1))

section \<open>Writing\<close>

lemma rel_insert:
  assumes rel: "rel rows m" and row: "ok row" "nameOf row = n" "memView v = rowView row"
    and fresh: "\<forall>r \<in> set rows. nameOf r = n \<longrightarrow> versionOf r \<noteq> versionOf row \<and> created r < created row"
  shows "rel (rows @ [row]) (appendVersion n v m)"
proof (rule relI)
  note D = relD [OF rel]
  show "rows_ok nameOf versionOf created (rows @ [row])"
    using D(1) fresh row(2) by (auto intro!: rows_ok_snoc)
  have other: "rowsAt k (rows @ [row]) = rowsAt k rows" if "k \<noteq> n" for k
    using that row(2) by (simp add: rowsOf_other)
  have same: "rowsAt n (rows @ [row]) = rowsAt n rows @ [row]"
    using fresh row(2) by (auto intro!: rowsOf_newest simp: less_imp_le)
  show "map_of (appendVersion n v m) k = None \<longleftrightarrow> rowsAt k (rows @ [row]) = []" for k
    using other [of k] same D(4) [of k] by (cases "k = n") simp_all
  show "map memView entry = map rowView (rowsAt k (rows @ [row]))" if "map_of (appendVersion n v m) k = Some entry" for k entry
    using that other [of k] same D(4) [of k] D(5) [of k] row(3)
    by (cases "k = n") (auto split: option.split_asm)
qed (use relD [OF rel] row in auto)

lemma rel_cong: "rel rows m \<Longrightarrow> map_ok m' \<Longrightarrow> map_of m' = map_of m \<Longrightarrow> rel rows m'"
  by (simp add: tableRel_def)

lemma rel_drop:
  assumes rel: "rel rows m"
  shows "rel (filter (\<lambda>r. nameOf r \<noteq> n) rows) (mdel n m)"
proof (rule relI)
  note D = relD [OF rel]
  show "rows_ok nameOf versionOf created (filter (\<lambda>r. nameOf r \<noteq> n) rows)"
    using D(1) by (rule rows_ok_filter)
  show "map_of (mdel n m) k = None \<longleftrightarrow> rowsAt k (filter (\<lambda>r. nameOf r \<noteq> n) rows) = []" for k
    using D(4) [of k] by (auto simp: rowsOf_filter)
  show "map memView entry = map rowView (rowsAt k (filter (\<lambda>r. nameOf r \<noteq> n) rows))"
    if "map_of (mdel n m) k = Some entry" for k entry
    using that D(5) [of k entry] by (auto simp: rowsOf_filter split: if_split_asm)
qed (use relD [OF rel] in auto)

text \<open>An update of the rows with a key: what becomes of the rows, and of those of each name.\<close>

abbreviation rowsUpdate :: "string \<Rightarrow> string \<Rightarrow> ('r \<Rightarrow> 'r) \<Rightarrow> 'r list \<Rightarrow> 'r list" where
  "rowsUpdate n v f rows \<equiv> map (\<lambda>r. if nameOf r = n \<and> versionOf r = v then f r else r) rows"

lemma updated_row_ok:
  assumes rel: "rel rows m" and row: "row \<in> set rows" "nameOf row = n" "ok (f row)"
    and r: "r \<in> set (rowsUpdate n (versionOf row) f rows)"
  shows "ok r"
proof -
  have inj: "inj_on (\<lambda>r. (nameOf r, versionOf r)) (set rows)"
    using relD(1) [OF rel] by (simp add: rows_ok_def distinct_map)
  obtain r0 where r0: "r0 \<in> set rows" "r = (if nameOf r0 = n \<and> versionOf r0 = versionOf row then f r0 else r0)"
    using r by auto
  show ?thesis
  proof (cases "nameOf r0 = n \<and> versionOf r0 = versionOf row")
    case True
    then have "r0 = row"
      using inj_onD [OF inj, of r0 row] r0(1) row by simp
    then show ?thesis
      using r0(2) True row(3) by simp
  next
    case False
    then show ?thesis
      using relD(2) [OF rel r0(1)] r0(2) by (simp only: if_False)
  qed
qed

lemma updated_rowsAt:
  assumes rel: "rel rows m" and i: "i < length (rowsAt n rows)" "rowsAt n rows ! i = row"
    and keep: "\<And>r. nameOf (f r) = nameOf r" "\<And>r. created (f r) = created r"
  shows "rowsAt j (rowsUpdate n (versionOf row) f rows) = (if j = n then (rowsAt n rows)[i := f row] else rowsAt j rows)"
proof -
  let ?f = "\<lambda>r. if nameOf r = n \<and> versionOf r = versionOf row then f r else r"
  have rows: "rowsAt j (rowsUpdate n (versionOf row) f rows) = map ?f (rowsAt j rows)" for j
    using rowsOf_map [of nameOf ?f created j rows] keep by simp
  have "distinct (map versionOf (rowsAt n rows))"
    using rows_ok_distinct(2) [OF relD(1) [OF rel], of n] by (simp add: rowsOf_def orderAsc_def distinct_map)
  then have "map (\<lambda>r. if versionOf r = versionOf (rowsAt n rows ! i) then f r else r) (rowsAt n rows) =
      (rowsAt n rows)[i := f (rowsAt n rows ! i)]"
    using i(1) by (rule nth_of_distinct)
  moreover have "map ?f (rowsAt n rows) = map (\<lambda>r. if versionOf r = versionOf row then f r else r) (rowsAt n rows)"
    by (rule map_cong) simp_all
  moreover have "map ?f (rowsAt j rows) = rowsAt j rows" if "j \<noteq> n"
    using that by (intro map_idI) auto
  ultimately show ?thesis
    using i(2) by (cases "j = n") (simp_all add: rows)
qed

lemma rel_update:
  assumes rel: "rel rows m" and entry: "map_of m n = Some entry" "i < length entry" "rowsAt n rows ! i = row"
    and f: "ok (f row)" "memView v = rowView (f row)"
    and keep: "\<And>r. nameOf (f r) = nameOf r" "\<And>r. versionOf (f r) = versionOf r" "\<And>r. created (f r) = created r"
  shows "rel (map (\<lambda>r. if nameOf r = n \<and> versionOf r = versionOf row then f r else r) rows) (mput n (entry[i := v]) m)"
    (is "rel ?rows ?m")
proof (rule relI)
  note D = relD [OF rel]
  show "rows_ok nameOf versionOf created ?rows"
    using rows_ok_map [OF D(1), of "\<lambda>r. if nameOf r = n \<and> versionOf r = versionOf row then f r else r"] keep by simp
  have i: "i < length (rowsAt n rows)"
    using entry_length [OF rel entry(1)] entry(2) by simp
  note rows = updated_rowsAt [OF rel i entry(3) keep(1,3)]
  show "ok r" if "r \<in> set ?rows" for r
    using updated_row_ok [OF rel _ _ f(1) that] entry_nth(3,4) [OF rel entry(1,2)] entry(3) by simp
  show "map_of ?m j = None \<longleftrightarrow> rowsAt j ?rows = []" for j
    using D(4) [of j] i by (auto simp: rows)
  show "map memView x = map rowView (rowsAt j ?rows)" if "map_of ?m j = Some x" for j x
  proof (cases "j = n")
    case True
    then have "x = entry[i := v]"
      using that by simp
    then show ?thesis
      using True D(5) [OF entry(1)] f(2) by (simp add: rows map_update)
  next
    case False
    then show ?thesis
      using that D(5) [of j x] by (simp add: rows)
  qed
qed (use relD [OF rel] in auto)

text \<open>All versions of a name that the table has not.\<close>

lemma rel_restore:
  assumes rel: "rel rows m" and none: "map_of m n = None"
    and new: "new \<noteq> []" "\<And>r. r \<in> set new \<Longrightarrow> ok r \<and> nameOf r = n" "distinct (map versionOf new)"
      "sorted_wrt (<) (map created new)" "map memView entry = map rowView new"
  shows "rel (rows @ new) (mput n entry m)"
proof (rule relI)
  note D = relD [OF rel]
  have absent: "r \<in> set rows \<Longrightarrow> nameOf r \<noteq> n" for r
    using D(4) [of n] none by (auto simp: rowsOf_Nil_iff)
  have stamps: "distinct (map created new)" "sorted (map created new)"
    using new(4) strict_sorted_iff by blast+
  show "rows_ok nameOf versionOf created (rows @ new)"
    using D(1) new(2,3) stamps(1) absent by (auto simp: rows_ok_def distinct_map inj_on_def)
  have at: "rowsAt j (rows @ new) = (if j = n then new else rowsAt j rows)" for j
  proof (cases "j = n")
    case True
    have "filter (\<lambda>r. nameOf r = n) rows = []" "filter (\<lambda>r. nameOf r = n) new = new"
      using absent new(2) by (auto simp: filter_empty_conv filter_id_conv)
    then show ?thesis
      using True stamps(2) by (simp add: rowsOf_def orderAsc_def sorted_sort_id sort_key_id_if_sorted)
  next
    case False
    then have "filter (\<lambda>r. nameOf r = j) new = []"
      using new(2) by (auto simp: filter_empty_conv)
    then show ?thesis
      using False by (simp add: rowsOf_def)
  qed
  show "map_of (mput n entry m) j = None \<longleftrightarrow> rowsAt j (rows @ new) = []" for j
    using D(4) [of j] new(1) by (simp add: at)
  show "map memView x = map rowView (rowsAt j (rows @ new))" if "map_of (mput n entry m) j = Some x" for j x
    using that D(5) [of j x] new(5) by (auto simp: at split: if_split_asm)
qed (use relD [OF rel] new in auto)

end

section \<open>Tables of deleted objects\<close>

text \<open>
  What a snapshot in the payload of a deletion has to keep of a row (\<open>snap\<close>), and the row that a
  recovery makes of it (\<open>unsnap\<close>).
\<close>

locale soft_deleted_table = row_table nameOf versionOf created ok rowView memView ident
  for nameOf :: "'r \<Rightarrow> string" and versionOf :: "'r \<Rightarrow> string" and created :: "'r \<Rightarrow> int"
    and ok :: "'r \<Rightarrow> bool" and rowView :: "'r \<Rightarrow> 'a" and memView :: "'v \<Rightarrow> 'a" and ident :: "'v \<Rightarrow> string" +
  fixes sver :: "'s \<Rightarrow> string" and stime :: "'s \<Rightarrow> int" and sok :: "'s \<Rightarrow> bool"
    and snapView :: "string \<Rightarrow> 's \<Rightarrow> 'a" and snap :: "'r \<Rightarrow> 's" and unsnap :: "string \<Rightarrow> 's \<Rightarrow> int \<Rightarrow> 'r"
  assumes snap_fields: "sver (snap r) = versionOf r" "stime (snap r) = created r"
    and snap_ok: "ok r \<Longrightarrow> sok (snap r)" "ok r \<Longrightarrow> snapView (nameOf r) (snap r) = rowView r"
    and unsnap_fields: "nameOf (unsnap n x t) = n" "versionOf (unsnap n x t) = sver x" "created (unsnap n x t) = t"
    and unsnap_ok: "sok x \<Longrightarrow> ok (unsnap n x t)" "sok x \<Longrightarrow> rowView (unsnap n x t) = snapView n x"
begin

abbreviation gone :: "'s deletedRow list \<Rightarrow> (string, 'v list deletedEntry) gomap \<Rightarrow> bool" where
  "gone \<equiv> goneRel sver stime sok snapView memView"

lemma goneD:
  assumes "gone rows m"
  shows "distinct (map rd_Name rows)" "r \<in> set rows \<Longrightarrow> goneRow_ok sver stime sok r" "map_ok m"
    "map_option (memGone memView) (map_of m n) = map_option (rowGone snapView) (goneRowOf n rows)"
    "map_of m n = None \<longleftrightarrow> goneRowOf n rows = None"
proof -
  show at: "map_option (memGone memView) (map_of m n) = map_option (rowGone snapView) (goneRowOf n rows)"
    using assms by (simp add: goneRel_def)
  show "map_of m n = None \<longleftrightarrow> goneRowOf n rows = None"
    using arg_cong [where f = "\<lambda>x. x = None", OF at] by simp
qed (use assms in \<open>auto simp: goneRel_def list_all_iff\<close>)

lemma goneI:
  assumes "distinct (map rd_Name rows)" "\<And>r. r \<in> set rows \<Longrightarrow> goneRow_ok sver stime sok r" "map_ok m"
    "\<And>n. map_option (memGone memView) (map_of m n) = map_option (rowGone snapView) (goneRowOf n rows)"
  shows "gone rows m"
  using assms by (simp add: goneRel_def list_all_iff)

lemma gone_empty: "gone [] []"
  by (intro goneI) (simp_all add: goneRowOf_def map_ok_def)

lemma gone_cases:
  assumes "gone rows m"
  obtains (none) "goneRowOf n rows = None" "map_of m n = None"
  | (some) r x vs where "goneRowOf n rows = Some r" "rd_Name r = n" "map_of m n = Some x" "rd_Versions r = Inr vs"
      "vs \<noteq> []" "distinct (map sver vs)" "sorted_wrt (<) (map stime vs)" "list_all sok vs"
      "map memView (de_entry x) = map (snapView n) vs" "de_recoveryID x = rd_RecoveryID r"
      "de_deletedDate x = rd_DeletedDate r" "de_scheduledPurgeDate x = rd_ScheduledPurgeDate r"
proof (cases "goneRowOf n rows")
  case None
  then show thesis
    using none goneD(5) [OF assms] by simp
next
  case (Some r)
  then have r: "r \<in> set rows" "rd_Name r = n"
    using goneRowOf_Some by blast+
  obtain vs where vs: "rd_Versions r = Inr vs" "vs \<noteq> []" "distinct (map sver vs)" "sorted_wrt (<) (map stime vs)"
    "list_all sok vs"
    using goneD(2) [OF assms r(1)] by (auto simp: goneRow_ok_def)
  obtain x where x: "map_of m n = Some x"
    using Some goneD(5) [OF assms, of n] by auto
  then have "memGone memView x = rowGone snapView r"
    using Some goneD(4) [OF assms, of n] by simp
  then have "map memView (de_entry x) = map (snapView n) vs" "de_recoveryID x = rd_RecoveryID r"
    "de_deletedDate x = rd_DeletedDate r" "de_scheduledPurgeDate x = rd_ScheduledPurgeDate r"
    using r(2) vs(1) by (auto simp: memGone_def rowGone_def)
  then show thesis
    using some Some r(2) x vs by blast
qed

lemma gone_names: "gone rows m \<Longrightarrow> sort (map rd_Name rows) = sort (mkeys m)"
proof -
  assume g: "gone rows m"
  have "n \<in> set (mkeys m) \<longleftrightarrow> n \<in> rd_Name ` set rows" for n
    using goneD(5) [OF g, of n] goneRowOf_None [of n rows] by (auto simp: mkeys_map_of [OF goneD(3) [OF g]])
  then show ?thesis
    using goneD(1,3) [OF g] by (intro sorted_distinct_set_unique) (auto simp: map_ok_def mkeys_def)
qed

lemma gone_purge:
  assumes "gone rows m"
  shows "gone (filter (\<lambda>r. rd_Name r \<noteq> n) rows) (mdel n m)"
proof (rule goneI)
  show "distinct (map rd_Name (filter (\<lambda>r. rd_Name r \<noteq> n) rows))"
    using goneD(1) [OF assms] by (rule distinct_map_filter)
  show "map_option (memGone memView) (map_of (mdel n m) k) =
      map_option (rowGone snapView) (goneRowOf k (filter (\<lambda>r. rd_Name r \<noteq> n) rows))" for k
    using goneD(4) [OF assms, of k] by (simp add: goneRowOf_filter)
qed (use goneD [OF assms] in auto)

text \<open>The row that a deletion writes.\<close>

abbreviation burial :: "string \<Rightarrow> string \<Rightarrow> int \<Rightarrow> int \<Rightarrow> 'r list \<Rightarrow> 's deletedRow" where
  "burial n rid t t' rows \<equiv> \<lparr>rd_Name = n, rd_RecoveryID = rid, rd_DeletedDate = t, rd_ScheduledPurgeDate = t',
     rd_Versions = Inr (map snap (rowsAt n rows))\<rparr>"

lemma burial_ok:
  assumes "rel rows m" "map_of m n = Some entry"
  shows "goneRow_ok sver stime sok (burial n rid t t' rows)"
    "map (snapView n) (map snap (rowsAt n rows)) = map memView entry"
proof -
  note D = relD [OF assms(1)]
  have vs: "map (sver \<circ> snap) xs = map versionOf xs" "map (stime \<circ> snap) xs = map created xs" for xs
    by (simp_all add: snap_fields)
  have "distinct (map versionOf (rowsAt n rows))" "distinct (map created (rowsAt n rows))"
    "sorted (map created (rowsAt n rows))"
    using rows_ok_distinct(1,2) [OF D(1), of n] by (simp_all add: rowsOf_def orderAsc_def distinct_map)
  moreover have "list_all sok (map snap (rowsAt n rows))"
    using D(2) snap_ok(1) by (auto simp: list_all_iff)
  ultimately show "goneRow_ok sver stime sok (burial n rid t t' rows)"
    using D(4) [of n] assms(2) by (simp add: goneRow_ok_def vs strict_sorted_iff)
  show "map (snapView n) (map snap (rowsAt n rows)) = map memView entry"
    using D(2) snap_ok(2) by (auto simp: D(5) [OF assms(2)])
qed

lemma gone_bury:
  assumes rel: "rel live lm" "gone rows m" and entry: "map_of lm n = Some entry" "map_of m n = None"
  shows "gone (rows @ [burial n rid t t' live])
    (mput n \<lparr>de_entry = entry, de_recoveryID = rid, de_deletedDate = t, de_scheduledPurgeDate = t'\<rparr> m)"
proof (rule goneI)
  note D = goneD [OF rel(2)] and b = burial_ok [OF rel(1) entry(1)]
  have none: "goneRowOf n rows = None"
    using D(5) [of n] entry(2) by simp
  then show "distinct (map rd_Name (rows @ [burial n rid t t' live]))"
    using D(1) by (auto simp: goneRowOf_None)
  show "map_option (memGone memView) (map_of (mput n \<lparr>de_entry = entry, de_recoveryID = rid, de_deletedDate = t,
      de_scheduledPurgeDate = t'\<rparr> m) k) =
    map_option (rowGone snapView) (goneRowOf k (rows @ [burial n rid t t' live]))" for k
    using D(4) [of k] none b(2) by (cases "k = n") (auto simp: goneRowOf_append memGone_def rowGone_def split: option.split)
qed (use goneD [OF rel(2)] burial_ok(1) [OF rel(1) entry(1)] in auto)

text \<open>The rows that a recovery inserts, when no time stamp overflows.\<close>

lemma rel_recover:
  assumes rel: "rel live lm" "gone rows m" and n: "map_of lm n = None" "map_of m n = Some x" "goneRowOf n rows = Some r"
    and room: "list_all (\<lambda>v. - (2 ^ 63) \<le> stime v \<and> stime v + int (length vs) < 2 ^ 63) vs" "rd_Versions r = Inr vs"
  shows "rel (live @ map (\<lambda>(i, v). unsnap n v (add64 (stime v) (int i))) (enumerate 0 vs)) (mput n (de_entry x) lm)"
    (is "rel (live @ ?new) _")
proof (rule rel_restore [OF rel(1) n(1)])
  from goneD(2) [OF rel(2), of r] goneRowOf_Some [OF n(3)] room(2)
  have vs: "vs \<noteq> []" "distinct (map sver vs)" "sorted_wrt (<) (map stime vs)" "list_all sok vs"
    by (auto simp: goneRow_ok_def)
  show "?new \<noteq> []"
    using vs(1) by (cases vs) simp_all
  show "ok y \<and> nameOf y = n" if "y \<in> set ?new" for y
    using that vs(4) by (auto simp: unsnap_fields unsnap_ok list_all_iff in_set_enumerate_eq)
  have "map versionOf ?new = map (\<lambda>(i, v). sver v) (enumerate 0 vs)"
    by (simp add: comp_def split_beta unsnap_fields)
  then have "map versionOf ?new = map sver vs"
    by (simp only: map_enumerate)
  then show "distinct (map versionOf ?new)"
    using vs(2) by simp
  have stamps: "map created ?new = map (\<lambda>(i, v). add64 (stime v) (int i)) (enumerate 0 vs)"
    by (simp add: comp_def split_beta unsnap_fields)
  show "sorted_wrt (<) (map created ?new)"
    unfolding stamps stamps_of_room [OF room(1)] by (rule sorted_stamps [OF vs(3)])
  have "map rowView ?new = map (\<lambda>(i, v). snapView n v) (enumerate 0 vs)"
    using vs(4) by (auto simp: unsnap_ok list_all_iff in_set_enumerate_eq)
  also have "\<dots> = map (snapView n) vs"
    by (rule map_enumerate)
  also have "\<dots> = map memView (de_entry x)"
    using goneD(4) [OF rel(2), of n] n(2,3) goneRowOf_Some [OF n(3)] room(2) by (simp add: memGone_def rowGone_def)
  finally show "map memView (de_entry x) = map rowView ?new"
    by simp
qed

end

end
