(* ===== verification/KV_Sql_Refine.thy ===== *)
theory KV_Sql_Refine
  imports KV_Sql_Tables
begin

text \<open>
  The secrets of the SQL store against those of the in-memory store. \<open>secretsRel\<close> relates the two
  tables of secrets to the two maps: the rows of a name, in the order of their creation, are the
  versions of its entry. A call without failing statements then answers as the in-memory store does
  and keeps the relation.
\<close>

section \<open>Text that JSON leaves alone\<close>

definition text_ok :: "string \<Rightarrow> bool" where
  "text_ok s \<longleftrightarrow> toValidUTF8 s = s"

definition tags_text :: "tags \<Rightarrow> bool" where
  "tags_text t \<longleftrightarrow> textTags t = t"

lemma textTags_jsonTags: "textTags t = jsonTags t"
  by (cases t) (simp_all add: textTags_def jsonTags_def)

lemma tags_text_map_ok: "tags_text t \<Longrightarrow> tags_ok t"
  using tags_ok_jsonTags [of t] by (simp add: tags_text_def textTags_jsonTags)

lemma tags_text_clone [simp]: "tags_text t \<Longrightarrow> cloneTags t = t"
  by (rule cloneTags_id) (rule tags_text_map_ok)

section \<open>The relation\<close>

definition attrs_text :: "Attributes \<Rightarrow> bool" where
  "attrs_text a \<longleftrightarrow> text_ok (RecoveryLevel a)"

definition secretRow_ok :: "secretRow \<Rightarrow> bool" where
  "secretRow_ok r \<longleftrightarrow> text_ok (rs_Version r) \<and> text_ok (rs_Value r) \<and> text_ok (rs_ContentType r) \<and>
     (\<exists>a t. rs_Attributes r = Inr a \<and> rs_Tags r = Inr t \<and> attrs_text a \<and> tags_text t)"

definition rowSecret :: "secretRow \<Rightarrow> SecretRecord" where
  "rowSecret r = \<lparr>sr_Name = rs_Name r, sr_Version = rs_Version r, sr_Value = rs_Value r,
     sr_ContentType = rs_ContentType r, sr_Attributes = projr (rs_Attributes r), sr_Tags = projr (rs_Tags r)\<rparr>"

definition snapshot_ok :: "secretVersionSnapshot \<Rightarrow> bool" where
  "snapshot_ok v \<longleftrightarrow> text_ok (svs_Version v) \<and> text_ok (svs_Value v) \<and> text_ok (svs_ContentType v) \<and>
     attrs_text (svs_Attributes v) \<and> tags_text (svs_Tags v)"

abbreviation payload_ok :: "secretVersionSnapshot deletedRow \<Rightarrow> bool" where
  "payload_ok \<equiv> goneRow_ok svs_Version svs_CreatedAt snapshot_ok"

definition secretTables_ok :: "SQLStore \<Rightarrow> bool" where
  "secretTables_ok d \<longleftrightarrow> rows_ok rs_Name rs_Version rs_CreatedAt (kv_secrets d) \<and>
     list_all secretRow_ok (kv_secrets d) \<and> distinct (map rd_Name (kv_deleted_secrets d)) \<and>
     list_all payload_ok (kv_deleted_secrets d)"

abbreviation secretRows :: "SQLStore \<Rightarrow> string \<Rightarrow> secretRow list" where
  "secretRows d n \<equiv> rowsOf rs_Name rs_CreatedAt n (kv_secrets d)"

definition absSecrets :: "SQLStore \<Rightarrow> string \<Rightarrow> secretEntry option" where
  "absSecrets d n = (if secretRows d n = [] then None else Some (map rowSecret (secretRows d n)))"

abbreviation absDeletedRow :: "secretVersionSnapshot deletedRow \<Rightarrow> secretEntry deletedEntry" where
  "absDeletedRow \<equiv> rowGone secretOfSnapshot"

abbreviation deletedRowOf :: "SQLStore \<Rightarrow> string \<Rightarrow> secretVersionSnapshot deletedRow option" where
  "deletedRowOf d n \<equiv> goneRowOf n (kv_deleted_secrets d)"

definition secretsRel :: "SQLStore \<Rightarrow> Store \<Rightarrow> bool" where
  "secretsRel d s \<longleftrightarrow> secretTables_ok d \<and> map_ok (st_secrets s) \<and> map_ok (st_deletedSecrets s) \<and>
     (\<forall>n. map_of (st_secrets s) n = absSecrets d n) \<and>
     (\<forall>n. map_of (st_deletedSecrets s) n = map_option absDeletedRow (deletedRowOf d n))"

lemma secretsRel_New: "secretsRel NewSQLStore New"
  by (simp add: secretsRel_def secretTables_ok_def NewSQLStore_def New_def absSecrets_def goneRowOf_def
      firstRow_def)

lemma secretsRelD:
  assumes "secretsRel d s"
  shows "rows_ok rs_Name rs_Version rs_CreatedAt (kv_secrets d)" "r \<in> set (kv_secrets d) \<Longrightarrow> secretRow_ok r"
    "distinct (map rd_Name (kv_deleted_secrets d))" "x \<in> set (kv_deleted_secrets d) \<Longrightarrow> payload_ok x"
    "map_ok (st_secrets s)" "map_ok (st_deletedSecrets s)" "map_of (st_secrets s) n = absSecrets d n"
    "map_of (st_deletedSecrets s) n = map_option absDeletedRow (deletedRowOf d n)"
  using assms by (auto simp: secretsRel_def secretTables_ok_def list_all_iff)

lemma secretOfRow_ok:
  "secretRow_ok r \<Longrightarrow> secretOfRow (rs_Name r) rs_Value r = Inr (rowSecret r)"
  "secretRow_ok r \<Longrightarrow> secretOfRow (rs_Name r) (\<lambda>_. []) r = Inr (rowSecret r\<lparr>sr_Value := []\<rparr>)"
  by (auto simp: secretRow_ok_def secretOfRow_def rowSecret_def unmarshalAttrs_def unmarshalTags_def rbind_def)

lemma clone_rowSecret: "secretRow_ok r \<Longrightarrow> cloneSecretRecord (rowSecret r) = rowSecret r"
  by (auto simp: cloneSecretRecord_def rowSecret_def secretRow_ok_def)

lemma secretRows_in: "r \<in> set (secretRows d n) \<Longrightarrow> r \<in> set (kv_secrets d) \<and> rs_Name r = n"
  by simp

section \<open>Reading calls\<close>

lemma indep_reads [sql_run]:
  assumes "calmSql e"
  shows "indep (getSecretVersionRow e n v)" "indep (getDeletedSecretRow e n)" "indep (allSecretVersionSnapshots e n)"
    "indep (checkNotDeleted e table n kind)" "indep (purgeSecretRow e n)" "indep (insertSecretRow e rcd ts)"
  using assms
  by (simp_all add: getSecretVersionRow_def getDeletedSecretRow_def allSecretVersionSnapshots_def checkNotDeleted_def
      purgeSecretRow_def insertSecretRow_def sql_run Let_def)

lemma getSecretVersionRow_run:
  assumes "secretsRel d s" "calmSql e"
  shows "runSql (getSecretVersionRow e n v) d = (GetSecret s n v, d)"
proof -
  let ?rs = "secretRows d n"
  note rel = secretsRelD [OF assms(1)]
  have sel: "selectVersion rs_Name rs_Version rs_CreatedAt n v (kv_secrets d) =
      map_option (\<lambda>i. ?rs ! i) (findVersion rs_Version ?rs v)"
    by (rule select_findVersion) (rule rel(1))
  have run: "runSql (getSecretVersionRow e n v) d = ((case map_option (\<lambda>i. ?rs ! i) (findVersion rs_Version ?rs v) of
      None \<Rightarrow> Inl (secretNotFound n) | Some row \<Rightarrow> secretOfRow n rs_Value row), d)"
    using assms(2) by (simp add: getSecretVersionRow_def sql_run sel split: option.split)
  have find: "findSecretVersion (map rowSecret ?rs) v = findVersion rs_Version ?rs v"
    by (simp add: findSecretVersion_def findVersion_map) (simp add: rowSecret_def)
  show ?thesis
  proof (cases "findVersion rs_Version ?rs v")
    case None
    then show ?thesis
      using rel(7) [of n] find by (simp add: run GetSecret_def absSecrets_def)
  next
    case (Some i)
    then have i: "i < length ?rs"
      by (rule findVersion_bound)
    then have r: "?rs ! i \<in> set (kv_secrets d)" "rs_Name (?rs ! i) = n" "secretRow_ok (?rs ! i)"
      using secretRows_in [of "?rs ! i" n d] rel(2) by (auto dest: nth_mem)
    then have "secretOfRow n rs_Value (?rs ! i) = Inr (rowSecret (?rs ! i))"
      using secretOfRow_ok(1) [of "?rs ! i"] by simp
    moreover have "?rs \<noteq> []"
      using i by auto
    ultimately show ?thesis
      using rel(7) [of n] Some find i r(3) by (simp add: run GetSecret_def absSecrets_def clone_rowSecret)
  qed
qed

lemma secretNames:
  assumes "secretsRel d s"
  shows "distinctNames rs_Name (kv_secrets d) = sort (mkeys (st_secrets s))"
    "sort (map rd_Name (kv_deleted_secrets d)) = sort (mkeys (st_deletedSecrets s))"
proof -
  note rel = secretsRelD [OF assms]
  have "n \<in> set (mkeys (st_secrets s)) \<longleftrightarrow> n \<in> rs_Name ` set (kv_secrets d)" for n
    using rel(5,7) by (auto simp: mkeys_map_of absSecrets_def rowsOf_Nil_iff)
  then show "distinctNames rs_Name (kv_secrets d) = sort (mkeys (st_secrets s))"
    using rel(5) by (intro distinctNames_eq) (auto simp: map_ok_def mkeys_def)
  have "n \<in> set (mkeys (st_deletedSecrets s)) \<longleftrightarrow> n \<in> rd_Name ` set (kv_deleted_secrets d)" for n
    using rel(6,8) goneRowOf_None [of n "kv_deleted_secrets d"] by (auto simp: mkeys_map_of)
  then show "sort (map rd_Name (kv_deleted_secrets d)) = sort (mkeys (st_deletedSecrets s))"
    using rel(3,6) by (intro sorted_distinct_set_unique) (auto simp: map_ok_def mkeys_def)
qed

lemma latest_row:
  assumes "secretsRel d s" "n \<in> set (mkeys (st_secrets s))"
  obtains r where "r \<in> set (kv_secrets d)" "rs_Name r = n" "last (secretRows d n) = r"
    "latestSecret (map_of (st_secrets s) n) = Some (rowSecret r)" "GetSecret s n [] = Inr (rowSecret r)"
proof -
  note rel = secretsRelD [OF assms(1)]
  have ne: "secretRows d n \<noteq> []"
    using assms(2) rel(5,7) by (auto simp: mkeys_map_of absSecrets_def split: if_split_asm)
  let ?r = "last (secretRows d n)"
  have "?r \<in> set (secretRows d n)"
    using ne by (rule last_in_set)
  then have r: "?r \<in> set (kv_secrets d)" "rs_Name ?r = n"
    by simp_all
  moreover have "latestSecret (map_of (st_secrets s) n) = Some (rowSecret ?r)"
    using ne by (simp add: rel(7) absSecrets_def latestSecret_def last_map)
  moreover have "GetSecret s n [] = Inr (rowSecret ?r)"
    using ne rel(2) [OF r(1)]
    by (simp add: GetSecret_def rel(7) absSecrets_def findSecretVersion_def findVersion_def clone_rowSecret
        last_conv_nth)
  ultimately show ?thesis
    using that by blast
qed

lemma sqlListSecrets_run:
  assumes "secretsRel d s" "calmSql e"
  shows "runSql (sqlListSecrets e m tok) d = (ListSecrets s m tok, d)"
proof -
  note rel = secretsRelD [OF assms(1)]
  show ?thesis
    unfolding sqlListSecrets_def ListSecrets_def latestSecret_def
  proof (rule live_listing_run [OF assms(2)])
    show "entry \<noteq> [] \<and> runSql (qbind (getSecretVersionRow e n []) (\<lambda>rcd. qret (rcd\<lparr>sr_Value := []\<rparr>))) d =
        (Inr (secretItem (last entry)), d)" if entry: "map_of (st_secrets s) n = Some entry" for n entry
    proof -
      have "n \<in> set (mkeys (st_secrets s))"
        using entry by (simp add: mkeys_map_of rel(5))
      then obtain r where r: "r \<in> set (kv_secrets d)" "latestSecret (map_of (st_secrets s) n) = Some (rowSecret r)"
        "GetSecret s n [] = Inr (rowSecret r)"
        by (rule latest_row [OF assms(1)])
      then show ?thesis
        using assms(2) entry clone_rowSecret [OF rel(2) [OF r(1)]]
        by (cases "entry = []") (simp_all add: sql_run getSecretVersionRow_run [OF assms] secretItem_def)
    qed
  qed (use assms(2) secretNames(1) [OF assms(1)] rel(5) in \<open>simp_all add: sql_run\<close>)
qed

lemma sqlListSecretVersions_run:
  assumes "secretsRel d s" "calmSql e"
  shows "runSql (sqlListSecretVersions e n m tok) d = (ListSecretVersions s n m tok, d)"
proof -
  note rel = secretsRelD [OF assms(1)]
  let ?rs = "secretRows d n"
  have desc: "orderDesc rs_CreatedAt (filter (\<lambda>r. rs_Name r = n) (kv_secrets d)) = rev ?rs"
    by (rule orderDesc_rows) (rule rel(1))
  have none: "countName rs_Name n (kv_secrets d) = 0 \<longleftrightarrow> ?rs = []"
    by (simp add: countName_zero rowsOf_Nil_iff)
  have "mapRes (secretOfRow n (\<lambda>_. [])) (rev ?rs) = Inr (map (\<lambda>r. rowSecret r\<lparr>sr_Value := []\<rparr>) (rev ?rs))"
    using rel(2) secretOfRow_ok(2) by (intro mapRes_Inr) auto
  moreover have "map (\<lambda>r. rowSecret r\<lparr>sr_Value := []\<rparr>) (rev ?rs) = map secretItem (rev (map rowSecret ?rs))"
    using rel(2) by (auto simp: rev_map secretItem_def clone_rowSecret)
  ultimately show ?thesis
    using assms(2) rel(7) [of n] none
    by (auto simp: sqlListSecretVersions_def ListSecretVersions_def sql_run absSecrets_def desc)
qed

lemma getDeletedSecretRow_run:
  assumes "calmSql e"
  shows "runSql (getDeletedSecretRow e n) d =
    ((case deletedRowOf d n of None \<Rightarrow> Inl (deletedSecretNotFound n) | Some r \<Rightarrow> Inr r), d)"
  using assms by (cases "deletedRowOf d n") (simp_all add: getDeletedSecretRow_def sql_run goneRowOf_def)

lemma clone_snapshot: "snapshot_ok v \<Longrightarrow> cloneSecretRecord (secretOfSnapshot n v) = secretOfSnapshot n v"
  by (simp add: cloneSecretRecord_def secretOfSnapshot_def)

lemma deletedSecretFromRow_ok:
  assumes "payload_ok r"
  shows "deletedSecretFromRow r = deletedSecretRecord (absDeletedRow r)"
proof -
  obtain vs where vs: "rd_Versions r = Inr vs" "vs \<noteq> []" "list_all snapshot_ok vs"
    using assms by (auto simp: goneRow_ok_def)
  then have "snapshot_ok (last vs)"
    by (simp add: list_all_iff)
  then show ?thesis
    using vs(1,2)
    by (simp add: deletedSecretFromRow_def deletedSecretRecord_def rowGone_def last_map clone_snapshot rbind_def)
qed

lemma sqlGetDeletedSecret_run:
  assumes "secretsRel d s" "calmSql e"
  shows "runSql (sqlGetDeletedSecret e n) d = (GetDeletedSecret s n, d)"
proof (cases "deletedRowOf d n")
  case None
  then show ?thesis
    using assms(2) secretsRelD(8) [OF assms(1), of n]
    by (simp add: sqlGetDeletedSecret_def sql_run getDeletedSecretRow_run GetDeletedSecret_def)
next
  case (Some r)
  then have "payload_ok r"
    using goneRowOf_Some secretsRelD(4) [OF assms(1)] by blast
  then show ?thesis
    using assms(2) Some secretsRelD(8) [OF assms(1), of n]
    by (simp add: sqlGetDeletedSecret_def sql_run getDeletedSecretRow_run GetDeletedSecret_def deletedSecretFromRow_ok)
qed

lemma sqlListDeletedSecrets_run:
  assumes "secretsRel d s" "calmSql e"
  shows "runSql (sqlListDeletedSecrets e m tok) d = (ListDeletedSecrets s m tok, d)"
proof -
  note rel = secretsRelD [OF assms(1)]
  show ?thesis
    unfolding sqlListDeletedSecrets_def ListDeletedSecrets_def
  proof (rule gone_listing_run [OF assms(2)])
    show "\<exists>r. runSql (qbind (getDeletedSecretRow e n) (\<lambda>r. qbind (qlift (deletedSecretFromRow r)) (\<lambda>rcd.
          qret (rcd\<lparr>dr_Record := (dr_Record rcd)\<lparr>sr_Value := []\<rparr>\<rparr>)))) d = (Inr r, d) \<and>
        rbind (deletedSecretRecord x) (\<lambda>r. Inr (r\<lparr>dr_Record := (dr_Record r)\<lparr>sr_Value := []\<rparr>\<rparr>)) = Inr r"
      if x: "map_of (st_deletedSecrets s) n = Some x" for n x
    proof -
      obtain r where r: "deletedRowOf d n = Some r" "x = absDeletedRow r"
        using x rel(8) [of n] by auto
      then have ok: "payload_ok r"
        using goneRowOf_Some rel(4) by blast
      then obtain rcd where "deletedSecretFromRow r = Inr rcd"
        by (auto simp: goneRow_ok_def deletedSecretFromRow_def)
      then show ?thesis
        using assms(2) r deletedSecretFromRow_ok [OF ok] by (simp add: sql_run getDeletedSecretRow_run)
    qed
  qed (use assms(2) secretNames(2) [OF assms(1)] rel(6) in \<open>simp_all add: sql_run\<close>)
qed

definition rowSnapshot :: "secretRow \<Rightarrow> secretVersionSnapshot" where
  "rowSnapshot r = \<lparr>svs_Version = rs_Version r, svs_Value = rs_Value r, svs_ContentType = rs_ContentType r,
     svs_Attributes = projr (rs_Attributes r), svs_Tags = projr (rs_Tags r), svs_CreatedAt = rs_CreatedAt r\<rparr>"

lemma rowSnapshot_ok:
  assumes "secretRow_ok r"
  shows "snapshotOfRow r = Inr (rowSnapshot r)" "secretOfSnapshot (rs_Name r) (rowSnapshot r) = rowSecret r"
    "jsonSecretSnapshot (rowSnapshot r) = rowSnapshot r" "snapshot_ok (rowSnapshot r)"
  using assms
  by (auto simp: secretRow_ok_def rowSnapshot_def snapshotOfRow_def unmarshalAttrs_def unmarshalTags_def
      secretOfSnapshot_def rowSecret_def jsonSecretSnapshot_def snapshot_ok_def text_ok_def attrs_text_def
      tags_text_def)

lemma allSecretVersionSnapshots_run:
  assumes "secretsRel d s" "calmSql e"
  shows "runSql (allSecretVersionSnapshots e n) d = (Inr (map rowSnapshot (secretRows d n)), d)"
proof -
  have "mapRes snapshotOfRow (secretRows d n) = Inr (map rowSnapshot (secretRows d n))"
    using secretsRelD(2) [OF assms(1)] rowSnapshot_ok(1) by (intro mapRes_Inr) simp
  then show ?thesis
    using assms(2) by (simp add: allSecretVersionSnapshots_def sql_run rowsOf_def)
qed

lemma snapshots_of_rows:
  assumes "secretsRel d s"
  shows "map (secretOfSnapshot n) (map rowSnapshot (secretRows d n)) = map rowSecret (secretRows d n)"
    "map jsonSecretSnapshot (map rowSnapshot (secretRows d n)) = map rowSnapshot (secretRows d n)"
  using secretsRelD(2) [OF assms] rowSnapshot_ok(2,3) by auto

lemma GetSecret_latest:
  assumes "secretsRel d s"
  shows "GetSecret s n [] = (if secretRows d n = [] then Inl (secretNotFound n)
    else Inr (rowSecret (last (secretRows d n))))"
proof (cases "secretRows d n = []")
  case True
  then show ?thesis
    by (simp add: GetSecret_def secretsRelD(7) [OF assms] absSecrets_def)
next
  case False
  then have "n \<in> set (mkeys (st_secrets s))"
    by (simp add: mkeys_map_of secretsRelD(5,7) [OF assms] absSecrets_def)
  then show ?thesis
    using latest_row [OF assms] False by metis
qed

lemma sqlBackupSecret_run:
  assumes "secretsRel d s" "calmSql e"
  shows "runSql (sqlBackupSecret e C n) d = (BackupSecret C s n, d)"
proof (cases "secretRows d n = []")
  case True
  then show ?thesis
    using assms(2) secretsRelD(7) [OF assms(1), of n]
    by (simp add: sqlBackupSecret_def sql_run getSecretVersionRow_run [OF assms] GetSecret_latest [OF assms(1)]
        BackupSecret_def absSecrets_def)
next
  case False
  have "map cloneSecretRecord (map rowSecret (secretRows d n)) = map rowSecret (secretRows d n)"
    using secretsRelD(2) [OF assms(1)] clone_rowSecret by auto
  then show ?thesis
    using assms(2) False secretsRelD(7) [OF assms(1), of n] snapshots_of_rows(1) [OF assms(1), of n]
    by (simp add: sqlBackupSecret_def sql_run getSecretVersionRow_run [OF assms] GetSecret_latest [OF assms(1)]
        allSecretVersionSnapshots_run [OF assms] BackupSecret_def absSecrets_def rbind_def del: map_map split: sum.split)
qed

end
