(* ===== verification/KV_Sql_Writes.thy ===== *)
theory KV_Sql_Writes
  imports KV_Sql_Refine
begin

text \<open>
  The writing calls of the SQL store on secrets against those of the in-memory store: first what
  each statement does to the relation, then the calls.
\<close>

section \<open>Records that a column holds as they are\<close>

lemma rune_len_ascii: "of_char c < (128::nat) \<Longrightarrow> rune_len (c # s) = 1"
  by (simp add: rune_len_def rune_class_def rune_ok_def)

lemma text_ok_ascii: "\<forall>c \<in> set s. of_char c < (128::nat) \<Longrightarrow> text_ok s"
  unfolding text_ok_def
  by (induction s) (simp_all add: toValidUTF8.simps [of "_ # _"] rune_len_ascii)

lemma text_ok_hexEncode: "text_ok (hexEncode bs)"
proof (rule text_ok_ascii)
  have "n < 16 \<Longrightarrow> of_char (hexdigit n) < (128::nat)" for n
    by (simp add: hexdigit_def of_char_char_of_small)
  moreover have "unat b div 16 < 16" "unat b mod 16 < 16" for b :: byte
    using unat_byte_less [of b] by (auto simp: div_less_iff_less_mult)
  ultimately show "\<forall>c \<in> set (hexEncode bs). of_char c < (128::nat)"
    by (induction bs) simp_all
qed

lemma text_ok_newVersion: "newVersion e = Inr v \<Longrightarrow> text_ok v"
  by (auto simp: newVersion_def text_ok_hexEncode split: sum.split_asm)

lemma attrs_text_made [simp]: "attrs_text (buildAttributes inp c u)" "attrs_text (mergeAttributes now a p)"
proof -
  have "text_ok recoveryLevel"
    unfolding recoveryLevel_def by (rule text_ok_ascii) simp
  then show "attrs_text (buildAttributes inp c u)" "attrs_text (mergeAttributes now a p)"
    by (simp_all add: attrs_text_def buildAttributes_def mergeAttributes_def)
qed

definition recordText :: "SecretRecord \<Rightarrow> bool" where
  "recordText r \<longleftrightarrow> text_ok (sr_Version r) \<and> text_ok (sr_Value r) \<and> text_ok (sr_ContentType r) \<and>
     attrs_text (sr_Attributes r) \<and> tags_text (sr_Tags r)"

text \<open>The row that \<open>insertSecretRow\<close> makes.\<close>

definition rowOfRecord :: "SecretRecord \<Rightarrow> int \<Rightarrow> secretRow" where
  "rowOfRecord r ts = \<lparr>rs_Name = sr_Name r, rs_Version = sr_Version r, rs_Value = sr_Value r,
     rs_ContentType = sr_ContentType r, rs_Attributes = marshalAttrs (sr_Attributes r),
     rs_Tags = marshalTags (sr_Tags r), rs_CreatedAt = ts\<rparr>"

lemma rowOfRecord_fields [simp]:
  "rs_Name (rowOfRecord r ts) = sr_Name r" "rs_Version (rowOfRecord r ts) = sr_Version r"
  "rs_CreatedAt (rowOfRecord r ts) = ts"
  by (simp_all add: rowOfRecord_def)

lemma rowOfRecord_ok:
  assumes "recordText r"
  shows "secretRow_ok (rowOfRecord r ts)" "rowSecret (rowOfRecord r ts) = r" "cloneSecretRecord r = r"
  using assms
  by (simp_all add: recordText_def rowOfRecord_def secretRow_ok_def rowSecret_def marshalAttrs_def marshalTags_def
      attrs_text_def tags_text_def text_ok_def cloneSecretRecord_def)

section \<open>The relation as one of tables\<close>

definition unsnapSecret :: "string \<Rightarrow> secretVersionSnapshot \<Rightarrow> int \<Rightarrow> secretRow" where
  "unsnapSecret n v ts = rowOfRecord (secretOfSnapshot n v) ts"

lemma snapshot_text:
  assumes "snapshot_ok v"
  shows "recordText (secretOfSnapshot n v)" "cloneSecretRecord (secretOfSnapshot n v) = secretOfSnapshot n v"
  using assms by (simp_all add: clone_snapshot) (simp add: snapshot_ok_def recordText_def secretOfSnapshot_def)

interpretation st: soft_deleted_table rs_Name rs_Version rs_CreatedAt secretRow_ok rowSecret "\<lambda>v. v" sr_Version
  svs_Version svs_CreatedAt snapshot_ok secretOfSnapshot rowSnapshot unsnapSecret
proof
  show "secretRow_ok r \<Longrightarrow> v = rowSecret r \<Longrightarrow> sr_Version v = rs_Version r" for r v
    by (simp add: rowSecret_def)
  show "svs_Version (rowSnapshot r) = rs_Version r" "svs_CreatedAt (rowSnapshot r) = rs_CreatedAt r" for r
    by (simp_all add: rowSnapshot_def)
  show "secretRow_ok r \<Longrightarrow> snapshot_ok (rowSnapshot r)"
    "secretRow_ok r \<Longrightarrow> secretOfSnapshot (rs_Name r) (rowSnapshot r) = rowSecret r" for r
    by (simp_all add: rowSnapshot_ok)
  show "rs_Name (unsnapSecret n x t) = n" "rs_Version (unsnapSecret n x t) = svs_Version x"
    "rs_CreatedAt (unsnapSecret n x t) = t" for n x t
    by (simp_all add: unsnapSecret_def secretOfSnapshot_def)
  show "snapshot_ok x \<Longrightarrow> secretRow_ok (unsnapSecret n x t)"
    "snapshot_ok x \<Longrightarrow> rowSecret (unsnapSecret n x t) = secretOfSnapshot n x" for n x t
    by (simp_all add: unsnapSecret_def rowOfRecord_ok snapshot_text)
qed

lemma memGone_id [simp]: "memGone (\<lambda>v. v) = (\<lambda>x. x)"
  by (simp add: memGone_def fun_eq_iff)

lemma secretsRel_tables:
  "secretsRel d s \<longleftrightarrow> st.rel (kv_secrets d) (st_secrets s) \<and> st.gone (kv_deleted_secrets d) (st_deletedSecrets s)"
  by (auto simp: secretsRel_def secretTables_ok_def absSecrets_def tableRel_def goneRel_def Let_def option.map_ident)

lemma secretsRelI:
  assumes "secretTables_ok d" "map_ok (st_secrets s)" "map_ok (st_deletedSecrets s)"
    "\<And>n. map_of (st_secrets s) n = absSecrets d n"
    "\<And>n. map_of (st_deletedSecrets s) n = map_option absDeletedRow (deletedRowOf d n)"
  shows "secretsRel d s"
  using assms by (simp add: secretsRel_def)

lemma secretsRel_insert:
  assumes rel: "secretsRel d s" and row: "secretRow_ok row" "rs_Name row = n"
    and fresh: "\<forall>r \<in> set (kv_secrets d). rs_Name r = n \<longrightarrow> rs_Version r \<noteq> rs_Version row \<and> rs_CreatedAt r < rs_CreatedAt row"
  shows "secretsRel (d\<lparr>kv_secrets := kv_secrets d @ [row]\<rparr>)
    (s\<lparr>st_secrets := appendVersion n (rowSecret row) (st_secrets s)\<rparr>)"
  using assms by (simp add: secretsRel_tables st.rel_insert)

lemma secretsRel_drop:
  "secretsRel d s \<Longrightarrow> secretsRel (d\<lparr>kv_secrets := filter (\<lambda>r. rs_Name r \<noteq> n) (kv_secrets d)\<rparr>)
    (s\<lparr>st_secrets := mdel n (st_secrets s)\<rparr>)"
  by (simp add: secretsRel_tables st.rel_drop)

lemma secretsRel_purge:
  "secretsRel d s \<Longrightarrow> secretsRel (d\<lparr>kv_deleted_secrets := filter (\<lambda>r. rd_Name r \<noteq> n) (kv_deleted_secrets d)\<rparr>)
    (s\<lparr>st_deletedSecrets := mdel n (st_deletedSecrets s)\<rparr>)"
  by (simp add: secretsRel_tables st.gone_purge)

section \<open>The calls\<close>

definition simulates :: "'a res \<times> SQLStore \<Rightarrow> 'a res \<times> Store \<Rightarrow> bool" where
  "simulates sq mem \<longleftrightarrow> fst sq = fst mem \<and> secretsRel (snd sq) (snd mem)"

lemma simulatesI: "r = r' \<Longrightarrow> secretsRel d s \<Longrightarrow> simulates (r, d) (r', s)"
  by (simp add: simulates_def)

lemma insertSecretRow_run:
  assumes "calmSql e"
  shows "runSql (insertSecretRow e r ts) d =
    (if \<exists>x \<in> set (kv_secrets d). rs_Name x = sr_Name r \<and> rs_Version x = sr_Version r
     then (Inl (PlainErr (''constraint failed: UNIQUE constraint failed: '' @ ''kv_secrets.name, kv_secrets.version'')), d)
     else (Inr (), d\<lparr>kv_secrets := kv_secrets d @ [rowOfRecord r ts]\<rparr>))"
  using assms by (simp add: insertSecretRow_def Let_def sql_run rowOfRecord_def)

text \<open>A version that the table has not, later than all of the name.\<close>

definition freshRow :: "SQLStore \<Rightarrow> string \<Rightarrow> string \<Rightarrow> int \<Rightarrow> bool" where
  "freshRow d n v ts \<longleftrightarrow>
     list_all (\<lambda>r. rs_Name r = n \<longrightarrow> rs_Version r \<noteq> v \<and> rs_CreatedAt r < ts) (kv_secrets d)"

lemma sqlSetSecret_run:
  assumes rel: "secretsRel d s" and e: "calmSql e" "newVersion (sq_env e) = Inr v"
    and fresh: "freshRow d n v (sq_nano e)"
    and q: "text_ok (ss_Value q)" "text_ok (ss_ContentType q)" "tags_text (ss_Tags q)"
  shows "simulates (runSql (sqlSetSecret e n q) d) (SetSecret (sq_env e) n q s)"
proof -
  let ?r = "\<lparr>sr_Name = n, sr_Version = v, sr_Value = ss_Value q, sr_ContentType = ss_ContentType q,
     sr_Attributes = buildAttributes (ss_Attributes q) (env_now (sq_env e)) (env_now (sq_env e)),
     sr_Tags = cloneTags (ss_Tags q)\<rparr>"
  have r: "recordText ?r"
    using q text_ok_newVersion [OF e(2)] by (simp add: recordText_def)
  have new: "\<not> (\<exists>x \<in> set (kv_secrets d). rs_Name x = n \<and> rs_Version x = v)"
    using fresh by (auto simp: freshRow_def list_all_iff)
  have "secretsRel (d\<lparr>kv_secrets := kv_secrets d @ [rowOfRecord ?r (sq_nano e)]\<rparr>)
      (s\<lparr>st_secrets := appendVersion n (rowSecret (rowOfRecord ?r (sq_nano e))) (st_secrets s)\<rparr>)"
    using fresh by (intro secretsRel_insert [OF rel] rowOfRecord_ok(1) [OF r]) (auto simp: freshRow_def list_all_iff)
  then show ?thesis
    using rel e new secretsRelD(8) [OF rel, of n] rowOfRecord_ok(2,3) [OF r]
    by (auto simp: sqlSetSecret_def sqlSetCheck_def sqlSetInsert_def SetSecret_def sql_run checkNotDeleted_run insertSecretRow_run Let_def
        intro!: simulatesI)
qed

lemma sqlPurgeDeletedSecret_run:
  assumes rel: "secretsRel d s" and e: "calmSql e"
  shows "simulates (runSql (sqlPurgeDeletedSecret e n) d) (PurgeDeletedSecret n s)"
  using assms secretsRelD(8) [OF rel, of n] secretsRel_purge [OF rel, of n]
  by (cases "deletedRowOf d n")
    (auto simp: sqlPurgeDeletedSecret_def PurgeDeletedSecret_def purgeSecretRow_def sql_run getDeletedSecretRow_run
      intro!: simulatesI)

text \<open>The row that a deletion writes, and the tables after it.\<close>

definition burialRow :: "sqlenv \<Rightarrow> string \<Rightarrow> string \<Rightarrow> SQLStore \<Rightarrow> secretVersionSnapshot deletedRow" where
  "burialRow e n rid d = \<lparr>rd_Name = n, rd_RecoveryID = rid, rd_DeletedDate = env_now (sq_env e),
     rd_ScheduledPurgeDate = add64 (env_now (sq_env e)) purgeDelay,
     rd_Versions = Inr (map jsonSecretSnapshot (map rowSnapshot (secretRows d n)))\<rparr>"

lemma secretsRel_bury:
  assumes rel: "secretsRel d s" and n: "map_of (st_secrets s) n = Some entry" "map_of (st_deletedSecrets s) n = None"
  shows "secretsRel (d\<lparr>kv_deleted_secrets := kv_deleted_secrets d @ [burialRow e n rid d]\<rparr>)
    (s\<lparr>st_deletedSecrets := mput n \<lparr>de_entry = entry, de_recoveryID = rid, de_deletedDate = env_now (sq_env e),
       de_scheduledPurgeDate = add64 (env_now (sq_env e)) purgeDelay\<rparr> (st_deletedSecrets s)\<rparr>)"
proof -
  have "st.rel (kv_secrets d) (st_secrets s)" "st.gone (kv_deleted_secrets d) (st_deletedSecrets s)"
    using rel by (simp_all add: secretsRel_tables)
  with st.gone_bury [OF this n] show ?thesis
    unfolding burialRow_def snapshots_of_rows(2) [OF rel] by (simp add: secretsRel_tables)
qed

lemma sqlDeleteSecret_tables:
  assumes rel: "secretsRel d s" and e: "calmSql e" "newRecoveryID (sq_env e) ''secrets'' n = Inr rid"
  shows "runSql (sqlDeleteSecret e n) d = (if secretRows d n = [] then (Inl (secretNotFound n), d)
      else if deletedRowOf d n \<noteq> None then (Inl (secretNotFound n), d)
      else (Inr \<lparr>dr_Record = rowSecret (last (secretRows d n)), dr_RecoveryID = rid,
              dr_DeletedDate = env_now (sq_env e), dr_ScheduledPurgeDate = add64 (env_now (sq_env e)) purgeDelay\<rparr>,
            d\<lparr>kv_deleted_secrets := kv_deleted_secrets d @ [burialRow e n rid d],
              kv_secrets := filter (\<lambda>r. rs_Name r \<noteq> n) (kv_secrets d)\<rparr>))"
  using e by (simp add: sqlDeleteSecret_def sql_run Let_def getSecretVersionRow_run [OF rel] GetSecret_latest [OF rel]
      goneRowOf_count allSecretVersionSnapshots_run [OF rel] burialRow_def)

lemma sqlDeleteSecret_run:
  assumes rel: "secretsRel d s" and e: "calmSql e" "newVersion (sq_env e) = Inr v"
  shows "simulates (runSql (sqlDeleteSecret e n) d) (DeleteSecret (sq_env e) n s)"
proof -
  note D = secretsRelD [OF rel]
  let ?rs = "secretRows d n" and ?now = "env_now (sq_env e)"
  obtain rid where rid: "newRecoveryID (sq_env e) ''secrets'' n = Inr rid"
    using e(2) by (simp add: newRecoveryID_def rbind_def)
  note run = sqlDeleteSecret_tables [OF rel e(1) rid]
  show ?thesis
  proof (cases "?rs = [] \<or> deletedRowOf d n \<noteq> None")
    case True
    then show ?thesis
      using rel D(7) [of n] D(8) [of n] unfolding run
      by (auto simp: DeleteSecret_def absSecrets_def intro!: simulatesI)
  next
    case False
    then have n: "map_of (st_secrets s) n = Some (map rowSecret ?rs)" "map_of (st_deletedSecrets s) n = None"
      using D(7) [of n] D(8) [of n] by (simp_all add: absSecrets_def)
    have ne: "?rs \<noteq> []"
      using False by simp
    have "last ?rs \<in> set (kv_secrets d)"
      using secretRows_in [OF last_in_set [OF ne]] by simp
    from clone_rowSecret [OF D(2) [OF this]]
    have ok: "cloneSecretRecord (rowSecret (last ?rs)) = rowSecret (last ?rs)" .
    show ?thesis
      using False n rid secretsRel_drop [OF secretsRel_bury [OF rel n, of e rid], of n] unfolding run
      by (cases s) (simp add: DeleteSecret_def simulates_def deletedSecretRecord_def latestSecretRecord_def ofOption_def
          rbind_def last_map ok Let_def)
  qed
qed

text \<open>A new version replaces the row of the old one.\<close>

lemma secretsRel_update:
  assumes rel: "secretsRel d s" and i: "i < length (secretRows d n)"
    and f: "f (secretRows d n ! i) = row" "secretRow_ok row"
    and keep: "\<And>r. rs_Name (f r) = rs_Name r" "\<And>r. rs_Version (f r) = rs_Version r"
      "\<And>r. rs_CreatedAt (f r) = rs_CreatedAt r"
  shows "secretsRel (d\<lparr>kv_secrets := map (\<lambda>r. if rs_Name r = n \<and> rs_Version r = rs_Version (secretRows d n ! i)
      then f r else r) (kv_secrets d)\<rparr>)
    (s\<lparr>st_secrets := mput n ((map rowSecret (secretRows d n))[i := rowSecret row]) (st_secrets s)\<rparr>)"
proof -
  have "map_of (st_secrets s) n = Some (map rowSecret (secretRows d n))"
    using i secretsRelD(7) [OF rel, of n] by (auto simp: absSecrets_def)
  moreover have "st.rel (kv_secrets d) (st_secrets s)"
    using rel by (simp add: secretsRel_tables)
  ultimately show ?thesis
    using st.rel_update [of "kv_secrets d" "st_secrets s" n "map rowSecret (secretRows d n)" i "secretRows d n ! i" f]
      rel i f keep by (simp add: secretsRel_tables)
qed

text \<open>The request of an update, as text that a column holds.\<close>

definition updateText :: "SecretUpdateRequest \<Rightarrow> bool" where
  "updateText q \<longleftrightarrow> (case su_ContentType q of None \<Rightarrow> True | Some ct \<Rightarrow> text_ok ct) \<and> tags_text (su_Tags q)"

definition updatedRecord :: "env \<Rightarrow> SecretUpdateRequest \<Rightarrow> SecretRecord \<Rightarrow> SecretRecord" where
  "updatedRecord e q r = r\<lparr>sr_ContentType := (case su_ContentType q of None \<Rightarrow> sr_ContentType r | Some ct \<Rightarrow> ct),
     sr_Tags := (if su_Tags q \<noteq> None then cloneTags (su_Tags q) else sr_Tags r),
     sr_Attributes := mergeAttributes (env_now e) (sr_Attributes r) (su_Attributes q)\<rparr>"

lemma updatedRecord_text: "recordText r \<Longrightarrow> updateText q \<Longrightarrow> recordText (updatedRecord e q r)"
  by (auto simp: recordText_def updateText_def updatedRecord_def split: option.splits)

lemma rowSecret_text: "secretRow_ok r \<Longrightarrow> recordText (rowSecret r)"
  by (auto simp: secretRow_ok_def recordText_def rowSecret_def)

lemma updatedRecord_steps:
  "(let rcd = (case su_ContentType q of None \<Rightarrow> rcd | Some ct \<Rightarrow> rcd\<lparr>sr_ContentType := ct\<rparr>);
     rcd = (if su_Tags q \<noteq> None then rcd\<lparr>sr_Tags := cloneTags (su_Tags q)\<rparr> else rcd)
     in rcd\<lparr>sr_Attributes := mergeAttributes (env_now e) (sr_Attributes rcd) (su_Attributes q)\<rparr>) = updatedRecord e q rcd"
  by (cases rcd) (simp add: updatedRecord_def split: option.split)

abbreviation updatedRows :: "SecretRecord \<Rightarrow> secretRow list \<Rightarrow> secretRow list" where
  "updatedRows rcd rows \<equiv> map (\<lambda>r. if rs_Name r = sr_Name rcd \<and> rs_Version r = sr_Version rcd
     then r\<lparr>rs_ContentType := sr_ContentType rcd, rs_Attributes := marshalAttrs (sr_Attributes rcd),
            rs_Tags := marshalTags (sr_Tags rcd)\<rparr> else r) rows"

lemma sqlUpdateSecret_steps:
  assumes "secretsRel d s" "calmSql e"
  shows "runSql (sqlUpdateSecret e n v q) d = (case GetSecret s n v of Inl err \<Rightarrow> (Inl err, d)
    | Inr r \<Rightarrow> let r = updatedRecord (sq_env e) q r in (Inr r, d\<lparr>kv_secrets := updatedRows r (kv_secrets d)\<rparr>))"
  using assms unfolding sqlUpdateSecret_def updatedRecord_steps [symmetric]
  by (simp add: sql_run Let_def getSecretVersionRow_run [OF assms(1)] split: sum.split)

lemma UpdateSecret_steps:
  "UpdateSecret e n v q s = (case map_of (st_secrets s) n of None \<Rightarrow> (Inl (secretNotFound n), s)
    | Some entry \<Rightarrow> (case findSecretVersion entry v of None \<Rightarrow> (Inl (secretNotFound n), s)
        | Some i \<Rightarrow> (Inr (cloneSecretRecord (updatedRecord e q (entry ! i))),
            s\<lparr>st_secrets := mput n (entry[i := updatedRecord e q (entry ! i)]) (st_secrets s)\<rparr>)))"
  unfolding UpdateSecret_def updatedRecord_steps [symmetric] Let_def ..

lemma sqlUpdateSecret_run:
  assumes rel: "secretsRel d s" and e: "calmSql e" and q: "updateText q"
  shows "simulates (runSql (sqlUpdateSecret e n v q) d) (UpdateSecret (sq_env e) n v q s)"
proof -
  note D = secretsRelD [OF rel]
  let ?rs = "secretRows d n"
  let ?u = "updatedRecord (sq_env e) q"
  note run = sqlUpdateSecret_steps [OF rel e, unfolded Let_def] and mem = UpdateSecret_steps
  show ?thesis
  proof (cases "findVersion rs_Version ?rs v")
    case None
    then have "findSecretVersion (map rowSecret ?rs) v = None"
      by (simp add: findSecretVersion_def findVersion_map rowSecret_def)
    then show ?thesis
      using D(7) [of n] rel unfolding run mem GetSecret_def
      by (auto simp: absSecrets_def intro!: simulatesI)
  next
    case (Some i)
    let ?row = "?rs ! i"
    have i: "i < length ?rs"
      using Some by (rule findVersion_bound)
    have row: "secretRow_ok ?row" "rs_Name ?row = n"
      using D(2) nth_mem [OF i] by simp_all
    have find: "findSecretVersion (map rowSecret ?rs) v = Some i"
      using Some by (simp add: findSecretVersion_def findVersion_map rowSecret_def)
    have entry: "map_of (st_secrets s) n = Some (map rowSecret ?rs)"
      using i D(7) [of n] by (auto simp: absSecrets_def)
    have r: "recordText (?u (rowSecret ?row))"
      using row(1) q by (intro updatedRecord_text rowSecret_text)
    let ?r = "?u (rowSecret ?row)"
    let ?f = "\<lambda>x. x\<lparr>rs_ContentType := sr_ContentType ?r, rs_Attributes := marshalAttrs (sr_Attributes ?r),
             rs_Tags := marshalTags (sr_Tags ?r)\<rparr>"
    have f: "?f ?row = rowOfRecord ?r (rs_CreatedAt ?row)"
      by (cases ?row) (simp add: rowOfRecord_def updatedRecord_def rowSecret_def)
    have "secretsRel (d\<lparr>kv_secrets := updatedRows ?r (kv_secrets d)\<rparr>) (s\<lparr>st_secrets := mput n ((map rowSecret ?rs)[i := ?r]) (st_secrets s)\<rparr>)"
      using secretsRel_update [OF rel i, of ?f "rowOfRecord ?r (rs_CreatedAt ?row)", OF f rowOfRecord_ok(1) [OF r]]
        row(2) rowOfRecord_ok(2) [OF r] by (simp add: updatedRecord_def rowSecret_def)
    moreover have "GetSecret s n v = Inr (rowSecret ?row)"
      using entry find i by (simp add: GetSecret_def clone_rowSecret [OF row(1)])
    ultimately show ?thesis
      using entry find i rowOfRecord_ok(3) [OF r] unfolding run mem simulates_def by simp
  qed
qed

section \<open>Writing all versions of a name\<close>

lemma sorted_indices: "sorted_wrt (<) (map (\<lambda>(i, x). int i) (enumerate k xs))"
  by (induction xs arbitrary: k) (auto simp: in_set_enumerate_eq)

abbreviation roomToRecover :: "SQLStore \<Rightarrow> string \<Rightarrow> bool" where
  "roomToRecover d n \<equiv> roomFor svs_CreatedAt (kv_deleted_secrets d) n"

lemma insertSecrets_run:
  assumes e: "calmSql e" and n: "\<And>r. r \<in> set (kv_secrets d) \<Longrightarrow> rs_Name r \<noteq> n"
    and xs: "\<And>x. x \<in> set xs \<Longrightarrow> sr_Name (f x) = n" "distinct (map (\<lambda>x. sr_Version (f x)) xs)"
  shows "runSql (qeach (\<lambda>i x. insertSecretRow e (f x) (g i x)) 0 xs) d =
    (Inr (), d\<lparr>kv_secrets := kv_secrets d @ map (\<lambda>(i, x). rowOfRecord (f x) (g i x)) (enumerate 0 xs)\<rparr>)"
proof (rule inserts_run [where key = "\<lambda>r. (rs_Name r, rs_Version r)" and kx = "\<lambda>x. (n, sr_Version (f x))"])
  show "(n, sr_Version (f x)) \<notin> (\<lambda>r. (rs_Name r, rs_Version r)) ` set (kv_secrets d)" for x
    using n by auto
  show "distinct (map (\<lambda>x. (n, sr_Version (f x))) xs)"
    using xs(2) by (auto simp: distinct_map inj_on_def)
  show "runSql (insertSecretRow e (f x) (g i x)) d' = (Inr (), d'\<lparr>kv_secrets := kv_secrets d' @ [rowOfRecord (f x) (g i x)]\<rparr>)"
    if "x \<in> set xs" "(n, sr_Version (f x)) \<notin> (\<lambda>r. (rs_Name r, rs_Version r)) ` set (kv_secrets d')" for i x d'
    using that xs(1) e by (force simp: insertSecretRow_run)
qed (use e xs(1) in \<open>simp_all add: indep_reads\<close>)

lemma sqlRecoverDeletedSecret_run:
  assumes rel: "secretsRel d s" and e: "calmSql e" and room: "roomToRecover d n"
  shows "simulates (runSql (sqlRecoverDeletedSecret e n) d) (RecoverDeletedSecret n s)"
proof -
  have live: "st.rel (kv_secrets d) (st_secrets s)" and gone: "st.gone (kv_deleted_secrets d) (st_deletedSecrets s)"
    using rel by (simp_all add: secretsRel_tables)
  note run = sqlRecoverDeletedSecret_def RecoverDeletedSecret_def sql_run getDeletedSecretRow_run
  have count: "0 < countName rs_Name n (kv_secrets d) \<longleftrightarrow> map_of (st_secrets s) n \<noteq> None"
    using st.count [OF live, of n] by (cases "map_of (st_secrets s) n") auto
  show ?thesis
  proof (cases "map_of (st_secrets s) n")
    case none: None
    show ?thesis
      using gone
    proof (cases rule: st.gone_cases [where n = n])
      case none
      then show ?thesis
        using rel e count \<open>map_of (st_secrets s) n = None\<close> indep_reads [OF e] by (auto simp: run intro!: simulatesI)
    next
      case (some r x vs)
      let ?f = "secretOfSnapshot n" and ?g = "\<lambda>i v. add64 (svs_CreatedAt v) (int i)"
      let ?new = "map (\<lambda>(i, v). unsnapSecret n v (?g i v)) (enumerate 0 vs)"
      have small: "list_all (\<lambda>v. - (2 ^ 63) \<le> svs_CreatedAt v \<and> svs_CreatedAt v + int (length vs) < 2 ^ 63) vs"
        using roomFor_Some [OF room some(1,4)] .
      have entry: "de_entry x = map ?f vs"
        using some by simp
      have "rs_Name r \<noteq> n" if "r \<in> set (kv_secrets d)" for r
        using that st.relD(4) [OF live, of n] none by (auto simp: rowsOf_Nil_iff)
      then have ins: "runSql (qeach (\<lambda>i v. insertSecretRow e (?f v) (?g i v)) 0 vs) d =
          (Inr (), d\<lparr>kv_secrets := kv_secrets d @ ?new\<rparr>)"
        using insertSecrets_run [OF e, of d n vs ?f ?g] some by (simp add: unsnapSecret_def secretOfSnapshot_def comp_def)
      have "st.rel (kv_secrets d @ ?new) (mput n (de_entry x) (st_secrets s))"
        using st.rel_recover [OF live gone none some(3,1) small some(4)] .
      then have "secretsRel (d\<lparr>kv_secrets := kv_secrets d @ ?new,
          kv_deleted_secrets := filter (\<lambda>r. rd_Name r \<noteq> n) (kv_deleted_secrets d)\<rparr>)
          (s\<lparr>st_secrets := mput n (de_entry x) (st_secrets s), st_deletedSecrets := mdel n (st_deletedSecrets s)\<rparr>)"
        using st.gone_purge [OF gone] by (simp add: secretsRel_tables)
      moreover have "latestSecretRecord (de_entry x) = Inr (?f (last vs))" "cloneSecretRecord (?f (last vs)) = ?f (last vs)"
        using some(5,8) snapshot_text(2) [of "last vs" n]
        by (simp_all add: entry latestSecretRecord_def ofOption_def last_map list_all_iff)
      ultimately show ?thesis
        using e none some count ins indep_reads [OF e]
        by (simp add: run purgeSecretRow_def indep_qeach rbind_def simulates_def)
    qed
  next
    case (Some entry)
    then show ?thesis
      using rel e count indep_reads [OF e] by (auto simp: run intro!: simulatesI)
  qed
qed

section \<open>Restore\<close>

text \<open>
  A backup as the store writes one: the versions differ, and their attributes carry the recovery
  level, which the SQL store sets in its rows but not in its answer.
\<close>

definition backupText :: "codec \<Rightarrow> string \<Rightarrow> bool" where
  "backupText C token \<longleftrightarrow> (case stdDecode token of None \<Rightarrow> True | Some raw \<Rightarrow>
     (case cd_unmarshal C raw of Inl _ \<Rightarrow> True | Inr b \<Rightarrow>
        distinct (map sr_Version (bk_Versions b)) \<and>
        list_all (\<lambda>r. recordText r \<and> attrs_ok (sr_Attributes r)) (bk_Versions b)))"

lemma restoredVersion_text:
  assumes "recordText r" "attrs_ok (sr_Attributes r)"
  shows "r\<lparr>sr_Name := n, sr_Attributes := (sr_Attributes r)\<lparr>RecoveryLevel := recoveryLevel,
      RecoverableDays := recoverableDays\<rparr>\<rparr> = r\<lparr>sr_Name := n\<rparr>"
    "recordText (r\<lparr>sr_Name := n\<rparr>)" "restoredVersion n r = r\<lparr>sr_Name := n\<rparr>"
    "cloneSecretRecord (r\<lparr>sr_Name := n\<rparr>) = r\<lparr>sr_Name := n\<rparr>"
proof -
  have a: "(sr_Attributes r)\<lparr>RecoveryLevel := recoveryLevel, RecoverableDays := recoverableDays\<rparr> = sr_Attributes r"
    using assms(2) by (cases "sr_Attributes r") (simp add: attrs_ok_def)
  show r: "r\<lparr>sr_Name := n, sr_Attributes := (sr_Attributes r)\<lparr>RecoveryLevel := recoveryLevel,
      RecoverableDays := recoverableDays\<rparr>\<rparr> = r\<lparr>sr_Name := n\<rparr>"
    unfolding a by (cases r) simp
  show t: "recordText (r\<lparr>sr_Name := n\<rparr>)"
    using assms(1) by (simp add: recordText_def)
  show c: "cloneSecretRecord (r\<lparr>sr_Name := n\<rparr>) = r\<lparr>sr_Name := n\<rparr>"
    by (rule rowOfRecord_ok(3) [OF t])
  show "restoredVersion n r = r\<lparr>sr_Name := n\<rparr>"
    using r c by (simp add: restoredVersion_def)
qed

text \<open>A version of a backup as the row that it is restored into.\<close>

abbreviation restoredRecord :: "string \<Rightarrow> SecretRecord \<Rightarrow> SecretRecord" where
  "restoredRecord n r \<equiv> r\<lparr>sr_Name := n, sr_Attributes := (sr_Attributes r)\<lparr>RecoveryLevel := recoveryLevel,
     RecoverableDays := recoverableDays\<rparr>\<rparr>"

lemma restoredRecord_text:
  assumes "recordText r \<and> attrs_ok (sr_Attributes r)"
  shows "restoredRecord n r = r\<lparr>sr_Name := n\<rparr>" "recordText (restoredRecord n r)" "restoredVersion n r = restoredRecord n r"
    "cloneSecretRecord (restoredRecord n r) = restoredRecord n r"
proof -
  note t = restoredVersion_text [OF conjunct1 [OF assms] conjunct2 [OF assms], of n]
  show "restoredRecord n r = r\<lparr>sr_Name := n\<rparr>"
    by (rule t(1))
  show "recordText (restoredRecord n r)" "restoredVersion n r = restoredRecord n r"
    "cloneSecretRecord (restoredRecord n r) = restoredRecord n r"
    unfolding t(1) by (rule t(2-4))+
qed

lemma RestoreSecret_restored:
  assumes "stdDecode token = Some raw" "cd_unmarshal C raw = Inr b" "bk_Name b \<noteq> []" "bk_Versions b \<noteq> []"
    and vs: "\<And>r. r \<in> set (bk_Versions b) \<Longrightarrow> recordText r \<and> attrs_ok (sr_Attributes r)"
  shows "RestoreSecret C token s = (Inr ((last (bk_Versions b))\<lparr>sr_Name := bk_Name b\<rparr>),
    s\<lparr>st_secrets := mput (bk_Name b) (map (restoredRecord (bk_Name b)) (bk_Versions b)) (st_secrets s),
      st_deletedSecrets := mdel (bk_Name b) (st_deletedSecrets s)\<rparr>)"
proof -
  let ?n = "bk_Name b" and ?vs = "bk_Versions b"
  have entry: "map (restoredVersion ?n) ?vs = map (restoredRecord ?n) ?vs"
    using restoredRecord_text(3) [OF vs] by (intro map_cong refl) blast
  have latest: "latestSecretRecord (map (restoredRecord ?n) ?vs) = Inr (restoredRecord ?n (last ?vs))"
    using assms(4) by (simp add: latestSecretRecord_def ofOption_def last_map)
  have clone: "cloneSecretRecord (restoredRecord ?n (last ?vs)) = (last ?vs)\<lparr>sr_Name := ?n\<rparr>"
    using restoredRecord_text(1,4) [OF vs, of "last ?vs" ?n] assms(4) by simp
  have "RestoreSecret C token s = (let entry = map (restoredVersion ?n) ?vs
      in (rbind (latestSecretRecord entry) (\<lambda>r. Inr (cloneSecretRecord r)),
          s\<lparr>st_secrets := mput ?n entry (st_secrets s), st_deletedSecrets := mdel ?n (st_deletedSecrets s)\<rparr>))"
    using assms(1-4) by (simp add: RestoreSecret_def)
  then show ?thesis
    unfolding entry Let_def latest rbind_def sum.case clone .
qed

abbreviation restoredRows :: "string \<Rightarrow> SecretRecord list \<Rightarrow> secretRow list" where
  "restoredRows n vs \<equiv> map (\<lambda>(i, r). rowOfRecord (restoredRecord n r) (int i)) (enumerate 0 vs)"

lemma restoredRows_rel:
  assumes live: "st.rel rows m" and vs: "vs \<noteq> []" "distinct (map sr_Version vs)"
    "\<And>r. r \<in> set vs \<Longrightarrow> recordText r \<and> attrs_ok (sr_Attributes r)"
  shows "st.rel (filter (\<lambda>r. rs_Name r \<noteq> n) rows @ restoredRows n vs) (mput n (map (restoredRecord n) vs) m)"
proof -
  let ?f = "restoredRecord n" and ?new = "restoredRows n vs"
  note made = restoredRecord_text(2) [OF vs(3)]
  have "st.rel (filter (\<lambda>r. rs_Name r \<noteq> n) rows @ ?new) (mput n (map ?f vs) (mdel n m))"
  proof (rule st.rel_restore [OF st.rel_drop [OF live]])
    show "?new \<noteq> []"
      using vs(1) by (cases vs) simp_all
    show "secretRow_ok r \<and> rs_Name r = n" if "r \<in> set ?new" for r
      using that made by (auto simp: in_set_enumerate_eq rowOfRecord_ok(1))
    have "map rs_Version ?new = map (\<lambda>(i, r). sr_Version r) (enumerate 0 vs)"
      by (simp add: comp_def split_beta)
    then show "distinct (map rs_Version ?new)"
      using vs(2) by (simp only: map_enumerate)
    have "map rs_CreatedAt ?new = map (\<lambda>(i, r). int i) (enumerate 0 vs)"
      by (simp add: comp_def split_beta)
    then show "sorted_wrt (<) (map rs_CreatedAt ?new)"
      by (simp only: sorted_indices)
    have "map rowSecret ?new = map (\<lambda>(i, r). ?f r) (enumerate 0 vs)"
      using made by (auto simp: in_set_enumerate_eq rowOfRecord_ok(2))
    then show "map (\<lambda>v. v) (map ?f vs) = map rowSecret ?new"
      by (simp only: map_enumerate list.map_ident)
  qed simp
  then show ?thesis
    by (rule st.rel_cong) (use st.relD(3) [OF live] in auto)
qed

lemma sqlRestoreSecret_refused:
  assumes "secretsRel d s"
    and "stdDecode token = None \<or> (\<exists>raw err. stdDecode token = Some raw \<and> cd_unmarshal C raw = Inl err) \<or>
      (\<exists>raw b. stdDecode token = Some raw \<and> cd_unmarshal C raw = Inr b \<and> (bk_Name b = [] \<or> bk_Versions b = []))"
  shows "simulates (runSql (sqlRestoreSecret e C token) d) (RestoreSecret C token s)"
  using assms by (auto simp: sqlRestoreSecret_def RestoreSecret_def sql_run intro!: simulatesI)

lemma sqlRestoreSecret_run:
  assumes rel: "secretsRel d s" and e: "calmSql e" and tok: "backupText C token"
  shows "simulates (runSql (sqlRestoreSecret e C token) d) (RestoreSecret C token s)"
proof (cases "\<exists>raw b. stdDecode token = Some raw \<and> cd_unmarshal C raw = Inr b \<and> bk_Name b \<noteq> [] \<and> bk_Versions b \<noteq> []")
  case False
  then show ?thesis
    by (intro sqlRestoreSecret_refused [OF rel]) (cases "stdDecode token"; cases "cd_unmarshal C (the (stdDecode token))"; auto)
next
  case True
  then obtain raw b where b: "stdDecode token = Some raw" "cd_unmarshal C raw = Inr b" "bk_Name b \<noteq> []" "bk_Versions b \<noteq> []"
    by blast
  let ?n = "bk_Name b" and ?vs = "bk_Versions b"
  have vs: "distinct (map sr_Version ?vs)" "\<And>r. r \<in> set ?vs \<Longrightarrow> recordText r \<and> attrs_ok (sr_Attributes r)"
    using tok b by (simp_all add: backupText_def list_all_iff)
  have live: "st.rel (kv_secrets d) (st_secrets s)" and gone: "st.gone (kv_deleted_secrets d) (st_deletedSecrets s)"
    using rel by (simp_all add: secretsRel_tables)
  define d2 where "d2 = d\<lparr>kv_secrets := filter (\<lambda>r. rs_Name r \<noteq> ?n) (kv_secrets d),
    kv_deleted_secrets := filter (\<lambda>r. rd_Name r \<noteq> ?n) (kv_deleted_secrets d)\<rparr>"
  have "runSql (qeach (\<lambda>i r. insertSecretRow e (restoredRecord ?n r) (int i)) 0 ?vs) d2 =
      (Inr (), d2\<lparr>kv_secrets := kv_secrets d2 @ restoredRows ?n ?vs\<rparr>)"
    using vs(1) by (intro insertSecrets_run [OF e, of d2 ?n ?vs "restoredRecord ?n" "\<lambda>i r. int i"]) (auto simp: d2_def)
  then have "runSql (sqlRestoreSecret e C token) d =
      (Inr ((last ?vs)\<lparr>sr_Name := ?n\<rparr>), d2\<lparr>kv_secrets := kv_secrets d2 @ restoredRows ?n ?vs\<rparr>)"
    using b e indep_reads [OF e] unfolding d2_def by (simp add: sqlRestoreSecret_def sql_run purgeSecretRow_def)
  moreover have "secretsRel (d2\<lparr>kv_secrets := kv_secrets d2 @ restoredRows ?n ?vs\<rparr>)
      (s\<lparr>st_secrets := mput ?n (map (restoredRecord ?n) ?vs) (st_secrets s), st_deletedSecrets := mdel ?n (st_deletedSecrets s)\<rparr>)"
    using st.gone_purge [OF gone] restoredRows_rel [OF live b(4) vs] by (simp add: secretsRel_tables d2_def)
  ultimately show ?thesis
    using RestoreSecret_restored [OF b vs(2)] by (simp add: simulates_def)
qed

end
