(* ===== verification/KV_Sql_Theorems.thy ===== *)
theory KV_Sql_Theorems
  imports KV_Sql_Writes KV_Store_Theorems
begin

text \<open>
  The SQL store on secrets: every operation as a call, and the property that the answers to a sequence
  of calls are those of the in-memory store.
\<close>

section \<open>Calls on secrets\<close>

datatype secretCall =
    CallSet string SecretSetRequest
  | CallGet string string
  | CallList int string
  | CallVersions string int string
  | CallUpdate string string SecretUpdateRequest
  | CallDelete string
  | CallListDeleted int string
  | CallGetDeleted string
  | CallPurge string
  | CallRecover string
  | CallBackup string
  | CallRestore string

datatype secretAnswer =
    ASecret "SecretRecord res"
  | ASecrets "(SecretRecord list \<times> string option) res"
  | ADeleted "DeletedSecretRecord res"
  | ADeletedSecrets "(DeletedSecretRecord list \<times> string option) res"
  | ADone "unit res"
  | ABlob "string res"

abbreviation answer :: "('a \<Rightarrow> secretAnswer) \<Rightarrow> 'a \<times> 's \<Rightarrow> secretAnswer \<times> 's" where
  "answer \<equiv> apfst"

fun sqlCall :: "codec \<Rightarrow> sqlenv \<Rightarrow> secretCall \<Rightarrow> SQLStore \<Rightarrow> secretAnswer \<times> SQLStore" where
  "sqlCall C e (CallSet n q) d = answer ASecret (runSql (sqlSetSecret e n q) d)"
| "sqlCall C e (CallGet n v) d = answer ASecret (runSql (sqlGetSecret e n v) d)"
| "sqlCall C e (CallList m t) d = answer ASecrets (runSql (sqlListSecrets e m t) d)"
| "sqlCall C e (CallVersions n m t) d = answer ASecrets (runSql (sqlListSecretVersions e n m t) d)"
| "sqlCall C e (CallUpdate n v q) d = answer ASecret (runSql (sqlUpdateSecret e n v q) d)"
| "sqlCall C e (CallDelete n) d = answer ADeleted (runSql (sqlDeleteSecret e n) d)"
| "sqlCall C e (CallListDeleted m t) d = answer ADeletedSecrets (runSql (sqlListDeletedSecrets e m t) d)"
| "sqlCall C e (CallGetDeleted n) d = answer ADeleted (runSql (sqlGetDeletedSecret e n) d)"
| "sqlCall C e (CallPurge n) d = answer ADone (runSql (sqlPurgeDeletedSecret e n) d)"
| "sqlCall C e (CallRecover n) d = answer ASecret (runSql (sqlRecoverDeletedSecret e n) d)"
| "sqlCall C e (CallBackup n) d = answer ABlob (runSql (sqlBackupSecret e C n) d)"
| "sqlCall C e (CallRestore t) d = answer ASecret (runSql (sqlRestoreSecret e C t) d)"

fun memoryCall :: "codec \<Rightarrow> env \<Rightarrow> secretCall \<Rightarrow> Store \<Rightarrow> secretAnswer \<times> Store" where
  "memoryCall C e (CallSet n q) s = answer ASecret (SetSecret e n q s)"
| "memoryCall C e (CallGet n v) s = answer ASecret (GetSecret s n v, s)"
| "memoryCall C e (CallList m t) s = answer ASecrets (ListSecrets s m t, s)"
| "memoryCall C e (CallVersions n m t) s = answer ASecrets (ListSecretVersions s n m t, s)"
| "memoryCall C e (CallUpdate n v q) s = answer ASecret (UpdateSecret e n v q s)"
| "memoryCall C e (CallDelete n) s = answer ADeleted (DeleteSecret e n s)"
| "memoryCall C e (CallListDeleted m t) s = answer ADeletedSecrets (ListDeletedSecrets s m t, s)"
| "memoryCall C e (CallGetDeleted n) s = answer ADeleted (GetDeletedSecret s n, s)"
| "memoryCall C e (CallPurge n) s = answer ADone (PurgeDeletedSecret n s)"
| "memoryCall C e (CallRecover n) s = answer ASecret (RecoverDeletedSecret n s)"
| "memoryCall C e (CallBackup n) s = answer ABlob (BackupSecret C s n, s)"
| "memoryCall C e (CallRestore t) s = answer ASecret (RestoreSecret C t s)"

text \<open>
  What a call may assume: text that JSON leaves alone, random bytes, a version that is new and a
  clock that has moved since the last row of the name, and no overflow of that clock.
\<close>

fun callOk :: "codec \<Rightarrow> sqlenv \<Rightarrow> secretCall \<Rightarrow> SQLStore \<Rightarrow> bool" where
  "callOk C e (CallSet n q) d = (case newVersion (sq_env e) of Inl _ \<Rightarrow> False | Inr v \<Rightarrow>
     freshRow d n v (sq_nano e) \<and> text_ok (ss_Value q) \<and> text_ok (ss_ContentType q) \<and> tags_text (ss_Tags q))"
| "callOk C e (CallUpdate n v q) d = updateText q"
| "callOk C e (CallDelete n) d = is_ok (newVersion (sq_env e))"
| "callOk C e (CallRecover n) d = roomToRecover d n"
| "callOk C e (CallRestore t) d = backupText C t"
| "callOk C e _ d = True"

definition sqlCalls :: "codec \<Rightarrow> (sqlenv \<times> secretCall) list \<Rightarrow> SQLStore \<Rightarrow> secretAnswer list \<times> SQLStore" where
  "sqlCalls C = runCalls (\<lambda>c. sqlCall C (fst c) (snd c))"

definition memoryCalls :: "codec \<Rightarrow> (sqlenv \<times> secretCall) list \<Rightarrow> Store \<Rightarrow> secretAnswer list \<times> Store" where
  "memoryCalls C = runCalls (\<lambda>c. memoryCall C (sq_env (fst c)) (snd c))"

definition callsOk :: "codec \<Rightarrow> (sqlenv \<times> secretCall) list \<Rightarrow> SQLStore \<Rightarrow> bool" where
  "callsOk C = allCalls (\<lambda>c. callOk C (fst c) (snd c)) (\<lambda>c. sqlCall C (fst c) (snd c))"

lemma sqlCall_simulates:
  assumes rel: "secretsRel d s" and e: "calmSql e" and ok: "callOk C e c d"
  shows "fst (sqlCall C e c d) = fst (memoryCall C (sq_env e) c s) \<and>
    secretsRel (snd (sqlCall C e c d)) (snd (memoryCall C (sq_env e) c s))"
proof (cases c)
  case (CallSet n q)
  then obtain v where "newVersion (sq_env e) = Inr v"
    using ok by (auto split: sum.split_asm)
  then show ?thesis
    using CallSet ok sqlSetSecret_run [OF rel e, of v n q] by (simp add: simulates_def)
next
  case (CallDelete n)
  then obtain v where "newVersion (sq_env e) = Inr v"
    using ok by (cases "newVersion (sq_env e)") auto
  then show ?thesis
    using CallDelete sqlDeleteSecret_run [OF rel e, of v n] by (simp add: simulates_def)
next
  case (CallUpdate n v q)
  then show ?thesis
    using ok sqlUpdateSecret_run [OF rel e] by (simp add: simulates_def)
next
  case (CallRecover n)
  then show ?thesis
    using ok sqlRecoverDeletedSecret_run [OF rel e] by (simp add: simulates_def)
next
  case (CallRestore t)
  then show ?thesis
    using ok sqlRestoreSecret_run [OF rel e] by (simp add: simulates_def)
next
  case (CallPurge n)
  then show ?thesis
    using sqlPurgeDeletedSecret_run [OF rel e] by (simp add: simulates_def)
qed (use rel e in \<open>simp_all add: sqlGetSecret_def getSecretVersionRow_run sqlListSecrets_run sqlListSecretVersions_run
    sqlListDeletedSecrets_run sqlGetDeletedSecret_run sqlBackupSecret_run\<close>)

lemma sqlCalls_simulate:
  assumes "secretsRel d s" "\<forall>c \<in> set cs. calmSql (fst c)" "callsOk C cs d"
  shows "fst (sqlCalls C cs d) = fst (memoryCalls C cs s)"
  unfolding sqlCalls_def memoryCalls_def
  by (rule conjunct1 [OF runCalls_simulate [where R = secretsRel and ok = "\<lambda>c. callOk C (fst c) (snd c)"]])
    (use assms sqlCall_simulates in \<open>simp_all add: callsOk_def\<close>)

definition sampleSqlEnv :: "env \<Rightarrow> int \<Rightarrow> sqlenv" where
  "sampleSqlEnv e t = \<lparr>sq_env = e, sq_nano = t, sq_fault = (\<lambda>_. None)\<rparr>"

definition sampleSet :: SecretSetRequest where
  "sampleSet = \<lparr>ss_Value = ''v'', ss_ContentType = [], ss_Attributes = None, ss_Tags = None\<rparr>"

definition sampleRow :: "byte \<Rightarrow> int \<Rightarrow> int \<Rightarrow> secretRow" where
  "sampleRow b now ts = \<lparr>rs_Name = ''a'', rs_Version = hexEncode (replicate 16 b), rs_Value = ''v'', rs_ContentType = [],
     rs_Attributes = Inr (buildAttributes None now now), rs_Tags = Inr None, rs_CreatedAt = ts\<rparr>"

definition sampleRows :: "secretRow list" where
  "sampleRows = [sampleRow 7 1700000000 1, sampleRow 9 1700000100 2]"

definition sampleSql :: "secretRow list \<Rightarrow> SQLStore" where
  "sampleSql rows = NewSQLStore\<lparr>kv_secrets := rows\<rparr>"

definition sampleCalls :: "(sqlenv \<times> secretCall) list" where
  "sampleCalls =
     [(sampleSqlEnv sampleEnv 1, CallSet ''a'' sampleSet), (sampleSqlEnv sampleEnv2 2, CallSet ''a'' sampleSet),
      (sampleSqlEnv sampleEnv 3, CallDelete ''a''), (sampleSqlEnv sampleEnv 4, CallRecover ''a''),
      (sampleSqlEnv sampleEnv 5, CallList 25 [])]"

lemma sampleVersions:
  "newVersion sampleEnv = Inr (hexEncode (replicate 16 7))" "newVersion sampleEnv2 = Inr (hexEncode (replicate 16 9))"
  by (simp_all add: newVersion_def sampleEnv_def sampleEnv2_def)

lemma sampleEnv_now: "env_now sampleEnv = 1700000000" "env_now sampleEnv2 = 1700000100"
  by (simp_all add: sampleEnv_def sampleEnv2_def)

lemma marshalAttrs_text: "attrs_text a \<Longrightarrow> marshalAttrs a = Inr a"
  by (simp add: marshalAttrs_def attrs_text_def text_ok_def)

lemma sampleSqlEnv_calm: "calmSql (sampleSqlEnv e t)" "sq_env (sampleSqlEnv e t) = e" "sq_nano (sampleSqlEnv e t) = t"
  by (simp_all add: sampleSqlEnv_def calmSql_def)

lemma sampleSet_run:
  "snd (sqlCall C (sampleSqlEnv sampleEnv 1) (CallSet ''a'' sampleSet) NewSQLStore) = sampleSql [hd sampleRows]"
  "snd (sqlCall C (sampleSqlEnv sampleEnv2 2) (CallSet ''a'' sampleSet) (sampleSql [hd sampleRows])) =
     sampleSql sampleRows"
  by (simp_all add: sqlSetSecret_def sqlSetCheck_def sqlSetInsert_def sql_run sampleSqlEnv_calm checkNotDeleted_run insertSecretRow_run sampleVersions
      sampleSet_def sampleSql_def NewSQLStore_def sampleRows_def sampleRow_def goneRowOf_def Let_def rowOfRecord_def
      marshalAttrs_text marshalTags_def sampleEnv_now textTags_def del: hexEncode.simps)

lemma sampleSet_text:
  "text_ok (ss_Value sampleSet)" "text_ok (ss_ContentType sampleSet)" "tags_text (ss_Tags sampleSet)"
  by code_simp+

lemma sampleSet_ok:
  "callOk C (sampleSqlEnv sampleEnv 1) (CallSet ''a'' sampleSet) NewSQLStore"
  "callOk C (sampleSqlEnv sampleEnv2 2) (CallSet ''a'' sampleSet) (sampleSql [hd sampleRows])"
proof -
  note req = sampleSet_text
  show "callOk C (sampleSqlEnv sampleEnv 1) (CallSet ''a'' sampleSet) NewSQLStore"
    using req by (simp add: sampleSqlEnv_calm sampleVersions freshRow_def NewSQLStore_def)
  show "callOk C (sampleSqlEnv sampleEnv2 2) (CallSet ''a'' sampleSet) (sampleSql [hd sampleRows])"
    using req by (simp add: sampleSqlEnv_calm sampleVersions freshRow_def sampleSql_def sampleRows_def sampleRow_def
        del: hexEncode.simps)
qed

lemma sampleSql_rel: "\<exists>s. secretsRel (sampleSql sampleRows) s"
  using sqlCall_simulates [OF secretsRel_New sampleSqlEnv_calm(1) sampleSet_ok(1)]
    sqlCall_simulates [OF _ sampleSqlEnv_calm(1) sampleSet_ok(2)]
  unfolding sampleSet_run by blast

lemma sampleSql_rows: "secretRows (sampleSql sampleRows) ''a'' = sampleRows" "deletedRowOf (sampleSql rows) n = None"
  by (simp_all add: sampleSql_def NewSQLStore_def sampleRows_def sampleRow_def rowsOf_def orderAsc_def goneRowOf_def)

lemma sampleDelete_room:
  "roomToRecover (snd (sqlCall C (sampleSqlEnv sampleEnv 3) (CallDelete ''a'') (sampleSql sampleRows))) ''a''"
proof -
  obtain s rid where rel: "secretsRel (sampleSql sampleRows) s"
    and rid: "newRecoveryID (sq_env (sampleSqlEnv sampleEnv 3)) ''secrets'' ''a'' = Inr rid"
    using sampleSql_rel by (auto simp: sampleSqlEnv_calm newRecoveryID_def sampleVersions rbind_def)
  show ?thesis
    by (simp add: sqlDeleteSecret_tables [OF rel sampleSqlEnv_calm(1) rid] sampleSql_rows)
      (simp add: roomFor_def goneRowOf_def sampleSql_def NewSQLStore_def burialRow_def sampleRows_def sampleRow_def
        jsonSecretSnapshot_def rowSnapshot_def rowsOf_def orderAsc_def)
qed

lemma sampleCalls_ok: "\<forall>c \<in> set sampleCalls. calmSql (fst c)" "callsOk C sampleCalls NewSQLStore"
proof -
  show "\<forall>c \<in> set sampleCalls. calmSql (fst c)"
    by (simp add: sampleCalls_def sampleSqlEnv_calm)
  have "is_ok (newVersion (sq_env (sampleSqlEnv sampleEnv 3)))"
    by (simp add: sampleSqlEnv_calm sampleVersions)
  then show "callsOk C sampleCalls NewSQLStore"
    using sampleSet_ok sampleDelete_room
    by (simp add: callsOk_def sampleCalls_def sampleSet_run del: sqlCall.simps callOk.simps(1))
qed



end
