(* ===== verification/KV_Sql_Faults.thy ===== *)
theory KV_Sql_Faults
  imports KV_Sql_Theorems
begin

text \<open>
  What the SQL store leaves behind when a statement of a call fails: there is no transaction around
  the statements of a call.
\<close>

section \<open>Tables and stores\<close>

text \<open>Tables in order stand for some store in memory.\<close>

definition storeOf :: "SQLStore \<Rightarrow> Store" where
  "storeOf d = New\<lparr>st_secrets := map (\<lambda>n. (n, map rowSecret (secretRows d n))) (distinctNames rs_Name (kv_secrets d)),
     st_deletedSecrets := map (\<lambda>r. (rd_Name r, absDeletedRow r)) (kv_deleted_secrets d)\<rparr>"

lemma map_of_firstRow: "map_of (map (\<lambda>r. (f r, g r)) rs) n = map_option g (firstRow (filter (\<lambda>r. f r = n) rs))"
  by (induction rs) (simp_all add: firstRow_def)

lemma map_of_graph: "map_of (map (\<lambda>n. (n, g n)) ns) n = (if n \<in> set ns then Some (g n) else None)"
  by (induction ns) simp_all

lemma secretsRel_storeOf:
  assumes "secretTables_ok d"
  shows "secretsRel d (storeOf d)"
proof (rule secretsRelI)
  have names: "set (distinctNames rs_Name (kv_secrets d)) = rs_Name ` set (kv_secrets d)"
    "distinct (distinctNames rs_Name (kv_secrets d))"
    by (simp_all add: distinctNames_def)
  show "map_ok (st_secrets (storeOf d))" "map_ok (st_deletedSecrets (storeOf d))"
    using assms names(2) by (simp_all add: storeOf_def map_ok_def comp_def secretTables_ok_def)
  show "map_of (st_secrets (storeOf d)) n = absSecrets d n" for n
    by (auto simp: storeOf_def map_of_graph names(1) absSecrets_def rowsOf_Nil_iff)
  show "map_of (st_deletedSecrets (storeOf d)) n = map_option absDeletedRow (deletedRowOf d n)" for n
    by (simp add: storeOf_def map_of_firstRow goneRowOf_def)
qed (rule assms)

section \<open>A deletion that stops half-way\<close>

lemma query_at: "sq_fault e i = None \<Longrightarrow> query e f (i, d) = (Inr (f d), Suc i, d)"
  by (simp add: query_def stmt_def)

lemma getSecretVersionRow_at:
  assumes rel: "secretsRel d s" and ok: "sq_fault e i = None"
  shows "getSecretVersionRow e n v (i, d) = (GetSecret s n v, Suc i, d)"
proof -
  let ?e = "e\<lparr>sq_fault := \<lambda>_. None\<rparr>"
  have "runSql (getSecretVersionRow ?e n v) d = (GetSecret s n v, d)"
    by (rule getSecretVersionRow_run [OF rel]) (simp add: calmSql_def)
  then show ?thesis
    using ok by (auto simp: getSecretVersionRow_def qbind_def query_at runSql_def qlift_def split: option.splits)
qed

lemma allSecretVersionSnapshots_at:
  assumes rel: "secretsRel d s" and ok: "sq_fault e i = None"
  shows "allSecretVersionSnapshots e n (i, d) = (Inr (map rowSnapshot (secretRows d n)), Suc i, d)"
proof -
  let ?e = "e\<lparr>sq_fault := \<lambda>_. None\<rparr>"
  have "runSql (allSecretVersionSnapshots ?e n) d = (Inr (map rowSnapshot (secretRows d n)), d)"
    by (rule allSecretVersionSnapshots_run [OF rel]) (simp add: calmSql_def)
  then show ?thesis
    using ok by (auto simp: allSecretVersionSnapshots_def qbind_def query_at runSql_def qlift_def)
qed

text \<open>The failure of the fifth statement, the deletion of the live rows.\<close>

lemma tornDelete_tables:
  assumes rel: "secretsRel d s" and n: "secretRows d n \<noteq> []" "deletedRowOf d n = None"
    and e: "sq_fault e = (\<lambda>i. if i = 4 then Some err else None)" "newRecoveryID (sq_env e) ''secrets'' n = Inr rid"
  shows "runSql (sqlDeleteSecret e n) d = (Inl err, d\<lparr>kv_deleted_secrets := kv_deleted_secrets d @ [burialRow e n rid d]\<rparr>)"
proof -
  have "\<not> (\<exists>r \<in> set (kv_deleted_secrets d). rd_Name r = n)" "countName rd_Name n (kv_deleted_secrets d) = 0"
    using goneRowOf_count [where rows = "kv_deleted_secrets d" and n = n] n(2) by auto
  then show ?thesis
    using n(1) e
    by (simp add: runSql_def sqlDeleteSecret_def qbind_def [where m = "getSecretVersionRow e n []"]
        getSecretVersionRow_at [OF rel] GetSecret_latest [OF rel])
      (simp add: qbind_def query_at allSecretVersionSnapshots_at [OF rel] Let_def qlift_def insertDB_def execDB_def
        stmt_def burialRow_def)
qed

lemma buried_rel:
  assumes rel: "secretsRel d s" and n: "secretRows d n \<noteq> []" "deletedRowOf d n = None"
  obtains s' where "secretsRel (d\<lparr>kv_deleted_secrets := kv_deleted_secrets d @ [burialRow e n rid d]\<rparr>) s'"
proof -
  have "map_of (st_secrets s) n = Some (map rowSecret (secretRows d n))" "map_of (st_deletedSecrets s) n = None"
    using n secretsRelD(7,8) [OF rel, of n] by (simp_all add: absSecrets_def)
  from secretsRel_bury [OF rel this] show thesis
    by (rule that)
qed

lemma deletedRowOf_bury:
  "deletedRowOf d n = None \<Longrightarrow> rd_Name r = n \<Longrightarrow>
     deletedRowOf (d\<lparr>kv_deleted_secrets := kv_deleted_secrets d @ [r]\<rparr>) n = Some r"
  by (simp add: goneRowOf_def firstRow_append)

text \<open>A secret that is live and deleted at once is stuck.\<close>

lemma stuck_secret:
  assumes rel: "secretsRel d s" and n: "secretRows d n \<noteq> []" "deletedRowOf d n = Some row" "n \<noteq> []" "ss_Value q \<noteq> []"
    and e: "calmSql e" "is_ok (newVersion (sq_env e))"
  shows "is_ok (fst (runSql (sqlGetSecret e n []) d))" "is_ok (fst (runSql (sqlGetDeletedSecret e n) d))"
    "runSql (sqlDeleteSecret e n) d = (Inl (secretNotFound n), d)"
    "runSql (sqlRecoverDeletedSecret e n) d = (Inl (newError 409 ''Conflict'' (''Secret '' @ n @ '' already exists.'')), d)"
    "runSql (sqlSetSecret e n q) d = (Inl (newError 409 ''InvalidOperation'' (''Secret '' @ n @
      '' is currently deleted and cannot be reused until recovered or purged.'')), d)"
proof -
  note reads = indep_reads [OF e(1)]
  obtain rid where rid: "newRecoveryID (sq_env e) ''secrets'' n = Inr rid"
    using e(2) by (cases "newVersion (sq_env e)") (simp_all add: newRecoveryID_def)
  have row: "payload_ok row"
    using goneRowOf_Some [OF n(2)] secretsRelD(4) [OF rel] by blast
  show "is_ok (fst (runSql (sqlGetSecret e n []) d))"
    using n(1) e(1) by (simp add: sqlGetSecret_def getSecretVersionRow_run [OF rel] GetSecret_latest [OF rel])
  show "is_ok (fst (runSql (sqlGetDeletedSecret e n) d))"
    using e(1) n(2) row
    by (auto simp: sqlGetDeletedSecret_def sql_run getDeletedSecretRow_run goneRow_ok_def deletedSecretFromRow_def rbind_def)
  show "runSql (sqlDeleteSecret e n) d = (Inl (secretNotFound n), d)"
    using sqlDeleteSecret_tables [OF rel e(1) rid] n(1,2) by simp
  have "0 < countName rs_Name n (kv_secrets d)"
    using n(1) unfolding rowsOf_Nil_iff countName_zero [symmetric] by simp
  then show "runSql (sqlRecoverDeletedSecret e n) d =
      (Inl (newError 409 ''Conflict'' (''Secret '' @ n @ '' already exists.'')), d)"
    using e(1) reads by (simp add: sqlRecoverDeletedSecret_def sql_run)
  show "runSql (sqlSetSecret e n q) d = (Inl (newError 409 ''InvalidOperation'' (''Secret '' @ n @
      '' is currently deleted and cannot be reused until recovered or purged.'')), d)"
    using n(2-4) e(1) reads
    by (simp add: sqlSetSecret_def sqlSetCheck_def sqlSetInsert_def sql_run Let_def checkNotDeleted_run)
qed

text \<open>
  C36: Deleting a secret in the SQL store is not atomic. When the last statement of DeleteSecret
  fails (the removal of the live rows), the call fails but the secret is live and deleted at once:
  it is read in both places, it can be neither deleted nor recovered nor set, and only purging the
  copy brings the tables back.
\<close>

theorem torn_delete:
  assumes "secretTables_ok d" "secretRows d n \<noteq> []" "deletedRowOf d n = None" "n \<noteq> []"
    and "sq_fault e = (\<lambda>i. if i = 4 then Some err else None)" "is_ok (newVersion (sq_env e))"
    and "runSql (sqlDeleteSecret e n) d = (r, d1)"
    and "calmSql e'" "is_ok (newVersion (sq_env e'))" "ss_Value q \<noteq> []"
  shows "r = Inl err \<and> is_ok (fst (runSql (sqlGetSecret e' n []) d1)) \<and>
    is_ok (fst (runSql (sqlGetDeletedSecret e' n) d1)) \<and>
    runSql (sqlDeleteSecret e' n) d1 = (Inl (secretNotFound n), d1) \<and>
    runSql (sqlRecoverDeletedSecret e' n) d1 =
      (Inl (newError 409 ''Conflict'' (''Secret '' @ n @ '' already exists.'')), d1) \<and>
    runSql (sqlSetSecret e' n q) d1 = (Inl (newError 409 ''InvalidOperation'' (''Secret '' @ n @
      '' is currently deleted and cannot be reused until recovered or purged.'')), d1) \<and>
    runSql (sqlPurgeDeletedSecret e' n) d1 = (Inr (), d)"
proof -
  have rel: "secretsRel d (storeOf d)"
    using assms(1) by (rule secretsRel_storeOf)
  obtain rid where rid: "newRecoveryID (sq_env e) ''secrets'' n = Inr rid"
    using assms(6) by (cases "newVersion (sq_env e)") (simp_all add: newRecoveryID_def)
  define row where "row = burialRow e n rid d"
  have row: "rd_Name row = n"
    by (simp add: row_def burialRow_def)
  have d1: "r = Inl err" "d1 = d\<lparr>kv_deleted_secrets := kv_deleted_secrets d @ [row]\<rparr>"
    using tornDelete_tables [OF rel assms(2,3,5) rid] assms(7) by (simp_all add: row_def)
  obtain s1 where rel1: "secretsRel d1 s1"
    unfolding d1 row_def by (rule buried_rel [OF rel assms(2,3)])
  have rows1: "secretRows d1 n = secretRows d n" "deletedRowOf d1 n = Some row"
    using deletedRowOf_bury [OF assms(3) row] by (simp_all add: d1(2))
  have "secretRows d1 n \<noteq> []"
    using assms(2) rows1(1) by simp
  note stuck = stuck_secret [OF rel1 this rows1(2) assms(4,10,8,9)]
  have "filter (\<lambda>r. rd_Name r \<noteq> n) (kv_deleted_secrets d @ [row]) = kv_deleted_secrets d"
    using assms(3) row by (simp add: goneRowOf_None)
  then have purge: "runSql (sqlPurgeDeletedSecret e' n) d1 = (Inr (), d)"
    using assms(8) rows1(2) indep_reads [OF assms(8)]
    by (simp add: sqlPurgeDeletedSecret_def sql_run getDeletedSecretRow_run purgeSecretRow_def d1(2))
  show ?thesis
    using d1(1) stuck purge by blast
qed

definition tornEnv :: sqlenv where
  "tornEnv = \<lparr>sq_env = sampleEnv, sq_nano = 3, sq_fault = (\<lambda>i. if i = 4 then Some (PlainErr ''disk I/O error'') else None)\<rparr>"

theorem torn_delete_witness:
  "fst (runSql (sqlDeleteSecret tornEnv ''a'') (sampleSql sampleRows)) = Inl (PlainErr ''disk I/O error'')"
proof -
  obtain s where "secretsRel (sampleSql sampleRows) s"
    using sampleSql_rel by blast
  then have tables: "secretTables_ok (sampleSql sampleRows)"
    by (simp add: secretsRel_def)
  have rows: "secretRows (sampleSql sampleRows) ''a'' \<noteq> []" "deletedRowOf (sampleSql sampleRows) ''a'' = None"
    unfolding sampleSql_rows by (simp_all add: sampleRows_def)
  have e: "sq_fault tornEnv = (\<lambda>i. if i = 4 then Some (PlainErr ''disk I/O error'') else None)"
    "is_ok (newVersion (sq_env tornEnv))" "is_ok (newVersion (sq_env (sampleSqlEnv sampleEnv2 4)))"
    by (simp_all add: tornEnv_def sampleSqlEnv_calm sampleVersions)
  obtain r d1 where "runSql (sqlDeleteSecret tornEnv ''a'') (sampleSql sampleRows) = (r, d1)"
    by fastforce
  with torn_delete [OF tables rows _ e(1,2) this sampleSqlEnv_calm(1) e(3), of sampleSet] show ?thesis
    by (simp add: sampleSet_def)
qed

section \<open>A restore that stops half-way\<close>

lemma insertAll_rows:
  assumes "calmSql e"
  shows "runSql (qeach (\<lambda>i x. insertSecretRow e (f x) (g i x)) k xs) d = (r, d') \<Longrightarrow>
    kv_deleted_secrets d' = kv_deleted_secrets d \<and>
    (\<forall>row \<in> set (kv_secrets d'). row \<in> set (kv_secrets d) \<or> (\<exists>x \<in> set xs. \<exists>t. row = rowOfRecord (f x) t)) \<and>
    set (kv_secrets d) \<subseteq> set (kv_secrets d') \<and>
    (is_ok r \<longrightarrow> distinct (map (\<lambda>x. (sr_Name (f x), sr_Version (f x))) xs) \<and>
       (\<forall>x \<in> set xs. \<forall>row \<in> set (kv_secrets d). (rs_Name row, rs_Version row) \<noteq> (sr_Name (f x), sr_Version (f x))))"
proof (induction xs arbitrary: k d)
  case (Cons x xs)
  show ?case
  proof (cases "\<exists>row \<in> set (kv_secrets d). rs_Name row = sr_Name (f x) \<and> rs_Version row = sr_Version (f x)")
    case True
    then show ?thesis
      using Cons.prems assms indep_reads [OF assms] by (auto simp: sql_run insertSecretRow_run indep_qeach)
  next
    case False
    let ?d = "d\<lparr>kv_secrets := kv_secrets d @ [rowOfRecord (f x) (g k x)]\<rparr>"
    have run: "runSql (qeach (\<lambda>i x. insertSecretRow e (f x) (g i x)) (Suc k) xs) ?d = (r, d')"
      using Cons.prems False assms indep_reads [OF assms] by (simp add: sql_run insertSecretRow_run indep_qeach)
    from Cons.IH [OF this] have IH: "kv_deleted_secrets d' = kv_deleted_secrets d"
      "\<forall>row \<in> set (kv_secrets d'). row \<in> set (kv_secrets ?d) \<or> (\<exists>x \<in> set xs. \<exists>t. row = rowOfRecord (f x) t)"
      "set (kv_secrets ?d) \<subseteq> set (kv_secrets d')"
      "is_ok r \<longrightarrow> distinct (map (\<lambda>x. (sr_Name (f x), sr_Version (f x))) xs) \<and>
       (\<forall>x \<in> set xs. \<forall>row \<in> set (kv_secrets ?d). (rs_Name row, rs_Version row) \<noteq> (sr_Name (f x), sr_Version (f x)))"
      by simp_all
    have "\<forall>row \<in> set (kv_secrets d'). row \<in> set (kv_secrets d) \<or> (\<exists>y \<in> set (x # xs). \<exists>t. row = rowOfRecord (f y) t)"
      using IH(2) by fastforce
    moreover have "is_ok r \<longrightarrow> distinct (map (\<lambda>x. (sr_Name (f x), sr_Version (f x))) (x # xs)) \<and>
       (\<forall>y \<in> set (x # xs). \<forall>row \<in> set (kv_secrets d). (rs_Name row, rs_Version row) \<noteq> (sr_Name (f y), sr_Version (f y)))"
      using IH(4) False by (auto simp: image_iff)
    ultimately show ?thesis
      using IH(1,3) by simp
  qed
qed (use assms in \<open>simp add: sql_run\<close>)

lemma selectVersion_none:
  "v \<noteq> [] \<Longrightarrow> \<forall>r \<in> set rows. nameOf r = n \<longrightarrow> versionOf r \<noteq> v \<Longrightarrow> selectVersion nameOf versionOf created n v rows = None"
  by (auto simp: selectVersion_def filter_empty_conv)

text \<open>
  C37: Restoring a secret in the SQL store deletes the live and the deleted versions of the name
  before it inserts those of the backup. A backup in which two versions have the same id, which the
  in-memory store accepts, fails at the primary key: the call fails, and every version that was
  stored under the name is lost.
\<close>

theorem failed_restore_loses_secret:
  assumes "calmSql e" "stdDecode token = Some raw" "cd_unmarshal C raw = Inr b" "bk_Name b \<noteq> []"
    and "\<not> distinct (map sr_Version (bk_Versions b))" "runSql (sqlRestoreSecret e C token) d = (r, d')"
    and "v \<noteq> []" "v \<notin> sr_Version ` set (bk_Versions b)"
  shows "\<not> is_ok r \<and> fst (runSql (sqlGetSecret e (bk_Name b) v) d') = Inl (secretNotFound (bk_Name b)) \<and>
    fst (runSql (sqlGetDeletedSecret e (bk_Name b)) d') = Inl (deletedSecretNotFound (bk_Name b)) \<and>
    is_ok (fst (RestoreSecret C token s))"
proof -
  let ?n = "bk_Name b" and ?vs = "bk_Versions b"
  let ?f = "\<lambda>x. x\<lparr>sr_Name := ?n, sr_Attributes := (sr_Attributes x)\<lparr>RecoveryLevel := recoveryLevel,
      RecoverableDays := recoverableDays\<rparr>\<rparr>"
  define d1 where "d1 = d\<lparr>kv_secrets := filter (\<lambda>r. rs_Name r \<noteq> ?n) (kv_secrets d),
     kv_deleted_secrets := filter (\<lambda>r. rd_Name r \<noteq> ?n) (kv_deleted_secrets d)\<rparr>"
  have ne: "?vs \<noteq> []"
    using assms(5) by auto
  obtain r1 d2 where loop: "runSql (qeach (\<lambda>i x. insertSecretRow e (?f x) (int i)) 0 ?vs) d1 = (r1, d2)"
    by fastforce
  note all = insertAll_rows [OF assms(1), of ?f "\<lambda>i x. int i", OF loop]
  have "distinct (map sr_Version ?vs)" if "distinct (map (\<lambda>x. (sr_Name (?f x), sr_Version (?f x))) ?vs)"
    using that by (simp add: distinct_map inj_on_def)
  then have r1: "\<not> is_ok r1"
    using all assms(5) by blast
  then obtain err where err: "r1 = Inl err"
    by (cases r1) auto
  have "runSql (sqlRestoreSecret e C token) d = (Inl err, d2)"
    using assms(1-4) ne loop indep_reads [OF assms(1)] unfolding err d1_def
    by (simp add: sqlRestoreSecret_def sql_run purgeSecretRow_def)
  then have res: "r = Inl err" "d' = d2"
    using assms(6) by simp_all
  have "rs_Version row \<in> sr_Version ` set ?vs" if "row \<in> set (kv_secrets d2)" "rs_Name row = ?n" for row
    using all that by (fastforce simp: d1_def)
  then have "selectVersion rs_Name rs_Version rs_CreatedAt ?n v (kv_secrets d') = None"
    using assms(7,8) res(2) by (intro selectVersion_none) auto
  moreover have "deletedRowOf d' ?n = None"
    using all res(2) by (auto simp: goneRowOf_None d1_def)
  moreover have "is_ok (fst (RestoreSecret C token s))"
    using assms(2-4) ne by (simp add: RestoreSecret_def latestSecretRecord_def ofOption_def Let_def)
  ultimately show ?thesis
    using assms(1) res(1) indep_reads [OF assms(1)]
    by (simp add: sqlGetSecret_def getSecretVersionRow_def sqlGetDeletedSecret_def getDeletedSecretRow_run sql_run)
qed

definition twinBackup :: secretBackup where
  "twinBackup = \<lparr>bk_Name = ''a'', bk_Versions = replicate 2 \<lparr>sr_Name = ''a'', sr_Version = ''x'', sr_Value = ''w'',
     sr_ContentType = [], sr_Attributes = buildAttributes None 0 0, sr_Tags = None\<rparr>\<rparr>"

definition twinCodec :: codec where
  "twinCodec = \<lparr>cd_marshal = (\<lambda>_. Inr []), cd_unmarshal = (\<lambda>_. Inr twinBackup)\<rparr>"

theorem failed_restore_loses_secret_witness:
  "\<not> is_ok (fst (runSql (sqlRestoreSecret (sampleSqlEnv sampleEnv 3) twinCodec []) (sampleSql sampleRows)))"
proof -
  have token: "stdDecode [] = Some []"
    by code_simp
  have twin: "cd_unmarshal twinCodec [] = Inr twinBackup" "bk_Name twinBackup \<noteq> []"
    "\<not> distinct (map sr_Version (bk_Versions twinBackup))" "''y'' \<notin> sr_Version ` set (bk_Versions twinBackup)"
    by (simp_all add: twinCodec_def twinBackup_def numeral_2_eq_2)
  obtain r d' where run: "runSql (sqlRestoreSecret (sampleSqlEnv sampleEnv 3) twinCodec []) (sampleSql sampleRows) = (r, d')"
    by fastforce
  from failed_restore_loses_secret [OF sampleSqlEnv_calm(1) token twin(1-3) run _ twin(4)] run show ?thesis
    by simp
qed

section \<open>A deletion between the check and the insertion\<close>

lemma rowsOf_snoc_only:
  assumes "\<forall>r \<in> set rows. nameOf r \<noteq> n" "nameOf y = n"
  shows "rowsOf nameOf created n (rows @ [y]) = [y]"
proof -
  have "filter (\<lambda>r. nameOf r = n) rows = []"
    using assms(1) by (simp add: filter_empty_conv)
  then show ?thesis
    using assms(2) by (simp add: rowsOf_def orderAsc_def)
qed

text \<open>
  C40: Setting a secret in the SQL store checks that the name is not deleted and then inserts the new
  version, with no lock or transaction around the two. If a deletion of the secret runs in between,
  both calls succeed, and the secret is live (with the new version only) and deleted at once: it can
  be neither deleted nor recovered nor set.
\<close>

theorem set_races_with_delete:
  assumes "secretTables_ok d" "secretRows d n \<noteq> []" "deletedRowOf d n = None" "n \<noteq> []" "ss_Value q \<noteq> []"
    and "calmSql e1" "newVersion (sq_env e1) = Inr v" "calmSql e2" "is_ok (newVersion (sq_env e2))"
    and "text_ok (ss_Value q)" "text_ok (ss_ContentType q)" "tags_text (ss_Tags q)"
    and "runSql (sqlDeleteSecret e2 n) d = (r, d1)" "runSql (sqlSetInsert e1 n q) d1 = (r', d2)"
  shows "runSql (sqlSetCheck e1 n q) d = (Inr (), d) \<and> is_ok r \<and> is_ok r' \<and>
    map rs_Version (secretRows d2 n) = [v] \<and>
    is_ok (fst (runSql (sqlGetDeletedSecret e2 n) d2)) \<and>
    runSql (sqlDeleteSecret e2 n) d2 = (Inl (secretNotFound n), d2) \<and>
    runSql (sqlRecoverDeletedSecret e2 n) d2 =
      (Inl (newError 409 ''Conflict'' (''Secret '' @ n @ '' already exists.'')), d2) \<and>
    runSql (sqlSetSecret e2 n q) d2 = (Inl (newError 409 ''InvalidOperation'' (''Secret '' @ n @
      '' is currently deleted and cannot be reused until recovered or purged.'')), d2)"
proof -
  have rel: "secretsRel d (storeOf d)"
    using assms(1) by (rule secretsRel_storeOf)
  obtain w where w: "newVersion (sq_env e2) = Inr w"
    using assms(9) by (cases "newVersion (sq_env e2)") auto
  then obtain rid where rid: "newRecoveryID (sq_env e2) ''secrets'' n = Inr rid"
    by (simp add: newRecoveryID_def rbind_def)
  have check: "runSql (sqlSetCheck e1 n q) d = (Inr (), d)"
    using assms(3-6) by (simp add: sqlSetCheck_def checkNotDeleted_run)
  have d1: "is_ok r" "\<forall>x \<in> set (kv_secrets d1). rs_Name x \<noteq> n"
    "deletedRowOf d1 n = Some (burialRow e2 n rid d)"
    using sqlDeleteSecret_tables [OF rel assms(8) rid] assms(2,3,13)
      deletedRowOf_bury [OF assms(3), of "burialRow e2 n rid d"] by (auto simp: burialRow_def)
  obtain s1 where rel1: "secretsRel d1 s1"
    using sqlDeleteSecret_run [OF rel assms(8) w, of n] assms(13) by (auto simp: simulates_def)
  let ?r = "\<lparr>sr_Name = n, sr_Version = v, sr_Value = ss_Value q, sr_ContentType = ss_ContentType q,
     sr_Attributes = buildAttributes (ss_Attributes q) (env_now (sq_env e1)) (env_now (sq_env e1)),
     sr_Tags = cloneTags (ss_Tags q)\<rparr>"
  have text_r: "recordText ?r"
    using assms(10-12) text_ok_newVersion [OF assms(7)] by (simp add: recordText_def)
  let ?row = "rowOfRecord ?r (sq_nano e1)"
  have "indep (insertSecretRow e1 x ts)" for x ts
    by (rule indep_reads(6) [OF assms(6)])
  then have ins: "r' = Inr ?r" "d2 = d1\<lparr>kv_secrets := kv_secrets d1 @ [?row]\<rparr>"
    using assms(6,7,14) d1(2) by (auto simp: sqlSetInsert_def sql_run Let_def insertSecretRow_run)
  have rel2: "secretsRel d2 (s1\<lparr>st_secrets := appendVersion n (rowSecret ?row) (st_secrets s1)\<rparr>)"
    unfolding ins(2) using d1(2) by (intro secretsRel_insert [OF rel1 rowOfRecord_ok(1) [OF text_r]]) auto
  have rows: "secretRows d2 n = [?row]"
    unfolding ins(2) using d1(2) by (simp add: rowsOf_snoc_only)
  have gone: "deletedRowOf d2 n = Some (burialRow e2 n rid d)"
    using d1(3) ins(2) by simp
  have "secretRows d2 n \<noteq> []"
    by (simp add: rows)
  note stuck = stuck_secret [OF rel2 this gone assms(4,5,8,9)]
  have "is_ok r'" "map rs_Version (secretRows d2 n) = [v]"
    by (simp_all add: ins(1) rows)
  then show ?thesis
    using check d1(1) stuck(2-5) by (intro conjI)
qed

theorem set_races_with_delete_witness:
  "\<exists>d2. runSql (sqlDeleteSecret (sampleSqlEnv sampleEnv2 3) ''a'') d2 = (Inl (secretNotFound ''a''), d2) \<and>
    map rs_Version (secretRows d2 ''a'') = [hexEncode (replicate 16 7)]"
proof -
  let ?e1 = "sampleSqlEnv sampleEnv 4" and ?e2 = "sampleSqlEnv sampleEnv2 3"
  obtain s where "secretsRel (sampleSql sampleRows) s"
    using sampleSql_rel by blast
  then have tables: "secretTables_ok (sampleSql sampleRows)"
    by (simp add: secretsRel_def)
  have rows: "secretRows (sampleSql sampleRows) ''a'' \<noteq> []" "deletedRowOf (sampleSql sampleRows) ''a'' = None"
    unfolding sampleSql_rows by (simp_all add: sampleRows_def)
  have v: "newVersion (sq_env ?e1) = Inr (hexEncode (replicate 16 7))" "is_ok (newVersion (sq_env ?e2))"
    "ss_Value sampleSet \<noteq> []"
    by (simp_all add: sampleSqlEnv_calm sampleVersions sampleSet_def del: hexEncode.simps)
  obtain r d1 where del: "runSql (sqlDeleteSecret ?e2 ''a'') (sampleSql sampleRows) = (r, d1)"
    by fastforce
  obtain r' d2 where ins: "runSql (sqlSetInsert ?e1 ''a'' sampleSet) d1 = (r', d2)"
    by fastforce
  have "''a'' \<noteq> []"
    by simp
  note race = set_races_with_delete [OF tables rows this v(3) sampleSqlEnv_calm(1) v(1) sampleSqlEnv_calm(1) v(2)
      sampleSet_text del ins]
  show ?thesis
  proof (rule exI [of _ d2], rule conjI)
    show "runSql (sqlDeleteSecret ?e2 ''a'') d2 = (Inl (secretNotFound ''a''), d2)"
      using race by (elim conjE)
    show "map rs_Version (secretRows d2 ''a'') = [hexEncode (replicate 16 7)]"
      using race by (elim conjE)
  qed
qed

end
