(* ===== verification/KV_Rest_Agree.thy ===== *)
theory KV_Rest_Agree
  imports KV_Rest_Contract
begin

text \<open>
  When two stores of different kinds answer alike, so does the API over them. A handler makes at most
  one call that writes, and which one depends on the request alone: the recorder, a store that only
  notes the call, tells it. The locales state when two stores agree in the states that a request
  meets, for the calls that are allowed there; inside them, the responses are proved equal.
\<close>

section \<open>The call that a request makes\<close>

datatype storeWrite =
    ToSetSecret string SecretSetRequest
  | ToUpdateSecret string string SecretUpdateRequest
  | ToDeleteSecret string
  | ToPurgeDeletedSecret string
  | ToRecoverDeletedSecret string
  | ToRestoreSecret string
  | ToCreateKey string CreateKeyRequest
  | ToImportKey string ImportKeyRequest
  | ToUpdateKey string string UpdateKeyRequest
  | ToDeleteKey string
  | ToPurgeDeletedKey string
  | ToRecoverDeletedKey string
  | ToCreateCertificate string CreateCertificateRequest
  | ToImportCertificate string ImportCertificateRequest
  | ToUpdateCertificate string string UpdateCertificateRequest
  | ToUpdateCertificatePolicy string "CertificatePolicy option"
  | ToDeleteCertificate string
  | ToPurgeDeletedCertificate string
  | ToRecoverDeletedCertificate string

definition unanswered :: goerr where
  "unanswered = PlainErr []"

definition recorder :: "storeWrite option Storer" where
  "recorder = \<lparr>
     so_SetSecret = (\<lambda>n q _. (Inl unanswered, Some (ToSetSecret n q))),
     so_GetSecret = (\<lambda>_ _ _. Inl unanswered),
     so_ListSecrets = (\<lambda>_ _ _. Inl unanswered),
     so_ListSecretVersions = (\<lambda>_ _ _ _. Inl unanswered),
     so_UpdateSecret = (\<lambda>n v q _. (Inl unanswered, Some (ToUpdateSecret n v q))),
     so_DeleteSecret = (\<lambda>n _. (Inl unanswered, Some (ToDeleteSecret n))),
     so_ListDeletedSecrets = (\<lambda>_ _ _. Inl unanswered),
     so_GetDeletedSecret = (\<lambda>_ _. Inl unanswered),
     so_PurgeDeletedSecret = (\<lambda>n _. (Inl unanswered, Some (ToPurgeDeletedSecret n))),
     so_RecoverDeletedSecret = (\<lambda>n _. (Inl unanswered, Some (ToRecoverDeletedSecret n))),
     so_BackupSecret = (\<lambda>_ _. Inl unanswered),
     so_RestoreSecret = (\<lambda>t _. (Inl unanswered, Some (ToRestoreSecret t))),
     so_CreateKey = (\<lambda>n q _. (Inl unanswered, Some (ToCreateKey n q))),
     so_ImportKey = (\<lambda>n q _. (Inl unanswered, Some (ToImportKey n q))),
     so_GetKey = (\<lambda>_ _ _. Inl unanswered),
     so_ListKeys = (\<lambda>_ _ _. Inl unanswered),
     so_ListKeyVersions = (\<lambda>_ _ _ _. Inl unanswered),
     so_UpdateKey = (\<lambda>n v q _. (Inl unanswered, Some (ToUpdateKey n v q))),
     so_DeleteKey = (\<lambda>n _. (Inl unanswered, Some (ToDeleteKey n))),
     so_ListDeletedKeys = (\<lambda>_ _ _. Inl unanswered),
     so_GetDeletedKey = (\<lambda>_ _. Inl unanswered),
     so_PurgeDeletedKey = (\<lambda>n _. (Inl unanswered, Some (ToPurgeDeletedKey n))),
     so_RecoverDeletedKey = (\<lambda>n _. (Inl unanswered, Some (ToRecoverDeletedKey n))),
     so_Encrypt = (\<lambda>_ _ _ _. Inl unanswered),
     so_Decrypt = (\<lambda>_ _ _ _. Inl unanswered),
     so_Sign = (\<lambda>_ _ _ _. Inl unanswered),
     so_Verify = (\<lambda>_ _ _ _. Inl unanswered),
     so_WrapKey = (\<lambda>_ _ _ _. Inl unanswered),
     so_UnwrapKey = (\<lambda>_ _ _ _. Inl unanswered),
     so_CreateCertificate = (\<lambda>n q _. (Inl unanswered, Some (ToCreateCertificate n q))),
     so_ImportCertificate = (\<lambda>n q _. (Inl unanswered, Some (ToImportCertificate n q))),
     so_GetCertificate = (\<lambda>_ _ _. Inl unanswered),
     so_ListCertificates = (\<lambda>_ _ _. Inl unanswered),
     so_ListCertificateVersions = (\<lambda>_ _ _ _. Inl unanswered),
     so_UpdateCertificate = (\<lambda>n v q _. (Inl unanswered, Some (ToUpdateCertificate n v q))),
     so_GetCertificatePolicy = (\<lambda>_ _. Inl unanswered),
     so_UpdateCertificatePolicy = (\<lambda>n p _. (Inl unanswered, Some (ToUpdateCertificatePolicy n p))),
     so_GetPendingCertificateOperation = (\<lambda>_ _. Inl unanswered),
     so_DeleteCertificate = (\<lambda>n _. (Inl unanswered, Some (ToDeleteCertificate n))),
     so_ListDeletedCertificates = (\<lambda>_ _ _. Inl unanswered),
     so_GetDeletedCertificate = (\<lambda>_ _. Inl unanswered),
     so_PurgeDeletedCertificate = (\<lambda>n _. (Inl unanswered, Some (ToPurgeDeletedCertificate n))),
     so_RecoverDeletedCertificate = (\<lambda>n _. (Inl unanswered, Some (ToRecoverDeletedCertificate n)))\<rparr>"

definition writeOf :: "decoders \<Rightarrow> Request \<Rightarrow> storeWrite option" where
  "writeOf D r = snd (serveRest recorder D r None)"

text \<open>The requests that do not ask for secrets.\<close>

definition objectRoute :: "RestRoute \<Rightarrow> bool" where
  "objectRoute route \<longleftrightarrow>
     route \<notin> {ListSecretsRoute, RestoreSecretRoute, SecretRoutes, ListDeletedSecretsRoute, DeletedSecretRoutes}"

definition objectRequest :: "Request \<Rightarrow> bool" where
  "objectRequest r \<longleftrightarrow> (case findHandler restRoutes r of Handle route _ \<Rightarrow> objectRoute route | _ \<Rightarrow> True)"

section \<open>Agreement of two runs\<close>

definition agree :: "('s \<Rightarrow> 't \<Rightarrow> bool) \<Rightarrow> 'a \<times> 's \<Rightarrow> 'a \<times> 't \<Rightarrow> bool" where
  "agree R x y \<longleftrightarrow> fst x = fst y \<and> R (snd x) (snd y)"

definition allows :: "(storeWrite \<Rightarrow> bool) \<Rightarrow> storeWrite option \<Rightarrow> bool" where
  "allows ok w \<longleftrightarrow> (case w of None \<Rightarrow> True | Some c \<Rightarrow> ok c)"

text \<open>Two runs of a handler agree if the call that the third, on the recorder, notes is allowed.\<close>

definition follows ::
  "('s \<Rightarrow> 't \<Rightarrow> bool) \<Rightarrow> (storeWrite \<Rightarrow> bool) \<Rightarrow> 'a \<times> 's \<Rightarrow> 'a \<times> 't \<Rightarrow> 'a \<times> storeWrite option \<Rightarrow> bool" where
  "follows R ok x y w \<longleftrightarrow> (allows ok (snd w) \<longrightarrow> agree R x y)"

lemma allows_simps [simp]: "allows ok None" "allows ok (Some c) \<longleftrightarrow> ok c"
  by (simp_all add: allows_def)

lemma follows_same: "R d s \<Longrightarrow> follows R ok (x, d) (x, s) w"
  by (simp add: follows_def agree_def)

lemma follows_if:
  "follows R ok a a' a'' \<Longrightarrow> follows R ok b b' b'' \<Longrightarrow>
    follows R ok (if c then a else b) (if c then a' else b') (if c then a'' else b'')"
  by simp

lemma follows_list:
  "follows R ok a a' a'' \<Longrightarrow> (\<And>x xs. follows R ok (f x xs) (f' x xs) (f'' x xs)) \<Longrightarrow>
    follows R ok (case l of [] \<Rightarrow> a | x # xs \<Rightarrow> f x xs) (case l of [] \<Rightarrow> a' | x # xs \<Rightarrow> f' x xs)
      (case l of [] \<Rightarrow> a'' | x # xs \<Rightarrow> f'' x xs)"
  by (simp split: list.split)

lemma follows_withBody:
  "R d s \<Longrightarrow> (\<And>req. follows R ok (k req) (k' req) (k'' req)) \<Longrightarrow>
    follows R ok (withBody decode r k d) (withBody decode r k' s) (withBody decode r k'' w)"
  by (simp add: withBody_def follows_same split: sum.split)

lemma follows_reply: "follows R ok x y w \<Longrightarrow> follows R ok (reply body x) (reply body y) (reply body w)"
  by (simp add: follows_def agree_def reply_def)

lemma follows_purged: "follows R ok x y w \<Longrightarrow> follows R ok (purged x) (purged y) (purged w)"
  by (simp add: follows_def agree_def purged_def)

lemma follows_pageOf:
  "R d s \<Longrightarrow> (\<And>m t. fetch m t = fetch' m t) \<Longrightarrow>
    follows R ok (pageOf r fetch item body d) (pageOf r fetch' item body s) (pageOf r fetch'' item body w)"
  by (simp add: pageOf_def follows_def agree_def reply_def split: sum.split prod.split)

lemma follows_read: "R d s \<Longrightarrow> x = y \<Longrightarrow> follows R ok (x, d) (y, s) w"
  by (simp add: follows_same)

lemma follows_write: "(ok c \<Longrightarrow> agree R x y) \<Longrightarrow> follows R ok x y (Inl unanswered, Some c)"
  by (simp add: follows_def)

lemmas follows_steps = follows_if follows_list follows_reply follows_purged

lemma agree_same: "R d s \<Longrightarrow> agree R (x, d) (x, s)"
  by (simp add: agree_def)

lemma followsD: "follows R ok x y w \<Longrightarrow> allows ok (snd w) \<Longrightarrow> agree R x y"
  by (simp add: follows_def)

section \<open>Keys and certificates\<close>

locale agreeing_objects =
  fixes S :: "'s Storer" and T :: "'t Storer" and R :: "'s \<Rightarrow> 't \<Rightarrow> bool" and ok :: "'s \<Rightarrow> storeWrite \<Rightarrow> bool"
  assumes CreateKey_agree: "R d s \<Longrightarrow> ok d (ToCreateKey n ck) \<Longrightarrow> agree R (so_CreateKey S n ck d) (so_CreateKey T n ck s)"
    and ImportKey_agree: "R d s \<Longrightarrow> ok d (ToImportKey n ik) \<Longrightarrow> agree R (so_ImportKey S n ik d) (so_ImportKey T n ik s)"
    and GetKey_agree: "R d s \<Longrightarrow> so_GetKey S d n v = so_GetKey T s n v"
    and ListKeys_agree: "R d s \<Longrightarrow> so_ListKeys S d m t = so_ListKeys T s m t"
    and ListKeyVersions_agree: "R d s \<Longrightarrow> so_ListKeyVersions S d n m t = so_ListKeyVersions T s n m t"
    and UpdateKey_agree: "R d s \<Longrightarrow> ok d (ToUpdateKey n v uk) \<Longrightarrow> agree R (so_UpdateKey S n v uk d) (so_UpdateKey T n v uk s)"
    and DeleteKey_agree: "R d s \<Longrightarrow> ok d (ToDeleteKey n) \<Longrightarrow> agree R (so_DeleteKey S n d) (so_DeleteKey T n s)"
    and ListDeletedKeys_agree: "R d s \<Longrightarrow> so_ListDeletedKeys S d m t = so_ListDeletedKeys T s m t"
    and GetDeletedKey_agree: "R d s \<Longrightarrow> so_GetDeletedKey S d n = so_GetDeletedKey T s n"
    and PurgeDeletedKey_agree: "R d s \<Longrightarrow> ok d (ToPurgeDeletedKey n) \<Longrightarrow> agree R (so_PurgeDeletedKey S n d) (so_PurgeDeletedKey T n s)"
    and RecoverDeletedKey_agree: "R d s \<Longrightarrow> ok d (ToRecoverDeletedKey n) \<Longrightarrow> agree R (so_RecoverDeletedKey S n d) (so_RecoverDeletedKey T n s)"
    and Encrypt_agree: "R d s \<Longrightarrow> so_Encrypt S d n v x = so_Encrypt T s n v x"
    and Decrypt_agree: "R d s \<Longrightarrow> so_Decrypt S d n v x = so_Decrypt T s n v x"
    and Sign_agree: "R d s \<Longrightarrow> so_Sign S d n v g = so_Sign T s n v g"
    and Verify_agree: "R d s \<Longrightarrow> so_Verify S d n v h = so_Verify T s n v h"
    and WrapKey_agree: "R d s \<Longrightarrow> so_WrapKey S d n v x = so_WrapKey T s n v x"
    and UnwrapKey_agree: "R d s \<Longrightarrow> so_UnwrapKey S d n v x = so_UnwrapKey T s n v x"
    and CreateCertificate_agree: "R d s \<Longrightarrow> ok d (ToCreateCertificate n cc) \<Longrightarrow> agree R (so_CreateCertificate S n cc d) (so_CreateCertificate T n cc s)"
    and ImportCertificate_agree: "R d s \<Longrightarrow> ok d (ToImportCertificate n ic) \<Longrightarrow> agree R (so_ImportCertificate S n ic d) (so_ImportCertificate T n ic s)"
    and GetCertificate_agree: "R d s \<Longrightarrow> so_GetCertificate S d n v = so_GetCertificate T s n v"
    and ListCertificates_agree: "R d s \<Longrightarrow> so_ListCertificates S d m t = so_ListCertificates T s m t"
    and ListCertificateVersions_agree: "R d s \<Longrightarrow> so_ListCertificateVersions S d n m t = so_ListCertificateVersions T s n m t"
    and UpdateCertificate_agree: "R d s \<Longrightarrow> ok d (ToUpdateCertificate n v uc) \<Longrightarrow> agree R (so_UpdateCertificate S n v uc d) (so_UpdateCertificate T n v uc s)"
    and GetCertificatePolicy_agree: "R d s \<Longrightarrow> so_GetCertificatePolicy S d n = so_GetCertificatePolicy T s n"
    and UpdateCertificatePolicy_agree: "R d s \<Longrightarrow> ok d (ToUpdateCertificatePolicy n p) \<Longrightarrow> agree R (so_UpdateCertificatePolicy S n p d) (so_UpdateCertificatePolicy T n p s)"
    and GetPendingCertificateOperation_agree: "R d s \<Longrightarrow> so_GetPendingCertificateOperation S d n = so_GetPendingCertificateOperation T s n"
    and DeleteCertificate_agree: "R d s \<Longrightarrow> ok d (ToDeleteCertificate n) \<Longrightarrow> agree R (so_DeleteCertificate S n d) (so_DeleteCertificate T n s)"
    and ListDeletedCertificates_agree: "R d s \<Longrightarrow> so_ListDeletedCertificates S d m t = so_ListDeletedCertificates T s m t"
    and GetDeletedCertificate_agree: "R d s \<Longrightarrow> so_GetDeletedCertificate S d n = so_GetDeletedCertificate T s n"
    and PurgeDeletedCertificate_agree: "R d s \<Longrightarrow> ok d (ToPurgeDeletedCertificate n) \<Longrightarrow> agree R (so_PurgeDeletedCertificate S n d) (so_PurgeDeletedCertificate T n s)"
    and RecoverDeletedCertificate_agree: "R d s \<Longrightarrow> ok d (ToRecoverDeletedCertificate n) \<Longrightarrow> agree R (so_RecoverDeletedCertificate S n d) (so_RecoverDeletedCertificate T n s)"
begin

lemmas object_reads = GetKey_agree ListKeys_agree ListKeyVersions_agree ListDeletedKeys_agree GetDeletedKey_agree
  Encrypt_agree Decrypt_agree Sign_agree Verify_agree WrapKey_agree UnwrapKey_agree GetCertificate_agree
  ListCertificates_agree ListCertificateVersions_agree GetCertificatePolicy_agree GetPendingCertificateOperation_agree
  ListDeletedCertificates_agree GetDeletedCertificate_agree

lemmas object_writes = CreateKey_agree ImportKey_agree UpdateKey_agree DeleteKey_agree PurgeDeletedKey_agree
  RecoverDeletedKey_agree CreateCertificate_agree ImportCertificate_agree UpdateCertificate_agree
  UpdateCertificatePolicy_agree DeleteCertificate_agree PurgeDeletedCertificate_agree RecoverDeletedCertificate_agree

lemma key_routes_agree:
  assumes related: "R d s"
  shows "follows R (ok d) (handleKeyRoutes S D r d) (handleKeyRoutes T D r s) (handleKeyRoutes recorder D r None)"
    "follows R (ok d) (handleDeletedKeyRoutes S r d) (handleDeletedKeyRoutes T r s) (handleDeletedKeyRoutes recorder r None)"
  unfolding route_defs listing_defs Let_def
  by (intro follows_steps follows_withBody [where R = R, OF related] follows_pageOf [where R = R, OF related]
      follows_read [where R = R, OF related]; simp add: recorder_def object_reads [OF related] object_writes [OF related] follows_write)+

lemma certificate_routes_agree:
  assumes related: "R d s"
  shows "follows R (ok d) (handleCertificateRoutes S D r d) (handleCertificateRoutes T D r s) (handleCertificateRoutes recorder D r None)"
    "follows R (ok d) (handleDeletedCertificateRoutes S r d) (handleDeletedCertificateRoutes T r s)
    (handleDeletedCertificateRoutes recorder r None)"
  unfolding route_defs listing_defs Let_def
  by (intro follows_steps follows_withBody [where R = R, OF related] follows_pageOf [where R = R, OF related]
      follows_read [where R = R, OF related]; simp add: recorder_def object_reads [OF related] object_writes [OF related] follows_write)+

lemma object_listings_agree:
  assumes related: "R d s"
  shows "follows R (ok d) (listKeys S r d) (listKeys T r s) (listKeys recorder r None)"
    "follows R (ok d) (listDeletedKeys S r d) (listDeletedKeys T r s) (listDeletedKeys recorder r None)"
    "follows R (ok d) (listCertificates S r d) (listCertificates T r s) (listCertificates recorder r None)"
    "follows R (ok d) (listDeletedCertificates S r d) (listDeletedCertificates T r s) (listDeletedCertificates recorder r None)"
  unfolding listing_defs by (rule follows_pageOf [where R = R, OF related]; simp add: object_reads [OF related])+

lemma object_rest_agrees:
  assumes "R d s" "objectRequest r" "allows (ok d) (writeOf D r)"
  shows "agree R (serveRest S D r d) (serveRest T D r s)"
proof (cases "findHandler restRoutes r")
  case (Handle route ws)
  have "follows R (ok d) (runRoute S D route r d) (runRoute T D route r s) (runRoute recorder D route r None)"
    using assms(2) Handle follows_same [where R = R, OF assms(1)] key_routes_agree [OF assms(1)]
      certificate_routes_agree [OF assms(1)] object_listings_agree [OF assms(1)]
    by (cases route) (simp_all add: runRoute_def objectRequest_def objectRoute_def)
  then show ?thesis
    using assms(3) Handle followsD by (fastforce simp: serveRest_def writeOf_def)
qed (simp_all add: serveRest_def agree_same [where R = R, OF assms(1)])

end

section \<open>The whole API\<close>

locale agreeing_storers = agreeing_objects +
  assumes SetSecret_agree: "R d s \<Longrightarrow> ok d (ToSetSecret n ss) \<Longrightarrow> agree R (so_SetSecret S n ss d) (so_SetSecret T n ss s)"
    and GetSecret_agree: "R d s \<Longrightarrow> so_GetSecret S d n v = so_GetSecret T s n v"
    and ListSecrets_agree: "R d s \<Longrightarrow> so_ListSecrets S d m t = so_ListSecrets T s m t"
    and ListSecretVersions_agree: "R d s \<Longrightarrow> so_ListSecretVersions S d n m t = so_ListSecretVersions T s n m t"
    and UpdateSecret_agree: "R d s \<Longrightarrow> ok d (ToUpdateSecret n v us) \<Longrightarrow> agree R (so_UpdateSecret S n v us d) (so_UpdateSecret T n v us s)"
    and DeleteSecret_agree: "R d s \<Longrightarrow> ok d (ToDeleteSecret n) \<Longrightarrow> agree R (so_DeleteSecret S n d) (so_DeleteSecret T n s)"
    and ListDeletedSecrets_agree: "R d s \<Longrightarrow> so_ListDeletedSecrets S d m t = so_ListDeletedSecrets T s m t"
    and GetDeletedSecret_agree: "R d s \<Longrightarrow> so_GetDeletedSecret S d n = so_GetDeletedSecret T s n"
    and PurgeDeletedSecret_agree: "R d s \<Longrightarrow> ok d (ToPurgeDeletedSecret n) \<Longrightarrow> agree R (so_PurgeDeletedSecret S n d) (so_PurgeDeletedSecret T n s)"
    and RecoverDeletedSecret_agree: "R d s \<Longrightarrow> ok d (ToRecoverDeletedSecret n) \<Longrightarrow> agree R (so_RecoverDeletedSecret S n d) (so_RecoverDeletedSecret T n s)"
    and BackupSecret_agree: "R d s \<Longrightarrow> so_BackupSecret S d n = so_BackupSecret T s n"
    and RestoreSecret_agree: "R d s \<Longrightarrow> ok d (ToRestoreSecret t) \<Longrightarrow> agree R (so_RestoreSecret S t d) (so_RestoreSecret T t s)"
begin

lemmas secret_reads = GetSecret_agree ListSecrets_agree ListSecretVersions_agree ListDeletedSecrets_agree
  GetDeletedSecret_agree BackupSecret_agree

lemmas secret_writes = SetSecret_agree UpdateSecret_agree DeleteSecret_agree PurgeDeletedSecret_agree
  RecoverDeletedSecret_agree RestoreSecret_agree

lemma secret_routes_agree:
  assumes related: "R d s"
  shows "follows R (ok d) (handleSecretRoutes S D r d) (handleSecretRoutes T D r s) (handleSecretRoutes recorder D r None)"
    "follows R (ok d) (handleDeletedSecretRoutes S r d) (handleDeletedSecretRoutes T r s) (handleDeletedSecretRoutes recorder r None)"
    "follows R (ok d) (restoreSecret S D r d) (restoreSecret T D r s) (restoreSecret recorder D r None)"
  unfolding route_defs listing_defs
  by (intro follows_steps follows_withBody [where R = R, OF related] follows_pageOf [where R = R, OF related]
      follows_read [where R = R, OF related]; simp add: recorder_def secret_reads [OF related] secret_writes [OF related] follows_write)+

lemma secret_listings_agree:
  assumes related: "R d s"
  shows "follows R (ok d) (listSecrets S r d) (listSecrets T r s) (listSecrets recorder r None)"
    "follows R (ok d) (listDeletedSecrets S r d) (listDeletedSecrets T r s) (listDeletedSecrets recorder r None)"
  unfolding listing_defs by (rule follows_pageOf [where R = R, OF related]; simp add: secret_reads [OF related])+

lemma route_agrees:
  assumes related: "R d s"
  shows "follows R (ok d) (runRoute S D route r d) (runRoute T D route r s) (runRoute recorder D route r None)"
  by (cases route; simp only: runRoute_def RestRoute.case; rule follows_same [where R = R, OF related] secret_routes_agree [OF related]
      secret_listings_agree [OF related] key_routes_agree [OF related] certificate_routes_agree [OF related]
      object_listings_agree [OF related])

lemma rest_agrees: "R d s \<Longrightarrow> allows (ok d) (writeOf D r) \<Longrightarrow> agree R (serveRest S D r d) (serveRest T D r s)"
  unfolding writeOf_def using followsD [OF route_agrees]
  by (auto simp: serveRest_def split: Dispatch.split intro: agree_same)

end

end
