(* ===== verification/KV_Sql_Frames.thy ===== *)
theory KV_Sql_Frames
  imports KV_Sql
begin

text \<open>
  What the programs of the SQL store leave alone, whichever of their statements fail: an operation on
  secrets touches no table of keys or certificates, and one on keys or certificates (except creating and
  importing a certificate) touches no table of secrets.
\<close>

section \<open>Programs that keep a part of the tables\<close>

definition frames :: "(SQLStore \<Rightarrow> 'b) \<Rightarrow> 'a sql \<Rightarrow> bool" where
  "frames f m \<longleftrightarrow> (\<forall>i d. f (snd (snd (m (i, d)))) = f d)"

named_theorems sql_frame \<open>programs that keep a part of the tables\<close>

lemma frames_run: "frames f m \<Longrightarrow> f (snd (runSql m d)) = f d"
  by (simp add: frames_def runSql_def split_beta)

lemma frames_qlift [sql_frame]: "frames f (qlift r)"
  by (simp add: frames_def qlift_def)

lemma frames_stmt: "(\<And>d. f (snd (g d)) = f d) \<Longrightarrow> frames f (stmt e g)"
  by (simp add: frames_def stmt_def split_beta split: option.split)

lemma frames_query [sql_frame]: "frames f (query e g)"
  unfolding query_def by (rule frames_stmt) simp

lemma frames_execDB [sql_frame]: "(\<And>d. f (g d) = f d) \<Longrightarrow> frames f (execDB e g)"
  unfolding execDB_def by (rule frames_stmt) simp

lemma frames_insertDB [sql_frame]: "(\<And>d. f (g d) = f d) \<Longrightarrow> frames f (insertDB e taken cols g)"
  unfolding insertDB_def by (rule frames_stmt) simp

lemma frames_qbind [sql_frame]:
  assumes m: "frames f m" and k: "\<And>x. frames f (k x)"
  shows "frames f (qbind m k)"
proof -
  have "f (snd (snd (qbind m k (i, d)))) = f d" for i d
  proof -
    obtain r j d' where run: "m (i, d) = (r, j, d')"
      by (metis prod.exhaust)
    then have "f d' = f d"
      using m by (metis frames_def snd_conv)
    then show ?thesis
      using run k by (cases r) (simp_all add: qbind_def frames_def)
  qed
  then show ?thesis
    by (simp add: frames_def)
qed

lemma frames_qignore [sql_frame]: "frames f m \<Longrightarrow> frames f (qignore m)"
  by (simp add: frames_def qignore_def)

lemma frames_if [sql_frame]: "frames f a \<Longrightarrow> frames f b \<Longrightarrow> frames f (if c then a else b)"
  by simp

lemma frames_option [sql_frame]:
  "frames f a \<Longrightarrow> (\<And>x. frames f (b x)) \<Longrightarrow> frames f (case v of None \<Rightarrow> a | Some x \<Rightarrow> b x)"
  by (simp split: option.split)

lemma frames_sum [sql_frame]:
  "(\<And>x. frames f (a x)) \<Longrightarrow> (\<And>x. frames f (b x)) \<Longrightarrow> frames f (case v of Inl x \<Rightarrow> a x | Inr x \<Rightarrow> b x)"
  by (simp split: sum.split)

lemma frames_list [sql_frame]:
  "frames f a \<Longrightarrow> (\<And>x xs. frames f (b x xs)) \<Longrightarrow> frames f (case l of [] \<Rightarrow> a | x # xs \<Rightarrow> b x xs)"
  by (simp split: list.split)

lemma frames_prod [sql_frame]: "(\<And>x y. frames f (g x y)) \<Longrightarrow> frames f (case p of (x, y) \<Rightarrow> g x y)"
  by (simp split: prod.split)

lemma frames_Let [sql_frame]: "(\<And>x. frames f (g x)) \<Longrightarrow> frames f (let x = v in g x)"
  by simp

lemma frames_qmap [sql_frame]: "(\<And>x. frames f (g x)) \<Longrightarrow> frames f (qmap g xs)"
  by (induction xs) (simp_all add: sql_frame)

lemma frames_qeach [sql_frame]: "(\<And>i x. frames f (g i x)) \<Longrightarrow> frames f (qeach g i xs)"
  by (induction xs arbitrary: i) (simp_all add: sql_frame)

section \<open>The operations\<close>

definition secretTables :: "SQLStore \<Rightarrow> secretRow list \<times> secretVersionSnapshot deletedRow list" where
  "secretTables d = (kv_secrets d, kv_deleted_secrets d)"

definition objectTables ::
  "SQLStore \<Rightarrow> (keyRow list \<times> keyVersionSnapshot deletedRow list) \<times> certRow list \<times> certificateVersionSnapshot deletedRow list" where
  "objectTables d = ((kv_keys d, kv_deleted_keys d), kv_certificates d, kv_deleted_certificates d)"

lemmas helper_defs = insertSecretRow_def getSecretVersionRow_def allSecretVersionSnapshots_def getDeletedSecretRow_def
  purgeSecretRow_def sqlSetCheck_def sqlSetInsert_def insertKeyRow_def getKeyVersionRow_def allKeyVersionSnapshots_def
  getDeletedKeyRow_def purgeKeyRow_def getCertVersionRow_def allCertVersionSnapshots_def getDeletedCertRow_def
  purgeCertRow_def insertCertRow_def checkNotDeleted_def

text \<open>The operations on secrets keep the tables of keys and of certificates.\<close>

lemma secret_frames:
  "frames objectTables (sqlSetSecret e n ss)" "frames objectTables (sqlUpdateSecret e n v us)"
  "frames objectTables (sqlDeleteSecret e n)" "frames objectTables (sqlPurgeDeletedSecret e n)"
  "frames objectTables (sqlRecoverDeletedSecret e n)" "frames objectTables (sqlRestoreSecret e C t)"
  unfolding sqlSetSecret_def sqlUpdateSecret_def sqlDeleteSecret_def sqlPurgeDeletedSecret_def
    sqlRecoverDeletedSecret_def sqlRestoreSecret_def helper_defs
  by (intro sql_frame; simp add: objectTables_def)+

text \<open>The operations on keys keep the tables of secrets.\<close>

lemma key_frames:
  "frames secretTables (sqlCreateKey e P L DL n ck)" "frames secretTables (sqlImportKey e L DL n ik)"
  "frames secretTables (sqlUpdateKey e L DL n v uk)" "frames secretTables (sqlDeleteKey e L DL n)"
  "frames secretTables (sqlPurgeDeletedKey e n)" "frames secretTables (sqlRecoverDeletedKey e L DL n)"
  unfolding sqlCreateKey_def sqlImportKey_def sqlUpdateKey_def sqlDeleteKey_def sqlPurgeDeletedKey_def
    sqlRecoverDeletedKey_def helper_defs
  by (intro sql_frame; simp add: secretTables_def)+

lemma certificate_frames:
  "frames secretTables (sqlUpdateCertificate e n v uc)" "frames secretTables (sqlUpdateCertificatePolicy e n p)"
  "frames secretTables (sqlDeleteCertificate e n)" "frames secretTables (sqlPurgeDeletedCertificate e n)"
  "frames secretTables (sqlRecoverDeletedCertificate e n)"
  unfolding sqlUpdateCertificate_def sqlUpdateCertificatePolicy_def sqlDeleteCertificate_def
    sqlPurgeDeletedCertificate_def sqlRecoverDeletedCertificate_def helper_defs
  by (intro sql_frame; simp add: secretTables_def)+

end
