(* ===== verification/KV_Sql_Material.thy ===== *)
theory KV_Sql_Material
  imports KV_Sql_Theorems
begin

text \<open>
  Key material in the SQL store: it is written as DER in base64 and read back on every use.
\<close>

section \<open>Keys without their primes\<close>

lemma importRSA_without_primes:
  assumes "ImportKeyMaterial jwk kid = Inr (m, out)" "jwk_Kty jwk = ''RSA'' \<or> jwk_Kty jwk = ''RSA-HSM''"
    and "jwk_D jwk \<noteq> []" "jwk_P jwk = [] \<or> jwk_Q jwk = []"
  shows "\<exists>priv. km_RSA m = Some priv \<and> priv_Primes priv = []"
proof -
  have "importRSA jwk kid = Inr (m, out)"
    using assms(1,2) by (auto simp: ImportKeyMaterial_def)
  then show ?thesis
    using assms(3,4) by (auto simp: importRSA_def rbind_Inr_iff Let_def split: if_split_asm)
qed

lemma serialize_without_primes:
  "km_RSA m = Some priv \<Longrightarrow> priv_Primes priv = [] \<Longrightarrow> serializeKeyMaterial L DL m = Inl indexOutOfRange"
  by (simp add: serializeKeyMaterial_def serializeRSA_def marshalPKCS1PrivateKey_def rbind_def)

lemma checkKeyDeleted_run:
  assumes "calmSql e" "\<forall>r \<in> set (kv_deleted_keys d). rd_Name r \<noteq> n"
  shows "runSql (checkNotDeleted e kv_deleted_keys n kind) d = (Inr (), d)"
  using assms by (simp add: checkNotDeleted_def sql_run countName_zero)

lemma indep_checkKey: "calmSql e \<Longrightarrow> indep (checkNotDeleted e t n kind)"
  by (simp add: checkNotDeleted_def sql_run)

lemma indep_insertKeyRow: "calmSql e \<Longrightarrow> indep (insertKeyRow e L DL rcd m ts)"
  by (simp add: insertKeyRow_def sql_run Let_def)

lemma sqlImportKey_panics:
  assumes "calmSql e" "newVersion (sq_env e) = Inr v" "n \<noteq> []" "\<forall>r \<in> set (kv_deleted_keys d). rd_Name r \<noteq> n"
    and "ImportKeyMaterial (ik_Key q) [] = Inr (m, out)" "jwk_Kty (ik_Key q) = ''RSA'' \<or> jwk_Kty (ik_Key q) = ''RSA-HSM''"
    and "jwk_D (ik_Key q) \<noteq> []" "jwk_P (ik_Key q) = [] \<or> jwk_Q (ik_Key q) = []"
  shows "runSql (sqlImportKey e L DL n q) d = (Inl indexOutOfRange, d)"
proof -
  obtain priv where priv: "km_RSA m = Some priv" "priv_Primes priv = []"
    using importRSA_without_primes [OF assms(5-8)] by blast
  have "runSql (insertKeyRow e L DL rcd m ts) d = (Inl indexOutOfRange, d)" for rcd ts
    using assms(1) by (simp add: insertKeyRow_def Let_def sql_run serialize_without_primes [OF priv])
  moreover have "jwk_Kty (ik_Key q) \<noteq> []"
    using assms(6) by auto
  ultimately show ?thesis
    using assms(1-5) indep_checkKey [OF assms(1)] indep_insertKeyRow [OF assms(1)]
    by (simp add: sqlImportKey_def sql_run checkKeyDeleted_run wrapErr_def Let_def)
qed

section \<open>Round trip\<close>

text \<open>
  The DER functions of crypto/x509 invert each other on this material, and what they write is not
  empty.
\<close>

definition der_law :: "x509lib \<Rightarrow> derlib \<Rightarrow> KeyMaterial \<Rightarrow> bool" where
  "der_law L DL m \<longleftrightarrow>
     (case km_RSA m of None \<Rightarrow> True | Some priv \<Rightarrow>
        lib_MarshalPKCS1PrivateKey L priv \<noteq> [] \<and>
        lib_ParsePKCS1PrivateKey L (lib_MarshalPKCS1PrivateKey L priv) = Inr priv) \<and>
     (case km_RSAPub m of None \<Rightarrow> True | Some pub \<Rightarrow>
        der_MarshalPKCS1PublicKey DL pub \<noteq> [] \<and>
        der_ParsePKCS1PublicKey DL (der_MarshalPKCS1PublicKey DL pub) = Inr pub) \<and>
     (case km_ECDSA m of None \<Rightarrow> True | Some priv \<Rightarrow>
        (case der_MarshalECPrivateKey DL priv of Inl _ \<Rightarrow> True
         | Inr der \<Rightarrow> der \<noteq> [] \<and> der_ParseECPrivateKey DL der = Inr priv)) \<and>
     (case km_ECDSAPub m of None \<Rightarrow> True | Some pub \<Rightarrow>
        (case der_MarshalPKIXPublicKey DL pub of Inl _ \<Rightarrow> True
         | Inr der \<Rightarrow> der \<noteq> [] \<and> der_ParsePKIXPublicKey DL der = Inr (Some pub)))"

text \<open>The public half belongs to the private one; a symmetric key has bytes.\<close>

definition material_ok :: "KeyMaterial \<Rightarrow> bool" where
  "material_ok m \<longleftrightarrow>
     (case km_RSA m of None \<Rightarrow> True | Some priv \<Rightarrow> km_RSAPub m = Some (priv_PublicKey priv)) \<and>
     (case km_ECDSA m of None \<Rightarrow> True | Some priv \<Rightarrow> km_ECDSAPub m = Some (ecp_PublicKey priv)) \<and>
     km_AES m \<noteq> Some []"

lemma decodeStd_stdEncode [simp]: "decodeStd (stdEncode bs) = Inr bs"
  by (simp add: decodeStd_def ofOption_def)

lemma deserializeRSA_serializeRSA:
  assumes "serializeRSA L DL m = Inr (priv, pub)" "der_law L DL m" "material_ok m"
  shows "deserializeRSA L DL \<lparr>skm_RSAPriv = priv, skm_RSAPub = pub, skm_ECPriv = a, skm_ECPub = b, skm_AES = c\<rparr> x =
    Inr (x\<lparr>km_RSA := (case km_RSA m of None \<Rightarrow> km_RSA x | Some k \<Rightarrow> Some k),
      km_RSAPub := (case km_RSAPub m of None \<Rightarrow> km_RSAPub x | Some k \<Rightarrow> Some k)\<rparr>)"
  using assms
  by (cases "km_RSA m"; cases "km_RSAPub m")
    (auto simp: serializeRSA_def deserializeRSA_def der_law_def material_ok_def marshalPKCS1PrivateKey_def
      rbind_def split: if_split_asm)

lemma deserializeEC_serializeEC:
  assumes "serializeEC DL m = Inr (priv, pub)" "der_law L DL m" "material_ok m"
  shows "deserializeEC DL \<lparr>skm_RSAPriv = a, skm_RSAPub = b, skm_ECPriv = priv, skm_ECPub = pub, skm_AES = c\<rparr> x =
    Inr (x\<lparr>km_ECDSA := (case km_ECDSA m of None \<Rightarrow> km_ECDSA x | Some k \<Rightarrow> Some k),
      km_ECDSAPub := (case km_ECDSAPub m of None \<Rightarrow> km_ECDSAPub x | Some k \<Rightarrow> Some k)\<rparr>)"
  using assms
  by (cases "km_ECDSA m"; cases "km_ECDSAPub m")
    (auto simp: serializeEC_def deserializeEC_def der_law_def material_ok_def rbind_def split: sum.split_asm)

lemma deserialize_serialize:
  assumes "serializeKeyMaterial L DL m = Inr c" "der_law L DL m" "material_ok m"
  shows "deserializeKeyMaterial L DL c = Inr m"
proof -
  obtain rsaPriv rsaPub ecPriv ecPub where parts: "serializeRSA L DL m = Inr (rsaPriv, rsaPub)"
    "serializeEC DL m = Inr (ecPriv, ecPub)"
    and c: "c = Inr \<lparr>skm_RSAPriv = rsaPriv, skm_RSAPub = rsaPub, skm_ECPriv = ecPriv, skm_ECPub = ecPub,
      skm_AES = (case km_AES m of None \<Rightarrow> [] | Some key \<Rightarrow> stdEncode key)\<rparr>"
    using assms(1) by (auto simp: serializeKeyMaterial_def rbind_Inr_iff)
  have "m = \<lparr>km_RSA = (case km_RSA m of None \<Rightarrow> None | Some k \<Rightarrow> Some k),
      km_ECDSA = (case km_ECDSA m of None \<Rightarrow> None | Some k \<Rightarrow> Some k), km_AES = km_AES m,
      km_RSAPub = (case km_RSAPub m of None \<Rightarrow> None | Some k \<Rightarrow> Some k),
      km_ECDSAPub = (case km_ECDSAPub m of None \<Rightarrow> None | Some k \<Rightarrow> Some k)\<rparr>"
    by (cases m) (simp split: option.split)
  then show ?thesis
    using assms(3)
    by (auto simp: c deserializeKeyMaterial_def deserializeRSA_serializeRSA [OF parts(1) assms(2,3)]
        deserializeEC_serializeEC [OF parts(2) assms(2,3)] emptyMaterial_def rbind_def material_ok_def
        split: option.split)
qed

section \<open>A key in use\<close>

definition rowOfKey :: "KeyRecord \<Rightarrow> serializedKeyMaterial column \<Rightarrow> int \<Rightarrow> keyRow" where
  "rowOfKey r c ts = \<lparr>rk_Name = kr_Name r, rk_Version = kr_Version r, rk_Jwk = marshalJWK (kr_Key r), rk_Material = c,
     rk_Attributes = marshalAttrs (kr_Attributes r), rk_Tags = marshalTags (kr_Tags r), rk_CreatedAt = ts\<rparr>"

lemma insertKeyRow_run:
  assumes "calmSql e" "runSql (insertKeyRow e L DL r m ts) d = (Inr u, d')"
  shows "\<exists>c. serializeKeyMaterial L DL m = Inr c \<and> d' = d\<lparr>kv_keys := kv_keys d @ [rowOfKey r c ts]\<rparr> \<and>
    (\<forall>x \<in> set (kv_keys d). \<not> (rk_Name x = kr_Name r \<and> rk_Version x = kr_Version r))"
  using assms
  by (cases "serializeKeyMaterial L DL m")
    (auto simp: insertKeyRow_def Let_def sql_run rowOfKey_def split: if_split_asm)

text \<open>A record whose texts JSON leaves alone.\<close>

definition keyText :: "KeyRecord \<Rightarrow> bool" where
  "keyText r \<longleftrightarrow> jsonJWK (kr_Key r) = kr_Key r \<and> attrs_text (kr_Attributes r) \<and> tags_text (kr_Tags r)"

lemma getKeyVersionRow_inserted:
  assumes "calmSql e" "keyText r" "kr_Version r \<noteq> []" "serializeKeyMaterial L DL m = Inr c" "der_law L DL m" "material_ok m"
    and "\<forall>x \<in> set (kv_keys d). \<not> (rk_Name x = kr_Name r \<and> rk_Version x = kr_Version r)"
  shows "runSql (getKeyVersionRow e L DL (kr_Name r) (kr_Version r)) (d\<lparr>kv_keys := kv_keys d @ [rowOfKey r c ts]\<rparr>) =
    (Inr (r, m), d\<lparr>kv_keys := kv_keys d @ [rowOfKey r c ts]\<rparr>)"
proof -
  have "filter (\<lambda>x. rk_Name x = kr_Name r \<and> rk_Version x = kr_Version r) (kv_keys d) = []"
    using assms(7) by (simp add: filter_empty_conv)
  then have "selectVersion rk_Name rk_Version rk_CreatedAt (kr_Name r) (kr_Version r) (kv_keys d @ [rowOfKey r c ts]) =
      Some (rowOfKey r c ts)"
    using assms(3) by (simp add: selectVersion_def rowOfKey_def)
  moreover have "keyWithMaterial L DL (kr_Name r) (rowOfKey r c ts) = Inr (r, m)"
    using assms(2) deserialize_serialize [OF assms(4-6)]
    by (simp add: keyWithMaterial_def rowOfKey_def keyText_def marshalJWK_def unmarshalJWK_def marshalAttrs_def
        unmarshalAttrs_def marshalTags_def unmarshalTags_def attrs_text_def text_ok_def tags_text_def rbind_def)
  ultimately show ?thesis
    using assms(1) by (simp add: getKeyVersionRow_def sql_run)
qed

lemma sqlCreateKey_row:
  assumes "calmSql e" "runSql (sqlCreateKey e P L DL n q) d = (Inr r, d')"
    and "GenerateKey P (ck_Kty q) (ck_KeySize q) (ck_Crv q) [] (defaultKeyOps (ck_Kty q) (ck_KeyOps q)) = Inr (m, jwk)"
  shows "runSql (insertKeyRow e L DL r m (sq_nano e)) d = (Inr (), d') \<and> kr_Name r = n \<and> kr_Key r = jwk \<and>
    attrs_text (kr_Attributes r) \<and> kr_Tags r = cloneTags (ck_Tags q)"
proof -
  have check: "runSql (checkNotDeleted e kv_deleted_keys n ''Key'') d = (Inr (), d)"
    using assms(1,2) indep_checkKey [OF assms(1)] indep_insertKeyRow [OF assms(1)]
    by (cases "0 < countName rd_Name n (kv_deleted_keys d)")
      (auto simp: sqlCreateKey_def checkNotDeleted_def sql_run Let_def split: if_split_asm)
  show ?thesis
    using assms indep_checkKey [OF assms(1)] indep_insertKeyRow [OF assms(1)] check
    by (cases "newVersion (sq_env e)")
      (auto simp: sqlCreateKey_def sql_run Let_def wrapErr_def split: if_split_asm prod.split_asm sum.split_asm)
qed

section \<open>Generated keys are text\<close>

lemma b64char_ascii: "n < 64 \<Longrightarrow> of_char (b64char url n) < (128::nat)"
  by (auto simp: b64char_def Let_def of_char_char_of_small)

lemma b64Encode_ascii: "c \<in> set (b64Encode url pad bs) \<Longrightarrow> of_char c < (128::nat)"
  by (induction url pad bs rule: b64Encode.induct) (auto simp: b64char_ascii b64_digit_bounds split: if_splits)

lemma text_ok_base64: "toValidUTF8 (EncodeBase64URL bs) = EncodeBase64URL bs"
proof -
  have "text_ok (EncodeBase64URL bs)"
    unfolding EncodeBase64URL_def by (rule text_ok_ascii) (simp add: b64Encode_ascii)
  then show ?thesis
    by (simp add: text_ok_def)
qed

lemma text_ok_names:
  "toValidUTF8 ''RSA'' = ''RSA''" "toValidUTF8 ''RSA-HSM'' = ''RSA-HSM''" "toValidUTF8 ''EC'' = ''EC''"
  "toValidUTF8 ''EC-HSM'' = ''EC-HSM''" "toValidUTF8 ''oct'' = ''oct''" "toValidUTF8 ''oct-HSM'' = ''oct-HSM''"
  "toValidUTF8 ''P-256'' = ''P-256''" "toValidUTF8 ''P-384'' = ''P-384''" "toValidUTF8 ''P-521'' = ''P-521''"
  using text_ok_ascii unfolding text_ok_def by (simp_all del: toValidUTF8.simps)

lemma jsonJWK_made:
  assumes "toValidUTF8 kty = kty" "list_all text_ok ops"
  shows "jsonJWK (RSAToJWK [] kty ops pub) = RSAToJWK [] kty ops pub"
    "toValidUTF8 crv = crv \<Longrightarrow> jsonJWK (ECDSAToJWK [] kty ops crv ecpub) = ECDSAToJWK [] kty ops crv ecpub"
    "jsonJWK (SymmetricToJWK [] kty ops None) = SymmetricToJWK [] kty ops None"
proof -
  have "map toValidUTF8 ops = ops"
    using assms(2) by (intro map_idI) (simp add: list_all_iff text_ok_def)
  then show "jsonJWK (RSAToJWK [] kty ops pub) = RSAToJWK [] kty ops pub"
    "toValidUTF8 crv = crv \<Longrightarrow> jsonJWK (ECDSAToJWK [] kty ops crv ecpub) = ECDSAToJWK [] kty ops crv ecpub"
    "jsonJWK (SymmetricToJWK [] kty ops None) = SymmetricToJWK [] kty ops None"
    using assms(1) by (simp_all add: jsonJWK_def RSAToJWK_def ECDSAToJWK_def SymmetricToJWK_def emptyJWK_def Let_def
        text_ok_base64)
qed

lemma GenerateKey_cases:
  assumes "GenerateKey P kty ks crv [] ops = Inr (m, jwk)"
  obtains (rsa) priv where "kty = ''RSA'' \<or> kty = ''RSA-HSM''" "jwk = RSAToJWK [] kty ops (priv_PublicKey priv)"
    "m = emptyMaterial\<lparr>km_RSA := Some priv, km_RSAPub := Some (priv_PublicKey priv)\<rparr>"
  | (ec) cv crv' priv where "kty = ''EC'' \<or> kty = ''EC-HSM''" "resolveCurve crv = Inr (cv, crv')"
    "jwk = ECDSAToJWK [] kty ops crv' (ecp_PublicKey priv)"
    "m = emptyMaterial\<lparr>km_ECDSA := Some priv, km_ECDSAPub := Some (ecp_PublicKey priv)\<rparr>"
  | (oct) buf where "kty = ''oct'' \<or> kty = ''oct-HSM''" "jwk = SymmetricToJWK [] kty ops None"
    "m = emptyMaterial\<lparr>km_AES := Some buf\<rparr>"
proof (cases "kty = ''RSA'' \<or> kty = ''RSA-HSM''")
  case True
  then show thesis
    using assms rsa unfolding GenerateKey_def if_P [OF True] by (auto simp: rbind_Inr_iff Let_def)
next
  case no_rsa: False
  show thesis
  proof (cases "kty = ''EC'' \<or> kty = ''EC-HSM''")
    case True
    then show thesis
      using assms ec unfolding GenerateKey_def if_not_P [OF no_rsa] if_P [OF True] by (auto simp: rbind_Inr_iff)
  next
    case no_ec: False
    show thesis
    proof (cases "kty = ''oct'' \<or> kty = ''oct-HSM''")
      case True
      then show thesis
        using assms oct unfolding GenerateKey_def if_not_P [OF no_rsa] if_not_P [OF no_ec] if_P [OF True]
        by (auto simp: rbind_Inr_iff Let_def split: if_split_asm)
    next
      case False
      then show thesis
        using assms unfolding GenerateKey_def if_not_P [OF no_rsa] if_not_P [OF no_ec] if_not_P [OF False] by simp
    qed
  qed
qed

lemma resolveCurve_text: "resolveCurve crv = Inr (cv, crv') \<Longrightarrow> toValidUTF8 crv' = crv'"
  by (auto simp: resolveCurve_def text_ok_names split: if_split_asm)

lemma GenerateKey_text:
  assumes "GenerateKey P kty ks crv [] ops = Inr (m, jwk)" "list_all text_ok ops"
  shows "jsonJWK jwk = jwk"
  using assms(1)
proof (cases rule: GenerateKey_cases)
  case (rsa priv)
  then have "toValidUTF8 kty = kty"
    using text_ok_names by auto
  then show ?thesis
    using rsa assms(2) by (simp add: jsonJWK_made)
next
  case (ec cv crv' priv)
  then have "toValidUTF8 kty = kty"
    using text_ok_names by auto
  then show ?thesis
    using ec assms(2) resolveCurve_text by (simp add: jsonJWK_made)
next
  case (oct buf)
  then have "toValidUTF8 kty = kty"
    using text_ok_names by auto
  then show ?thesis
    using oct assms(2) by (simp add: jsonJWK_made)
qed

lemma GenerateKey_material:
  assumes "GenerateKey P kty ks crv [] ops = Inr (m, jwk)" "km_AES m \<noteq> Some []"
  shows "material_ok m"
  using assms by (cases rule: GenerateKey_cases) (simp_all add: material_ok_def emptyMaterial_def)

lemma defaultKeyOps_text: "list_all text_ok ops \<Longrightarrow> list_all text_ok (defaultKeyOps kty ops)"
  unfolding defaultKeyOps_def by (auto intro!: text_ok_ascii)

section \<open>Properties\<close>

text \<open>
  C38: Importing an RSA private key without its primes (the members p and q of a JSON web key are
  optional) makes the SQL store panic, since x509.MarshalPKCS1PrivateKey reads two primes, while the
  in-memory store accepts the same request.
\<close>

theorem import_without_primes_panics:
  assumes "calmSql e" "newVersion (sq_env e) = Inr v" "n \<noteq> []" "\<forall>r \<in> set (kv_deleted_keys d). rd_Name r \<noteq> n"
    and "map_of (st_deletedKeys s) n = None" "ImportKeyMaterial (ik_Key q) [] = Inr (m, out)"
    and "jwk_Kty (ik_Key q) = ''RSA'' \<or> jwk_Kty (ik_Key q) = ''RSA-HSM''"
    and "jwk_D (ik_Key q) \<noteq> []" "jwk_P (ik_Key q) = [] \<or> jwk_Q (ik_Key q) = []"
  shows "runSql (sqlImportKey e L DL n q) d = (Inl indexOutOfRange, d) \<and> is_ok (fst (ImportKey (sq_env e) n q s))"
proof -
  have "jwk_Kty (ik_Key q) \<noteq> []"
    using assms(7) by auto
  then have "is_ok (fst (ImportKey (sq_env e) n q s))"
    using assms(2,3,5,6) by (simp add: ImportKey_def wrapErr_def Let_def)
  then show ?thesis
    using sqlImportKey_panics [OF assms(1-4,6-9)] by blast
qed

definition primelessKey :: JSONWebKey where
  "primelessKey = emptyJWK\<lparr>jwk_Kty := ''RSA'', jwk_N := EncodeBase64URL [12, 161],
     jwk_E := EncodeBase64URL [17], jwk_D := EncodeBase64URL [1, 157]\<rparr>"

definition primelessRequest :: ImportKeyRequest where
  "primelessRequest = \<lparr>ik_Key = primelessKey, ik_Attributes = None, ik_Tags = None\<rparr>"

definition sampleDer :: derlib where
  "sampleDer = \<lparr>der_MarshalPKCS1PublicKey = (\<lambda>_. [48, 3]), der_ParsePKCS1PublicKey = (\<lambda>_. Inr (priv_PublicKey sampleRSA)),
     der_MarshalECPrivateKey = (\<lambda>_. Inr [48, 4]), der_ParseECPrivateKey = (\<lambda>_. Inr sampleEC),
     der_MarshalPKIXPublicKey = (\<lambda>_. Inr [48, 5]), der_ParsePKIXPublicKey = (\<lambda>_. Inr (Some (ecp_PublicKey sampleEC)))\<rparr>"

lemma EncodeBase64URL_Nil: "EncodeBase64URL bs = [] \<longleftrightarrow> bs = []"
  by (simp add: EncodeBase64URL_def)

lemma primeless_import: "is_ok (ImportKeyMaterial primelessKey [])"
  by (simp add: ImportKeyMaterial_def importRSA_def primelessKey_def emptyJWK_def bigOf_def decodeBigInt_def ofOption_def
      rbind_def setBytes_def Let_def EncodeBase64URL_Nil)

theorem import_without_primes_panics_witness:
  "runSql (sqlImportKey (sampleSqlEnv sampleEnv 1) sampleLib sampleDer ''k'' primelessRequest) NewSQLStore =
     (Inl indexOutOfRange, NewSQLStore)"
proof -
  obtain m out where "ImportKeyMaterial primelessKey [] = Inr (m, out)"
    using primeless_import by (cases "ImportKeyMaterial primelessKey []") auto
  then have im: "ImportKeyMaterial (ik_Key primelessRequest) [] = Inr (m, out)"
    by (simp add: primelessRequest_def)
  have req: "jwk_Kty (ik_Key primelessRequest) = ''RSA''" "jwk_D (ik_Key primelessRequest) \<noteq> []"
    "jwk_P (ik_Key primelessRequest) = []"
    by (simp_all add: primelessRequest_def primelessKey_def emptyJWK_def EncodeBase64URL_Nil)
  have "newVersion (sq_env (sampleSqlEnv sampleEnv 1)) = Inr (hexEncode (replicate 16 7))"
    by (simp add: sampleSqlEnv_calm sampleVersions del: hexEncode.simps)
  from import_without_primes_panics [OF sampleSqlEnv_calm(1) this _ _ _ im _ req(2), where d = NewSQLStore and s = New
      and n = "''k''"] show ?thesis
    using req by (simp add: NewSQLStore_def New_def)
qed

lemma sqlVerify_sqlSign:
  assumes "calmSql e1" "calmSql e2" and row: "\<And>e. calmSql e \<Longrightarrow> runSql (getKeyVersionRow e L DL n v) d = (Inr (r, m), d)"
    and "sign_law P m" "runSql (sqlSign e1 P L DL n v \<lparr>sg_Alg = alg, sg_Value = digest\<rparr>) d = (Inr sig, d)"
  shows "runSql (sqlVerify e2 P L DL n v \<lparr>vr_Alg = alg, vr_Digest = digest, vr_Value = sig\<rparr>) d = (Inr True, d)"
proof -
  have indep: "indep (getKeyVersionRow e L DL n v)" if "calmSql e" for e
    using that by (simp add: getKeyVersionRow_def sql_run)
  obtain data c where data: "decodeField ''value'' digest = Inr data" "sig = EncodeBase64URL c"
    "cryptSign P m (jwk_Kty (kr_Key r)) alg data = Inr c"
    using assms(5) row [OF assms(1)] indep [OF assms(1)] by (auto simp: sqlSign_def sql_run rbind_Inr_iff)
  have "decodeField ''digest'' digest = Inr data"
    using data(1) by (simp add: decodeField_def ofOption_def split: option.splits)
  moreover have "cryptVerify P m (jwk_Kty (kr_Key r)) alg data c = Inr True"
    using assms(4) data(3) by (rule cryptVerify_cryptSign)
  ultimately show ?thesis
    using row [OF assms(2)] indep [OF assms(2)] data(2) by (simp add: sqlVerify_def sql_run rbind_def)
qed

text \<open>
  A key that the SQL store has created is read back as it was returned, and its material
  survives the way through DER and base64 into the table and back: what Sign makes with the stored
  key, Verify accepts. The DER functions of the library invert each other on this material, and the
  key operations and tags of the request are text that JSON keeps.
\<close>

theorem sql_key_in_use:
  assumes "calmSql e" "calmSql e1" "calmSql e2" "runSql (sqlCreateKey e P L DL n q) d = (Inr r, d')"
    and "GenerateKey P (ck_Kty q) (ck_KeySize q) (ck_Crv q) [] (defaultKeyOps (ck_Kty q) (ck_KeyOps q)) = Inr (m, jwk)"
    and "list_all text_ok (ck_KeyOps q)" "tags_text (ck_Tags q)" "kr_Version r \<noteq> []"
    and "der_law L DL m" "km_AES m \<noteq> Some []" "sign_law P m"
  shows "runSql (sqlGetKey e1 L DL n (kr_Version r)) d' = (Inr r, d') \<and>
    (runSql (sqlSign e1 P L DL n (kr_Version r) \<lparr>sg_Alg = alg, sg_Value = digest\<rparr>) d' = (Inr sig, d') \<longrightarrow>
     runSql (sqlVerify e2 P L DL n (kr_Version r) \<lparr>vr_Alg = alg, vr_Digest = digest, vr_Value = sig\<rparr>) d' = (Inr True, d'))"
proof -
  have text_jwk: "jsonJWK jwk = jwk"
    by (rule GenerateKey_text [OF assms(5) defaultKeyOps_text [OF assms(6)]])
  have mat: "material_ok m"
    by (rule GenerateKey_material [OF assms(5,10)])
  from sqlCreateKey_row [OF assms(1,4,5)]
  have ins: "runSql (insertKeyRow e L DL r m (sq_nano e)) d = (Inr (), d')" and r: "kr_Name r = n" "keyText r"
    using text_jwk assms(7) by (auto simp: keyText_def)
  obtain c where c: "serializeKeyMaterial L DL m = Inr c" "d' = d\<lparr>kv_keys := kv_keys d @ [rowOfKey r c (sq_nano e)]\<rparr>"
    "\<forall>x \<in> set (kv_keys d). \<not> (rk_Name x = kr_Name r \<and> rk_Version x = kr_Version r)"
    using insertKeyRow_run [OF assms(1) ins] by blast
  have row: "runSql (getKeyVersionRow x L DL n (kr_Version r)) d' = (Inr (r, m), d')" if "calmSql x" for x
    using getKeyVersionRow_inserted [OF that r(2) assms(8) c(1) assms(9) mat c(3)] r(1) c(2) by simp
  have "indep (getKeyVersionRow e1 L DL n (kr_Version r))"
    using assms(2) by (simp add: getKeyVersionRow_def sql_run)
  then have "runSql (sqlGetKey e1 L DL n (kr_Version r)) d' = (Inr r, d')"
    using row [OF assms(2)] by (simp add: sqlGetKey_def sql_run)
  then show ?thesis
    using sqlVerify_sqlSign [OF assms(2,3) row assms(11)] by blast
qed

lemma sampleEC_der:
  "der_law sampleLib sampleDer (emptyMaterial\<lparr>km_ECDSA := Some sampleEC, km_ECDSAPub := Some (ecp_PublicKey sampleEC)\<rparr>)"
  by (simp add: der_law_def sampleDer_def emptyMaterial_def)

theorem sql_key_in_use_witness:
  "\<exists>r d' sig. runSql (sqlCreateKey (sampleSqlEnv sampleEnv 1) samplePrims sampleLib sampleDer ''e'' (sampleKeyRequest ''EC''))
      NewSQLStore = (Inr r, d') \<and>
    runSql (sqlGetKey (sampleSqlEnv sampleEnv 2) sampleLib sampleDer ''e'' (kr_Version r)) d' = (Inr r, d')"
proof -
  let ?e = "sampleSqlEnv sampleEnv" and ?q = "sampleKeyRequest ''EC''"
  let ?m = "emptyMaterial\<lparr>km_ECDSA := Some sampleEC, km_ECDSAPub := Some (ecp_PublicKey sampleEC)\<rparr>"
  let ?jwk = "ECDSAToJWK [] ''EC'' [''sign'', ''verify''] ''P-256'' (ecp_PublicKey sampleEC)"
  have gen: "GenerateKey samplePrims (ck_Kty ?q) (ck_KeySize ?q) (ck_Crv ?q) [] (defaultKeyOps (ck_Kty ?q) (ck_KeyOps ?q)) =
      Inr (?m, ?jwk)"
    by (simp add: sampleKeyRequest_def sample_EC defaultKeyOps_def hasPrefix_def)
  have ser: "is_ok (serializeKeyMaterial sampleLib sampleDer ?m)"
    by (simp add: serializeKeyMaterial_def serializeRSA_def serializeEC_def emptyMaterial_def sampleDer_def rbind_def)
  then obtain c where "serializeKeyMaterial sampleLib sampleDer ?m = Inr c"
    by (cases "serializeKeyMaterial sampleLib sampleDer ?m") auto
  then have "\<exists>r d'. runSql (sqlCreateKey (?e 1) samplePrims sampleLib sampleDer ''e'' ?q) NewSQLStore = (Inr r, d') \<and>
      kr_Version r = hexEncode (replicate 16 7)"
    using gen sampleSqlEnv_calm indep_checkKey [OF sampleSqlEnv_calm(1)] indep_insertKeyRow [OF sampleSqlEnv_calm(1)]
    by (simp add: sqlCreateKey_def sql_run checkKeyDeleted_run insertKeyRow_def Let_def wrapErr_def sampleVersions
        NewSQLStore_def sampleKeyRequest_def del: hexEncode.simps)
  then obtain r d' where r: "runSql (sqlCreateKey (?e 1) samplePrims sampleLib sampleDer ''e'' ?q) NewSQLStore = (Inr r, d')"
    "kr_Version r \<noteq> []"
    by (auto simp del: hexEncode.simps)
  have "runSql (sqlGetKey (?e 2) sampleLib sampleDer ''e'' (kr_Version r)) d' = (Inr r, d')"
    using sql_key_in_use [OF sampleSqlEnv_calm(1) sampleSqlEnv_calm(1) sampleSqlEnv_calm(1) r(1) gen _ _ r(2) sampleEC_der]
      sampleEC_law
    by (simp add: sampleKeyRequest_def tags_text_def textTags_def emptyMaterial_def sampleECVersion_def)
  then show ?thesis
    using r(1) by blast
qed

end
