(* ===== verification/KV_Sql_Key_Refine.thy ===== *)
theory KV_Sql_Key_Refine
  imports KV_Sql_Material
begin

text \<open>
  The keys of the SQL store against those of the in-memory store. A row of \<open>kv_keys\<close> shows a version
  with its material, which is decoded from DER on every use; the relation says that decoding gives
  the material that the in-memory store keeps.
\<close>

section \<open>Rows, snapshots and versions\<close>

definition materialColumn :: "x509lib \<Rightarrow> derlib \<Rightarrow> serializedKeyMaterial column \<Rightarrow> bool" where
  "materialColumn L DL c \<longleftrightarrow> (\<exists>m. serializeKeyMaterial L DL m = Inr c \<and> deserializeKeyMaterial L DL c = Inr m)"

definition keyRow_ok :: "x509lib \<Rightarrow> derlib \<Rightarrow> keyRow \<Rightarrow> bool" where
  "keyRow_ok L DL r \<longleftrightarrow> text_ok (rk_Version r) \<and> materialColumn L DL (rk_Material r) \<and>
     (\<exists>jwk a t. rk_Jwk r = Inr jwk \<and> rk_Attributes r = Inr a \<and> rk_Tags r = Inr t \<and>
        jsonJWK jwk = jwk \<and> attrs_text a \<and> tags_text t)"

definition rowKey :: "x509lib \<Rightarrow> derlib \<Rightarrow> keyRow \<Rightarrow> keyVersion" where
  "rowKey L DL r =
     \<lparr>kv_record = \<lparr>kr_Name = rk_Name r, kr_Version = rk_Version r, kr_Key = projr (rk_Jwk r),
        kr_Attributes = projr (rk_Attributes r), kr_Tags = projr (rk_Tags r)\<rparr>,
      kv_material = projr (deserializeKeyMaterial L DL (rk_Material r))\<rparr>"

definition keySnapshot_ok :: "x509lib \<Rightarrow> derlib \<Rightarrow> keyVersionSnapshot \<Rightarrow> bool" where
  "keySnapshot_ok L DL v \<longleftrightarrow> text_ok (kvs_Version v) \<and> materialColumn L DL (kvs_Material v) \<and>
     jsonJWK (kvs_Key v) = kvs_Key v \<and> attrs_text (kvs_Attributes v) \<and> tags_text (kvs_Tags v)"

definition snapshotKey :: "x509lib \<Rightarrow> derlib \<Rightarrow> string \<Rightarrow> keyVersionSnapshot \<Rightarrow> keyVersion" where
  "snapshotKey L DL n v =
     \<lparr>kv_record = keyOfSnapshot n v, kv_material = projr (deserializeKeyMaterial L DL (kvs_Material v))\<rparr>"

definition rowKeySnapshot :: "keyRow \<Rightarrow> keyVersionSnapshot" where
  "rowKeySnapshot r = \<lparr>kvs_Version = rk_Version r, kvs_Key = projr (rk_Jwk r), kvs_Material = rk_Material r,
     kvs_Attributes = projr (rk_Attributes r), kvs_Tags = projr (rk_Tags r), kvs_CreatedAt = rk_CreatedAt r\<rparr>"

definition unsnapKey :: "string \<Rightarrow> keyVersionSnapshot \<Rightarrow> int \<Rightarrow> keyRow" where
  "unsnapKey n v ts = rowOfKey (keyOfSnapshot n v) (kvs_Material v) ts"

lemma rowOfKey_fields [simp]:
  "rk_Name (rowOfKey r c ts) = kr_Name r" "rk_Version (rowOfKey r c ts) = kr_Version r"
  "rk_CreatedAt (rowOfKey r c ts) = ts" "rk_Material (rowOfKey r c ts) = c"
  by (simp_all add: rowOfKey_def)

lemma attrs_column: "attrs_text a \<Longrightarrow> marshalAttrs a = Inr a"
  by (simp add: marshalAttrs_def attrs_text_def text_ok_def)

lemma tags_column: "tags_text t \<Longrightarrow> marshalTags t = Inr t"
  by (simp add: marshalTags_def tags_text_def)

lemma rowOfKey_ok:
  assumes "keyText r" "text_ok (kr_Version r)" "materialColumn L DL c"
  shows "keyRow_ok L DL (rowOfKey r c ts)"
    "rowKey L DL (rowOfKey r c ts) = \<lparr>kv_record = r, kv_material = projr (deserializeKeyMaterial L DL c)\<rparr>"
  using assms by (auto simp: keyText_def keyRow_ok_def rowKey_def rowOfKey_def marshalJWK_def attrs_column tags_column)

lemma keySnapshot_text: "keySnapshot_ok L DL v \<Longrightarrow> keyText (keyOfSnapshot n v)"
  by (simp add: keySnapshot_ok_def keyText_def keyOfSnapshot_def)

lemma keyOfSnapshot_fields [simp]: "kr_Name (keyOfSnapshot n v) = n" "kr_Version (keyOfSnapshot n v) = kvs_Version v"
  by (simp_all add: keyOfSnapshot_def)

interpretation kt: soft_deleted_table rk_Name rk_Version rk_CreatedAt "keyRow_ok L DL" "rowKey L DL" "\<lambda>v. v"
  "\<lambda>v. kr_Version (kv_record v)" kvs_Version kvs_CreatedAt "keySnapshot_ok L DL" "snapshotKey L DL" rowKeySnapshot
  unsnapKey for L DL
proof
  show "keyRow_ok L DL r \<Longrightarrow> v = rowKey L DL r \<Longrightarrow> kr_Version (kv_record v) = rk_Version r" for r v
    by (simp add: rowKey_def)
  show "kvs_Version (rowKeySnapshot r) = rk_Version r" "kvs_CreatedAt (rowKeySnapshot r) = rk_CreatedAt r" for r
    by (simp_all add: rowKeySnapshot_def)
  show "keyRow_ok L DL r \<Longrightarrow> keySnapshot_ok L DL (rowKeySnapshot r)" for r
    by (auto simp: keyRow_ok_def keySnapshot_ok_def rowKeySnapshot_def)
  show "keyRow_ok L DL r \<Longrightarrow> snapshotKey L DL (rk_Name r) (rowKeySnapshot r) = rowKey L DL r" for r
    by (auto simp: keyRow_ok_def snapshotKey_def rowKey_def rowKeySnapshot_def keyOfSnapshot_def)
  show "rk_Name (unsnapKey n x t) = n" "rk_Version (unsnapKey n x t) = kvs_Version x"
    "rk_CreatedAt (unsnapKey n x t) = t" for n x t
    by (simp_all add: unsnapKey_def)
  show "keySnapshot_ok L DL x \<Longrightarrow> keyRow_ok L DL (unsnapKey n x t)"
    "keySnapshot_ok L DL x \<Longrightarrow> rowKey L DL (unsnapKey n x t) = snapshotKey L DL n x" for n x t
    using rowOfKey_ok [OF keySnapshot_text, of L DL x n L DL "kvs_Material x" t]
    by (simp_all add: unsnapKey_def snapshotKey_def) (simp_all add: keySnapshot_ok_def)
qed

definition keysRel :: "x509lib \<Rightarrow> derlib \<Rightarrow> SQLStore \<Rightarrow> Store \<Rightarrow> bool" where
  "keysRel L DL d s \<longleftrightarrow>
     tableRel rk_Name rk_Version rk_CreatedAt (keyRow_ok L DL) (rowKey L DL) (\<lambda>v. v) (kv_keys d) (st_keys s) \<and>
     goneRel kvs_Version kvs_CreatedAt (keySnapshot_ok L DL) (snapshotKey L DL) (\<lambda>v. v) (kv_deleted_keys d) (st_deletedKeys s)"

lemma keysRel_New: "keysRel L DL NewSQLStore New"
  by (simp add: keysRel_def NewSQLStore_def New_def kt.rel_empty kt.gone_empty)

section \<open>Reading\<close>

lemma clone_key: "tags_ok (kr_Tags r) \<Longrightarrow> cloneKeyRecord r = r"
  by (cases r) (simp add: cloneKeyRecord_def cloneTags_id)

lemma keyRow_reads:
  assumes "keyRow_ok L DL r"
  shows "keyOfRow (rk_Name r) r = Inr (kv_record (rowKey L DL r))"
    "keyWithMaterial L DL (rk_Name r) r = Inr (kv_record (rowKey L DL r), kv_material (rowKey L DL r))"
    "keySnapshotOfRow r = Inr (rowKeySnapshot r)" "jsonKeySnapshot (rowKeySnapshot r) = rowKeySnapshot r"
    "cloneKeyRecord (kv_record (rowKey L DL r)) = kv_record (rowKey L DL r)" "keyText (kv_record (rowKey L DL r))"
proof -
  obtain jwk a t m where r: "rk_Jwk r = Inr jwk" "rk_Attributes r = Inr a" "rk_Tags r = Inr t" "jsonJWK jwk = jwk"
    "attrs_text a" "tags_text t" "deserializeKeyMaterial L DL (rk_Material r) = Inr m" "text_ok (rk_Version r)"
    using assms by (auto simp: keyRow_ok_def materialColumn_def)
  note unmarshal = unmarshalJWK_def unmarshalAttrs_def unmarshalTags_def
  show "keyOfRow (rk_Name r) r = Inr (kv_record (rowKey L DL r))"
    "keyWithMaterial L DL (rk_Name r) r = Inr (kv_record (rowKey L DL r), kv_material (rowKey L DL r))"
    "keySnapshotOfRow r = Inr (rowKeySnapshot r)"
    using r by (simp_all add: keyOfRow_def keyWithMaterial_def keySnapshotOfRow_def rowKeySnapshot_def rowKey_def
        unmarshal rbind_def)
  show "jsonKeySnapshot (rowKeySnapshot r) = rowKeySnapshot r"
    using r by (simp add: jsonKeySnapshot_def rowKeySnapshot_def attrs_text_def tags_text_def text_ok_def)
  show "cloneKeyRecord (kv_record (rowKey L DL r)) = kv_record (rowKey L DL r)"
    using r by (intro clone_key) (simp add: rowKey_def tags_text_map_ok)
  show "keyText (kv_record (rowKey L DL r))"
    using r by (simp add: keyText_def rowKey_def)
qed

lemma indep_keys [sql_run]:
  assumes "calmSql e"
  shows "indep (getKeyVersionRow e L DL n v)" "indep (getDeletedKeyRow e n)" "indep (allKeyVersionSnapshots e n)"
    "indep (purgeKeyRow e n)" "indep (insertKeyRow e L DL rcd m ts)"
  using assms
  by (simp_all add: getKeyVersionRow_def getDeletedKeyRow_def allKeyVersionSnapshots_def purgeKeyRow_def
      insertKeyRow_def sql_run Let_def)

lemma keysRelD:
  "keysRel L DL d s \<Longrightarrow> kt.rel L DL (kv_keys d) (st_keys s)"
  "keysRel L DL d s \<Longrightarrow> kt.gone L DL (kv_deleted_keys d) (st_deletedKeys s)"
  by (simp_all add: keysRel_def)

text \<open>The row that a query finds is the version that the in-memory store finds.\<close>

lemma getKeyVersionRow_run:
  assumes rel: "keysRel L DL d s" and e: "calmSql e"
  shows "runSql (getKeyVersionRow e L DL n v) d =
    (rbind (keyMaterial s n v) (\<lambda>ver. Inr (kv_record ver, kv_material ver)), d)"
  using keysRelD(1) [OF rel]
proof (cases rule: kt.select_cases [where n = n and v = v])
  case none
  then show ?thesis
    using e by (auto simp: getKeyVersionRow_def sql_run keyMaterial_def findKeyVersion_def split: option.split)
next
  case (some r entry i)
  then show ?thesis
    using e keyRow_reads(2) [OF some(4)]
    by (simp add: getKeyVersionRow_def sql_run keyMaterial_def findKeyVersion_def)
qed

lemma GetKey_material: "GetKey s n v = rbind (keyMaterial s n v) (\<lambda>ver. Inr (cloneKeyRecord (kv_record ver)))"
  by (simp add: GetKey_def keyMaterial_def split: option.split)

lemma keyMaterial_row:
  assumes rel: "keysRel L DL d s" and v: "keyMaterial s n v = Inr ver"
  obtains r where "r \<in> set (kv_keys d)" "rk_Name r = n" "keyRow_ok L DL r" "ver = rowKey L DL r"
  using keysRelD(1) [OF rel]
proof (cases rule: kt.select_cases [where n = n and v = v])
  case none
  then show ?thesis
    using v by (simp add: keyMaterial_def findKeyVersion_def split: option.split_asm)
next
  case (some r entry i)
  then show ?thesis
    using v that by (simp add: keyMaterial_def findKeyVersion_def)
qed

lemma clone_material: "keysRel L DL d s \<Longrightarrow> keyMaterial s n v = Inr ver \<Longrightarrow> cloneKeyRecord (kv_record ver) = kv_record ver"
  by (erule (1) keyMaterial_row) (simp add: keyRow_reads)

lemma sqlGetKey_run:
  assumes rel: "keysRel L DL d s" and e: "calmSql e"
  shows "runSql (sqlGetKey e L DL n v) d = (GetKey s n v, d)"
  using e clone_material [OF rel, of n v]
  by (cases "keyMaterial s n v")
    (simp_all add: sqlGetKey_def GetKey_material sql_run getKeyVersionRow_run [OF rel e] rbind_def)

lemma entry_latest:
  assumes rel: "keysRel L DL d s" and entry: "map_of (st_keys s) n = Some entry"
  shows "entry \<noteq> []" "keyMaterial s n [] = Inr (last entry)" "GetKey s n [] = Inr (cloneKeyRecord (kv_record (last entry)))"
proof -
  show ne: "entry \<noteq> []"
    using kt.entry_length [OF keysRelD(1) [OF rel] entry] by blast
  then show "keyMaterial s n [] = Inr (last entry)" "GetKey s n [] = Inr (cloneKeyRecord (kv_record (last entry)))"
    using entry by (simp_all add: keyMaterial_def GetKey_def findKeyVersion_def findVersion_Nil last_conv_nth)
qed

lemma sqlListKeys_run:
  assumes rel: "keysRel L DL d s" and e: "calmSql e"
  shows "runSql (sqlListKeys e L DL m tok) d = (ListKeys s m tok, d)"
proof -
  note live = keysRelD(1) [OF rel]
  show ?thesis
    unfolding sqlListKeys_def ListKeys_def latestKey_def
  proof (rule live_listing_run [OF e])
    show "entry \<noteq> [] \<and> runSql (qbind (getKeyVersionRow e L DL n []) (\<lambda>(rcd, _). qret rcd)) d =
        (Inr (cloneKeyRecord (kv_record (last entry))), d)" if "map_of (st_keys s) n = Some entry" for n entry
      using entry_latest [OF rel that] sqlGetKey_run [OF rel e, of n "[]"] by (simp add: sqlGetKey_def)
  qed (use e kt.names [OF live] kt.relD(3) [OF live] in \<open>simp_all add: sql_run\<close>)
qed

lemma sqlListKeyVersions_run:
  assumes rel: "keysRel L DL d s" and e: "calmSql e"
  shows "runSql (sqlListKeyVersions e n m tok) d = (ListKeyVersions s n m tok, d)"
proof -
  note live = keysRelD(1) [OF rel]
  show ?thesis
  proof (cases "map_of (st_keys s) n")
    case None
    then show ?thesis
      using e kt.count [OF live, of n] by (simp add: sqlListKeyVersions_def ListKeyVersions_def sql_run)
  next
    case (Some entry)
    let ?rs = "rowsOf rk_Name rk_CreatedAt n (kv_keys d)"
    have row: "keyOfRow n r = Inr (kv_record (rowKey L DL r))" "cloneKeyRecord (kv_record (rowKey L DL r)) = kv_record (rowKey L DL r)"
      if "r \<in> set ?rs" for r
      using that keyRow_reads(1,5) kt.relD(2) [OF live] by auto
    have "mapRes (keyOfRow n) (rev ?rs) = Inr (map (\<lambda>r. kv_record (rowKey L DL r)) (rev ?rs))"
      using row(1) by (intro mapRes_Inr) simp
    moreover have "map (\<lambda>v. cloneKeyRecord (kv_record v)) entry = map (\<lambda>r. kv_record (rowKey L DL r)) ?rs"
      using kt.relD(5) [OF live Some] row(2) by simp
    then have "map (\<lambda>v. cloneKeyRecord (kv_record v)) (rev entry) = map (\<lambda>r. kv_record (rowKey L DL r)) (rev ?rs)"
      by (metis rev_map)
    ultimately show ?thesis
      using e Some kt.count [OF live, of n] kt.newest_first [OF live, of n]
      by (simp add: sqlListKeyVersions_def ListKeyVersions_def sql_run)
  qed
qed

section \<open>Reading deleted keys\<close>

lemma getDeletedKeyRow_run:
  "calmSql e \<Longrightarrow> runSql (getDeletedKeyRow e n) d =
    ((case goneRowOf n (kv_deleted_keys d) of None \<Rightarrow> Inl (deletedKeyNotFound n) | Some r \<Rightarrow> Inr r), d)"
  by (cases "goneRowOf n (kv_deleted_keys d)") (simp_all add: getDeletedKeyRow_def sql_run goneRowOf_def)

lemma latestKeyRecord_last: "entry \<noteq> [] \<Longrightarrow> latestKeyRecord entry = Inr (kv_record (last entry))"
  by (simp add: latestKeyRecord_def ofOption_def)

lemma deletedKeyFromRow_run:
  assumes rel: "keysRel L DL d s" and r: "goneRowOf n (kv_deleted_keys d) = Some r" "map_of (st_deletedKeys s) n = Some x"
  shows "\<exists>rcd. deletedKeyFromRow r = Inr rcd \<and> deletedKeyRecord x = Inr rcd"
  using keysRelD(2) [OF rel]
proof (cases rule: kt.gone_cases [where n = n])
  case (some r' x' vs)
  then have v: "rd_Versions r = Inr vs" "vs \<noteq> []" "de_entry x = map (snapshotKey L DL n) vs" "rd_Name r = n"
    "keySnapshot_ok L DL (last vs)" "de_recoveryID x = rd_RecoveryID r" "de_deletedDate x = rd_DeletedDate r"
    "de_scheduledPurgeDate x = rd_ScheduledPurgeDate r"
    using r by (simp_all add: list_all_iff)
  have "cloneKeyRecord (keyOfSnapshot n (last vs)) = keyOfSnapshot n (last vs)"
    using keySnapshot_text [OF v(5)] by (intro clone_key) (simp add: keyText_def tags_text_map_ok)
  then show ?thesis
    using v by (simp add: deletedKeyFromRow_def deletedKeyRecord_def latestKeyRecord_last last_map snapshotKey_def rbind_def)
qed (use r in simp)

lemma sqlGetDeletedKey_run:
  assumes rel: "keysRel L DL d s" and e: "calmSql e"
  shows "runSql (sqlGetDeletedKey e n) d = (GetDeletedKey s n, d)"
  using keysRelD(2) [OF rel]
proof (cases rule: kt.gone_cases [where n = n])
  case none
  then show ?thesis
    using e by (simp add: sqlGetDeletedKey_def GetDeletedKey_def sql_run getDeletedKeyRow_run)
next
  case (some r x vs)
  then show ?thesis
    using e deletedKeyFromRow_run [OF rel some(1,3)]
    by (auto simp: sqlGetDeletedKey_def GetDeletedKey_def sql_run getDeletedKeyRow_run)
qed

lemma sqlListDeletedKeys_run:
  assumes rel: "keysRel L DL d s" and e: "calmSql e"
  shows "runSql (sqlListDeletedKeys e m tok) d = (ListDeletedKeys s m tok, d)"
proof -
  note gone = keysRelD(2) [OF rel]
  show ?thesis
    unfolding sqlListDeletedKeys_def ListDeletedKeys_def
  proof (rule gone_listing_run [OF e])
    show "\<exists>r. runSql (qbind (getDeletedKeyRow e n) (\<lambda>r. qlift (deletedKeyFromRow r))) d = (Inr r, d) \<and> deletedKeyRecord x = Inr r"
      if "map_of (st_deletedKeys s) n = Some x" for n x
      using gone
    proof (cases rule: kt.gone_cases [where n = n])
      case (some r x' vs)
      then show ?thesis
        using that deletedKeyFromRow_run [OF rel some(1) that] sqlGetDeletedKey_run [OF rel e, of n]
        by (auto simp: sqlGetDeletedKey_def GetDeletedKey_def)
    qed (use that in simp)
  qed (use e kt.gone_names [OF gone] kt.goneD(3) [OF gone] in \<open>simp_all add: sql_run\<close>)
qed

section \<open>Cryptographic operations\<close>

lemma crypto_run:
  assumes rel: "keysRel L DL d s" and e: "calmSql e"
  shows "runSql (sqlEncrypt e P L DL n v q) d = (Encrypt P s n v q, d)"
    "runSql (sqlDecrypt e P L DL n v q) d = (Decrypt P s n v q, d)"
    "runSql (sqlSign e P L DL n v g) d = (Sign P s n v g, d)"
    "runSql (sqlVerify e P L DL n v h) d = (Verify P s n v h, d)"
    "runSql (sqlWrapKey e P L DL n v q) d = (WrapKey P s n v q, d)"
    "runSql (sqlUnwrapKey e P L DL n v q) d = (UnwrapKey P s n v q, d)"
  using e unfolding sqlEncrypt_def sqlDecrypt_def sqlSign_def sqlVerify_def sqlWrapKey_def sqlUnwrapKey_def
    Encrypt_def Decrypt_def Sign_def Verify_def WrapKey_def UnwrapKey_def
  by (cases "keyMaterial s n v"; simp add: sql_run getKeyVersionRow_run [OF rel e])+

section \<open>Writing\<close>

text \<open>
  A call on keys, in both stores: the same answer, related keys, and no certificate touched.
\<close>

definition keySimulates ::
  "x509lib \<Rightarrow> derlib \<Rightarrow> SQLStore \<Rightarrow> Store \<Rightarrow> 'a res \<times> SQLStore \<Rightarrow> 'a res \<times> Store \<Rightarrow> bool" where
  "keySimulates L DL d s sq mem \<longleftrightarrow> fst sq = fst mem \<and> keysRel L DL (snd sq) (snd mem) \<and>
     kv_certificates (snd sq) = kv_certificates d \<and> kv_deleted_certificates (snd sq) = kv_deleted_certificates d \<and>
     st_certificates (snd mem) = st_certificates s \<and> st_deletedCertificates (snd mem) = st_deletedCertificates s"

lemma keySimulates_same: "keysRel L DL d s \<Longrightarrow> r = r' \<Longrightarrow> keySimulates L DL d s (r, d) (r', s)"
  by (simp add: keySimulates_def)

definition freshKey :: "SQLStore \<Rightarrow> string \<Rightarrow> string \<Rightarrow> int \<Rightarrow> bool" where
  "freshKey d n v ts \<longleftrightarrow> list_all (\<lambda>r. rk_Name r = n \<longrightarrow> rk_Version r \<noteq> v \<and> rk_CreatedAt r < ts) (kv_keys d)"

text \<open>Material that the DER functions write, and read back as it was.\<close>

definition materialFit :: "x509lib \<Rightarrow> derlib \<Rightarrow> KeyMaterial \<Rightarrow> bool" where
  "materialFit L DL m \<longleftrightarrow> is_ok (serializeKeyMaterial L DL m) \<and> der_law L DL m \<and> material_ok m"

lemma insertKeyRow_ok:
  assumes e: "calmSql e" and m: "serializeKeyMaterial L DL m = Inr c"
    and new: "(kr_Name r, kr_Version r) \<notin> (\<lambda>r. (rk_Name r, rk_Version r)) ` set (kv_keys d)"
  shows "runSql (insertKeyRow e L DL r m ts) d = (Inr (), d\<lparr>kv_keys := kv_keys d @ [rowOfKey r c ts]\<rparr>)"
proof -
  have "\<not> (\<exists>x \<in> set (kv_keys d). rk_Name x = kr_Name r \<and> rk_Version x = kr_Version r)"
    using new by force
  then show ?thesis
    using e m by (simp add: insertKeyRow_def Let_def sql_run rowOfKey_def)
qed

lemma keysRel_insert:
  assumes rel: "keysRel L DL d s" and e: "calmSql e" and m: "materialFit L DL m"
    and r: "keyText r" "text_ok (kr_Version r)" "freshKey d (kr_Name r) (kr_Version r) ts"
  shows "\<exists>row. runSql (insertKeyRow e L DL r m ts) d = (Inr (), d\<lparr>kv_keys := kv_keys d @ [row]\<rparr>) \<and>
    keysRel L DL (d\<lparr>kv_keys := kv_keys d @ [row]\<rparr>)
      (s\<lparr>st_keys := appendVersion (kr_Name r) \<lparr>kv_record = r, kv_material = m\<rparr> (st_keys s)\<rparr>)"
proof -
  obtain c where c: "serializeKeyMaterial L DL m = Inr c" "deserializeKeyMaterial L DL c = Inr m"
    using m deserialize_serialize by (cases "serializeKeyMaterial L DL m") (auto simp: materialFit_def)
  then have "materialColumn L DL c"
    by (auto simp: materialColumn_def)
  note row = rowOfKey_ok [OF r(1,2) this, of ts]
  have "(kr_Name r, kr_Version r) \<notin> (\<lambda>r. (rk_Name r, rk_Version r)) ` set (kv_keys d)"
    using r(3) by (auto simp: freshKey_def list_all_iff)
  from insertKeyRow_ok [OF e c(1) this]
  have ins: "runSql (insertKeyRow e L DL r m ts) d = (Inr (), d\<lparr>kv_keys := kv_keys d @ [rowOfKey r c ts]\<rparr>)" .
  have "kt.rel L DL (kv_keys d @ [rowOfKey r c ts])
      (appendVersion (kr_Name r) \<lparr>kv_record = r, kv_material = m\<rparr> (st_keys s))"
    using keysRelD(1) [OF rel] row(1)
    by (rule kt.rel_insert) (use r(3) row(2) c(2) in \<open>auto simp: freshKey_def list_all_iff\<close>)
  then show ?thesis
    using ins rel by (auto simp: keysRel_def)
qed

lemma sqlCreateKey_run:
  assumes rel: "keysRel L DL d s" and e: "calmSql e" "newVersion (sq_env e) = Inr v" "freshKey d n v (sq_nano e)"
    and q: "list_all text_ok (ck_KeyOps q)" "tags_text (ck_Tags q)"
    and m: "\<And>m jwk. GenerateKey P (ck_Kty q) (ck_KeySize q) (ck_Crv q) [] (defaultKeyOps (ck_Kty q) (ck_KeyOps q)) =
      Inr (m, jwk) \<Longrightarrow> materialFit L DL m"
  shows "keySimulates L DL d s (runSql (sqlCreateKey e P L DL n q) d) (CreateKey (sq_env e) P n q s)"
proof -
  let ?gen = "GenerateKey P (ck_Kty q) (ck_KeySize q) (ck_Crv q) [] (defaultKeyOps (ck_Kty q) (ck_KeyOps q))"
  note run = sqlCreateKey_def CreateKey_def sql_run checkNotDeleted_run indep_reads(4) Let_def e(2)
  have gone: "goneRowOf n (kv_deleted_keys d) = None \<longleftrightarrow> map_of (st_deletedKeys s) n = None"
    using kt.goneD(5) [OF keysRelD(2) [OF rel], of n] by simp
  show ?thesis
  proof (cases "n = [] \<or> ck_Kty q = [] \<or> map_of (st_deletedKeys s) n \<noteq> None")
    case True
    then show ?thesis
      using rel e(1) gone by (auto simp: run keyIsDeleted_def intro!: keySimulates_same)
  next
    case False
    show ?thesis
    proof (cases ?gen)
      case (Inl err)
      then show ?thesis
        using rel e(1) gone False by (auto simp: run wrapErr_def split: goerr.split intro!: keySimulates_same)
    next
      case (Inr p)
      then obtain m jwk where g: "?gen = Inr (m, jwk)"
        by (cases p) simp
      let ?r = "\<lparr>kr_Name = n, kr_Version = v, kr_Key = jwk, kr_Attributes = buildAttributes (ck_Attributes q)
        (env_now (sq_env e)) (env_now (sq_env e)), kr_Tags = cloneTags (ck_Tags q)\<rparr>"
      have r: "keyText ?r" "text_ok v" "cloneKeyRecord ?r = ?r"
        using GenerateKey_text [OF g defaultKeyOps_text [OF q(1)]] q(2) text_ok_newVersion [OF e(2)]
        by (simp_all add: keyText_def clone_key tags_text_map_ok)
      obtain row where "runSql (insertKeyRow e L DL ?r m (sq_nano e)) d = (Inr (), d\<lparr>kv_keys := kv_keys d @ [row]\<rparr>)"
        "keysRel L DL (d\<lparr>kv_keys := kv_keys d @ [row]\<rparr>)
          (s\<lparr>st_keys := appendVersion n \<lparr>kv_record = ?r, kv_material = m\<rparr> (st_keys s)\<rparr>)"
        using keysRel_insert [OF rel e(1) m [OF g], of ?r "sq_nano e"] r(1,2) e(3) by auto
      then show ?thesis
        using rel e(1) gone False g r(3) by (simp add: run wrapErr_def keySimulates_def)
    qed
  qed
qed

lemma sqlImportKey_run:
  assumes rel: "keysRel L DL d s" and e: "calmSql e" "newVersion (sq_env e) = Inr v" "freshKey d n v (sq_nano e)"
    and q: "tags_text (ik_Tags q)"
    and m: "\<And>m jwk. ImportKeyMaterial (ik_Key q) [] = Inr (m, jwk) \<Longrightarrow> materialFit L DL m \<and>
      jsonJWK (jwk\<lparr>jwk_KeyOps := defaultKeyOps (jwk_Kty (ik_Key q)) (jwk_KeyOps (ik_Key q))\<rparr>) =
        jwk\<lparr>jwk_KeyOps := defaultKeyOps (jwk_Kty (ik_Key q)) (jwk_KeyOps (ik_Key q))\<rparr>"
  shows "keySimulates L DL d s (runSql (sqlImportKey e L DL n q) d) (ImportKey (sq_env e) n q s)"
proof -
  note run = sqlImportKey_def ImportKey_def sql_run checkNotDeleted_run indep_reads(4) Let_def e(2)
  have gone: "goneRowOf n (kv_deleted_keys d) = None \<longleftrightarrow> map_of (st_deletedKeys s) n = None"
    using kt.goneD(5) [OF keysRelD(2) [OF rel], of n] by simp
  show ?thesis
  proof (cases "n = [] \<or> jwk_Kty (ik_Key q) = [] \<or> map_of (st_deletedKeys s) n \<noteq> None")
    case True
    then show ?thesis
      using rel e(1) gone by (auto simp: run keyIsDeleted_def intro!: keySimulates_same)
  next
    case False
    show ?thesis
    proof (cases "ImportKeyMaterial (ik_Key q) []")
      case (Inl err)
      then show ?thesis
        using rel e(1) gone False by (auto simp: run wrapErr_def split: goerr.split intro!: keySimulates_same)
    next
      case (Inr p)
      then obtain m jwk where g: "ImportKeyMaterial (ik_Key q) [] = Inr (m, jwk)"
        by (cases p) simp
      let ?r = "\<lparr>kr_Name = n, kr_Version = v,
        kr_Key = jwk\<lparr>jwk_KeyOps := defaultKeyOps (jwk_Kty (ik_Key q)) (jwk_KeyOps (ik_Key q))\<rparr>,
        kr_Attributes = buildAttributes (ik_Attributes q) (env_now (sq_env e)) (env_now (sq_env e)),
        kr_Tags = cloneTags (ik_Tags q)\<rparr>"
      have r: "keyText ?r" "text_ok v" "cloneKeyRecord ?r = ?r"
        using m [OF g] q text_ok_newVersion [OF e(2)] by (simp_all add: keyText_def clone_key tags_text_map_ok)
      obtain row where "runSql (insertKeyRow e L DL ?r m (sq_nano e)) d = (Inr (), d\<lparr>kv_keys := kv_keys d @ [row]\<rparr>)"
        "keysRel L DL (d\<lparr>kv_keys := kv_keys d @ [row]\<rparr>)
          (s\<lparr>st_keys := appendVersion n \<lparr>kv_record = ?r, kv_material = m\<rparr> (st_keys s)\<rparr>)"
        using keysRel_insert [OF rel e(1) conjunct1 [OF m [OF g]], of ?r "sq_nano e"] r(1,2) e(3) by auto
      then show ?thesis
        using rel e(1) gone False g r(3) by (simp add: run wrapErr_def keySimulates_def)
    qed
  qed
qed

text \<open>The record after an update, and the row that holds it.\<close>

definition updatedKey :: "env \<Rightarrow> UpdateKeyRequest \<Rightarrow> KeyRecord \<Rightarrow> KeyRecord" where
  "updatedKey e q r = r\<lparr>kr_Attributes := mergeAttributes (env_now e) (kr_Attributes r) (uk_Attributes q),
     kr_Tags := (if uk_Tags q \<noteq> None then cloneTags (uk_Tags q) else kr_Tags r),
     kr_Key := (case uk_KeyOps q of None \<Rightarrow> kr_Key r | Some ops \<Rightarrow> (kr_Key r)\<lparr>jwk_KeyOps := ops\<rparr>)\<rparr>"

definition updateKeyText :: "UpdateKeyRequest \<Rightarrow> bool" where
  "updateKeyText q \<longleftrightarrow> (case uk_KeyOps q of None \<Rightarrow> True | Some ops \<Rightarrow> list_all text_ok ops) \<and> tags_text (uk_Tags q)"

lemma jsonJWK_ops: "jsonJWK j = j \<Longrightarrow> list_all text_ok ops \<Longrightarrow> jsonJWK (j\<lparr>jwk_KeyOps := ops\<rparr>) = j\<lparr>jwk_KeyOps := ops\<rparr>"
proof -
  assume "jsonJWK j = j" "list_all text_ok ops"
  moreover have "map toValidUTF8 ops = ops" if "list_all text_ok ops"
    using that by (intro map_idI) (simp add: list_all_iff text_ok_def)
  ultimately show ?thesis
    by (cases j) (simp add: jsonJWK_def)
qed

lemma updatedKey_text: "keyText r \<Longrightarrow> updateKeyText q \<Longrightarrow> keyText (updatedKey e q r)"
  by (auto simp: keyText_def updateKeyText_def updatedKey_def jsonJWK_ops split: option.splits)

lemma updatedKey_steps:
  "(let r = r\<lparr>kr_Attributes := mergeAttributes (env_now e) (kr_Attributes r) (uk_Attributes q)\<rparr>;
        r = (if uk_Tags q \<noteq> None then r\<lparr>kr_Tags := cloneTags (uk_Tags q)\<rparr> else r);
        r = (case uk_KeyOps q of None \<Rightarrow> r | Some ops \<Rightarrow> r\<lparr>kr_Key := (kr_Key r)\<lparr>jwk_KeyOps := [] @ ops\<rparr>\<rparr>)
    in f r) = f (updatedKey e q r)"
  by (cases r; cases "uk_Tags q") (simp_all add: updatedKey_def Let_def split: option.split)

lemma sqlUpdateKey_run:
  assumes rel: "keysRel L DL d s" and e: "calmSql e" and q: "updateKeyText q"
  shows "keySimulates L DL d s (runSql (sqlUpdateKey e L DL n v q) d) (UpdateKey (sq_env e) n v q s)"
  using keysRelD(1) [OF rel]
proof (cases rule: kt.select_cases [where n = n and v = v])
  case none
  then have "keyMaterial s n v = Inl (keyNotFound n)" "UpdateKey (sq_env e) n v q s = (Inl (keyNotFound n), s)"
    by (cases "map_of (st_keys s) n"; simp add: keyMaterial_def UpdateKey_def findKeyVersion_def)+
  then show ?thesis
    using rel e
    by (simp add: sqlUpdateKey_def sql_run Let_def getKeyVersionRow_run [OF rel e] keySimulates_same)
next
  case (some row entry i)
  let ?u = "updatedKey (sq_env e) q" and ?r0 = "kv_record (rowKey L DL row)"
  let ?f = "\<lambda>r. r\<lparr>rk_Jwk := marshalJWK (kr_Key (?u ?r0)), rk_Attributes := marshalAttrs (kr_Attributes (?u ?r0)),
    rk_Tags := marshalTags (kr_Tags (?u ?r0))\<rparr>"
  have mat: "keyMaterial s n v = Inr (rowKey L DL row)"
    using some by (simp add: keyMaterial_def findKeyVersion_def)
  have utext: "keyText (?u ?r0)"
    using updatedKey_text [OF keyRow_reads(6) [OF some(4)] q] .
  have id: "kr_Name (?u ?r0) = n" "kr_Version (?u ?r0) = rk_Version row"
    using some(3) by (simp_all add: updatedKey_def rowKey_def)
  have col: "materialColumn L DL (rk_Material row)" "text_ok (rk_Version row)"
    using some(4) by (simp_all add: keyRow_ok_def)
  have "?f row = rowOfKey (?u ?r0) (rk_Material row) (rk_CreatedAt row)"
    using id some(3) by (cases row) (simp add: rowOfKey_def)
  with rowOfKey_ok [OF utext _ col(1), of "rk_CreatedAt row"] id(2) col(2)
  have row: "keyRow_ok L DL (?f row)" "rowKey L DL (?f row) = (rowKey L DL row)\<lparr>kv_record := ?u ?r0\<rparr>"
    by (simp_all add: rowKey_def)
  have "kt.rel L DL (map (\<lambda>r. if rk_Name r = n \<and> rk_Version r = rk_Version row then ?f r else r) (kv_keys d))
      (mput n (entry[i := (rowKey L DL row)\<lparr>kv_record := ?u ?r0\<rparr>]) (st_keys s))"
    using row by (intro kt.rel_update [OF keysRelD(1) [OF rel] some(5,7,9)]) simp_all
  moreover have "entry ! i = rowKey L DL row"
    using some(8) by simp
  moreover have "cloneKeyRecord (?u ?r0) = ?u ?r0"
    using utext by (intro clone_key) (simp add: keyText_def tags_text_map_ok)
  ultimately show ?thesis
    using rel e mat some(5,6) id unfolding sqlUpdateKey_def UpdateKey_def updatedKey_steps
    by (simp add: sql_run getKeyVersionRow_run [OF rel e] findKeyVersion_def keySimulates_def keysRel_def Let_def)
qed

section \<open>Deleting and recovering\<close>

lemma allKeyVersionSnapshots_run:
  assumes rel: "keysRel L DL d s" and e: "calmSql e"
  shows "runSql (allKeyVersionSnapshots e n) d = (Inr (map rowKeySnapshot (rowsOf rk_Name rk_CreatedAt n (kv_keys d))), d)"
    "map jsonKeySnapshot (map rowKeySnapshot (rowsOf rk_Name rk_CreatedAt n (kv_keys d))) =
      map rowKeySnapshot (rowsOf rk_Name rk_CreatedAt n (kv_keys d))"
proof -
  have "mapRes keySnapshotOfRow (rowsOf rk_Name rk_CreatedAt n (kv_keys d)) =
      Inr (map rowKeySnapshot (rowsOf rk_Name rk_CreatedAt n (kv_keys d)))"
    using keyRow_reads(3) [of L DL] kt.relD(2) [OF keysRelD(1) [OF rel]] by (intro mapRes_Inr) simp
  then show "runSql (allKeyVersionSnapshots e n) d = (Inr (map rowKeySnapshot (rowsOf rk_Name rk_CreatedAt n (kv_keys d))), d)"
    using e by (simp add: allKeyVersionSnapshots_def sql_run rowsOf_def)
  show "map jsonKeySnapshot (map rowKeySnapshot (rowsOf rk_Name rk_CreatedAt n (kv_keys d))) =
      map rowKeySnapshot (rowsOf rk_Name rk_CreatedAt n (kv_keys d))"
    using keyRow_reads(4) [of L DL] kt.relD(2) [OF keysRelD(1) [OF rel]] by auto
qed

lemma sqlDeleteKey_run:
  assumes rel: "keysRel L DL d s" and e: "calmSql e" "newVersion (sq_env e) = Inr v"
  shows "keySimulates L DL d s (runSql (sqlDeleteKey e L DL n) d) (DeleteKey (sq_env e) n s)"
proof -
  obtain rid where rid: "newRecoveryID (sq_env e) ''keys'' n = Inr rid"
    using e(2) by (simp add: newRecoveryID_def rbind_def)
  note live = keysRelD(1) [OF rel] and gone = keysRelD(2) [OF rel]
  note run = sqlDeleteKey_def sql_run Let_def getKeyVersionRow_run [OF rel e(1)] goneRowOf_count
  have dead: "goneRowOf n (kv_deleted_keys d) = None \<longleftrightarrow> map_of (st_deletedKeys s) n = None"
    using kt.goneD(5) [OF gone, of n] by simp
  show ?thesis
  proof (cases "map_of (st_keys s) n")
    case None
    then show ?thesis
      using rel e(1) by (simp add: run keyMaterial_def DeleteKey_def keySimulates_same)
  next
    case (Some entry)
    note ne = entry_latest(1) [OF rel Some] and mat = entry_latest(2) [OF rel Some]
    note clone = clone_material [OF rel mat]
    show ?thesis
    proof (cases "map_of (st_deletedKeys s) n")
      case (Some x)
      then show ?thesis
        using rel e(1) mat dead \<open>map_of (st_keys s) n = Some entry\<close>
        by (simp add: run DeleteKey_def keySimulates_same)
    next
      case None
      have "keysRel L DL (d\<lparr>kv_deleted_keys := kv_deleted_keys d @ [\<lparr>rd_Name = n, rd_RecoveryID = rid,
            rd_DeletedDate = env_now (sq_env e), rd_ScheduledPurgeDate = add64 (env_now (sq_env e)) purgeDelay,
            rd_Versions = Inr (map rowKeySnapshot (rowsOf rk_Name rk_CreatedAt n (kv_keys d)))\<rparr>],
          kv_keys := filter (\<lambda>r. rk_Name r \<noteq> n) (kv_keys d)\<rparr>)
          (s\<lparr>st_keys := mdel n (st_keys s), st_deletedKeys := mput n \<lparr>de_entry = entry, de_recoveryID = rid,
            de_deletedDate = env_now (sq_env e), de_scheduledPurgeDate = add64 (env_now (sq_env e)) purgeDelay\<rparr>
            (st_deletedKeys s)\<rparr>)"
        using kt.rel_drop [OF live] kt.gone_bury [OF live gone Some None] by (simp add: keysRel_def)
      then show ?thesis
        using e(1) mat dead None Some rid ne
        by (simp add: run allKeyVersionSnapshots_run [OF rel e(1)] DeleteKey_def keySimulates_def deletedKeyRecord_def
            latestKeyRecord_last clone rbind_def del: map_map)
    qed
  qed
qed

lemma sqlPurgeDeletedKey_run:
  assumes rel: "keysRel L DL d s" and e: "calmSql e"
  shows "keySimulates L DL d s (runSql (sqlPurgeDeletedKey e n) d) (PurgeDeletedKey n s)"
  using keysRelD(2) [OF rel]
proof (cases rule: kt.gone_cases [where n = n])
  case none
  then show ?thesis
    using rel e by (simp add: sqlPurgeDeletedKey_def PurgeDeletedKey_def sql_run getDeletedKeyRow_run keySimulates_same)
next
  case (some r x vs)
  then show ?thesis
    using rel e kt.gone_purge [OF keysRelD(2) [OF rel], of n]
    by (simp add: sqlPurgeDeletedKey_def PurgeDeletedKey_def purgeKeyRow_def sql_run getDeletedKeyRow_run keySimulates_def
        keysRel_def)
qed

text \<open>Recovering decodes the material of each snapshot and writes it again, which gives the same text.\<close>

lemma insertKeys_run:
  assumes e: "calmSql e" and n: "\<And>r. r \<in> set (kv_keys d) \<Longrightarrow> rk_Name r \<noteq> n"
    and vs: "list_all (keySnapshot_ok L DL) vs" "distinct (map kvs_Version vs)"
  shows "runSql (qeach (\<lambda>i v. qbind (qlift (deserializeKeyMaterial L DL (kvs_Material v))) (\<lambda>material.
        insertKeyRow e L DL (keyOfSnapshot n v) material (add64 (kvs_CreatedAt v) (int i)))) 0 vs) d =
    (Inr (), d\<lparr>kv_keys := kv_keys d @ map (\<lambda>(i, v). unsnapKey n v (add64 (kvs_CreatedAt v) (int i))) (enumerate 0 vs)\<rparr>)"
proof (rule inserts_run [where key = "\<lambda>r. (rk_Name r, rk_Version r)" and kx = "\<lambda>v. (n, kvs_Version v)"])
  show "indep (qbind (qlift (deserializeKeyMaterial L DL (kvs_Material v))) (\<lambda>material.
      insertKeyRow e L DL (keyOfSnapshot n v) material (add64 (kvs_CreatedAt v) (int i))))" for i v
    using e by (simp add: sql_run)
  show "(n, kvs_Version v) \<notin> (\<lambda>r. (rk_Name r, rk_Version r)) ` set (kv_keys d)" for v
    using n by auto
  show "distinct (map (\<lambda>v. (n, kvs_Version v)) vs)"
    using vs(2) by (auto simp: distinct_map inj_on_def)
  show "runSql (qbind (qlift (deserializeKeyMaterial L DL (kvs_Material v))) (\<lambda>material.
      insertKeyRow e L DL (keyOfSnapshot n v) material (add64 (kvs_CreatedAt v) (int i)))) d' =
    (Inr (), d'\<lparr>kv_keys := kv_keys d' @ [unsnapKey n v (add64 (kvs_CreatedAt v) (int i))]\<rparr>)"
    if v: "v \<in> set vs" "(n, kvs_Version v) \<notin> (\<lambda>r. (rk_Name r, rk_Version r)) ` set (kv_keys d')" for i v d'
  proof -
    obtain m where m: "serializeKeyMaterial L DL m = Inr (kvs_Material v)" "deserializeKeyMaterial L DL (kvs_Material v) = Inr m"
      using vs(1) v(1) by (auto simp: list_all_iff keySnapshot_ok_def materialColumn_def)
    then show ?thesis
      using e insertKeyRow_ok [OF e m(1), of "keyOfSnapshot n v" d'] v(2) by (simp add: sql_run unsnapKey_def)
  qed
qed (simp_all add: unsnapKey_def)

lemma sqlRecoverDeletedKey_run:
  assumes rel: "keysRel L DL d s" and e: "calmSql e" and room: "roomFor kvs_CreatedAt (kv_deleted_keys d) n"
  shows "keySimulates L DL d s (runSql (sqlRecoverDeletedKey e L DL n) d) (RecoverDeletedKey n s)"
proof -
  note live = keysRelD(1) [OF rel] and gone = keysRelD(2) [OF rel]
  note run = sqlRecoverDeletedKey_def RecoverDeletedKey_def sql_run getDeletedKeyRow_run
  have count: "0 < countName rk_Name n (kv_keys d) \<longleftrightarrow> map_of (st_keys s) n \<noteq> None"
    using kt.count [OF live, of n] by (cases "map_of (st_keys s) n") auto
  show ?thesis
  proof (cases "map_of (st_keys s) n")
    case (Some entry)
    then show ?thesis
      using rel e count by (simp add: run keySimulates_same)
  next
    case absent: None
    show ?thesis
      using gone
    proof (cases rule: kt.gone_cases [where n = n])
      case none
      then show ?thesis
        using rel e count absent by (simp add: run keySimulates_same)
    next
      case (some r x vs)
      let ?new = "map (\<lambda>(i, v). unsnapKey n v (add64 (kvs_CreatedAt v) (int i))) (enumerate 0 vs)"
      have "rk_Name r \<noteq> n" if "r \<in> set (kv_keys d)" for r
        using that kt.relD(4) [OF live, of n] absent by (auto simp: rowsOf_Nil_iff)
      note ins = insertKeys_run [OF e this some(8,6)]
      have "kt.rel L DL (kv_keys d @ ?new) (mput n (de_entry x) (st_keys s))"
        using kt.rel_recover [OF live gone absent some(3,1) roomFor_Some [OF room some(1,4)] some(4)] .
      then have "keysRel L DL (d\<lparr>kv_keys := kv_keys d @ ?new,
          kv_deleted_keys := filter (\<lambda>r. rd_Name r \<noteq> n) (kv_deleted_keys d)\<rparr>)
          (s\<lparr>st_keys := mput n (de_entry x) (st_keys s), st_deletedKeys := mdel n (st_deletedKeys s)\<rparr>)"
        using kt.gone_purge [OF gone] by (simp add: keysRel_def)
      moreover have "latestKeyRecord (de_entry x) = Inr (keyOfSnapshot n (last vs))"
        using some(5,9) by (simp add: latestKeyRecord_last last_map snapshotKey_def)
      moreover have "cloneKeyRecord (keyOfSnapshot n (last vs)) = keyOfSnapshot n (last vs)"
        using keySnapshot_text [of L DL "last vs" n] some(5,8)
        by (intro clone_key) (simp add: keyText_def tags_text_map_ok list_all_iff)
      ultimately show ?thesis
        using e absent some count ins
        by (simp add: run purgeKeyRow_def rbind_def keySimulates_def)
    qed
  qed
qed

end
