(* ===== verification/KV_Sql_Cert_Refine.thy ===== *)
theory KV_Sql_Cert_Refine
  imports KV_Sql_Key_Refine
begin

text \<open>
  The certificates of the SQL store against those of the in-memory store. The in-memory store may
  keep a policy as the request had it and copies it on every read, the table holds the copy; the
  PEM data of a version, which no operation returns, is left out of the relation.
\<close>

section \<open>Rows, snapshots and versions\<close>

definition certRow_ok :: "certRow \<Rightarrow> bool" where
  "certRow_ok r \<longleftrightarrow> text_ok (rc_Version r) \<and> text_ok (rc_Kid r) \<and> text_ok (rc_Sid r) \<and>
     (\<exists>cer a t p. rc_Cer r = stdEncode cer \<and> rc_Attributes r = Inr a \<and> rc_Tags r = Inr t \<and>
        rc_Policy r = map_option Inr p \<and> attrs_text a \<and> tags_text t \<and> clonePolicy p = p)"

definition rowCert :: "certRow \<Rightarrow> CertificateRecord" where
  "rowCert r = \<lparr>crt_Name = rc_Name r, crt_Version = rc_Version r, crt_Cer = projr (decodeStd (rc_Cer r)),
     crt_Kid = rc_Kid r, crt_Sid = rc_Sid r, crt_Attributes = projr (rc_Attributes r),
     crt_Tags = projr (rc_Tags r), crt_Policy = map_option projr (rc_Policy r)\<rparr>"

definition certView :: "certificateVersion \<Rightarrow> CertificateRecord" where
  "certView v = cloneCertificateRecord (cv_record v)"

definition certSnapshot_ok :: "certificateVersionSnapshot \<Rightarrow> bool" where
  "certSnapshot_ok v \<longleftrightarrow> text_ok (cvs_Version v) \<and> text_ok (cvs_Kid v) \<and> text_ok (cvs_Sid v) \<and>
     (\<exists>cer. cvs_Cer v = stdEncode cer) \<and> attrs_text (cvs_Attributes v) \<and> tags_text (cvs_Tags v) \<and>
     clonePolicy (cvs_Policy v) = cvs_Policy v"

definition snapshotCert :: "string \<Rightarrow> certificateVersionSnapshot \<Rightarrow> CertificateRecord" where
  "snapshotCert n v = \<lparr>crt_Name = n, crt_Version = cvs_Version v, crt_Cer = projr (decodeStd (cvs_Cer v)),
     crt_Kid = cvs_Kid v, crt_Sid = cvs_Sid v, crt_Attributes = cvs_Attributes v,
     crt_Tags = cloneTags (cvs_Tags v), crt_Policy = clonePolicy (cvs_Policy v)\<rparr>"

text \<open>The snapshot as the payload of a deletion holds it.\<close>

definition rowCertSnapshot :: "certRow \<Rightarrow> certificateVersionSnapshot" where
  "rowCertSnapshot r = \<lparr>cvs_Version = rc_Version r, cvs_Cer = rc_Cer r, cvs_Kid = rc_Kid r, cvs_Sid = rc_Sid r,
     cvs_PEMData = toValidUTF8 (rc_PemData r), cvs_Attributes = projr (rc_Attributes r),
     cvs_Tags = projr (rc_Tags r), cvs_Policy = map_option projr (rc_Policy r), cvs_CreatedAt = rc_CreatedAt r\<rparr>"

definition rowOfCert :: "CertificateRecord \<Rightarrow> bytes \<Rightarrow> int \<Rightarrow> certRow" where
  "rowOfCert r pem ts = \<lparr>rc_Name = crt_Name r, rc_Version = crt_Version r, rc_Cer = stdEncode (crt_Cer r),
     rc_Kid = crt_Kid r, rc_Sid = crt_Sid r, rc_PemData = string_of_bytes pem,
     rc_Attributes = marshalAttrs (crt_Attributes r), rc_Tags = marshalTags (crt_Tags r),
     rc_Policy = marshalPolicyArg (crt_Policy r), rc_CreatedAt = ts\<rparr>"

definition unsnapCert :: "string \<Rightarrow> certificateVersionSnapshot \<Rightarrow> int \<Rightarrow> certRow" where
  "unsnapCert n v ts = rowOfCert (snapshotCert n v) (bytes_of_string (cvs_PEMData v)) ts"

text \<open>A record whose texts JSON leaves alone.\<close>

definition certText :: "CertificateRecord \<Rightarrow> bool" where
  "certText r \<longleftrightarrow> text_ok (crt_Version r) \<and> text_ok (crt_Kid r) \<and> text_ok (crt_Sid r) \<and>
     attrs_text (crt_Attributes r) \<and> tags_text (crt_Tags r) \<and> clonePolicy (crt_Policy r) = crt_Policy r"

lemma text_ok_stdEncode: "text_ok (stdEncode bs)"
  by (rule text_ok_ascii) (simp add: b64Encode_ascii)

lemma clone_cert: "certText r \<Longrightarrow> cloneCertificateRecord r = r"
  by (cases r) (simp add: cloneCertificateRecord_def certText_def)

lemma clone_clone_cert: "tags_text (crt_Tags r) \<Longrightarrow> cloneCertificateRecord (cloneCertificateRecord r) = cloneCertificateRecord r"
  by (simp add: cloneCertificateRecord_def)

lemma rowOfCert_fields [simp]:
  "rc_Name (rowOfCert r pem ts) = crt_Name r" "rc_Version (rowOfCert r pem ts) = crt_Version r"
  "rc_CreatedAt (rowOfCert r pem ts) = ts"
  by (simp_all add: rowOfCert_def)

lemma map_option_projr: "map_option projr (map_option Inr p) = p"
  by (cases p) simp_all

lemma rowOfCert_ok:
  assumes "certText r"
  shows "certRow_ok (rowOfCert r pem ts)" "rowCert (rowOfCert r pem ts) = r"
  using assms
  by (auto simp: certText_def certRow_ok_def rowCert_def rowOfCert_def attrs_column tags_column marshalPolicyArg_def
      map_option_projr)

lemma snapshotCert_ok:
  assumes "certSnapshot_ok v"
  shows "certOfSnapshot n v = Inr (snapshotCert n v)" "certText (snapshotCert n v)"
  using assms by (auto simp: certSnapshot_ok_def certOfSnapshot_def snapshotCert_def certText_def rbind_def)

interpretation ct: soft_deleted_table rc_Name rc_Version rc_CreatedAt certRow_ok rowCert certView
  "\<lambda>v. crt_Version (cv_record v)" cvs_Version cvs_CreatedAt certSnapshot_ok snapshotCert rowCertSnapshot unsnapCert
proof
  show "certRow_ok r \<Longrightarrow> certView v = rowCert r \<Longrightarrow> crt_Version (cv_record v) = rc_Version r" for r v
    by (simp add: certView_def cloneCertificateRecord_def rowCert_def)
  show "cvs_Version (rowCertSnapshot r) = rc_Version r" "cvs_CreatedAt (rowCertSnapshot r) = rc_CreatedAt r" for r
    by (simp_all add: rowCertSnapshot_def)
  show "certRow_ok r \<Longrightarrow> certSnapshot_ok (rowCertSnapshot r)" for r
    by (auto simp: certRow_ok_def certSnapshot_ok_def rowCertSnapshot_def map_option_projr)
  show "certRow_ok r \<Longrightarrow> snapshotCert (rc_Name r) (rowCertSnapshot r) = rowCert r" for r
    by (auto simp: certRow_ok_def snapshotCert_def rowCert_def rowCertSnapshot_def map_option_projr)
  show "rc_Name (unsnapCert n x t) = n" "rc_Version (unsnapCert n x t) = cvs_Version x"
    "rc_CreatedAt (unsnapCert n x t) = t" for n x t
    by (simp_all add: unsnapCert_def snapshotCert_def)
  show "certSnapshot_ok x \<Longrightarrow> certRow_ok (unsnapCert n x t)"
    "certSnapshot_ok x \<Longrightarrow> rowCert (unsnapCert n x t) = snapshotCert n x" for n x t
    by (simp_all add: unsnapCert_def rowOfCert_ok snapshotCert_ok)
qed

definition certsRel :: "SQLStore \<Rightarrow> Store \<Rightarrow> bool" where
  "certsRel d s \<longleftrightarrow>
     tableRel rc_Name rc_Version rc_CreatedAt certRow_ok rowCert certView (kv_certificates d) (st_certificates s) \<and>
     goneRel cvs_Version cvs_CreatedAt certSnapshot_ok snapshotCert certView (kv_deleted_certificates d)
       (st_deletedCertificates s)"

lemma certsRel_New: "certsRel NewSQLStore New"
  by (simp add: certsRel_def NewSQLStore_def New_def ct.rel_empty ct.gone_empty)

lemma certsRelD:
  "certsRel d s \<Longrightarrow> ct.rel (kv_certificates d) (st_certificates s)"
  "certsRel d s \<Longrightarrow> ct.gone (kv_deleted_certificates d) (st_deletedCertificates s)"
  by (simp_all add: certsRel_def)

section \<open>Reading\<close>

lemma certRow_reads:
  assumes "certRow_ok r"
  shows "certOfRow (rc_Name r) r = Inr (rowCert r)" "certText (rowCert r)"
    "\<exists>snap. certSnapshotOfRow r = Inr snap \<and> jsonCertSnapshot snap = rowCertSnapshot r"
proof -
  obtain cer a t p where r: "rc_Cer r = stdEncode cer" "rc_Attributes r = Inr a" "rc_Tags r = Inr t"
    "rc_Policy r = map_option Inr p" "attrs_text a" "tags_text t" "clonePolicy p = p" "text_ok (rc_Version r)"
    "text_ok (rc_Kid r)" "text_ok (rc_Sid r)"
    using assms by (auto simp: certRow_ok_def)
  have policy: "unmarshalPolicyNS (map_option Inr p) = Inr p"
    by (cases p) (simp_all add: unmarshalPolicyNS_def rbind_def)
  note unmarshal = unmarshalAttrs_def unmarshalTags_def
  show "certOfRow (rc_Name r) r = Inr (rowCert r)"
    using r by (simp add: certOfRow_def rowCert_def unmarshal policy rbind_def map_option_projr)
  show "certText (rowCert r)"
    using r by (simp add: certText_def rowCert_def map_option_projr)
  show "\<exists>snap. certSnapshotOfRow r = Inr snap \<and> jsonCertSnapshot snap = rowCertSnapshot r"
    using r text_ok_stdEncode [of cer]
    by (simp add: certSnapshotOfRow_def rowCertSnapshot_def jsonCertSnapshot_def unmarshal policy rbind_def map_option_projr
        attrs_text_def tags_text_def text_ok_def)
qed

lemma indep_certs [sql_run]:
  assumes "calmSql e"
  shows "indep (getCertVersionRow e n v)" "indep (getDeletedCertRow e n)" "indep (allCertVersionSnapshots e n)"
    "indep (purgeCertRow e n)" "indep (insertCertRow e r pem ts)"
  using assms
  by (simp_all add: getCertVersionRow_def getDeletedCertRow_def allCertVersionSnapshots_def purgeCertRow_def
      insertCertRow_def sql_run Let_def)

lemma GetCertificate_row:
  "map_of (st_certificates s) n = Some entry \<Longrightarrow> findVersion (\<lambda>v. crt_Version (cv_record v)) entry v = Some i \<Longrightarrow>
     GetCertificate s n v = Inr (certView (entry ! i))"
  by (simp add: GetCertificate_def findCertificateVersion_def certView_def)

text \<open>Reading a version and going on with its record.\<close>

lemma withCert_run:
  assumes rel: "certsRel d s" and e: "calmSql e" and k: "\<And>r. indep (k r)"
  shows "runSql (qbind (getCertVersionRow e n v) (\<lambda>(rcd, _). k rcd)) d =
    (case GetCertificate s n v of Inl err \<Rightarrow> (Inl err, d) | Inr r \<Rightarrow> runSql (k r) d)"
  using certsRelD(1) [OF rel]
proof (cases rule: ct.select_cases [where n = n and v = v])
  case none
  then have "GetCertificate s n v = Inl (certificateNotFound n)"
    by (cases "map_of (st_certificates s) n") (simp_all add: GetCertificate_def findCertificateVersion_def)
  then show ?thesis
    using e k none by (simp add: getCertVersionRow_def sql_run)
next
  case (some r entry i)
  then show ?thesis
    using e k certRow_reads(1) [OF some(4)] GetCertificate_row [OF some(5,6)]
    by (simp add: getCertVersionRow_def sql_run)
qed

lemma GetCertificate_latest:
  assumes rel: "certsRel d s"
  shows "GetCertificate s n [] = (case map_of (st_certificates s) n of None \<Rightarrow> Inl (certificateNotFound n)
    | Some entry \<Rightarrow> Inr (certView (last entry)))"
proof (cases "map_of (st_certificates s) n")
  case (Some entry)
  then have "entry \<noteq> []"
    using ct.entry_length [OF certsRelD(1) [OF rel]] by blast
  then show ?thesis
    using Some by (simp add: GetCertificate_def findCertificateVersion_def findVersion_Nil last_conv_nth certView_def)
qed (simp add: GetCertificate_def)

lemma certView_last: "certView v = rcd \<Longrightarrow> clonePolicy (crt_Policy (cv_record v)) = crt_Policy rcd \<and> crt_Name (cv_record v) = crt_Name rcd"
  by (auto simp: certView_def cloneCertificateRecord_def)

lemma sqlGetCertificate_run:
  assumes rel: "certsRel d s" and e: "calmSql e"
  shows "runSql (sqlGetCertificate e n v) d = (GetCertificate s n v, d)"
    "runSql (sqlGetCertificatePolicy e n) d = (GetCertificatePolicy s n, d)"
    "runSql (sqlGetPendingCertificateOperation e n) d = (GetPendingCertificateOperation s n, d)"
proof -
  note run = withCert_run [OF rel e]
  show "runSql (sqlGetCertificate e n v) d = (GetCertificate s n v, d)"
    by (simp add: sqlGetCertificate_def run sql_run split: sum.split)
  have latest: "latestCertificate (Some entry) = Some (last entry)" if "map_of (st_certificates s) n = Some entry" for entry
    using ct.entry_length [OF certsRelD(1) [OF rel] that] by simp
  show "runSql (sqlGetCertificatePolicy e n) d = (GetCertificatePolicy s n, d)"
    using latest by (simp add: sqlGetCertificatePolicy_def run sql_run GetCertificate_latest [OF rel] GetCertificatePolicy_def
        certView_def cloneCertificateRecord_def ofOption_def rbind_def split: option.split)
  show "runSql (sqlGetPendingCertificateOperation e n) d = (GetPendingCertificateOperation s n, d)"
    using latest by (simp add: sqlGetPendingCertificateOperation_def run sql_run GetCertificate_latest [OF rel]
        GetPendingCertificateOperation_def certView_def cloneCertificateRecord_def ofOption_def rbind_def split: option.split)
qed

lemma sqlListCertificates_run:
  assumes rel: "certsRel d s" and e: "calmSql e"
  shows "runSql (sqlListCertificates e m tok) d = (ListCertificates s m tok, d)"
proof -
  note live = certsRelD(1) [OF rel]
  show ?thesis
    unfolding sqlListCertificates_def ListCertificates_def latestCertificate_def
  proof (rule live_listing_run [OF e])
    show "entry \<noteq> [] \<and> runSql (qbind (getCertVersionRow e n []) (\<lambda>(rcd, _). qret rcd)) d =
        (Inr (cloneCertificateRecord (cv_record (last entry))), d)" if "map_of (st_certificates s) n = Some entry" for n entry
      using that ct.entry_length [OF live that] sqlGetCertificate_run(1) [OF rel e, of n "[]"]
      by (simp add: sqlGetCertificate_def GetCertificate_latest [OF rel] certView_def)
  qed (use e ct.names [OF live] ct.relD(3) [OF live] in \<open>simp_all add: sql_run\<close>)
qed

lemma sqlListCertificateVersions_run:
  assumes rel: "certsRel d s" and e: "calmSql e"
  shows "runSql (sqlListCertificateVersions e n m tok) d = (ListCertificateVersions s n m tok, d)"
proof -
  note live = certsRelD(1) [OF rel]
  show ?thesis
  proof (cases "map_of (st_certificates s) n")
    case None
    then show ?thesis
      using e ct.count [OF live, of n] by (simp add: sqlListCertificateVersions_def ListCertificateVersions_def sql_run)
  next
    case (Some entry)
    let ?rs = "rowsOf rc_Name rc_CreatedAt n (kv_certificates d)"
    have "certOfRow n r = Inr (rowCert r)" if "r \<in> set ?rs" for r
      using that certRow_reads(1) ct.relD(2) [OF live] by auto
    then have "mapRes (certOfRow n) (rev ?rs) = Inr (map rowCert (rev ?rs))"
      by (intro mapRes_Inr) simp
    moreover have "map (\<lambda>v. cloneCertificateRecord (cv_record v)) (rev entry) = map rowCert (rev ?rs)"
      using ct.relD(5) [OF live Some] unfolding certView_def by (metis rev_map)
    ultimately show ?thesis
      using e Some ct.count [OF live, of n] ct.newest_first [OF live, of n]
      by (simp add: sqlListCertificateVersions_def ListCertificateVersions_def sql_run)
  qed
qed

section \<open>Reading deleted certificates\<close>

lemma getDeletedCertRow_run:
  "calmSql e \<Longrightarrow> runSql (getDeletedCertRow e n) d =
    ((case goneRowOf n (kv_deleted_certificates d) of None \<Rightarrow> Inl (deletedCertificateNotFound n) | Some r \<Rightarrow> Inr r), d)"
  by (cases "goneRowOf n (kv_deleted_certificates d)") (simp_all add: getDeletedCertRow_def sql_run goneRowOf_def)

lemma latestCertificateRecord_last: "entry \<noteq> [] \<Longrightarrow> latestCertificateRecord entry = Inr (cv_record (last entry))"
  by (simp add: latestCertificateRecord_def ofOption_def)

lemma last_view: "map certView entry = map f vs \<Longrightarrow> vs \<noteq> [] \<Longrightarrow> entry \<noteq> [] \<and> certView (last entry) = f (last vs)"
  by (metis last_map list.map_disc_iff)

lemma deletedCertFromRow_run:
  assumes rel: "certsRel d s" and r: "goneRowOf n (kv_deleted_certificates d) = Some r" "map_of (st_deletedCertificates s) n = Some x"
  shows "\<exists>rcd. deletedCertFromRow r = Inr rcd \<and> deletedCertificateRecord x = Inr rcd"
  using certsRelD(2) [OF rel]
proof (cases rule: ct.gone_cases [where n = n])
  case (some r' x' vs)
  then have v: "rd_Versions r = Inr vs" "vs \<noteq> []" "map certView (de_entry x) = map (snapshotCert n) vs" "rd_Name r = n"
    "certSnapshot_ok (last vs)" "de_recoveryID x = rd_RecoveryID r" "de_deletedDate x = rd_DeletedDate r"
    "de_scheduledPurgeDate x = rd_ScheduledPurgeDate r"
    using r by (simp_all add: list_all_iff)
  then show ?thesis
    using last_view [OF v(3,2)] snapshotCert_ok(1) [OF v(5), of n]
    by (simp add: deletedCertFromRow_def deletedCertificateRecord_def latestCertificateRecord_last certView_def rbind_def)
qed (use r in simp)

lemma sqlGetDeletedCertificate_run:
  assumes rel: "certsRel d s" and e: "calmSql e"
  shows "runSql (sqlGetDeletedCertificate e n) d = (GetDeletedCertificate s n, d)"
  using certsRelD(2) [OF rel]
proof (cases rule: ct.gone_cases [where n = n])
  case none
  then show ?thesis
    using e by (simp add: sqlGetDeletedCertificate_def GetDeletedCertificate_def sql_run getDeletedCertRow_run)
next
  case (some r x vs)
  then show ?thesis
    using e deletedCertFromRow_run [OF rel some(1,3)]
    by (auto simp: sqlGetDeletedCertificate_def GetDeletedCertificate_def sql_run getDeletedCertRow_run)
qed

lemma sqlListDeletedCertificates_run:
  assumes rel: "certsRel d s" and e: "calmSql e"
  shows "runSql (sqlListDeletedCertificates e m tok) d = (ListDeletedCertificates s m tok, d)"
proof -
  note gone = certsRelD(2) [OF rel]
  show ?thesis
    unfolding sqlListDeletedCertificates_def ListDeletedCertificates_def
  proof (rule gone_listing_run [OF e])
    show "\<exists>r. runSql (qbind (getDeletedCertRow e n) (\<lambda>r. qlift (deletedCertFromRow r))) d = (Inr r, d) \<and>
        deletedCertificateRecord x = Inr r" if "map_of (st_deletedCertificates s) n = Some x" for n x
      using gone
    proof (cases rule: ct.gone_cases [where n = n])
      case (some r x' vs)
      then show ?thesis
        using that deletedCertFromRow_run [OF rel some(1) that] sqlGetDeletedCertificate_run [OF rel e, of n]
        by (auto simp: sqlGetDeletedCertificate_def GetDeletedCertificate_def)
    qed (use that in simp)
  qed (use e ct.gone_names [OF gone] ct.goneD(3) [OF gone] in \<open>simp_all add: sql_run\<close>)
qed

section \<open>Updating\<close>

definition objectsRel :: "x509lib \<Rightarrow> derlib \<Rightarrow> SQLStore \<Rightarrow> Store \<Rightarrow> bool" where
  "objectsRel L DL d s \<longleftrightarrow> keysRel L DL d s \<and> certsRel d s"

definition objectsSimulate :: "x509lib \<Rightarrow> derlib \<Rightarrow> 'a res \<times> SQLStore \<Rightarrow> 'a res \<times> Store \<Rightarrow> bool" where
  "objectsSimulate L DL sq mem \<longleftrightarrow> fst sq = fst mem \<and> objectsRel L DL (snd sq) (snd mem)"

lemma objectsSimulate_same: "objectsRel L DL d s \<Longrightarrow> r = r' \<Longrightarrow> objectsSimulate L DL (r, d) (r', s)"
  by (simp add: objectsSimulate_def)

lemma objectsSimulate_keys: "objectsRel L DL d s \<Longrightarrow> keySimulates L DL d s sq mem \<Longrightarrow> objectsSimulate L DL sq mem"
  by (simp add: objectsSimulate_def objectsRel_def keySimulates_def certsRel_def)

lemma objectsSimulate_certs:
  "keysRel L DL d s \<Longrightarrow> certsRel d' s' \<Longrightarrow> kv_keys d' = kv_keys d \<Longrightarrow> kv_deleted_keys d' = kv_deleted_keys d \<Longrightarrow>
    st_keys s' = st_keys s \<Longrightarrow> st_deletedKeys s' = st_deletedKeys s \<Longrightarrow> r = r' \<Longrightarrow>
    objectsSimulate L DL (r, d') (r', s')"
  by (simp add: objectsSimulate_def objectsRel_def keysRel_def)

lemma objectsRelD: "objectsRel L DL d s \<Longrightarrow> keysRel L DL d s" "objectsRel L DL d s \<Longrightarrow> certsRel d s"
  by (simp_all add: objectsRel_def)

lemma certRow_policy: "certRow_ok r \<Longrightarrow> marshalPolicyArg (crt_Policy (rowCert r)) = rc_Policy r"
  by (auto simp: certRow_ok_def rowCert_def marshalPolicyArg_def map_option_projr)

lemma stdEncode_cer: "certRow_ok r \<Longrightarrow> stdEncode (projr (decodeStd (rc_Cer r))) = rc_Cer r"
  by (auto simp: certRow_ok_def)

text \<open>A row with other attributes, tags and policy.\<close>

lemma updatedRow_ok:
  assumes r: "certRow_ok r" and c: "attrs_text a" "tags_text t" "clonePolicy p = p"
  shows "certRow_ok (r\<lparr>rc_Attributes := Inr a, rc_Tags := Inr t, rc_Policy := map_option Inr p\<rparr>)"
    "rowCert (r\<lparr>rc_Attributes := Inr a, rc_Tags := Inr t, rc_Policy := map_option Inr p\<rparr>) =
      (rowCert r)\<lparr>crt_Attributes := a, crt_Tags := t, crt_Policy := p\<rparr>"
  using assms by (auto simp: certRow_ok_def rowCert_def map_option_projr)

definition updatedCert :: "env \<Rightarrow> UpdateCertificateRequest \<Rightarrow> CertificateRecord \<Rightarrow> CertificateRecord" where
  "updatedCert e q r = r\<lparr>crt_Attributes := mergeAttributes (env_now e) (crt_Attributes r) (uc_Attributes q),
     crt_Tags := (if uc_Tags q \<noteq> None then cloneTags (uc_Tags q) else crt_Tags r)\<rparr>"

lemma updatedCert_steps:
  "(let r = r\<lparr>crt_Attributes := mergeAttributes (env_now e) (crt_Attributes r) (uc_Attributes q)\<rparr>;
        r = (if uc_Tags q \<noteq> None then r\<lparr>crt_Tags := cloneTags (uc_Tags q)\<rparr> else r)
    in f r) = f (updatedCert e q r)"
  by (cases r; cases "uc_Tags q") (simp_all add: updatedCert_def Let_def)

lemma mergeAttributes_clone: "cloneCertificateRecord (updatedCert e q r) = updatedCert e q (cloneCertificateRecord r)"
  if "tags_text (uc_Tags q)"
  using that by (cases r) (simp add: cloneCertificateRecord_def updatedCert_def)

lemma sqlUpdateCertificate_run:
  assumes rel: "objectsRel L DL d s" and e: "calmSql e" and q: "tags_text (uc_Tags q)"
  shows "objectsSimulate L DL (runSql (sqlUpdateCertificate e n v q) d) (UpdateCertificate (sq_env e) n v q s)"
proof -
  note certs = objectsRelD(2) [OF rel]
  let ?u = "updatedCert (sq_env e) q"
  let ?k = "\<lambda>rcd. qbind (execDB e (\<lambda>d. d\<lparr>kv_certificates := map (\<lambda>r.
      if rc_Name r = crt_Name rcd \<and> rc_Version r = crt_Version rcd
      then r\<lparr>rc_Attributes := marshalAttrs (crt_Attributes rcd), rc_Tags := marshalTags (crt_Tags rcd)\<rparr> else r)
      (kv_certificates d)\<rparr>)) (\<lambda>_. qret rcd)"
  have sql: "sqlUpdateCertificate e n v q = qbind (getCertVersionRow e n v) (\<lambda>(rcd, _). ?k (?u rcd))"
    unfolding sqlUpdateCertificate_def updatedCert_steps by (simp add: Let_def)
  have run: "runSql (sqlUpdateCertificate e n v q) d = (case GetCertificate s n v of Inl err \<Rightarrow> (Inl err, d)
      | Inr r \<Rightarrow> runSql (?k (?u r)) d)"
    unfolding sql using e by (intro withCert_run [OF certs]) (simp_all add: sql_run)
  show ?thesis
    using certsRelD(1) [OF certs]
  proof (cases rule: ct.select_cases [where n = n and v = v])
    case none
    then have "GetCertificate s n v = Inl (certificateNotFound n)"
      "UpdateCertificate (sq_env e) n v q s = (Inl (certificateNotFound n), s)"
      by (cases "map_of (st_certificates s) n"; simp add: GetCertificate_def UpdateCertificate_def findCertificateVersion_def)+
    then show ?thesis
      using rel by (simp add: run objectsSimulate_same)
  next
    case (some row entry i)
    let ?r = "?u (rowCert row)"
    let ?f = "\<lambda>r. r\<lparr>rc_Attributes := marshalAttrs (crt_Attributes ?r), rc_Tags := marshalTags (crt_Tags ?r)\<rparr>"
    have cols: "attrs_text (crt_Attributes ?r)" "tags_text (crt_Tags ?r)" "clonePolicy (crt_Policy ?r) = crt_Policy ?r"
      using certRow_reads(2) [OF some(4)] q by (simp_all add: updatedCert_def certText_def)
    have "?f row = row\<lparr>rc_Attributes := Inr (crt_Attributes ?r), rc_Tags := Inr (crt_Tags ?r),
        rc_Policy := map_option Inr (crt_Policy ?r)\<rparr>"
      using certRow_policy [OF some(4)] cols by (cases row)
        (simp add: attrs_column tags_column updatedCert_def marshalPolicyArg_def)
    then have row: "certRow_ok (?f row)" "rowCert (?f row) = ?r"
      using updatedRow_ok [OF some(4) cols] by (simp_all add: updatedCert_def)
    have view: "certView ((entry ! i)\<lparr>cv_record := ?u (cv_record (entry ! i))\<rparr>) = rowCert (?f row)"
      using some(8) by (simp add: certView_def mergeAttributes_clone [OF q] row(2))
    have "ct.rel (map (\<lambda>r. if rc_Name r = n \<and> rc_Version r = rc_Version row then ?f r else r) (kv_certificates d))
        (mput n (entry[i := (entry ! i)\<lparr>cv_record := ?u (cv_record (entry ! i))\<rparr>]) (st_certificates s))"
      using row(1) view by (intro ct.rel_update [OF certsRelD(1) [OF certs] some(5,7,9)]) simp_all
    moreover have "crt_Name ?r = n" "crt_Version ?r = rc_Version row"
      using some(3) by (simp_all add: updatedCert_def rowCert_def)
    moreover have "cloneCertificateRecord (?u (cv_record (entry ! i))) = ?r"
      using view by (simp add: certView_def row(2))
    ultimately show ?thesis
      using e some(5,6,8) certs unfolding run GetCertificate_row [OF some(5,6)] UpdateCertificate_def updatedCert_steps
      by (simp add: sql_run findCertificateVersion_def)
        (rule objectsSimulate_certs [OF objectsRelD(1) [OF rel]], simp_all add: certsRel_def)
  qed
qed

text \<open>
  A policy as its JSON has it: the SQL store answers an update with the policy that it was given, the
  in-memory store with a copy.
\<close>

definition policyJson :: "CertificatePolicy option res \<Rightarrow> CertificatePolicy option res" where
  "policyJson r = rbind r (\<lambda>p. Inr (clonePolicy p))"

lemma sqlUpdateCertificatePolicy_run:
  assumes rel: "objectsRel L DL d s" and e: "calmSql e"
  shows "objectsSimulate L DL (apfst policyJson (runSql (sqlUpdateCertificatePolicy e n p) d))
    (apfst policyJson (UpdateCertificatePolicy (sq_env e) n p s))"
proof -
  note certs = objectsRelD(2) [OF rel]
  let ?p = "defaultCertificatePolicy n p" and ?now = "env_now (sq_env e)"
  let ?touch = "\<lambda>rcd. rcd\<lparr>crt_Attributes := (crt_Attributes rcd)\<lparr>Updated := ?now\<rparr>\<rparr>"
  let ?k = "\<lambda>rcd. qbind (execDB e (\<lambda>d. d\<lparr>kv_certificates := map (\<lambda>r.
      if rc_Name r = crt_Name rcd \<and> rc_Version r = crt_Version rcd
      then r\<lparr>rc_Policy := marshalPolicyArg (Some ?p), rc_Attributes := marshalAttrs (crt_Attributes rcd)\<rparr> else r)
      (kv_certificates d)\<rparr>)) (\<lambda>_. qret (Some ?p))"
  have sql: "sqlUpdateCertificatePolicy e n p = qbind (getCertVersionRow e n []) (\<lambda>(rcd, _). ?k (?touch rcd))"
    by (simp add: sqlUpdateCertificatePolicy_def Let_def)
  have run: "runSql (sqlUpdateCertificatePolicy e n p) d = (case GetCertificate s n [] of Inl err \<Rightarrow> (Inl err, d)
      | Inr r \<Rightarrow> runSql (?k (?touch r)) d)"
    unfolding sql using e by (intro withCert_run [OF certs]) (simp_all add: sql_run)
  show ?thesis
    using certsRelD(1) [OF certs]
  proof (cases rule: ct.select_cases [where n = n and v = "[]"])
    case none
    then have "map_of (st_certificates s) n = None"
      using ct.entry_length [OF certsRelD(1) [OF certs]] by (cases "map_of (st_certificates s) n") (auto simp: findVersion_def)
    then show ?thesis
      using rel by (simp add: run GetCertificate_def UpdateCertificatePolicy_def objectsSimulate_same)
  next
    case (some row entry i)
    let ?r = "(?touch (rowCert row))\<lparr>crt_Policy := clonePolicy (Some ?p)\<rparr>"
    let ?f = "\<lambda>r. r\<lparr>rc_Policy := marshalPolicyArg (Some ?p), rc_Attributes := marshalAttrs (crt_Attributes (?touch (rowCert row)))\<rparr>"
    let ?v = "(entry ! i)\<lparr>cv_record := (cv_record (entry ! i))\<lparr>crt_Policy := Some ?p,
      crt_Attributes := (crt_Attributes (cv_record (entry ! i)))\<lparr>Updated := ?now\<rparr>\<rparr>\<rparr>"
    have cols: "attrs_text (crt_Attributes ?r)" "tags_text (crt_Tags ?r)" "clonePolicy (crt_Policy ?r) = crt_Policy ?r"
      using certRow_reads(2) [OF some(4)] by (simp_all add: certText_def attrs_text_def)
    have "rc_Tags row = Inr (crt_Tags ?r)"
      using some(4) by (auto simp: certRow_ok_def rowCert_def)
    then have "?f row = row\<lparr>rc_Attributes := Inr (crt_Attributes ?r), rc_Tags := Inr (crt_Tags ?r),
        rc_Policy := map_option Inr (crt_Policy ?r)\<rparr>"
      using attrs_column [OF cols(1)] by (cases row) (simp add: marshalPolicyArg_def)
    then have row: "certRow_ok (?f row)" "rowCert (?f row) = ?r"
      using updatedRow_ok [OF some(4) cols] by (simp_all add: rowCert_def)
    have "certView ?v = ?r"
      unfolding some(8) [symmetric] by (simp add: certView_def cloneCertificateRecord_def)
    then have view: "certView ?v = rowCert (?f row)"
      by (simp only: row(2))
    have "ct.rel (map (\<lambda>r. if rc_Name r = n \<and> rc_Version r = rc_Version row then ?f r else r) (kv_certificates d))
        (mput n (entry[i := ?v]) (st_certificates s))"
      using row(1) view by (intro ct.rel_update [OF certsRelD(1) [OF certs] some(5,7,9)]) simp_all
    moreover have "crt_Name ?r = n" "crt_Version ?r = rc_Version row"
      using some(3) by (simp_all add: rowCert_def)
    moreover have i: "i = length entry - 1" "latestCertificate (Some entry) = Some (entry ! i)"
      using some(6,7) by (auto simp: findVersion_def last_conv_nth split: if_split_asm)
    ultimately show ?thesis
      using e some(5,8) certs unfolding run GetCertificate_row [OF some(5,6)] UpdateCertificatePolicy_def
      by (simp add: sql_run policyJson_def Let_def)
        (rule objectsSimulate_certs [OF objectsRelD(1) [OF rel]], simp_all add: certsRel_def)
  qed
qed

section \<open>Deleting and recovering\<close>

lemma allCertVersionSnapshots_run:
  assumes rel: "certsRel d s" and e: "calmSql e"
  shows "\<exists>snaps. runSql (allCertVersionSnapshots e n) d = (Inr snaps, d) \<and>
    map jsonCertSnapshot snaps = map rowCertSnapshot (rowsOf rc_Name rc_CreatedAt n (kv_certificates d))"
proof -
  let ?rs = "rowsOf rc_Name rc_CreatedAt n (kv_certificates d)"
  have rows: "certSnapshotOfRow r = Inr (projr (certSnapshotOfRow r)) \<and>
      jsonCertSnapshot (projr (certSnapshotOfRow r)) = rowCertSnapshot r" if "r \<in> set ?rs" for r
    using that certRow_reads(3) [of r] ct.relD(2) [OF certsRelD(1) [OF rel]] by auto
  then have "mapRes certSnapshotOfRow ?rs = Inr (map (\<lambda>r. projr (certSnapshotOfRow r)) ?rs)"
    by (intro mapRes_Inr) blast
  then show ?thesis
    using e rows by (auto simp: allCertVersionSnapshots_def sql_run rowsOf_def)
qed

lemma sqlDeleteCertificate_run:
  assumes rel: "objectsRel L DL d s" and e: "calmSql e" "newVersion (sq_env e) = Inr v"
  shows "objectsSimulate L DL (runSql (sqlDeleteCertificate e n) d) (DeleteCertificate (sq_env e) n s)"
proof -
  obtain rid where rid: "newRecoveryID (sq_env e) ''certificates'' n = Inr rid"
    using e(2) by (simp add: newRecoveryID_def rbind_def)
  note certs = objectsRelD(2) [OF rel]
  note live = certsRelD(1) [OF certs] and gone = certsRelD(2) [OF certs]
  obtain snaps where snaps: "runSql (allCertVersionSnapshots e n) d = (Inr snaps, d)"
    "map jsonCertSnapshot snaps = map rowCertSnapshot (rowsOf rc_Name rc_CreatedAt n (kv_certificates d))"
    using allCertVersionSnapshots_run [OF certs e(1)] by blast
  let ?dead = "\<lparr>rd_Name = n, rd_RecoveryID = rid, rd_DeletedDate = env_now (sq_env e),
     rd_ScheduledPurgeDate = add64 (env_now (sq_env e)) purgeDelay, rd_Versions = Inr (map jsonCertSnapshot snaps)\<rparr>"
  have run: "runSql (sqlDeleteCertificate e n) d = (case GetCertificate s n [] of Inl err \<Rightarrow> (Inl err, d)
      | Inr latest \<Rightarrow> (if goneRowOf n (kv_deleted_certificates d) \<noteq> None then (Inl (certificateNotFound n), d)
          else (Inr \<lparr>dr_Record = latest, dr_RecoveryID = rid, dr_DeletedDate = env_now (sq_env e),
                     dr_ScheduledPurgeDate = add64 (env_now (sq_env e)) purgeDelay\<rparr>,
                d\<lparr>kv_deleted_certificates := kv_deleted_certificates d @ [?dead],
                  kv_certificates := filter (\<lambda>r. rc_Name r \<noteq> n) (kv_certificates d)\<rparr>)))"
    unfolding sqlDeleteCertificate_def using e(1) snaps(1) rid
    by (subst withCert_run [OF certs e(1)]; cases "goneRowOf n (kv_deleted_certificates d)")
      (simp_all add: sql_run Let_def goneRowOf_count split: sum.split)
  have dead: "goneRowOf n (kv_deleted_certificates d) = None \<longleftrightarrow> map_of (st_deletedCertificates s) n = None"
    using ct.goneD(5) [OF gone, of n] by simp
  show ?thesis
  proof (cases "map_of (st_certificates s) n = None \<or> map_of (st_deletedCertificates s) n \<noteq> None")
    case True
    then show ?thesis
      using rel dead by (auto simp: run GetCertificate_latest [OF certs] DeleteCertificate_def objectsSimulate_same split: option.split)
  next
    case False
    then obtain entry where n: "map_of (st_certificates s) n = Some entry" "map_of (st_deletedCertificates s) n = None"
      by auto
    have ne: "entry \<noteq> []"
      using ct.entry_length [OF live n(1)] by blast
    have "ct.rel (filter (\<lambda>r. rc_Name r \<noteq> n) (kv_certificates d)) (mdel n (st_certificates s))"
      "ct.gone (kv_deleted_certificates d @ [?dead]) (mput n \<lparr>de_entry = entry, de_recoveryID = rid,
         de_deletedDate = env_now (sq_env e), de_scheduledPurgeDate = add64 (env_now (sq_env e)) purgeDelay\<rparr>
         (st_deletedCertificates s))"
      using ct.rel_drop [OF live] ct.gone_bury [OF live gone n] unfolding snaps(2) by blast+
    then show ?thesis
      using n dead rid ne
      by (simp add: run GetCertificate_latest [OF certs] DeleteCertificate_def deletedCertificateRecord_def
          latestCertificateRecord_last certView_def rbind_def Let_def)
        (rule objectsSimulate_certs [OF objectsRelD(1) [OF rel]], simp_all add: certsRel_def)
  qed
qed

lemma sqlPurgeDeletedCertificate_run:
  assumes rel: "objectsRel L DL d s" and e: "calmSql e"
  shows "objectsSimulate L DL (runSql (sqlPurgeDeletedCertificate e n) d) (PurgeDeletedCertificate n s)"
  using certsRelD(2) [OF objectsRelD(2) [OF rel]]
proof (cases rule: ct.gone_cases [where n = n])
  case none
  then show ?thesis
    using rel e by (simp add: sqlPurgeDeletedCertificate_def PurgeDeletedCertificate_def sql_run getDeletedCertRow_run
        objectsSimulate_same)
next
  case (some r x vs)
  then show ?thesis
    using rel e ct.gone_purge [OF certsRelD(2) [OF objectsRelD(2) [OF rel]], of n]
    by (simp add: sqlPurgeDeletedCertificate_def PurgeDeletedCertificate_def purgeCertRow_def sql_run getDeletedCertRow_run
        objectsSimulate_def objectsRel_def certsRel_def keysRel_def)
qed

lemma insertCertRow_run:
  assumes e: "calmSql e" and new: "(crt_Name r, crt_Version r) \<notin> (\<lambda>r. (rc_Name r, rc_Version r)) ` set (kv_certificates d)"
  shows "runSql (insertCertRow e r pem ts) d = (Inr (), d\<lparr>kv_certificates := kv_certificates d @ [rowOfCert r pem ts]\<rparr>)"
proof -
  have "\<not> (\<exists>x \<in> set (kv_certificates d). rc_Name x = crt_Name r \<and> rc_Version x = crt_Version r)"
    using new by force
  then show ?thesis
    using e by (simp add: insertCertRow_def Let_def sql_run rowOfCert_def)
qed

lemma insertCerts_run:
  assumes e: "calmSql e" and n: "\<And>r. r \<in> set (kv_certificates d) \<Longrightarrow> rc_Name r \<noteq> n"
    and vs: "list_all certSnapshot_ok vs" "distinct (map cvs_Version vs)"
  shows "runSql (qeach (\<lambda>i v. qbind (qlift (certOfSnapshot n v)) (\<lambda>rcd.
        insertCertRow e rcd (bytes_of_string (cvs_PEMData v)) (add64 (cvs_CreatedAt v) (int i)))) 0 vs) d =
    (Inr (), d\<lparr>kv_certificates := kv_certificates d @
       map (\<lambda>(i, v). unsnapCert n v (add64 (cvs_CreatedAt v) (int i))) (enumerate 0 vs)\<rparr>)"
proof (rule inserts_run [where key = "\<lambda>r. (rc_Name r, rc_Version r)" and kx = "\<lambda>v. (n, cvs_Version v)"])
  show "indep (qbind (qlift (certOfSnapshot n v)) (\<lambda>rcd.
      insertCertRow e rcd (bytes_of_string (cvs_PEMData v)) (add64 (cvs_CreatedAt v) (int i))))" for i v
    using e by (simp add: sql_run)
  show "(n, cvs_Version v) \<notin> (\<lambda>r. (rc_Name r, rc_Version r)) ` set (kv_certificates d)" for v
    using n by auto
  show "distinct (map (\<lambda>v. (n, cvs_Version v)) vs)"
    using vs(2) by (auto simp: distinct_map inj_on_def)
  show "runSql (qbind (qlift (certOfSnapshot n v)) (\<lambda>rcd.
      insertCertRow e rcd (bytes_of_string (cvs_PEMData v)) (add64 (cvs_CreatedAt v) (int i)))) d' =
    (Inr (), d'\<lparr>kv_certificates := kv_certificates d' @ [unsnapCert n v (add64 (cvs_CreatedAt v) (int i))]\<rparr>)"
    if v: "v \<in> set vs" "(n, cvs_Version v) \<notin> (\<lambda>r. (rc_Name r, rc_Version r)) ` set (kv_certificates d')" for i v d'
  proof -
    have "certSnapshot_ok v"
      using vs(1) v(1) by (simp add: list_all_iff)
    then show ?thesis
      using e insertCertRow_run [OF e, of "snapshotCert n v" d'] v(2)
      by (simp add: sql_run unsnapCert_def snapshotCert_ok(1)) (simp add: snapshotCert_def)
  qed
qed (simp_all add: unsnapCert_def snapshotCert_def)

lemma sqlRecoverDeletedCertificate_run:
  assumes rel: "objectsRel L DL d s" and e: "calmSql e" and room: "roomFor cvs_CreatedAt (kv_deleted_certificates d) n"
  shows "objectsSimulate L DL (runSql (sqlRecoverDeletedCertificate e n) d) (RecoverDeletedCertificate n s)"
proof -
  note certs = objectsRelD(2) [OF rel]
  note live = certsRelD(1) [OF certs] and gone = certsRelD(2) [OF certs]
  note run = sqlRecoverDeletedCertificate_def RecoverDeletedCertificate_def sql_run getDeletedCertRow_run
  have count: "0 < countName rc_Name n (kv_certificates d) \<longleftrightarrow> map_of (st_certificates s) n \<noteq> None"
    using ct.count [OF live, of n] by (cases "map_of (st_certificates s) n") auto
  show ?thesis
  proof (cases "map_of (st_certificates s) n")
    case (Some entry)
    then show ?thesis
      using rel e count by (simp add: run objectsSimulate_same)
  next
    case absent: None
    show ?thesis
      using gone
    proof (cases rule: ct.gone_cases [where n = n])
      case none
      then show ?thesis
        using rel e count absent by (simp add: run objectsSimulate_same)
    next
      case (some r x vs)
      let ?new = "map (\<lambda>(i, v). unsnapCert n v (add64 (cvs_CreatedAt v) (int i))) (enumerate 0 vs)"
      have "rc_Name r \<noteq> n" if "r \<in> set (kv_certificates d)" for r
        using that ct.relD(4) [OF live, of n] absent by (auto simp: rowsOf_Nil_iff)
      note ins = insertCerts_run [OF e this some(8,6)]
      have "ct.rel (kv_certificates d @ ?new) (mput n (de_entry x) (st_certificates s))"
        using ct.rel_recover [OF live gone absent some(3,1) roomFor_Some [OF room some(1,4)] some(4)] .
      moreover have "ct.gone (filter (\<lambda>r. rd_Name r \<noteq> n) (kv_deleted_certificates d)) (mdel n (st_deletedCertificates s))"
        by (rule ct.gone_purge [OF gone])
      moreover note last_view [OF some(9,5)]
      moreover have "certOfSnapshot n (last vs) = Inr (snapshotCert n (last vs))"
        using snapshotCert_ok(1) some(5,8) by (simp add: list_all_iff)
      ultimately show ?thesis
        using e absent some count ins
        by (simp add: run purgeCertRow_def latestCertificateRecord_last certView_def rbind_def)
          (rule objectsSimulate_certs [OF objectsRelD(1) [OF rel]], simp_all add: certsRel_def)
    qed
  qed
qed

end
