(* ===== verification/KV_Sql_Cert_Writes.thy ===== *)
theory KV_Sql_Cert_Writes
  imports KV_Sql_Cert_Refine
begin

text \<open>
  Creating and importing certificates in the SQL store: three insertions, one in each table, against
  the three maps of the in-memory store. The keys and certificates stay related; of the secrets it only
  matters that the row can be inserted, since their content types differ.
\<close>

section \<open>Creating and importing\<close>

lemma certsRel_insert:
  assumes rel: "certsRel d s" and e: "calmSql e" and r: "certText r" "certView v = r"
    and fresh: "list_all (\<lambda>x. rc_Name x = crt_Name r \<longrightarrow> rc_Version x \<noteq> crt_Version r \<and> rc_CreatedAt x < ts) (kv_certificates d)"
  shows "\<exists>row. runSql (insertCertRow e r pem ts) d = (Inr (), d\<lparr>kv_certificates := kv_certificates d @ [row]\<rparr>) \<and>
    certsRel (d\<lparr>kv_certificates := kv_certificates d @ [row]\<rparr>)
      (s\<lparr>st_certificates := appendVersion (crt_Name r) v (st_certificates s)\<rparr>)"
proof -
  have "(crt_Name r, crt_Version r) \<notin> (\<lambda>r. (rc_Name r, rc_Version r)) ` set (kv_certificates d)"
    using fresh by (auto simp: list_all_iff)
  note ins = insertCertRow_run [OF e this]
  have "ct.rel (kv_certificates d @ [rowOfCert r pem ts]) (appendVersion (crt_Name r) v (st_certificates s))"
    using certsRelD(1) [OF rel] rowOfCert_ok(1) [OF r(1)]
    by (rule ct.rel_insert) (use fresh r rowOfCert_ok(2) in \<open>auto simp: list_all_iff\<close>)
  then show ?thesis
    using ins rel by (auto simp: certsRel_def)
qed

text \<open>The rows of a new version in the three tables.\<close>

definition freshObjects :: "SQLStore \<Rightarrow> string \<Rightarrow> string \<Rightarrow> int \<Rightarrow> bool" where
  "freshObjects d n v ts \<longleftrightarrow> freshKey d n v ts \<and>
     list_all (\<lambda>r. rc_Name r = n \<longrightarrow> rc_Version r \<noteq> v \<and> rc_CreatedAt r < ts) (kv_certificates d) \<and>
     list_all (\<lambda>r. \<not> (rs_Name r = n \<and> rs_Version r = v)) (kv_secrets d)"

lemma insertSecretRow_other:
  assumes e: "calmSql e" and new: "list_all (\<lambda>x. \<not> (rs_Name x = sr_Name r \<and> rs_Version x = sr_Version r)) (kv_secrets d)"
  shows "\<exists>rows. runSql (insertSecretRow e r ts) d = (Inr (), d\<lparr>kv_secrets := rows\<rparr>)"
  using assms by (auto simp: insertSecretRow_run list_all_iff)

lemma objectsRel_secrets [simp]:
  "objectsRel L DL (d\<lparr>kv_secrets := rows\<rparr>) s \<longleftrightarrow> objectsRel L DL d s"
  "objectsRel L DL d (s\<lparr>st_secrets := m\<rparr>) \<longleftrightarrow> objectsRel L DL d s"
  by (simp_all add: objectsRel_def keysRel_def certsRel_def)

text \<open>The three records of a new certificate, and the program that inserts them.\<close>

definition certificateOf :: "string \<Rightarrow> string \<Rightarrow> bytes \<Rightarrow> Attributes \<Rightarrow> tags \<Rightarrow> CertificatePolicy \<Rightarrow> CertificateRecord" where
  "certificateOf n v der attrs tags policy = \<lparr>crt_Name = n, crt_Version = v, crt_Cer = der, crt_Kid = n, crt_Sid = n,
     crt_Attributes = attrs, crt_Tags = cloneTags tags, crt_Policy = clonePolicy (Some policy)\<rparr>"

definition keyOfCertificate :: "string \<Rightarrow> string \<Rightarrow> rsa_PublicKey \<Rightarrow> Attributes \<Rightarrow> tags \<Rightarrow> KeyRecord" where
  "keyOfCertificate n v pub attrs tags = \<lparr>kr_Name = n, kr_Version = v,
     kr_Key = RSAToJWK [] ''RSA'' (defaultKeyOps ''RSA'' []) pub, kr_Attributes = attrs, kr_Tags = cloneTags tags\<rparr>"

definition secretOfCertificate :: "string \<Rightarrow> string \<Rightarrow> bytes \<Rightarrow> Attributes \<Rightarrow> tags \<Rightarrow> SecretRecord" where
  "secretOfCertificate n v data attrs tags = \<lparr>sr_Name = n, sr_Version = v, sr_Value = string_of_bytes data,
     sr_ContentType = ''application/x-pkcs12'', sr_Attributes = attrs, sr_Tags = cloneTags tags\<rparr>"

lemmas certificate_records = certificateOf_def keyOfCertificate_def secretOfCertificate_def

definition storeObjects :: "sqlenv \<Rightarrow> CertificateRecord \<Rightarrow> bytes \<Rightarrow> unit sql \<Rightarrow> SecretRecord \<Rightarrow> CertificateRecord sql" where
  "storeObjects e rcd pem kp sec =
     qbind (insertCertRow e rcd pem (sq_nano e)) (\<lambda>_. qbind kp (\<lambda>_. qbind (insertSecretRow e sec (sq_nano e)) (\<lambda>_.
       qret (cloneCertificateRecord rcd))))"

lemma indep_storeObjects: "calmSql e \<Longrightarrow> indep kp \<Longrightarrow> indep (storeObjects e rcd pem kp sec)"
  by (simp add: storeObjects_def sql_run indep_certs indep_reads)

abbreviation withObjects :: "Store \<Rightarrow> CertificateRecord \<Rightarrow> bytes \<Rightarrow> ((string, keyEntry) gomap \<Rightarrow> (string, keyEntry) gomap) \<Rightarrow> Store" where
  "withObjects s rcd pem km \<equiv> s\<lparr>st_certificates := appendVersion (crt_Name rcd) \<lparr>cv_record = rcd, cv_pem = pem\<rparr> (st_certificates s),
     st_keys := km (st_keys s)\<rparr>"

lemma storeObjects_run:
  assumes rel: "objectsRel L DL d s" and e: "calmSql e" and fresh: "freshObjects d n v (sq_nano e)"
    and kp: "indep kp" "\<And>d s. objectsRel L DL d s \<Longrightarrow> freshKey d n v (sq_nano e) \<Longrightarrow>
      \<exists>ks. runSql kp d = (Inr (), d\<lparr>kv_keys := ks\<rparr>) \<and> objectsRel L DL (d\<lparr>kv_keys := ks\<rparr>) (s\<lparr>st_keys := km (st_keys s)\<rparr>)"
    and rcd: "certText rcd" "crt_Name rcd = n" "crt_Version rcd = v"
    and sec: "sr_Name sec = n" "sr_Version sec = v"
  shows "\<exists>d'. runSql (storeObjects e rcd pem kp sec) d = (Inr rcd, d') \<and> objectsRel L DL d' (withObjects s rcd memPem km)"
proof -
  have clone: "cloneCertificateRecord rcd = rcd"
    by (rule clone_cert) (rule rcd(1))
  have f: "freshKey d n v (sq_nano e)" "list_all (\<lambda>x. rc_Name x = crt_Name rcd \<longrightarrow>
      rc_Version x \<noteq> crt_Version rcd \<and> rc_CreatedAt x < sq_nano e) (kv_certificates d)"
    "list_all (\<lambda>x. \<not> (rs_Name x = sr_Name sec \<and> rs_Version x = sr_Version sec)) (kv_secrets d)"
    using fresh rcd(2,3) sec by (simp_all add: freshObjects_def)
  let ?cs = "appendVersion n \<lparr>cv_record = rcd, cv_pem = memPem\<rparr> (st_certificates s)"
  have "certView \<lparr>cv_record = rcd, cv_pem = memPem\<rparr> = rcd"
    by (simp add: certView_def clone)
  then obtain row where row: "runSql (insertCertRow e rcd pem (sq_nano e)) d = (Inr (), d\<lparr>kv_certificates := kv_certificates d @ [row]\<rparr>)"
    "certsRel (d\<lparr>kv_certificates := kv_certificates d @ [row]\<rparr>) (s\<lparr>st_certificates := ?cs\<rparr>)"
    using certsRel_insert [OF objectsRelD(2) [OF rel] e rcd(1) _ f(2)] rcd(2) by blast
  let ?d1 = "d\<lparr>kv_certificates := kv_certificates d @ [row]\<rparr>" and ?s1 = "s\<lparr>st_certificates := ?cs\<rparr>"
  have "objectsRel L DL ?d1 ?s1"
    using row(2) objectsRelD(1) [OF rel] by (simp add: objectsRel_def keysRel_def)
  moreover have "freshKey ?d1 n v (sq_nano e)"
    using f(1) by (simp add: freshKey_def)
  ultimately obtain ks where ks: "runSql kp ?d1 = (Inr (), ?d1\<lparr>kv_keys := ks\<rparr>)"
    "objectsRel L DL (?d1\<lparr>kv_keys := ks\<rparr>) (?s1\<lparr>st_keys := km (st_keys s)\<rparr>)"
    using kp(2) [of ?d1 ?s1] by auto
  obtain ss where "runSql (insertSecretRow e sec (sq_nano e)) (?d1\<lparr>kv_keys := ks\<rparr>) = (Inr (), ?d1\<lparr>kv_keys := ks, kv_secrets := ss\<rparr>)"
    using insertSecretRow_other [OF e, of sec "?d1\<lparr>kv_keys := ks\<rparr>" "sq_nano e"] f(3) by auto
  moreover have "objectsRel L DL (?d1\<lparr>kv_keys := ks, kv_secrets := ss\<rparr>) (?s1\<lparr>st_keys := km (st_keys s)\<rparr>)"
    using ks(2) by simp
  ultimately show ?thesis
    using e row(1) ks(1) kp(1) indep_reads(6) [OF e] rcd(2) clone by (simp add: sql_run storeObjects_def)
qed

lemma insertKey_objects:
  assumes e: "calmSql e" and m: "materialFit L DL m" and r: "keyText r" "text_ok v" "kr_Name r = n" "kr_Version r = v"
    and rel: "objectsRel L DL d s" and fresh: "freshKey d n v ts"
  shows "\<exists>ks. runSql (insertKeyRow e L DL r m ts) d = (Inr (), d\<lparr>kv_keys := ks\<rparr>) \<and>
    objectsRel L DL (d\<lparr>kv_keys := ks\<rparr>) (s\<lparr>st_keys := appendVersion n \<lparr>kv_record = r, kv_material = m\<rparr> (st_keys s)\<rparr>)"
  using keysRel_insert [OF objectsRelD(1) [OF rel] e m r(1), of ts] r(2-4) fresh objectsRelD(2) [OF rel]
  by (auto simp: objectsRel_def certsRel_def)

definition rsaMaterial :: "rsa_PrivateKey \<Rightarrow> KeyMaterial" where
  "rsaMaterial priv = emptyMaterial\<lparr>km_RSA := Some priv, km_RSAPub := Some (priv_PublicKey priv)\<rparr>"

lemma rsaMaterial_primes:
  "materialFit L DL (rsaMaterial priv) \<Longrightarrow> marshalPKCS1PrivateKey L priv = Inr (lib_MarshalPKCS1PrivateKey L priv)"
  by (cases "length (priv_Primes priv) < 2")
    (simp_all add: materialFit_def rsaMaterial_def serializeKeyMaterial_def serializeRSA_def marshalPKCS1PrivateKey_def rbind_def)

lemma qbind_ret: "qbind (qlift (Inr x)) k = k x"
  by (simp add: qbind_def qlift_def)

text \<open>Certificates that no stored secret signs: the SQL store words the error of a missing issuer differently.\<close>

definition selfSigned :: "CertificatePolicy \<Rightarrow> bool" where
  "selfSigned policy \<longleftrightarrow> (case anyString (cp_X509Props policy) ''issuer_name'' of None \<Rightarrow> True | Some i \<Rightarrow> i = [])"

lemma selfSigned_options:
  assumes "selfSigned policy" "calmSql e"
  shows "certOptions L s policy = certOptions L New policy" "runSql (sqlCertOptions e L policy) d = (certOptions L s policy, d)"
    "is_ok (certOptions L s policy)"
  using assms by (auto simp: selfSigned_def certOptions_def sqlCertOptions_def Let_def sql_run split: option.splits)

lemma indep_certOptions: "selfSigned policy \<Longrightarrow> indep (sqlCertOptions e L policy)"
  by (auto simp: selfSigned_def sqlCertOptions_def Let_def sql_run split: option.splits)

lemma jwk_text: "jsonJWK (RSAToJWK [] ''RSA'' (defaultKeyOps ''RSA'' []) pub) = RSAToJWK [] ''RSA'' (defaultKeyOps ''RSA'' []) pub"
  by (intro jsonJWK_made text_ok_names defaultKeyOps_text) simp

lemma certificate_texts:
  assumes "newVersion e = Inr v" "tags_text tags"
  shows "text_ok v"
    "text_ok n \<Longrightarrow> certText (certificateOf n v der (buildAttributes a now now) tags policy)"
    "text_ok n \<Longrightarrow> cloneCertificateRecord (certificateOf n v der (buildAttributes a now now) tags policy) =
      certificateOf n v der (buildAttributes a now now) tags policy"
    "keyText (keyOfCertificate n v pub (buildAttributes a now now) tags)"
    "cloneKeyRecord (keyOfCertificate n v pub (buildAttributes a now now) tags) =
      keyOfCertificate n v pub (buildAttributes a now now) tags"
proof -
  show v: "text_ok v"
    using assms(1) by (rule text_ok_newVersion)
  show cert: "certText (certificateOf n v der (buildAttributes a now now) tags policy)" if "text_ok n" for n
    using that v assms(2) by (simp add: certificateOf_def certText_def)
  show "cloneCertificateRecord (certificateOf n v der (buildAttributes a now now) tags policy) =
      certificateOf n v der (buildAttributes a now now) tags policy" if "text_ok n"
    using cert [OF that] by (rule clone_cert)
qed (use assms(2) jwk_text in \<open>simp_all add: keyOfCertificate_def keyText_def clone_key tags_text_map_ok\<close>)

lemma deletedCertificate_iff:
  "objectsRel L DL d s \<Longrightarrow> goneRowOf n (kv_deleted_certificates d) = None \<longleftrightarrow> map_of (st_deletedCertificates s) n = None"
  using ct.goneD(5) [OF certsRelD(2) [OF objectsRelD(2)], of L DL d s n] by simp

lemma certificateDeleted_run:
  assumes rel: "objectsRel L DL d s" and e: "calmSql e" and gone: "map_of (st_deletedCertificates s) n = Some x"
    and k: "indep k"
  shows "runSql (qbind (checkNotDeleted e kv_deleted_certificates n ''Certificate'') (\<lambda>_. k)) d = (Inl (certificateIsDeleted n), d)"
  using e gone k deletedCertificate_iff [OF rel, of n]
  by (auto simp: sql_run checkNotDeleted_run certificateIsDeleted_def indep_reads)

lemma certificateNotDeleted_run:
  assumes rel: "objectsRel L DL d s" and e: "calmSql e" and gone: "map_of (st_deletedCertificates s) n = None"
    and k: "indep k"
  shows "runSql (qbind (checkNotDeleted e kv_deleted_certificates n ''Certificate'') (\<lambda>_. k)) d = runSql k d"
  using e gone k deletedCertificate_iff [OF rel, of n]
  by (auto simp: sql_run checkNotDeleted_run indep_reads)

section \<open>Creating\<close>

text \<open>What a creation stores, from the request and the generated key and certificate.\<close>

abbreviation createdCert :: "env \<Rightarrow> string \<Rightarrow> string \<Rightarrow> CreateCertificateRequest \<Rightarrow> bytes \<Rightarrow> CertificateRecord" where
  "createdCert e n v q der \<equiv> certificateOf n v der (buildAttributes (cc_Attributes q) (env_now e) (env_now e)) (cc_Tags q)
     (defaultCertificatePolicy n (cc_Policy q))"

abbreviation createdKey :: "env \<Rightarrow> string \<Rightarrow> string \<Rightarrow> CreateCertificateRequest \<Rightarrow> rsa_PrivateKey \<Rightarrow> KeyRecord" where
  "createdKey e n v q priv \<equiv> keyOfCertificate n v (priv_PublicKey priv)
     (buildAttributes (cc_Attributes q) (env_now e) (env_now e)) (cc_Tags q)"

definition createdObjects ::
  "sqlenv \<Rightarrow> x509lib \<Rightarrow> derlib \<Rightarrow> string \<Rightarrow> string \<Rightarrow> CreateCertificateRequest \<Rightarrow> rsa_PrivateKey \<Rightarrow> bytes \<Rightarrow> bytes \<Rightarrow> CertificateRecord sql" where
  "createdObjects e L DL n v q priv der = (\<lambda>keyDER.
     let pem = lib_pemEncode L (pemBlock ''CERTIFICATE'' der)
      in storeObjects e (createdCert (sq_env e) n v q der) pem
           (insertKeyRow e L DL (createdKey (sq_env e) n v q priv) (rsaMaterial priv) (sq_nano e))
           (secretOfCertificate n v (pem @ lib_pemEncode L (pemBlock ''RSA PRIVATE KEY'' keyDER))
             (buildAttributes (cc_Attributes q) (env_now (sq_env e)) (env_now (sq_env e))) (cc_Tags q)))"

lemma sqlCreateCertificate_steps:
  assumes "newVersion (sq_env e) = Inr v"
  shows "sqlCreateCertificate e P L DL n q =
    (if n = [] then qfail (newError 400 ''BadParameter'' ''Certificate name is required.'')
     else qbind (checkNotDeleted e kv_deleted_certificates n ''Certificate'') (\<lambda>_.
       qbind (sqlCertOptions e L (defaultCertificatePolicy n (cc_Policy q))) (\<lambda>opts.
       qbind (qlift (wrapErr 400 ''InvalidOperation'' (GenerateCert P L n (Some (defaultCertificatePolicy n (cc_Policy q))) opts)))
         (\<lambda>(priv, der).
       qbind (qlift (marshalPKCS1PrivateKey L priv)) (createdObjects e L DL n v q priv der)))))"
  using assms
  by (simp add: sqlCreateCertificate_def createdObjects_def storeObjects_def certificate_records rsaMaterial_def qbind_ret Let_def)

lemma createdObjects_run:
  assumes rel: "objectsRel L DL d s" and e: "calmSql e" "newVersion (sq_env e) = Inr v"
    and fresh: "freshObjects d n v (sq_nano e)" and q: "text_ok n" "tags_text (cc_Tags q)"
    and fit: "materialFit L DL (rsaMaterial priv)"
  shows "\<exists>d'. runSql (createdObjects e L DL n v q priv der keyDER) d = (Inr (createdCert (sq_env e) n v q der), d') \<and>
    objectsRel L DL d' (withObjects s (createdCert (sq_env e) n v q der) pem
      (appendVersion n \<lparr>kv_record = createdKey (sq_env e) n v q priv, kv_material = rsaMaterial priv\<rparr>))"
  unfolding createdObjects_def Let_def
proof (rule storeObjects_run [OF rel e(1) fresh])
  note texts = certificate_texts [OF e(2) q(2)]
  show "\<exists>ks. runSql (insertKeyRow e L DL (createdKey (sq_env e) n v q priv) (rsaMaterial priv) (sq_nano e)) d =
        (Inr (), d\<lparr>kv_keys := ks\<rparr>) \<and>
      objectsRel L DL (d\<lparr>kv_keys := ks\<rparr>) (s\<lparr>st_keys := appendVersion n
        \<lparr>kv_record = createdKey (sq_env e) n v q priv, kv_material = rsaMaterial priv\<rparr> (st_keys s)\<rparr>)"
    if "objectsRel L DL d s" "freshKey d n v (sq_nano e)" for d s
    by (rule insertKey_objects [OF e(1) fit texts(4,1) _ _ that]) (simp_all add: keyOfCertificate_def)
  show "certText (createdCert (sq_env e) n v q der)"
    using q(1) by (rule texts(2))
qed (use e(1) in \<open>simp_all add: indep_keys certificate_records\<close>)

lemma indep_createdObjects: "calmSql e \<Longrightarrow> indep (createdObjects e L DL n v q priv der keyDER)"
  by (simp add: createdObjects_def Let_def indep_storeObjects indep_keys)

lemma CreateCertificate_stored:
  assumes "newVersion e = Inr v" "n \<noteq> []" "map_of (st_deletedCertificates s) n = None" "text_ok n" "tags_text (cc_Tags q)"
    and "certOptions L s (defaultCertificatePolicy n (cc_Policy q)) = Inr opts"
    and "GenerateCert P L n (Some (defaultCertificatePolicy n (cc_Policy q))) opts = Inr (priv, der)"
  shows "\<exists>pem m. CreateCertificate e P L n q s = (Inr (createdCert e n v q der), (withObjects s (createdCert e n v q der) pem
    (appendVersion n \<lparr>kv_record = createdKey e n v q priv, kv_material = rsaMaterial priv\<rparr>))\<lparr>st_secrets := m\<rparr>)"
  using assms certificate_texts(3,5) [OF assms(1,5)] 
  by (simp add: CreateCertificate_def Let_def wrapErr_def putKeyVersion_def putSecretVersion_def certificate_records
      rsaMaterial_def) (intro exI, rule refl)

lemma sqlCreateCertificate_run:
  fixes n q
  defines "policy \<equiv> defaultCertificatePolicy n (cc_Policy q)"
  assumes rel: "objectsRel L DL d s" and e: "calmSql e" "newVersion (sq_env e) = Inr v"
    and fresh: "freshObjects d n v (sq_nano e)" and q: "text_ok n" "tags_text (cc_Tags q)" "selfSigned policy"
    and m: "\<And>opts priv der. certOptions L New policy = Inr opts \<Longrightarrow> GenerateCert P L n (Some policy) opts = Inr (priv, der) \<Longrightarrow>
      materialFit L DL (rsaMaterial priv)"
  shows "objectsSimulate L DL (runSql (sqlCreateCertificate e P L DL n q) d) (CreateCertificate (sq_env e) P L n q s)"
proof -
  note opts = selfSigned_options [OF q(3) e(1)]
  let ?rest = "qbind (sqlCertOptions e L policy) (\<lambda>opts.
    qbind (qlift (wrapErr 400 ''InvalidOperation'' (GenerateCert P L n (Some policy) opts))) (\<lambda>(priv, der).
    qbind (qlift (marshalPKCS1PrivateKey L priv)) (createdObjects e L DL n v q priv der)))"
  have indep: "indep ?rest"
    by (simp add: sql_run indep_certOptions [OF q(3)] indep_createdObjects [OF e(1)])
  note sql = sqlCreateCertificate_steps [OF e(2), of P L DL n q, folded policy_def]
  consider "n = []" | x where "n \<noteq> []" "map_of (st_deletedCertificates s) n = Some x"
    | "n \<noteq> []" "map_of (st_deletedCertificates s) n = None"
    by blast
  then show ?thesis
  proof cases
    case 1
    then show ?thesis
      unfolding sql using rel by (simp add: CreateCertificate_def sql_run objectsSimulate_same)
  next
    case (2 x)
    then show ?thesis
      using rel certificateDeleted_run [OF rel e(1) 2(2) indep] by (simp add: sql CreateCertificate_def objectsSimulate_same)
  next
    case 3
    obtain o1 where o1: "certOptions L s policy = Inr o1"
      using opts(3) [of L s] by (cases "certOptions L s policy") auto
    have run: "runSql (sqlCreateCertificate e P L DL n q) d = runSql ?rest d"
      using 3 certificateNotDeleted_run [OF rel e(1) 3(2) indep] by (simp add: sql)
    show ?thesis
    proof (cases "GenerateCert P L n (Some policy) o1")
      case (Inl err)
      then show ?thesis
        unfolding run using rel e(2) 3 o1
        by (auto simp: CreateCertificate_def policy_def [symmetric] Let_def wrapErr_def sql_run indep_certOptions [OF q(3)]
            indep_createdObjects [OF e(1)] opts(2) [where s = s] split: goerr.split intro!: objectsSimulate_same)
    next
      case (Inr pd)
      then obtain priv der where g: "GenerateCert P L n (Some policy) o1 = Inr (priv, der)"
        by (cases pd) simp
      have fit: "materialFit L DL (rsaMaterial priv)"
        using m [of o1 priv der] o1 g opts(1) [of L s] by simp
      obtain pem ss where mem: "CreateCertificate (sq_env e) P L n q s = (Inr (createdCert (sq_env e) n v q der),
          (withObjects s (createdCert (sq_env e) n v q der) pem (appendVersion n
            \<lparr>kv_record = createdKey (sq_env e) n v q priv, kv_material = rsaMaterial priv\<rparr>))\<lparr>st_secrets := ss\<rparr>)"
        using CreateCertificate_stored [OF e(2) 3 q(1,2)] o1 g unfolding policy_def by blast
      show ?thesis
        unfolding run mem
        using createdObjects_run [OF rel e fresh q(1,2) fit, of der "lib_MarshalPKCS1PrivateKey L priv" pem] o1 g
        by (auto simp: objectsSimulate_def wrapErr_def sql_run indep_certOptions [OF q(3)] indep_createdObjects [OF e(1)]
            opts(2) [where s = s] rsaMaterial_primes [OF fit])
    qed
  qed
qed

section \<open>Importing\<close>

definition certKeyMaterial :: "rsa_PublicKey \<Rightarrow> rsa_PrivateKey option \<Rightarrow> KeyMaterial" where
  "certKeyMaterial pub priv = (case priv of None \<Rightarrow> emptyMaterial\<lparr>km_RSAPub := Some pub\<rparr> | Some k \<Rightarrow> rsaMaterial k)"

abbreviation importedCert :: "env \<Rightarrow> string \<Rightarrow> string \<Rightarrow> ImportCertificateRequest \<Rightarrow> x509_Certificate \<Rightarrow> CertificateRecord" where
  "importedCert e n v q cert \<equiv> certificateOf n v (x_Raw cert) (buildAttributes (ic_Attributes q) (env_now e) (env_now e))
     (ic_Tags q) (defaultCertificatePolicy n (ic_Policy q))"

abbreviation importedRSA :: "env \<Rightarrow> string \<Rightarrow> string \<Rightarrow> ImportCertificateRequest \<Rightarrow> rsa_PublicKey \<Rightarrow> KeyRecord" where
  "importedRSA e n v q pub \<equiv> keyOfCertificate n v pub (buildAttributes (ic_Attributes q) (env_now e) (env_now e)) (ic_Tags q)"

text \<open>A certificate whose key is not RSA leaves no key.\<close>

definition importKeyRow ::
  "sqlenv \<Rightarrow> x509lib \<Rightarrow> derlib \<Rightarrow> string \<Rightarrow> string \<Rightarrow> ImportCertificateRequest \<Rightarrow> x509_Certificate \<Rightarrow> rsa_PrivateKey option \<Rightarrow> unit sql" where
  "importKeyRow e L DL n v q cert priv = (case x_PublicKey cert of
     Some (RSAPublic pub) \<Rightarrow> insertKeyRow e L DL (importedRSA (sq_env e) n v q pub) (certKeyMaterial pub priv) (sq_nano e)
   | _ \<Rightarrow> qret ())"

definition importKeyVersion ::
  "env \<Rightarrow> string \<Rightarrow> string \<Rightarrow> ImportCertificateRequest \<Rightarrow> x509_Certificate \<Rightarrow> rsa_PrivateKey option \<Rightarrow>
    (string, keyEntry) gomap \<Rightarrow> (string, keyEntry) gomap" where
  "importKeyVersion e n v q cert priv ks = (case x_PublicKey cert of
     Some (RSAPublic pub) \<Rightarrow>
       appendVersion n \<lparr>kv_record = importedRSA e n v q pub, kv_material = certKeyMaterial pub priv\<rparr> ks
   | _ \<Rightarrow> ks)"

definition importedObjects ::
  "sqlenv \<Rightarrow> x509lib \<Rightarrow> derlib \<Rightarrow> string \<Rightarrow> string \<Rightarrow> ImportCertificateRequest \<Rightarrow> x509_Certificate \<Rightarrow> rsa_PrivateKey option \<Rightarrow> bytes \<Rightarrow>
    CertificateRecord sql" where
  "importedObjects e L DL n v q cert priv data =
     storeObjects e (importedCert (sq_env e) n v q cert) (extractCertPEM L data) (importKeyRow e L DL n v q cert priv)
       (secretOfCertificate n v data (buildAttributes (ic_Attributes q) (env_now (sq_env e)) (env_now (sq_env e))) (ic_Tags q))"

lemma notRSA:
  assumes "\<nexists>pub. x_PublicKey cert = Some (RSAPublic pub)"
  shows "(case x_PublicKey cert of Some (RSAPublic pub) \<Rightarrow> f pub | _ \<Rightarrow> y) = y"
  using assms by (simp split: option.split publicKey.split)

lemma importKeyRow_run:
  assumes rel: "objectsRel L DL d s" and fresh: "freshKey d n v (sq_nano e)" and e: "calmSql e" "newVersion (sq_env e) = Inr v"
    and q: "tags_text (ic_Tags q)" and m: "\<And>pub. x_PublicKey cert = Some (RSAPublic pub) \<Longrightarrow> materialFit L DL (certKeyMaterial pub priv)"
  shows "\<exists>ks. runSql (importKeyRow e L DL n v q cert priv) d = (Inr (), d\<lparr>kv_keys := ks\<rparr>) \<and>
    objectsRel L DL (d\<lparr>kv_keys := ks\<rparr>) (s\<lparr>st_keys := importKeyVersion (sq_env e) n v q cert priv (st_keys s)\<rparr>)"
proof (cases "\<exists>pub. x_PublicKey cert = Some (RSAPublic pub)")
  case True
  then obtain pub where pub: "x_PublicKey cert = Some (RSAPublic pub)"
    by blast
  note texts = certificate_texts(4,1) [OF e(2) q]
  show ?thesis
    using insertKey_objects [OF e(1) m [OF pub] texts _ _ rel fresh] pub
    by (simp add: importKeyRow_def importKeyVersion_def) (simp add: keyOfCertificate_def)
next
  case False
  then have "importKeyRow e L DL n v q cert priv = qret ()" "importKeyVersion (sq_env e) n v q cert priv (st_keys s) = st_keys s"
    by (simp_all add: importKeyRow_def importKeyVersion_def notRSA)
  then show ?thesis
    using rel by (auto simp: sql_run intro: exI [of _ "kv_keys d"])
qed

lemma indep_importKeyRow: "calmSql e \<Longrightarrow> indep (importKeyRow e L DL n v q cert priv)"
  by (simp add: importKeyRow_def indep_keys sql_run split: option.split publicKey.split)

lemma importedObjects_run:
  assumes rel: "objectsRel L DL d s" and e: "calmSql e" "newVersion (sq_env e) = Inr v"
    and fresh: "freshObjects d n v (sq_nano e)" and q: "text_ok n" "tags_text (ic_Tags q)"
    and m: "\<And>pub. x_PublicKey cert = Some (RSAPublic pub) \<Longrightarrow> materialFit L DL (certKeyMaterial pub priv)"
  shows "\<exists>d'. runSql (importedObjects e L DL n v q cert priv data) d = (Inr (importedCert (sq_env e) n v q cert), d') \<and>
    objectsRel L DL d' (withObjects s (importedCert (sq_env e) n v q cert) data (importKeyVersion (sq_env e) n v q cert priv))"
  unfolding importedObjects_def
proof (rule storeObjects_run [OF rel e(1) fresh indep_importKeyRow [OF e(1)]])
  show "certText (importedCert (sq_env e) n v q cert)"
    using q(1) by (rule certificate_texts(2) [OF e(2) q(2)])
qed (use importKeyRow_run [OF _ _ e q(2) m] in \<open>simp_all add: certificate_records\<close>)

lemma sqlImportCertificate_steps:
  assumes "newVersion (sq_env e) = Inr v" "n \<noteq> []" "ic_Value q \<noteq> []"
    and "ParseImportedCertificate L (ic_Value q) (ic_Password q) = Inr (cert, priv, data)"
  shows "sqlImportCertificate e L DL n q =
    qbind (checkNotDeleted e kv_deleted_certificates n ''Certificate'') (\<lambda>_. importedObjects e L DL n v q cert priv data)"
  using assms
  by (cases priv) (simp_all add: sqlImportCertificate_def wrapErr_def qbind_ret Let_def importedObjects_def storeObjects_def
      importKeyRow_def certificate_records certKeyMaterial_def rsaMaterial_def cong: option.case_cong publicKey.case_cong)

lemma ImportCertificate_stored:
  assumes v: "newVersion e = Inr v" and n: "n \<noteq> []" "ic_Value q \<noteq> []" "map_of (st_deletedCertificates s) n = None"
    and parse: "ParseImportedCertificate L (ic_Value q) (ic_Password q) = Inr (cert, priv, data)"
    and q: "text_ok n" "tags_text (ic_Tags q)"
  shows "\<exists>m. ImportCertificate e L n q s = (Inr (importedCert e n v q cert),
    (withObjects s (importedCert e n v q cert) data (importKeyVersion e n v q cert priv))\<lparr>st_secrets := m\<rparr>)"
proof -
  note texts = certificate_texts(3,5) [OF v q(2), unfolded certificate_records]
  note steps = v n parse ImportCertificate_def Let_def wrapErr_def putKeyVersion_def putSecretVersion_def certificate_records
    importKeyVersion_def
  show ?thesis
  proof (cases "\<exists>pub. x_PublicKey cert = Some (RSAPublic pub)")
    case True
    then obtain pub where "x_PublicKey cert = Some (RSAPublic pub)"
      by blast
    then show ?thesis
      using texts(1) [OF q(1)] texts(2)
      by (cases priv) (simp_all add: steps certKeyMaterial_def rsaMaterial_def, (rule exI, rule refl)+)
  next
    case False
    then show ?thesis
      using texts(1) [OF q(1)] n(3) by (cases s) (simp add: steps notRSA)
  qed
qed

lemma sqlImportCertificate_refused:
  assumes "objectsRel L DL d s" "n = [] \<or> ic_Value q = [] \<or> ParseImportedCertificate L (ic_Value q) (ic_Password q) = Inl err"
  shows "objectsSimulate L DL (runSql (sqlImportCertificate e L DL n q) d) (ImportCertificate (sq_env e) L n q s)"
proof (cases "n = [] \<or> ic_Value q = []")
  case True
  then show ?thesis
    using assms(1) by (auto simp: sqlImportCertificate_def ImportCertificate_def sql_run intro!: objectsSimulate_same)
next
  case False
  then have parse: "ParseImportedCertificate L (ic_Value q) (ic_Password q) = Inl err"
    using assms(2) by blast
  then have "sqlImportCertificate e L DL n q = qlift (Inl (projl (wrapErr 400 ''BadParameter''
      (ParseImportedCertificate L (ic_Value q) (ic_Password q)))))"
    using False by (auto simp: sqlImportCertificate_def wrapErr_def qbind_def qlift_def split: goerr.split)
  then show ?thesis
    using assms(1) False parse
    by (auto simp: ImportCertificate_def wrapErr_def sql_run split: goerr.split intro!: objectsSimulate_same)
qed

lemma sqlImportCertificate_run:
  assumes rel: "objectsRel L DL d s" and e: "calmSql e" "newVersion (sq_env e) = Inr v"
    and fresh: "freshObjects d n v (sq_nano e)" and q: "text_ok n" "tags_text (ic_Tags q)"
    and m: "\<And>cert priv data pub. ParseImportedCertificate L (ic_Value q) (ic_Password q) = Inr (cert, priv, data) \<Longrightarrow>
      x_PublicKey cert = Some (RSAPublic pub) \<Longrightarrow> materialFit L DL (certKeyMaterial pub priv)"
  shows "objectsSimulate L DL (runSql (sqlImportCertificate e L DL n q) d) (ImportCertificate (sq_env e) L n q s)"
proof -
  consider err where "n = [] \<or> ic_Value q = [] \<or> ParseImportedCertificate L (ic_Value q) (ic_Password q) = Inl err"
    | cert priv data where "n \<noteq> []" "ic_Value q \<noteq> []" "ParseImportedCertificate L (ic_Value q) (ic_Password q) = Inr (cert, priv, data)"
    by (cases "ParseImportedCertificate L (ic_Value q) (ic_Password q)") auto
  then show ?thesis
  proof cases
    case 1
    then show ?thesis
      by (rule sqlImportCertificate_refused [OF rel])
  next
    case 2
    note sql = sqlImportCertificate_steps [OF e(2) 2, of DL]
    have indep: "indep (importedObjects e L DL n v q cert priv data)"
      using e(1) by (simp add: importedObjects_def indep_storeObjects indep_importKeyRow)
    show ?thesis
    proof (cases "map_of (st_deletedCertificates s) n")
      case (Some x)
      then show ?thesis
        using rel 2 certificateDeleted_run [OF rel e(1) Some indep]
        by (simp add: sql ImportCertificate_def wrapErr_def objectsSimulate_same)
    next
      case None
      obtain ss where mem: "ImportCertificate (sq_env e) L n q s = (Inr (importedCert (sq_env e) n v q cert),
          (withObjects s (importedCert (sq_env e) n v q cert) data (importKeyVersion (sq_env e) n v q cert priv))\<lparr>st_secrets := ss\<rparr>)"
        using ImportCertificate_stored [OF e(2) 2(1,2) None 2(3) q] by blast
      show ?thesis
        unfolding sql mem certificateNotDeleted_run [OF rel e(1) None indep]
        using importedObjects_run [where cert = cert, OF rel e fresh q m [OF 2(3)], of data] by (auto simp: objectsSimulate_def)
    qed
  qed
qed

end
