(* ===== verification/KV_Sql_Objects.thy ===== *)
theory KV_Sql_Objects
  imports KV_Sql_Cert_Writes
begin

text \<open>
  The SQL store and the in-memory store on keys and certificates: every operation as a call, the
  answers of both to a sequence of calls, and the property that they are the same.
\<close>

section \<open>Calls on keys and certificates\<close>

datatype objectCall =
    OnCreateKey string CreateKeyRequest
  | OnImportKey string ImportKeyRequest
  | OnGetKey string string
  | OnListKeys int string
  | OnKeyVersions string int string
  | OnUpdateKey string string UpdateKeyRequest
  | OnDeleteKey string
  | OnListDeletedKeys int string
  | OnGetDeletedKey string
  | OnPurgeKey string
  | OnRecoverKey string
  | OnEncrypt string string EncryptRequest
  | OnDecrypt string string EncryptRequest
  | OnSign string string SignRequest
  | OnVerify string string VerifyRequest
  | OnWrap string string EncryptRequest
  | OnUnwrap string string EncryptRequest
  | OnCreateCertificate string CreateCertificateRequest
  | OnImportCertificate string ImportCertificateRequest
  | OnGetCertificate string string
  | OnListCertificates int string
  | OnCertificateVersions string int string
  | OnUpdateCertificate string string UpdateCertificateRequest
  | OnGetPolicy string
  | OnUpdatePolicy string "CertificatePolicy option"
  | OnPending string
  | OnDeleteCertificate string
  | OnListDeletedCertificates int string
  | OnGetDeletedCertificate string
  | OnPurgeCertificate string
  | OnRecoverCertificate string

datatype objectAnswer =
    RKey "KeyRecord res"
  | RKeys "(KeyRecord list \<times> string option) res"
  | RDeletedKey "DeletedKeyRecord res"
  | RDeletedKeys "(DeletedKeyRecord list \<times> string option) res"
  | RDone "unit res"
  | RText "string res"
  | RTexts "(string \<times> string) res"
  | RValid "bool res"
  | RCert "CertificateRecord res"
  | RCerts "(CertificateRecord list \<times> string option) res"
  | RDeletedCert "DeletedCertificateRecord res"
  | RDeletedCerts "(DeletedCertificateRecord list \<times> string option) res"
  | RPolicy "CertificatePolicy option res"
  | RPending "CertificateOperation res"

fun sqlObject :: "prims \<Rightarrow> x509lib \<Rightarrow> derlib \<Rightarrow> sqlenv \<Rightarrow> objectCall \<Rightarrow> SQLStore \<Rightarrow> objectAnswer \<times> SQLStore" where
  "sqlObject P L DL e (OnCreateKey n q) d = apfst RKey (runSql (sqlCreateKey e P L DL n q) d)"
| "sqlObject P L DL e (OnImportKey n q) d = apfst RKey (runSql (sqlImportKey e L DL n q) d)"
| "sqlObject P L DL e (OnGetKey n v) d = apfst RKey (runSql (sqlGetKey e L DL n v) d)"
| "sqlObject P L DL e (OnListKeys m t) d = apfst RKeys (runSql (sqlListKeys e L DL m t) d)"
| "sqlObject P L DL e (OnKeyVersions n m t) d = apfst RKeys (runSql (sqlListKeyVersions e n m t) d)"
| "sqlObject P L DL e (OnUpdateKey n v q) d = apfst RKey (runSql (sqlUpdateKey e L DL n v q) d)"
| "sqlObject P L DL e (OnDeleteKey n) d = apfst RDeletedKey (runSql (sqlDeleteKey e L DL n) d)"
| "sqlObject P L DL e (OnListDeletedKeys m t) d = apfst RDeletedKeys (runSql (sqlListDeletedKeys e m t) d)"
| "sqlObject P L DL e (OnGetDeletedKey n) d = apfst RDeletedKey (runSql (sqlGetDeletedKey e n) d)"
| "sqlObject P L DL e (OnPurgeKey n) d = apfst RDone (runSql (sqlPurgeDeletedKey e n) d)"
| "sqlObject P L DL e (OnRecoverKey n) d = apfst RKey (runSql (sqlRecoverDeletedKey e L DL n) d)"
| "sqlObject P L DL e (OnEncrypt n v q) d = apfst RTexts (runSql (sqlEncrypt e P L DL n v q) d)"
| "sqlObject P L DL e (OnDecrypt n v q) d = apfst RTexts (runSql (sqlDecrypt e P L DL n v q) d)"
| "sqlObject P L DL e (OnSign n v g) d = apfst RText (runSql (sqlSign e P L DL n v g) d)"
| "sqlObject P L DL e (OnVerify n v h) d = apfst RValid (runSql (sqlVerify e P L DL n v h) d)"
| "sqlObject P L DL e (OnWrap n v q) d = apfst RText (runSql (sqlWrapKey e P L DL n v q) d)"
| "sqlObject P L DL e (OnUnwrap n v q) d = apfst RText (runSql (sqlUnwrapKey e P L DL n v q) d)"
| "sqlObject P L DL e (OnCreateCertificate n q) d = apfst RCert (runSql (sqlCreateCertificate e P L DL n q) d)"
| "sqlObject P L DL e (OnImportCertificate n q) d = apfst RCert (runSql (sqlImportCertificate e L DL n q) d)"
| "sqlObject P L DL e (OnGetCertificate n v) d = apfst RCert (runSql (sqlGetCertificate e n v) d)"
| "sqlObject P L DL e (OnListCertificates m t) d = apfst RCerts (runSql (sqlListCertificates e m t) d)"
| "sqlObject P L DL e (OnCertificateVersions n m t) d = apfst RCerts (runSql (sqlListCertificateVersions e n m t) d)"
| "sqlObject P L DL e (OnUpdateCertificate n v q) d = apfst RCert (runSql (sqlUpdateCertificate e n v q) d)"
| "sqlObject P L DL e (OnGetPolicy n) d = apfst RPolicy (runSql (sqlGetCertificatePolicy e n) d)"
| "sqlObject P L DL e (OnUpdatePolicy n p) d =
     apfst RPolicy (apfst policyJson (runSql (sqlUpdateCertificatePolicy e n p) d))"
| "sqlObject P L DL e (OnPending n) d = apfst RPending (runSql (sqlGetPendingCertificateOperation e n) d)"
| "sqlObject P L DL e (OnDeleteCertificate n) d = apfst RDeletedCert (runSql (sqlDeleteCertificate e n) d)"
| "sqlObject P L DL e (OnListDeletedCertificates m t) d =
     apfst RDeletedCerts (runSql (sqlListDeletedCertificates e m t) d)"
| "sqlObject P L DL e (OnGetDeletedCertificate n) d = apfst RDeletedCert (runSql (sqlGetDeletedCertificate e n) d)"
| "sqlObject P L DL e (OnPurgeCertificate n) d = apfst RDone (runSql (sqlPurgeDeletedCertificate e n) d)"
| "sqlObject P L DL e (OnRecoverCertificate n) d = apfst RCert (runSql (sqlRecoverDeletedCertificate e n) d)"

fun memoryObject :: "prims \<Rightarrow> x509lib \<Rightarrow> env \<Rightarrow> objectCall \<Rightarrow> Store \<Rightarrow> objectAnswer \<times> Store" where
  "memoryObject P L e (OnCreateKey n q) s = apfst RKey (CreateKey e P n q s)"
| "memoryObject P L e (OnImportKey n q) s = apfst RKey (ImportKey e n q s)"
| "memoryObject P L e (OnGetKey n v) s = (RKey (GetKey s n v), s)"
| "memoryObject P L e (OnListKeys m t) s = (RKeys (ListKeys s m t), s)"
| "memoryObject P L e (OnKeyVersions n m t) s = (RKeys (ListKeyVersions s n m t), s)"
| "memoryObject P L e (OnUpdateKey n v q) s = apfst RKey (UpdateKey e n v q s)"
| "memoryObject P L e (OnDeleteKey n) s = apfst RDeletedKey (DeleteKey e n s)"
| "memoryObject P L e (OnListDeletedKeys m t) s = (RDeletedKeys (ListDeletedKeys s m t), s)"
| "memoryObject P L e (OnGetDeletedKey n) s = (RDeletedKey (GetDeletedKey s n), s)"
| "memoryObject P L e (OnPurgeKey n) s = apfst RDone (PurgeDeletedKey n s)"
| "memoryObject P L e (OnRecoverKey n) s = apfst RKey (RecoverDeletedKey n s)"
| "memoryObject P L e (OnEncrypt n v q) s = (RTexts (Encrypt P s n v q), s)"
| "memoryObject P L e (OnDecrypt n v q) s = (RTexts (Decrypt P s n v q), s)"
| "memoryObject P L e (OnSign n v g) s = (RText (Sign P s n v g), s)"
| "memoryObject P L e (OnVerify n v h) s = (RValid (Verify P s n v h), s)"
| "memoryObject P L e (OnWrap n v q) s = (RText (WrapKey P s n v q), s)"
| "memoryObject P L e (OnUnwrap n v q) s = (RText (UnwrapKey P s n v q), s)"
| "memoryObject P L e (OnCreateCertificate n q) s = apfst RCert (CreateCertificate e P L n q s)"
| "memoryObject P L e (OnImportCertificate n q) s = apfst RCert (ImportCertificate e L n q s)"
| "memoryObject P L e (OnGetCertificate n v) s = (RCert (GetCertificate s n v), s)"
| "memoryObject P L e (OnListCertificates m t) s = (RCerts (ListCertificates s m t), s)"
| "memoryObject P L e (OnCertificateVersions n m t) s = (RCerts (ListCertificateVersions s n m t), s)"
| "memoryObject P L e (OnUpdateCertificate n v q) s = apfst RCert (UpdateCertificate e n v q s)"
| "memoryObject P L e (OnGetPolicy n) s = (RPolicy (GetCertificatePolicy s n), s)"
| "memoryObject P L e (OnUpdatePolicy n p) s = apfst RPolicy (apfst policyJson (UpdateCertificatePolicy e n p s))"
| "memoryObject P L e (OnPending n) s = (RPending (GetPendingCertificateOperation s n), s)"
| "memoryObject P L e (OnDeleteCertificate n) s = apfst RDeletedCert (DeleteCertificate e n s)"
| "memoryObject P L e (OnListDeletedCertificates m t) s = (RDeletedCerts (ListDeletedCertificates s m t), s)"
| "memoryObject P L e (OnGetDeletedCertificate n) s = (RDeletedCert (GetDeletedCertificate s n), s)"
| "memoryObject P L e (OnPurgeCertificate n) s = apfst RDone (PurgeDeletedCertificate n s)"
| "memoryObject P L e (OnRecoverCertificate n) s = apfst RCert (RecoverDeletedCertificate n s)"

text \<open>
  What a call may assume: random bytes; a version that is new and a clock that has moved since the
  last row of the name; text that JSON leaves alone; key material that the DER functions of the
  library write and read back (an imported RSA key has its primes); certificates that sign
  themselves.
\<close>

fun objectOk :: "prims \<Rightarrow> x509lib \<Rightarrow> derlib \<Rightarrow> sqlenv \<Rightarrow> objectCall \<Rightarrow> SQLStore \<Rightarrow> bool" where
  "objectOk P L DL e (OnCreateKey n q) d = (case newVersion (sq_env e) of Inl _ \<Rightarrow> False | Inr v \<Rightarrow>
     freshKey d n v (sq_nano e) \<and> list_all text_ok (ck_KeyOps q) \<and> tags_text (ck_Tags q) \<and>
     (case GenerateKey P (ck_Kty q) (ck_KeySize q) (ck_Crv q) [] (defaultKeyOps (ck_Kty q) (ck_KeyOps q)) of
        Inl _ \<Rightarrow> True | Inr (m, _) \<Rightarrow> materialFit L DL m))"
| "objectOk P L DL e (OnImportKey n q) d = (case newVersion (sq_env e) of Inl _ \<Rightarrow> False | Inr v \<Rightarrow>
     freshKey d n v (sq_nano e) \<and> tags_text (ik_Tags q) \<and>
     (case ImportKeyMaterial (ik_Key q) [] of Inl _ \<Rightarrow> True | Inr (m, jwk) \<Rightarrow> materialFit L DL m \<and>
        (let jwk = jwk\<lparr>jwk_KeyOps := defaultKeyOps (jwk_Kty (ik_Key q)) (jwk_KeyOps (ik_Key q))\<rparr> in jsonJWK jwk = jwk)))"
| "objectOk P L DL e (OnUpdateKey n v q) d = updateKeyText q"
| "objectOk P L DL e (OnDeleteKey n) d = is_ok (newVersion (sq_env e))"
| "objectOk P L DL e (OnRecoverKey n) d = roomFor kvs_CreatedAt (kv_deleted_keys d) n"
| "objectOk P L DL e (OnCreateCertificate n q) d = (case newVersion (sq_env e) of Inl _ \<Rightarrow> False | Inr v \<Rightarrow>
     freshObjects d n v (sq_nano e) \<and> text_ok n \<and> tags_text (cc_Tags q) \<and>
     (let policy = defaultCertificatePolicy n (cc_Policy q) in selfSigned policy \<and>
       (case certOptions L New policy of Inl _ \<Rightarrow> True | Inr opts \<Rightarrow>
          (case GenerateCert P L n (Some policy) opts of
             Inl _ \<Rightarrow> True | Inr (priv, _) \<Rightarrow> materialFit L DL (rsaMaterial priv)))))"
| "objectOk P L DL e (OnImportCertificate n q) d = (case newVersion (sq_env e) of Inl _ \<Rightarrow> False | Inr v \<Rightarrow>
     freshObjects d n v (sq_nano e) \<and> text_ok n \<and> tags_text (ic_Tags q) \<and>
     (case ParseImportedCertificate L (ic_Value q) (ic_Password q) of Inl _ \<Rightarrow> True | Inr (cert, priv, _) \<Rightarrow>
        (case x_PublicKey cert of Some (RSAPublic pub) \<Rightarrow> materialFit L DL (certKeyMaterial pub priv) | _ \<Rightarrow> True)))"
| "objectOk P L DL e (OnUpdateCertificate n v q) d = tags_text (uc_Tags q)"
| "objectOk P L DL e (OnDeleteCertificate n) d = is_ok (newVersion (sq_env e))"
| "objectOk P L DL e (OnRecoverCertificate n) d = roomFor cvs_CreatedAt (kv_deleted_certificates d) n"
| "objectOk P L DL e _ d = True"

definition sqlObjects ::
  "prims \<Rightarrow> x509lib \<Rightarrow> derlib \<Rightarrow> (sqlenv \<times> objectCall) list \<Rightarrow> SQLStore \<Rightarrow> objectAnswer list \<times> SQLStore" where
  "sqlObjects P L DL = runCalls (\<lambda>c. sqlObject P L DL (fst c) (snd c))"

definition memoryObjects ::
  "prims \<Rightarrow> x509lib \<Rightarrow> (sqlenv \<times> objectCall) list \<Rightarrow> Store \<Rightarrow> objectAnswer list \<times> Store" where
  "memoryObjects P L = runCalls (\<lambda>c. memoryObject P L (sq_env (fst c)) (snd c))"

definition objectsOk ::
  "prims \<Rightarrow> x509lib \<Rightarrow> derlib \<Rightarrow> (sqlenv \<times> objectCall) list \<Rightarrow> SQLStore \<Rightarrow> bool" where
  "objectsOk P L DL =
     allCalls (\<lambda>c. objectOk P L DL (fst c) (snd c)) (\<lambda>c. sqlObject P L DL (fst c) (snd c))"

section \<open>Every call is simulated\<close>

lemma simulated_call:
  "objectsSimulate L DL sq mem \<Longrightarrow> fst (apfst f sq) = fst (apfst f mem) \<and> objectsRel L DL (snd (apfst f sq)) (snd (apfst f mem))"
  by (simp add: objectsSimulate_def)

lemma simulated_read:
  "objectsRel L DL d s \<Longrightarrow> sq = (r, d) \<Longrightarrow> fst (apfst f sq) = f r \<and> objectsRel L DL (snd (apfst f sq)) s"
  by simp

lemma objectsRel_New: "objectsRel L DL NewSQLStore New"
  by (simp add: objectsRel_def keysRel_New certsRel_New)

lemma newVersion_found:
  "(case newVersion e of Inl _ \<Rightarrow> False | Inr v \<Rightarrow> Q v) \<Longrightarrow> \<exists>v. newVersion e = Inr v \<and> Q v"
  "is_ok (newVersion e) \<Longrightarrow> \<exists>v. newVersion e = Inr v"
  by (cases "newVersion e"; simp)+

lemma sqlObject_simulates_keys:
  assumes rel: "objectsRel L DL d s" and e: "calmSql e"
  shows "objectOk P L DL e (OnCreateKey n q) d \<Longrightarrow>
      objectsSimulate L DL (runSql (sqlCreateKey e P L DL n q) d) (CreateKey (sq_env e) P n q s)"
    and "objectOk P L DL e (OnImportKey n i) d \<Longrightarrow>
      objectsSimulate L DL (runSql (sqlImportKey e L DL n i) d) (ImportKey (sq_env e) n i s)"
    and "objectOk P L DL e (OnDeleteKey n) d \<Longrightarrow>
      objectsSimulate L DL (runSql (sqlDeleteKey e L DL n) d) (DeleteKey (sq_env e) n s)"
proof -
  note keys = objectsRelD(1) [OF rel]
  assume "objectOk P L DL e (OnCreateKey n q) d"
  then obtain v where "newVersion (sq_env e) = Inr v" and ok: "freshKey d n v (sq_nano e)" "list_all text_ok (ck_KeyOps q)"
      "tags_text (ck_Tags q)" "case GenerateKey P (ck_Kty q) (ck_KeySize q) (ck_Crv q) [] (defaultKeyOps (ck_Kty q) (ck_KeyOps q)) of
        Inl _ \<Rightarrow> True | Inr (m, _) \<Rightarrow> materialFit L DL m"
    using newVersion_found(1) by fastforce
  then show "objectsSimulate L DL (runSql (sqlCreateKey e P L DL n q) d) (CreateKey (sq_env e) P n q s)"
    using e by (intro objectsSimulate_keys [OF rel] sqlCreateKey_run [OF keys]) simp_all
next
  note keys = objectsRelD(1) [OF rel]
  assume "objectOk P L DL e (OnImportKey n i) d"
  then obtain v where "newVersion (sq_env e) = Inr v" and ok: "freshKey d n v (sq_nano e)" "tags_text (ik_Tags i)"
      "case ImportKeyMaterial (ik_Key i) [] of Inl _ \<Rightarrow> True | Inr (m, jwk) \<Rightarrow> materialFit L DL m \<and>
        (let jwk = jwk\<lparr>jwk_KeyOps := defaultKeyOps (jwk_Kty (ik_Key i)) (jwk_KeyOps (ik_Key i))\<rparr> in jsonJWK jwk = jwk)"
    using newVersion_found(1) by fastforce
  then show "objectsSimulate L DL (runSql (sqlImportKey e L DL n i) d) (ImportKey (sq_env e) n i s)"
    using e by (intro objectsSimulate_keys [OF rel] sqlImportKey_run [OF keys]) (simp_all add: Let_def)
next
  assume "objectOk P L DL e (OnDeleteKey n) d"
  then obtain v where "newVersion (sq_env e) = Inr v"
    using newVersion_found(2) by auto
  then show "objectsSimulate L DL (runSql (sqlDeleteKey e L DL n) d) (DeleteKey (sq_env e) n s)"
    using e by (intro objectsSimulate_keys [OF rel] sqlDeleteKey_run [OF objectsRelD(1) [OF rel]])
qed

lemma sqlObject_simulates_certs:
  assumes rel: "objectsRel L DL d s" and e: "calmSql e"
  shows "objectOk P L DL e (OnCreateCertificate n q) d \<Longrightarrow>
      objectsSimulate L DL (runSql (sqlCreateCertificate e P L DL n q) d) (CreateCertificate (sq_env e) P L n q s)"
    and "objectOk P L DL e (OnImportCertificate n i) d \<Longrightarrow>
      objectsSimulate L DL (runSql (sqlImportCertificate e L DL n i) d) (ImportCertificate (sq_env e) L n i s)"
    and "objectOk P L DL e (OnDeleteCertificate n) d \<Longrightarrow>
      objectsSimulate L DL (runSql (sqlDeleteCertificate e n) d) (DeleteCertificate (sq_env e) n s)"
proof -
  assume "objectOk P L DL e (OnCreateCertificate n q) d"
  then obtain v where "newVersion (sq_env e) = Inr v" and ok: "freshObjects d n v (sq_nano e)" "text_ok n"
      "tags_text (cc_Tags q)" "selfSigned (defaultCertificatePolicy n (cc_Policy q))"
      "case certOptions L New (defaultCertificatePolicy n (cc_Policy q)) of Inl _ \<Rightarrow> True | Inr opts \<Rightarrow>
        (case GenerateCert P L n (Some (defaultCertificatePolicy n (cc_Policy q))) opts of
          Inl _ \<Rightarrow> True | Inr (priv, _) \<Rightarrow> materialFit L DL (rsaMaterial priv))"
    using newVersion_found(1) by (fastforce simp: Let_def)
  then show "objectsSimulate L DL (runSql (sqlCreateCertificate e P L DL n q) d) (CreateCertificate (sq_env e) P L n q s)"
    using e by (intro sqlCreateCertificate_run [OF rel]) simp_all
next
  assume "objectOk P L DL e (OnImportCertificate n i) d"
  then obtain v where "newVersion (sq_env e) = Inr v" and ok: "freshObjects d n v (sq_nano e)" "text_ok n"
      "tags_text (ic_Tags i)" "case ParseImportedCertificate L (ic_Value i) (ic_Password i) of Inl _ \<Rightarrow> True | Inr (cert, priv, _) \<Rightarrow>
        (case x_PublicKey cert of Some (RSAPublic pub) \<Rightarrow> materialFit L DL (certKeyMaterial pub priv) | _ \<Rightarrow> True)"
    using newVersion_found(1) by fastforce
  then show "objectsSimulate L DL (runSql (sqlImportCertificate e L DL n i) d) (ImportCertificate (sq_env e) L n i s)"
    using e by (intro sqlImportCertificate_run [OF rel]) simp_all
next
  assume "objectOk P L DL e (OnDeleteCertificate n) d"
  then obtain v where "newVersion (sq_env e) = Inr v"
    using newVersion_found(2) by auto
  then show "objectsSimulate L DL (runSql (sqlDeleteCertificate e n) d) (DeleteCertificate (sq_env e) n s)"
    using e by (intro sqlDeleteCertificate_run [OF rel])
qed

lemma sqlObject_simulates:
  assumes rel: "objectsRel L DL d s" and e: "calmSql e" and ok: "objectOk P L DL e c d"
  shows "fst (sqlObject P L DL e c d) = fst (memoryObject P L (sq_env e) c s) \<and>
    objectsRel L DL (snd (sqlObject P L DL e c d)) (snd (memoryObject P L (sq_env e) c s))"
proof -
  note keys = objectsRelD(1) [OF rel] and certs = objectsRelD(2) [OF rel]
  note reads = sqlGetKey_run [OF keys e] sqlListKeys_run [OF keys e] sqlListKeyVersions_run [OF keys e]
    sqlGetDeletedKey_run [OF keys e] sqlListDeletedKeys_run [OF keys e] crypto_run [OF keys e]
    sqlGetCertificate_run [OF certs e] sqlListCertificates_run [OF certs e] sqlListCertificateVersions_run [OF certs e]
    sqlGetDeletedCertificate_run [OF certs e] sqlListDeletedCertificates_run [OF certs e]
  note writes = sqlUpdateKey_run [OF keys e, THEN objectsSimulate_keys [OF rel]]
    sqlPurgeDeletedKey_run [OF keys e, THEN objectsSimulate_keys [OF rel]]
    sqlRecoverDeletedKey_run [OF keys e, THEN objectsSimulate_keys [OF rel]]
    sqlUpdateCertificate_run [OF rel e] sqlUpdateCertificatePolicy_run [OF rel e]
    sqlPurgeDeletedCertificate_run [OF rel e] sqlRecoverDeletedCertificate_run [OF rel e]
    sqlObject_simulates_keys [OF rel e] sqlObject_simulates_certs [OF rel e]
  show ?thesis
    by (insert ok rel, cases c; hypsubst; unfold sqlObject.simps memoryObject.simps;
        (simp add: reads; fail | rule simulated_call, rule writes; simp))
qed

definition sampleSign :: SignRequest where
  "sampleSign = \<lparr>sg_Alg = ''RS256'', sg_Value = EncodeBase64URL (replicate 32 7)\<rparr>"

definition sampleObjects :: "(sqlenv \<times> objectCall) list" where
  "sampleObjects = map (Pair (sampleSqlEnv sampleEnv 1))
     [OnCreateCertificate ''c'' sampleCertRequest, OnGetCertificate ''c'' [], OnSign ''c'' [] sampleSign,
      OnDeleteCertificate ''c'', OnGetDeletedCertificate ''c'']"

lemma sampleRSA_fit: "materialFit sampleLib sampleDer (rsaMaterial sampleRSA)"
  by (simp add: materialFit_def rsaMaterial_def serializeKeyMaterial_def serializeRSA_def serializeEC_def emptyMaterial_def
      der_law_def material_ok_def sampleDer_def sampleLib_def marshalPKCS1PrivateKey_def sampleRSA_def rbind_def)

lemma sample_policy: "anyString (cp_X509Props (defaultCertificatePolicy n None)) ''issuer_name'' = None"
  by (simp add: defaultCertificatePolicy_def clonePolicy_def emptyPolicy_def jsonOmitMap_def Let_def anyString_def)

lemma sample_certificate:
  "case certOptions sampleLib New (defaultCertificatePolicy n None) of Inl _ \<Rightarrow> True | Inr opts \<Rightarrow>
     (case GenerateCert samplePrims sampleLib n (Some (defaultCertificatePolicy n None)) opts of
        Inl _ \<Rightarrow> True | Inr (priv, _) \<Rightarrow> materialFit sampleLib sampleDer (rsaMaterial priv))"
  using sampleRSA_fit sample_policy [of n]
  by (auto simp: certOptions_def Let_def GenerateCert_def samplePrims_def sampleLib_def split: sum.splits option.splits)

lemma sample_certificate_ok:
  "objectOk samplePrims sampleLib sampleDer (sampleSqlEnv sampleEnv 1) (OnCreateCertificate ''c'' sampleCertRequest) NewSQLStore"
proof -
  have "text_ok ''c''"
    by (rule text_ok_ascii) simp
  then show ?thesis
    using sample_certificate [of "''c''"] sample_policy [of "''c''"]
    by (simp add: sampleSqlEnv_calm sampleVersions freshObjects_def freshKey_def NewSQLStore_def
        sampleCertRequest_def tags_text_def textTags_def selfSigned_def Let_def del: hexEncode.simps)
qed

lemma sampleObjects_ok:
  "\<forall>c \<in> set sampleObjects. calmSql (fst c)" "objectsOk samplePrims sampleLib sampleDer sampleObjects NewSQLStore"
  using sample_certificate_ok
  by (simp_all add: sampleObjects_def sampleSqlEnv_calm objectsOk_def sampleVersions
      del: hexEncode.simps sqlObject.simps(18) objectOk.simps(18))



end
