(* ===== verification/KV_Rest_Sql.thy ===== *)
theory KV_Rest_Sql
  imports KV_Rest_Agree KV_Rest_Theorems KV_Sql_Frames KV_Sql_Objects
begin

text \<open>
  The API over the SQL store answers as over the in-memory store: the two agree in related states, so
  that every request, and every sequence of requests, gets the same responses.
\<close>

section \<open>The relation of the whole vault\<close>

definition vaultRel :: "x509lib \<Rightarrow> derlib \<Rightarrow> SQLStore \<Rightarrow> Store \<Rightarrow> bool" where
  "vaultRel L DL d s \<longleftrightarrow> secretsRel d s \<and> objectsRel L DL d s"

lemma vaultRel_New: "vaultRel L DL NewSQLStore New"
  by (simp add: vaultRel_def secretsRel_New objectsRel_New)

lemma secretsRel_frame:
  "secretTables d' = secretTables d \<Longrightarrow> secretPart s' = secretPart s \<Longrightarrow> secretsRel d' s' = secretsRel d s"
  by (simp add: secretTables_def secretPart_def secretsRel_def secretTables_ok_def absSecrets_def)

lemma objectsRel_frame:
  "objectTables d' = objectTables d \<Longrightarrow> keyPart s' = keyPart s \<Longrightarrow> certificatePart s' = certificatePart s \<Longrightarrow>
    objectsRel L DL d' s' = objectsRel L DL d s"
  by (simp add: objectTables_def keyPart_def certificatePart_def objectsRel_def keysRel_def certsRel_def)

text \<open>
  What a writing call may assume, as for the calls of the store. Creating and importing a certificate
  are left out (the content type of the managed secret differs), and replacing a policy (its answer is
  the same only as JSON).
\<close>

fun writeOk :: "prims \<Rightarrow> x509lib \<Rightarrow> derlib \<Rightarrow> codec \<Rightarrow> sqlenv \<Rightarrow> SQLStore \<Rightarrow> storeWrite \<Rightarrow> bool" where
  "writeOk P L DL C e d (ToSetSecret n q) = callOk C e (CallSet n q) d"
| "writeOk P L DL C e d (ToUpdateSecret n v q) = callOk C e (CallUpdate n v q) d"
| "writeOk P L DL C e d (ToDeleteSecret n) = callOk C e (CallDelete n) d"
| "writeOk P L DL C e d (ToPurgeDeletedSecret n) = True"
| "writeOk P L DL C e d (ToRecoverDeletedSecret n) = callOk C e (CallRecover n) d"
| "writeOk P L DL C e d (ToRestoreSecret t) = callOk C e (CallRestore t) d"
| "writeOk P L DL C e d (ToCreateKey n q) = objectOk P L DL e (OnCreateKey n q) d"
| "writeOk P L DL C e d (ToImportKey n q) = objectOk P L DL e (OnImportKey n q) d"
| "writeOk P L DL C e d (ToUpdateKey n v q) = objectOk P L DL e (OnUpdateKey n v q) d"
| "writeOk P L DL C e d (ToDeleteKey n) = objectOk P L DL e (OnDeleteKey n) d"
| "writeOk P L DL C e d (ToPurgeDeletedKey n) = True"
| "writeOk P L DL C e d (ToRecoverDeletedKey n) = objectOk P L DL e (OnRecoverKey n) d"
| "writeOk P L DL C e d (ToCreateCertificate n q) = False"
| "writeOk P L DL C e d (ToImportCertificate n q) = False"
| "writeOk P L DL C e d (ToUpdateCertificate n v q) = objectOk P L DL e (OnUpdateCertificate n v q) d"
| "writeOk P L DL C e d (ToUpdateCertificatePolicy n p) = False"
| "writeOk P L DL C e d (ToDeleteCertificate n) = objectOk P L DL e (OnDeleteCertificate n) d"
| "writeOk P L DL C e d (ToPurgeDeletedCertificate n) = True"
| "writeOk P L DL C e d (ToRecoverDeletedCertificate n) = objectOk P L DL e (OnRecoverCertificate n) d"

definition calmRel :: "sqlenv \<Rightarrow> x509lib \<Rightarrow> derlib \<Rightarrow> SQLStore \<Rightarrow> Store \<Rightarrow> bool" where
  "calmRel e L DL d s \<longleftrightarrow> calmSql e \<and> vaultRel L DL d s"

definition calmObjects :: "sqlenv \<Rightarrow> x509lib \<Rightarrow> derlib \<Rightarrow> SQLStore \<Rightarrow> Store \<Rightarrow> bool" where
  "calmObjects e L DL d s \<longleftrightarrow> calmSql e \<and> objectsRel L DL d s"

lemma calmObjectsD: "calmObjects e L DL d s \<Longrightarrow> calmSql e" "calmObjects e L DL d s \<Longrightarrow> keysRel L DL d s"
  "calmObjects e L DL d s \<Longrightarrow> certsRel d s" "calmObjects e L DL d s \<Longrightarrow> objectsRel L DL d s"
  by (simp_all add: calmObjects_def objectsRel_def)

lemma calmRel_objects: "calmRel e L DL d s \<Longrightarrow> calmObjects e L DL d s"
  by (simp add: calmRel_def calmObjects_def vaultRel_def)

lemma calmRelD: "calmRel e L DL d s \<Longrightarrow> calmSql e" "calmRel e L DL d s \<Longrightarrow> secretsRel d s"
  "calmRel e L DL d s \<Longrightarrow> objectsRel L DL d s" "calmRel e L DL d s \<Longrightarrow> keysRel L DL d s" "calmRel e L DL d s \<Longrightarrow> certsRel d s"
  by (simp_all add: calmRel_def vaultRel_def objectsRel_def)

section \<open>Every operation agrees\<close>

lemma agree_secret:
  assumes "calmRel e L DL d s" "frames objectTables m" "keyPart (snd mem) = keyPart s" "certificatePart (snd mem) = certificatePart s"
    and "fst (runSql m d) = fst mem \<and> secretsRel (snd (runSql m d)) (snd mem)"
  shows "agree (calmRel e L DL) (runSql m d) mem"
  using assms objectsRel_frame [OF frames_run [OF assms(2)] assms(3,4), of L DL d]
  by (simp add: agree_def calmRel_def vaultRel_def)

lemma agree_object:
  assumes "calmRel e L DL d s" "frames secretTables m" "secretPart (snd mem) = secretPart s"
    and "agree (calmObjects e L DL) (runSql m d) mem"
  shows "agree (calmRel e L DL) (runSql m d) mem"
  using assms secretsRel_frame [OF frames_run [OF assms(2)] assms(3), of d]
  by (simp add: agree_def calmRel_def calmObjects_def vaultRel_def)

lemma secret_writes_agree:
  assumes "calmRel e L DL d s"
  shows "writeOk P L DL C e d (ToSetSecret n ss) \<Longrightarrow>
      agree (calmRel e L DL) (runSql (sqlSetSecret e n ss) d) (SetSecret (sq_env e) n ss s)"
    and "writeOk P L DL C e d (ToUpdateSecret n v us) \<Longrightarrow>
      agree (calmRel e L DL) (runSql (sqlUpdateSecret e n v us) d) (UpdateSecret (sq_env e) n v us s)"
    and "writeOk P L DL C e d (ToDeleteSecret n) \<Longrightarrow>
      agree (calmRel e L DL) (runSql (sqlDeleteSecret e n) d) (DeleteSecret (sq_env e) n s)"
    and "agree (calmRel e L DL) (runSql (sqlPurgeDeletedSecret e n) d) (PurgeDeletedSecret n s)"
    and "writeOk P L DL C e d (ToRecoverDeletedSecret n) \<Longrightarrow>
      agree (calmRel e L DL) (runSql (sqlRecoverDeletedSecret e n) d) (RecoverDeletedSecret n s)"
    and "writeOk P L DL C e d (ToRestoreSecret t) \<Longrightarrow>
      agree (calmRel e L DL) (runSql (sqlRestoreSecret e C t) d) (RestoreSecret C t s)"
proof -
  have rel: "secretsRel d s" "calmSql e"
    using calmRelD [OF assms] by simp_all
  note calls = sqlCall_simulates [OF rel, of C]
  note agree = agree_secret [OF assms] secret_frames keyPart_frames certificatePart_frames
  show "writeOk P L DL C e d (ToSetSecret n ss) \<Longrightarrow>
      agree (calmRel e L DL) (runSql (sqlSetSecret e n ss) d) (SetSecret (sq_env e) n ss s)"
    using calls [of "CallSet n ss"] by (intro agree) simp
  show "writeOk P L DL C e d (ToUpdateSecret n v us) \<Longrightarrow>
      agree (calmRel e L DL) (runSql (sqlUpdateSecret e n v us) d) (UpdateSecret (sq_env e) n v us s)"
    using calls [of "CallUpdate n v us"] by (intro agree) simp
  show "writeOk P L DL C e d (ToDeleteSecret n) \<Longrightarrow>
      agree (calmRel e L DL) (runSql (sqlDeleteSecret e n) d) (DeleteSecret (sq_env e) n s)"
    using calls [of "CallDelete n"] by (intro agree) simp
  show "agree (calmRel e L DL) (runSql (sqlPurgeDeletedSecret e n) d) (PurgeDeletedSecret n s)"
    using calls [of "CallPurge n"] by (intro agree) simp
  show "writeOk P L DL C e d (ToRecoverDeletedSecret n) \<Longrightarrow>
      agree (calmRel e L DL) (runSql (sqlRecoverDeletedSecret e n) d) (RecoverDeletedSecret n s)"
    using calls [of "CallRecover n"] by (intro agree) simp
  show "writeOk P L DL C e d (ToRestoreSecret t) \<Longrightarrow>
      agree (calmRel e L DL) (runSql (sqlRestoreSecret e C t) d) (RestoreSecret C t s)"
    using calls [of "CallRestore t"] by (intro agree) simp
qed

lemma key_objects_agree:
  assumes "calmObjects e L DL d s"
  shows "objectOk P L DL e (OnCreateKey n ck) d \<Longrightarrow>
      agree (calmObjects e L DL) (runSql (sqlCreateKey e P L DL n ck) d) (CreateKey (sq_env e) P n ck s)"
    and "objectOk P L DL e (OnImportKey n ik) d \<Longrightarrow>
      agree (calmObjects e L DL) (runSql (sqlImportKey e L DL n ik) d) (ImportKey (sq_env e) n ik s)"
    and "objectOk P L DL e (OnUpdateKey n v uk) d \<Longrightarrow>
      agree (calmObjects e L DL) (runSql (sqlUpdateKey e L DL n v uk) d) (UpdateKey (sq_env e) n v uk s)"
    and "objectOk P L DL e (OnDeleteKey n) d \<Longrightarrow>
      agree (calmObjects e L DL) (runSql (sqlDeleteKey e L DL n) d) (DeleteKey (sq_env e) n s)"
    and "objectOk P L DL e (OnPurgeKey n) d \<Longrightarrow>
      agree (calmObjects e L DL) (runSql (sqlPurgeDeletedKey e n) d) (PurgeDeletedKey n s)"
    and "objectOk P L DL e (OnRecoverKey n) d \<Longrightarrow>
      agree (calmObjects e L DL) (runSql (sqlRecoverDeletedKey e L DL n) d) (RecoverDeletedKey n s)"
  using calmObjectsD(1) [OF assms]
    sqlObject_simulates [OF calmObjectsD(4,1) [OF assms], where P = P and c = "OnCreateKey n ck"]
    sqlObject_simulates [OF calmObjectsD(4,1) [OF assms], where P = P and c = "OnImportKey n ik"]
    sqlObject_simulates [OF calmObjectsD(4,1) [OF assms], where P = P and c = "OnUpdateKey n v uk"]
    sqlObject_simulates [OF calmObjectsD(4,1) [OF assms], where P = P and c = "OnDeleteKey n"]
    sqlObject_simulates [OF calmObjectsD(4,1) [OF assms], where P = P and c = "OnPurgeKey n"]
    sqlObject_simulates [OF calmObjectsD(4,1) [OF assms], where P = P and c = "OnRecoverKey n"]
  by (simp_all add: agree_def calmObjects_def del: objectOk.simps)

lemma certificate_objects_agree:
  assumes "calmObjects e L DL d s"
  shows "objectOk P L DL e (OnCreateCertificate n cc) d \<Longrightarrow>
      agree (calmObjects e L DL) (runSql (sqlCreateCertificate e P L DL n cc) d) (CreateCertificate (sq_env e) P L n cc s)"
    and "objectOk P L DL e (OnImportCertificate n ic) d \<Longrightarrow>
      agree (calmObjects e L DL) (runSql (sqlImportCertificate e L DL n ic) d) (ImportCertificate (sq_env e) L n ic s)"
    and "objectOk P L DL e (OnUpdateCertificate n v uc) d \<Longrightarrow>
      agree (calmObjects e L DL) (runSql (sqlUpdateCertificate e n v uc) d) (UpdateCertificate (sq_env e) n v uc s)"
    and "objectOk P L DL e (OnDeleteCertificate n) d \<Longrightarrow>
      agree (calmObjects e L DL) (runSql (sqlDeleteCertificate e n) d) (DeleteCertificate (sq_env e) n s)"
    and "objectOk P L DL e (OnPurgeCertificate n) d \<Longrightarrow>
      agree (calmObjects e L DL) (runSql (sqlPurgeDeletedCertificate e n) d) (PurgeDeletedCertificate n s)"
    and "objectOk P L DL e (OnRecoverCertificate n) d \<Longrightarrow>
      agree (calmObjects e L DL) (runSql (sqlRecoverDeletedCertificate e n) d) (RecoverDeletedCertificate n s)"
  using calmObjectsD(1) [OF assms]
    sqlObject_simulates [OF calmObjectsD(4,1) [OF assms], where P = P and c = "OnCreateCertificate n cc"]
    sqlObject_simulates [OF calmObjectsD(4,1) [OF assms], where P = P and c = "OnImportCertificate n ic"]
    sqlObject_simulates [OF calmObjectsD(4,1) [OF assms], where P = P and c = "OnUpdateCertificate n v uc"]
    sqlObject_simulates [OF calmObjectsD(4,1) [OF assms], where P = P and c = "OnDeleteCertificate n"]
    sqlObject_simulates [OF calmObjectsD(4,1) [OF assms], where P = P and c = "OnPurgeCertificate n"]
    sqlObject_simulates [OF calmObjectsD(4,1) [OF assms], where P = P and c = "OnRecoverCertificate n"]
  by (simp_all add: agree_def calmObjects_def del: objectOk.simps)

lemmas object_writes_agree = key_objects_agree certificate_objects_agree

lemma vault_objects_agree:
  assumes "calmRel e L DL d s"
  shows "objectOk P L DL e (OnCreateKey n ck) d \<Longrightarrow>
      agree (calmRel e L DL) (runSql (sqlCreateKey e P L DL n ck) d) (CreateKey (sq_env e) P n ck s)"
    and "objectOk P L DL e (OnImportKey n ik) d \<Longrightarrow>
      agree (calmRel e L DL) (runSql (sqlImportKey e L DL n ik) d) (ImportKey (sq_env e) n ik s)"
    and "objectOk P L DL e (OnUpdateKey n v uk) d \<Longrightarrow>
      agree (calmRel e L DL) (runSql (sqlUpdateKey e L DL n v uk) d) (UpdateKey (sq_env e) n v uk s)"
    and "objectOk P L DL e (OnDeleteKey n) d \<Longrightarrow>
      agree (calmRel e L DL) (runSql (sqlDeleteKey e L DL n) d) (DeleteKey (sq_env e) n s)"
    and "objectOk P L DL e (OnPurgeKey n) d \<Longrightarrow>
      agree (calmRel e L DL) (runSql (sqlPurgeDeletedKey e n) d) (PurgeDeletedKey n s)"
    and "objectOk P L DL e (OnRecoverKey n) d \<Longrightarrow>
      agree (calmRel e L DL) (runSql (sqlRecoverDeletedKey e L DL n) d) (RecoverDeletedKey n s)"
    and "objectOk P L DL e (OnUpdateCertificate n v uc) d \<Longrightarrow>
      agree (calmRel e L DL) (runSql (sqlUpdateCertificate e n v uc) d) (UpdateCertificate (sq_env e) n v uc s)"
    and "objectOk P L DL e (OnDeleteCertificate n) d \<Longrightarrow>
      agree (calmRel e L DL) (runSql (sqlDeleteCertificate e n) d) (DeleteCertificate (sq_env e) n s)"
    and "objectOk P L DL e (OnPurgeCertificate n) d \<Longrightarrow>
      agree (calmRel e L DL) (runSql (sqlPurgeDeletedCertificate e n) d) (PurgeDeletedCertificate n s)"
    and "objectOk P L DL e (OnRecoverCertificate n) d \<Longrightarrow>
      agree (calmRel e L DL) (runSql (sqlRecoverDeletedCertificate e n) d) (RecoverDeletedCertificate n s)"
  by (rule agree_object [OF assms]; rule key_frames certificate_frames secretPart_frames
      object_writes_agree [OF calmRel_objects [OF assms]]; assumption)+

lemma secret_reads_agree:
  assumes "calmRel e L DL d s"
  shows "readSql (sqlGetSecret e n v) d = GetSecret s n v" "readSql (sqlListSecrets e m t) d = ListSecrets s m t"
    "readSql (sqlListSecretVersions e n m t) d = ListSecretVersions s n m t"
    "readSql (sqlListDeletedSecrets e m t) d = ListDeletedSecrets s m t"
    "readSql (sqlGetDeletedSecret e n) d = GetDeletedSecret s n" "readSql (sqlBackupSecret e C n) d = BackupSecret C s n"
  using getSecretVersionRow_run [OF calmRelD(2,1), OF assms assms] sqlListSecrets_run [OF calmRelD(2,1), OF assms assms]
    sqlListSecretVersions_run [OF calmRelD(2,1), OF assms assms] sqlListDeletedSecrets_run [OF calmRelD(2,1), OF assms assms]
    sqlGetDeletedSecret_run [OF calmRelD(2,1), OF assms assms] sqlBackupSecret_run [OF calmRelD(2,1), OF assms assms]
  by (simp_all add: readSql_eq sqlGetSecret_def)

lemma object_reads_agree:
  assumes "calmObjects e L DL d s"
  shows "readSql (sqlGetKey e L DL n v) d = GetKey s n v" "readSql (sqlListKeys e L DL m t) d = ListKeys s m t"
    "readSql (sqlListKeyVersions e n m t) d = ListKeyVersions s n m t"
    "readSql (sqlListDeletedKeys e m t) d = ListDeletedKeys s m t" "readSql (sqlGetDeletedKey e n) d = GetDeletedKey s n"
    "readSql (sqlGetCertificate e n v) d = GetCertificate s n v"
    "readSql (sqlListCertificates e m t) d = ListCertificates s m t"
    "readSql (sqlListCertificateVersions e n m t) d = ListCertificateVersions s n m t"
    "readSql (sqlListDeletedCertificates e m t) d = ListDeletedCertificates s m t"
    "readSql (sqlGetDeletedCertificate e n) d = GetDeletedCertificate s n"
    "readSql (sqlGetCertificatePolicy e n) d = GetCertificatePolicy s n"
    "readSql (sqlGetPendingCertificateOperation e n) d = GetPendingCertificateOperation s n"
proof -
  note keys = sqlGetKey_run sqlListKeys_run sqlListKeyVersions_run sqlListDeletedKeys_run sqlGetDeletedKey_run
  note certs = sqlGetCertificate_run sqlListCertificates_run sqlListCertificateVersions_run
    sqlListDeletedCertificates_run sqlGetDeletedCertificate_run
  show "readSql (sqlGetKey e L DL n v) d = GetKey s n v"
    "readSql (sqlListKeys e L DL m t) d = ListKeys s m t"
    "readSql (sqlListKeyVersions e n m t) d = ListKeyVersions s n m t"
    "readSql (sqlListDeletedKeys e m t) d = ListDeletedKeys s m t"
    "readSql (sqlGetDeletedKey e n) d = GetDeletedKey s n"
    "readSql (sqlGetCertificate e n v) d = GetCertificate s n v"
    "readSql (sqlListCertificates e m t) d = ListCertificates s m t"
    "readSql (sqlListCertificateVersions e n m t) d = ListCertificateVersions s n m t"
    "readSql (sqlListDeletedCertificates e m t) d = ListDeletedCertificates s m t"
    "readSql (sqlGetDeletedCertificate e n) d = GetDeletedCertificate s n"
    "readSql (sqlGetCertificatePolicy e n) d = GetCertificatePolicy s n"
    "readSql (sqlGetPendingCertificateOperation e n) d = GetPendingCertificateOperation s n"
    using keys [OF calmObjectsD(2,1), OF assms assms] certs [OF calmObjectsD(3,1), OF assms assms] by (simp_all add: readSql_eq)
qed

lemma crypto_agrees:
  assumes "calmObjects e L DL d s"
  shows "readSql (sqlEncrypt e P L DL n v x) d = Encrypt P s n v x" "readSql (sqlDecrypt e P L DL n v x) d = Decrypt P s n v x"
    "readSql (sqlSign e P L DL n v g) d = Sign P s n v g" "readSql (sqlVerify e P L DL n v h) d = Verify P s n v h"
    "readSql (sqlWrapKey e P L DL n v x) d = WrapKey P s n v x" "readSql (sqlUnwrapKey e P L DL n v x) d = UnwrapKey P s n v x"
  using crypto_run [OF calmObjectsD(2,1), OF assms assms] by (simp_all add: readSql_eq)

lemmas vault_reads_agree = secret_reads_agree object_reads_agree [OF calmRel_objects] crypto_agrees [OF calmRel_objects]

interpretation sql_api: agreeing_storers "sqlStorer e P L DL C" "memStorer (sq_env e) P L C" "calmRel e L DL" "writeOk P L DL C e"
  for e P L DL C
  by (unfold_locales; simp only: sqlStorer_def memStorer_def Storer.simps;
      ((rule secret_writes_agree vault_reads_agree; assumption) |
       (rule vault_objects_agree [where P = P], assumption; simp) | simp))

text \<open>
  For requests that do not ask for secrets, certificates may be created and imported too.
\<close>

definition objectWriteOk ::
  "prims \<Rightarrow> x509lib \<Rightarrow> derlib \<Rightarrow> codec \<Rightarrow> sqlenv \<Rightarrow> SQLStore \<Rightarrow> storeWrite \<Rightarrow> bool" where
  "objectWriteOk P L DL C e d w =
     (case w of
        ToCreateCertificate n q \<Rightarrow> objectOk P L DL e (OnCreateCertificate n q) d
      | ToImportCertificate n q \<Rightarrow> objectOk P L DL e (OnImportCertificate n q) d
      | _ \<Rightarrow> writeOk P L DL C e d w)"

interpretation sql_objects: agreeing_objects "sqlStorer e P L DL C" "memStorer (sq_env e) P L C" "calmObjects e L DL"
    "objectWriteOk P L DL C e"
  for e P L DL C
  by (unfold_locales; simp only: sqlStorer_def memStorer_def Storer.simps objectWriteOk_def storeWrite.case;
      ((rule object_reads_agree crypto_agrees; assumption) |
       (rule object_writes_agree [where P = P], assumption; simp) | simp))

section \<open>Sequences of requests\<close>

definition sqlRequests ::
  "prims \<Rightarrow> x509lib \<Rightarrow> derlib \<Rightarrow> codec \<Rightarrow> decoders \<Rightarrow> (sqlenv \<times> Request) list \<Rightarrow> SQLStore \<Rightarrow> reply list \<times> SQLStore" where
  "sqlRequests P L DL C D = runCalls (\<lambda>c. serveRest (sqlStorer (fst c) P L DL C) D (snd c))"

definition memoryRequests ::
  "prims \<Rightarrow> x509lib \<Rightarrow> codec \<Rightarrow> decoders \<Rightarrow> (sqlenv \<times> Request) list \<Rightarrow> Store \<Rightarrow> reply list \<times> Store" where
  "memoryRequests P L C D = runCalls (\<lambda>c. serveRest (memStorer (sq_env (fst c)) P L C) D (snd c))"

definition requestsOk ::
  "prims \<Rightarrow> x509lib \<Rightarrow> derlib \<Rightarrow> codec \<Rightarrow> decoders \<Rightarrow> (sqlenv \<times> Request) list \<Rightarrow> SQLStore \<Rightarrow> bool" where
  "requestsOk P L DL C D =
     allCalls (\<lambda>c d. allows (writeOk P L DL C (fst c) d) (writeOf D (snd c)))
       (\<lambda>c. serveRest (sqlStorer (fst c) P L DL C) D (snd c))"

definition objectRequestsOk ::
  "prims \<Rightarrow> x509lib \<Rightarrow> derlib \<Rightarrow> codec \<Rightarrow> decoders \<Rightarrow> (sqlenv \<times> Request) list \<Rightarrow> SQLStore \<Rightarrow> bool" where
  "objectRequestsOk P L DL C D =
     allCalls (\<lambda>c d. objectRequest (snd c) \<and> allows (objectWriteOk P L DL C (fst c) d) (writeOf D (snd c)))
       (\<lambda>c. serveRest (sqlStorer (fst c) P L DL C) D (snd c))"

lemma request_agrees:
  assumes "vaultRel L DL d s" "calmSql e" "allows (writeOk P L DL C e d) (writeOf D r)"
  shows "fst (serveRest (sqlStorer e P L DL C) D r d) = fst (serveRest (memStorer (sq_env e) P L C) D r s) \<and>
    vaultRel L DL (snd (serveRest (sqlStorer e P L DL C) D r d)) (snd (serveRest (memStorer (sq_env e) P L C) D r s))"
  using sql_api.rest_agrees [of e L DL d s P C D r] assms by (simp add: agree_def calmRel_def)

lemma object_request_agrees:
  assumes "objectsRel L DL d s" "calmSql e" "objectRequest r" "allows (objectWriteOk P L DL C e d) (writeOf D r)"
  shows "fst (serveRest (sqlStorer e P L DL C) D r d) = fst (serveRest (memStorer (sq_env e) P L C) D r s) \<and>
    objectsRel L DL (snd (serveRest (sqlStorer e P L DL C) D r d)) (snd (serveRest (memStorer (sq_env e) P L C) D r s))"
  using sql_objects.object_rest_agrees [of e L DL d s r P C D] assms by (simp add: agree_def calmObjects_def)

lemma sqlRequests_simulate:
  assumes "\<forall>c \<in> set rs. calmSql (fst c)" "requestsOk P L DL C D rs d" "vaultRel L DL d s"
  shows "fst (sqlRequests P L DL C D rs d) = fst (memoryRequests P L C D rs s)"
  unfolding sqlRequests_def memoryRequests_def
  by (rule conjunct1 [OF runCalls_simulate [where R = "vaultRel L DL" and
        ok = "\<lambda>c d. allows (writeOk P L DL C (fst c) d) (writeOf D (snd c))"]])
    (use assms request_agrees in \<open>simp_all add: requestsOk_def\<close>)

lemma sqlObjectRequests_simulate:
  assumes "\<forall>c \<in> set rs. calmSql (fst c)" "objectRequestsOk P L DL C D rs d" "objectsRel L DL d s"
  shows "fst (sqlRequests P L DL C D rs d) = fst (memoryRequests P L C D rs s)"
  unfolding sqlRequests_def memoryRequests_def
  by (rule conjunct1 [OF runCalls_simulate [where R = "objectsRel L DL" and
        ok = "\<lambda>c d. objectRequest (snd c) \<and> allows (objectWriteOk P L DL C (fst c) d) (writeOf D (snd c))"]])
    (use assms object_request_agrees in \<open>simp_all add: objectRequestsOk_def\<close>)

lemma dispatch_certificate:
  assumes "apiRequest m [''certificates'', n] r" "m = ''GET'' \<or> m = ''DELETE''"
  shows "findHandler restRoutes r = Handle CertificateRoutes []"
  using assms(2) apiRequest_segs [OF assms(1)]
  by (elim disjE) (simp_all add: findHandler_def matching_simps exactMatch_def)

lemma dispatch_create_certificate:
  assumes "apiRequest ''POST'' [''certificates'', n, ''create''] r"
  shows "findHandler restRoutes r = Handle CertificateRoutes []"
  using apiRequest_segs [OF assms] by (simp add: findHandler_def matching_simps exactMatch_def)

definition sampleRequests :: "(sqlenv \<times> Request) list" where
  "sampleRequests =
     [(sampleSqlEnv sampleEnv 1, sampleRequest ''PUT'' ''/secrets/a''),
      (sampleSqlEnv sampleEnv 2, sampleRequest ''GET'' ''/secrets/a''),
      (sampleSqlEnv sampleEnv 2, sampleRequest ''GET'' ''/secrets''),
      (sampleSqlEnv sampleEnv2 3, sampleRequest ''DELETE'' ''/secrets/a''),
      (sampleSqlEnv sampleEnv2 4, sampleRequest ''GET'' ''/secrets/a'')]"

definition sampleCertRequests :: "(sqlenv \<times> Request) list" where
  "sampleCertRequests =
     [(sampleSqlEnv sampleEnv 1, sampleRequest ''POST'' ''/certificates/c/create''),
      (sampleSqlEnv sampleEnv 2, sampleRequest ''GET'' ''/certificates/c''),
      (sampleSqlEnv sampleEnv 2, sampleRequest ''GET'' ''/keys/c''),
      (sampleSqlEnv sampleEnv2 3, sampleRequest ''DELETE'' ''/certificates/c'')]"

lemma sample_writes:
  "writeOf sampleDecoders (sampleRequest ''PUT'' ''/secrets/a'') = Some (ToSetSecret ''a'' sampleSecret)"
  "writeOf sampleDecoders (sampleRequest ''GET'' ''/secrets/a'') = None"
  "writeOf sampleDecoders (sampleRequest ''GET'' ''/secrets'') = None"
  "writeOf sampleDecoders (sampleRequest ''DELETE'' ''/secrets/a'') = Some (ToDeleteSecret ''a'')"
  by (simp_all add: writeOf_def serve_PUT_secret [OF sample_api(1)] serve_GET_secret [OF sample_api(2)]
      serve_DELETE_secret [OF sample_api(3)] serve_list_secrets [OF sample_api(5)] recorder_def withBody_def parseBody_def
      sampleDecoders_def)

lemma sample_object_api:
  "apiRequest ''POST'' [''certificates'', ''c'', ''create''] (sampleRequest ''POST'' ''/certificates/c/create'')"
  "apiRequest ''GET'' [''certificates'', ''c''] (sampleRequest ''GET'' ''/certificates/c'')"
  "apiRequest ''DELETE'' [''certificates'', ''c''] (sampleRequest ''DELETE'' ''/certificates/c'')"
  "apiRequest ''GET'' [''keys'', ''c''] (sampleRequest ''GET'' ''/keys/c'')"
  by (simp_all add: apiRequest_def plainSeg_def unreserved_def Let_def)

lemmas sample_dispatch = dispatch_create_certificate [OF sample_object_api(1)] dispatch_certificate [OF sample_object_api(2)]
  dispatch_certificate [OF sample_object_api(3)] dispatch_key [OF sample_object_api(4)]

lemma sample_object_writes:
  "writeOf sampleDecoders (sampleRequest ''POST'' ''/certificates/c/create'') =
     Some (ToCreateCertificate ''c'' sampleCertRequest)"
  "writeOf sampleDecoders (sampleRequest ''GET'' ''/certificates/c'') = None"
  "writeOf sampleDecoders (sampleRequest ''DELETE'' ''/certificates/c'') = Some (ToDeleteCertificate ''c'')"
  "writeOf sampleDecoders (sampleRequest ''GET'' ''/keys/c'') = None"
  using splitPath_request [OF sample_object_api(1)] splitPath_request [OF sample_object_api(2)]
    splitPath_request [OF sample_object_api(3)] splitPath_request [OF sample_object_api(4)]
  by (simp_all add: writeOf_def serveRest_def sample_dispatch runRoute_def handleCertificateRoutes_def
      handleCertificateGet_def handleKeyRoutes_def handleKeyGet_def recorder_def withBody_def parseBody_def sampleDecoders_def)

lemma sampleSecret_text:
  "text_ok (ss_Value sampleSecret)" "text_ok (ss_ContentType sampleSecret)" "tags_text (ss_Tags sampleSecret)"
proof -
  have "text_ok ''hunter2''" "text_ok ''text/plain''" "text_ok ''env''" "text_ok ''dev''"
    by (rule text_ok_ascii; simp)+
  then show "text_ok (ss_Value sampleSecret)" "text_ok (ss_ContentType sampleSecret)" "tags_text (ss_Tags sampleSecret)"
    by (simp_all add: sampleSecret_def tags_text_def textTags_def text_ok_def)
qed

lemma sampleRequests_ok:
  "\<forall>c \<in> set sampleRequests. calmSql (fst c)"
  "requestsOk samplePrims sampleLib sampleDer sampleCodec sampleDecoders sampleRequests NewSQLStore"
  using sampleSecret_text
  by (simp_all add: sampleRequests_def sampleSqlEnv_calm requestsOk_def sample_writes sampleVersions freshRow_def
      NewSQLStore_def del: hexEncode.simps)

lemma sampleCertRequests_ok:
  "\<forall>c \<in> set sampleCertRequests. calmSql (fst c)"
  "objectRequestsOk samplePrims sampleLib sampleDer sampleCodec sampleDecoders sampleCertRequests NewSQLStore"
  using sample_certificate_ok
  by (simp_all add: sampleCertRequests_def sampleSqlEnv_calm objectRequestsOk_def objectRequest_def sample_dispatch
      objectRoute_def sample_object_writes objectWriteOk_def sampleVersions del: hexEncode.simps objectOk.simps(18))



end
