(* ===== verification/KV_Sql_Text.thy ===== *)
theory KV_Sql_Text
  imports KV_Sql_Base
begin

text \<open>
  The text of the statements of \<open>src/internal/store/sqlstore/sqlstore.go\<close> as far as it depends on the
  database: placeholders, the limit to one row, the column types, and the tables that \<open>migrate\<close>
  creates.
\<close>

datatype DBFlavor = FlavorSQLite | FlavorPostgres | FlavorMSSQL

definition ph :: "DBFlavor \<Rightarrow> nat \<Rightarrow> string" where
  "ph f n = (case f of FlavorPostgres \<Rightarrow> ''$'' @ itoa n | FlavorMSSQL \<Rightarrow> ''@p'' @ itoa n | _ \<Rightarrow> ''?'')"

definition joinStrings :: "string \<Rightarrow> string list \<Rightarrow> string" where
  "joinStrings sep parts = (case parts of [] \<Rightarrow> [] | p # ps \<Rightarrow> p @ concat (map (\<lambda>q. sep @ q) ps))"

definition phs :: "DBFlavor \<Rightarrow> nat \<Rightarrow> nat \<Rightarrow> string" where
  "phs f start count = joinStrings '', '' (map (\<lambda>i. ph f (start + i)) [0..<count])"

definition limitOne :: "DBFlavor \<Rightarrow> string" where
  "limitOne f = (if f = FlavorMSSQL then ''OFFSET 0 ROWS FETCH NEXT 1 ROWS ONLY'' else ''LIMIT 1'')"

definition textType :: "DBFlavor \<Rightarrow> string" where
  "textType f = (if f = FlavorMSSQL then ''NVARCHAR(MAX)'' else ''TEXT'')"

definition keyType :: "DBFlavor \<Rightarrow> string" where
  "keyType f = (if f = FlavorMSSQL then ''NVARCHAR(450)'' else ''TEXT'')"

definition sqlQuote :: string where
  "sqlQuote = [char_of (39 :: nat)]"

definition createTable :: "DBFlavor \<Rightarrow> string \<Rightarrow> string \<Rightarrow> string" where
  "createTable f name body =
     (if f = FlavorMSSQL
      then ''IF OBJECT_ID(N'' @ sqlQuote @ name @ sqlQuote @ '', N'' @ sqlQuote @ ''U'' @ sqlQuote @
             '') IS NULL BEGIN CREATE TABLE '' @ name @ '' ('' @ body @ '') END''
      else ''CREATE TABLE IF NOT EXISTS '' @ name @ '' ('' @ body @ '')'')"

definition newLine :: string where
  "newLine = map char_of [10, 9, 9, 9 :: nat]"

text \<open>The statements of \<open>migrate\<close>, in order.\<close>

definition migrateStatements :: "DBFlavor \<Rightarrow> string list" where
  "migrateStatements f =
     (let kt = keyType f; tt = textType f
      in [
        createTable f ''kv_secrets''
          (''name '' @ kt @ '' NOT NULL, version '' @ kt @ '' NOT NULL, value '' @ tt @
           '' NOT NULL,'' @ newLine @ ''content_type '' @ tt @ '' NOT NULL, attributes '' @ tt @
           '' NOT NULL, tags '' @ tt @ '' NOT NULL,'' @ newLine @
           ''created_at BIGINT NOT NULL, PRIMARY KEY (name, version)''),
        createTable f ''kv_deleted_secrets''
          (''name '' @ kt @ '' NOT NULL PRIMARY KEY, recovery_id '' @ kt @ '' NOT NULL,'' @
           newLine @
           ''deleted_date BIGINT NOT NULL, scheduled_purge_date BIGINT NOT NULL, versions '' @ tt @
           '' NOT NULL''),
        createTable f ''kv_keys''
          (''name '' @ kt @ '' NOT NULL, version '' @ kt @ '' NOT NULL, jwk '' @ tt @
           '' NOT NULL,'' @ newLine @ ''key_material '' @ tt @ '' NOT NULL, attributes '' @ tt @
           '' NOT NULL, tags '' @ tt @ '' NOT NULL,'' @ newLine @
           ''created_at BIGINT NOT NULL, PRIMARY KEY (name, version)''),
        createTable f ''kv_deleted_keys''
          (''name '' @ kt @ '' NOT NULL PRIMARY KEY, recovery_id '' @ kt @ '' NOT NULL,'' @
           newLine @
           ''deleted_date BIGINT NOT NULL, scheduled_purge_date BIGINT NOT NULL, versions '' @ tt @
           '' NOT NULL''),
        createTable f ''kv_certificates''
          (''name '' @ kt @ '' NOT NULL, version '' @ kt @ '' NOT NULL, cer '' @ tt @
           '' NOT NULL,'' @ newLine @ ''kid '' @ tt @ '' NOT NULL, sid '' @ tt @
           '' NOT NULL, pem_data '' @ tt @ '' NOT NULL,'' @ newLine @ ''attributes '' @ tt @
           '' NOT NULL, tags '' @ tt @ '' NOT NULL, policy '' @ tt @ '' NULL,'' @ newLine @
           ''created_at BIGINT NOT NULL, PRIMARY KEY (name, version)''),
        createTable f ''kv_deleted_certificates''
          (''name '' @ kt @ '' NOT NULL PRIMARY KEY, recovery_id '' @ kt @ '' NOT NULL,'' @
           newLine @
           ''deleted_date BIGINT NOT NULL, scheduled_purge_date BIGINT NOT NULL, versions '' @ tt @
           '' NOT NULL'')])"

section \<open>Placeholders\<close>

lemma itoa_inject: "itoa (int i) = itoa (int j) \<longleftrightarrow> i = j"
proof -
  have "itoa (int k) = itoa_nat k" for k
    by (simp add: itoa_def)
  then show ?thesis
    by (metis digits_val_itoa_nat option.inject)
qed

lemma ph_distinct:
  assumes "f \<noteq> FlavorSQLite" "i \<noteq> j"
  shows "ph f i \<noteq> ph f j"
  using assms by (cases f) (simp_all add: ph_def itoa_inject)

lemma migrateStatements_length: "length (migrateStatements f) = 6"
  by (simp add: migrateStatements_def Let_def)

end
