(* ===== verification/KV_Main.thy ===== *)
theory KV_Main
  imports KV_Sql_Text KV_Rest_Keys
begin

text \<open>
  The start of the process: \<open>src/main.go\<close>, \<open>Open\<close> of \<open>src/internal/auth/auth.go\<close> and \<open>RunWithAuth\<close> of
  \<open>src/internal/server/server.go\<close>. What the process does to the outside is a list of events: handles
  opened and closed, statements executed, and \<open>log.Fatal\<close>, which ends the process at once without
  running the deferred functions.
\<close>

section \<open>The outside\<close>

datatype handle = StoreDB | AuthDB | HttpsListener | HttpListener

datatype event = Opened handle | Closed handle | Executed handle string | Fatal goerr

text \<open>
  The environment variables (\<open>[]\<close> if unset), the outcome of the calls of database/sql, crypto/tls and
  net, and the results of the two \<open>Serve\<close> in the order in which they arrive on the channel. A \<open>Serve\<close>
  that returns has closed its listener.
\<close>

record startlib =
  sl_Getenv :: "string \<Rightarrow> string"
  sl_Open :: "handle \<Rightarrow> string \<Rightarrow> string \<Rightarrow> goerr option"
  sl_Ping :: "handle \<Rightarrow> goerr option"
  sl_Exec :: "handle \<Rightarrow> string \<Rightarrow> goerr option"
  sl_GenerateTLS :: "goerr option"
  sl_TlsListen :: "string \<Rightarrow> goerr option"
  sl_NetListen :: "string \<Rightarrow> goerr option"
  sl_Served :: "(handle \<times> goerr) list"

definition errServerClosed :: goerr where
  "errServerClosed = PlainErr ''http: Server closed''"

section \<open>Environment\<close>

text \<open>
  The two variables that are compared in lower case go through \<open>toLower\<close>, which is exact where its
  result is compared with an ASCII word.
\<close>

definition envOrDefault :: "startlib \<Rightarrow> string \<Rightarrow> string \<Rightarrow> string" where
  "envOrDefault L key fallback =
     (let v = trimSpace (sl_Getenv L key) in if v \<noteq> [] then v else fallback)"

definition requiredEnv :: "startlib \<Rightarrow> string \<Rightarrow> string res" where
  "requiredEnv L key =
     (let v = trimSpace (sl_Getenv L key)
      in if v = [] then Inl (PlainErr (key @ '' is required'')) else Inr v)"

section \<open>Opening the databases\<close>

text \<open>The loop of a \<open>migrate\<close>: up to the first statement that fails.\<close>

primrec execAll :: "startlib \<Rightarrow> handle \<Rightarrow> string list \<Rightarrow> event list \<times> goerr option" where
  "execAll L h [] = ([], None)"
| "execAll L h (q # qs) =
     (case sl_Exec L h q of
        Some err \<Rightarrow> ([Executed h q], Some err)
      | None \<Rightarrow> (let (t, r) = execAll L h qs in (Executed h q # t, r)))"

definition migrate :: "startlib \<Rightarrow> DBFlavor \<Rightarrow> event list \<times> goerr option" where
  "migrate L flavor = execAll L StoreDB (migrateStatements flavor)"

datatype Backend = MemoryBackend | SQLBackend DBFlavor

definition openSQLStore :: "startlib \<Rightarrow> string \<Rightarrow> string \<Rightarrow> DBFlavor \<Rightarrow> event list \<times> Backend res" where
  "openSQLStore L driverName dsn flavor =
     (case sl_Open L StoreDB driverName dsn of
        Some err \<Rightarrow> ([], Inl err)
      | None \<Rightarrow>
          (case sl_Ping L StoreDB of
             Some err \<Rightarrow> ([Opened StoreDB, Closed StoreDB], Inl err)
           | None \<Rightarrow>
               (case migrate L flavor of
                  (t, Some err) \<Rightarrow> (Opened StoreDB # t @ [Closed StoreDB], Inl err)
                | (t, None) \<Rightarrow> (Opened StoreDB # t, Inr (SQLBackend flavor)))))"

definition openStore :: "startlib \<Rightarrow> event list \<times> Backend res" where
  "openStore L =
     (let backend = toLower (trimSpace (sl_Getenv L ''STORE_BACKEND''))
      in if backend = [] \<or> backend = ''memory'' then ([], Inr MemoryBackend)
         else if backend = ''sqlite''
         then openSQLStore L ''sqlite'' (envOrDefault L ''STORE_DSN'' ''keyvault.db'') FlavorSQLite
         else if backend = ''postgres'' \<or> backend = ''postgresql''
         then (case requiredEnv L ''STORE_DSN'' of
                 Inl err \<Rightarrow> ([], Inl err)
               | Inr dsn \<Rightarrow> openSQLStore L ''postgres'' dsn FlavorPostgres)
         else if backend = ''mssql'' \<or> backend = ''sqlserver''
         then (case requiredEnv L ''STORE_DSN'' of
                 Inl err \<Rightarrow> ([], Inl err)
               | Inr dsn \<Rightarrow> openSQLStore L ''sqlserver'' dsn FlavorMSSQL)
         else ([], Inl (PlainErr (''unsupported STORE_BACKEND '' @ quote backend))))"

definition indentLine :: "nat \<Rightarrow> string" where
  "indentLine n = char_of (10 :: nat) # replicate n (char_of (9 :: nat))"

definition authStatements :: "string list" where
  "authStatements =
     [''CREATE TABLE IF NOT EXISTS users ('' @ indentLine 3 @ ''id TEXT PRIMARY KEY,'' @ indentLine 3 @
      ''username TEXT NOT NULL UNIQUE,'' @ indentLine 3 @ ''password_hash TEXT NOT NULL,'' @ indentLine 3 @
      ''role TEXT NOT NULL,'' @ indentLine 3 @ ''created_at INTEGER NOT NULL'' @ indentLine 2 @ '')'',
      ''CREATE UNIQUE INDEX IF NOT EXISTS users_single_admin ON users(role) WHERE role = '' @ sqlQuote @ ''admin'' @ sqlQuote,
      ''CREATE TABLE IF NOT EXISTS config ('' @ indentLine 3 @ ''key TEXT PRIMARY KEY,'' @ indentLine 3 @
      ''value TEXT NOT NULL'' @ indentLine 2 @ '')'']"

definition authMigrate :: "startlib \<Rightarrow> event list \<times> goerr option" where
  "authMigrate L =
     (case execAll L AuthDB authStatements of
        (t, Some err) \<Rightarrow> (t, Some err)
      | (t, None) \<Rightarrow> (t, sl_Ping L AuthDB))"

definition authOpen :: "startlib \<Rightarrow> string \<Rightarrow> event list \<times> unit res" where
  "authOpen L path =
     (if path = [] then ([], Inl (PlainErr ''path is required''))
      else case sl_Open L AuthDB ''sqlite'' path of
        Some err \<Rightarrow> ([], Inl err)
      | None \<Rightarrow>
          (case authMigrate L of
             (t, Some err) \<Rightarrow> (Opened AuthDB # t @ [Closed AuthDB], Inl err)
           | (t, None) \<Rightarrow> (Opened AuthDB # t, Inr ())))"

definition openAuthService :: "startlib \<Rightarrow> event list \<times> unit res" where
  "openAuthService L =
     (let path = envOrDefault L ''AUTH_DB'' ''keyvault-auth.db''
      in case authOpen L path of
           (t, Inl err) \<Rightarrow> (t, Inl (PlainErr (''open auth db '' @ quote path @ '': '' @ err_msg err)))
         | (t, Inr ()) \<Rightarrow> (t, Inr ()))"

section \<open>Serving\<close>

text \<open>The loop that receives from the two servers.\<close>

fun receive :: "(handle \<times> goerr) list \<Rightarrow> event list \<times> goerr option" where
  "receive [] = ([], None)"
| "receive ((h, err) # rest) =
     (if err \<noteq> errServerClosed then ([Closed h], Some err)
      else (let (t, r) = receive rest in (Closed h # t, r)))"

definition RunWithAuth :: "startlib \<Rightarrow> event list \<times> goerr option" where
  "RunWithAuth L =
     (let httpPort = envOrDefault L ''PORT'' ''8080''; httpsPort = envOrDefault L ''HTTPS_PORT'' ''8443''
      in case sl_GenerateTLS L of
           Some err \<Rightarrow> ([], Some err)
         | None \<Rightarrow>
             (case sl_TlsListen L ('':'' @ httpsPort) of
                Some err \<Rightarrow> ([], Some err)
              | None \<Rightarrow>
                  (case sl_NetListen L ('':'' @ httpPort) of
                     Some err \<Rightarrow> ([Opened HttpsListener, Closed HttpsListener], Some err)
                   | None \<Rightarrow>
                       (let (t, r) = receive (sl_Served L)
                        in (Opened HttpsListener # Opened HttpListener # t, r)))))"

section \<open>The process\<close>

text \<open>\<open>Close\<close> of the store: nothing to close in memory.\<close>

definition closeStore :: "Backend \<Rightarrow> event list" where
  "closeStore b = (case b of MemoryBackend \<Rightarrow> [] | SQLBackend _ \<Rightarrow> [Closed StoreDB])"

definition enableUI :: "startlib \<Rightarrow> bool" where
  "enableUI L \<longleftrightarrow> toLower (trimSpace (sl_Getenv L ''ENABLE_UI'')) \<noteq> ''false''"

definition mainProcess :: "startlib \<Rightarrow> event list" where
  "mainProcess L =
     (case openStore L of
        (t, Inl err) \<Rightarrow> t @ [Fatal err]
      | (t, Inr s) \<Rightarrow>
          if enableUI L then
            (case openAuthService L of
               (t2, Inl err) \<Rightarrow> t @ t2 @ [Fatal err]
             | (t2, Inr _) \<Rightarrow>
                 (case RunWithAuth L of
                    (t3, Some err) \<Rightarrow> t @ t2 @ t3 @ [Fatal err]
                  | (t3, None) \<Rightarrow> t @ t2 @ t3 @ [Closed AuthDB] @ closeStore s))
          else
            (case RunWithAuth L of
               (t3, Some err) \<Rightarrow> t @ t3 @ [Fatal err]
             | (t3, None) \<Rightarrow> t @ t3 @ closeStore s))"

end
