(* ===== verification/KV_Main_Theorems.thy ===== *)
theory KV_Main_Theorems
  imports KV_Main
begin

text \<open>
  The start and the end of the process: what it opens it closes, except when it ends with
  \<open>log.Fatal\<close>; and a store that is open has its tables.
\<close>

definition opens :: "handle \<Rightarrow> event list \<Rightarrow> nat" where
  "opens h t = length (filter (\<lambda>ev. ev = Opened h) t)"

definition closes :: "handle \<Rightarrow> event list \<Rightarrow> nat" where
  "closes h t = length (filter (\<lambda>ev. ev = Closed h) t)"

definition fatal :: "event list \<Rightarrow> bool" where
  "fatal t \<longleftrightarrow> list_ex (\<lambda>ev. case ev of Fatal _ \<Rightarrow> True | _ \<Rightarrow> False) t"

named_theorems trace \<open>counting the events of a trace\<close>

lemma trace_simps [trace]:
  "opens h [] = 0" "closes h [] = 0" "fatal [] = False"
  "opens h (ev # t) = (if ev = Opened h then 1 else 0) + opens h t"
  "closes h (ev # t) = (if ev = Closed h then 1 else 0) + closes h t"
  "fatal (ev # t) = ((case ev of Fatal _ \<Rightarrow> True | _ \<Rightarrow> False) \<or> fatal t)"
  "opens h (t @ u) = opens h t + opens h u" "closes h (t @ u) = closes h t + closes h u"
  "fatal (t @ u) \<longleftrightarrow> fatal t \<or> fatal u"
  by (simp_all add: opens_def closes_def fatal_def)

lemma execAll_trace:
  assumes "execAll L x qs = (t, r)"
  shows "opens h t = 0 \<and> closes h t = 0 \<and> \<not> fatal t \<and> (r = None \<longrightarrow> t = map (Executed x) qs)"
  using assms
proof (induction qs arbitrary: t)
  case (Cons q qs)
  then show ?case
    by (cases "sl_Exec L x q"; cases "execAll L x qs") (auto simp: trace)
qed (simp add: trace)

lemma openSQLStore_trace:
  assumes "openSQLStore L dn dsn f = (t, r)"
  shows "\<not> fatal t" "r = Inl err \<Longrightarrow> opens h t = closes h t"
    "r = Inr b \<Longrightarrow> b = SQLBackend f \<and> t = Opened StoreDB # map (Executed StoreDB) (migrateStatements f)"
  using assms execAll_trace [of L StoreDB "migrateStatements f"]
  by (auto simp: openSQLStore_def migrate_def trace split: option.split_asm prod.split_asm)

lemma openStore_cases:
  assumes "openStore L = (t, r)"
  shows "(t = [] \<and> (r = Inr MemoryBackend \<and> toLower (trimSpace (sl_Getenv L ''STORE_BACKEND'')) \<in> {[], ''memory''} \<or>
      (\<exists>err. r = Inl err))) \<or>
    (\<exists>dn dsn f. openSQLStore L dn dsn f = (t, r) \<and> dsn \<noteq> [] \<and>
      (f \<noteq> FlavorSQLite \<longrightarrow> dsn = trimSpace (sl_Getenv L ''STORE_DSN'')))"
proof -
  have env: "envOrDefault L ''STORE_DSN'' ''keyvault.db'' \<noteq> []"
    by (simp add: envOrDefault_def Let_def)
  let ?b = "toLower (trimSpace (sl_Getenv L ''STORE_BACKEND''))"
  consider (memory) "?b = [] \<or> ?b = ''memory''" | (sqlite) "\<not> (?b = [] \<or> ?b = ''memory'')" "?b = ''sqlite''"
    | (other) "\<not> (?b = [] \<or> ?b = ''memory'')" "?b \<noteq> ''sqlite''"
    by blast
  then show ?thesis
  proof cases
    case memory
    then show ?thesis
      using assms memory unfolding openStore_def Let_def if_P [OF memory] by blast
  next
    case sqlite
    then show ?thesis
      using assms env unfolding openStore_def Let_def if_not_P [OF sqlite(1)] if_P [OF sqlite(2)] by blast
  next
    case other
    then show ?thesis
      using assms unfolding openStore_def Let_def if_not_P [OF other(1)] if_not_P [OF other(2)]
      by (auto simp: requiredEnv_def Let_def split: if_split_asm)
  qed
qed

lemma trace_map [trace]: "opens h (map (Executed x) qs) = 0" "closes h (map (Executed x) qs) = 0" "\<not> fatal (map (Executed x) qs)"
  by (induction qs) (simp_all add: trace)

lemma openStore_Inr:
  assumes "openStore L = (t, Inr b)"
  shows "(b = MemoryBackend \<and> t = []) \<or> (\<exists>f. b = SQLBackend f \<and>
    t = Opened StoreDB # map (Executed StoreDB) (migrateStatements f) \<and>
    (f \<noteq> FlavorSQLite \<longrightarrow> trimSpace (sl_Getenv L ''STORE_DSN'') \<noteq> []))"
  using openStore_cases [OF assms] openSQLStore_trace(3) by blast

lemma openStore_trace:
  assumes "openStore L = (t, r)"
  shows "\<not> fatal t" "r = Inl err \<Longrightarrow> opens h t = closes h t"
    "r = Inr b \<Longrightarrow> opens h t = closes h t + closes h (closeStore b)" "r = Inr b \<Longrightarrow> closes h t = 0"
proof -
  show "\<not> fatal t"
    using openStore_cases [OF assms] openSQLStore_trace(1) by (auto simp: trace)
  show "r = Inl err \<Longrightarrow> opens h t = closes h t"
    using openStore_cases [OF assms] openSQLStore_trace(2) by (auto simp: trace)
  show "r = Inr b \<Longrightarrow> opens h t = closes h t + closes h (closeStore b)" "r = Inr b \<Longrightarrow> closes h t = 0"
    using openStore_Inr [of L t b] assms by (auto simp: trace closeStore_def)
qed

lemma authOpen_trace:
  assumes "openAuthService L = (t, r)"
  shows "\<not> fatal t" "r = Inl err \<Longrightarrow> opens h t = closes h t" "r = Inr u \<Longrightarrow> opens h t = (if h = AuthDB then 1 else 0) \<and> closes h t = 0"
    "opens StoreDB t = 0" "closes StoreDB t = 0"
  using assms execAll_trace [of L AuthDB authStatements]
  by (auto simp: openAuthService_def authOpen_def authMigrate_def trace Let_def
      split: option.split_asm prod.split_asm if_split_asm unit.split_asm sum.split_asm)

text \<open>Both servers return, each with the listener that it was given.\<close>

definition servedOnce :: "startlib \<Rightarrow> bool" where
  "servedOnce L \<longleftrightarrow> map fst (sl_Served L) = [HttpListener, HttpsListener] \<or> map fst (sl_Served L) = [HttpsListener, HttpListener]"

lemma receive_trace:
  "receive xs = (t, r) \<Longrightarrow> \<not> fatal t \<and> opens h t = 0 \<and> closes h t \<le> length (filter (\<lambda>x. fst x = h) xs) \<and>
     (r = None \<longrightarrow> closes h t = length (filter (\<lambda>x. fst x = h) xs))"
proof (induction xs arbitrary: t r)
  case (Cons x xs)
  obtain y err where x: "x = (y, err)"
    by (cases x)
  obtain t' r' where rec: "receive xs = (t', r')"
    by fastforce
  show ?case
    using Cons.prems Cons.IH [OF rec] by (auto simp: x rec trace split: if_split_asm)
qed (simp add: trace)

lemma RunWithAuth_trace:
  assumes "RunWithAuth L = (t, r)" "servedOnce L"
  shows "\<not> fatal t" "r = None \<Longrightarrow> opens h t = closes h t" "opens StoreDB t = 0" "closes StoreDB t = 0"
proof -
  obtain u s where rec: "receive (sl_Served L) = (u, s)"
    by fastforce
  have "length (filter (\<lambda>x. fst x = h) (sl_Served L)) = length (filter (\<lambda>y. y = h) (map fst (sl_Served L)))" for h
    by (simp add: filter_map comp_def)
  then have n: "length (filter (\<lambda>x. fst x = h) (sl_Served L)) = (if h = HttpListener \<or> h = HttpsListener then 1 else 0)" for h
    using assms(2) by (auto simp: servedOnce_def)
  note tr = receive_trace [OF rec]
  show "\<not> fatal t" "r = None \<Longrightarrow> opens h t = closes h t" "opens StoreDB t = 0" "closes StoreDB t = 0"
    using assms(1) tr [of h] tr [of StoreDB] n [of h] n [of StoreDB] rec
    by (auto simp: RunWithAuth_def Let_def trace split: option.split_asm if_split_asm)
qed

lemma mainProcess_trace:
  assumes "openStore L = (t, Inr s)" "servedOnce L"
  shows "\<not> fatal (mainProcess L) \<Longrightarrow> opens h (mainProcess L) = closes h (mainProcess L)"
    "fatal (mainProcess L) \<Longrightarrow> opens StoreDB (mainProcess L) = opens StoreDB t \<and> closes StoreDB (mainProcess L) = 0"
proof -
  note store = openStore_trace [OF assms(1)]
  obtain t2 r2 t3 r3 where run: "openAuthService L = (t2, r2)" "RunWithAuth L = (t3, r3)"
    by fastforce
  note auth = authOpen_trace [OF run(1)]
  note serve = RunWithAuth_trace [OF run(2) assms(2)]
  have stop: "\<not> fatal (closeStore s)" "opens h (closeStore s) = 0" for h
    by (cases s; simp add: closeStore_def trace)+
  have main: "mainProcess L = (if enableUI L then (case r2 of Inl err \<Rightarrow> t @ t2 @ [Fatal err]
        | Inr _ \<Rightarrow> (case r3 of Some err \<Rightarrow> t @ t2 @ t3 @ [Fatal err] | None \<Rightarrow> t @ t2 @ t3 @ [Closed AuthDB] @ closeStore s))
      else (case r3 of Some err \<Rightarrow> t @ t3 @ [Fatal err] | None \<Rightarrow> t @ t3 @ closeStore s))"
    by (simp add: mainProcess_def assms(1) run split: sum.split option.split)
  show "\<not> fatal (mainProcess L) \<Longrightarrow> opens h (mainProcess L) = closes h (mainProcess L)"
    using store(3) [of s h] serve(2) [of h] auth(3) [of _ h] stop
    by (auto simp: main trace split: if_split_asm sum.split_asm option.split_asm)
  show "fatal (mainProcess L) \<Longrightarrow> opens StoreDB (mainProcess L) = opens StoreDB t \<and> closes StoreDB (mainProcess L) = 0"
    using store(1) store(4) [of s StoreDB] serve(1,3,4) auth(1,4,5) stop
    by (auto simp: main trace split: if_split_asm sum.split_asm option.split_asm)
qed


text \<open>Text that starts and ends with printable ASCII is left alone by \<open>trimSpace\<close>.\<close>

lemma whiteSpace_ends:
  "\<forall>w \<in> set whiteSpace. w \<noteq> [] \<and> (of_char (hd w) \<le> (32::nat) \<or> (128::nat) \<le> of_char (hd w)) \<and>
     (of_char (last w) \<le> (32::nat) \<or> (128::nat) \<le> of_char (last w))"
  unfolding whiteSpace_def by (auto simp: of_char_char_of_small)

lemma trimSpace_plain:
  assumes "(32::nat) < of_char (hd s)" "of_char (hd s) < (128::nat)" "(32::nat) < of_char (last s)"
    "of_char (last s) < (128::nat)" "s \<noteq> []"
  shows "trimSpace s = s"
proof -
  have "hd s = hd w" if "hasPrefix s w" "w \<noteq> []" for w
    using that by (cases w; cases s) (auto simp: hasPrefix_def)
  then have "List.find (\<lambda>w. hasPrefix s w) whiteSpace = None"
    using whiteSpace_ends assms(1,2) unfolding find_None_iff by fastforce
  moreover have "last s = last w" if "hasSuffix s w" "w \<noteq> []" for w
    using that by (metis append_take_drop_id hasSuffix_def last_append)
  then have "List.find (\<lambda>w. hasSuffix s w) whiteSpace = None"
    using whiteSpace_ends assms(3,4) unfolding find_None_iff by fastforce
  ultimately show ?thesis
    by (simp add: trimSpace_def trimLeftSpace.simps [of s] trimRightSpace.simps [of s])
qed

definition sampleStart :: startlib where
  "sampleStart = \<lparr>sl_Getenv = (\<lambda>k. if k = ''STORE_BACKEND'' then ''SQLite'' else []), sl_Open = (\<lambda>_ _ _. None),
     sl_Ping = (\<lambda>_. None), sl_Exec = (\<lambda>_ _. None), sl_GenerateTLS = None, sl_TlsListen = (\<lambda>_. None),
     sl_NetListen = (\<lambda>a. if a = '':8080'' then Some (PlainErr ''address already in use'') else None),
     sl_Served = [(HttpListener, errServerClosed), (HttpsListener, errServerClosed)]\<rparr>"

lemma sampleStart_simps:
  "sl_Open sampleStart h a c = None" "sl_Ping sampleStart h = None" "sl_Exec sampleStart h q = None"
  by (simp_all add: sampleStart_def)

lemma sampleStart_open:
  "openStore sampleStart = (Opened StoreDB # map (Executed StoreDB) (migrateStatements FlavorSQLite), Inr (SQLBackend FlavorSQLite))"
proof -
  have "trimSpace ''SQLite'' = ''SQLite''"
    by (rule trimSpace_plain) simp_all
  moreover have "toLower ''SQLite'' = ''sqlite''"
    by code_simp
  ultimately have backend: "toLower (trimSpace (sl_Getenv sampleStart ''STORE_BACKEND'')) = ''sqlite''"
    by (simp add: sampleStart_def)
  have exec: "execAll sampleStart h qs = (map (Executed h) qs, None)" for h qs
    by (induction qs) (simp_all add: sampleStart_simps)
  have "openStore sampleStart = openSQLStore sampleStart ''sqlite'' (envOrDefault sampleStart ''STORE_DSN'' ''keyvault.db'') FlavorSQLite"
    unfolding openStore_def Let_def backend by simp
  then show ?thesis
    by (simp add: openSQLStore_def sampleStart_simps migrate_def exec)
qed


text \<open>
  The store that the process opens is the one that STORE_BACKEND names: in memory, with nothing
  done to the outside; or a database on which all six CREATE TABLE statements of its flavour have
  been executed, in order; PostgreSQL and SQL Server only with a data source name.
\<close>

theorem opened_store_is_migrated:
  assumes "openStore L = (t, Inr b)"
  shows "case b of
      MemoryBackend \<Rightarrow> t = [] \<and> toLower (trimSpace (sl_Getenv L ''STORE_BACKEND'')) \<in> {[], ''memory''}
    | SQLBackend f \<Rightarrow> t = Opened StoreDB # map (Executed StoreDB) (migrateStatements f) \<and>
        length (migrateStatements f) = 6 \<and> (f = FlavorSQLite \<or> trimSpace (sl_Getenv L ''STORE_DSN'') \<noteq> [])"
proof (cases b)
  case MemoryBackend
  then show ?thesis
    using openStore_cases [OF assms] openSQLStore_trace(3) by fastforce
next
  case (SQLBackend f)
  then show ?thesis
    using openStore_Inr [OF assms] migrateStatements_length [of f] by auto
qed

theorem opened_store_is_migrated_witness:
  "fst (openStore sampleStart) = Opened StoreDB # map (Executed StoreDB) (migrateStatements FlavorSQLite)"
  using opened_store_is_migrated [OF sampleStart_open] sampleStart_open by simp

end
