(* ===== verification/Spec2Isabelle.thy ===== *)
theory Spec2Isabelle
  imports KV_Crypto_Theorems KV_EncStore_Theorems KV_Auth_Theorems KV_Rest_Theorems KV_Web_Theorems
    KV_Sql_Faults KV_Rest_Sql KV_Main_Theorems
begin

text \<open>
  \<^bold>\<open>azure-keyvault-emulator\<close>: an emulator of the Azure Key Vault data plane in Go. A request reaches
  one multiplexer (\<open>internal/server\<close>), which serves the Key Vault API (\<open>internal/handler\<close>) and the web
  interface (\<open>internal/web\<close>). Both work on a \<open>Storer\<close> (\<open>internal/store\<close>): the web handler wraps the
  store so that secret values are encrypted (\<open>internal/web/encryptedstore.go\<close>, \<open>internal/encryption\<close>),
  and users, sessions and the encryption configuration are kept by \<open>internal/auth\<close>. Keys and
  certificates are made and used by \<open>internal/crypto\<close>.

  \<^bold>\<open>Theories and sources.\<close>
  \<^item> \<open>KV_Prelude\<close>: result values (\<open>res\<close> is \<open>goerr + 'a\<close>, with a panic as one of the errors),
    Go maps as association lists, words and lists; \<open>KV_Encoding\<close> (hex, base64url, decimal), \<open>KV_Json\<close>,
    \<open>KV_AES\<close>, \<open>KV_Cipher_Modes\<close> (CBC, GCM), \<open>KV_Sha1\<close>, \<open>KV_Url\<close> (net/url), \<open>KV_Http\<close> (net/http:
    requests, responses, the patterns of ServeMux): the standard library as far as the source uses it.
  \<^item> \<open>KV_Model\<close>: the structs of \<open>internal/model\<close> as records.
  \<^item> \<open>KV_Crypto_Keys\<close>, \<open>KV_Crypto_Ops\<close>: \<open>internal/crypto/keys.go\<close>; \<open>KV_X509\<close>:
    \<open>internal/crypto/certificates.go\<close>; properties in \<open>KV_Crypto_Theorems\<close>.
  \<^item> \<open>KV_Store_Base\<close>, \<open>KV_Secrets\<close>, \<open>KV_Keys\<close>, \<open>KV_Certs\<close>, \<open>KV_Store\<close>: the in-memory store,
    \<open>internal/store/{store,secrets,keys,certificates}.go\<close>, one definition per method over the record
    \<open>Store\<close> and the step relation \<open>step\<close> with \<open>reachable\<close>; \<open>KV_Contract\<close> and \<open>KV_Lifecycle\<close> hold the
    interface of versioned, soft-deleted entries and the abstract vault that all three kinds of object
    refine; \<open>KV_Invariant\<close>, \<open>KV_Store_Props\<close>, \<open>KV_Store_Theorems\<close> the invariant and the properties.
  \<^item> \<open>KV_Storer\<close>: the interface \<open>Storer\<close> as a record of operations; \<open>KV_Encryption\<close>, \<open>KV_EncStore\<close>
    and \<open>KV_EncStore_Theorems\<close>: encryption and the wrapper, over any storer.
  \<^item> \<open>KV_Auth\<close>, \<open>KV_Auth_Theorems\<close>: \<open>internal/auth/auth.go\<close>; the database tables are lists whose
    insertion checks the constraints of the schema, and each statement may fail.
  \<^item> \<open>KV_Handler\<close>, \<open>KV_Rest_Secrets\<close>, \<open>KV_Rest_Keys\<close>, \<open>KV_Rest_Certs\<close>, \<open>KV_Rest\<close>:
    \<open>internal/handler/*.go\<close> over any storer; \<open>KV_Rest_Contract\<close>, \<open>KV_Rest_Public\<close> and \<open>KV_Rest_Store\<close>
    state what the handlers need of a storer (an operation that fails changes nothing; keys that are
    shown are public) and discharge it for the in-memory store, plain and wrapped; \<open>KV_Rest_Http\<close> and
    \<open>KV_Rest_Theorems\<close> go from a request to its effect.
  \<^item> \<open>KV_Web_Auth\<close>, \<open>KV_Web_Vault\<close>, \<open>KV_Web\<close>: \<open>internal/web/handler.go\<close> and \<open>NewMuxWithAuth\<close> of
    \<open>internal/server/server.go\<close>; \<open>KV_Web_Rules\<close> and \<open>KV_Web_Theorems\<close> their frame rules and properties.
  \<^item> \<open>KV_Sql_Base\<close>, \<open>KV_Sql_Secrets\<close>, \<open>KV_Sql_Keys\<close>, \<open>KV_Sql_Certs\<close>, \<open>KV_Sql\<close>: the SQL store,
    \<open>internal/store/sqlstore/sqlstore.go\<close>. Its six tables are lists of rows in insertion order, each insertion
    checks the primary key, and an operation is a sequence of statements each of which may fail (\<open>sq_fault\<close>).
    \<open>KV_Sql_Text\<close> holds the texts that depend on the dialect, \<open>KV_Sql_Rules\<close> the rules for running
    statements and sequences of calls, \<open>KV_Sql_Tables\<close> what the three kinds of object share: a table of
    versions and one of soft-deleted names against the maps of the in-memory store. On it rest the relations
    to the in-memory store and the simulation of each operation: \<open>secretsRel\<close> in \<open>KV_Sql_Refine\<close> and
    \<open>KV_Sql_Writes\<close>, \<open>keysRel\<close> in \<open>KV_Sql_Key_Refine\<close>, \<open>certsRel\<close> and \<open>objectsRel\<close> in
    \<open>KV_Sql_Cert_Refine\<close> and \<open>KV_Sql_Cert_Writes\<close>. \<open>KV_Sql_Theorems\<close>, \<open>KV_Sql_Faults\<close>, \<open>KV_Sql_Material\<close>
    and \<open>KV_Sql_Objects\<close> hold the properties. \<open>KV_Sql_Frames\<close> (what a program leaves alone),
    \<open>KV_Rest_Agree\<close> (the API over two stores that answer alike; the call that a request makes) and
    \<open>KV_Rest_Sql\<close> carry the equality of the stores up to the responses of the API.
  \<^item> \<open>KV_Main\<close>, \<open>KV_Main_Theorems\<close>: \<open>main.go\<close> and \<open>RunWithAuth\<close> of \<open>internal/server/server.go\<close>: the
    events (resources opened and closed, servers started and shut down) of a run of the process.

  \<^bold>\<open>What the theorems show.\<close> Every reachable state of the store satisfies its invariant; deletion,
  purge and recovery implement the abstract vault; versions are read back; listings are complete and
  ordered; backups restore; no operation panics in a reachable state; key wrap, padding, encryption and
  signatures invert; over HTTP, a secret that is put is read back, a request that fails changes nothing,
  a GET never writes, no response shows a private key, and following the links of a listing ends with
  every secret. Users: one administrator, sessions belong to existing users and end after a day. The
  web interface: who may change what, and stored secrets survive a restart and an unlock. The SQL store
  answers every sequence of calls on secrets as the in-memory store does, and every sequence of calls on
  keys and certificates, cryptographic operations included; so the API over it gives the same responses,
  request by request; a key that it creates is read back, and the
  material in its row signs and verifies. The validity period of a certificate is exact up to a bound and
  wraps around beyond it. The process closes what it opens, unless it ends
  with \<open>log.Fatal\<close>. Some properties state behaviour that the code has and does not mean to have: a
  certificate over a deleted secret, a race of login and deletion, an unreadable configuration, a second
  setup, and in the SQL store a deletion torn between two statements, a race of setting and deleting, a
  restore that loses the secret, an imported key without primes.

  \<^bold>\<open>Interfaces.\<close> \<open>soft_delete\<close> and its extension \<open>vault_writer\<close> (\<open>KV_Contract\<close>, interpreted for secrets, keys
  and certificates in \<open>KV_Lifecycle\<close>), \<open>secret_storer\<close> (\<open>KV_Storer\<close>), \<open>atomic_storer\<close> and \<open>public_keys\<close>
  (\<open>KV_Rest_Contract\<close>, \<open>KV_Rest_Public\<close>), each interpreted on the store of the program. \<open>row_table\<close> and
  \<open>soft_deleted_table\<close> (\<open>KV_Sql_Tables\<close>) are what a pair of tables of the SQL store promises, interpreted for
  secrets, keys and certificates (\<open>st\<close>, \<open>kt\<close>, \<open>ct\<close>); the simulation of the in-memory store by the SQL store is a
  functional refinement, operation by operation, lifted to sequences of calls by \<open>runCalls_simulate\<close>. \<open>agreeing_objects\<close> and its extension
  \<open>agreeing_storers\<close> (\<open>KV_Rest_Agree\<close>) state when two stores answer alike, and are interpreted on the SQL
  store and the in-memory store (\<open>KV_Rest_Sql\<close>).

  \<^bold>\<open>Bounds.\<close> Go's \<open>int\<close> and \<open>int64\<close> are \<open>int\<close> with \<open>wrap64\<close> where arithmetic may overflow; bytes are
  \<open>8 word\<close>, AES and key wrap work on words. Fuel occurs only in the clients of listings (\<open>walkPages\<close>,
  \<open>followLinks\<close>), whose theorems state how much is enough.

  \<^bold>\<open>Parameters.\<close> RSA and ECDSA primitives (\<open>prims\<close>), the x509, PEM and PKCS#12 functions (\<open>x509lib\<close>,
  \<open>web_lib\<close>), the JSON codecs (\<open>codec\<close>, \<open>decoders\<close>, \<open>web_decoders\<close>), PBKDF2, bcrypt, the clock and
  the random source, the outcome of each database statement, the DER codecs (\<open>derlib\<close>), and what the
  process meets when it starts (\<open>startlib\<close>: the environment, drivers, listeners, signals).

  \<^bold>\<open>Not modelled.\<close> Lines 205 to 424 of \<open>sqlstore.go\<close> repeat helpers of \<open>store.go\<close> (\<open>cloneTags\<close> to
  \<open>paginateNames\<close>); the model uses those of the in-memory store for both. A table lists rows in
  insertion order, which is the order of \<open>created_at\<close> as long as no two rows have the same time; the order
  of names is the order of bytes, as SQLite has it (a collation of Postgres or SQL Server may differ).
  Concurrency, except where a property says so: an operation of the in-memory store holds its mutex, so
  that operations are atomic steps; the statements of an operation of the SQL store run without others in
  between, except in the property on the race of setting and deleting. \<open>toLower\<close> is that of ASCII.
  The equality of the two stores on certificates leaves out what the code itself makes different: the
  message of a missing issuer (so the certificates there sign themselves), policies that are not what JSON
  reads back (they are compared as JSON), and the managed secret, whose content type differs (so secrets
  are in a relation of their own).
  Log lines, the static pages, and \<open>DigestForAlg\<close> (no code under \<open>src\<close> but its tests calls it).
\<close>

end
